(* ===== verification/PyPrelude.thy ===== *)
theory PyPrelude
  imports Complex_Main "HOL-Library.AList" "HOL-Library.Sublist"
begin

text \<open>
  The Python vocabulary the components share: JSON values (what \<^verbatim>\<open>json.loads\<close> returns and the
  adapter's handlers pass around), truthiness, \<^verbatim>\<open>str\<close>, \<^verbatim>\<open>repr\<close>, the string methods the sources call,
  insertion-ordered dicts, and the eviction loops of the bounded stores.

  A Python \<open>str\<close> is a char list, one char per code point, so code points above 255 are outside the
  model. Python's \<open>strip\<close>, \<open>lower\<close> and \<open>isspace\<close> are written out for exactly the range 0..255.
  A Python \<open>dict\<close> is an association list with distinct keys in insertion order:
  \<^verbatim>\<open>AList.update\<close> replaces in place or appends, as \<^verbatim>\<open>d[k] = v\<close> does, \<^verbatim>\<open>AList.delete\<close> is
  \<^verbatim>\<open>d.pop(k, None)\<close>.
\<close>

named_theorems py_simps \<open>evaluation rules for the Python vocabulary\<close>
named_theorems alist_facts \<open>facts on insertion-ordered dicts\<close>

section \<open>JSON values\<close>

text \<open>A float is its exact value with the text \<^verbatim>\<open>repr\<close> prints for it; the three non-finite
  values print as \<open>inf\<close>, \<open>-inf\<close> and \<open>nan\<close> and are true in a condition.\<close>

datatype pyfloat = Finite rat string | PosInf | NegInf | NotANumber

datatype jval =
    JNull
  | JBool bool
  | JInt int
  | JFloat pyfloat
  | JStr string
  | JList "jval list"
  | JObj "(string \<times> jval) list"

type_synonym jobj = "(string \<times> jval) list"

fun truthy :: "jval \<Rightarrow> bool" where
  "truthy JNull = False"
| "truthy (JBool b) = b"
| "truthy (JInt i) = (i \<noteq> 0)"
| "truthy (JFloat (Finite v t)) = (v \<noteq> 0)"
| "truthy (JFloat PosInf) = True"
| "truthy (JFloat NegInf) = True"
| "truthy (JFloat NotANumber) = True"
| "truthy (JStr s) = (s \<noteq> [])"
| "truthy (JList xs) = (xs \<noteq> [])"
| "truthy (JObj d) = (d \<noteq> [])"

text \<open>\<^verbatim>\<open>x or y\<close>, \<^verbatim>\<open>d.get(k)\<close> (a missing key reads as \<^verbatim>\<open>None\<close>, as in Python) and
  \<^verbatim>\<open>d.get(k, default)\<close>.\<close>

definition py_or :: "jval \<Rightarrow> jval \<Rightarrow> jval" where
  "py_or x y = (if truthy x then x else y)"

definition jget :: "jobj \<Rightarrow> string \<Rightarrow> jval" where
  "jget d k = (case map_of d k of None \<Rightarrow> JNull | Some v \<Rightarrow> v)"

definition jget_def :: "jobj \<Rightarrow> string \<Rightarrow> jval \<Rightarrow> jval" where
  "jget_def d k dflt = (case map_of d k of None \<Rightarrow> dflt | Some v \<Rightarrow> v)"

definition jhas :: "jobj \<Rightarrow> string \<Rightarrow> bool" where
  "jhas d k = (map_of d k \<noteq> None)"

text \<open>\<^verbatim>\<open>d.setdefault(k, v)\<close> as a statement.\<close>

definition jsetdefault :: "string \<Rightarrow> jval \<Rightarrow> jobj \<Rightarrow> jobj" where
  "jsetdefault k v d = (if jhas d k then d else d @ [(k, v)])"

fun is_obj :: "jval \<Rightarrow> bool" where
  "is_obj (JObj d) = True"
| "is_obj _ = False"

fun is_str :: "jval \<Rightarrow> bool" where
  "is_str (JStr s) = True"
| "is_str _ = False"

text \<open>\<^verbatim>\<open>x if isinstance(x, dict) else {}\<close>.\<close>

fun obj_or_empty :: "jval \<Rightarrow> jobj" where
  "obj_or_empty (JObj d) = d"
| "obj_or_empty _ = []"

text \<open>A file the adapter keeps: text that \<^verbatim>\<open>json.loads\<close> reads as a document, or text it refuses.
  Writing is \<^verbatim>\<open>json.dumps\<close> followed by an atomic replace, so a written file holds the document;
  \<^verbatim>\<open>json.loads\<close> inverts \<^verbatim>\<open>json.dumps\<close> on the documents of the model.\<close>

datatype jfile = JsonText jval | NotJson

section \<open>Strings\<close>

definition py_isspace :: "char \<Rightarrow> bool" where
  "py_isspace c = (let n = of_char c :: nat in
     (9 \<le> n \<and> n \<le> 13) \<or> (28 \<le> n \<and> n \<le> 32) \<or> n = 133 \<or> n = 160)"

definition py_lstrip :: "string \<Rightarrow> string" where
  "py_lstrip s = dropWhile py_isspace s"

definition py_rstrip :: "string \<Rightarrow> string" where
  "py_rstrip s = rev (dropWhile py_isspace (rev s))"

definition py_strip :: "string \<Rightarrow> string" where
  "py_strip s = py_rstrip (py_lstrip s)"

definition rstrip_chars :: "char list \<Rightarrow> string \<Rightarrow> string" where
  "rstrip_chars cs s = rev (dropWhile (\<lambda>c. c \<in> set cs) (rev s))"

definition strip_chars :: "char list \<Rightarrow> string \<Rightarrow> string" where
  "strip_chars cs s = rstrip_chars cs (dropWhile (\<lambda>c. c \<in> set cs) s)"

definition lower_char :: "char \<Rightarrow> char" where
  "lower_char c = (let n = of_char c :: nat in
     if (65 \<le> n \<and> n \<le> 90) \<or> (192 \<le> n \<and> n \<le> 222 \<and> n \<noteq> 215) then char_of (n + 32) else c)"

definition py_lower :: "string \<Rightarrow> string" where
  "py_lower s = List.map lower_char s"

definition startswith :: "string \<Rightarrow> string \<Rightarrow> bool" where
  "startswith s p = (take (length p) s = p)"

definition endswith :: "string \<Rightarrow> string \<Rightarrow> bool" where
  "endswith s p = startswith (rev s) (rev p)"

text \<open>\<^verbatim>\<open>p in s\<close> for strings.\<close>

fun contains :: "string \<Rightarrow> string \<Rightarrow> bool" where
  "contains [] p = (p = [])"
| "contains (c # s) p = (startswith (c # s) p \<or> contains s p)"

text \<open>\<^verbatim>\<open>s.split(c)\<close> for a one-character separator, and splitting at the first one only.\<close>

fun split_char :: "char \<Rightarrow> string \<Rightarrow> string list" where
  "split_char sep [] = [[]]"
| "split_char sep (c # s) =
     (if c = sep then [] # split_char sep s
      else (case split_char sep s of [] \<Rightarrow> [[c]] | w # ws \<Rightarrow> (c # w) # ws))"

text \<open>The words of \<^verbatim>\<open>s.split()\<close>: maximal runs that satisfy no separator test.\<close>

fun split_when :: "(char \<Rightarrow> bool) \<Rightarrow> string \<Rightarrow> string \<Rightarrow> string list" where
  "split_when p acc [] = (if acc = [] then [] else [rev acc])"
| "split_when p acc (c # s) =
     (if p c then (if acc = [] then split_when p [] s else rev acc # split_when p [] s)
      else split_when p (c # acc) s)"

definition py_words :: "string \<Rightarrow> string list" where
  "py_words s = split_when py_isspace [] s"

fun join_with :: "string \<Rightarrow> string list \<Rightarrow> string" where
  "join_with sep [] = []"
| "join_with sep [w] = w"
| "join_with sep (w # ws) = w @ sep @ join_with sep ws"

text \<open>\<^verbatim>\<open>s.replace(c, r)\<close> for a one-character \<open>c\<close>.\<close>

definition replace_char :: "char \<Rightarrow> string \<Rightarrow> string \<Rightarrow> string" where
  "replace_char c r s = concat (List.map (\<lambda>x. if x = c then r else [x]) s)"

text \<open>\<^verbatim>\<open>xs[-n:]\<close> for a positive \<open>n\<close>.\<close>

definition last_n :: "nat \<Rightarrow> 'a list \<Rightarrow> 'a list" where
  "last_n n xs = drop (length xs - n) xs"

section \<open>\<open>str\<close> and \<open>repr\<close>\<close>

definition digit_char :: "nat \<Rightarrow> char" where
  "digit_char d = char_of (48 + d)"

fun nat_text :: "nat \<Rightarrow> string" where
  "nat_text n = (if n < 10 then [digit_char n] else nat_text (n div 10) @ [digit_char (n mod 10)])"

declare nat_text.simps [simp del]

definition int_text :: "int \<Rightarrow> string" where
  "int_text i = (if i < 0 then CHR ''-'' # nat_text (nat (- i)) else nat_text (nat i))"

definition hex_digit :: "nat \<Rightarrow> char" where
  "hex_digit d = (if d < 10 then char_of (48 + d) else char_of (87 + d))"

definition float_text :: "pyfloat \<Rightarrow> string" where
  "float_text f = (case f of Finite v t \<Rightarrow> t | PosInf \<Rightarrow> ''inf'' | NegInf \<Rightarrow> ''-inf'' | NotANumber \<Rightarrow> ''nan'')"

text \<open>\<^verbatim>\<open>repr\<close> of a string: single quotes unless the text holds one and no double quote.\<close>

definition repr_char :: "char \<Rightarrow> char \<Rightarrow> string" where
  "repr_char q c = (let n = of_char c :: nat in
     if c = q \<or> n = 92 then [char_of (92::nat), c]
     else if n = 10 then [char_of (92::nat), CHR ''n'']
     else if n = 13 then [char_of (92::nat), CHR ''r'']
     else if n = 9 then [char_of (92::nat), CHR ''t'']
     else if n < 32 \<or> (127 \<le> n \<and> n \<le> 160) \<or> n = 173
       then [char_of (92::nat), CHR ''x'', hex_digit (n div 16), hex_digit (n mod 16)]
     else [c])"

definition str_repr :: "string \<Rightarrow> string" where
  "str_repr s = (let sq = char_of (39::nat); dq = char_of (34::nat);
       q = (if sq \<in> set s \<and> dq \<notin> set s then dq else sq)
     in q # concat (List.map (repr_char q) s) @ [q])"

fun py_repr :: "jval \<Rightarrow> string"
  and repr_items :: "jval list \<Rightarrow> string list"
  and repr_pairs :: "(string \<times> jval) list \<Rightarrow> string list" where
  "py_repr JNull = ''None''"
| "py_repr (JBool b) = (if b then ''True'' else ''False'')"
| "py_repr (JInt i) = int_text i"
| "py_repr (JFloat f) = float_text f"
| "py_repr (JStr s) = str_repr s"
| "py_repr (JList xs) = ''['' @ join_with '', '' (repr_items xs) @ '']''"
| "py_repr (JObj d) = ''{'' @ join_with '', '' (repr_pairs d) @ ''}''"
| "repr_items [] = []"
| "repr_items (x # xs) = py_repr x # repr_items xs"
| "repr_pairs [] = []"
| "repr_pairs ((k, v) # d) = (str_repr k @ '': '' @ py_repr v) # repr_pairs d"

fun py_str :: "jval \<Rightarrow> string" where
  "py_str (JStr s) = s"
| "py_str v = py_repr v"

text \<open>\<^verbatim>\<open>str(x or "")\<close>, the idiom of most handlers.\<close>

definition str_or_empty :: "jval \<Rightarrow> string" where
  "str_or_empty v = py_str (py_or v (JStr []))"

lemma py_str_JStr [simp]: "py_str (JStr s) = s"
  by simp

lemma str_or_empty_simps [simp, py_simps]:
  "str_or_empty (JStr s) = s"
  "str_or_empty JNull = []"
  "str_or_empty (JBool False) = []"
  by (auto simp: str_or_empty_def py_or_def)

lemma jget_simps [simp, py_simps]:
  "jget [] k = JNull"
  "jget ((k', v) # d) k = (if k' = k then v else jget d k)"
  by (auto simp: jget_def)

lemma jget_defaults [simp, py_simps]:
  "jget_def [] k x = x"
  "jget_def ((k', v) # d) k x = (if k' = k then v else jget_def d k x)"
  by (auto simp: jget_def_def)

lemma jhas_simps [simp, py_simps]:
  "jhas [] k = False"
  "jhas ((k', v) # d) k = (k' = k \<or> jhas d k)"
  by (auto simp: jhas_def)

lemma jget_update [simp, alist_facts]:
  "jget (AList.update k v d) k' = (if k = k' then v else jget d k')"
  by (auto simp: jget_def update_conv')

lemma jget_append:
  "jget (d @ [(k, v)]) k' = (if jhas d k' then jget d k' else if k = k' then v else JNull)"
  by (auto simp: jget_def jhas_def map_of_append split: option.splits)

lemma jhas_update [simp, alist_facts]: "jhas (AList.update k v d) k' = (k = k' \<or> jhas d k')"
  by (auto simp: jhas_def update_conv')

lemma jhas_truthy: "truthy (jget d k) \<Longrightarrow> jhas d k"
  by (auto simp: jget_def jhas_def split: option.splits)

lemma jget_setdefault [simp]:
  "jget (jsetdefault k v d) k' = (if k = k' \<and> \<not> jhas d k then v else jget d k')"
  by (auto simp: jsetdefault_def jget_append) (auto simp: jget_def jhas_def)

lemma jhas_setdefault [simp]: "jhas (jsetdefault k v d) k' = (k = k' \<or> jhas d k')"
  by (auto simp: jsetdefault_def jhas_def map_add_def split: option.splits)

section \<open>Insertion-ordered dicts and bounded stores\<close>

type_synonym ('k, 'v) odict = "('k \<times> 'v) list"

abbreviation dkeys :: "('k, 'v) odict \<Rightarrow> 'k list" where
  "dkeys d \<equiv> List.map fst d"

abbreviation dict_ok :: "('k, 'v) odict \<Rightarrow> bool" where
  "dict_ok d \<equiv> distinct (dkeys d)"

text \<open>\<^verbatim>\<open>d[k] = v; d.move_to_end(k)\<close> of an \<open>OrderedDict\<close>.\<close>

definition put_last :: "'k \<Rightarrow> 'v \<Rightarrow> ('k, 'v) odict \<Rightarrow> ('k, 'v) odict" where
  "put_last k v d = AList.delete k d @ [(k, v)]"

text \<open>\<^verbatim>\<open>while len(d) > n: d.popitem(last=False)\<close>: one first entry is dropped per round.\<close>

function evict_front :: "nat \<Rightarrow> 'a list \<Rightarrow> 'a list" where
  "evict_front n d = (if n < length d then evict_front n (tl d) else d)"
  by pat_completeness auto
termination
  by (relation "measure (\<lambda>(n, d). length d)") auto

declare evict_front.simps [simp del]

lemma evict_front_drop: "evict_front n d = drop (length d - n) d"
proof (induction n d rule: evict_front.induct)
  case (1 n d)
  show ?case
  proof (cases "n < length d")
    case True
    with 1 have "evict_front n (tl d) = drop (length d - 1 - n) (tl d)" by simp
    also have "\<dots> = drop (length d - n) d"
      using True by (cases d) (auto simp: Suc_diff_le drop_Suc)
    finally show ?thesis using True by (subst evict_front.simps) simp
  next
    case False
    then show ?thesis by (subst evict_front.simps) simp
  qed
qed

lemma length_evict_front [simp]: "length (evict_front n d) = min n (length d)"
  by (simp add: evict_front_drop)

lemma evict_front_small [simp]: "length d \<le> n \<Longrightarrow> evict_front n d = d"
  by (simp add: evict_front_drop)

lemma evict_front_last: "0 < n \<Longrightarrow> evict_front n (d @ [x]) = evict_front (n - 1) d @ [x]"
  by (cases "n \<le> length d") (auto simp: evict_front_drop)

lemma set_evict_front: "x \<in> set (evict_front n d) \<Longrightarrow> x \<in> set d"
  by (auto simp: evict_front_drop dest: in_set_dropD)

lemma map_evict_front: "List.map f (evict_front n d) = evict_front n (List.map f d)"
  by (simp add: evict_front_drop drop_map)

lemma dict_ok_evict_front [intro, simp]: "dict_ok d \<Longrightarrow> dict_ok (evict_front n d)"
  by (simp add: map_evict_front) (simp add: evict_front_drop)

lemma dkeys_delete [alist_facts]: "dkeys (AList.delete k d) = removeAll k (dkeys d)"
  by (induction d) auto

lemma dict_ok_delete [intro, simp]: "dict_ok d \<Longrightarrow> dict_ok (AList.delete k d)"
  by (simp add: dkeys_delete distinct_removeAll)

lemma dict_ok_update [intro, simp]: "dict_ok d \<Longrightarrow> dict_ok (AList.update k v d)"
  by (rule distinct_update)

lemma dict_ok_put_last [intro, simp]: "dict_ok d \<Longrightarrow> dict_ok (put_last k v d)"
  by (simp add: put_last_def dkeys_delete distinct_removeAll)

lemma map_of_put_last [simp, alist_facts]: "map_of (put_last k v d) = (map_of d)(k \<mapsto> v)"
  by (rule ext) (auto simp: put_last_def map_add_def AList.delete_conv' split: option.splits)

lemma map_of_delete_dict [simp, alist_facts]: "map_of (AList.delete k d) = (map_of d)(k := None)"
  by (rule AList.delete_conv')

lemma map_of_update_dict [simp, alist_facts]: "map_of (AList.update k v d) = (map_of d)(k \<mapsto> v)"
  by (rule update_conv')

lemma length_delete_dict: "length (AList.delete k d) \<le> length d"
  by (rule AList.length_delete_le)

lemma update_new: "map_of d k = None \<Longrightarrow> AList.update k v d = d @ [(k, v)]"
  by (induction d) (auto split: if_splits)

lemma length_update_new: "map_of d k = None \<Longrightarrow> length (AList.update k v d) = Suc (length d)"
  by (induction d) (auto split: if_splits)

lemma length_update_old: "map_of d k = Some w \<Longrightarrow> length (AList.update k v d) = length d"
  by (induction d) (auto split: if_splits)

lemma map_of_drop_suffix: "dict_ok d \<Longrightarrow> map_of (drop n d) k = Some v \<Longrightarrow> map_of d k = Some v"
  by (metis in_set_dropD map_of_SomeD map_of_is_SomeI)

lemma map_of_evict_front: "dict_ok d \<Longrightarrow> map_of (evict_front n d) k = Some v \<Longrightarrow> map_of d k = Some v"
  by (simp add: evict_front_drop map_of_drop_suffix)

lemma map_of_evict_put_last: "0 < n \<Longrightarrow> map_of (evict_front n (put_last k v d)) k = Some v"
proof -
  assume n: "0 < n"
  have "k \<notin> set (dkeys (AList.delete k d))" by (simp add: dkeys_delete del: set_map)
  then have "k \<notin> set (dkeys (evict_front (n - 1) (AList.delete k d)))"
    by (auto dest: set_evict_front intro: rev_image_eqI)
  then have "map_of (evict_front (n - 1) (AList.delete k d)) k = None"
    by (simp add: map_of_eq_None_iff)
  then show ?thesis using n by (simp add: put_last_def evict_front_last map_add_def)
qed

lemma map_of_filter_dict:
  "dict_ok d \<Longrightarrow> map_of (filter (\<lambda>(k, v). P k v) d) k =
     (case map_of d k of None \<Rightarrow> None | Some v \<Rightarrow> if P k v then Some v else None)"
proof (induction d)
  case Nil
  then show ?case by simp
next
  case (Cons a d)
  obtain k' v' where a: "a = (k', v')" by (cases a)
  have notin: "map_of d k' = None" using Cons.prems a by (simp add: map_of_eq_None_iff)
  show ?case using Cons a notin by (auto split: option.splits)
qed

lemma dict_ok_filter [intro, simp]: "dict_ok d \<Longrightarrow> dict_ok (filter P d)"
  by (rule distinct_map_filter)

section \<open>String facts\<close>

lemma startswith_append [simp]: "startswith (p @ s) p"
  by (simp add: startswith_def)

lemma startswith_iff: "startswith s p \<longleftrightarrow> (\<exists>r. s = p @ r)"
  by (metis append_take_drop_id startswith_def startswith_append)

lemma startswith_Nil [simp]: "startswith s []"
  by (simp add: startswith_def)

lemma endswith_append [simp]: "endswith (s @ p) p"
  by (simp add: endswith_def)

lemma endswith_iff: "endswith s p \<longleftrightarrow> (\<exists>r. s = r @ p)"
proof
  assume "endswith s p"
  then obtain r where "rev s = rev p @ r" by (auto simp: endswith_def startswith_iff)
  then have "s = rev r @ p" by (metis rev_append rev_rev_ident)
  then show "\<exists>r. s = r @ p" by blast
qed auto

lemma contains_iff: "contains s p \<longleftrightarrow> (\<exists>a b. s = a @ p @ b)"
proof (induction s)
  case Nil
  show ?case by auto
next
  case (Cons c s)
  have "contains (c # s) p \<longleftrightarrow> startswith (c # s) p \<or> (\<exists>a b. s = a @ p @ b)"
    using Cons.IH by simp
  also have "\<dots> \<longleftrightarrow> (\<exists>a b. c # s = a @ p @ b)"
  proof
    assume "startswith (c # s) p \<or> (\<exists>a b. s = a @ p @ b)"
    then show "\<exists>a b. c # s = a @ p @ b"
    proof
      assume "startswith (c # s) p"
      then show ?thesis by (metis append_Nil startswith_iff)
    next
      assume "\<exists>a b. s = a @ p @ b"
      then show ?thesis by (metis append_Cons)
    qed
  next
    assume "\<exists>a b. c # s = a @ p @ b"
    then obtain a b where ab: "c # s = a @ p @ b" by blast
    show "startswith (c # s) p \<or> (\<exists>a b. s = a @ p @ b)"
    proof (cases a)
      case Nil
      with ab show ?thesis by (auto simp: startswith_iff)
    next
      case (Cons x a')
      with ab show ?thesis by auto
    qed
  qed
  finally show ?case .
qed

lemma split_char_nonempty [simp]: "split_char c s \<noteq> []"
  by (induction s) (auto split: list.splits)

lemma split_char_no_sep: "\<forall>w \<in> set (split_char sep s). sep \<notin> set w"
proof (induction s)
  case Nil
  show ?case by simp
next
  case (Cons c s)
  show ?case
  proof (cases "split_char sep s")
    case Nil
    then show ?thesis by simp
  next
    case (Cons w ws)
    with Cons.IH show ?thesis by auto
  qed
qed

lemma dropWhile_idem [simp]: "dropWhile p (dropWhile p xs) = dropWhile p xs"
  by (induction xs) auto

lemma hd_dropWhile_Nil: "dropWhile p xs = [] \<longleftrightarrow> (\<forall>x \<in> set xs. p x)"
  by (induction xs) auto

lemma lstrip_rstrip_fix: "xs = [] \<or> \<not> p (hd xs) \<Longrightarrow> dropWhile p (rev (dropWhile p (rev xs))) = rev (dropWhile p (rev xs))"
proof (cases xs)
  case (Cons a ys)
  assume "xs = [] \<or> \<not> p (hd xs)"
  with Cons have na: "\<not> p a" by simp
  have "\<exists>zs. dropWhile p (rev ys @ [a]) = zs @ [a]"
    using na by (auto simp: dropWhile_append)
  then have "\<exists>zs. rev (dropWhile p (rev ys @ [a])) = a # zs" by fastforce
  then show ?thesis using Cons na by auto
qed simp

lemma py_strip_idem [simp]: "py_strip (py_strip s) = py_strip s"
proof -
  let ?d = "dropWhile py_isspace s"
  have "?d = [] \<or> \<not> py_isspace (hd ?d)" using hd_dropWhile [of py_isspace s] by blast
  from lstrip_rstrip_fix [where p = py_isspace, OF this]
  have "py_lstrip (py_strip s) = py_strip s" by (simp add: py_strip_def py_lstrip_def py_rstrip_def)
  moreover have "py_rstrip (py_strip s) = py_strip s"
    using dropWhile_idem [of py_isspace] by (simp add: py_strip_def py_rstrip_def)
  ultimately show ?thesis by (simp add: py_strip_def [of "py_strip s"])
qed

section \<open>More on lists and dicts\<close>

lemma length_last_n [simp]: "length (last_n n xs) = min n (length xs)"
  by (simp add: last_n_def)

lemma set_last_n: "x \<in> set (last_n n xs) \<Longrightarrow> x \<in> set xs"
  by (simp add: last_n_def in_set_dropD)

lemma last_n_all: "length xs \<le> n \<Longrightarrow> last_n n xs = xs"
  by (simp add: last_n_def)

lemma last_n_append: "last_n n (last_n n xs @ ys) = last_n n (xs @ ys)"
  by (cases "n \<le> length xs") (auto simp: last_n_def add.commute)

lemma last_n_suffix: "suffix (last_n n xs) xs"
  by (simp add: last_n_def suffix_drop)

lemma in_set_update: "(s, x) \<in> set (AList.update k v d) \<Longrightarrow> (s, x) = (k, v) \<or> (s, x) \<in> set d"
  by (induction d) (auto split: if_splits)

lemma delete_filter: "AList.delete k d = filter (\<lambda>(k', v). k' \<noteq> k) d"
  by (induction d) auto

lemma dkeys_map_values: "dkeys (List.map (\<lambda>(k, v). (k, f v)) d) = dkeys d"
  by (induction d) auto

text \<open>\<^verbatim>\<open>d.update(extra)\<close>.\<close>

definition put_all :: "jobj \<Rightarrow> jobj \<Rightarrow> jobj" where
  "put_all extra d = fold (\<lambda>(k, v). AList.update k v) extra d"

lemma put_all_other: "k \<notin> fst ` set extra \<Longrightarrow> jget (put_all extra d) k = jget d k"
  by (induction extra arbitrary: d) (auto simp: put_all_def)

lemma put_all_append: "put_all (a @ b) d = put_all b (put_all a d)"
  by (simp add: put_all_def)

lemma put_all_if: "put_all (if c then a else []) d = (if c then put_all a d else d)"
  by (simp add: put_all_def)

lemma put_all_Cons: "put_all ((k, v) # a) d = put_all a (AList.update k v d)" "put_all [] d = d"
  by (simp_all add: put_all_def)

end
