(* ===== verification/PendingInput.thy ===== *)
theory PendingInput
  imports PyPrelude
begin

text \<open>
  \<^verbatim>\<open>pending_input.py\<close>: the latest unanswered permission per portal session, fed by the event bus and
  claimed by the permission endpoints. The store is a record with the code's two attributes; the
  \<open>OrderedDict\<close> is an insertion-ordered association list. Every method is one definition, and
  \<open>pending_run\<close> runs a list of method calls. \<open>classify\<close> is the abstract reading of an event (ignore,
  clear, record) that \<open>observe_event\<close> refines.
\<close>

definition DEFAULT_MAX_SESSIONS :: int where
  "DEFAULT_MAX_SESSIONS = 512"

definition RECORD_EVENT_TYPES :: "string list" where
  "RECORD_EVENT_TYPES = [''permission.requested'', ''permission_request'']"

definition RESOLVED_EVENT_TYPES :: "string list" where
  "RESOLVED_EVENT_TYPES = [''permission.resolved'', ''permission_resolved'']"

definition RUN_ENDED_EVENT_TYPES :: "string list" where
  "RUN_ENDED_EVENT_TYPES = [''chat.completed'', ''chat.failed'']"

definition CLEAR_EVENT_TYPES :: "string list" where
  "CLEAR_EVENT_TYPES = RESOLVED_EVENT_TYPES @ RUN_ENDED_EVENT_TYPES"

record pending_permission =
  pp_request :: jobj
  pp_permission_id :: string
  pp_opencode_session_id :: string
  pp_request_id :: string
  pp_claimed :: bool
  pp_extra :: jobj

record pending_store =
  max_sessions :: nat
  pending :: "(string, pending_permission) odict"

definition new_pending_store :: "int \<Rightarrow> pending_store" where
  "new_pending_store n = \<lparr>max_sessions = nat (max 1 n), pending = []\<rparr>"

section \<open>Reading an event\<close>

definition pi_event_type :: "jobj \<Rightarrow> string" where
  "pi_event_type e = py_str (py_or (jget e ''type'') (py_or (jget e ''event_type'') (JStr [])))"

definition pi_legacy_type :: "jobj \<Rightarrow> string" where
  "pi_legacy_type e =
     py_str (py_or (jget e ''legacy_type'') (py_or (jget e ''legacy_event_type'') (JStr [])))"

definition pi_event_session_id :: "jobj \<Rightarrow> string" where
  "pi_event_session_id e =
     (let value = jget e ''session_id'' in
      if truthy value then py_str value
      else case jget e ''data'' of
        JObj data \<Rightarrow> if truthy (jget data ''session_id'') then py_str (jget data ''session_id'') else []
      | _ \<Rightarrow> [])"

definition pi_event_permission_id :: "jobj \<Rightarrow> string" where
  "pi_event_permission_id e =
     (let value = jget e ''permission_id'' in
      if truthy value then py_str value
      else case jget e ''data'' of
        JObj data \<Rightarrow>
          if truthy (jget data ''permission_id'') then py_str (jget data ''permission_id'')
          else if truthy (jget data ''id'') then py_str (jget data ''id'')
          else []
      | _ \<Rightarrow> [])"

text \<open>\<^verbatim>\<open>{_event_type(event), _legacy_type(event)} - {""}\<close> and the test \<^verbatim>\<open>types & S\<close>.\<close>

definition pi_types :: "jobj \<Rightarrow> string list" where
  "pi_types e = filter (\<lambda>t. t \<noteq> []) [pi_event_type e, pi_legacy_type e]"

definition meets :: "string list \<Rightarrow> string list \<Rightarrow> bool" where
  "meets ts S = list_ex (\<lambda>t. t \<in> set S) ts"

text \<open>\<^verbatim>\<open>metadata.get("replayed")\<close>, when the metadata is a dict.\<close>

definition is_replayed :: "jobj \<Rightarrow> bool" where
  "is_replayed e = (case jget e ''metadata'' of JObj m \<Rightarrow> truthy (jget m ''replayed'') | _ \<Rightarrow> False)"

section \<open>The store's methods\<close>

definition pi_get :: "pending_store \<Rightarrow> string \<Rightarrow> pending_permission option" where
  "pi_get st sid = map_of (pending st) sid"

definition pi_clear :: "pending_store \<Rightarrow> string \<Rightarrow> string option \<Rightarrow> pending_store" where
  "pi_clear st sid pid =
     (case map_of (pending st) sid of
        None \<Rightarrow> st
      | Some entry \<Rightarrow>
          (case pid of
             Some p \<Rightarrow> if p \<noteq> [] \<and> pp_permission_id entry \<noteq> p then st
                       else st\<lparr>pending := AList.delete sid (pending st)\<rparr>
           | None \<Rightarrow> st\<lparr>pending := AList.delete sid (pending st)\<rparr>))"

definition observe_event :: "pending_store \<Rightarrow> jval \<Rightarrow> pending_store" where
  "observe_event st ev =
     (case ev of
        JObj e \<Rightarrow>
          if is_replayed e then st
          else
            let types = pi_types e; sid = pi_event_session_id e in
            if sid = [] then st
            else if meets types CLEAR_EVENT_TYPES then
              pi_clear st sid
                (if meets types RESOLVED_EVENT_TYPES then Some (pi_event_permission_id e) else None)
            else if \<not> meets types RECORD_EVENT_TYPES then st
            else
              (case jget (obj_or_empty (jget e ''data'')) ''permission_request'' of
                 JObj request \<Rightarrow>
                   (let pid = py_str (py_or (jget request ''permission_id'')
                                        (py_or (jget request ''request_id'') (JStr []))) in
                    if pid = [] then st
                    else
                      let existing = map_of (pending st) sid;
                          entry = \<lparr>pp_request = request, pp_permission_id = pid,
                            pp_opencode_session_id =
                              py_str (py_or (jget e ''opencode_session_id'')
                                       (py_or (jget request ''opencode_session_id'') (JStr []))),
                            pp_request_id = str_or_empty (jget e ''request_id''),
                            pp_claimed = (case existing of None \<Rightarrow> False
                               | Some x \<Rightarrow> pp_permission_id x = pid \<and> pp_claimed x),
                            pp_extra = []\<rparr>
                      in st\<lparr>pending := evict_front (max_sessions st) (put_last sid entry (pending st))\<rparr>)
               | _ \<Rightarrow> st)
      | _ \<Rightarrow> st)"

definition pi_snapshot :: "pending_store \<Rightarrow> string \<Rightarrow> jobj" where
  "pi_snapshot st sid =
     [(''session_id'', JStr sid),
      (''question_request'', JNull),
      (''permission_request'',
         case map_of (pending st) sid of None \<Rightarrow> JNull | Some entry \<Rightarrow> JObj (pp_request entry)),
      (''last_execution_id'',
         case map_of (pending st) sid of None \<Rightarrow> JNull | Some entry \<Rightarrow> JStr (pp_request_id entry))]"

definition pi_claim :: "pending_store \<Rightarrow> string \<Rightarrow> string \<Rightarrow> bool \<times> pending_store" where
  "pi_claim st sid pid =
     (case map_of (pending st) sid of
        None \<Rightarrow> (False, st)
      | Some entry \<Rightarrow>
          if pp_permission_id entry \<noteq> pid then (False, st)
          else if pp_claimed entry then (False, st)
          else (True, st\<lparr>pending := AList.update sid (entry\<lparr>pp_claimed := True\<rparr>) (pending st)\<rparr>))"

definition pi_release :: "pending_store \<Rightarrow> string \<Rightarrow> string \<Rightarrow> pending_store" where
  "pi_release st sid pid =
     (case map_of (pending st) sid of
        None \<Rightarrow> st
      | Some entry \<Rightarrow>
          if pp_permission_id entry = pid
          then st\<lparr>pending := AList.update sid (entry\<lparr>pp_claimed := False\<rparr>) (pending st)\<rparr>
          else st)"

text \<open>A run: the calls other modules make, in order.\<close>

datatype pending_op =
    Observe jval
  | Claim string string
  | Release string string
  | Clear string "string option"

fun pending_step :: "pending_store \<Rightarrow> pending_op \<Rightarrow> pending_store" where
  "pending_step st (Observe e) = observe_event st e"
| "pending_step st (Claim s p) = snd (pi_claim st s p)"
| "pending_step st (Release s p) = pi_release st s p"
| "pending_step st (Clear s p) = pi_clear st s p"

fun pending_run :: "pending_store \<Rightarrow> pending_op list \<Rightarrow> pending_store" where
  "pending_run st [] = st"
| "pending_run st (x # xs) = pending_run (pending_step st x) xs"

section \<open>The abstract reading of an event\<close>

datatype pending_action =
    Ignore
  | ClearEntry string "string option"
  | RecordEntry string string jobj string string

text \<open>What an event asks of the store, read off the event alone.\<close>

definition classify :: "jval \<Rightarrow> pending_action" where
  "classify ev =
     (case ev of
        JObj e \<Rightarrow>
          if is_replayed e \<or> pi_event_session_id e = [] then Ignore
          else if meets (pi_types e) CLEAR_EVENT_TYPES then
            ClearEntry (pi_event_session_id e)
              (if meets (pi_types e) RESOLVED_EVENT_TYPES then Some (pi_event_permission_id e) else None)
          else if meets (pi_types e) RECORD_EVENT_TYPES then
            (case jget (obj_or_empty (jget e ''data'')) ''permission_request'' of
               JObj request \<Rightarrow>
                 (let pid = py_str (py_or (jget request ''permission_id'')
                                     (py_or (jget request ''request_id'') (JStr []))) in
                  if pid = [] then Ignore
                  else RecordEntry (pi_event_session_id e) pid request
                    (py_str (py_or (jget e ''opencode_session_id'')
                       (py_or (jget request ''opencode_session_id'') (JStr []))))
                    (str_or_empty (jget e ''request_id'')))
             | _ \<Rightarrow> Ignore)
          else Ignore
      | _ \<Rightarrow> Ignore)"

definition record_entry ::
    "pending_store \<Rightarrow> string \<Rightarrow> string \<Rightarrow> jobj \<Rightarrow> string \<Rightarrow> string \<Rightarrow> pending_store" where
  "record_entry st sid pid request osid rid =
     st\<lparr>pending := evict_front (max_sessions st) (put_last sid
        \<lparr>pp_request = request, pp_permission_id = pid, pp_opencode_session_id = osid,
         pp_request_id = rid,
         pp_claimed = (case map_of (pending st) sid of None \<Rightarrow> False
            | Some x \<Rightarrow> pp_permission_id x = pid \<and> pp_claimed x),
         pp_extra = []\<rparr> (pending st))\<rparr>"

fun apply_action :: "pending_store \<Rightarrow> pending_action \<Rightarrow> pending_store" where
  "apply_action st Ignore = st"
| "apply_action st (ClearEntry s p) = pi_clear st s p"
| "apply_action st (RecordEntry s p req osid rid) = record_entry st s p req osid rid"

lemma observe_refines: "observe_event st ev = apply_action st (classify ev)"
  by (cases ev)
     (simp_all add: observe_event_def classify_def record_entry_def Let_def split: jval.split option.split)

lemma observe_replayed [simp]: "is_replayed e \<Longrightarrow> observe_event st (JObj e) = st"
  by (simp add: observe_event_def)

lemma classify_session:
  "classify ev = ClearEntry s q \<Longrightarrow> s \<noteq> []"
  "classify ev = RecordEntry s p r o' i \<Longrightarrow> s \<noteq> [] \<and> p \<noteq> []"
  by (auto simp: classify_def Let_def split: jval.splits if_splits)

section \<open>Invariant\<close>

text \<open>The dict's keys are distinct and non-empty session ids, every entry names a permission, and
  the store never holds more sessions than its cap, which is at least one.\<close>

definition pending_inv :: "pending_store \<Rightarrow> bool" where
  "pending_inv st \<longleftrightarrow>
     dict_ok (pending st) \<and> 1 \<le> max_sessions st \<and> length (pending st) \<le> max_sessions st \<and>
     (\<forall>(s, x) \<in> set (pending st). s \<noteq> [] \<and> pp_permission_id x \<noteq> [])"

lemma pending_inv_new: "pending_inv (new_pending_store n)"
  by (simp add: pending_inv_def new_pending_store_def)

lemma set_delete_dict: "(s, x) \<in> set (AList.delete k d) \<Longrightarrow> (s, x) \<in> set d"
  by (induction d) (auto split: if_splits)

lemma pi_clear_inv: "pending_inv st \<Longrightarrow> pending_inv (pi_clear st s p)"
  by (auto simp: pending_inv_def pi_clear_def split: option.splits
      intro: order_trans [OF length_delete_dict] dest: set_delete_dict)

lemma pi_update_inv:
  assumes "pending_inv st" "map_of (pending st) s = Some x" "pp_permission_id y = pp_permission_id x"
  shows "pending_inv (st\<lparr>pending := AList.update s y (pending st)\<rparr>)"
proof -
  have "(s, x) \<in> set (pending st)" using assms(2) by (rule map_of_SomeD)
  then show ?thesis using assms
    by (fastforce simp: pending_inv_def length_update_old dest: in_set_update)
qed

lemma pi_claim_inv: "pending_inv st \<Longrightarrow> pending_inv (snd (pi_claim st s p))"
  by (auto simp: pi_claim_def split: option.splits intro: pi_update_inv)

lemma pi_release_inv: "pending_inv st \<Longrightarrow> pending_inv (pi_release st s p)"
  by (auto simp: pi_release_def split: option.splits intro: pi_update_inv)

lemma record_entry_inv:
  "pending_inv st \<Longrightarrow> s \<noteq> [] \<Longrightarrow> p \<noteq> [] \<Longrightarrow> pending_inv (record_entry st s p r o' i)"
  by (auto simp: pending_inv_def record_entry_def put_last_def dkeys_delete distinct_removeAll
      dest!: set_evict_front set_delete_dict)

lemma observe_inv: "pending_inv st \<Longrightarrow> pending_inv (observe_event st ev)"
  by (cases "classify ev")
     (auto simp: observe_refines dest: classify_session intro: pi_clear_inv record_entry_inv)

lemma pending_step_inv: "pending_inv st \<Longrightarrow> pending_inv (pending_step st x)"
  by (cases x) (auto intro: observe_inv pi_claim_inv pi_release_inv pi_clear_inv)

lemma pending_run_inv: "pending_inv st \<Longrightarrow> pending_inv (pending_run st xs)"
  by (induction xs arbitrary: st) (auto intro: pending_step_inv)

lemma max_sessions_frame [simp]:
  "max_sessions (observe_event st ev) = max_sessions st"
  "max_sessions (snd (pi_claim st s p)) = max_sessions st"
  "max_sessions (pi_release st s p) = max_sessions st"
  "max_sessions (pi_clear st s q) = max_sessions st"
  by (cases "classify ev"; auto simp: observe_refines record_entry_def pi_clear_def)
     (auto simp: pi_claim_def pi_release_def pi_clear_def split: option.splits)

lemma pending_run_max [simp]: "max_sessions (pending_run st xs) = max_sessions st"
proof (induction xs arbitrary: st)
  case (Cons x xs)
  then show ?case by (cases x) auto
qed simp

section \<open>Claims across a run\<close>

text \<open>The state a successful claim leaves: this session's entry is this permission, taken.\<close>

definition held :: "pending_store \<Rightarrow> string \<Rightarrow> string \<Rightarrow> bool" where
  "held st s p = (case map_of (pending st) s of None \<Rightarrow> False
     | Some x \<Rightarrow> pp_permission_id x = p \<and> pp_claimed x)"

text \<open>A clear of \<open>s\<close> that cannot hit permission \<open>p\<close>: another session, or another named id.\<close>

definition misses :: "string \<Rightarrow> string \<Rightarrow> string \<Rightarrow> string option \<Rightarrow> bool" where
  "misses s p s' q = (s' \<noteq> s \<or> (case q of None \<Rightarrow> False | Some p' \<Rightarrow> p' \<noteq> [] \<and> p' \<noteq> p))"

text \<open>The calls that leave a taken permission alone: no release of it, no clear that names it, no
  event that records a different permission on its session; recorded sessions come from \<open>K\<close>.\<close>

fun op_keeps :: "string \<Rightarrow> string \<Rightarrow> string list \<Rightarrow> pending_op \<Rightarrow> bool" where
  "op_keeps s p K (Release s' p') = (s' \<noteq> s \<or> p' \<noteq> p)"
| "op_keeps s p K (Clear s' q) = misses s p s' q"
| "op_keeps s p K (Claim s' p') = True"
| "op_keeps s p K (Observe ev) =
     (case classify ev of Ignore \<Rightarrow> True
        | ClearEntry s' q \<Rightarrow> misses s p s' q
        | RecordEntry s' p' req osid rid \<Rightarrow> s' \<in> set K \<and> (s' = s \<longrightarrow> p' = p))"

lemma held_clear: "held st s p \<Longrightarrow> misses s p s' q \<Longrightarrow> held (pi_clear st s' q) s p"
  by (auto simp: held_def misses_def pi_clear_def split: option.splits)

lemma held_claim: "held st s p \<Longrightarrow> held (snd (pi_claim st s' p')) s p"
  by (auto simp: held_def pi_claim_def split: option.splits)

lemma held_release: "held st s p \<Longrightarrow> s' \<noteq> s \<or> p' \<noteq> p \<Longrightarrow> held (pi_release st s' p') s p"
  by (auto simp: held_def pi_release_def split: option.splits)

lemma put_last_fits:
  assumes "dict_ok d" "set (dkeys d) \<subseteq> set K" "k \<in> set K" "length K \<le> n"
  shows "length (put_last k v d) \<le> n"
proof -
  have "dict_ok (put_last k v d)" using assms(1) by simp
  then have "length (put_last k v d) = card (set (dkeys (put_last k v d)))"
    by (metis distinct_card length_map)
  also have "\<dots> \<le> card (set K)"
    using assms(2,3) by (intro card_mono) (auto simp: put_last_def dest!: set_delete_dict)
  also have "\<dots> \<le> n" using assms(4) card_length order_trans by blast
  finally show ?thesis .
qed

lemma keys_put_last: "set (dkeys (put_last k v d)) = insert k (set (dkeys d))"
  by (auto simp: put_last_def dkeys_delete simp del: set_map)

lemma keys_update_old: "map_of d k = Some w \<Longrightarrow> dkeys (AList.update k v d) = dkeys d"
  by (induction d) (auto split: if_splits)

lemma keys_frame:
  "dkeys (pending (snd (pi_claim st s p))) = dkeys (pending st)"
  "dkeys (pending (pi_release st s p)) = dkeys (pending st)"
  "set (dkeys (pending (pi_clear st s q))) \<subseteq> set (dkeys (pending st))"
  by (auto simp: pi_claim_def pi_release_def pi_clear_def keys_update_old dkeys_delete
      split: option.splits simp del: set_map)

lemma record_entry_keeps_all:
  assumes "pending_inv st" "set (dkeys (pending st)) \<subseteq> set K" "s' \<in> set K" "length K \<le> max_sessions st"
  shows "pending (record_entry st s' p' req osid rid) = put_last s'
     \<lparr>pp_request = req, pp_permission_id = p', pp_opencode_session_id = osid,
      pp_request_id = rid, pp_claimed = held st s' p', pp_extra = []\<rparr> (pending st)"
  using put_last_fits [of "pending st" K s' "max_sessions st"] assms
  by (simp add: record_entry_def pending_inv_def held_def)

lemma record_entry_fits:
  assumes "pending_inv st" "set (dkeys (pending st)) \<subseteq> set K" "s' \<in> set K" "length K \<le> max_sessions st"
  shows "map_of (pending (record_entry st s' p' req osid rid)) =
           (map_of (pending st))(s' \<mapsto> \<lparr>pp_request = req, pp_permission_id = p',
              pp_opencode_session_id = osid, pp_request_id = rid, pp_claimed = held st s' p', pp_extra = []\<rparr>)"
    and "set (dkeys (pending (record_entry st s' p' req osid rid))) \<subseteq> set K"
  using assms(2,3) by (simp_all only: record_entry_keeps_all [OF assms] map_of_put_last keys_put_last) simp

lemma step_held:
  assumes "pending_inv st" "set (dkeys (pending st)) \<subseteq> set K" "length K \<le> max_sessions st"
    "held st s p" "op_keeps s p K x"
  shows "held (pending_step st x) s p \<and> set (dkeys (pending (pending_step st x))) \<subseteq> set K"
proof (cases x)
  case (Observe ev)
  show ?thesis
  proof (cases "classify ev")
    case Ignore
    then show ?thesis using assms Observe by (simp add: observe_refines)
  next
    case (ClearEntry s' q)
    then have "misses s p s' q" using assms(5) Observe by simp
    then show ?thesis using assms(2,4) Observe ClearEntry keys_frame(3) [of st s' q]
      by (simp add: observe_refines held_clear del: set_map)
  next
    case (RecordEntry s' p' req osid rid)
    then have "s' \<in> set K" "s' = s \<Longrightarrow> p' = p" using assms(5) Observe by auto
    note rec = record_entry_fits [OF assms(1,2) \<open>s' \<in> set K\<close> assms(3), of p' req osid rid]
    have "held (record_entry st s' p' req osid rid) s p"
      unfolding held_def rec(1) using assms(4) \<open>s' = s \<Longrightarrow> p' = p\<close> by (auto simp: held_def)
    then show ?thesis using rec(2) Observe RecordEntry by (simp add: observe_refines)
  qed
next
  case (Claim s' p')
  then show ?thesis using assms by (simp add: held_claim keys_frame del: set_map)
next
  case (Release s' p')
  then show ?thesis using assms by (simp add: held_release keys_frame del: set_map)
next
  case (Clear s' q)
  then show ?thesis using assms keys_frame(3) [of st s' q] by (simp add: held_clear del: set_map)
qed

lemma run_held:
  "pending_inv st \<Longrightarrow> set (dkeys (pending st)) \<subseteq> set K \<Longrightarrow> length K \<le> max_sessions st \<Longrightarrow>
   held st s p \<Longrightarrow> list_all (op_keeps s p K) xs \<Longrightarrow> held (pending_run st xs) s p"
proof (induction xs arbitrary: st)
  case (Cons x xs)
  have "held (pending_step st x) s p \<and> set (dkeys (pending (pending_step st x))) \<subseteq> set K"
    using step_held Cons.prems by simp
  moreover have "max_sessions (pending_step st x) = max_sessions st" by (cases x) auto
  ultimately show ?case using Cons pending_step_inv by simp
qed simp

lemma claim_true:
  assumes "pi_claim st s p = (True, st')"
  shows "held st' s p" "dkeys (pending st') = dkeys (pending st)" "max_sessions st' = max_sessions st"
  using assms keys_frame(1) [of st s p] max_sessions_frame(2) [of st s p]
  by (auto simp: pi_claim_def held_def split: option.splits if_splits)

lemma held_claim_fails: "held st s p \<Longrightarrow> \<not> fst (pi_claim st s p)"
  by (auto simp: held_def pi_claim_def split: option.splits)

section \<open>Properties\<close>

text \<open>A well-formed \<open>permission.requested\<close> event, the concrete input of the witnesses.\<close>

definition request_event :: "string \<Rightarrow> string \<Rightarrow> jval" where
  "request_event sid pid = JObj
     [(''type'', JStr ''permission.requested''), (''session_id'', JStr sid),
      (''request_id'', JStr ''r1''),
      (''data'', JObj [(''permission_request'', JObj [(''permission_id'', JStr pid)])])]"

lemma classify_request_event:
  "sid \<noteq> [] \<Longrightarrow> pid \<noteq> [] \<Longrightarrow> classify (request_event sid pid) =
     RecordEntry sid pid [(''permission_id'', JStr pid)] [] ''r1''"
  by (simp add: request_event_def classify_def is_replayed_def pi_event_session_id_def pi_types_def
      pi_event_type_def pi_legacy_type_def meets_def py_or_def CLEAR_EVENT_TYPES_def
      RESOLVED_EVENT_TYPES_def RUN_ENDED_EVENT_TYPES_def RECORD_EVENT_TYPES_def)

text \<open>C22: whatever sequence of events, claims, releases and clears the store sees, it holds one entry
  per session, no entry with an empty session or permission id, and never more sessions than its cap.\<close>
theorem pending_store_invariant: "pending_inv (pending_run (new_pending_store n) ops)"
  by (intro pending_run_inv pending_inv_new)

text \<open>C1: once a permission is claimed, a second claim of it fails (a double submission cannot approve one tool call
  twice) after any sequence of events, claims, releases and clears in which (a) nothing releases or clears that permission, (b) no
  event records another permission on its session and (c) every session an event records an entry for is among a list \<open>K\<close> of
  at most as many sessions as the store's cap, so that no entry is evicted. The provisos are needed: an evicted or replaced entry can be
  recorded again unclaimed.\<close>
theorem claim_is_exclusive:
  assumes "pending_inv st" and "pi_claim st s p = (True, st1)"
    and "set (dkeys (pending st)) \<subseteq> set K" and "length K \<le> max_sessions st"
    and "list_all (op_keeps s p K) ops"
  shows "\<not> fst (pi_claim (pending_run st1 ops) s p)"
proof (rule held_claim_fails, rule run_held)
  show "pending_inv st1" using assms(1,2) pi_claim_inv by (metis snd_conv)
  show "held st1 s p" "set (dkeys (pending st1)) \<subseteq> set K" "length K \<le> max_sessions st1"
    using claim_true [OF assms(2)] assms(3,4) by auto
qed (rule assms(5))

definition asked_store :: pending_store where
  "asked_store = observe_event (new_pending_store 4) (request_event ''s'' ''p'')"

lemma asked_store_eval: "asked_store = \<lparr>max_sessions = 4, pending = [(''s'',
    \<lparr>pp_request = [(''permission_id'', JStr ''p'')], pp_permission_id = ''p'', pp_opencode_session_id = [],
     pp_request_id = ''r1'', pp_claimed = False, pp_extra = []\<rparr>)]\<rparr>"
  by (simp add: asked_store_def observe_refines classify_request_event record_entry_def
      new_pending_store_def put_last_def)

lemma claim_is_exclusive_witness:
  "\<not> fst (pi_claim (pending_run (snd (pi_claim asked_store ''s'' ''p''))
      [Observe (request_event ''s'' ''p''), Observe (request_event ''t'' ''q''), Claim ''s'' ''p'',
       Release ''s'' ''q'']) ''s'' ''p'')"
  by (rule claim_is_exclusive [of asked_store _ _ _ "[''s'', ''t'']"])
     (simp_all add: asked_store_eval pending_inv_def pi_claim_def classify_request_event)

text \<open>The claim does not survive a second permission on the same session: after permission \<open>p\<close>
  is claimed, an event that records another permission and a repeated event for \<open>p\<close> make \<open>p\<close>
  claimable again, so two responses to one permission can be in flight.\<close>
theorem claim_lost_when_permissions_alternate:
  assumes "pending_inv st" and "pi_claim st s p = (True, st1)"
    and "classify e1 = RecordEntry s q r1 o1 i1" and "q \<noteq> p"
    and "classify e2 = RecordEntry s p r2 o2 i2"
  shows "fst (pi_claim (observe_event (observe_event st1 e1) e2) s p)"
proof -
  let ?K = "dkeys (pending st1)"
  have inv1: "pending_inv st1" using pi_claim_inv [OF assms(1), of s p] assms(2) by simp
  have K: "s \<in> set ?K" "length ?K \<le> max_sessions st1"
    using claim_true(1) [OF assms(2)] inv1
    by (auto simp: held_def pending_inv_def split: option.splits dest!: map_of_SomeD intro: rev_image_eqI)
  note one = record_entry_fits [OF inv1 subset_refl K, of q r1 o1 i1]
  have inv2: "pending_inv (record_entry st1 s q r1 o1 i1)"
    using inv1 classify_session(2) [OF assms(3)] by (simp add: record_entry_inv)
  have "\<not> held (record_entry st1 s q r1 o1 i1) s p" using assms(4) by (simp add: held_def one(1))
  then show ?thesis
    using record_entry_fits(1) [OF inv2 one(2) K(1), of p r2 o2 i2] K(2)
    by (simp add: observe_refines assms(3,5) pi_claim_def record_entry_def split: option.splits)
qed

lemma claim_lost_when_permissions_alternate_witness:
  "fst (pi_claim (observe_event (observe_event (snd (pi_claim asked_store ''s'' ''p''))
     (request_event ''s'' ''q'')) (request_event ''s'' ''p'')) ''s'' ''p'')"
  by (rule claim_lost_when_permissions_alternate
        [OF _ _ classify_request_event _ classify_request_event, of asked_store])
     (simp_all add: asked_store_eval pending_inv_def pi_claim_def)

text \<open>An event that asks for a permission is what the next poll reports: the snapshot carries the
  request and the run that raised it, and no question.\<close>
theorem recorded_permission_is_reported:
  assumes "pending_inv st" and "classify ev = RecordEntry s p req osid rid"
  shows "pi_snapshot (observe_event st ev) s =
    [(''session_id'', JStr s), (''question_request'', JNull),
     (''permission_request'', JObj req), (''last_execution_id'', JStr rid)]"
proof -
  have "0 < max_sessions st" using assms(1) by (simp add: pending_inv_def)
  then show ?thesis
    by (simp add: pi_snapshot_def observe_refines assms(2) record_entry_def map_of_evict_put_last)
qed

lemma recorded_permission_is_reported_witness:
  "pi_snapshot (observe_event asked_store (request_event ''t'' ''q'')) ''t'' =
    [(''session_id'', JStr ''t''), (''question_request'', JNull),
     (''permission_request'', JObj [(''permission_id'', JStr ''q'')]), (''last_execution_id'', JStr ''r1'')]"
  by (rule recorded_permission_is_reported [OF _ classify_request_event])
     (simp_all add: asked_store_eval pending_inv_def)

end
