(* ===== verification/StoreContracts.thy ===== *)
theory StoreContracts
  imports PyPrelude
begin

text \<open>
  The contracts the adapter's stores offer each other, as locales: a keyed record store (the session
  store, the task store and the display store are read back by the key of the record written), and an
  observer of the event bus that takes no notice of replayed events. Each is interpreted on the
  definitions of the store that provides it, in that store's theory.
\<close>

section \<open>Keyed record stores\<close>

locale keyed_store =
  fixes key :: "'r \<Rightarrow> 'k"
    and look :: "'s \<Rightarrow> 'k \<Rightarrow> 'r option"
    and put :: "'r \<Rightarrow> 's \<Rightarrow> 's"
    and ok :: "'s \<Rightarrow> bool"
  assumes look_put: "ok s \<Longrightarrow> look (put r s) = (look s)(key r \<mapsto> r)"
    and ok_put: "ok s \<Longrightarrow> ok (put r s)"
begin

lemma look_same: "ok s \<Longrightarrow> look (put r s) (key r) = Some r"
  by (simp add: look_put)

lemma look_other: "ok s \<Longrightarrow> k \<noteq> key r \<Longrightarrow> look (put r s) k = look s k"
  by (simp add: look_put)

text \<open>Writing a batch: each key reads back the last record written under it.\<close>

lemma ok_puts: "ok s \<Longrightarrow> ok (fold put rs s)"
  by (induction rs arbitrary: s) (auto simp: ok_put)

lemma look_puts: "ok s \<Longrightarrow> look (fold put rs s) = look s ++ map_of (rev (List.map (\<lambda>r. (key r, r)) rs))"
proof (induction rs arbitrary: s)
  case (Cons r rs)
  then have "look (fold put (r # rs) s) = look (put r s) ++ map_of (rev (List.map (\<lambda>r. (key r, r)) rs))"
    by (simp add: ok_put)
  also have "\<dots> = look s ++ map_of (rev (List.map (\<lambda>r. (key r, r)) (r # rs)))"
    by (simp only: look_put [OF Cons.prems] list.map rev.simps map_of_append) simp
  finally show ?case .
qed simp

lemma look_puts_distinct:
  assumes "ok s" "distinct (List.map key rs)" "r \<in> set rs"
  shows "look (fold put rs s) (key r) = Some r"
proof -
  have "map_of (rev (List.map (\<lambda>r. (key r, r)) rs)) (key r) = Some r"
    using assms(2,3) by (intro map_of_is_SomeI) (auto simp: rev_map [symmetric] comp_def)
  then show ?thesis by (simp add: look_puts [OF assms(1)])
qed

lemma look_puts_other: "ok s \<Longrightarrow> k \<notin> key ` set rs \<Longrightarrow> look (fold put rs s) k = look s k"
proof -
  assume "ok s" "k \<notin> key ` set rs"
  then have "map_of (rev (List.map (\<lambda>r. (key r, r)) rs)) k = None"
    by (auto simp: map_of_eq_None_iff image_iff)
  then show ?thesis using \<open>ok s\<close> by (simp add: look_puts map_add_def)
qed

end

section \<open>Observers of the event bus\<close>

text \<open>What the bus replays to a reconnecting client carries a mark; an observer that keeps state must
  not take a replayed event for a new one.\<close>

locale bus_observer =
  fixes observe :: "'s \<Rightarrow> 'e \<Rightarrow> 's"
    and replayed :: "'e \<Rightarrow> bool"
  assumes observe_replayed: "replayed e \<Longrightarrow> observe s e = s"
begin

lemma observe_all_replayed: "list_all replayed es \<Longrightarrow> fold (\<lambda>e s. observe s e) es s = s"
  by (induction es arbitrary: s) (auto simp: observe_replayed)

lemma observe_interleaved:
  "fold (\<lambda>e s. observe s e) es s = fold (\<lambda>e s. observe s e) (filter (\<lambda>e. \<not> replayed e) es) s"
  by (induction es arbitrary: s) (auto simp: observe_replayed)

end

end
