(* ===== verification/PyFloat.thy ===== *)
theory PyFloat
  imports PyPrelude
begin

text \<open>
  Python's numbers where the sources convert them: \<^verbatim>\<open>float(x)\<close> on integers and strings, \<^verbatim>\<open>int(x)\<close>
  on floats. A finite float is its exact rational value; converting to it rounds to the nearest IEEE-754
  double, ties to even (\<open>to_double\<close>), and overflows as Python does. The exactness lemma
  \<open>to_double_int\<close> is what the integer-valued token and message counts rest on.
\<close>

datatype py_error = TypeError | ValueError | OverflowError | KeyError

datatype ffloat = FFin rat | FInf bool | FNaN

section \<open>Rounding to a double\<close>

function bitlen :: "int \<Rightarrow> nat" where
  "bitlen n = (if n \<le> 0 then 0 else Suc (bitlen (n div 2)))"
  by pat_completeness auto
termination
  by (relation "measure nat") auto

declare bitlen.simps [simp del]

definition exp2 :: "int \<Rightarrow> rat" where
  "exp2 e = (if 0 \<le> e then 2 ^ nat e else 1 / 2 ^ nat (- e))"

text \<open>The exponent of the leading bit of a positive rational.\<close>

definition ilog2 :: "rat \<Rightarrow> int" where
  "ilog2 a = (let (n, d) = quotient_of a; k = int (bitlen n) - int (bitlen d)
     in if a < exp2 k then k - 1 else k)"

definition round_half_even :: "rat \<Rightarrow> int" where
  "round_half_even q = (let f = \<lfloor>q\<rfloor>; r = q - of_int f in
     if r < 1 / 2 then f else if 1 / 2 < r then f + 1 else if even f then f else f + 1)"

definition to_double :: "rat \<Rightarrow> rat option" where
  "to_double x = (if x = 0 then Some 0
     else let a = \<bar>x\<bar>; e = max (ilog2 a - 52) (- 1074);
              r = of_int (round_half_even (a / exp2 e)) * exp2 e
          in if 2 ^ 1024 \<le> r then None else Some (sgn x * r))"

lemma bitlen_bounds: "0 < n \<Longrightarrow> 2 ^ (bitlen n - 1) \<le> n \<and> n < 2 ^ bitlen n \<and> 0 < bitlen n"
proof (induction n rule: bitlen.induct)
  case (1 n)
  show ?case
  proof (cases "n = 1")
    case True
    then show ?thesis by (simp add: bitlen.simps)
  next
    case False
    with 1 have IH: "2 ^ (bitlen (n div 2) - 1) \<le> n div 2" "n div 2 < 2 ^ bitlen (n div 2)"
      "0 < bitlen (n div 2)" by auto
    have b: "bitlen n = Suc (bitlen (n div 2))" using 1 by (subst bitlen.simps) simp
    obtain k where k: "bitlen (n div 2) = Suc k" using IH(3) gr0_conv_Suc by blast
    have "2 * 2 ^ k \<le> n" using IH(1) k by simp
    moreover have "n < 2 * 2 ^ Suc k" using IH(2) k by simp
    ultimately show ?thesis by (simp add: b k)
  qed
qed

lemma bitlen_le: "n < 2 ^ k \<Longrightarrow> bitlen n \<le> k"
proof (cases "n \<le> 0")
  case False
  assume "n < 2 ^ k"
  moreover have "2 ^ (bitlen n - 1) \<le> n" "0 < bitlen n" using False bitlen_bounds [of n] by auto
  ultimately have "2 ^ (bitlen n - 1) < (2::int) ^ k" by linarith
  then have "bitlen n - 1 < k" by simp
  with \<open>0 < bitlen n\<close> show ?thesis by simp
qed (simp add: bitlen.simps)

lemma round_half_even_int [simp]: "round_half_even (of_int i) = i"
  by (simp add: round_half_even_def)

lemma ilog2_int: "0 < n \<Longrightarrow> ilog2 (of_int n) \<le> int (bitlen n) - 1"
  by (simp add: ilog2_def Let_def bitlen.simps [of 1])

lemma to_double_int:
  assumes "\<bar>i\<bar> < 2 ^ 53"
  shows "to_double (of_int i) = Some (of_int i)"
proof (cases "i = 0")
  case True
  then show ?thesis by (simp add: to_double_def)
next
  case False
  define n where "n = \<bar>i\<bar>"
  have n: "0 < n" "n < 2 ^ 53" using False assms by (auto simp: n_def)
  have a: "\<bar>of_int i :: rat\<bar> = of_int n" by (simp add: n_def)
  define e where "e = max (ilog2 (of_int n) - 52) (- 1074)"
  have "bitlen n \<le> 53" using n(2) by (rule bitlen_le)
  with ilog2_int [OF n(1)] have e: "e \<le> 0" by (simp add: e_def)
  define s where "s = nat (- e)"
  have x: "exp2 e = 1 / 2 ^ s" using e by (cases "e = 0") (auto simp: exp2_def s_def)
  have "(of_int n :: rat) / exp2 e = of_int (n * 2 ^ s)" by (simp add: x)
  then have "round_half_even ((of_int n :: rat) / exp2 e) = n * 2 ^ s"
    by (simp only: round_half_even_int)
  then have r: "of_int (round_half_even ((of_int n :: rat) / exp2 e)) * exp2 e = of_int n"
    by (simp add: x)
  have "(of_int n :: rat) < of_int (2 ^ 53)" using n(2) by (simp only: of_int_less_iff)
  also have "of_int (2 ^ 53) \<le> (2 ^ 1024 :: rat)" by simp
  finally have t: "\<not> (2 ^ 1024 :: rat) \<le> of_int n" by (simp only: not_le)
  have g: "sgn (of_int i :: rat) * of_int n = of_int i"
    by (simp add: n_def sgn_if flip: of_int_mult)
  show ?thesis
    unfolding to_double_def Let_def a e_def [symmetric] r using False t g by simp
qed

section \<open>\<open>float(x)\<close> and \<open>int(x)\<close>\<close>

definition is_digit :: "char \<Rightarrow> bool" where
  "is_digit c = (let n = of_char c :: nat in 48 \<le> n \<and> n \<le> 57)"

definition digit_val :: "char \<Rightarrow> nat" where
  "digit_val c = of_char c - 48"

definition digits_val :: "string \<Rightarrow> nat" where
  "digits_val s = foldl (\<lambda>a c. 10 * a + digit_val c) 0 s"

text \<open>An underscore is allowed between two digits and nowhere else.\<close>

fun drop_underscores :: "bool \<Rightarrow> string \<Rightarrow> string option" where
  "drop_underscores prev [] = Some []"
| "drop_underscores prev (c # s) =
     (if c = CHR ''_'' then
        (case s of [] \<Rightarrow> None
         | d # _ \<Rightarrow> if prev \<and> is_digit d then drop_underscores False s else None)
      else map_option ((#) c) (drop_underscores (is_digit c) s))"

definition split_sign :: "string \<Rightarrow> bool \<times> string" where
  "split_sign s = (case s of [] \<Rightarrow> (False, [])
     | c # r \<Rightarrow> if c = CHR ''-'' then (True, r) else if c = CHR ''+'' then (False, r) else (False, s))"

definition parse_exponent :: "string \<Rightarrow> int option" where
  "parse_exponent s = (let (neg, ds) = split_sign s in
     if ds = [] \<or> \<not> list_all is_digit ds then None
     else Some (if neg then - int (digits_val ds) else int (digits_val ds)))"

definition parse_mantissa :: "string \<Rightarrow> rat option" where
  "parse_mantissa s =
     (case split_char (CHR ''.'') s of
        [a] \<Rightarrow> if a = [] \<or> \<not> list_all is_digit a then None else Some (of_nat (digits_val a))
      | [a, b] \<Rightarrow> if (a = [] \<and> b = []) \<or> \<not> list_all is_digit (a @ b) then None
                 else Some (of_nat (digits_val (a @ b)) / 10 ^ length b)
      | _ \<Rightarrow> None)"

definition scale10 :: "rat \<Rightarrow> int \<Rightarrow> rat" where
  "scale10 m e = (if 0 \<le> e then m * 10 ^ nat e else m / 10 ^ nat (- e))"

definition parse_float :: "string \<Rightarrow> ffloat option" where
  "parse_float s =
     (let (neg, t) = split_sign (py_lower (py_strip s)) in
      if t = ''inf'' \<or> t = ''infinity'' then Some (FInf neg)
      else if t = ''nan'' then Some FNaN
      else case drop_underscores False t of None \<Rightarrow> None
      | Some u \<Rightarrow>
         (case (case split_char (CHR ''e'') u of
                  [m] \<Rightarrow> parse_mantissa m
                | [m, e] \<Rightarrow> (case (parse_mantissa m, parse_exponent e) of
                              (Some x, Some k) \<Rightarrow> Some (scale10 x k) | _ \<Rightarrow> None)
                | _ \<Rightarrow> None) of
            None \<Rightarrow> None
          | Some x \<Rightarrow> Some (case to_double x of None \<Rightarrow> FInf neg
                             | Some r \<Rightarrow> FFin (if neg then - r else r))))"

text \<open>\<^verbatim>\<open>float(value)\<close> on a JSON value.\<close>

fun py_float :: "jval \<Rightarrow> py_error + ffloat" where
  "py_float (JInt i) = (case to_double (of_int i) of None \<Rightarrow> Inl OverflowError | Some r \<Rightarrow> Inr (FFin r))"
| "py_float (JBool b) = Inr (FFin (if b then 1 else 0))"
| "py_float (JFloat (Finite v t)) = Inr (FFin v)"
| "py_float (JFloat PosInf) = Inr (FInf False)"
| "py_float (JFloat NegInf) = Inr (FInf True)"
| "py_float (JFloat NotANumber) = Inr FNaN"
| "py_float (JStr s) = (case parse_float s of None \<Rightarrow> Inl ValueError | Some f \<Rightarrow> Inr f)"
| "py_float _ = Inl TypeError"

text \<open>\<^verbatim>\<open>int(f)\<close> truncates towards zero; infinities overflow, a NaN is a \<^verbatim>\<open>ValueError\<close>.\<close>

fun int_of_float :: "ffloat \<Rightarrow> py_error + int" where
  "int_of_float (FFin r) = Inr (if 0 \<le> r then \<lfloor>r\<rfloor> else - \<lfloor>- r\<rfloor>)"
| "int_of_float (FInf _) = Inl OverflowError"
| "int_of_float FNaN = Inl ValueError"

lemma int_of_float_int [simp]: "int_of_float (FFin (of_int i)) = Inr i"
  by (simp flip: of_int_minus)

lemma py_float_int: "\<bar>i\<bar> < 2 ^ 53 \<Longrightarrow> py_float (JInt i) = Inr (FFin (of_int i))"
  by (simp add: to_double_int)

text \<open>\<^verbatim>\<open>int(s)\<close> on a string: an optional sign and decimal digits, with single underscores between
  digits and surrounding blanks allowed; \<^verbatim>\<open>None\<close> stands for the \<^verbatim>\<open>ValueError\<close>.\<close>

definition parse_int :: "string \<Rightarrow> int option" where
  "parse_int s =
     (let (neg, t) = split_sign (py_strip s) in
      case drop_underscores False t of
        Some ds \<Rightarrow> if ds = [] \<or> \<not> list_all is_digit ds then None
                   else Some (if neg then - int (digits_val ds) else int (digits_val ds))
      | None \<Rightarrow> None)"

text \<open>\<^verbatim>\<open>_safe_int\<close> (session_store.py): \<^verbatim>\<open>None\<close>, booleans, blank strings and anything \<^verbatim>\<open>float\<close> or
  \<^verbatim>\<open>int\<close> refuses read as the default.\<close>

definition safe_int :: "jval \<Rightarrow> int \<Rightarrow> int" where
  "safe_int v dflt =
     (case v of
        JNull \<Rightarrow> dflt
      | JBool b \<Rightarrow> dflt
      | JStr s \<Rightarrow> if py_strip s = [] then dflt
          else (case py_float (JStr (py_strip s)) of Inl e \<Rightarrow> dflt
                | Inr f \<Rightarrow> (case int_of_float f of Inl e \<Rightarrow> dflt | Inr i \<Rightarrow> i))
      | _ \<Rightarrow> (case py_float v of Inl e \<Rightarrow> dflt
                | Inr f \<Rightarrow> (case int_of_float f of Inl e \<Rightarrow> dflt | Inr i \<Rightarrow> i)))"

lemma safe_int_exact: "\<bar>i\<bar> < 2 ^ 53 \<Longrightarrow> safe_int (JInt i) d = i"
  by (simp add: safe_int_def py_float_int del: py_float.simps)

text \<open>What a \<^verbatim>\<open>for\<close> loop runs over: a string's characters, a dict's keys; what is not iterable raises.\<close>

fun py_iter :: "jval \<Rightarrow> py_error + jval list" where
  "py_iter (JList xs) = Inr xs"
| "py_iter (JStr s) = Inr (List.map (\<lambda>c. JStr [c]) s)"
| "py_iter (JObj d) = Inr (List.map JStr (dkeys d))"
| "py_iter _ = Inl TypeError"

end
