(* ===== verification/EventBus.thy ===== *)
theory EventBus
  imports PendingInput StoreContracts PyFloat "HOL-Library.Product_Lexorder"
begin

text \<open>
  \<^verbatim>\<open>event_bus.py\<close>: publishing to subscribers and observers, the replay buckets kept per session and per
  request, and what a reconnecting websocket is sent. Clock readings are rationals passed in (one publish
  reads the clock three times: on storing and on each of the two appends). A subscriber object is known by
  its handle. \<open>stamp\<close> stands for \<^verbatim>\<open>datetime.fromisoformat(raw).timestamp()\<close>, which reads naive stamps in
  the process's time zone; \<^verbatim>\<open>None\<close> is an exception there. Observers are functions on a state of their own,
  so every fact below holds for whatever is subscribed.
\<close>

definition ALLOWED_FILTER_KEYS :: "string list" where
  "ALLOWED_FILTER_KEYS =
     [''session_id'', ''task_id'', ''request_id'', ''agent_id'', ''group_id'', ''coordination_run_id'']"

definition QUEUE_MAX :: nat where
  "QUEUE_MAX = 100"

record subscriber =
  sub_filters :: "(string, string) odict"
  sub_queue :: "jobj list"

type_synonym replay_item = "rat \<times> nat \<times> jobj"
type_synonym replay_store = "(string, replay_item list) odict"

record event_bus =
  eb_subs :: "(nat \<times> subscriber) list"
  eb_next_sub :: nat
  eb_limit :: nat
  eb_ttl :: rat
  eb_sweep_interval :: rat
  eb_by_session :: replay_store
  eb_by_request :: replay_store
  eb_next_seq :: nat
  eb_last_sweep :: rat

definition new_event_bus :: "int \<Rightarrow> rat \<Rightarrow> rat \<Rightarrow> event_bus" where
  "new_event_bus limit ttl sweep =
     \<lparr>eb_subs = [], eb_next_sub = 0, eb_limit = nat (max 0 limit), eb_ttl = max (1 / 1000) ttl,
      eb_sweep_interval = max 0 sweep, eb_by_session = [], eb_by_request = [], eb_next_seq = 1,
      eb_last_sweep = 0\<rparr>"

definition subscribe :: "(string, string) odict \<Rightarrow> event_bus \<Rightarrow> nat \<times> event_bus" where
  "subscribe filters bus =
     (let sub = \<lparr>sub_filters = filter (\<lambda>(k, v). k \<in> set ALLOWED_FILTER_KEYS \<and> v \<noteq> []) filters,
                 sub_queue = []\<rparr>
      in (eb_next_sub bus, bus\<lparr>eb_subs := eb_subs bus @ [(eb_next_sub bus, sub)],
                              eb_next_sub := eb_next_sub bus + 1\<rparr>))"

definition unsubscribe :: "nat \<Rightarrow> event_bus \<Rightarrow> event_bus" where
  "unsubscribe h bus = bus\<lparr>eb_subs := AList.delete h (eb_subs bus)\<rparr>"

definition sub_matches :: "(string, string) odict \<Rightarrow> jobj \<Rightarrow> bool" where
  "sub_matches filters event =
     list_all (\<lambda>(key, value). jhas event key \<and> py_str (jget event key) = value) filters"

text \<open>A full queue loses its oldest event before the new one is put.\<close>

definition enqueue :: "jobj \<Rightarrow> jobj list \<Rightarrow> jobj list" where
  "enqueue event q =
     (let q1 = (if length q \<ge> QUEUE_MAX then tl q else q)
      in if length q1 \<ge> QUEUE_MAX then q1 else q1 @ [event])"

definition offer :: "jobj \<Rightarrow> subscriber \<Rightarrow> subscriber" where
  "offer event sub =
     (if sub_matches (sub_filters sub) event then sub\<lparr>sub_queue := enqueue event (sub_queue sub)\<rparr> else sub)"

definition event_value :: "jobj \<Rightarrow> string \<Rightarrow> string" where
  "event_value event key =
     (if truthy (jget event key) then py_str (jget event key)
      else case jget event ''data'' of
        JObj data \<Rightarrow> if truthy (jget data key) then py_str (jget data key) else []
      | _ \<Rightarrow> [])"

definition prune_bucket :: "rat \<Rightarrow> rat \<Rightarrow> replay_item list \<Rightarrow> replay_item list" where
  "prune_bucket ttl now bucket = dropWhile (\<lambda>item. fst item < now - ttl) bucket"

definition append_limited ::
    "nat \<Rightarrow> rat \<Rightarrow> rat \<Rightarrow> string \<Rightarrow> replay_item \<Rightarrow> replay_store \<Rightarrow> replay_store" where
  "append_limited limit ttl now key item store =
     (if key = [] \<or> limit = 0 then store
      else let bucket = (case map_of store key of None \<Rightarrow> [] | Some b \<Rightarrow> b)
           in AList.update key (last_n limit (prune_bucket ttl now (bucket @ [item]))) store)"

definition sweep_store :: "rat \<Rightarrow> rat \<Rightarrow> replay_store \<Rightarrow> replay_store" where
  "sweep_store ttl now store =
     filter (\<lambda>(k, b). b \<noteq> []) (List.map (\<lambda>(k, b). (k, prune_bucket ttl now b)) store)"

definition sweep_expired_buckets :: "rat \<Rightarrow> event_bus \<Rightarrow> event_bus" where
  "sweep_expired_buckets now bus =
     (if now - eb_last_sweep bus < eb_sweep_interval bus then bus
      else bus\<lparr>eb_last_sweep := now,
               eb_by_session := sweep_store (eb_ttl bus) now (eb_by_session bus),
               eb_by_request := sweep_store (eb_ttl bus) now (eb_by_request bus)\<rparr>)"

definition store_recent :: "rat \<times> rat \<times> rat \<Rightarrow> jobj \<Rightarrow> event_bus \<Rightarrow> event_bus" where
  "store_recent clock event bus =
     (case clock of (now, now1, now2) \<Rightarrow>
        if eb_limit bus = 0 then bus
        else let bus1 = sweep_expired_buckets now bus;
                 item = (now, eb_next_seq bus1, event)
             in bus1\<lparr>eb_next_seq := eb_next_seq bus1 + 1,
                  eb_by_session := append_limited (eb_limit bus1) (eb_ttl bus1) now1
                    (event_value event ''session_id'') item (eb_by_session bus1),
                  eb_by_request := append_limited (eb_limit bus1) (eb_ttl bus1) now2
                    (event_value event ''request_id'') item (eb_by_request bus1)\<rparr>)"

definition publish ::
    "('o \<Rightarrow> jval \<Rightarrow> 'o) list \<Rightarrow> rat \<times> rat \<times> rat \<Rightarrow> jobj \<Rightarrow> event_bus \<times> 'o \<Rightarrow> event_bus \<times> 'o" where
  "publish observers clock event st =
     (case st of (bus, os) \<Rightarrow>
        let bus1 = store_recent clock event bus;
            os1 = fold (\<lambda>observer os. observer os (JObj event)) observers os
        in (bus1\<lparr>eb_subs := List.map (\<lambda>(h, sub). (h, offer event sub)) (eb_subs bus1)\<rparr>, os1))"

text \<open>\<^verbatim>\<open>await sub.queue.get()\<close> on a queue that holds an event.\<close>

definition take_event :: "nat \<Rightarrow> event_bus \<Rightarrow> jobj option \<times> event_bus" where
  "take_event h bus =
     (case map_of (eb_subs bus) h of
        None \<Rightarrow> (None, bus)
      | Some sub \<Rightarrow> (case sub_queue sub of
           [] \<Rightarrow> (None, bus)
         | e # q \<Rightarrow> (Some e, bus\<lparr>eb_subs := AList.update h (sub\<lparr>sub_queue := q\<rparr>) (eb_subs bus)\<rparr>)))"

definition parse_types :: "string option \<Rightarrow> string list" where
  "parse_types raw = (case raw of None \<Rightarrow> []
     | Some s \<Rightarrow> if s = [] then []
         else remdups (filter (\<lambda>w. w \<noteq> []) (List.map py_strip (split_char (CHR '','') s))))"

definition parse_event_time :: "(string \<Rightarrow> rat option) \<Rightarrow> string option \<Rightarrow> rat option" where
  "parse_event_time stamp raw = (case raw of None \<Rightarrow> None
     | Some s \<Rightarrow> if s = [] then None
         else stamp (if last s = CHR ''Z'' then butlast s @ ''+00:00'' else s))"

definition event_sort_time :: "(string \<Rightarrow> rat option) \<Rightarrow> jobj \<Rightarrow> rat \<Rightarrow> rat" where
  "event_sort_time stamp event fallback =
     (case parse_event_time stamp (Some (str_or_empty (jget event ''created_at''))) of
        Some t \<Rightarrow> t | None \<Rightarrow> fallback)"

definition event_type_of :: "jobj \<Rightarrow> string" where
  "event_type_of event = py_str (py_or (jget event ''type'') (py_or (jget event ''event_type'') (JStr [])))"

record replay_query =
  rq_session :: string
  rq_request :: string
  rq_limit :: "int option"
  rq_types :: "string list"
  rq_after :: "string option"

text \<open>Whether the loop over a bucket keeps an item, its \<^verbatim>\<open>seen\<close> test aside.\<close>

definition wanted :: "(string \<Rightarrow> rat option) \<Rightarrow> replay_query \<Rightarrow> replay_item \<Rightarrow> bool" where
  "wanted stamp q item =
     (case item of (ts, seq, event) \<Rightarrow>
        (rq_types q = [] \<or> event_type_of event \<in> set (rq_types q))
        \<and> \<not> (rq_request q \<noteq> [] \<and> rq_session q \<noteq> [] \<and> event_value event ''session_id'' \<noteq> rq_session q)
        \<and> (case parse_event_time stamp (rq_after q) of None \<Rightarrow> True
           | Some t \<Rightarrow> t < event_sort_time stamp event ts))"

fun collect_items ::
    "(string \<Rightarrow> rat option) \<Rightarrow> replay_query \<Rightarrow> nat list \<Rightarrow> replay_item list \<Rightarrow> replay_item list" where
  "collect_items stamp q seen [] = []"
| "collect_items stamp q seen (item # rest) =
     (let seq = fst (snd item) in
      if seq \<in> set seen then collect_items stamp q seen rest
      else if wanted stamp q item then item # collect_items stamp q (seq # seen) rest
      else collect_items stamp q (seq # seen) rest)"

definition sort_pair :: "(string \<Rightarrow> rat option) \<Rightarrow> replay_item \<Rightarrow> rat \<times> nat" where
  "sort_pair stamp item = (case item of (ts, seq, event) \<Rightarrow> (event_sort_time stamp event ts, seq))"

definition mark_replayed :: "jobj \<Rightarrow> jobj" where
  "mark_replayed event =
     (let e1 = AList.update ''metadata''
                 (JObj (AList.update ''replayed'' (JBool True) (obj_or_empty (jget event ''metadata'')))) event
      in AList.update ''data'' (JObj (AList.update ''replayed'' (JBool True) (obj_or_empty (jget e1 ''data'')))) e1)"

definition replay_cap :: "event_bus \<Rightarrow> replay_query \<Rightarrow> nat" where
  "replay_cap bus q = (case rq_limit q of None \<Rightarrow> eb_limit bus
     | Some l \<Rightarrow> nat (max 0 (min l (int (eb_limit bus)))))"

text \<open>The bucket a query reads, and the bus with that bucket's expired items dropped.\<close>

definition query_bucket :: "rat \<Rightarrow> replay_query \<Rightarrow> event_bus \<Rightarrow> replay_item list" where
  "query_bucket now q bus =
     (case (if rq_request q \<noteq> [] then map_of (eb_by_request bus) (rq_request q)
            else if rq_session q \<noteq> [] then map_of (eb_by_session bus) (rq_session q) else None) of
        None \<Rightarrow> [] | Some b \<Rightarrow> prune_bucket (eb_ttl bus) now b)"

definition prune_queried :: "rat \<Rightarrow> replay_query \<Rightarrow> event_bus \<Rightarrow> event_bus" where
  "prune_queried now q bus =
     (if rq_request q \<noteq> [] then
        (case map_of (eb_by_request bus) (rq_request q) of None \<Rightarrow> bus
         | Some b \<Rightarrow> bus\<lparr>eb_by_request := AList.update (rq_request q) (prune_bucket (eb_ttl bus) now b)
                            (eb_by_request bus)\<rparr>)
      else if rq_session q \<noteq> [] then
        (case map_of (eb_by_session bus) (rq_session q) of None \<Rightarrow> bus
         | Some b \<Rightarrow> bus\<lparr>eb_by_session := AList.update (rq_session q) (prune_bucket (eb_ttl bus) now b)
                            (eb_by_session bus)\<rparr>)
      else bus)"

definition recent_events ::
    "(string \<Rightarrow> rat option) \<Rightarrow> rat \<Rightarrow> replay_query \<Rightarrow> event_bus \<Rightarrow> jobj list \<times> event_bus" where
  "recent_events stamp now q bus =
     (let items = sort_key (sort_pair stamp) (collect_items stamp q [] (query_bucket now q bus))
      in (List.map (\<lambda>item. mark_replayed (snd (snd item))) (last_n (replay_cap bus q) items),
          prune_queried now q bus))"

section \<open>The websocket handler's view\<close>

text \<open>The frames sent before the live stream, for a request whose query string is \<open>query\<close>, and the
  filter the sender applies to each queued event.\<close>

definition query_get :: "(string, string) odict \<Rightarrow> string \<Rightarrow> string" where
  "query_get query k = (case map_of query k of None \<Rightarrow> [] | Some v \<Rightarrow> v)"

definition ws_filters :: "(string, string) odict \<Rightarrow> (string, string) odict" where
  "ws_filters query = List.map (\<lambda>k. (k, query_get query k)) ALLOWED_FILTER_KEYS"

definition ws_replay_query :: "(string, string) odict \<Rightarrow> event_bus \<Rightarrow> replay_query" where
  "ws_replay_query query bus =
     \<lparr>rq_session = query_get query ''session_id'', rq_request = query_get query ''request_id'',
      rq_limit = Some (if query_get query ''replay_limit'' = [] then int (eb_limit bus)
                       else case parse_int (query_get query ''replay_limit'') of
                         Some n \<Rightarrow> n | None \<Rightarrow> int (eb_limit bus)),
      rq_types = parse_types (map_of query ''types''), rq_after = map_of query ''last_event_at''\<rparr>"

definition ws_opening ::
    "(string \<Rightarrow> rat option) \<Rightarrow> rat \<Rightarrow> (string, string) odict \<Rightarrow> event_bus \<Rightarrow> jobj list \<times> nat \<times> event_bus" where
  "ws_opening stamp now query bus =
     (let (h, bus1) = subscribe (ws_filters query) bus;
          hello = [(''type'', JStr ''connected''), (''engine'', JStr ''opencode'')];
          enabled = py_lower (query_get query ''replay'') \<in> {''1'', ''true'', ''yes'', ''on''}
      in if enabled
         then (let (evs, bus2) = recent_events stamp now (ws_replay_query query bus1) bus1
               in (hello # evs, h, bus2))
         else ([hello], h, bus1))"

definition ws_forwards :: "string list \<Rightarrow> jobj \<Rightarrow> bool" where
  "ws_forwards types event = (types = [] \<or> event_type_of event \<in> set types)"

definition ws_close :: "nat \<Rightarrow> event_bus \<Rightarrow> event_bus" where
  "ws_close h bus = unsubscribe h bus"

section \<open>Subscriber queues\<close>

lemma QUEUE_MAX_pos [simp]: "0 < QUEUE_MAX" "QUEUE_MAX \<noteq> 0"
  by (simp_all add: QUEUE_MAX_def)

lemma enqueue_latest:
  assumes "length q \<le> QUEUE_MAX" shows "enqueue e q = last_n QUEUE_MAX (q @ [e])"
proof (cases "length q = QUEUE_MAX")
  case True
  then show ?thesis
    by (cases q) (auto simp: enqueue_def last_n_def QUEUE_MAX_def)
next
  case False
  then show ?thesis using assms by (simp add: enqueue_def last_n_def)
qed

definition sub_look :: "event_bus \<Rightarrow> nat \<Rightarrow> subscriber option" where
  "sub_look bus h = map_of (eb_subs bus) h"

lemma store_recent_subs [simp]: "eb_subs (store_recent c e bus) = eb_subs bus"
  by (cases c) (simp add: store_recent_def sweep_expired_buckets_def Let_def)

lemma sub_look_publish: "sub_look (fst (publish obs c e (bus, os))) h = map_option (offer e) (sub_look bus h)"
proof -
  have "map_of (List.map (\<lambda>(h, s). (h, offer e s)) xs) h = map_option (offer e) (map_of xs h)" for xs
    by (induction xs) auto
  then show ?thesis by (simp add: publish_def Let_def sub_look_def)
qed

definition publish_all ::
    "('o \<Rightarrow> jval \<Rightarrow> 'o) list \<Rightarrow> ((rat \<times> rat \<times> rat) \<times> jobj) list \<Rightarrow> event_bus \<times> 'o \<Rightarrow> event_bus \<times> 'o" where
  "publish_all obs ces st = fold (\<lambda>(c, e). publish obs c e) ces st"

lemma offer_latest:
  assumes "length (sub_queue sub) \<le> QUEUE_MAX"
  shows "offer e sub = sub\<lparr>sub_queue := last_n QUEUE_MAX
           (sub_queue sub @ filter (sub_matches (sub_filters sub)) [e])\<rparr>"
  using assms by (simp add: offer_def enqueue_latest last_n_all)

text \<open>C26: a subscriber's queue always holds the newest 100 of the events its filters select, in the order they
  were published, whatever the other subscribers, the replay limit and the observers are: a slow reader
  loses its oldest events only.\<close>

theorem queue_keeps_latest_matching:
  assumes "sub_look bus h = Some sub" "length (sub_queue sub) \<le> QUEUE_MAX"
  shows "sub_look (fst (publish_all obs ces (bus, os))) h
    = Some (sub\<lparr>sub_queue := last_n QUEUE_MAX
        (sub_queue sub @ filter (sub_matches (sub_filters sub)) (List.map snd ces))\<rparr>)"
  using assms
proof (induction ces arbitrary: bus os sub)
  case Nil
  then show ?case by (simp add: publish_all_def last_n_all)
next
  case (Cons ce ces)
  obtain c e where ce: "ce = (c, e)" by fastforce
  obtain bus1 os1 where p: "publish obs c e (bus, os) = (bus1, os1)" by fastforce
  let ?sub = "offer e sub"
  have look: "sub_look bus1 h = Some ?sub" using sub_look_publish [of obs c e bus os h] p Cons.prems by simp
  have len: "length (sub_queue ?sub) \<le> QUEUE_MAX" by (simp add: offer_latest [OF Cons.prems(2)])
  have "sub_look (fst (publish_all obs (ce # ces) (bus, os))) h = sub_look (fst (publish_all obs ces (bus1, os1))) h"
    by (simp add: publish_all_def ce p)
  also have "\<dots> = Some (?sub\<lparr>sub_queue := last_n QUEUE_MAX
        (sub_queue ?sub @ filter (sub_matches (sub_filters ?sub)) (List.map snd ces))\<rparr>)"
    by (rule Cons.IH [OF look len])
  finally show ?case
    by (simp add: offer_latest [OF Cons.prems(2)] last_n_append ce)
qed

lemma queue_keeps_latest_matching_witness:
  "let bus = snd (subscribe [(''session_id'', ''s'')] (new_event_bus 5 60 1));
       e = [(''session_id'', JStr ''s'')]; f = [(''session_id'', JStr ''t'')] in
   map_option sub_queue (sub_look (fst (publish_all [observe_event]
      [((1, 1, 1), e), ((2, 2, 2), f)] (bus, new_pending_store 3))) 0) = Some [e]"
proof -
  let ?bus = "snd (subscribe [(''session_id'', ''s'')] (new_event_bus 5 60 1))"
  let ?sub = "\<lparr>sub_filters = [(''session_id'', ''s'')], sub_queue = []\<rparr>"
  have "sub_look ?bus 0 = Some ?sub" by code_simp
  from queue_keeps_latest_matching [OF this, of "[observe_event]"
      "[((1, 1, 1), [(''session_id'', JStr ''s'')]), ((2, 2, 2), [(''session_id'', JStr ''t'')])]"
      "new_pending_store 3"]
  show ?thesis by (simp add: Let_def sub_matches_def jget_def jhas_def last_n_def QUEUE_MAX_def)
qed

section \<open>Replayed events\<close>

lemma mark_replayed_is_replayed: "is_replayed (mark_replayed e)"
  by (simp add: mark_replayed_def is_replayed_def Let_def jget_def update_conv)

definition replayed_value :: "jval \<Rightarrow> bool" where
  "replayed_value v = (case v of JObj e \<Rightarrow> is_replayed e | _ \<Rightarrow> False)"

interpretation pending_observer: bus_observer observe_event replayed_value
  by unfold_locales (auto simp: replayed_value_def split: jval.splits)

text \<open>what a reconnecting client is replayed never reaches the pending-input store as news: feeding the
  result of any replay query back to the observer, in whole, leaves every pending permission and claim.\<close>

theorem replays_are_not_observed:
  "fold (\<lambda>e st. observe_event st (JObj e)) (fst (recent_events stamp now q bus)) st = st"
proof -
  have "list_all replayed_value (List.map JObj (fst (recent_events stamp now q bus)))"
    by (auto simp: recent_events_def Let_def list_all_iff replayed_value_def mark_replayed_is_replayed)
  from pending_observer.observe_all_replayed [OF this, of st] show ?thesis
    by (simp add: fold_map comp_def)
qed

section \<open>Replay buckets\<close>

definition bucket_ok :: "nat \<Rightarrow> nat \<Rightarrow> replay_item list \<Rightarrow> bool" where
  "bucket_ok limit seq b \<longleftrightarrow> length b \<le> limit \<and> sorted_wrt (<) (List.map (\<lambda>i. fst (snd i)) b)
     \<and> (\<forall>i \<in> set b. fst (snd i) < seq)"

definition bus_inv :: "event_bus \<Rightarrow> bool" where
  "bus_inv bus \<longleftrightarrow> dict_ok (eb_by_session bus) \<and> dict_ok (eb_by_request bus)
     \<and> (\<forall>(k, b) \<in> set (eb_by_session bus) \<union> set (eb_by_request bus). bucket_ok (eb_limit bus) (eb_next_seq bus) b)"

lemma bus_inv_new: "bus_inv (new_event_bus l t s)"
  by (simp add: bus_inv_def new_event_bus_def)

lemma bucket_ok_suffix:
  assumes "suffix c b" "bucket_ok l n b" shows "bucket_ok l n c"
proof -
  from assms(1) obtain a where "b = a @ c" by (auto simp: suffix_def)
  with assms(2) show ?thesis by (auto simp: bucket_ok_def sorted_wrt_append)
qed

lemma bucket_ok_mono: "bucket_ok l n b \<Longrightarrow> n \<le> m \<Longrightarrow> bucket_ok l m b"
  by (force simp: bucket_ok_def)

lemma bucket_ok_prune: "bucket_ok l n b \<Longrightarrow> bucket_ok l n (prune_bucket t now b)"
  unfolding prune_bucket_def by (rule bucket_ok_suffix [OF suffix_dropWhile])

lemma bucket_ok_add:
  assumes "bucket_ok l n b"
  shows "bucket_ok l (Suc n) (last_n l (prune_bucket t now (b @ [(ts, n, e)])))"
proof -
  have srt: "sorted_wrt (<) (List.map (\<lambda>i. fst (snd i)) (b @ [(ts, n, e)]))"
    using assms by (auto simp: bucket_ok_def sorted_wrt_append)
  have "suffix (last_n l (prune_bucket t now (b @ [(ts, n, e)]))) (b @ [(ts, n, e)])"
    unfolding prune_bucket_def using last_n_suffix suffix_dropWhile suffix_order.order_trans by blast
  then obtain a where a: "b @ [(ts, n, e)] = a @ last_n l (prune_bucket t now (b @ [(ts, n, e)]))"
    by (auto simp: suffix_def)
  have "\<forall>i \<in> set (b @ [(ts, n, e)]). fst (snd i) < Suc n" using assms by (auto simp: bucket_ok_def)
  with srt a show ?thesis
    unfolding bucket_ok_def by (metis (no_types, lifting) Un_iff length_last_n map_append min.cobounded1 set_append sorted_wrt_append)
qed

definition buckets_ok :: "nat \<Rightarrow> nat \<Rightarrow> replay_store \<Rightarrow> bool" where
  "buckets_ok l n st \<longleftrightarrow> dict_ok st \<and> (\<forall>(k, b) \<in> set st. bucket_ok l n b)"

lemma bus_inv_buckets:
  "bus_inv bus \<longleftrightarrow> buckets_ok (eb_limit bus) (eb_next_seq bus) (eb_by_session bus)
     \<and> buckets_ok (eb_limit bus) (eb_next_seq bus) (eb_by_request bus)"
  by (auto simp: bus_inv_def buckets_ok_def)

lemma buckets_ok_look: "buckets_ok l n st \<Longrightarrow> map_of st k = Some b \<Longrightarrow> bucket_ok l n b"
  by (auto simp: buckets_ok_def dest!: map_of_SomeD)

lemma buckets_ok_update: "buckets_ok l n st \<Longrightarrow> bucket_ok l n b \<Longrightarrow> buckets_ok l n (AList.update k b st)"
  by (auto simp: buckets_ok_def dest!: in_set_update)

lemma buckets_ok_mono: "buckets_ok l n st \<Longrightarrow> n \<le> m \<Longrightarrow> buckets_ok l m st"
  by (force simp: buckets_ok_def intro: bucket_ok_mono)

lemma buckets_ok_append:
  assumes "buckets_ok l n st"
  shows "buckets_ok l (Suc n) (append_limited l t now k (ts, n, e) st)"
proof (cases "k = [] \<or> l = 0")
  case True
  then show ?thesis using buckets_ok_mono [OF assms] by (auto simp: append_limited_def)
next
  case False
  have "bucket_ok l n (case map_of st k of None \<Rightarrow> [] | Some b \<Rightarrow> b)"
    using buckets_ok_look [OF assms] by (auto simp: bucket_ok_def [of l n "[]"] split: option.split)
  from bucket_ok_add [OF this] show ?thesis
    using False buckets_ok_mono [OF assms] by (simp add: append_limited_def Let_def buckets_ok_update)
qed

lemma buckets_ok_sweep: "buckets_ok l n st \<Longrightarrow> buckets_ok l n (sweep_store t now st)"
proof -
  assume ok: "buckets_ok l n st"
  have "dict_ok (List.map (\<lambda>(k, b). (k, prune_bucket t now b)) st)"
    unfolding dkeys_map_values using ok by (simp add: buckets_ok_def)
  then show ?thesis using ok
    by (auto simp: sweep_store_def buckets_ok_def bucket_ok_prune intro: distinct_map_filter)
qed

lemma store_recent_inv:
  assumes "bus_inv bus" shows "bus_inv (store_recent c e bus)"
proof (cases "eb_limit bus = 0")
  case False
  obtain t t1 t2 where c: "c = (t, t1, t2)" by (cases c)
  let ?b = "sweep_expired_buckets t bus"
  have "bus_inv ?b"
    using assms by (simp add: sweep_expired_buckets_def bus_inv_buckets buckets_ok_sweep)
  then show ?thesis using False by (simp add: c store_recent_def Let_def bus_inv_buckets buckets_ok_append
      sweep_expired_buckets_def [of t bus] split: if_splits)
qed (simp add: assms store_recent_def split: prod.split)

lemma publish_inv: "bus_inv bus \<Longrightarrow> bus_inv (fst (publish obs c e (bus, os)))"
  using store_recent_inv [of bus c e] by (simp add: publish_def Let_def bus_inv_def)

lemma publish_pair_inv: "bus_inv (fst st) \<Longrightarrow> bus_inv (fst (publish obs c e st))"
  by (cases st) (simp add: publish_inv)

lemma recent_events_inv: "bus_inv bus \<Longrightarrow> bus_inv (snd (recent_events stamp now q bus))"
  by (auto simp: recent_events_def Let_def prune_queried_def bus_inv_buckets
      intro!: buckets_ok_update bucket_ok_prune dest: buckets_ok_look split: option.split)

section \<open>Runs of the bus\<close>

text \<open>The states a bus can reach, with its observers' state, from the one the application starts with.\<close>

inductive bus_reach :: "('o \<Rightarrow> jval \<Rightarrow> 'o) list \<Rightarrow> event_bus \<times> 'o \<Rightarrow> event_bus \<times> 'o \<Rightarrow> bool"
    for obs :: "('o \<Rightarrow> jval \<Rightarrow> 'o) list" and s0 :: "event_bus \<times> 'o" where
  start: "bus_reach obs s0 s0"
| publishes: "bus_reach obs s0 s \<Longrightarrow> bus_reach obs s0 (publish obs c e s)"
| opens: "bus_reach obs s0 (bus, os) \<Longrightarrow> bus_reach obs s0 (snd (snd (ws_opening stamp now query bus)), os)"
| reads: "bus_reach obs s0 (bus, os) \<Longrightarrow> bus_reach obs s0 (snd (recent_events stamp now q bus), os)"
| subscribes: "bus_reach obs s0 (bus, os) \<Longrightarrow> bus_reach obs s0 (snd (subscribe f bus), os)"
| takes: "bus_reach obs s0 (bus, os) \<Longrightarrow> bus_reach obs s0 (snd (take_event h bus), os)"
| closes: "bus_reach obs s0 (bus, os) \<Longrightarrow> bus_reach obs s0 (ws_close h bus, os)"

definition queues_ok :: "event_bus \<Rightarrow> bool" where
  "queues_ok bus \<longleftrightarrow> (\<forall>(h, sub) \<in> set (eb_subs bus). length (sub_queue sub) \<le> QUEUE_MAX)"

lemma bus_inv_subs:
  "bus_inv (bus\<lparr>eb_subs := x\<rparr>) = bus_inv bus" "bus_inv (bus\<lparr>eb_subs := x, eb_next_sub := y\<rparr>) = bus_inv bus"
  by (simp_all add: bus_inv_def)

lemma subscribe_keeps: "bus_inv bus \<Longrightarrow> queues_ok bus \<Longrightarrow>
    bus_inv (snd (subscribe f bus)) \<and> queues_ok (snd (subscribe f bus)) \<and> eb_limit (snd (subscribe f bus)) = eb_limit bus"
  by (auto simp: subscribe_def Let_def bus_inv_subs queues_ok_def)

lemma prune_queried_fields [simp]:
  "eb_subs (prune_queried now q bus) = eb_subs bus" "eb_limit (prune_queried now q bus) = eb_limit bus"
  by (simp_all add: prune_queried_def split: option.split)

lemma recent_keeps: "bus_inv bus \<Longrightarrow> queues_ok bus \<Longrightarrow>
    bus_inv (snd (recent_events stamp now q bus)) \<and> queues_ok (snd (recent_events stamp now q bus))
    \<and> eb_limit (snd (recent_events stamp now q bus)) = eb_limit bus"
  by (simp add: recent_events_inv) (simp add: recent_events_def Let_def queues_ok_def)

lemma opening_keeps:
  assumes "bus_inv bus" "queues_ok bus"
  shows "bus_inv (snd (snd (ws_opening stamp now query bus)))
    \<and> queues_ok (snd (snd (ws_opening stamp now query bus)))
    \<and> eb_limit (snd (snd (ws_opening stamp now query bus))) = eb_limit bus"
proof -
  obtain h bus1 where s: "subscribe (ws_filters query) bus = (h, bus1)" by fastforce
  have "bus_inv bus1" "queues_ok bus1" "eb_limit bus1 = eb_limit bus"
    using subscribe_keeps [OF assms, of "ws_filters query"] by (simp_all add: s)
  then show ?thesis
    using recent_keeps [of bus1 stamp now "ws_replay_query query bus1"]
    by (simp add: ws_opening_def s Let_def case_prod_beta')
qed

lemma take_keeps: "bus_inv bus \<Longrightarrow> queues_ok bus \<Longrightarrow>
    bus_inv (snd (take_event h bus)) \<and> queues_ok (snd (take_event h bus)) \<and> eb_limit (snd (take_event h bus)) = eb_limit bus"
  by (fastforce simp: take_event_def bus_inv_subs queues_ok_def dest: in_set_update map_of_SomeD
      split: option.split list.split)

lemma offer_bound: "length (sub_queue sub) \<le> QUEUE_MAX \<Longrightarrow> length (sub_queue (offer e sub)) \<le> QUEUE_MAX"
  by (simp add: offer_latest)

lemma publish_keeps: "bus_inv bus \<Longrightarrow> queues_ok bus \<Longrightarrow>
    bus_inv (fst (publish obs c e (bus, os))) \<and> queues_ok (fst (publish obs c e (bus, os)))
    \<and> eb_limit (fst (publish obs c e (bus, os))) = eb_limit bus"
  by (simp add: publish_inv)
     (auto simp: publish_def Let_def queues_ok_def offer_bound store_recent_def sweep_expired_buckets_def split: prod.split)

lemma close_keeps: "bus_inv bus \<Longrightarrow> queues_ok bus \<Longrightarrow>
    bus_inv (ws_close h bus) \<and> queues_ok (ws_close h bus) \<and> eb_limit (ws_close h bus) = eb_limit bus"
  by (auto simp: ws_close_def unsubscribe_def bus_inv_subs queues_ok_def delete_filter)

text \<open>C27: whatever is published, queried, opened or closed, the bus stays within its bounds: every replay bucket
  holds at most the replay limit of events, in strictly increasing publication order, and no
  subscriber's queue exceeds 100.\<close>

theorem bus_stays_bounded:
  assumes "bus_reach obs (new_event_bus limit ttl sweep, os0) (bus, os)"
  shows "bus_inv bus \<and> queues_ok bus \<and> eb_limit bus = nat (max 0 limit)"
  using assms
proof (induction "(bus, os)" arbitrary: bus os rule: bus_reach.induct)
  case start
  then show ?case by (simp add: bus_inv_new) (simp add: new_event_bus_def queues_ok_def)
next
  case (publishes s c e)
  then show ?case using publish_keeps [of "fst s" obs c e "snd s"] by (cases s) auto
qed (auto simp: opening_keeps recent_keeps subscribe_keeps take_keeps close_keeps)

lemma bus_stays_bounded_witness:
  "eb_limit (fst (publish [observe_event] (1, 1, 1) [(''session_id'', JStr ''s'')]
      (new_event_bus 2 60 1, new_pending_store 3))) = 2"
proof -
  have "bus_reach [observe_event] (new_event_bus 2 60 1, new_pending_store 3)
     (publish [observe_event] (1, 1, 1) [(''session_id'', JStr ''s'')] (new_event_bus 2 60 1, new_pending_store 3))"
    by (intro bus_reach.publishes bus_reach.start)
  then have "bus_reach [observe_event] (new_event_bus 2 60 1, new_pending_store 3)
     (fst (publish [observe_event] (1, 1, 1) [(''session_id'', JStr ''s'')] (new_event_bus 2 60 1, new_pending_store 3)),
      snd (publish [observe_event] (1, 1, 1) [(''session_id'', JStr ''s'')] (new_event_bus 2 60 1, new_pending_store 3)))"
    by simp
  from bus_stays_bounded [OF this] show ?thesis by simp
qed

section \<open>What a replay query returns\<close>

lemma collect_items_filter:
  assumes "distinct (List.map (\<lambda>i. fst (snd i)) b)" "\<forall>i \<in> set b. fst (snd i) \<notin> set seen"
  shows "collect_items stamp q seen b = filter (wanted stamp q) b"
  using assms
proof (induction b arbitrary: seen)
  case (Cons i b)
  then have "\<forall>j \<in> set b. fst (snd j) \<notin> set (fst (snd i) # seen)" "\<forall>j \<in> set b. fst (snd j) \<notin> set seen"
    by (fastforce simp: image_iff)+
  with Cons show ?case by (simp add: Let_def)
qed simp

lemma sort_pair_strict:
  assumes "distinct (List.map (\<lambda>i. fst (snd i)) xs)"
  shows "sorted_wrt (\<lambda>x y. sort_pair stamp x < sort_pair stamp y) (sort_key (sort_pair stamp) xs)"
proof -
  have inj: "inj_on (sort_pair stamp) (set xs)"
  proof (rule inj_onI)
    fix x y assume "x \<in> set xs" "y \<in> set xs" "sort_pair stamp x = sort_pair stamp y"
    moreover from this have "fst (snd x) = fst (snd y)" by (simp add: sort_pair_def split: prod.splits)
    ultimately show "x = y" using assms inj_onD [of "\<lambda>i. fst (snd i)" "set xs" x y] by (simp add: distinct_map)
  qed
  have "distinct xs" using assms by (simp add: distinct_map)
  then have "distinct (List.map (sort_pair stamp) (sort_key (sort_pair stamp) xs))"
    using inj by (simp add: distinct_map)
  then have "sorted_wrt (<) (List.map (sort_pair stamp) (sort_key (sort_pair stamp) xs))"
    by (simp add: strict_sorted_iff)
  then show ?thesis by (simp add: sorted_wrt_map)
qed

lemma query_bucket_ok: "bus_inv bus \<Longrightarrow> bucket_ok (eb_limit bus) (eb_next_seq bus) (query_bucket now q bus)"
  by (auto simp: query_bucket_def bus_inv_buckets bucket_ok_def [of _ _ "[]"]
      intro!: bucket_ok_prune dest: buckets_ok_look split: option.split)

lemma last_n_split: "\<exists>ys. xs = ys @ last_n n xs \<and> (ys \<noteq> [] \<longrightarrow> length (last_n n xs) = n)"
  by (rule exI [of _ "take (length xs - n) xs"]) (auto simp: last_n_def)

text \<open>a replay query returns the newest of the stored, unexpired events it asks for, oldest first and marked
  as replayed, at most as many as asked and as the replay limit allows; an event of the query's bucket
  that passes its filters is left out only when that many later ones were returned.\<close>

theorem replay_returns_newest_wanted:
  assumes "bus_inv bus"
  shows "\<exists>items. fst (recent_events stamp now q bus) = List.map (\<lambda>i. mark_replayed (snd (snd i))) items
      \<and> sorted_wrt (\<lambda>x y. sort_pair stamp x < sort_pair stamp y) items
      \<and> length items \<le> replay_cap bus q \<and> replay_cap bus q \<le> eb_limit bus
      \<and> set items \<subseteq> {i \<in> set (query_bucket now q bus). wanted stamp q i}
      \<and> {i \<in> set (query_bucket now q bus). wanted stamp q i} - set items
          \<subseteq> {i. length items = replay_cap bus q \<and> list_all (\<lambda>j. sort_pair stamp i < sort_pair stamp j) items}"
proof -
  let ?b = "query_bucket now q bus" and ?n = "replay_cap bus q"
  let ?all = "sort_key (sort_pair stamp) (filter (wanted stamp q) ?b)"
  have "distinct (List.map (\<lambda>i. fst (snd i)) ?b)"
    using query_bucket_ok [OF assms, of now q] by (simp add: bucket_ok_def strict_sorted_iff)
  then have coll: "collect_items stamp q [] ?b = filter (wanted stamp q) ?b"
    and dist: "distinct (List.map (\<lambda>i. fst (snd i)) (filter (wanted stamp q) ?b))"
    by (simp_all add: collect_items_filter distinct_map_filter)
  obtain ys where ys: "?all = ys @ last_n ?n ?all" "ys \<noteq> [] \<longrightarrow> length (last_n ?n ?all) = ?n"
    using last_n_split by blast
  have srt: "sorted_wrt (\<lambda>x y. sort_pair stamp x < sort_pair stamp y) (ys @ last_n ?n ?all)"
    using sort_pair_strict [OF dist, of stamp] ys(1) by simp
  have mem: "{i \<in> set ?b. wanted stamp q i} = set ys \<union> set (last_n ?n ?all)"
    using arg_cong [OF ys(1), of set] by auto
  show ?thesis
  proof (intro exI [of _ "last_n ?n ?all"] conjI)
    show "fst (recent_events stamp now q bus) = List.map (\<lambda>i. mark_replayed (snd (snd i))) (last_n ?n ?all)"
      by (simp add: recent_events_def coll)
    show "?n \<le> eb_limit bus" by (auto simp: replay_cap_def split: option.split)
    show "{i \<in> set ?b. wanted stamp q i} - set (last_n ?n ?all)
        \<subseteq> {i. length (last_n ?n ?all) = ?n \<and> list_all (\<lambda>j. sort_pair stamp i < sort_pair stamp j) (last_n ?n ?all)}"
      using srt ys(2) by (auto simp: mem sorted_wrt_append list_all_iff)
  qed (use srt mem in \<open>auto simp: sorted_wrt_append\<close>)
qed

definition example_query :: replay_query where
  "example_query = \<lparr>rq_session = ''s'', rq_request = [], rq_limit = Some 1, rq_types = [], rq_after = None\<rparr>"

definition example_bus :: event_bus where
  "example_bus = fst (publish_all [observe_event] [((1, 1, 1), [(''session_id'', JStr ''s'')]),
     ((2, 2, 2), [(''session_id'', JStr ''s'')])] (new_event_bus 2 60 1, new_pending_store 3))"

lemma replay_returns_newest_wanted_witness:
  "length (fst (recent_events (\<lambda>s. None) 5 example_query example_bus)) \<le> 1"
proof -
  have inv: "bus_inv example_bus"
    by (simp add: example_bus_def publish_all_def publish_pair_inv bus_inv_new)
  have "replay_cap example_bus example_query = 1" by code_simp
  with replay_returns_newest_wanted [OF inv, of "\<lambda>s. None" 5 example_query] show ?thesis
    by (elim exE conjE) simp
qed

end
