(* ===== verification/SessionStore.thy ===== *)
theory SessionStore
  imports StoreContracts PyFloat
begin

text \<open>
  \<^verbatim>\<open>session_store.py\<close>: the portal's sessions, kept in memory and written through to
  \<^verbatim>\<open>index.json\<close>. A state is the dict \<open>_sessions\<close>, the index file (absent, a JSON document or text that
  is not JSON) and the quarantined copies. The clock's reading \<open>now\<close> (an ISO string) is an argument of
  every operation that stamps a record. Raised exceptions are the left values of a sum.
\<close>

record session_record =
  sr_portal_session_id :: string
  sr_opencode_session_id :: string
  sr_title :: string
  sr_agent :: "string option"
  sr_model :: "string option"
  sr_created_at :: string
  sr_updated_at :: string
  sr_last_message :: string
  sr_message_count :: int
  sr_deleted :: bool
  sr_partial_recovery :: bool
  sr_custom_title :: "string option"
  sr_generated_title :: "string option"

definition TASK_SESSION_ID_PREFIXES :: "string list" where
  "TASK_SESSION_ID_PREFIXES = [''agent-task:'', ''agent-task-'', ''generic-task:'', ''generic-task-'',
     ''delegation:'', ''delegation-'', ''task-'']"

definition session_id_is_task_session :: "jval \<Rightarrow> bool" where
  "session_id_is_task_session v =
     (case v of JStr s \<Rightarrow> list_ex (startswith (py_strip s)) TASK_SESSION_ID_PREFIXES | _ \<Rightarrow> False)"

section \<open>Names\<close>

definition clean_name :: "jval \<Rightarrow> string option" where
  "clean_name v = (case v of JStr s \<Rightarrow> if py_strip s \<noteq> [] then Some (py_strip s) else None | _ \<Rightarrow> None)"

definition opt_str :: "string option \<Rightarrow> jval" where
  "opt_str x = (case x of None \<Rightarrow> JNull | Some s \<Rightarrow> JStr s)"

definition session_display_name :: "session_record \<Rightarrow> string" where
  "session_display_name r =
     (case clean_name (opt_str (sr_custom_title r)) of Some n \<Rightarrow> n
      | None \<Rightarrow> (case clean_name (opt_str (sr_generated_title r)) of Some n \<Rightarrow> n
      | None \<Rightarrow> (case clean_name (JStr (sr_title r)) of Some n \<Rightarrow> n | None \<Rightarrow> ''Chat'')))"

definition session_name_source :: "session_record \<Rightarrow> string" where
  "session_name_source r =
     (if clean_name (opt_str (sr_custom_title r)) \<noteq> None then ''custom''
      else if clean_name (opt_str (sr_generated_title r)) \<noteq> None then ''generated''
      else if clean_name (JStr (sr_title r)) \<noteq> None then ''derived''
      else ''none'')"

definition session_title_metadata :: "session_record option \<Rightarrow> (string \<times> string) list" where
  "session_title_metadata x =
     (case x of None \<Rightarrow> []
      | Some r \<Rightarrow> if session_name_source r \<notin> {''custom'', ''generated''} then []
                 else [(''session_title'', session_display_name r)])"

section \<open>The store and its file\<close>

record session_store =
  ss_sessions :: "(string, session_record) odict"
  ss_index :: "jfile option"
  ss_backups :: "(string \<times> jfile) list"

type_synonym session_result = "py_error + (session_record \<times> session_store)"

definition stamp_suffix :: "string \<Rightarrow> string" where
  "stamp_suffix now = replace_char (CHR ''/'') ''_'' (replace_char (CHR ''+'') ''_''
     (replace_char (CHR '':'') [] now))"

definition quarantine_corrupt_index :: "string \<Rightarrow> session_store \<Rightarrow> session_store" where
  "quarantine_corrupt_index now st =
     (case ss_index st of None \<Rightarrow> st
      | Some f \<Rightarrow> st\<lparr>ss_index := None,
          ss_backups := AList.update (''index.json.corrupt-'' @ stamp_suffix now) f (ss_backups st)\<rparr>)"

definition str_field :: "jval \<Rightarrow> string option" where
  "str_field v = (case v of JStr s \<Rightarrow> Some s | _ \<Rightarrow> None)"

definition str_field_or :: "jval \<Rightarrow> string \<Rightarrow> string" where
  "str_field_or v d = (case v of JStr s \<Rightarrow> s | _ \<Rightarrow> d)"

definition load_record :: "string \<Rightarrow> string \<Rightarrow> jobj \<Rightarrow> session_record" where
  "load_record now portal_id raw =
     \<lparr>sr_portal_session_id = py_str (jget_def raw ''portal_session_id'' (JStr portal_id)),
      sr_opencode_session_id = str_or_empty (jget_def raw ''opencode_session_id'' (JStr [])),
      sr_title = py_str (py_or (jget_def raw ''title'' (JStr ''Chat'')) (JStr ''Chat'')),
      sr_agent = str_field (jget raw ''agent''),
      sr_model = str_field (jget raw ''model''),
      sr_created_at = str_field_or (jget raw ''created_at'') now,
      sr_updated_at = str_field_or (jget raw ''updated_at'') now,
      sr_last_message = str_field_or (jget raw ''last_message'') [],
      sr_message_count = safe_int (jget raw ''message_count'') 0,
      sr_deleted = truthy (jget_def raw ''deleted'' (JBool False)),
      sr_partial_recovery = truthy (jget_def raw ''partial_recovery'' (JBool False)),
      sr_custom_title = clean_name (jget raw ''custom_title''),
      sr_generated_title = clean_name (jget raw ''generated_title'')\<rparr>"

fun load_entries :: "string \<Rightarrow> (string \<times> jval) list \<Rightarrow> (string, session_record) odict \<Rightarrow>
    (string, session_record) odict" where
  "load_entries now [] loaded = loaded"
| "load_entries now ((portal_id, raw) # rest) loaded =
     (case raw of
        JObj d \<Rightarrow> (let r = load_record now portal_id d in
                  if sr_opencode_session_id r \<noteq> []
                  then load_entries now rest (AList.update portal_id r loaded)
                  else load_entries now rest loaded)
      | _ \<Rightarrow> load_entries now rest loaded)"

definition session_load :: "string \<Rightarrow> session_store \<Rightarrow> session_store" where
  "session_load now st =
     (case ss_index st of
        None \<Rightarrow> st\<lparr>ss_sessions := []\<rparr>
      | Some NotJson \<Rightarrow> (quarantine_corrupt_index now st)\<lparr>ss_sessions := []\<rparr>
      | Some (JsonText payload) \<Rightarrow>
          (case payload of
             JObj p \<Rightarrow>
               (case jget_def p ''sessions'' (JObj []) of
                  JObj sessions \<Rightarrow> st\<lparr>ss_sessions := load_entries now sessions []\<rparr>
                | _ \<Rightarrow> st\<lparr>ss_sessions := []\<rparr>)
           | _ \<Rightarrow> (quarantine_corrupt_index now st)\<lparr>ss_sessions := []\<rparr>))"

text \<open>\<^verbatim>\<open>asdict(record)\<close>, in the dataclass's field order.\<close>

definition session_asdict :: "session_record \<Rightarrow> jval" where
  "session_asdict r = JObj
     [(''portal_session_id'', JStr (sr_portal_session_id r)),
      (''opencode_session_id'', JStr (sr_opencode_session_id r)),
      (''title'', JStr (sr_title r)),
      (''agent'', opt_str (sr_agent r)),
      (''model'', opt_str (sr_model r)),
      (''created_at'', JStr (sr_created_at r)),
      (''updated_at'', JStr (sr_updated_at r)),
      (''last_message'', JStr (sr_last_message r)),
      (''message_count'', JInt (sr_message_count r)),
      (''deleted'', JBool (sr_deleted r)),
      (''partial_recovery'', JBool (sr_partial_recovery r)),
      (''custom_title'', opt_str (sr_custom_title r)),
      (''generated_title'', opt_str (sr_generated_title r))]"

definition session_document :: "(string, session_record) odict \<Rightarrow> jval" where
  "session_document d = JObj [(''sessions'', JObj (List.map (\<lambda>(k, r). (k, session_asdict r)) d))]"

definition session_save :: "session_store \<Rightarrow> session_store" where
  "session_save st = st\<lparr>ss_index := Some (JsonText (session_document (ss_sessions st)))\<rparr>"

definition session_list_active :: "session_store \<Rightarrow> session_record list" where
  "session_list_active st = filter (\<lambda>r. \<not> sr_deleted r) (List.map snd (ss_sessions st))"

definition session_get :: "session_store \<Rightarrow> string \<Rightarrow> session_record option" where
  "session_get st k = map_of (ss_sessions st) k"

definition find_by_opencode_session_id :: "session_store \<Rightarrow> string \<Rightarrow> session_record option" where
  "find_by_opencode_session_id st oid =
     find (\<lambda>r. sr_opencode_session_id r = oid) (session_list_active st)"

definition session_upsert :: "session_record \<Rightarrow> session_store \<Rightarrow> session_store" where
  "session_upsert r st =
     session_save (st\<lparr>ss_sessions := AList.update (sr_portal_session_id r) r (ss_sessions st)\<rparr>)"

definition session_rename :: "string \<Rightarrow> string \<Rightarrow> string \<Rightarrow> session_store \<Rightarrow> session_result" where
  "session_rename now k title st =
     (case session_get st k of None \<Rightarrow> Inl KeyError
      | Some r \<Rightarrow>
          let u = r\<lparr>sr_title := title, sr_custom_title := Some title, sr_updated_at := now\<rparr>
          in Inr (u, session_upsert u st))"

definition set_generated_title :: "string \<Rightarrow> string \<Rightarrow> session_store \<Rightarrow> session_result" where
  "set_generated_title k title st =
     (case session_get st k of None \<Rightarrow> Inl KeyError
      | Some r \<Rightarrow> let u = r\<lparr>sr_generated_title := clean_name (JStr title)\<rparr> in Inr (u, session_upsert u st))"

definition mark_deleted :: "string \<Rightarrow> string \<Rightarrow> session_store \<Rightarrow> session_record option \<times> session_store" where
  "mark_deleted now k st =
     (case session_get st k of None \<Rightarrow> (None, st)
      | Some r \<Rightarrow> let u = r\<lparr>sr_deleted := True, sr_updated_at := now\<rparr> in (Some u, session_upsert u st))"

definition session_clear :: "string \<Rightarrow> session_store \<Rightarrow> session_record list \<times> session_store" where
  "session_clear now st =
     (let cleared = List.map (\<lambda>r. r\<lparr>sr_deleted := True, sr_updated_at := now\<rparr>) (session_list_active st) in
      (cleared, session_save (st\<lparr>ss_sessions :=
         fold (\<lambda>r d. AList.update (sr_portal_session_id r) r d) cleared (ss_sessions st)\<rparr>)))"

definition str_opt_or :: "string option \<Rightarrow> string option \<Rightarrow> string option" where
  "str_opt_or x y = (case x of None \<Rightarrow> y | Some s \<Rightarrow> if s = [] then y else x)"

definition update_after_chat ::
    "string \<Rightarrow> string \<Rightarrow> string \<Rightarrow> string \<Rightarrow> string option \<Rightarrow> string option \<Rightarrow> session_store \<Rightarrow> session_result"
where
  "update_after_chat now k last_message assistant_text model agent st =
     (case session_get st k of None \<Rightarrow> Inl KeyError
      | Some r \<Rightarrow>
          if sr_deleted r then Inr (r, st)
          else let u = r\<lparr>sr_model := str_opt_or model (sr_model r), sr_agent := str_opt_or agent (sr_agent r),
                 sr_last_message := (if assistant_text \<noteq> [] then assistant_text else last_message),
                 sr_message_count := max (sr_message_count r + 2) 2, sr_updated_at := now, sr_deleted := False\<rparr>
               in Inr (u, session_upsert u st))"

text \<open>\<^verbatim>\<open>SessionDeletedError\<close> beside the \<^verbatim>\<open>KeyError\<close> of a missing session.\<close>

datatype session_error = SessionMissing | SessionDeletedError

definition replace_opencode_session_after_mutation ::
    "string \<Rightarrow> string \<Rightarrow> string \<Rightarrow> int \<Rightarrow> string \<Rightarrow> session_store \<Rightarrow>
      session_error + (session_record \<times> session_store)" where
  "replace_opencode_session_after_mutation now k oid message_count last_message st =
     (case session_get st k of None \<Rightarrow> Inl SessionMissing
      | Some r \<Rightarrow>
          if sr_deleted r then Inl SessionDeletedError
          else let u = r\<lparr>sr_opencode_session_id := oid, sr_updated_at := now,
                 sr_last_message := last_message, sr_message_count := max 0 message_count,
                 sr_deleted := False\<rparr>
               in Inr (u, session_upsert u st))"

definition session_title_metadata_for :: "session_store option \<Rightarrow> string \<Rightarrow> (string \<times> string) list" where
  "session_title_metadata_for store k =
     (case store of None \<Rightarrow> [] | Some st \<Rightarrow> if k = [] then [] else session_title_metadata (session_get st k))"

section \<open>A run of the store's mutators\<close>

datatype session_op =
    Upsert session_record
  | Rename string string string
  | SetTitle string string
  | MarkDeleted string string
  | ClearAll string
  | AfterChat string string string string "string option" "string option"
  | Replace string string string int string

fun session_step :: "session_op \<Rightarrow> session_store \<Rightarrow> session_store" where
  "session_step (Upsert r) st = session_upsert r st"
| "session_step (Rename now k t) st = (case session_rename now k t st of Inl e \<Rightarrow> st | Inr (r, s) \<Rightarrow> s)"
| "session_step (SetTitle k t) st = (case set_generated_title k t st of Inl e \<Rightarrow> st | Inr (r, s) \<Rightarrow> s)"
| "session_step (MarkDeleted now k) st = snd (mark_deleted now k st)"
| "session_step (ClearAll now) st = snd (session_clear now st)"
| "session_step (AfterChat now k l a m g) st =
     (case update_after_chat now k l a m g st of Inl e \<Rightarrow> st | Inr (r, s) \<Rightarrow> s)"
| "session_step (Replace now k oid n l) st =
     (case replace_opencode_session_after_mutation now k oid n l st of Inl e \<Rightarrow> st | Inr (r, s) \<Rightarrow> s)"

text \<open>Every mutator writes one record (or none) under the key it read; \<open>clear\<close> writes several.\<close>

definition session_inv :: "session_store \<Rightarrow> bool" where
  "session_inv st \<longleftrightarrow> dict_ok (ss_sessions st) \<and>
     (\<forall>(k, r) \<in> set (ss_sessions st). sr_portal_session_id r = k) \<and>
     ss_index st = Some (JsonText (session_document (ss_sessions st)))"

lemma session_inv_get: "session_inv st \<Longrightarrow> session_get st k = Some r \<Longrightarrow> sr_portal_session_id r = k"
  by (auto simp: session_inv_def session_get_def dest!: map_of_SomeD)

lemma session_upsert_simps [simp]:
  "ss_sessions (session_upsert r st) = AList.update (sr_portal_session_id r) r (ss_sessions st)"
  "ss_index (session_upsert r st) = Some (JsonText (session_document (AList.update (sr_portal_session_id r) r (ss_sessions st))))"
  "ss_backups (session_upsert r st) = ss_backups st"
  by (simp_all add: session_upsert_def session_save_def)

lemma session_get_upsert [simp]:
  "session_get (session_upsert r st) = (session_get st)(sr_portal_session_id r \<mapsto> r)"
  by (rule ext) (simp add: session_get_def)

lemma in_update_dict: "(s, x) \<in> set (AList.update k v d) \<Longrightarrow> (s, x) = (k, v) \<or> (s, x) \<in> set d"
  by (induction d) (auto split: if_splits)

lemma session_inv_upsert [simp, intro]: "session_inv st \<Longrightarrow> session_inv (session_upsert r st)"
  by (auto simp: session_inv_def dest!: in_update_dict)

interpretation sessions: keyed_store sr_portal_session_id session_get session_upsert session_inv
  by unfold_locales auto

definition session_puts :: "session_record list \<Rightarrow> session_store \<Rightarrow> session_store" where
  "session_puts rs st = session_save (st\<lparr>ss_sessions :=
     fold (\<lambda>r d. AList.update (sr_portal_session_id r) r d) rs (ss_sessions st)\<rparr>)"

lemma session_puts_fold:
  "session_inv st \<Longrightarrow> session_puts rs st = fold session_upsert rs st"
proof (induction rs arbitrary: st)
  case Nil
  then show ?case by (simp add: session_puts_def session_save_def session_inv_def)
next
  case (Cons r rs)
  have "session_puts (r # rs) st = session_puts rs (session_upsert r st)"
    by (simp add: session_puts_def session_save_def session_upsert_def)
  then show ?case using Cons by simp
qed

lemma session_clear_puts:
  "session_clear now st = (let cs = List.map (\<lambda>r. r\<lparr>sr_deleted := True, sr_updated_at := now\<rparr>)
     (session_list_active st) in (cs, session_puts cs st))"
  by (simp add: session_clear_def session_puts_def Let_def)

lemmas session_ops = session_rename_def set_generated_title_def mark_deleted_def update_after_chat_def
  replace_opencode_session_after_mutation_def

lemma session_inv_step: "session_inv st \<Longrightarrow> session_inv (session_step x st)"
  by (cases x) (auto simp: session_ops Let_def session_clear_puts session_puts_fold sessions.ok_puts
      split: option.splits)

lemma session_inv_run: "session_inv st \<Longrightarrow> session_inv (fold session_step xs st)"
  by (induction xs arbitrary: st) (auto intro: session_inv_step)

section \<open>Reloading\<close>

text \<open>What a record reads back as: a blank created title becomes \<open>Chat\<close>, names are stripped.\<close>

definition session_norm :: "session_record \<Rightarrow> session_record" where
  "session_norm r = r\<lparr>sr_title := (if sr_title r = [] then ''Chat'' else sr_title r),
     sr_custom_title := clean_name (opt_str (sr_custom_title r)),
     sr_generated_title := clean_name (opt_str (sr_generated_title r))\<rparr>"

lemma str_field_simps [simp]:
  "str_field (opt_str x) = x"
  "str_field_or (JStr s) d = s"
  by (auto simp: str_field_def str_field_or_def opt_str_def split: option.split)

lemma load_record_asdict:
  assumes "\<bar>sr_message_count r\<bar> < 2 ^ 53" "session_asdict r = JObj d"
  shows "load_record now k d = session_norm r"
proof -
  have d: "session_asdict r = JObj d" by (rule assms(2))
  show ?thesis
    using d unfolding session_asdict_def jval.inject
    by (elim subst) (simp add: load_record_def session_norm_def safe_int_exact [OF assms(1)] py_or_def)
qed

definition storable :: "session_record \<Rightarrow> bool" where
  "storable r = (sr_opencode_session_id r \<noteq> [] \<and> \<bar>sr_message_count r\<bar> < 2 ^ 53)"

lemma load_entries_document:
  "dict_ok (acc @ d) \<Longrightarrow> list_all (\<lambda>(k, r). storable r) d \<Longrightarrow>
   load_entries now (List.map (\<lambda>(k, r). (k, session_asdict r)) d) acc =
     acc @ List.map (\<lambda>(k, r). (k, session_norm r)) d"
proof (induction d arbitrary: acc)
  case (Cons a d)
  obtain k r where a: "a = (k, r)" by (cases a)
  obtain f where f: "session_asdict r = JObj f" by (simp add: session_asdict_def)
  have n: "load_record now k f = session_norm r"
    using load_record_asdict [OF _ f] Cons.prems a by (simp add: storable_def)
  have oid: "sr_opencode_session_id (session_norm r) \<noteq> []"
    using Cons.prems a by (simp add: session_norm_def storable_def)
  have u: "AList.update k (session_norm r) acc = acc @ [(k, session_norm r)]"
    using Cons.prems a by (intro update_new) (auto simp: map_of_eq_None_iff)
  have "load_entries now (List.map (\<lambda>(k, r). (k, session_asdict r)) (a # d)) acc =
      load_entries now (List.map (\<lambda>(k, r). (k, session_asdict r)) d) (acc @ [(k, session_norm r)])"
    using Cons.prems a oid by (simp add: f n u)
  also have "\<dots> = (acc @ [(k, session_norm r)]) @ List.map (\<lambda>(k, r). (k, session_norm r)) d"
    using Cons.prems a by (intro Cons.IH) auto
  finally show ?case by (simp add: a)
qed simp

lemma clean_name_idem: "clean_name (opt_str (clean_name v)) = clean_name v"
  by (auto simp: clean_name_def opt_str_def split: jval.split)

lemma py_strip_Nil [simp]: "py_strip [] = []"
  by (simp add: py_strip_def py_lstrip_def py_rstrip_def)

lemma strip_Chat: "py_strip ''Chat'' = ''Chat''"
  by code_simp

lemma display_name_norm: "session_display_name (session_norm r) = session_display_name r"
  by (auto simp: session_display_name_def session_norm_def clean_name_idem split: option.split)
     (auto simp: clean_name_def strip_Chat)

section \<open>Deletion and names across runs\<close>

lemma step_deleted:
  assumes "session_inv st" "session_get st k = Some r" "sr_deleted r" "\<forall>u. x \<noteq> Upsert u"
  shows "\<exists>r'. session_get (session_step x st) k = Some r' \<and> sr_deleted r'"
proof (cases x)
  case (ClearAll now)
  show ?thesis
  proof (cases "k \<in> sr_portal_session_id ` set (fst (session_clear now st))")
    case False
    then show ?thesis
      using assms sessions.look_puts_other [OF assms(1) False] ClearAll
      by (auto simp: session_clear_puts session_puts_fold Let_def)
  next
    case True
    then have "map_of (rev (List.map (\<lambda>r. (sr_portal_session_id r, r)) (fst (session_clear now st)))) k \<noteq> None"
      by (simp add: map_of_eq_None_iff image_image)
    then obtain u where "map_of (rev (List.map (\<lambda>r. (sr_portal_session_id r, r)) (fst (session_clear now st)))) k = Some u"
      by blast
    moreover from this have "sr_deleted u"
      by (auto dest!: map_of_SomeD simp: session_clear_puts Let_def)
    ultimately show ?thesis
      using sessions.look_puts [OF assms(1), of "fst (session_clear now st)"] assms(1) ClearAll
      by (auto simp: session_clear_puts session_puts_fold Let_def map_add_def)
  qed
qed (use assms session_inv_get [OF assms(1)] in
      \<open>auto simp: session_ops Let_def split: option.splits\<close>)

lemma run_deleted:
  "session_inv st \<Longrightarrow> session_get st k = Some r \<Longrightarrow> sr_deleted r \<Longrightarrow>
   list_all (\<lambda>x. \<forall>u. x \<noteq> Upsert u) xs \<Longrightarrow>
   \<exists>r'. session_get (fold session_step xs st) k = Some r' \<and> sr_deleted r'"
proof (induction xs arbitrary: st r)
  case (Cons x xs)
  then obtain r' where "session_get (session_step x st) k = Some r'" "sr_deleted r'"
    using step_deleted [OF Cons.prems(1-3), of x] by auto
  then show ?case using Cons session_inv_step by simp
qed simp

text \<open>The mutators that run after a rename without renaming again.\<close>

fun keeps_name :: "string \<Rightarrow> session_op \<Rightarrow> bool" where
  "keeps_name k (Upsert r) = (sr_portal_session_id r \<noteq> k)"
| "keeps_name k (Rename now k' t) = (k' \<noteq> k)"
| "keeps_name k _ = True"

lemma step_custom:
  assumes "session_inv st" "session_get st k = Some r" "keeps_name k x"
  shows "\<exists>r'. session_get (session_step x st) k = Some r' \<and> sr_custom_title r' = sr_custom_title r"
proof (cases x)
  case (ClearAll now)
  let ?cs = "List.map (\<lambda>r. r\<lparr>sr_deleted := True, sr_updated_at := now\<rparr>) (session_list_active st)"
  have st: "session_step x st = fold session_upsert ?cs st"
    using ClearAll assms(1) by (simp add: session_clear_puts session_puts_fold Let_def)
  show ?thesis
  proof (cases "map_of (rev (List.map (\<lambda>r. (sr_portal_session_id r, r)) ?cs)) k")
    case None
    then show ?thesis using assms(2) by (simp add: st sessions.look_puts [OF assms(1)] map_add_def)
  next
    case (Some u)
    then have "u \<in> set ?cs" "sr_portal_session_id u = k" by (auto dest!: map_of_SomeD)
    then obtain v where v: "v \<in> set (session_list_active st)" "sr_portal_session_id v = k"
      "sr_custom_title u = sr_custom_title v" by auto
    then have "session_get st k = Some v"
      using assms(1) by (auto simp: session_list_active_def session_get_def session_inv_def
          intro!: map_of_is_SomeI)
    with assms(2) v Some show ?thesis by (simp add: st sessions.look_puts [OF assms(1)] map_add_def)
  qed
qed (use assms session_inv_get [OF assms(1)] in
      \<open>auto simp: session_ops Let_def split: option.splits\<close>)

lemma run_custom:
  "session_inv st \<Longrightarrow> session_get st k = Some r \<Longrightarrow> list_all (keeps_name k) xs \<Longrightarrow>
   \<exists>r'. session_get (fold session_step xs st) k = Some r' \<and> sr_custom_title r' = sr_custom_title r"
proof (induction xs arbitrary: st r)
  case (Cons x xs)
  then obtain r' where "session_get (session_step x st) k = Some r'" "sr_custom_title r' = sr_custom_title r"
    using step_custom [OF Cons.prems(1,2), of x] by auto
  then show ?case using Cons.IH [of "session_step x st" r'] Cons.prems session_inv_step by simp
qed simp

section \<open>Properties\<close>

definition sample_session :: session_record where
  "sample_session = \<lparr>sr_portal_session_id = ''p'', sr_opencode_session_id = ''o'', sr_title = [],
     sr_agent = None, sr_model = None, sr_created_at = ''t0'', sr_updated_at = ''t0'',
     sr_last_message = [], sr_message_count = 0, sr_deleted = False, sr_partial_recovery = False,
     sr_custom_title = None, sr_generated_title = None\<rparr>"

definition sample_sessions :: session_store where
  "sample_sessions = session_upsert sample_session \<lparr>ss_sessions = [], ss_index = None, ss_backups = []\<rparr>"

lemma sample_sessions_inv: "session_inv sample_sessions"
  by (simp add: sample_sessions_def session_inv_def)

text \<open>every mutator writes through: after any run, the index file on disk is exactly the document
  of the sessions in memory, and each session is stored under its own portal id.\<close>
theorem session_index_in_sync:
  assumes "session_inv st"
  shows "ss_index (fold session_step ops st) =
           Some (JsonText (session_document (ss_sessions (fold session_step ops st)))) \<and>
         (\<forall>k r. session_get (fold session_step ops st) k = Some r \<longrightarrow> sr_portal_session_id r = k)"
proof (intro conjI allI impI)
  note inv = session_inv_run [OF assms, of ops]
  show "ss_index (fold session_step ops st) =
          Some (JsonText (session_document (ss_sessions (fold session_step ops st))))"
    using inv by (simp only: session_inv_def)
  show "sr_portal_session_id r = k" if "session_get (fold session_step ops st) k = Some r" for k r
    by (rule session_inv_get [OF inv that])
qed

lemma session_index_in_sync_witness:
  "ss_index (fold session_step [Rename ''t1'' ''p'' ''My chat'', ClearAll ''t2''] sample_sessions) =
     Some (JsonText (session_document (ss_sessions
       (fold session_step [Rename ''t1'' ''p'' ''My chat'', ClearAll ''t2''] sample_sessions))))"
  by (rule session_index_in_sync [OF sample_sessions_inv, THEN conjunct1])

text \<open>C12: a deleted session stays deleted: no rename, title, chat turn, session replacement, clear or
  further delete brings it back; only an explicit upsert of a record can.\<close>
theorem deleted_session_stays_deleted:
  assumes "session_inv st" and "session_get st k = Some r" and "sr_deleted r"
    and "list_all (\<lambda>x. \<forall>u. x \<noteq> Upsert u) ops"
  shows "\<exists>r'. session_get (fold session_step ops st) k = Some r' \<and> sr_deleted r'"
  using assms by (rule run_deleted)

lemma deleted_session_stays_deleted_witness:
  "\<exists>r'. session_get (fold session_step [AfterChat ''t2'' ''p'' ''hi'' ''yo'' None None, Rename ''t3'' ''p'' ''x'']
     (snd (mark_deleted ''t1'' ''p'' sample_sessions))) ''p'' = Some r' \<and> sr_deleted r'"
  by (rule deleted_session_stays_deleted
        [where r = "sample_session\<lparr>sr_deleted := True, sr_updated_at := ''t1''\<rparr>"])
     (simp_all add: sample_sessions_inv mark_deleted_def sample_sessions_def Let_def session_get_def
        sample_session_def session_inv_def)

text \<open>a manual rename wins: whatever titles are generated and whatever turns run afterwards, the
  session is shown under the (stripped) name the member gave it, until it is renamed again.\<close>
theorem manual_name_survives:
  assumes "session_inv st" and "session_rename now k title st = Inr (r, st')" and "py_strip title \<noteq> []"
    and "list_all (keeps_name k) ops"
  shows "\<exists>r'. session_get (fold session_step ops st') k = Some r' \<and>
           session_display_name r' = py_strip title \<and> session_name_source r' = ''custom''"
proof -
  from assms(1,2) have st': "session_inv st'" "session_get st' k = Some r" "sr_custom_title r = Some title"
    by (auto simp: session_rename_def Let_def session_inv_get split: option.splits)
  obtain r' where "session_get (fold session_step ops st') k = Some r'" "sr_custom_title r' = Some title"
    using run_custom [OF st'(1,2) assms(4)] st'(3) by auto
  with assms(3) show ?thesis
    by (simp add: session_display_name_def session_name_source_def clean_name_def opt_str_def)
qed

lemma manual_name_survives_witness:
  "\<exists>r'. session_get (fold session_step [SetTitle ''p'' ''generated'', ClearAll ''t2'']
        (session_upsert (sample_session\<lparr>sr_title := ''Mine'', sr_custom_title := Some ''Mine'',
           sr_updated_at := ''t1''\<rparr>) sample_sessions)) ''p'' = Some r' \<and>
     session_display_name r' = py_strip ''Mine'' \<and> session_name_source r' = ''custom''"
  by (rule manual_name_survives [OF sample_sessions_inv, of "''t1''" _ _
        "sample_session\<lparr>sr_title := ''Mine'', sr_custom_title := Some ''Mine'', sr_updated_at := ''t1''\<rparr>"])
     (simp add: session_rename_def sample_sessions_def session_get_def sample_session_def Let_def, code_simp, simp)

text \<open>C23: restarting loses no session: reloading the saved index gives back every stored session, in
  order, with the same display name; only blank created titles and surrounding blanks of names are
  normalised. Message counts below 2^53 survive the trip through \<^verbatim>\<open>float\<close> exactly.\<close>
theorem session_reload_roundtrip:
  assumes "dict_ok (ss_sessions st)" and "list_all (\<lambda>(k, r). storable r) (ss_sessions st)"
  shows "ss_sessions (session_load now (session_save st)) =
           List.map (\<lambda>(k, r). (k, session_norm r)) (ss_sessions st) \<and>
         (\<forall>r. session_display_name (session_norm r) = session_display_name r)"
  using load_entries_document [of "[]" "ss_sessions st" now] assms
  by (simp_all add: session_load_def session_save_def session_document_def display_name_norm)

lemma session_reload_roundtrip_witness:
  "ss_sessions (session_load ''t9'' (session_save sample_sessions)) =
     List.map (\<lambda>(k, r). (k, session_norm r)) (ss_sessions sample_sessions)"
  by (rule session_reload_roundtrip [THEN conjunct1])
     (simp_all add: sample_sessions_def storable_def sample_session_def)

end
