(* ===== verification/PermissionsApi.thy ===== *)
theory PermissionsApi
  imports PendingInput SessionStore
begin

text \<open>
  \<^verbatim>\<open>permissions_api.py\<close> and the response translation of \<^verbatim>\<open>opencode_client.py\<close>: how a member's
  answer becomes OpenCode's \<open>once\<close>, \<open>always\<close> or \<open>reject\<close>, and the session-scoped endpoint. The
  endpoint awaits OpenCode between taking the permission and settling it, so it is two definitions:
  \<open>respond_begin\<close> up to the call, \<open>respond_finish\<close> from its outcome on. Between the two any other
  handler or event may run, which the properties quantify over as a list of store calls. An HTTP answer
  is a status and a JSON object; the resolution event a success announces is returned as the settled
  request itself.
\<close>

section \<open>Decisions\<close>

definition ALLOWED_DECISIONS :: "string list" where
  "ALLOWED_DECISIONS = [''allow'', ''deny'', ''approve'', ''reject'']"

definition ALLOWED_PERMISSION_RESPONSES :: "string list" where
  "ALLOWED_PERMISSION_RESPONSES = [''once'', ''always'', ''reject'']"

datatype decision_error = InvalidResponse | InvalidDecision | UnhashableValue

text \<open>\<^verbatim>\<open>x in {...}\<close> for a set of strings: a list or dict is unhashable and raises.\<close>

definition in_str_set :: "jval \<Rightarrow> string list \<Rightarrow> decision_error + bool" where
  "in_str_set v S = (case v of JStr s \<Rightarrow> Inr (s \<in> set S)
     | JList xs \<Rightarrow> Inl UnhashableValue | JObj d \<Rightarrow> Inl UnhashableValue | _ \<Rightarrow> Inr False)"

definition permission_response_from_body :: "jobj \<Rightarrow> decision_error + string" where
  "permission_response_from_body body =
     (case in_str_set (jget body ''response'') [''once'', ''always'', ''reject''] of
        Inl e \<Rightarrow> Inl e
      | Inr True \<Rightarrow> Inr (py_str (jget body ''response''))
      | Inr False \<Rightarrow>
          (let decision = py_lower (str_or_empty (jget body ''decision''));
               remember = truthy (jget_def body ''remember'' (JBool False)) in
           if decision \<in> {''allow'', ''approve''} then Inr (if remember then ''always'' else ''once'')
           else if decision \<in> {''deny'', ''reject''} then Inr ''reject''
           else Inr ''reject''))"

definition validate_decision :: "jobj \<Rightarrow> decision_error + (string \<times> string)" where
  "validate_decision body =
     (case in_str_set (jget body ''decision'') ALLOWED_DECISIONS of
        Inl e \<Rightarrow> Inl e
      | Inr False \<Rightarrow> Inl InvalidDecision
      | Inr True \<Rightarrow>
          (case permission_response_from_body body of
             Inl e \<Rightarrow> Inl e
           | Inr response \<Rightarrow> Inr (py_str (jget body ''decision''), response)))"

text \<open>The pair of \<^verbatim>\<open>decision_or_response\<close> and the \<^verbatim>\<open>response\<close> sent to OpenCode.\<close>

definition validate_permission_response_body :: "jobj \<Rightarrow> decision_error + (string \<times> string)" where
  "validate_permission_response_body body =
     (case jget body ''response'' of
        JStr r \<Rightarrow>
          if r \<in> set ALLOWED_PERMISSION_RESPONSES then Inr (r, r)
          else if r \<noteq> [] then Inl InvalidResponse
          else validate_decision body
      | _ \<Rightarrow> validate_decision body)"

definition APPROVE_WORDS :: "string list" where
  "APPROVE_WORDS = [''approve'', ''approved'', ''allow'', ''allowed'', ''accept'', ''accepted'']"

definition DENY_WORDS :: "string list" where
  "DENY_WORDS = [''deny'', ''denied'', ''reject'', ''rejected'']"

definition TRUE_WORDS :: "string list" where
  "TRUE_WORDS = [''true'', ''yes'', ''on'', ''1'']"

text \<open>\<^verbatim>\<open>None\<close> here is the \<^verbatim>\<open>ValueError\<close>.\<close>

definition normalized_decision :: "jval \<Rightarrow> string option" where
  "normalized_decision v =
     (let normalized = py_lower (py_strip (str_or_empty v)) in
      if normalized \<in> set APPROVE_WORDS then Some ''approve''
      else if normalized \<in> set DENY_WORDS then Some ''deny''
      else None)"

definition standing_value :: "jval \<Rightarrow> bool" where
  "standing_value v = (case v of JBool b \<Rightarrow> b
     | JStr s \<Rightarrow> py_lower (py_strip s) \<in> set TRUE_WORDS
     | JInt i \<Rightarrow> i = 1 | _ \<Rightarrow> False)"

definition wants_standing_approval :: "jobj \<Rightarrow> bool" where
  "wants_standing_approval body = list_ex (\<lambda>key. standing_value (jget body key)) [''always'', ''remember'']"

definition opencode_response_for :: "string \<Rightarrow> bool \<Rightarrow> string" where
  "opencode_response_for decision always =
     (if decision = ''deny'' then ''reject'' else if always then ''always'' else ''once'')"

section \<open>The session-scoped endpoint\<close>

record in_flight =
  if_session_id :: string
  if_permission_id :: string
  if_opencode_session_id :: string
  if_decision :: string
  if_response :: string
  if_pending :: pending_permission

datatype respond_start = Answer nat jobj | Calling in_flight

datatype call_outcome = Accepted | OpenCodeFailed string | OtherFailure

definition json_error :: "string \<Rightarrow> nat \<Rightarrow> respond_start" where
  "json_error message status = Answer status [(''error'', JStr message)]"

definition session_pending_input_handler :: "pending_store \<Rightarrow> string \<Rightarrow> nat \<times> jobj" where
  "session_pending_input_handler st raw_id =
     (let sid = py_strip raw_id in
      if sid = [] then (400, [(''error'', JStr ''session_id is required'')])
      else (200, pi_snapshot st sid))"

text \<open>\<^verbatim>\<open>body\<close> is \<^verbatim>\<open>None\<close> when the request carries no JSON.\<close>

definition respond_begin ::
    "pending_store \<Rightarrow> session_store \<Rightarrow> string \<Rightarrow> jval option \<Rightarrow> respond_start \<times> pending_store" where
  "respond_begin st sessions raw_id body =
     (let sid = py_strip raw_id in
      if sid = [] then (json_error ''session_id is required'' 400, st)
      else case body of
        Some (JObj b) \<Rightarrow>
          (case pi_get st sid of
             None \<Rightarrow> (json_error ''Session is not waiting for permission'' 409, st)
           | Some pnd \<Rightarrow>
               let requested_id = py_strip (py_str (py_or (jget b ''request_id'') (py_or (jget b ''id'') (JStr [])))) in
               if requested_id \<noteq> [] \<and> requested_id \<noteq> pp_permission_id pnd
               then (json_error ''permission_request_id_mismatch'' 409, st)
               else case normalized_decision (py_or (jget b ''decision'')
                                                (py_or (jget b ''action'') (jget b ''reply''))) of
                 None \<Rightarrow> (json_error ''decision must be approve or deny'' 400, st)
               | Some decision \<Rightarrow>
                   let response = opencode_response_for decision (wants_standing_approval b);
                       (ok, st1) = pi_claim st sid (pp_permission_id pnd) in
                   if \<not> ok then (json_error ''permission_already_answered'' 409, st1)
                   else if pp_opencode_session_id pnd \<noteq> [] then
                     (Calling \<lparr>if_session_id = sid, if_permission_id = pp_permission_id pnd,
                        if_opencode_session_id = pp_opencode_session_id pnd, if_decision = decision,
                        if_response = response, if_pending = pnd\<rparr>, st1)
                   else case session_get sessions sid of
                     None \<Rightarrow> (json_error ''session_not_found'' 404, pi_release st1 sid (pp_permission_id pnd))
                   | Some r \<Rightarrow>
                     (Calling \<lparr>if_session_id = sid, if_permission_id = pp_permission_id pnd,
                        if_opencode_session_id = sr_opencode_session_id r, if_decision = decision,
                        if_response = response, if_pending = pnd\<rparr>, st1))
      | _ \<Rightarrow> (json_error ''invalid_json'' 400, st))"

text \<open>The answer, the store, and the resolution to announce (if any). An exception other than
  OpenCode's own is re-raised, which the framework answers with a 500.\<close>

definition respond_finish ::
    "pending_store \<Rightarrow> in_flight \<Rightarrow> call_outcome \<Rightarrow> (nat \<times> jobj) \<times> pending_store \<times> in_flight option" where
  "respond_finish st f outcome =
     (case outcome of
        Accepted \<Rightarrow>
          ((202, [(''ok'', JBool True), (''session_id'', JStr (if_session_id f)),
                  (''request_id'', JStr (if_permission_id f)), (''decision'', JStr (if_decision f)),
                  (''response'', JStr (if_response f)), (''state'', JStr ''running'')]),
           pi_clear st (if_session_id f) (Some (if_permission_id f)), Some f)
      | OpenCodeFailed detail \<Rightarrow>
          ((502, [(''error'', JStr ''opencode_error''), (''detail'', JStr detail)]),
           pi_release st (if_session_id f) (if_permission_id f), None)
      | OtherFailure \<Rightarrow>
          ((500, []), pi_release st (if_session_id f) (if_permission_id f), None))"

lemma respond_begin_calling:
  assumes "respond_begin st ss sid body = (Calling f, st1)"
  shows "pi_claim st (if_session_id f) (if_permission_id f) = (True, st1)"
    "if_session_id f = py_strip sid" "pi_get st (if_session_id f) = Some (if_pending f)"
    "if_permission_id f = pp_permission_id (if_pending f)"
    "\<exists>b decision. body = Some (JObj b) \<and> normalized_decision (py_or (jget b ''decision'')
        (py_or (jget b ''action'') (jget b ''reply''))) = Some decision \<and>
        if_response f = opencode_response_for decision (wants_standing_approval b)"
  using assms
  by (auto simp: respond_begin_def json_error_def Let_def split: if_splits option.splits jval.splits prod.splits)

lemma respond_begin_held:
  "held st (py_strip sid) p \<Longrightarrow> fst (respond_begin st ss sid body) \<noteq> Calling f"
  by (auto simp: respond_begin_def json_error_def held_def pi_get_def pi_claim_def Let_def
      split: if_splits option.splits jval.splits prod.splits)

lemma normalized_decision_cases: "normalized_decision v = Some d \<Longrightarrow> d = ''approve'' \<or> d = ''deny''"
  by (auto simp: normalized_decision_def Let_def split: if_splits)

section \<open>Properties\<close>

definition answer_body :: jobj where
  "answer_body = [(''decision'', JStr ''approve''), (''always'', JStr ''false'')]"

definition ready_store :: pending_store where
  "ready_store = \<lparr>max_sessions = 4, pending = [(''s'',
     \<lparr>pp_request = [(''permission_id'', JStr ''p'')], pp_permission_id = ''p'', pp_opencode_session_id = ''o'',
      pp_request_id = ''r1'', pp_claimed = False, pp_extra = []\<rparr>)]\<rparr>"

definition taken_store :: pending_store where
  "taken_store = snd (pi_claim ready_store ''s'' ''p'')"

definition sample_call :: in_flight where
  "sample_call = \<lparr>if_session_id = ''s'', if_permission_id = ''p'', if_opencode_session_id = ''o'',
     if_decision = ''approve'', if_response = ''once'', if_pending = snd (hd (pending ready_store))\<rparr>"

lemma begin_sample: "respond_begin ready_store sample_sessions ''s'' (Some (JObj answer_body)) = (Calling sample_call, taken_store)"
  by code_simp

lemma ready_store_inv: "pending_inv ready_store"
  by (simp add: ready_store_def pending_inv_def)



text \<open>a failed call gives the permission back and a successful one consumes it: when OpenCode
  refuses the answer the same request can be claimed again, and after it accepts, the session is no
  longer waiting and its resolution is announced.\<close>
theorem failure_releases_success_clears:
  assumes "respond_begin st ss sid body = (Calling f, st1)" and "if_permission_id f \<noteq> []"
  shows "fst (pi_claim (fst (snd (respond_finish st1 f (OpenCodeFailed d)))) (if_session_id f) (if_permission_id f)) \<and>
         fst (pi_claim (fst (snd (respond_finish st1 f OtherFailure))) (if_session_id f) (if_permission_id f)) \<and>
         pi_get (fst (snd (respond_finish st1 f Accepted))) (if_session_id f) = None \<and>
         snd (snd (respond_finish st1 f Accepted)) = Some f"
  using claim_true(1) [OF respond_begin_calling(1) [OF assms(1)]] assms(2)
  by (auto simp: respond_finish_def pi_release_def pi_claim_def pi_clear_def pi_get_def held_def
      split: option.splits)

lemma failure_releases_success_clears_witness:
  "fst (pi_claim (fst (snd (respond_finish taken_store sample_call OtherFailure))) ''s'' ''p'') \<and>
   pi_get (fst (snd (respond_finish taken_store sample_call Accepted))) ''s'' = None"
  using failure_releases_success_clears [OF begin_sample] by (simp add: sample_call_def)

text \<open>the dangerous direction is explicit: the session endpoint sends \<open>always\<close> (a standing approval)
  only for an approving word together with \<open>always\<close> or \<open>remember\<close> set to true, to 1 or to one of the
  four true words; any other value approves once.\<close>
theorem standing_approval_is_explicit:
  assumes "respond_begin st ss sid body = (Calling f, st1)"
  shows "if_response f = ''always'' \<longleftrightarrow>
    (\<exists>b. body = Some (JObj b) \<and>
       normalized_decision (py_or (jget b ''decision'') (py_or (jget b ''action'') (jget b ''reply''))) = Some ''approve'' \<and>
       (\<exists>key \<in> {''always'', ''remember''}. jget b key = JBool True \<or> jget b key = JInt 1 \<or>
          (\<exists>s. jget b key = JStr s \<and> py_lower (py_strip s) \<in> set TRUE_WORDS)))"
proof -
  have sv: "standing_value v \<longleftrightarrow> v = JBool True \<or> v = JInt 1 \<or>
      (\<exists>s. v = JStr s \<and> py_lower (py_strip s) \<in> set TRUE_WORDS)" for v
    by (cases v) (auto simp: standing_value_def)
  show ?thesis
    using respond_begin_calling(5) [OF assms]
    by (auto simp: opencode_response_for_def wants_standing_approval_def sv split: if_splits
        dest: normalized_decision_cases)
qed

lemma standing_approval_is_explicit_witness: "if_response sample_call \<noteq> ''always''"
  unfolding standing_approval_is_explicit [OF begin_sample] by (simp add: answer_body_def) code_simp

text \<open>The older endpoint reads \<open>remember\<close> by truthiness, so a decision to allow with any non-empty
  string there, \<open>"false"\<close> included, is sent to OpenCode as a standing approval.\<close>
theorem any_remember_text_is_standing:
  assumes "s \<noteq> []"
  shows "validate_permission_response_body [(''decision'', JStr ''allow''), (''remember'', JStr s)] =
           Inr (''allow'', ''always'')"
proof -
  have "py_lower ''allow'' = ''allow''" by code_simp
  with assms show ?thesis
    by (simp add: validate_permission_response_body_def validate_decision_def in_str_set_def
        ALLOWED_DECISIONS_def permission_response_from_body_def Let_def)
qed

lemma any_remember_text_is_standing_witness:
  "validate_permission_response_body [(''decision'', JStr ''allow''), (''remember'', JStr ''false'')] =
     Inr (''allow'', ''always'')"
  by (rule any_remember_text_is_standing) simp

end
