(* ===== verification/RequestBindings.thy ===== *)
theory RequestBindings
  imports PyPrelude
begin

text \<open>
  \<^verbatim>\<open>request_bindings.py\<close>: which portal request an OpenCode session, message or task belongs to. One
  \<open>RequestBinding\<close> object is shared by up to three dicts and \<open>complete\<close> mutates it in place, so
  objects live in an explicit store (\<open>rb_heap\<close>, addresses are positions) and the dicts hold addresses.
  Clock readings are exact rationals, one argument per \<^verbatim>\<open>time.time()\<close> call.
\<close>

record request_binding =
  rb_portal_session_id :: string
  rb_request_id :: string
  rb_opencode_session_id :: string
  rb_message_id :: string
  rb_task_id :: string
  rb_kind :: string
  rb_created_at :: rat
  rb_expires_at :: rat
  rb_completed :: bool

record binding_store =
  rb_heap :: "request_binding list"
  rb_active :: "(string, nat) odict"
  rb_by_message :: "(string \<times> string, nat) odict"
  rb_by_task :: "(string \<times> string, nat) odict"

definition new_binding_store :: binding_store where
  "new_binding_store = \<lparr>rb_heap = [], rb_active = [], rb_by_message = [], rb_by_task = []\<rparr>"

definition new_binding ::
    "rat \<Rightarrow> string \<Rightarrow> string \<Rightarrow> string \<Rightarrow> string \<Rightarrow> string \<Rightarrow> string \<Rightarrow> int \<Rightarrow> request_binding" where
  "new_binding now oid sid rid kind mid tid ttl =
     \<lparr>rb_portal_session_id = sid, rb_request_id = rid, rb_opencode_session_id = oid,
      rb_message_id = mid, rb_task_id = tid, rb_kind = kind, rb_created_at = now,
      rb_expires_at = now + of_int (max 1 ttl), rb_completed = False\<rparr>"

definition binding_live :: "rat \<Rightarrow> request_binding \<Rightarrow> bool" where
  "binding_live now b = (\<not> rb_completed b \<and> now < rb_expires_at b)"

definition prune_dict :: "rat \<Rightarrow> request_binding list \<Rightarrow> ('k, nat) odict \<Rightarrow> ('k, nat) odict" where
  "prune_dict now heap d = filter (\<lambda>(k, a). binding_live now (heap ! a)) d"

definition prune_expired :: "rat \<Rightarrow> binding_store \<Rightarrow> binding_store" where
  "prune_expired now st = st\<lparr>rb_active := prune_dict now (rb_heap st) (rb_active st),
     rb_by_message := prune_dict now (rb_heap st) (rb_by_message st),
     rb_by_task := prune_dict now (rb_heap st) (rb_by_task st)\<rparr>"

definition bind_active ::
    "rat \<Rightarrow> rat \<Rightarrow> string \<Rightarrow> string \<Rightarrow> string \<Rightarrow> string \<Rightarrow> string \<Rightarrow> int \<Rightarrow> binding_store \<Rightarrow> binding_store" where
  "bind_active t1 t2 oid sid rid kind tid ttl st0 =
     (let st = prune_expired t1 st0; a = length (rb_heap st) in
      st\<lparr>rb_heap := rb_heap st @ [new_binding t2 oid sid rid kind [] tid ttl],
         rb_active := AList.update oid a (rb_active st),
         rb_by_task := (if tid \<noteq> [] then AList.update (oid, tid) a (rb_by_task st) else rb_by_task st)\<rparr>)"

definition bind_message ::
    "rat \<Rightarrow> rat \<Rightarrow> string \<Rightarrow> string \<Rightarrow> string \<Rightarrow> string \<Rightarrow> string \<Rightarrow> string \<Rightarrow> int \<Rightarrow> binding_store \<Rightarrow> binding_store"
where
  "bind_message t1 t2 oid mid sid rid kind tid ttl st0 =
     (if mid = [] then st0
      else let st = prune_expired t1 st0; a = length (rb_heap st) in
      st\<lparr>rb_heap := rb_heap st @ [new_binding t2 oid sid rid kind mid tid ttl],
         rb_by_message := AList.update (oid, mid) a (rb_by_message st),
         rb_active := AList.update oid a (rb_active st),
         rb_by_task := (if tid \<noteq> [] then AList.update (oid, tid) a (rb_by_task st) else rb_by_task st)\<rparr>)"

definition lookup_exact :: "binding_store \<Rightarrow> string \<Rightarrow> string \<Rightarrow> string \<Rightarrow> nat option" where
  "lookup_exact st oid mid tid =
     (let b = (if mid \<noteq> [] then map_of (rb_by_message st) (oid, mid) else None) in
      if b = None \<and> tid \<noteq> [] then map_of (rb_by_task st) (oid, tid) else b)"

definition binding_resolve ::
    "rat \<Rightarrow> rat \<Rightarrow> string \<Rightarrow> string \<Rightarrow> string \<Rightarrow> binding_store \<Rightarrow> request_binding option \<times> binding_store" where
  "binding_resolve t1 t2 oid mid tid st0 =
     (let st = prune_expired t1 st0;
          found = (case lookup_exact st oid mid tid of None \<Rightarrow> map_of (rb_active st) oid | Some a \<Rightarrow> Some a)
      in (case found of None \<Rightarrow> None
          | Some a \<Rightarrow> if binding_live t2 (rb_heap st ! a) then Some (rb_heap st ! a) else None, st))"

definition binding_resolve_exact ::
    "rat \<Rightarrow> rat \<Rightarrow> string \<Rightarrow> string \<Rightarrow> string \<Rightarrow> bool \<Rightarrow> binding_store \<Rightarrow> request_binding option \<times> binding_store"
where
  "binding_resolve_exact t1 t2 oid mid tid include_completed st0 =
     (let st = (if include_completed then st0 else prune_expired t1 st0)
      in (case lookup_exact st oid mid tid of None \<Rightarrow> None
          | Some a \<Rightarrow> (let b = rb_heap st ! a in
              if (include_completed \<or> \<not> rb_completed b) \<and> t2 < rb_expires_at b then Some b else None), st))"

definition binding_addresses :: "binding_store \<Rightarrow> nat list" where
  "binding_addresses st = List.map snd (rb_active st) @ List.map snd (rb_by_message st) @ List.map snd (rb_by_task st)"

definition mark_completed :: "string \<Rightarrow> nat \<Rightarrow> request_binding list \<Rightarrow> request_binding list" where
  "mark_completed rid a heap =
     (if rb_request_id (heap ! a) = rid then heap[a := (heap ! a)\<lparr>rb_completed := True\<rparr>] else heap)"

definition binding_complete :: "string \<Rightarrow> binding_store \<Rightarrow> binding_store" where
  "binding_complete rid st = st\<lparr>rb_heap := fold (mark_completed rid) (binding_addresses st) (rb_heap st)\<rparr>"

section \<open>Well-formed stores\<close>

text \<open>Every dict is a dict of valid addresses, and a binding is filed under its own session, message
  and task.\<close>

definition filed :: "(request_binding \<Rightarrow> 'k) \<Rightarrow> ('k, nat) odict \<Rightarrow> request_binding list \<Rightarrow> bool" where
  "filed f d heap \<longleftrightarrow> dict_ok d \<and> (\<forall>(k, a) \<in> set d. a < length heap \<and> f (heap ! a) = k)"

definition binding_inv :: "binding_store \<Rightarrow> bool" where
  "binding_inv st \<longleftrightarrow>
     filed rb_opencode_session_id (rb_active st) (rb_heap st) \<and>
     filed (\<lambda>b. (rb_opencode_session_id b, rb_message_id b)) (rb_by_message st) (rb_heap st) \<and>
     filed (\<lambda>b. (rb_opencode_session_id b, rb_task_id b)) (rb_by_task st) (rb_heap st)"

lemma filed_lookup: "filed f d heap \<Longrightarrow> map_of d k = Some a \<Longrightarrow> a < length heap \<and> f (heap ! a) = k"
  by (auto simp: filed_def dest!: map_of_SomeD)

lemma filed_append: "filed f d heap \<Longrightarrow> filed f d (heap @ [b])"
  by (auto simp: filed_def nth_append)

lemma in_update_pair: "(s, x) \<in> set (AList.update k v d) \<Longrightarrow> (s, x) = (k, v) \<or> (s, x) \<in> set d"
  by (induction d) (auto split: if_splits)

lemma filed_update: "filed f d heap \<Longrightarrow> f b = k \<Longrightarrow> filed f (AList.update k (length heap) d) (heap @ [b])"
  by (auto simp: filed_def nth_append dest!: in_update_pair)

lemma filed_prune: "filed f d heap \<Longrightarrow> filed f (prune_dict now h d) heap"
  by (auto simp: filed_def prune_dict_def)

lemma filed_same: "filed f d heap \<Longrightarrow> length heap' = length heap \<Longrightarrow>
    (\<And>a. a < length heap \<Longrightarrow> f (heap' ! a) = f (heap ! a)) \<Longrightarrow> filed f d heap'"
  by (auto simp: filed_def)

lemma map_of_prune:
  "dict_ok d \<Longrightarrow> map_of (prune_dict now heap d) k =
     (case map_of d k of None \<Rightarrow> None | Some a \<Rightarrow> if binding_live now (heap ! a) then Some a else None)"
  unfolding prune_dict_def by (rule map_of_filter_dict)

lemma prune_simps [simp]:
  "rb_heap (prune_expired now st) = rb_heap st"
  "rb_active (prune_expired now st) = prune_dict now (rb_heap st) (rb_active st)"
  "rb_by_message (prune_expired now st) = prune_dict now (rb_heap st) (rb_by_message st)"
  "rb_by_task (prune_expired now st) = prune_dict now (rb_heap st) (rb_by_task st)"
  by (simp_all add: prune_expired_def)

lemma dict_ok_prune [simp, intro]: "dict_ok d \<Longrightarrow> dict_ok (prune_dict now heap d)"
  unfolding prune_dict_def by (rule dict_ok_filter)

lemma binding_inv_new: "binding_inv new_binding_store"
  by (simp add: binding_inv_def new_binding_store_def filed_def)

lemma prune_inv: "binding_inv st \<Longrightarrow> binding_inv (prune_expired now st)"
  by (simp add: binding_inv_def filed_prune)

lemma bind_active_inv: "binding_inv st \<Longrightarrow> binding_inv (bind_active t1 t2 oid sid rid kind tid ttl st)"
  by (drule prune_inv [of _ t1])
     (auto simp: binding_inv_def bind_active_def Let_def filed_append filed_update new_binding_def)

lemma bind_message_inv: "binding_inv st \<Longrightarrow> binding_inv (bind_message t1 t2 oid mid sid rid kind tid ttl st)"
  using prune_inv [of st t1]
  by (cases "mid = []")
     (auto simp: binding_inv_def bind_message_def Let_def filed_append filed_update new_binding_def)

lemma resolve_state: "snd (binding_resolve t1 t2 oid mid tid st) = prune_expired t1 st"
  by (simp add: binding_resolve_def Let_def)

text \<open>What \<open>complete\<close> does to the heap: exactly the reachable bindings of the request are marked.\<close>

lemma length_mark [simp]: "length (mark_completed rid a h) = length h"
  by (simp add: mark_completed_def)

lemma length_marks [simp]: "length (fold (mark_completed rid) as h) = length h"
  by (induction as arbitrary: h) auto

lemma mark_nth:
  "b < length h \<Longrightarrow> mark_completed rid a h ! b =
     (if a = b \<and> rb_request_id (h ! b) = rid then (h ! b)\<lparr>rb_completed := True\<rparr> else h ! b)"
  by (cases "a = b") (auto simp: mark_completed_def)

lemma marks_nth:
  "b < length h \<Longrightarrow> fold (mark_completed rid) as h ! b =
     (if b \<in> set as \<and> rb_request_id (h ! b) = rid then (h ! b)\<lparr>rb_completed := True\<rparr> else h ! b)"
  by (induction as arbitrary: h) (auto simp: mark_nth)

lemma complete_inv: "binding_inv st \<Longrightarrow> binding_inv (binding_complete rid st)"
  by (auto simp: binding_inv_def binding_complete_def marks_nth elim!: filed_same)

section \<open>Runs\<close>

datatype binding_op =
    BindActive rat rat string string string string string int
  | BindMessage rat rat string string string string string string int
  | Resolve rat rat string string string
  | ResolveExact rat rat string string string bool
  | Complete string
  | Prune rat

fun binding_step :: "binding_op \<Rightarrow> binding_store \<Rightarrow> binding_store" where
  "binding_step (BindActive t1 t2 oid sid rid kind tid ttl) st = bind_active t1 t2 oid sid rid kind tid ttl st"
| "binding_step (BindMessage t1 t2 oid mid sid rid kind tid ttl) st =
     bind_message t1 t2 oid mid sid rid kind tid ttl st"
| "binding_step (Resolve t1 t2 oid mid tid) st = snd (binding_resolve t1 t2 oid mid tid st)"
| "binding_step (ResolveExact t1 t2 oid mid tid c) st = snd (binding_resolve_exact t1 t2 oid mid tid c st)"
| "binding_step (Complete rid) st = binding_complete rid st"
| "binding_step (Prune t) st = prune_expired t st"

lemma binding_step_inv: "binding_inv st \<Longrightarrow> binding_inv (binding_step x st)"
  by (cases x) (auto simp: binding_resolve_def binding_resolve_exact_def Let_def
      intro: bind_active_inv bind_message_inv complete_inv prune_inv)

lemma binding_run_inv: "binding_inv st \<Longrightarrow> binding_inv (fold binding_step xs st)"
  by (induction xs arbitrary: st) (auto intro: binding_step_inv)

text \<open>No binding filed in a dict belongs to request \<open>rid\<close> and is still open.\<close>

definition request_closed :: "string \<Rightarrow> binding_store \<Rightarrow> bool" where
  "request_closed rid st \<longleftrightarrow> (\<forall>a \<in> set (binding_addresses st).
     rb_request_id (rb_heap st ! a) = rid \<longrightarrow> rb_completed (rb_heap st ! a))"

fun rebinds :: "string \<Rightarrow> binding_op \<Rightarrow> bool" where
  "rebinds rid (BindActive t1 t2 oid sid rid' kind tid ttl) = (rid' = rid)"
| "rebinds rid (BindMessage t1 t2 oid mid sid rid' kind tid ttl) = (rid' = rid)"
| "rebinds rid _ = False"

lemma addresses_valid: "binding_inv st \<Longrightarrow> a \<in> set (binding_addresses st) \<Longrightarrow> a < length (rb_heap st)"
  by (auto simp: binding_inv_def binding_addresses_def filed_def)

lemma complete_simps [simp]:
  "binding_addresses (binding_complete rid st) = binding_addresses st"
  "rb_heap (binding_complete rid st) = fold (mark_completed rid) (binding_addresses st) (rb_heap st)"
  by (simp_all add: binding_complete_def binding_addresses_def)

lemma prune_addresses: "set (binding_addresses (prune_expired t st)) \<subseteq> set (binding_addresses st)"
  by (auto simp: binding_addresses_def prune_dict_def)

lemma closed_prune: "request_closed rid st \<Longrightarrow> request_closed rid (prune_expired t st)"
  using prune_addresses [of t st] by (auto simp: request_closed_def)

lemma closed_bind:
  assumes "binding_inv st" "request_closed rid st" "rb_request_id b \<noteq> rid"
    "set (binding_addresses st') \<subseteq> insert (length (rb_heap st)) (set (binding_addresses st))"
    "rb_heap st' = rb_heap st @ [b]"
  shows "request_closed rid st'"
  using assms addresses_valid [OF assms(1)] by (fastforce simp: request_closed_def nth_append)

lemma bind_addresses:
  "set (binding_addresses (bind_active t1 t2 oid sid rid kind tid ttl st)) \<subseteq>
     insert (length (rb_heap st)) (set (binding_addresses (prune_expired t1 st)))"
  "set (binding_addresses (bind_message t1 t2 oid mid sid rid kind tid ttl st)) \<subseteq>
     insert (length (rb_heap st)) (set (binding_addresses (if mid = [] then st else prune_expired t1 st)))"
  by (force simp: binding_addresses_def bind_active_def bind_message_def Let_def
      dest!: in_update_pair split: if_splits)+

lemma closed_step:
  assumes "binding_inv st" "request_closed rid st" "\<not> rebinds rid x"
  shows "request_closed rid (binding_step x st)"
proof (cases x)
  case (BindActive t1 t2 oid sid rid' kind tid ttl)
  show ?thesis
    by (rule closed_bind [of "prune_expired t1 st" _ "new_binding t2 oid sid rid' kind [] tid ttl"])
       (use assms BindActive bind_addresses(1) in
         \<open>auto simp: prune_inv closed_prune new_binding_def bind_active_def Let_def\<close>)
next
  case (BindMessage t1 t2 oid mid sid rid' kind tid ttl)
  show ?thesis
  proof (cases "mid = []")
    case True
    then show ?thesis using assms BindMessage by (simp add: bind_message_def)
  next
    case False
    show ?thesis
      by (rule closed_bind [of "prune_expired t1 st" _ "new_binding t2 oid sid rid' kind mid tid ttl"])
         (use assms BindMessage False bind_addresses(2) [of t1 t2 oid mid sid rid' kind tid ttl st] in
           \<open>auto simp: prune_inv closed_prune new_binding_def bind_message_def Let_def\<close>)
  qed
next
  case (Complete rid')
  then show ?thesis using assms addresses_valid [OF assms(1)]
    by (auto simp: request_closed_def marks_nth)
qed (use assms closed_prune in \<open>auto simp: binding_resolve_def binding_resolve_exact_def Let_def\<close>)

lemma closed_run:
  "binding_inv st \<Longrightarrow> request_closed rid st \<Longrightarrow> list_all (\<lambda>x. \<not> rebinds rid x) xs \<Longrightarrow>
   request_closed rid (fold binding_step xs st)"
  by (induction xs arbitrary: st) (auto intro: closed_step binding_step_inv)

lemma closed_complete: "binding_inv st \<Longrightarrow> request_closed rid (binding_complete rid st)"
  using addresses_valid [of st] by (simp add: request_closed_def marks_nth)

lemma lookup_exact_address: "lookup_exact st oid mid tid = Some a \<Longrightarrow> a \<in> set (binding_addresses st)"
  by (force simp: lookup_exact_def Let_def binding_addresses_def split: if_splits dest!: map_of_SomeD)

lemma active_address: "map_of (rb_active st) oid = Some a \<Longrightarrow> a \<in> set (binding_addresses st)"
  by (force simp: binding_addresses_def dest!: map_of_SomeD)

lemma found_address:
  assumes "fst (binding_resolve t1 t2 oid mid tid st) = Some b"
  shows "(\<exists>a \<in> set (binding_addresses st). b = rb_heap st ! a) \<and> \<not> rb_completed b \<and> t2 < rb_expires_at b"
proof -
  let ?st = "prune_expired t1 st"
  obtain a where a: "lookup_exact ?st oid mid tid = Some a \<or> map_of (rb_active ?st) oid = Some a"
    and b: "binding_live t2 (rb_heap st ! a)" "b = rb_heap st ! a"
    using assms by (auto simp: binding_resolve_def Let_def split: option.splits if_splits)
  have "a \<in> set (binding_addresses ?st)" using a lookup_exact_address active_address by blast
  then show ?thesis using b prune_addresses [of t1 st] by (auto simp: binding_live_def)
qed

section \<open>Properties\<close>

definition sample_bindings :: binding_store where
  "sample_bindings = bind_message 10 10 ''o'' ''m'' ''p'' ''r'' ''chat'' ''t'' 60 new_binding_store"

text \<open>a resolved binding is open, unexpired and filed under the session it was asked for: events of one
  OpenCode session are never attributed to a request of another.\<close>
theorem resolved_binding_is_live:
  assumes "fst (binding_resolve t1 t2 oid mid tid (fold binding_step ops new_binding_store)) = Some b"
  shows "\<not> rb_completed b \<and> t2 < rb_expires_at b \<and> rb_opencode_session_id b = oid"
proof -
  let ?st = "fold binding_step ops new_binding_store"
  have inv: "binding_inv (prune_expired t1 ?st)" by (intro prune_inv binding_run_inv binding_inv_new)
  have "rb_opencode_session_id b = oid"
    using assms inv
    by (auto simp: binding_resolve_def lookup_exact_def Let_def binding_inv_def split: option.splits if_splits
        dest!: filed_lookup)
  with found_address [OF assms] show ?thesis by simp
qed

lemma resolved_binding_is_live_witness:
  "rb_opencode_session_id (the (fst (binding_resolve 20 20 ''o'' [] [] sample_bindings))) = ''o''"
proof -
  have s: "sample_bindings = fold binding_step
      [BindMessage 10 10 ''o'' ''m'' ''p'' ''r'' ''chat'' ''t'' 60] new_binding_store"
    by (simp add: sample_bindings_def)
  have "fst (binding_resolve 20 20 ''o'' [] [] sample_bindings) =
      Some (new_binding 10 ''o'' ''p'' ''r'' ''chat'' ''m'' ''t'' 60)"
    by (simp add: sample_bindings_def new_binding_store_def bind_message_def prune_expired_def prune_dict_def
        Let_def new_binding_def binding_resolve_def lookup_exact_def binding_live_def)
  then show ?thesis using resolved_binding_is_live unfolding s by (metis option.sel)
qed

text \<open>C24: completing a request closes every route to it: although one binding object is shared by three
  dicts, after \<open>complete\<close> no lookup by session, message or task returns a binding of that request, until
  the request is bound again.\<close>
theorem completed_request_is_never_resolved:
  assumes "list_all (\<lambda>x. \<not> rebinds rid x) later"
    and "fst (binding_resolve t1 t2 oid mid tid
           (fold binding_step later (binding_complete rid (fold binding_step ops new_binding_store)))) = Some b"
  shows "rb_request_id b \<noteq> rid"
proof -
  have inv: "binding_inv (fold binding_step ops new_binding_store)"
    by (rule binding_run_inv [OF binding_inv_new])
  have "request_closed rid
      (fold binding_step later (binding_complete rid (fold binding_step ops new_binding_store)))"
    by (rule closed_run [OF complete_inv [OF inv] closed_complete [OF inv] assms(1)])
  with found_address [OF assms(2)] show ?thesis by (auto simp: request_closed_def)
qed

lemma completed_request_is_never_resolved_witness:
  "rb_request_id (new_binding 30 ''o'' ''p'' ''r2'' ''chat'' [] [] 60) \<noteq> ''r''"
  by (rule completed_request_is_never_resolved
      [of "''r''" "[BindActive 30 30 ''o'' ''p'' ''r2'' ''chat'' [] 60]" 40 40 "''o''" "''m''" "''t''"
        "[BindMessage 10 10 ''o'' ''m'' ''p'' ''r'' ''chat'' ''t'' 60]"])
     (simp_all add: new_binding_store_def bind_message_def bind_active_def prune_expired_def prune_dict_def
        Let_def new_binding_def binding_resolve_def lookup_exact_def binding_live_def binding_complete_def
        binding_addresses_def mark_completed_def)

text \<open>the newest binding of a session answers for it: right after a message is bound, a lookup by the
  message, by its task or by the session alone within the time to live returns exactly that binding.\<close>
theorem bound_message_resolves:
  assumes "mid \<noteq> []" and "t3 < t2 + of_int (max 1 ttl)" and "t4 < t2 + of_int (max 1 ttl)"
    and "binding_inv st"
  shows "fst (binding_resolve t3 t4 oid mid tid (bind_message t1 t2 oid mid sid rid kind tid ttl st)) =
           Some (new_binding t2 oid sid rid kind mid tid ttl) \<and>
         fst (binding_resolve t3 t4 oid [] tid (bind_message t1 t2 oid mid sid rid kind tid ttl st)) =
           Some (new_binding t2 oid sid rid kind mid tid ttl) \<and>
         fst (binding_resolve t3 t4 oid [] [] (bind_message t1 t2 oid mid sid rid kind tid ttl st)) =
           Some (new_binding t2 oid sid rid kind mid tid ttl)"
proof -
  have ok: "dict_ok (rb_active st)" "dict_ok (rb_by_message st)" "dict_ok (rb_by_task st)"
    using assms(4) by (auto simp: binding_inv_def filed_def)
  have live: "binding_live t3 (new_binding t2 oid sid rid kind mid x ttl)"
    "binding_live t4 (new_binding t2 oid sid rid kind mid x ttl)" for x
    using assms(2,3) by (simp_all add: binding_live_def new_binding_def)
  show ?thesis
    using assms(1) by (simp add: binding_resolve_def lookup_exact_def bind_message_def Let_def map_of_prune ok live)
qed

lemma bound_message_resolves_witness:
  "fst (binding_resolve 20 21 ''o'' [] [] (bind_message 10 10 ''o'' ''m'' ''p'' ''r'' ''chat'' ''t'' 60 new_binding_store)) =
     Some (new_binding 10 ''o'' ''p'' ''r'' ''chat'' ''m'' ''t'' 60)"
  using bound_message_resolves [of "''m''" 20 10 60 21 new_binding_store "''o''" "''t''" 10 "''p''" "''r''" "''chat''"]
  by (simp add: binding_inv_new)

end
