(* ===== verification/JsonText.thy ===== *)
theory JsonText
  imports PyFloat
begin

text \<open>
  The text side of JSON as the task store and the recovery scan use it: \<^verbatim>\<open>json.dumps(x, ensure_ascii=False,
  separators=(",", ":"))\<close> with the length its UTF-8 encoding takes on disk, and the scan of a file's
  prefix for a string field. A character is a code point up to 255, so it takes one byte below 128 and
  two from there on.
\<close>

section \<open>Writing\<close>

definition json_char :: "char \<Rightarrow> string" where
  "json_char c = (let n = of_char c :: nat in
     if n = 34 \<or> n = 92 then [char_of (92::nat), c]
     else if n = 10 then [char_of (92::nat), CHR ''n'']
     else if n = 13 then [char_of (92::nat), CHR ''r'']
     else if n = 9 then [char_of (92::nat), CHR ''t'']
     else if n = 8 then [char_of (92::nat), CHR ''b'']
     else if n = 12 then [char_of (92::nat), CHR ''f'']
     else if n < 32 then [char_of (92::nat), CHR ''u'', CHR ''0'', CHR ''0'', hex_digit (n div 16), hex_digit (n mod 16)]
     else [c])"

definition json_string :: "string \<Rightarrow> string" where
  "json_string s = [char_of (34::nat)] @ concat (List.map json_char s) @ [char_of (34::nat)]"

definition json_float :: "pyfloat \<Rightarrow> string" where
  "json_float f = (case f of Finite v t \<Rightarrow> t | PosInf \<Rightarrow> ''Infinity'' | NegInf \<Rightarrow> ''-Infinity'' | NotANumber \<Rightarrow> ''NaN'')"

fun json_dumps :: "jval \<Rightarrow> string"
  and json_items :: "jval list \<Rightarrow> string list"
  and json_pairs :: "(string \<times> jval) list \<Rightarrow> string list" where
  "json_dumps JNull = ''null''"
| "json_dumps (JBool b) = (if b then ''true'' else ''false'')"
| "json_dumps (JInt i) = int_text i"
| "json_dumps (JFloat f) = json_float f"
| "json_dumps (JStr s) = json_string s"
| "json_dumps (JList xs) = ''['' @ join_with '','' (json_items xs) @ '']''"
| "json_dumps (JObj d) = ''{'' @ join_with '','' (json_pairs d) @ ''}''"
| "json_items [] = []"
| "json_items (x # xs) = json_dumps x # json_items xs"
| "json_pairs [] = []"
| "json_pairs ((k, v) # d) = (json_string k @ '':'' @ json_dumps v) # json_pairs d"

text \<open>With the default separators: a blank after each comma and colon.\<close>

fun spaced_dumps :: "jval \<Rightarrow> string"
  and spaced_items :: "jval list \<Rightarrow> string list"
  and spaced_pairs :: "(string \<times> jval) list \<Rightarrow> string list" where
  "spaced_dumps (JList xs) = ''['' @ join_with '', '' (spaced_items xs) @ '']''"
| "spaced_dumps (JObj d) = ''{'' @ join_with '', '' (spaced_pairs d) @ ''}''"
| "spaced_dumps v = json_dumps v"
| "spaced_items [] = []"
| "spaced_items (x # xs) = spaced_dumps x # spaced_items xs"
| "spaced_pairs [] = []"
| "spaced_pairs ((k, v) # d) = (json_string k @ '': '' @ spaced_dumps v) # spaced_pairs d"

definition char_bytes :: "char \<Rightarrow> nat" where
  "char_bytes c = (if (of_char c :: nat) < 128 then 1 else 2)"

text \<open>\<^verbatim>\<open>len(s.encode("utf-8"))\<close>.\<close>

definition utf8_len :: "string \<Rightarrow> nat" where
  "utf8_len s = sum_list (List.map char_bytes s)"

text \<open>The characters that fit whole in the first \<open>n\<close> bytes: reading \<open>n\<close> bytes and decoding them with
  \<^verbatim>\<open>errors="ignore"\<close> drops a character cut in two.\<close>

fun take_bytes :: "nat \<Rightarrow> string \<Rightarrow> string" where
  "take_bytes n [] = []"
| "take_bytes n (c # s) = (if char_bytes c \<le> n then c # take_bytes (n - char_bytes c) s else [])"

section \<open>Scanning for a string field\<close>

text \<open>The text from the first place where \<open>p\<close> occurs, with \<open>p\<close> taken off.\<close>

definition json_space :: "char \<Rightarrow> bool" where
  "json_space c = py_isspace c"

text \<open>The group of \<^verbatim>\<open>"(?:\.|[^"\])*"\<close> (with doubled backslashes): the body of the literal, raw. A dot does
  not match a newline.\<close>

fun literal_body :: "string \<Rightarrow> string option" where
  "literal_body [] = None"
| "literal_body [c] = (if c = char_of (34::nat) then Some [] else None)"
| "literal_body (c # d # s) =
     (if c = char_of (34::nat) then Some []
      else if c = char_of (92::nat) then
        (if d = CHR 0x0A then None else map_option (\<lambda>b. c # d # b) (literal_body s))
      else map_option (\<lambda>b. c # b) (literal_body (d # s)))"

definition match_field_at :: "string \<Rightarrow> string \<Rightarrow> string option" where
  "match_field_at key s =
     (let p = [char_of (34::nat)] @ key @ [char_of (34::nat)] in
      if startswith s p then
        (case dropWhile json_space (drop (length p) s) of
           [] \<Rightarrow> None
         | c # r \<Rightarrow> if c \<noteq> CHR '':'' then None
             else (case dropWhile json_space r of
                [] \<Rightarrow> None
              | q # t \<Rightarrow> if q = char_of (34::nat) then literal_body t else None))
      else None)"

fun search_field :: "string \<Rightarrow> string \<Rightarrow> string option" where
  "search_field key [] = None"
| "search_field key (c # s) =
     (case match_field_at key (c # s) of Some b \<Rightarrow> Some b | None \<Rightarrow> search_field key s)"

definition hex_val :: "char \<Rightarrow> nat option" where
  "hex_val c = (let n = of_char c :: nat in
     if 48 \<le> n \<and> n \<le> 57 then Some (n - 48)
     else if 97 \<le> n \<and> n \<le> 102 then Some (n - 87)
     else if 65 \<le> n \<and> n \<le> 70 then Some (n - 55) else None)"

definition simple_escape :: "char \<Rightarrow> char option" where
  "simple_escape c =
     (if c = char_of (34::nat) \<or> c = char_of (92::nat) \<or> c = CHR ''/'' then Some c
      else if c = CHR ''n'' then Some (char_of (10::nat))
      else if c = CHR ''r'' then Some (char_of (13::nat))
      else if c = CHR ''t'' then Some (char_of (9::nat))
      else if c = CHR ''b'' then Some (char_of (8::nat))
      else if c = CHR ''f'' then Some (char_of (12::nat)) else None)"

text \<open>\<^verbatim>\<open>json.loads\<close> of the literal with this body: raw control characters and unknown escapes are refused, and
  an escape above code point 255 is outside the model (read as refused).\<close>

fun json_unescape :: "string \<Rightarrow> string option" where
  "json_unescape [] = Some []"
| "json_unescape (c # s) =
     (if c = char_of (92::nat) then
        (case s of
           [] \<Rightarrow> None
         | e # r \<Rightarrow>
             (case simple_escape e of
                Some x \<Rightarrow> map_option ((#) x) (json_unescape r)
              | None \<Rightarrow>
                  if e = CHR ''u'' then
                    (case r of
                       a # b # x # y # t \<Rightarrow>
                         (case (hex_val a, hex_val b, hex_val x, hex_val y) of
                            (Some 0, Some 0, Some h, Some l) \<Rightarrow>
                              map_option ((#) (char_of (16 * h + l))) (json_unescape t)
                          | _ \<Rightarrow> None)
                     | _ \<Rightarrow> None)
                  else None))
      else if (of_char c :: nat) < 32 then None
      else map_option ((#) c) (json_unescape s))"

text \<open>\<^verbatim>\<open>_json_string_field_prefix(text, key)\<close>. The keys asked for are plain words, which \<^verbatim>\<open>re.escape\<close>
  leaves matching themselves.\<close>

definition json_string_field_prefix :: "string \<Rightarrow> string \<Rightarrow> string option" where
  "json_string_field_prefix text key =
     (case search_field key text of None \<Rightarrow> None | Some b \<Rightarrow> json_unescape b)"

lemma utf8_len_append [simp]: "utf8_len (a @ b) = utf8_len a + utf8_len b"
  by (simp add: utf8_len_def)

lemma utf8_len_simps [simp]: "utf8_len [] = 0" "utf8_len (c # s) = char_bytes c + utf8_len s"
  by (simp_all add: utf8_len_def)

lemma take_bytes_all: "utf8_len s \<le> n \<Longrightarrow> take_bytes n s = s"
  by (induction s arbitrary: n) (auto simp: utf8_len_def char_bytes_def split: if_splits)

section \<open>Reading\<close>

text \<open>\<^verbatim>\<open>json.loads\<close>, as a recursive descent that returns a value and the rest of the text. The recursion is
  bounded by a counter that starts above the length of the text, which no document can exhaust since each
  call consumes a character. A float prints as it was written. Of repeated keys the last value counts.\<close>

definition json_ws :: "char \<Rightarrow> bool" where
  "json_ws c = (c = CHR '' '' \<or> c = CHR 0x09 \<or> c = CHR 0x0A \<or> c = CHR 0x0D)"

definition skip_ws :: "string \<Rightarrow> string" where
  "skip_ws s = dropWhile json_ws s"

text \<open>A string literal after its opening quote: the value and the rest. Unlike the scan above, a backslash may
  stand before any character here; \<open>json_unescape\<close> then refuses the escapes JSON has not.\<close>

fun json_literal :: "string \<Rightarrow> (string \<times> string) option" where
  "json_literal [] = None"
| "json_literal (c # s) =
     (if c = char_of (34::nat) then Some ([], s)
      else if c = char_of (92::nat) then
        (case s of [] \<Rightarrow> None | d # t \<Rightarrow> map_option (\<lambda>(b, r). (c # d # b, r)) (json_literal t))
      else map_option (\<lambda>(b, r). (c # b, r)) (json_literal s))"

definition json_read_string :: "string \<Rightarrow> (string \<times> string) option" where
  "json_read_string s = (case json_literal s of None \<Rightarrow> None
     | Some (b, r) \<Rightarrow> (case json_unescape b of None \<Rightarrow> None | Some x \<Rightarrow> Some (x, r)))"

text \<open>A number: \<^verbatim>\<open>(-?(?:0|[1-9]\d*))(\.\d+)?([eE][-+]?\d+)?\<close>.\<close>

definition json_read_number :: "string \<Rightarrow> (jval \<times> string) option" where
  "json_read_number s =
     (let (sg, s0) = (case s of c # r \<Rightarrow> if c = CHR ''-'' then ([c], r) else ([], s) | [] \<Rightarrow> ([], s));
          ds = (case s0 of c # r \<Rightarrow> if c = CHR ''0'' then [c] else takeWhile is_digit s0 | [] \<Rightarrow> []);
          s1 = drop (length ds) s0
      in if ds = [] then None
      else let fr = (case s1 of c # r \<Rightarrow> if c = CHR ''.'' \<and> takeWhile is_digit r \<noteq> [] then c # takeWhile is_digit r else []
                     | [] \<Rightarrow> []);
               s2 = drop (length fr) s1;
               ex = (case s2 of c # r \<Rightarrow>
                   if c = CHR ''e'' \<or> c = CHR ''E'' then
                     (let sg2 = (case r of d # t \<Rightarrow> if d = CHR ''-'' \<or> d = CHR ''+'' then [d] else [] | [] \<Rightarrow> []);
                          es = takeWhile is_digit (drop (length sg2) r)
                      in if es = [] then [] else c # sg2 @ es)
                   else [] | [] \<Rightarrow> []);
               s3 = drop (length ex) s2;
               txt = sg @ ds @ fr @ ex
           in if fr = [] \<and> ex = [] then Some (JInt (if sg = [] then int (digits_val ds) else - int (digits_val ds)), s3)
              else (case parse_float txt of
                 Some (FFin v) \<Rightarrow> Some (JFloat (Finite v txt), s3)
               | Some (FInf neg) \<Rightarrow> Some (JFloat (if neg then NegInf else PosInf), s3)
               | _ \<Rightarrow> None))"

definition json_word :: "string \<Rightarrow> jval \<Rightarrow> string \<Rightarrow> (jval \<times> string) option" where
  "json_word w v s = (if startswith s w then Some (v, drop (length w) s) else None)"

fun json_value :: "nat \<Rightarrow> string \<Rightarrow> (jval \<times> string) option"
  and json_elements :: "nat \<Rightarrow> string \<Rightarrow> (jval list \<times> string) option"
  and json_members :: "nat \<Rightarrow> jobj \<Rightarrow> string \<Rightarrow> (jobj \<times> string) option" where
  "json_value 0 s = None"
| "json_value (Suc n) s =
     (case s of
        [] \<Rightarrow> None
      | c # r \<Rightarrow>
          if c = char_of (34::nat) then map_option (\<lambda>(x, t). (JStr x, t)) (json_read_string r)
          else if c = CHR ''{'' then
            (case skip_ws r of d # t \<Rightarrow> if d = CHR ''}'' then Some (JObj [], t)
                                     else map_option (\<lambda>(d, u). (JObj d, u)) (json_members n [] (d # t))
             | [] \<Rightarrow> None)
          else if c = CHR ''['' then
            (case skip_ws r of d # t \<Rightarrow> if d = CHR '']'' then Some (JList [], t)
                                     else map_option (\<lambda>(xs, u). (JList xs, u)) (json_elements n (d # t))
             | [] \<Rightarrow> None)
          else if c = CHR ''n'' then json_word ''null'' JNull s
          else if c = CHR ''t'' then json_word ''true'' (JBool True) s
          else if c = CHR ''f'' then json_word ''false'' (JBool False) s
          else if c = CHR ''N'' then json_word ''NaN'' (JFloat NotANumber) s
          else if c = CHR ''I'' then json_word ''Infinity'' (JFloat PosInf) s
          else if startswith s ''-Infinity'' then json_word ''-Infinity'' (JFloat NegInf) s
          else json_read_number s)"
| "json_elements 0 s = None"
| "json_elements (Suc n) s =
     (case json_value n s of None \<Rightarrow> None
      | Some (v, r) \<Rightarrow>
          (case skip_ws r of
             [] \<Rightarrow> None
           | c # t \<Rightarrow> if c = CHR '']'' then Some ([v], t)
               else if c = CHR '','' then map_option (\<lambda>(vs, u). (v # vs, u)) (json_elements n (skip_ws t))
               else None))"
| "json_members 0 d s = None"
| "json_members (Suc n) d s =
     (case s of
        [] \<Rightarrow> None
      | q # r \<Rightarrow> if q \<noteq> char_of (34::nat) then None
          else (case json_read_string r of None \<Rightarrow> None
          | Some (k, t) \<Rightarrow>
              (case skip_ws t of
                 [] \<Rightarrow> None
               | c # u \<Rightarrow> if c \<noteq> CHR '':'' then None
                   else (case json_value n (skip_ws u) of None \<Rightarrow> None
                   | Some (v, w) \<Rightarrow>
                       (case skip_ws w of
                          [] \<Rightarrow> None
                        | e # x \<Rightarrow> if e = CHR ''}'' then Some (AList.update k v d, x)
                            else if e = CHR '','' then json_members n (AList.update k v d) (skip_ws x)
                            else None)))))"

definition json_loads :: "string \<Rightarrow> jval option" where
  "json_loads s =
     (case json_value (2 * length s + 2) (skip_ws s) of
        None \<Rightarrow> None
      | Some (v, r) \<Rightarrow> if skip_ws r = [] then Some v else None)"

end
