(* ===== verification/TaskCompletion.thy ===== *)
theory TaskCompletion
  imports JsonText
begin

text \<open>
  \<^verbatim>\<open>task_completion_parser.py\<close>: how the last message of a task becomes its status and output payload. The
  arguments \<open>input_payload\<close> and \<open>metadata\<close> are unused there, and the error it returns is always \<^verbatim>\<open>None\<close>, so
  the result is the pair of the two others.
\<close>

definition STATUS :: "string list" where
  "STATUS = [''success'', ''error'', ''blocked'']"

section \<open>Finding the JSON\<close>

text \<open>The longest text up to a closing brace that is followed by blanks and a fence.\<close>

fun brace_block :: "string \<Rightarrow> string option" where
  "brace_block [] = None"
| "brace_block (c # s) =
     (case brace_block s of
        Some b \<Rightarrow> Some (c # b)
      | None \<Rightarrow> if c = CHR ''}'' \<and> startswith (dropWhile py_isspace s) ''```'' then Some [c] else None)"

definition fence_at :: "string \<Rightarrow> string option" where
  "fence_at s =
     (if \<not> startswith s ''```'' then None
      else let r = drop 3 s; r1 = (if startswith r ''json'' then drop 4 r else r); r2 = dropWhile py_isspace r1 in
        if startswith r2 ''{'' then map_option (\<lambda>b. CHR ''{'' # b) (brace_block (drop 1 r2)) else None)"

fun search_fence :: "string \<Rightarrow> string option" where
  "search_fence [] = None"
| "search_fence (c # s) = (case fence_at (c # s) of Some b \<Rightarrow> Some b | None \<Rightarrow> search_fence s)"

text \<open>The text from an opening brace to the one that balances it.\<close>

fun balanced :: "int \<Rightarrow> string \<Rightarrow> string option" where
  "balanced depth [] = None"
| "balanced depth (c # s) =
     (if c = CHR ''{'' then map_option ((#) c) (balanced (depth + 1) s)
      else if c = CHR ''}'' then
        (if depth = 1 then Some [c] else map_option ((#) c) (balanced (depth - 1) s))
      else map_option ((#) c) (balanced depth s))"

text \<open>The scan over the opening braces: the outer \<^verbatim>\<open>None\<close> when no balanced text parses.\<close>

fun scan_braces :: "string \<Rightarrow> jval option" where
  "scan_braces [] = None"
| "scan_braces (c # s) =
     (if c = CHR ''{'' then
        (case balanced 0 (c # s) of
           None \<Rightarrow> scan_braces s
         | Some t \<Rightarrow> (case json_loads t of Some v \<Rightarrow> Some v | None \<Rightarrow> scan_braces s))
      else scan_braces s)"

definition dict_or_none :: "jval \<Rightarrow> jobj option" where
  "dict_or_none v = (case v of JObj d \<Rightarrow> Some d | _ \<Rightarrow> None)"

definition extract_json :: "string \<Rightarrow> jobj option" where
  "extract_json text =
     (let t0 = py_strip text;
          t = (if startswith t0 ''```'' then (case search_fence t0 of Some b \<Rightarrow> b | None \<Rightarrow> t0) else t0)
      in case json_loads t of
           Some v \<Rightarrow> dict_or_none v
         | None \<Rightarrow> (case scan_braces text of Some v \<Rightarrow> dict_or_none v | None \<Rightarrow> None))"

section \<open>The payload\<close>

definition SUPERSEDED :: string where
  "SUPERSEDED = ''superseded_by_new_head_sha''"

fun find_superseded :: "jval \<Rightarrow> bool"
  and superseded_pairs :: "(string \<times> jval) list \<Rightarrow> bool"
  and superseded_items :: "jval list \<Rightarrow> bool" where
  "find_superseded (JObj d) = (jget d ''error_code'' = JStr SUPERSEDED \<or> superseded_pairs d)"
| "find_superseded (JList xs) = superseded_items xs"
| "find_superseded JNull = False"
| "find_superseded (JBool b) = False"
| "find_superseded (JInt i) = False"
| "find_superseded (JFloat f) = False"
| "find_superseded (JStr s) = False"
| "superseded_pairs [] = False"
| "superseded_pairs ((k, v) # d) = (find_superseded v \<or> superseded_pairs d)"
| "superseded_items [] = False"
| "superseded_items (v # vs) = (find_superseded v \<or> superseded_items vs)"

definition set_defaults :: "(string \<times> jval) list \<Rightarrow> jobj \<Rightarrow> jobj" where
  "set_defaults kvs d = fold (\<lambda>(k, v) d. jsetdefault k v d) kvs d"

definition with_common_defaults :: "jobj \<Rightarrow> jobj" where
  "with_common_defaults payload = set_defaults
     [(''summary'', JStr []), (''artifacts'', JList []), (''blockers'', JList []), (''next_recommendation'', JNull),
      (''audit_trace'', JList []), (''external_actions'', JList [])] payload"

text \<open>The fields a delegation result takes from the payload when it has none of its own.\<close>

definition delegation_defaults :: "jobj \<Rightarrow> string \<Rightarrow> jobj" where
  "delegation_defaults payload status =
     [(''status'', JStr status), (''summary'', jget_def payload ''summary'' (JStr [])),
      (''artifacts'', jget_def payload ''artifacts'' (JList [])), (''blockers'', jget_def payload ''blockers'' (JList [])),
      (''next_recommendation'', jget payload ''next_recommendation''),
      (''audit_trace'', jget_def payload ''audit_trace'' (JList []))]"

definition extract_delegation_result :: "jobj \<Rightarrow> string \<Rightarrow> jobj" where
  "extract_delegation_result payload status =
     (let explicit = (case jget payload ''delegation_result'' of JObj d \<Rightarrow> Some d
          | _ \<Rightarrow> (case jget payload ''output_payload'' of
              JObj out \<Rightarrow> dict_or_none (jget out ''delegation_result'') | _ \<Rightarrow> None));
          result = (case explicit of Some d \<Rightarrow> d | None \<Rightarrow> delegation_defaults payload status)
      in set_defaults (delegation_defaults payload status) result)"

fun first_text :: "string list \<Rightarrow> jobj \<Rightarrow> string option" where
  "first_text [] d = None"
| "first_text (k # ks) d =
     (case jget d k of JStr s \<Rightarrow> if py_strip s \<noteq> [] then Some (py_strip s) else first_text ks d
      | _ \<Rightarrow> first_text ks d)"

definition agent_async_fallback_response :: "jobj \<Rightarrow> string \<Rightarrow> string" where
  "agent_async_fallback_response payload raw =
     (case first_text [''response'', ''answer'', ''summary'', ''raw_text''] payload of
        Some s \<Rightarrow> s | None \<Rightarrow> py_strip raw)"

definition agent_async_has_blockers :: "jobj \<Rightarrow> bool" where
  "agent_async_has_blockers payload =
     (case jget payload ''blockers'' of JList xs \<Rightarrow> xs \<noteq> [] | JNull \<Rightarrow> False | JStr s \<Rightarrow> py_strip s \<noteq> []
      | v \<Rightarrow> truthy v)"

definition normalize_agent_async_task_payload :: "jobj \<Rightarrow> string \<Rightarrow> string \<Rightarrow> jobj" where
  "normalize_agent_async_task_payload payload status raw =
     (let p1 = set_defaults [(''summary'', JStr []), (''artifacts'', JList []), (''blockers'', JList []),
                 (''next_recommendation'', JStr []), (''audit_trace'', JList []), (''external_actions'', JList [])] payload;
          p2 = (case jget p1 ''final_response'' of
              JStr s \<Rightarrow> if py_strip s = [] then AList.update ''final_response'' (JStr (agent_async_fallback_response p1 raw)) p1
                       else p1
            | _ \<Rightarrow> AList.update ''final_response'' (JStr (agent_async_fallback_response p1 raw)) p1)
      in case jget p2 ''needs_user_input'' of JBool b \<Rightarrow> p2
         | _ \<Rightarrow> AList.update ''needs_user_input'' (JBool (status = ''blocked'' \<or> agent_async_has_blockers p2)) p2)"

text \<open>The status of a message without JSON, by the words in it.\<close>

definition text_status :: "string \<Rightarrow> string" where
  "text_status raw =
     (let low = py_lower raw; any = list_ex (contains low) in
      if any [''permission denied'', ''permission request'', ''approval required'', ''waiting for permission'',
              ''cannot proceed due to permission''] then ''blocked''
      else if any [''blocked'', ''missing required''] then ''blocked''
      else if any [''cannot proceed'', ''failed'', ''error''] then ''error'' else ''success'')"

definition json_status :: "jobj \<Rightarrow> string \<times> jobj" where
  "json_status payload =
     (let status = py_str (jget_def payload ''status'' (JStr ''success'')) in
      if status \<in> set STATUS then (status, payload)
      else (''success'', AList.update ''raw_status'' (JStr status) payload))"

definition shape_payload :: "string \<Rightarrow> string \<Rightarrow> string \<Rightarrow> jobj \<Rightarrow> jobj" where
  "shape_payload task_type status raw payload =
     (let p1 = (if task_type \<in> {''github_review_task'', ''github_pr_review''}
          then set_defaults [(''recommendation'', JStr ''comment''), (''review_comments'', JList []), (''error_code'', JNull)] payload
          else payload);
          p2 = (if task_type = ''delegation_task''
          then (let result = extract_delegation_result p1 status in
            [(''summary'', jget_def result ''summary'' (JStr [])), (''artifacts'', jget_def result ''artifacts'' (JList [])),
             (''blockers'', jget_def result ''blockers'' (JList [])),
             (''next_recommendation'', jget result ''next_recommendation''),
             (''audit_trace'', jget_def result ''audit_trace'' (JList [])), (''delegation_result'', JObj result)])
          else p1)
      in if task_type = ''agent_async_task'' then normalize_agent_async_task_payload p2 status raw else p2)"

definition parse_task_completion :: "string \<Rightarrow> string \<Rightarrow> string \<times> jobj" where
  "parse_task_completion raw task_type =
     (let parsed = extract_json raw;
          (status, payload) = (case parsed of
              None \<Rightarrow> (text_status raw, with_common_defaults [(''summary'', JStr (py_strip raw)), (''raw_text'', JStr raw)])
            | Some d \<Rightarrow> json_status (with_common_defaults d));
          superseded = find_superseded (JObj (case parsed of Some d \<Rightarrow> d | None \<Rightarrow> payload));
          (status1, payload1) = (if superseded
              then (''error'', AList.update ''error_code'' (JStr SUPERSEDED) payload) else (status, payload))
      in (status1, shape_payload task_type status1 raw payload1))"

section \<open>What every result has\<close>

definition RESULT_KEYS :: "string list" where
  "RESULT_KEYS = [''summary'', ''artifacts'', ''blockers'', ''next_recommendation'', ''audit_trace'']"

definition has_keys :: "string list \<Rightarrow> jobj \<Rightarrow> bool" where
  "has_keys ks d = list_all (jhas d) ks"

lemma jhas_set_defaults [simp]: "jhas (set_defaults kvs d) j \<longleftrightarrow> j \<in> fst ` set kvs \<or> jhas d j"
  by (induction kvs arbitrary: d) (auto simp: set_defaults_def)

lemma json_status_known: "json_status p = (st, q) \<Longrightarrow> st \<in> set STATUS \<and> (\<forall>k. jhas p k \<longrightarrow> jhas q k)"
  by (auto simp: json_status_def Let_def STATUS_def split: if_splits)

lemma text_status_known: "text_status raw \<in> set STATUS"
  by (simp add: text_status_def Let_def STATUS_def)

lemma common_defaults_keys: "has_keys RESULT_KEYS (with_common_defaults d)"
  by (simp add: has_keys_def RESULT_KEYS_def with_common_defaults_def)

text \<open>The final response of an agent task is a text whatever the payload says, and \<open>needs_user_input\<close> a boolean.\<close>

definition with_final_response :: "jobj \<Rightarrow> string \<Rightarrow> jobj" where
  "with_final_response p raw =
     (case jget p ''final_response'' of
        JStr s \<Rightarrow> if py_strip s = [] then AList.update ''final_response'' (JStr (agent_async_fallback_response p raw)) p else p
      | _ \<Rightarrow> AList.update ''final_response'' (JStr (agent_async_fallback_response p raw)) p)"

definition with_needs_input :: "jobj \<Rightarrow> string \<Rightarrow> jobj" where
  "with_needs_input p status =
     (case jget p ''needs_user_input'' of JBool b \<Rightarrow> p
      | _ \<Rightarrow> AList.update ''needs_user_input'' (JBool (status = ''blocked'' \<or> agent_async_has_blockers p)) p)"

lemma normalize_parts:
  "normalize_agent_async_task_payload p st raw = with_needs_input (with_final_response (set_defaults
     [(''summary'', JStr []), (''artifacts'', JList []), (''blockers'', JList []), (''next_recommendation'', JStr []),
      (''audit_trace'', JList []), (''external_actions'', JList [])] p) raw) st"
  by (simp add: normalize_agent_async_task_payload_def with_final_response_def with_needs_input_def Let_def)

lemma with_final_response_props:
  "\<exists>s. jget (with_final_response p raw) ''final_response'' = JStr s" "jhas p k \<Longrightarrow> jhas (with_final_response p raw) k"
  by (cases "jget p ''final_response''"; simp add: with_final_response_def)+

lemma with_needs_input_props:
  "\<exists>b. jget (with_needs_input p st) ''needs_user_input'' = JBool b"
  "jget (with_needs_input p st) ''final_response'' = jget p ''final_response''"
  "jhas p k \<Longrightarrow> jhas (with_needs_input p st) k"
  by (cases "jget p ''needs_user_input''"; simp add: with_needs_input_def)+

lemma agent_payload:
  "has_keys RESULT_KEYS (normalize_agent_async_task_payload p st raw)
    \<and> (\<exists>s. jget (normalize_agent_async_task_payload p st raw) ''final_response'' = JStr s)
    \<and> (\<exists>b. jget (normalize_agent_async_task_payload p st raw) ''needs_user_input'' = JBool b)"
  unfolding normalize_parts
  by (simp add: with_needs_input_props(1,2) with_final_response_props(1) has_keys_def RESULT_KEYS_def
      with_needs_input_props(3) with_final_response_props(2))

lemma shape_keys:
  assumes "has_keys RESULT_KEYS p" shows "has_keys RESULT_KEYS (shape_payload ty st raw p)"
proof (cases "ty = ''agent_async_task''")
  case True
  then show ?thesis using agent_payload by (simp add: shape_payload_def Let_def)
next
  case False
  then show ?thesis using assms
    by (simp add: shape_payload_def Let_def has_keys_def RESULT_KEYS_def)
qed

text \<open>whatever a task's last message says, its status is success, error or blocked and its payload has a
  summary, artifacts, blockers, a next recommendation and an audit trace; a message that reports a newer
  head commit anywhere in its JSON is an error; and an agent task's payload also has a final response text
  and says with a boolean whether the user must act.\<close>

theorem completion_is_well_formed:
  assumes "parse_task_completion raw ty = (st, payload)"
  shows "st \<in> set STATUS \<and> has_keys RESULT_KEYS payload
    \<and> (\<forall>d. extract_json raw = Some d \<and> find_superseded (JObj d) \<longrightarrow> st = ''error'')
    \<and> (ty = ''agent_async_task'' \<longrightarrow> (\<exists>s b. jget payload ''final_response'' = JStr s
         \<and> jget payload ''needs_user_input'' = JBool b))"
proof -
  obtain st0 p0 where p0: "(case extract_json raw of
        None \<Rightarrow> (text_status raw, with_common_defaults [(''summary'', JStr (py_strip raw)), (''raw_text'', JStr raw)])
      | Some d \<Rightarrow> json_status (with_common_defaults d)) = (st0, p0)" by fastforce
  have known: "st0 \<in> set STATUS" "has_keys RESULT_KEYS p0"
    using p0 text_status_known json_status_known [of _ st0 p0] common_defaults_keys
    by (auto simp: has_keys_def list_all_iff split: option.splits)
  let ?sup = "find_superseded (JObj (case extract_json raw of Some d \<Rightarrow> d | None \<Rightarrow> p0))"
  let ?p1 = "if ?sup then AList.update ''error_code'' (JStr SUPERSEDED) p0 else p0"
  have res: "st = (if ?sup then ''error'' else st0)" "payload = shape_payload ty st raw ?p1"
    using assms p0 by (auto simp: parse_task_completion_def Let_def split: if_splits)
  have "has_keys RESULT_KEYS ?p1" using known(2) by (simp add: has_keys_def list_all_iff)
  then have "has_keys RESULT_KEYS payload" unfolding res(2) by (rule shape_keys)
  moreover have "st \<in> set STATUS" using known(1) by (simp add: res(1) STATUS_def)
  moreover have "\<exists>s b. jget payload ''final_response'' = JStr s \<and> jget payload ''needs_user_input'' = JBool b"
    if "ty = ''agent_async_task''"
    unfolding res(2) using that agent_payload by (simp add: shape_payload_def Let_def)
  ultimately show ?thesis using res(1) by auto
qed

lemma completion_is_well_formed_witness:
  "fst (parse_task_completion ''all done'' ''agent_async_task'') \<in> set STATUS
    \<and> has_keys RESULT_KEYS (snd (parse_task_completion ''all done'' ''agent_async_task''))"
  using completion_is_well_formed [OF prod.collapse [symmetric], of "''all done''" "''agent_async_task''"] by blast

lemma setdefault_keep: "jhas d k \<Longrightarrow> map_of (jsetdefault j v d) k = map_of d k"
  by (auto simp: jsetdefault_def jhas_def map_add_def)

lemma set_defaults_keep: "jhas d k \<Longrightarrow> map_of (set_defaults kvs d) k = map_of d k"
  by (induction kvs arbitrary: d) (auto simp: set_defaults_def setdefault_keep)

text \<open>A status the adapter does not know is taken for success: a message whose JSON says
  \<open>"status": "failed"\<close> (or anything else outside the three) ends its task as successful, the original
  word kept only as \<open>raw_status\<close>.\<close>

theorem unknown_status_reads_as_success:
  assumes "extract_json raw = Some d" "jget d ''status'' = JStr s" "s \<notin> set STATUS" "\<not> find_superseded (JObj d)"
    and "ty \<notin> {''delegation_task'', ''agent_async_task'', ''github_review_task'', ''github_pr_review''}"
  shows "fst (parse_task_completion raw ty) = ''success''
    \<and> jget (snd (parse_task_completion raw ty)) ''raw_status'' = JStr s"
proof -
  have "jhas d ''status''" using assms(2) by (auto simp: jget_def jhas_def split: option.splits)
  then have st: "jget_def (with_common_defaults d) ''status'' (JStr ''success'') = JStr s"
    using set_defaults_keep [of d "''status''"] assms(2)
    by (simp add: with_common_defaults_def jget_def_def jget_def jhas_def split: option.splits)
  then have "json_status (with_common_defaults d) = (''success'', AList.update ''raw_status'' (JStr s) (with_common_defaults d))"
    using assms(3) by (simp add: json_status_def Let_def)
  then show ?thesis using assms(1,4,5) by (simp add: parse_task_completion_def shape_payload_def Let_def)
qed

definition failed_report :: string where
  "failed_report = json_dumps (JObj [(''status'', JStr ''failed'')])"

lemma failed_report_json: "extract_json failed_report = Some [(''status'', JStr ''failed'')]"
  by code_simp

lemma unknown_status_reads_as_success_witness:
  "fst (parse_task_completion failed_report ''generic_agent_task'') = ''success''"
  by (rule unknown_status_reads_as_success [OF failed_report_json, where s = "''failed''", THEN conjunct1])
     (simp_all add: jget_def STATUS_def SUPERSEDED_def)

end
