(* ===== verification/PyTime.thy ===== *)
theory PyTime
  imports PyFloat
begin

text \<open>
  UTC instants as integers, microseconds since 1970-01-01T00:00:00Z, and the text
  \<^verbatim>\<open>datetime.now(timezone.utc).isoformat()\<close> prints for one. Printing uses the proleptic Gregorian
  calendar on eras of 400 years; the text omits the fraction when it is zero, as Python does. Texts of
  years 1000 to 9999 order as the instants do, so the stores that compare stamps as strings are modelled
  on the instants.
\<close>

definition pad :: "nat \<Rightarrow> int \<Rightarrow> string" where
  "pad w i = (let t = int_text i in replicate (w - length t) (CHR ''0'') @ t)"

text \<open>Year, month and day of a day number (days since 1970-01-01).\<close>

definition civil_of_days :: "int \<Rightarrow> int \<times> int \<times> int" where
  "civil_of_days days =
     (let z = days + 719468; era = z div 146097; doe = z - era * 146097;
          yoe = (doe - doe div 1460 + doe div 36524 - doe div 146096) div 365;
          doy = doe - (365 * yoe + yoe div 4 - yoe div 100);
          mp = (5 * doy + 2) div 153;
          d = doy - (153 * mp + 2) div 5 + 1;
          m = (if mp < 10 then mp + 3 else mp - 9);
          y = yoe + era * 400 + (if m \<le> 2 then 1 else 0)
      in (y, m, d))"

definition utc_iso :: "int \<Rightarrow> string" where
  "utc_iso us =
     (let days = us div 86400000000; rest = us mod 86400000000; (y, m, d) = civil_of_days days;
          secs = rest div 1000000; frac = rest mod 1000000
      in pad 4 y @ ''-'' @ pad 2 m @ ''-'' @ pad 2 d @ ''T'' @ pad 2 (secs div 3600) @ '':'' @
         pad 2 (secs div 60 mod 60) @ '':'' @ pad 2 (secs mod 60) @
         (if frac = 0 then [] else ''.'' @ pad 6 frac) @ ''+00:00'')"

text \<open>\<^verbatim>\<open>timedelta(seconds=s)\<close> in microseconds.\<close>

definition delta_us :: "rat \<Rightarrow> int" where
  "delta_us s = round_half_even (s * 1000000)"

lemma utc_iso_epoch: "utc_iso 0 = ''1970-01-01T00:00:00+00:00''"
  by code_simp

lemma utc_iso_leap_day: "utc_iso 1709164800000001 = ''2024-02-29T00:00:00.000001+00:00''"
  by code_simp

end
