(* ===== verification/UserDisplay.thy ===== *)
theory UserDisplay
  imports StoreContracts PyTime
begin

text \<open>
  \<^verbatim>\<open>user_display_store.py\<close>: what the transcript shows for a message, kept in one JSON file. The payload in
  memory always has version 1 and a dict of dicts, so the state keeps the dict of messages. The safe
  attachment keys are a set in the code; the order its iteration takes is fixed here with \<open>type\<close> last.
\<close>

section \<open>Attachments\<close>

definition SAFE_ATTACHMENT_KEYS :: "string list" where
  "SAFE_ATTACHMENT_KEYS = [''file_id'', ''id'', ''name'', ''filename'', ''content_type'', ''mime'', ''parse_error'',
     ''size'', ''parsed'', ''type'']"

definition STRING_ATTACHMENT_KEYS :: "string list" where
  "STRING_ATTACHMENT_KEYS = [''file_id'', ''id'', ''name'', ''filename'', ''content_type'', ''mime'', ''parse_error'']"

definition ALLOWED_ATTACHMENT_TYPES :: "string list" where
  "ALLOWED_ATTACHMENT_TYPES = [''image'', ''file'']"

definition clean_string :: "jval \<Rightarrow> string option" where
  "clean_string v = (let text = py_strip (py_str v) in if text = [] then None else Some text)"

text \<open>What the loop body stores for a key the item has, if anything.\<close>

definition clean_field :: "string \<Rightarrow> jval \<Rightarrow> jval option" where
  "clean_field key v =
     (if key = ''size'' then (case v of JInt i \<Rightarrow> Some v | JFloat f \<Rightarrow> Some v | _ \<Rightarrow> None)
      else if key = ''parsed'' then (case v of JBool b \<Rightarrow> Some v | _ \<Rightarrow> None)
      else if key = ''type'' then
        Some (JStr (case clean_string v of Some t \<Rightarrow> if t \<in> set ALLOWED_ATTACHMENT_TYPES then t else ''file''
                    | None \<Rightarrow> ''file''))
      else if key \<in> set STRING_ATTACHMENT_KEYS then map_option JStr (clean_string v)
      else None)"

definition clean_fields :: "jobj \<Rightarrow> jobj" where
  "clean_fields item = concat (List.map (\<lambda>key.
     if jhas item key then (case clean_field key (jget item key) of None \<Rightarrow> [] | Some v \<Rightarrow> [(key, v)]) else [])
     SAFE_ATTACHMENT_KEYS)"

definition sanitize_attachment :: "jval \<Rightarrow> jobj list" where
  "sanitize_attachment item =
     (case item of
        JStr s \<Rightarrow> (let file_id = py_strip s in if file_id = [] then []
                  else [[(''file_id'', JStr file_id), (''id'', JStr file_id), (''type'', JStr ''file'')]])
      | JObj d \<Rightarrow> (let clean = clean_fields d in
          [AList.update ''type'' (if jget clean ''type'' \<in> {JStr ''image'', JStr ''file''} then jget clean ''type''
                                  else JStr ''file'') clean])
      | _ \<Rightarrow> [])"

definition sanitize_display_attachments :: "jval \<Rightarrow> jobj list" where
  "sanitize_display_attachments attachments =
     (case attachments of JList xs \<Rightarrow> concat (List.map sanitize_attachment xs) | _ \<Rightarrow> [])"

section \<open>The store\<close>

record display_store =
  ud_messages :: "(string, jobj) odict"
  ud_file :: "jfile option"
  ud_backups :: "(string \<times> jfile) list"

definition display_key :: "string \<Rightarrow> string \<Rightarrow> string" where
  "display_key oid mid = oid @ '':'' @ mid"

definition display_document :: "(string, jobj) odict \<Rightarrow> jval" where
  "display_document d = JObj [(''version'', JInt 1), (''messages'', JObj (List.map (\<lambda>(k, r). (k, JObj r)) d))]"

definition display_quarantine :: "string \<Rightarrow> display_store \<Rightarrow> display_store" where
  "display_quarantine stamp st =
     (case ud_file st of None \<Rightarrow> st
      | Some f \<Rightarrow> st\<lparr>ud_file := None, ud_backups := AList.update (''corrupt-'' @ replace_char (CHR ''/'') ''_''
          (replace_char (CHR ''+'') ''_'' (replace_char (CHR '':'') [] stamp))) f (ud_backups st)\<rparr>)"

fun dict_values :: "jobj \<Rightarrow> (string, jobj) odict" where
  "dict_values [] = []"
| "dict_values ((k, v) # d) = (case v of JObj r \<Rightarrow> (k, r) # dict_values d | _ \<Rightarrow> dict_values d)"

definition display_load :: "string \<Rightarrow> display_store \<Rightarrow> display_store" where
  "display_load stamp st =
     (case ud_file st of
        None \<Rightarrow> st\<lparr>ud_messages := []\<rparr>
      | Some NotJson \<Rightarrow> (display_quarantine stamp st)\<lparr>ud_messages := []\<rparr>
      | Some (JsonText v) \<Rightarrow> (case v of
          JObj d \<Rightarrow> (case jget d ''messages'' of JObj m \<Rightarrow> st\<lparr>ud_messages := dict_values m\<rparr>
                    | _ \<Rightarrow> st\<lparr>ud_messages := []\<rparr>)
        | _ \<Rightarrow> st\<lparr>ud_messages := []\<rparr>))"

definition display_write :: "display_store \<Rightarrow> display_store" where
  "display_write st = st\<lparr>ud_file := Some (JsonText (display_document (ud_messages st)))\<rparr>"

text \<open>The creation stamp a rewritten record keeps.\<close>

definition kept_created_at :: "display_store \<Rightarrow> string \<Rightarrow> string \<Rightarrow> jval" where
  "kept_created_at st key now =
     (case map_of (ud_messages st) key of
        Some r \<Rightarrow> (case jget r ''created_at'' of JStr s \<Rightarrow> JStr s | _ \<Rightarrow> JStr now)
      | None \<Rightarrow> JStr now)"

definition put_record :: "jobj \<Rightarrow> display_store \<Rightarrow> display_store" where
  "put_record r st = display_write (st\<lparr>ud_messages := AList.update
     (display_key (py_str (jget r ''opencode_session_id'')) (py_str (jget r ''opencode_message_id''))) r (ud_messages st)\<rparr>)"

definition put_user_message ::
    "string \<Rightarrow> string \<Rightarrow> string \<Rightarrow> string \<Rightarrow> string \<Rightarrow> jval \<Rightarrow> jval \<Rightarrow> display_store \<Rightarrow> jobj \<times> display_store" where
  "put_user_message now sid oid mid content attachments metadata st =
     (let record = [(''portal_session_id'', JStr sid), (''opencode_session_id'', JStr oid),
            (''opencode_message_id'', JStr mid), (''role'', JStr ''user''), (''display_content'', JStr content),
            (''display_attachments'', JList (List.map JObj (sanitize_display_attachments attachments))),
            (''metadata'', if is_obj metadata then metadata else JObj []),
            (''created_at'', kept_created_at st (display_key oid mid) now), (''updated_at'', JStr now)]
      in (record, put_record record st))"

definition attribution_field :: "jobj \<Rightarrow> string \<Rightarrow> jobj" where
  "attribution_field attribution k =
     (case jget attribution k of JStr s \<Rightarrow> if py_strip s \<noteq> [] then [(k, JStr s)] else [] | _ \<Rightarrow> [])"

definition put_assistant_attribution ::
    "string \<Rightarrow> string \<Rightarrow> string \<Rightarrow> string \<Rightarrow> jobj \<Rightarrow> display_store \<Rightarrow> jobj \<times> display_store" where
  "put_assistant_attribution now sid oid mid attribution st =
     (let record = [(''portal_session_id'', JStr sid), (''opencode_session_id'', JStr oid),
            (''opencode_message_id'', JStr mid), (''role'', JStr ''assistant''),
            (''metadata'', JObj (concat (List.map (attribution_field attribution)
               [''model'', ''requested_model'', ''auto_tier'', ''model_fallback_reason'']))),
            (''created_at'', kept_created_at st (display_key oid mid) now), (''updated_at'', JStr now)]
      in (record, put_record record st))"

text \<open>A direct hit, or else the one record of the portal session with that message id.\<close>

definition get_user_message :: "string \<Rightarrow> string \<Rightarrow> string \<Rightarrow> display_store \<Rightarrow> jobj option" where
  "get_user_message oid mid sid st =
     (case map_of (ud_messages st) (display_key oid mid) of
        Some r \<Rightarrow> Some r
      | None \<Rightarrow> if sid = [] \<or> mid = [] then None
          else (case filter (\<lambda>r. jget r ''opencode_message_id'' = JStr mid \<and> jget r ''portal_session_id'' = JStr sid)
                       (List.map snd (ud_messages st)) of
                  [r] \<Rightarrow> Some r | _ \<Rightarrow> None))"

definition get_message :: "string \<Rightarrow> string \<Rightarrow> string \<Rightarrow> display_store \<Rightarrow> jobj option" where
  "get_message oid mid sid st = get_user_message oid mid sid st"

definition of_session :: "string \<Rightarrow> string \<Rightarrow> jobj \<Rightarrow> bool" where
  "of_session sid oid r \<longleftrightarrow> sid \<noteq> [] \<and> jget r ''portal_session_id'' = JStr sid
     \<or> oid \<noteq> [] \<and> jget r ''opencode_session_id'' = JStr oid"

definition display_delete_session :: "string \<Rightarrow> string \<Rightarrow> display_store \<Rightarrow> nat \<times> display_store" where
  "display_delete_session sid oid st =
     (if sid = [] \<and> oid = [] then (0, st)
      else let keys = List.map fst (filter (\<lambda>(k, r). of_session sid oid r) (ud_messages st));
               st1 = st\<lparr>ud_messages := fold AList.delete keys (ud_messages st)\<rparr>
           in (length keys, if keys = [] then st1 else display_write st1))"

section \<open>Sanitizing\<close>

lemma clean_string_idem: "clean_string v = Some t \<Longrightarrow> clean_string (JStr t) = Some t"
  by (auto simp: clean_string_def Let_def split: if_splits)

lemma clean_allowed: "clean_string (JStr ''image'') = Some ''image''" "clean_string (JStr ''file'') = Some ''file''"
  by code_simp+

lemma clean_type: "clean_field ''type'' v = Some (JStr ''image'') \<or> clean_field ''type'' v = Some (JStr ''file'')"
  by (auto simp: clean_field_def ALLOWED_ATTACHMENT_TYPES_def split: option.split)

lemma clean_type_idem: "clean_field ''type'' (JStr ''image'') = Some (JStr ''image'')"
    "clean_field ''type'' (JStr ''file'') = Some (JStr ''file'')"
  by (simp_all add: clean_field_def clean_allowed ALLOWED_ATTACHMENT_TYPES_def)

lemma clean_field_idem:
  assumes "clean_field key v = Some w" shows "clean_field key w = Some w"
proof (cases "key = ''type''")
  case True
  then show ?thesis using assms clean_type [of v] clean_type_idem by auto
next
  case False
  then show ?thesis using assms clean_string_idem [of v]
    by (cases v) (auto simp: clean_field_def split: if_splits)
qed

definition opt_fields :: "(string \<Rightarrow> jval option) \<Rightarrow> string list \<Rightarrow> jobj" where
  "opt_fields h ks = concat (List.map (\<lambda>k. case h k of None \<Rightarrow> [] | Some v \<Rightarrow> [(k, v)]) ks)"

lemma opt_fields_simps [simp]:
  "opt_fields h [] = []"
  "opt_fields h (k # ks) = (case h k of None \<Rightarrow> opt_fields h ks | Some v \<Rightarrow> (k, v) # opt_fields h ks)"
  by (simp_all add: opt_fields_def split: option.split)

lemma map_of_opt_fields: "distinct ks \<Longrightarrow> map_of (opt_fields h ks) k = (if k \<in> set ks then h k else None)"
  by (induction ks) (auto split: option.split)

lemma opt_fields_cong: "(\<And>k. k \<in> set ks \<Longrightarrow> h k = g k) \<Longrightarrow> opt_fields h ks = opt_fields g ks"
  by (induction ks) (auto split: option.split)

lemma update_opt_fields_last:
  "k \<notin> set ks \<Longrightarrow> AList.update k w (opt_fields h (ks @ [k])) = opt_fields (h(k := Some w)) (ks @ [k])"
  by (induction ks) (auto split: option.split)

text \<open>The value an item's key is cleaned to, and the attachment as these values in key order.\<close>

definition cleaned :: "jobj \<Rightarrow> string \<Rightarrow> jval option" where
  "cleaned item key = (if jhas item key then clean_field key (jget item key) else None)"

lemma clean_fields_opt: "clean_fields item = opt_fields (cleaned item) SAFE_ATTACHMENT_KEYS"
  by (auto simp: clean_fields_def opt_fields_def cleaned_def intro!: arg_cong [where f = concat] split: option.split)

lemma safe_keys_split: "SAFE_ATTACHMENT_KEYS = STRING_ATTACHMENT_KEYS @ [''size'', ''parsed''] @ [''type'']"
  by (simp add: SAFE_ATTACHMENT_KEYS_def STRING_ATTACHMENT_KEYS_def)

lemma safe_keys_distinct: "distinct SAFE_ATTACHMENT_KEYS" "''type'' \<in> set SAFE_ATTACHMENT_KEYS"
  by (simp_all add: SAFE_ATTACHMENT_KEYS_def)

definition final_type :: "jobj \<Rightarrow> jval" where
  "final_type item = (case cleaned item ''type'' of Some v \<Rightarrow> v | None \<Rightarrow> JStr ''file'')"

lemma final_type_cases: "final_type item = JStr ''image'' \<or> final_type item = JStr ''file''"
  using clean_type [of "jget item ''type''"] by (auto simp: final_type_def cleaned_def)

lemma sanitize_obj: "sanitize_attachment (JObj d) =
    [opt_fields ((cleaned d)(''type'' := Some (final_type d))) SAFE_ATTACHMENT_KEYS]"
proof -
  have t: "jget (clean_fields d) ''type'' = (case cleaned d ''type'' of Some v \<Rightarrow> v | None \<Rightarrow> JNull)"
    by (simp add: jget_def clean_fields_opt map_of_opt_fields safe_keys_distinct)
  have "AList.update ''type'' (final_type d) (clean_fields d)
      = opt_fields ((cleaned d)(''type'' := Some (final_type d))) SAFE_ATTACHMENT_KEYS"
    unfolding clean_fields_opt safe_keys_split append_assoc [symmetric]
    by (rule update_opt_fields_last) (simp add: STRING_ATTACHMENT_KEYS_def)
  moreover have "(if jget (clean_fields d) ''type'' \<in> {JStr ''image'', JStr ''file''}
      then jget (clean_fields d) ''type'' else JStr ''file'') = final_type d"
    using final_type_cases [of d] t by (auto simp: final_type_def split: option.splits)
  ultimately show ?thesis by (simp add: sanitize_attachment_def Let_def del: insert_iff)
qed

definition clean_attachment :: "jobj \<Rightarrow> bool" where
  "clean_attachment a \<longleftrightarrow> sanitize_attachment (JObj a) = [a]"

lemma sanitize_obj_clean:
  "clean_attachment (opt_fields ((cleaned d)(''type'' := Some (final_type d))) SAFE_ATTACHMENT_KEYS)"
proof -
  let ?h = "(cleaned d)(''type'' := Some (final_type d))"
  let ?r = "opt_fields ?h SAFE_ATTACHMENT_KEYS"
  have same: "cleaned ?r k = ?h k" if "k \<in> set SAFE_ATTACHMENT_KEYS" for k
  proof (cases "?h k")
    case None
    then show ?thesis using that by (simp add: cleaned_def jhas_def map_of_opt_fields safe_keys_distinct)
  next
    case (Some v)
    then have m: "map_of ?r k = Some v" using that by (simp add: map_of_opt_fields safe_keys_distinct)
    have "clean_field k v = Some v"
    proof (cases "k = ''type''")
      case True
      then show ?thesis using Some final_type_cases [of d] clean_type_idem by auto
    next
      case False
      then have "clean_field k (jget d k) = Some v" using Some by (simp add: cleaned_def split: if_splits)
      then show ?thesis by (rule clean_field_idem)
    qed
    then show ?thesis using m Some by (simp add: cleaned_def jhas_def jget_def)
  qed
  then have "final_type ?r = final_type d" by (simp add: final_type_def safe_keys_distinct)
  then have "opt_fields ((cleaned ?r)(''type'' := Some (final_type ?r))) SAFE_ATTACHMENT_KEYS = ?r"
    using same by (intro opt_fields_cong) simp
  then show ?thesis unfolding clean_attachment_def sanitize_obj by simp
qed

lemma sanitize_str_clean:
  assumes "py_strip s \<noteq> []"
  shows "clean_attachment [(''file_id'', JStr (py_strip s)), (''id'', JStr (py_strip s)), (''type'', JStr ''file'')]"
  using assms clean_allowed(2)
  by (simp add: clean_attachment_def sanitize_attachment_def clean_fields_def SAFE_ATTACHMENT_KEYS_def jhas_def
      jget_def clean_field_def clean_string_def STRING_ATTACHMENT_KEYS_def ALLOWED_ATTACHMENT_TYPES_def)

lemma sanitize_attachment_clean: "a \<in> set (sanitize_attachment x) \<Longrightarrow> clean_attachment a"
proof (cases x)
  case (JStr s)
  assume "a \<in> set (sanitize_attachment x)"
  with JStr show ?thesis using sanitize_str_clean by (auto simp: sanitize_attachment_def Let_def split: if_splits)
next
  case (JObj d)
  assume "a \<in> set (sanitize_attachment x)"
  with JObj show ?thesis using sanitize_obj_clean by (simp add: sanitize_obj)
qed (simp_all add: sanitize_attachment_def)

lemma sanitized_clean: "a \<in> set (sanitize_display_attachments v) \<Longrightarrow> clean_attachment a"
  by (auto simp: sanitize_display_attachments_def sanitize_attachment_clean split: jval.splits)

lemma clean_keys: "clean_attachment a \<Longrightarrow> set (dkeys a) \<subseteq> set SAFE_ATTACHMENT_KEYS
    \<and> (jget a ''type'' = JStr ''image'' \<or> jget a ''type'' = JStr ''file'')"
proof -
  assume "clean_attachment a"
  then have a: "a = opt_fields ((cleaned a)(''type'' := Some (final_type a))) SAFE_ATTACHMENT_KEYS"
    by (simp add: clean_attachment_def sanitize_obj)
  have "set (dkeys (opt_fields h ks)) \<subseteq> set ks" for h ks
    by (induction ks) (auto split: option.split)
  moreover have "jget a ''type'' = final_type a"
    by (subst a) (simp add: jget_def map_of_opt_fields safe_keys_distinct)
  ultimately show ?thesis using a final_type_cases [of a] by metis
qed

text \<open>Sanitizing attachments is done once and for all: every stored attachment has only the safe keys and a
  type of image or file, and sanitizing the result again changes nothing.\<close>

theorem attachments_sanitize_idempotent:
  "sanitize_display_attachments (JList (List.map JObj (sanitize_display_attachments v))) = sanitize_display_attachments v
    \<and> list_all (\<lambda>a. set (dkeys a) \<subseteq> set SAFE_ATTACHMENT_KEYS
         \<and> (jget a ''type'' = JStr ''image'' \<or> jget a ''type'' = JStr ''file'')) (sanitize_display_attachments v)"
proof -
  have "concat (List.map sanitize_attachment (List.map JObj as)) = as" if "\<forall>a \<in> set as. clean_attachment a" for as
    using that by (induction as) (simp_all add: clean_attachment_def)
  then show ?thesis using sanitized_clean [of _ v] clean_keys
    by (simp add: sanitize_display_attachments_def [of "JList _"] list_all_iff)
qed

section \<open>The store keeps its contract\<close>

definition display_ok :: "display_store \<Rightarrow> bool" where
  "display_ok st \<longleftrightarrow> dict_ok (ud_messages st)"

definition record_key :: "jobj \<Rightarrow> string" where
  "record_key r = display_key (py_str (jget r ''opencode_session_id'')) (py_str (jget r ''opencode_message_id''))"

interpretation display: keyed_store record_key "\<lambda>st. map_of (ud_messages st)" put_record display_ok
  by unfold_locales (auto simp: put_record_def display_write_def record_key_def display_ok_def update_conv' fun_eq_iff)

lemma fold_delete: "fold AList.delete ks d = filter (\<lambda>(k, v). k \<notin> set ks) d"
proof (induction ks arbitrary: d)
  case (Cons k ks)
  then show ?case by (auto simp: delete_filter case_prod_beta' intro: filter_cong)
qed simp

text \<open>deleting a session leaves nothing of it behind and nothing else goes: afterwards no record of the
  Portal or OpenCode session is stored, every other record is, the count is the number of records
  removed, and when any was removed the file holds exactly the remaining ones.\<close>

theorem display_delete_is_complete:
  assumes "display_ok st" "sid \<noteq> [] \<or> oid \<noteq> []" "display_delete_session sid oid st = (n, st')"
  shows "ud_messages st' = filter (\<lambda>(k, r). \<not> of_session sid oid r) (ud_messages st)
    \<and> n = length (ud_messages st) - length (ud_messages st')
    \<and> (n > 0 \<longrightarrow> ud_file st' = Some (JsonText (display_document (ud_messages st'))))"
proof -
  let ?d = "ud_messages st" and ?P = "\<lambda>(k, r). of_session sid oid r"
  let ?keys = "List.map fst (filter ?P ?d)"
  have key: "k \<in> set ?keys \<longleftrightarrow> of_session sid oid r" if kr: "(k, r) \<in> set ?d" for k r
  proof -
    have "r' = r" if "(k, r') \<in> set ?d" for r'
      using map_of_is_SomeI [of ?d k r] map_of_is_SomeI [of ?d k r'] kr that assms(1) unfolding display_ok_def
      by (metis option.inject)
    then have one: "(k, r') \<in> set ?d \<Longrightarrow> r' = r" for r' .
    show ?thesis
    proof
      assume "k \<in> set ?keys"
      then obtain r' where "(k, r') \<in> set ?d" "of_session sid oid r'" unfolding set_map set_filter by fastforce
      then show "of_session sid oid r" using one by metis
    next
      assume "of_session sid oid r"
      then have "(k, r) \<in> set (filter ?P ?d)" using kr by simp
      then show "k \<in> set ?keys" by force
    qed
  qed
  have "filter (\<lambda>(k, v). k \<notin> set ?keys) ?d = filter (\<lambda>(k, r). \<not> of_session sid oid r) ?d"
  proof (rule filter_cong [OF refl])
    fix x assume x: "x \<in> set ?d"
    obtain k r where "x = (k, r)" by fastforce
    with key [of k r] x show "(case x of (k, v) \<Rightarrow> k \<notin> set ?keys) = (case x of (k, r) \<Rightarrow> \<not> of_session sid oid r)"
      by (simp only: prod.case)
  qed
  then have msgs: "fold AList.delete ?keys ?d = filter (\<lambda>(k, r). \<not> of_session sid oid r) ?d"
    by (simp only: fold_delete)
  have len: "length (filter ?P ?d) = length ?d - length (filter (\<lambda>(k, r). \<not> of_session sid oid r) ?d)"
    using sum_length_filter_compl [of ?P ?d] by (simp add: case_prod_beta')
  have st': "n = length ?keys" "ud_messages st' = fold AList.delete ?keys ?d"
      "?keys \<noteq> [] \<longrightarrow> ud_file st' = Some (JsonText (display_document (fold AList.delete ?keys ?d)))"
    using assms(2,3) by (auto simp: display_delete_session_def Let_def display_write_def split: if_splits)
  show ?thesis using st' len by (auto simp: msgs)
qed

definition sample_display :: display_store where
  "sample_display = snd (put_user_message ''t'' ''s'' ''o'' ''m'' ''hi'' JNull JNull
     \<lparr>ud_messages = [], ud_file = None, ud_backups = []\<rparr>)"

lemma display_delete_is_complete_witness:
  "ud_messages (snd (display_delete_session ''s'' [] sample_display))
    = filter (\<lambda>(k, r). \<not> of_session ''s'' [] r) (ud_messages sample_display)"
proof -
  have "display_ok sample_display"
    unfolding sample_display_def put_user_message_def Let_def snd_conv
    by (rule display.ok_put) (simp add: display_ok_def)
  from display_delete_is_complete [OF this _ prod.collapse [symmetric], of "''s''" "[]"] show ?thesis by simp
qed

text \<open>A message put is the message read, with the stamp of its first version.\<close>

lemma put_user_message_reads_back:
  "display_ok st \<Longrightarrow> put_user_message now sid oid mid c a md st = (r, st') \<Longrightarrow> get_message oid mid sid' st' = Some r
     \<and> jget r ''created_at'' = kept_created_at st (display_key oid mid) now"
  using display.look_same [of st r]
  by (auto simp: put_user_message_def Let_def get_message_def get_user_message_def record_key_def jget_def)

end
