(* ===== verification/NetText.thy ===== *)
theory NetText
  imports PyFloat
begin

text \<open>
  The parts of \<^verbatim>\<open>urllib.parse\<close> and \<^verbatim>\<open>ipaddress\<close> the adapter's proxy code uses, on texts whose code points
  are at most 255: splitting a URL, its host name and port, percent quoting, and reading an IP address or
  a network, as Python 3.11 does it. \<^verbatim>\<open>None\<close> stands for the \<^verbatim>\<open>ValueError\<close> of each.
\<close>

section \<open>Splitting texts\<close>

text \<open>The text before and after the first (last) separator; without one, \<^verbatim>\<open>partition\<close> gives all before it and
  \<^verbatim>\<open>rpartition\<close> all after it.\<close>

definition partition_at :: "char \<Rightarrow> string \<Rightarrow> string \<times> bool \<times> string" where
  "partition_at c s = (let a = takeWhile (\<lambda>x. x \<noteq> c) s in
     if length a = length s then (s, False, []) else (a, True, drop (length a + 1) s))"

definition rpartition_at :: "char \<Rightarrow> string \<Rightarrow> string \<times> bool \<times> string" where
  "rpartition_at c s = (let b = takeWhile (\<lambda>x. x \<noteq> c) (rev s) in
     if length b = length s then ([], False, s) else (rev (drop (length b + 1) (rev s)), True, rev b))"

definition is_alpha :: "char \<Rightarrow> bool" where
  "is_alpha c = (let n = of_char c :: nat in (65 \<le> n \<and> n \<le> 90) \<or> (97 \<le> n \<and> n \<le> 122))"

section \<open>IP addresses\<close>

text \<open>The numbers are integers, as in Python; a network is the part above its host bits.\<close>

datatype ip = IPv4 int | IPv6 int string

definition ipv4_octet :: "string \<Rightarrow> int option" where
  "ipv4_octet s =
     (if s = [] \<or> \<not> list_all is_digit s \<or> length s > 3 \<or> (length s > 1 \<and> hd s = CHR ''0'') \<or> digits_val s > 255
      then None else Some (int (digits_val s)))"

definition parse_ipv4 :: "string \<Rightarrow> int option" where
  "parse_ipv4 s =
     (case List.map ipv4_octet (split_char (CHR ''.'') s) of
        [Some a, Some b, Some c, Some d] \<Rightarrow> Some (((a * 256 + b) * 256 + c) * 256 + d)
      | _ \<Rightarrow> None)"

definition hex_digit_val :: "char \<Rightarrow> int option" where
  "hex_digit_val c = (let n = of_char c :: int in
     if 48 \<le> n \<and> n \<le> 57 then Some (n - 48)
     else if 97 \<le> n \<and> n \<le> 102 then Some (n - 87)
     else if 65 \<le> n \<and> n \<le> 70 then Some (n - 55) else None)"

fun hex_number :: "int \<Rightarrow> string \<Rightarrow> int option" where
  "hex_number acc [] = Some acc"
| "hex_number acc (c # s) = (case hex_digit_val c of None \<Rightarrow> None | Some d \<Rightarrow> hex_number (16 * acc + d) s)"

definition hextet :: "string \<Rightarrow> int option" where
  "hextet s = (if s = [] \<or> length s > 4 then None else hex_number 0 s)"

text \<open>The value of a list of hextets, \<^verbatim>\<open>None\<close> when one is not.\<close>

fun hextets_val :: "int \<Rightarrow> string list \<Rightarrow> int option" where
  "hextets_val acc [] = Some acc"
| "hextets_val acc (h # hs) = (case hextet h of None \<Rightarrow> None | Some v \<Rightarrow> hextets_val (acc * 65536 + v) hs)"

text \<open>\<^verbatim>\<open>IPv6Address._ip_int_from_string\<close>: 3 to 9 parts, a last part with a dot is an IPv4 address standing for
  two parts, and at most one empty part inside stands for the missing zeros.\<close>

definition expand_v4_tail :: "string list \<Rightarrow> string list option" where
  "expand_v4_tail parts =
     (if CHR ''.'' \<in> set (last parts) then
        (case parse_ipv4 (last parts) of None \<Rightarrow> None
         | Some v \<Rightarrow> (let hx = (\<lambda>n. List.map (\<lambda>k. hex_digit (nat (n div k mod 16))) [4096, 256, 16, 1])
                     in Some (butlast parts @ [hx (v div 65536), hx (v mod 65536)])))
      else Some parts)"

definition inner_gaps :: "string list \<Rightarrow> nat list" where
  "inner_gaps parts = filter (\<lambda>i. parts ! i = []) [1..<length parts - 1]"

definition parse_ipv6_int :: "string \<Rightarrow> int option" where
  "parse_ipv6_int s =
     (let parts0 = split_char (CHR '':'') s in
      if s = [] \<or> length parts0 < 3 then None
      else case expand_v4_tail parts0 of None \<Rightarrow> None
      | Some parts \<Rightarrow>
          if length parts > 9 then None
          else case inner_gaps parts of
            [] \<Rightarrow> if length parts \<noteq> 8 \<or> hd parts = [] \<or> last parts = [] then None else hextets_val 0 parts
          | [i] \<Rightarrow>
              (let hi = (if hd parts = [] then i - 1 else i);
                   lo = (if last parts = [] then length parts - i - 2 else length parts - i - 1)
               in if hd parts = [] \<and> hi \<noteq> 0 then None
                  else if last parts = [] \<and> lo \<noteq> 0 then None
                  else if hi + lo > 7 then None
                  else (case hextets_val 0 (take hi parts) of None \<Rightarrow> None
                    | Some h \<Rightarrow> (case hextets_val 0 (drop (length parts - lo) parts) of None \<Rightarrow> None
                        | Some l \<Rightarrow> Some (h * 65536 ^ (8 - hi) + l))))
          | _ \<Rightarrow> None)"

definition parse_ip :: "string \<Rightarrow> ip option" where
  "parse_ip s =
     (case parse_ipv4 s of Some v \<Rightarrow> Some (IPv4 v)
      | None \<Rightarrow>
          (if CHR ''/'' \<in> set s then None
           else let (addr, pct, zone) = partition_at (CHR ''%'') s in
             if pct \<and> (zone = [] \<or> CHR ''%'' \<in> set zone) then None
             else map_option (\<lambda>v. IPv6 v zone) (parse_ipv6_int addr)))"

definition ip_is_loopback :: "ip \<Rightarrow> bool" where
  "ip_is_loopback a = (case a of IPv4 v \<Rightarrow> v div 2 ^ 24 = 127
     | IPv6 v z \<Rightarrow> v = 1)"

section \<open>URLs\<close>

record split_url =
  su_scheme :: string
  su_netloc :: string
  su_path :: string
  su_query :: string
  su_fragment :: string

definition scheme_char :: "char \<Rightarrow> bool" where
  "scheme_char c = (is_alpha c \<or> is_digit c \<or> c \<in> set ''+-.'')"

text \<open>\<^verbatim>\<open>urlsplit\<close>: leading control characters and blanks are dropped, and tabs and line ends anywhere.\<close>

definition url_clean :: "string \<Rightarrow> string" where
  "url_clean s = filter (\<lambda>c. c \<notin> {CHR 0x09, CHR 0x0A, CHR 0x0D}) (dropWhile (\<lambda>c. (of_char c :: nat) \<le> 32) s)"

text \<open>A bracketed host is an IPv6 address or \<open>v\<close>, hexadecimal digits, a dot and at least one character.\<close>

definition ip_future :: "string \<Rightarrow> bool" where
  "ip_future s = (let (a, dot, b) = partition_at (CHR ''.'') (tl s) in
     dot \<and> a \<noteq> [] \<and> b \<noteq> [] \<and> list_all (\<lambda>c. hex_digit_val c \<noteq> None) a)"

definition bracketed_host_ok :: "string \<Rightarrow> bool" where
  "bracketed_host_ok s = (if startswith s ''v'' then ip_future s else (case parse_ip s of Some (IPv6 v z) \<Rightarrow> True | _ \<Rightarrow> False))"

definition bracket_ok :: "string \<Rightarrow> bool" where
  "bracket_ok netloc =
     (if CHR ''['' \<in> set netloc \<and> CHR '']'' \<in> set netloc
      then bracketed_host_ok (fst (partition_at (CHR '']'') (snd (snd (partition_at (CHR ''['') netloc)))))
      else CHR ''['' \<notin> set netloc \<and> CHR '']'' \<notin> set netloc)"

definition scheme_rest :: "string \<Rightarrow> string \<times> string" where
  "scheme_rest url =
     (let (a, found, b) = partition_at (CHR '':'') url in
      if found \<and> a \<noteq> [] \<and> is_alpha (hd a) \<and> list_all scheme_char a then (py_lower a, b) else ([], url))"

definition netloc_rest :: "string \<Rightarrow> string \<times> string" where
  "netloc_rest rest =
     (if startswith rest ''//''
      then (takeWhile (\<lambda>c. c \<notin> set ''/?#'') (drop 2 rest), dropWhile (\<lambda>c. c \<notin> set ''/?#'') (drop 2 rest))
      else ([], rest))"

definition urlsplit :: "string \<Rightarrow> split_url option" where
  "urlsplit url =
     (let (scheme, rest) = scheme_rest (url_clean url);
          (netloc, tail) = netloc_rest rest;
          (before_f, has_f, frag) = partition_at (CHR ''#'') tail;
          (path, has_q, query) = partition_at (CHR ''?'') before_f
      in if bracket_ok netloc
         then Some \<lparr>su_scheme = scheme, su_netloc = netloc, su_path = path, su_query = query, su_fragment = frag\<rparr>
         else None)"

text \<open>The host and port texts of a netloc.\<close>

definition host_info :: "string \<Rightarrow> string \<times> string" where
  "host_info netloc =
     (let (ui, has_ui, hostinfo) = rpartition_at (CHR ''@'') netloc;
          (x, bracketed, y) = partition_at (CHR ''['') hostinfo
      in if bracketed then
           (let (host, c1, z) = partition_at (CHR '']'') y; (w, c2, port) = partition_at (CHR '':'') z in (host, port))
         else (let (host, c1, port) = partition_at (CHR '':'') hostinfo in (host, port)))"

text \<open>\<^verbatim>\<open>.hostname\<close> (empty for \<^verbatim>\<open>None\<close>): lower case up to a zone id.\<close>

definition url_hostname :: "split_url \<Rightarrow> string" where
  "url_hostname u =
     (let host = fst (host_info (su_netloc u)); (a, pct, zone) = partition_at (CHR ''%'') host
      in if pct then py_lower a @ ''%'' @ zone else py_lower a)"

text \<open>\<^verbatim>\<open>.port\<close>: the outer \<^verbatim>\<open>None\<close> is the \<^verbatim>\<open>ValueError\<close>, the inner one an absent port.\<close>

definition url_port :: "split_url \<Rightarrow> nat option option" where
  "url_port u =
     (let p = snd (host_info (su_netloc u)) in
      if p = [] then Some None
      else if \<not> list_all is_digit p then None
      else if digits_val p \<le> 65535 then Some (Some (digits_val p)) else None)"

text \<open>\<^verbatim>\<open>urlunsplit\<close> for a URL with a netloc.\<close>

definition urlunsplit :: "split_url \<Rightarrow> string" where
  "urlunsplit u =
     (let path = (if su_path u \<noteq> [] \<and> \<not> startswith (su_path u) ''/'' then CHR ''/'' # su_path u else su_path u);
          url = (if su_netloc u \<noteq> [] \<or> startswith path ''//'' then ''//'' @ su_netloc u @ path else path);
          url1 = (if su_scheme u \<noteq> [] then su_scheme u @ '':'' @ url else url);
          url2 = (if su_query u \<noteq> [] then url1 @ ''?'' @ su_query u else url1)
      in if su_fragment u \<noteq> [] then url2 @ ''#'' @ su_fragment u else url2)"

text \<open>\<^verbatim>\<open>quote(s, safe="")\<close>: UTF-8 bytes outside the unreserved ones as two upper-case hexadecimal digits.\<close>

definition upper_hex :: "nat \<Rightarrow> char" where
  "upper_hex d = (if d < 10 then char_of (48 + d) else char_of (55 + d))"

definition quote_byte :: "nat \<Rightarrow> string" where
  "quote_byte n = [CHR ''%'', upper_hex (n div 16), upper_hex (n mod 16)]"

definition quote_char :: "char \<Rightarrow> string" where
  "quote_char c = (let n = of_char c :: nat in
     if is_alpha c \<or> is_digit c \<or> c \<in> set ''_.-~'' then [c]
     else if n < 128 then quote_byte n
     else quote_byte (192 + n div 64) @ quote_byte (128 + n mod 64))"

definition quote_all :: "string \<Rightarrow> string" where
  "quote_all s = concat (List.map quote_char s)"

section \<open>Networks\<close>

text \<open>A prefix length, or for IPv4 a netmask or a host mask in dotted form, as the number of network bits.\<close>

fun mask_bits :: "nat \<Rightarrow> int \<Rightarrow> nat option" where
  "mask_bits 0 v = (if v = 2 ^ 32 - 1 then Some 0 else None)"
| "mask_bits (Suc n) v = (if v = 2 ^ (32 - Suc n) - 1 then Some (Suc n) else mask_bits n v)"

definition ipv4_prefix :: "string \<Rightarrow> nat option" where
  "ipv4_prefix s =
     (if s \<noteq> [] \<and> list_all is_digit s then (if digits_val s \<le> 32 then Some (digits_val s) else None)
      else case parse_ipv4 s of None \<Rightarrow> None
      | Some v \<Rightarrow> (case mask_bits 32 (2 ^ 32 - 1 - v) of Some n \<Rightarrow> Some n | None \<Rightarrow> mask_bits 32 v))"

definition ipv6_prefix :: "string \<Rightarrow> nat option" where
  "ipv6_prefix s = (if s \<noteq> [] \<and> list_all is_digit s \<and> digits_val s \<le> 128 then Some (digits_val s) else None)"

text \<open>Whether \<open>address in ip_network(text, strict=False)\<close>; the outer \<^verbatim>\<open>None\<close> when the text is no network.\<close>

definition ip_in_network :: "ip option \<Rightarrow> string \<Rightarrow> bool option" where
  "ip_in_network target text =
     (case split_char (CHR ''/'') text of
        [a, p] \<Rightarrow>
          (case (parse_ipv4 a, ipv4_prefix p) of
             (Some v, Some n) \<Rightarrow> Some (case target of Some (IPv4 t) \<Rightarrow> t div 2 ^ (32 - n) = v div 2 ^ (32 - n) | _ \<Rightarrow> False)
           | _ \<Rightarrow>
               (case (parse_ip a, ipv6_prefix p) of
                  (Some (IPv6 v z), Some n) \<Rightarrow>
                    Some (case target of Some (IPv6 t y) \<Rightarrow> t div 2 ^ (128 - n) = v div 2 ^ (128 - n) | _ \<Rightarrow> False)
                | _ \<Rightarrow> None))
      | _ \<Rightarrow> None)"

section \<open>Errors and escapes\<close>

text \<open>The text of the \<^verbatim>\<open>ValueError\<close> for a URL that \<^verbatim>\<open>urlsplit\<close> refuses.\<close>

definition urlsplit_error :: "string \<Rightarrow> string" where
  "urlsplit_error url =
     (let netloc = fst (netloc_rest (snd (scheme_rest (url_clean url))))
      in if (CHR ''['' \<in> set netloc) \<noteq> (CHR '']'' \<in> set netloc) then ''Invalid IPv6 URL''
         else let host = fst (partition_at (CHR '']'') (snd (snd (partition_at (CHR ''['') netloc))))
           in if startswith host ''v'' then ''IPvFuture address is invalid''
              else if parse_ip host \<noteq> None then ''An IPv4 address cannot be in brackets''
              else str_repr host @ '' does not appear to be an IPv4 or IPv6 address'')"

text \<open>\<^verbatim>\<open>unquote\<close>: the escapes of a run of ASCII characters are bytes and the run is read as UTF-8. A byte
  sequence that is no character up to 255 stands for the replacement character, here a question mark.\<close>

fun unquote_items :: "string \<Rightarrow> (char + int) list" where
  "unquote_items [] = []"
| "unquote_items (c # s) =
     (if (of_char c :: nat) \<ge> 128 then Inl c # unquote_items s
      else case (c = CHR ''%'', s) of
        (True, a # b # r) \<Rightarrow>
          (case (hex_digit_val a, hex_digit_val b) of
             (Some x, Some y) \<Rightarrow> Inr (16 * x + y) # unquote_items r
           | _ \<Rightarrow> Inr (of_char c) # unquote_items s)
      | _ \<Rightarrow> Inr (of_char c) # unquote_items s)"

fun utf8_read :: "(char + int) list \<Rightarrow> string" where
  "utf8_read [] = []"
| "utf8_read (Inl c # r) = c # utf8_read r"
| "utf8_read (Inr b # r) =
     (if b < 128 then char_of (nat b) # utf8_read r
      else case (b \<in> {194, 195}, r) of
        (True, Inr d # q) \<Rightarrow> if 128 \<le> d \<and> d < 192 then char_of (nat ((b - 192) * 64 + d - 128)) # utf8_read q
                           else CHR ''?'' # utf8_read r
      | _ \<Rightarrow> CHR ''?'' # utf8_read r)"

definition unquote :: "string \<Rightarrow> string" where
  "unquote s = (if CHR ''%'' \<in> set s then utf8_read (unquote_items s) else s)"

text \<open>The path \<^verbatim>\<open>urlparse\<close> gives: without the parameters of its last segment, for the schemes that have them.\<close>

definition USES_PARAMS :: "string list" where
  "USES_PARAMS = [[], ''ftp'', ''hdl'', ''prospero'', ''http'', ''https'', ''shttp'', ''rtsp'', ''rtspu'', ''sip'', ''sips'',
     ''mms'', ''sftp'', ''tel'']"

definition params_path :: "split_url \<Rightarrow> string" where
  "params_path u =
     (if su_scheme u \<in> set USES_PARAMS
      then (let (dir, slash, seg) = rpartition_at (CHR ''/'') (su_path u);
                seg' = takeWhile (\<lambda>c. c \<noteq> CHR '';'') seg
            in if slash then dir @ ''/'' @ seg' else seg')
      else su_path u)"

end
