(* ===== verification/ProxyPlan.thy ===== *)
theory ProxyPlan
  imports NetText "HOL-Library.List_Lexorder" "HOL-Library.Char_ord"
begin

text \<open>
  The proxy plan (\<^verbatim>\<open>proxy_plan.py\<close>): reading the Portal's Proxy section in any of its shapes, the proxy
  each consumer gets, the environment variables of the default proxy and of the named credentials, and the
  reading of \<^verbatim>\<open>NO_PROXY\<close>. A \<^verbatim>\<open>ValueError\<close> of \<^verbatim>\<open>urlsplit\<close> is \<^verbatim>\<open>None\<close>.
\<close>

section \<open>Words\<close>

definition DEFAULT_NO_PROXY :: string where
  "DEFAULT_NO_PROXY = ''127.0.0.1,localhost''"

definition LEGACY_ENTRY_NAME :: string where
  "LEGACY_ENTRY_NAME = ''default''"

datatype proxy_kind = KIND_ENVIRONMENT | KIND_NONE | KIND_PROXY

datatype proxy_source =
    SOURCE_DISABLED | SOURCE_ENVIRONMENT | SOURCE_ASSIGNMENT | SOURCE_INSTANCE | SOURCE_DEFAULT
  | SOURCE_NO_PROXY | SOURCE_UNKNOWN

fun kind_text :: "proxy_kind \<Rightarrow> string" where
  "kind_text KIND_ENVIRONMENT = ''environment''"
| "kind_text KIND_NONE = ''none''"
| "kind_text KIND_PROXY = ''proxy''"

fun source_text :: "proxy_source \<Rightarrow> string" where
  "source_text SOURCE_DISABLED = ''disabled''"
| "source_text SOURCE_ENVIRONMENT = ''environment''"
| "source_text SOURCE_ASSIGNMENT = ''assignment''"
| "source_text SOURCE_INSTANCE = ''instance''"
| "source_text SOURCE_DEFAULT = ''default''"
| "source_text SOURCE_NO_PROXY = ''no_proxy''"
| "source_text SOURCE_UNKNOWN = ''unknown''"

definition PROXY_URL_ENV_KEYS :: "string list" where
  "PROXY_URL_ENV_KEYS = [''HTTP_PROXY'', ''HTTPS_PROXY'', ''ALL_PROXY'', ''http_proxy'', ''https_proxy'', ''all_proxy'']"

definition NO_PROXY_ENV_KEYS :: "string list" where
  "NO_PROXY_ENV_KEYS = [''NO_PROXY'', ''no_proxy'']"

definition CREDENTIAL_ENV_PREFIX :: string where
  "CREDENTIAL_ENV_PREFIX = ''EFP_PROXY_''"

definition NONE_WORDS :: "string list" where
  "NONE_WORDS = [''none'', ''direct'', ''off'']"

definition ENVIRONMENT_WORDS :: "string list" where
  "ENVIRONMENT_WORDS = [[], ''env'', ''environment'']"

definition LOOPBACK_HOSTS :: "string list" where
  "LOOPBACK_HOSTS = [''localhost'', ''127.0.0.1'', ''::1'']"

definition REDACTED_VALUES :: "string list" where
  "REDACTED_VALUES = [''***redacted***'', ''[redacted]'', ''redacted'']"

definition is_alnum :: "char \<Rightarrow> bool" where
  "is_alnum c = (is_alpha c \<or> is_digit c)"

text \<open>\<^verbatim>\<open>_NAME_LIKE\<close>: its \<^verbatim>\<open>$\<close> also matches before a line end at the end of the text.\<close>

definition name_shape :: "string \<Rightarrow> bool" where
  "name_shape s = (s \<noteq> [] \<and> length s \<le> 64 \<and> is_alnum (hd s) \<and>
     list_all (\<lambda>c. is_alnum c \<or> c \<in> set ''._-'') s)"

definition name_like :: "string \<Rightarrow> bool" where
  "name_like s = (name_shape s \<or> (s \<noteq> [] \<and> last s = CHR 0x0A \<and> name_shape (butlast s)))"

section \<open>Reading values\<close>

definition proxy_text :: "jval \<Rightarrow> string" where
  "proxy_text v = (if v = JNull then [] else py_strip (py_str v))"

definition mentionable :: "string \<Rightarrow> string" where
  "mentionable value = (let text = proxy_text (JStr value) in
     if name_like text then str_repr text else ''an unlisted value'')"

text \<open>\<^verbatim>\<open>re.sub(r"[^A-Za-z0-9]+", "_", name)\<close>; the upper-case text of an ASCII letter.\<close>

fun dash_to_underscore :: "bool \<Rightarrow> string \<Rightarrow> string" where
  "dash_to_underscore in_run [] = []"
| "dash_to_underscore in_run (c # s) =
     (if is_alnum c then c # dash_to_underscore False s
      else if in_run then dash_to_underscore True s else CHR ''_'' # dash_to_underscore True s)"

definition upper_ascii :: "char \<Rightarrow> char" where
  "upper_ascii c = (let n = of_char c :: nat in if 97 \<le> n \<and> n \<le> 122 then char_of (n - 32) else c)"

definition env_token_of :: "string \<Rightarrow> string" where
  "env_token_of name = (let t = List.map upper_ascii (strip_chars ''_'' (dash_to_underscore False name)) in
     if t = [] then ''DEFAULT'' else t)"

definition port_of :: "split_url \<Rightarrow> nat option" where
  "port_of u = (case url_port u of None \<Rightarrow> None | Some p \<Rightarrow> p)"

definition proxy_secret :: "jval \<Rightarrow> string" where
  "proxy_secret v = (let text = proxy_text v in if py_lower text \<in> set REDACTED_VALUES then [] else text)"

definition proxy_flag :: "jval \<Rightarrow> bool" where
  "proxy_flag v = (case v of JBool b \<Rightarrow> b
     | _ \<Rightarrow> py_lower (proxy_text v) \<in> {''1'', ''true'', ''yes'', ''on''})"

section \<open>One proxy\<close>

definition with_scheme :: "string \<Rightarrow> string" where
  "with_scheme url = (if contains url ''://'' then url else ''http://'' @ url)"

definition bracketed :: "string \<Rightarrow> string" where
  "bracketed host = (if CHR '':'' \<in> set host then ''['' @ host @ '']'' else host)"

definition proxy_url_with_credentials :: "string \<Rightarrow> string \<Rightarrow> string \<Rightarrow> string option" where
  "proxy_url_with_credentials url username password =
     (if username = [] \<or> password = [] then Some url
      else case urlsplit (with_scheme url) of None \<Rightarrow> None
      | Some parts \<Rightarrow>
          if url_hostname parts = [] then Some url
          else (let auth = quote_all username @ '':'' @ quote_all password;
                    netloc = auth @ ''@'' @ bracketed (url_hostname parts);
                    netloc' = (case port_of parts of None \<Rightarrow> netloc
                      | Some p \<Rightarrow> if p = 0 then netloc else netloc @ '':'' @ nat_text p)
                in Some (urlunsplit (parts\<lparr>su_netloc := netloc'\<rparr>))))"

record proxy_entry =
  pe_name :: string
  pe_url :: string
  pe_username :: string
  pe_password :: string
  pe_no_proxy :: string
  pe_env_token :: string

definition url_with_credentials :: "proxy_entry \<Rightarrow> string option" where
  "url_with_credentials e = proxy_url_with_credentials (pe_url e) (pe_username e) (pe_password e)"

text \<open>The non-empty pieces of \<^verbatim>\<open>re.split(r"[,\s]+", text)\<close>.\<close>

definition no_proxy_sep :: "char \<Rightarrow> bool" where
  "no_proxy_sep c = (c = CHR '','' \<or> py_isspace c)"

definition no_proxy_items :: "string \<Rightarrow> string list" where
  "no_proxy_items text = split_when no_proxy_sep [] text"

definition add_required :: "string list \<Rightarrow> string \<Rightarrow> string list \<Rightarrow> string list" where
  "add_required lowered required items = (if required \<in> set lowered then items else items @ [required])"

definition no_proxy_text :: "proxy_entry \<Rightarrow> string \<Rightarrow> string" where
  "no_proxy_text e dflt =
     (let text = (if py_strip (pe_no_proxy e) = [] then dflt else py_strip (pe_no_proxy e));
          items = no_proxy_items text;
          lowered = List.map py_lower items
      in join_with '','' (add_required lowered ''localhost'' (add_required lowered ''127.0.0.1'' items)))"

definition proxy_address :: "proxy_entry \<Rightarrow> string option" where
  "proxy_address e =
     (case urlsplit (with_scheme (pe_url e)) of None \<Rightarrow> None
      | Some parsed \<Rightarrow>
          (let host = bracketed (url_hostname parsed);
               port = (case port_of parsed of Some p \<Rightarrow> p | None \<Rightarrow> if su_scheme parsed = ''https'' then 443 else 80)
           in Some (if host = [] then [] else host @ '':'' @ nat_text port)))"

definition credential_env_names :: "proxy_entry \<Rightarrow> string \<times> string" where
  "credential_env_names e =
     (let token = (if pe_env_token e = [] then env_token_of (pe_name e) else pe_env_token e)
      in (CREDENTIAL_ENV_PREFIX @ token @ ''_USERNAME'', CREDENTIAL_ENV_PREFIX @ token @ ''_PASSWORD''))"

section \<open>Reading \<open>NO_PROXY\<close>\<close>

definition exempt_target :: "string \<Rightarrow> string" where
  "exempt_target host =
     (let t = rstrip_chars ''.'' (py_lower (py_strip host))
      in if startswith t ''['' \<and> endswith t '']'' then butlast (tl t) else t)"

definition drop_prefix :: "string \<Rightarrow> string \<Rightarrow> string" where
  "drop_prefix pre s = (if startswith s pre then drop (length pre) s else s)"

definition exempt_entry :: "string \<Rightarrow> string" where
  "exempt_entry raw =
     (let entry = drop_prefix ''https://'' (drop_prefix ''http://'' (py_lower raw))
      in if startswith entry ''['' \<and> CHR '']'' \<in> set entry then takeWhile (\<lambda>c. c \<noteq> CHR '']'') (tl entry)
         else if length (filter (\<lambda>c. c = CHR '':'') entry) = 1 then takeWhile (\<lambda>c. c \<noteq> CHR '':'') entry
         else entry)"

text \<open>One round of the loop over the entries: whether it returns true.\<close>

definition entry_exempts :: "string \<Rightarrow> ip option \<Rightarrow> string \<Rightarrow> bool" where
  "entry_exempts target target_ip raw =
     (if py_lower raw = ''*'' then True
      else (let entry = exempt_entry raw in
        if CHR ''/'' \<in> set entry then ip_in_network target_ip entry = Some True
        else (let e1 = rstrip_chars ''.'' entry;
                  e2 = (if startswith e1 ''*.'' then tl e1 else e1)
              in if startswith e2 ''.'' then endswith target e2
                 else target = e2 \<or> endswith target (''.'' @ e2))))"

definition no_proxy_exempts :: "string \<Rightarrow> string \<Rightarrow> bool" where
  "no_proxy_exempts host no_proxy =
     (let target = exempt_target host; target_ip = parse_ip target in
      if target = [] then False
      else if target \<in> set LOOPBACK_HOSTS \<or> (case target_ip of None \<Rightarrow> False | Some a \<Rightarrow> ip_is_loopback a) then True
      else list_ex (entry_exempts target target_ip) (no_proxy_items no_proxy))"

text \<open>\<^verbatim>\<open>hostname_of\<close>, with the error of \<^verbatim>\<open>urlparse\<close> as \<^verbatim>\<open>None\<close>.\<close>

definition hostname_of :: "string \<Rightarrow> string option" where
  "hostname_of url =
     (let text = proxy_text (JStr url) in
      if text = [] then Some []
      else map_option (\<lambda>u. py_lower (py_strip (url_hostname u)))
             (urlsplit (if contains text ''://'' then text else ''//'' @ text)))"

text \<open>\<^verbatim>\<open>str.isdigit\<close> also holds of the superscript digits.\<close>

definition unicode_digit :: "char \<Rightarrow> bool" where
  "unicode_digit c = (is_digit c \<or> (of_char c :: nat) \<in> {178, 179, 185})"

definition looks_like_url :: "string \<Rightarrow> bool" where
  "looks_like_url value =
     (let text = proxy_text (JStr value) in
      if contains text ''://'' then True
      else if CHR '' '' \<in> set text then False
      else if startswith text ''['' then CHR '']'' \<in> set text
      else if parse_ip text \<noteq> None then True
      else (let (host, sep, port) = rpartition_at (CHR '':'') text in
        if sep \<and> host \<noteq> [] \<and> port \<noteq> [] \<and> list_all unicode_digit port \<and> CHR '':'' \<notin> set host then True
        else CHR '':'' \<notin> set text \<and> CHR ''.'' \<in> set text))"

section \<open>The plan\<close>

record proxy_choice =
  pc_kind :: proxy_kind
  pc_source :: proxy_source
  pc_entry :: "proxy_entry option"
  pc_url :: string

abbreviation choice_of :: "proxy_kind \<Rightarrow> proxy_source \<Rightarrow> proxy_choice" where
  "choice_of k s \<equiv> \<lparr>pc_kind = k, pc_source = s, pc_entry = None, pc_url = []\<rparr>"

definition choice_setting :: "proxy_choice \<Rightarrow> string option" where
  "choice_setting c = (case pc_kind c of
       KIND_NONE \<Rightarrow> Some ''none''
     | KIND_PROXY \<Rightarrow> (case pc_entry c of Some e \<Rightarrow> url_with_credentials e | None \<Rightarrow> Some (pc_url c))
     | KIND_ENVIRONMENT \<Rightarrow> Some [])"

definition choice_describe :: "proxy_choice \<Rightarrow> jobj option" where
  "choice_describe c =
     (let out = [(''kind'', JStr (kind_text (pc_kind c))), (''source'', JStr (source_text (pc_source c)))] in
      case pc_entry c of
        Some e \<Rightarrow> map_option (\<lambda>a. out @ [(''proxy'', JStr (pe_name e)), (''address'', JStr a)]) (proxy_address e)
      | None \<Rightarrow>
          if pc_url c = [] then Some out
          else map_option (\<lambda>u. out @ [(''address'', JStr (url_hostname u))]) (urlsplit (with_scheme (pc_url c))))"

record proxy_plan =
  pp_enabled :: bool
  pp_entries :: "proxy_entry list"
  pp_default :: "proxy_entry option"
  pp_assignments :: "(string \<times> string) list"
  pp_warnings :: "string list"

definition plan_configured :: "proxy_plan \<Rightarrow> bool" where
  "plan_configured p = (pp_enabled p \<and> pp_default p \<noteq> None)"

definition plan_entry :: "proxy_plan \<Rightarrow> string \<Rightarrow> proxy_entry option" where
  "plan_entry p name = find (\<lambda>e. pe_name e = proxy_text (JStr name)) (pp_entries p)"

definition plan_environment :: "proxy_plan \<Rightarrow> string \<Rightarrow> (string \<times> string) list option" where
  "plan_environment p default_no_proxy =
     (case (plan_configured p, pp_default p) of
        (True, Some e) \<Rightarrow>
          map_option (\<lambda>url. List.map (\<lambda>k. (k, url)) PROXY_URL_ENV_KEYS
                          @ List.map (\<lambda>k. (k, no_proxy_text e default_no_proxy)) NO_PROXY_ENV_KEYS)
            (url_with_credentials e)
      | _ \<Rightarrow> Some [])"

definition put_if :: "string \<Rightarrow> string \<Rightarrow> (string \<times> string) list \<Rightarrow> (string \<times> string) list" where
  "put_if k v env = (if v = [] then env else AList.update k v env)"

definition add_credentials :: "proxy_entry \<Rightarrow> (string \<times> string) list \<Rightarrow> (string \<times> string) list" where
  "add_credentials e env = (let (user_key, pass_key) = credential_env_names e in
     put_if pass_key (pe_password e) (put_if user_key (pe_username e) env))"

definition credential_environment :: "proxy_plan \<Rightarrow> (string \<times> string) list" where
  "credential_environment p = (if pp_enabled p then fold add_credentials (pp_entries p) [] else [])"

definition entry_choice :: "proxy_plan \<Rightarrow> proxy_entry \<Rightarrow> string \<Rightarrow> proxy_source \<Rightarrow> proxy_choice" where
  "entry_choice p e host source =
     (if host \<noteq> [] \<and> no_proxy_exempts host (no_proxy_text e DEFAULT_NO_PROXY)
      then (choice_of KIND_NONE SOURCE_NO_PROXY)\<lparr>pc_entry := Some e\<rparr>
      else if source = SOURCE_ASSIGNMENT \<and> (case pp_default p of Some d \<Rightarrow> pe_name e = pe_name d | None \<Rightarrow> False)
      then (choice_of KIND_ENVIRONMENT SOURCE_DEFAULT)\<lparr>pc_entry := Some e\<rparr>
      else (choice_of KIND_PROXY source)\<lparr>pc_entry := Some e\<rparr>)"

definition assigned_choice :: "proxy_plan \<Rightarrow> string \<Rightarrow> string \<Rightarrow> proxy_choice" where
  "assigned_choice p connector host =
     (let assigned = (case map_of (pp_assignments p) connector of None \<Rightarrow> [] | Some a \<Rightarrow> proxy_text (JStr a)) in
      if \<not> pp_enabled p then choice_of KIND_ENVIRONMENT SOURCE_DISABLED
      else if py_lower assigned \<in> set ENVIRONMENT_WORDS then choice_of KIND_ENVIRONMENT SOURCE_ENVIRONMENT
      else if py_lower assigned \<in> set NONE_WORDS then choice_of KIND_NONE SOURCE_ASSIGNMENT
      else case plan_entry p assigned of
             None \<Rightarrow> choice_of KIND_ENVIRONMENT SOURCE_UNKNOWN
           | Some e \<Rightarrow> entry_choice p e host SOURCE_ASSIGNMENT)"

definition plan_choice :: "proxy_plan \<Rightarrow> string \<Rightarrow> string \<Rightarrow> jval \<Rightarrow> proxy_choice" where
  "plan_choice p connector host instance_setting =
     (let own = proxy_text instance_setting in
      if own \<noteq> [] \<and> py_lower own \<in> set NONE_WORDS then choice_of KIND_NONE SOURCE_INSTANCE
      else case (if own \<noteq> [] \<and> pp_enabled p then plan_entry p own else None) of
        Some e \<Rightarrow> entry_choice p e host SOURCE_INSTANCE
      | None \<Rightarrow>
          if own \<noteq> [] \<and> looks_like_url own then (choice_of KIND_PROXY SOURCE_INSTANCE)\<lparr>pc_url := own\<rparr>
          else assigned_choice p connector host)"

fun all_some :: "'a option list \<Rightarrow> 'a list option" where
  "all_some [] = Some []"
| "all_some (None # xs) = None"
| "all_some (Some x # xs) = map_option ((#) x) (all_some xs)"

definition plan_summary :: "proxy_plan \<Rightarrow> jobj option" where
  "plan_summary p =
     map_option (\<lambda>proxies.
        [(''enabled'', JBool (pp_enabled p)),
         (''default'', case pp_default p of None \<Rightarrow> JNull | Some e \<Rightarrow> JStr (pe_name e)),
         (''proxies'', JList proxies),
         (''assignments'', JObj (List.map (\<lambda>(k, v). (k, JStr (if name_like v \<or> v = [] then v else ''unlisted''))) (pp_assignments p))),
         (''warnings'', JList (List.map JStr (pp_warnings p)))])
       (all_some (List.map (\<lambda>e. map_option (\<lambda>a. JObj [(''name'', JStr (pe_name e)), (''address'', JStr a)]) (proxy_address e))
          (pp_entries p)))"

section \<open>Normalizing the section\<close>

record proxy_section =
  ps_enabled :: bool
  ps_default :: string
  ps_proxies :: "proxy_entry list"
  ps_assignments :: "(string \<times> string) list"

definition item_no_proxy :: "jobj \<Rightarrow> string" where
  "item_no_proxy item =
     (if jget item ''no_proxy'' = JNull \<or> proxy_text (jget item ''no_proxy'') = [] then proxy_text (jget item ''noProxy'')
      else proxy_text (jget item ''no_proxy''))"

definition raw_entry :: "string \<Rightarrow> jobj \<Rightarrow> proxy_entry" where
  "raw_entry name item = \<lparr>pe_name = name, pe_url = proxy_text (jget item ''url''),
     pe_username = proxy_secret (jget item ''username''), pe_password = proxy_secret (jget item ''password''),
     pe_no_proxy = item_no_proxy item, pe_env_token = []\<rparr>"

text \<open>The loop over the raw list: the counter, the names seen and the entries so far.\<close>

fun normalize_entries :: "nat \<Rightarrow> string list \<Rightarrow> jval list \<Rightarrow> proxy_entry list" where
  "normalize_entries index seen [] = []"
| "normalize_entries index seen (JObj item # rest) =
     (let name = (if proxy_text (jget item ''name'') = [] then ''proxy-'' @ nat_text index else proxy_text (jget item ''name'')) in
      if proxy_text (jget item ''url'') = [] \<or> name \<in> set seen then normalize_entries (index + 1) seen rest
      else raw_entry name item # normalize_entries (index + 1) (name # seen) rest)"
| "normalize_entries index seen (other # rest) = normalize_entries (index + 1) seen rest"

definition normalize_assignment :: "string \<times> jval \<Rightarrow> (string \<times> string) list \<Rightarrow> (string \<times> string) list" where
  "normalize_assignment kv out =
     (let connector = proxy_text (JStr (fst kv)) in
      if connector = [] then out else AList.update connector (proxy_text (snd kv)) out)"

definition normalize_proxy_section :: "jval \<Rightarrow> proxy_section" where
  "normalize_proxy_section raw =
     (let sec = obj_or_empty raw;
          listed = (case jget sec ''proxies'' of JList xs \<Rightarrow> normalize_entries 1 [] xs | _ \<Rightarrow> []);
          entries = (if listed = [] \<and> proxy_text (jget sec ''url'') \<noteq> [] then [raw_entry LEGACY_ENTRY_NAME sec] else listed);
          names = List.map pe_name entries;
          dflt = proxy_text (jget sec ''default'');
          dflt' = (if dflt \<in> set names then dflt else if names = [] then [] else hd names);
          assignments = (case jget sec ''assignments'' of JObj d \<Rightarrow> fold normalize_assignment d [] | _ \<Rightarrow> [])
      in \<lparr>ps_enabled = proxy_flag (jget sec ''enabled''), ps_default = dflt', ps_proxies = entries, ps_assignments = assignments\<rparr>)"

section \<open>Building the plan\<close>

text \<open>The names the search for a free token tries, numbered from 1, and the search itself.\<close>

definition token_candidate :: "string \<Rightarrow> nat \<Rightarrow> string" where
  "token_candidate token k = (if k \<le> 1 then token else token @ ''_'' @ nat_text k)"

lemma digits_val_snoc: "digits_val (s @ [c]) = 10 * digits_val s + digit_val c"
  by (simp add: digits_val_def)

lemma digit_val_digit [simp]: "d < 10 \<Longrightarrow> digit_val (digit_char d) = d"
  by (simp add: digit_val_def digit_char_def of_char_of take_bit_eq_mod)

lemma digits_val_nat_text [simp]: "digits_val (nat_text n) = n"
proof (induction n rule: nat_text.induct)
  case (1 n)
  show ?case
  proof (cases "n < 10")
    case True
    then show ?thesis using digits_val_snoc [of "[]"]
      by (subst nat_text.simps) (simp add: digits_val_def)
  next
    case False
    then show ?thesis using 1 by (subst nat_text.simps) (simp add: digits_val_snoc)
  qed
qed

lemma nat_text_inj [simp]: "nat_text m = nat_text n \<longleftrightarrow> m = n"
  by (metis digits_val_nat_text)

lemma token_candidate_inj: "0 < j \<Longrightarrow> 0 < k \<Longrightarrow> token_candidate t j = token_candidate t k \<Longrightarrow> j = k"
  by (auto simp: token_candidate_def split: if_splits)

text \<open>The numbers from \<open>k\<close> on whose name is taken are finitely many, and each round leaves one behind.\<close>

definition taken_from :: "string \<Rightarrow> string list \<Rightarrow> nat \<Rightarrow> nat set" where
  "taken_from token tokens k = {j. 0 < j \<and> k \<le> j \<and> token_candidate token j \<in> set tokens}"

lemma taken_inj: "inj_on (token_candidate token) (taken_from token tokens k)"
  by (rule inj_onI) (auto simp: taken_from_def intro: token_candidate_inj)

lemma taken_finite [simp]: "finite (taken_from token tokens k)"
  by (rule finite_imageD [OF _ taken_inj]) (auto simp: taken_from_def intro: finite_subset [of _ "set tokens"])

lemma taken_card: "card (taken_from token tokens k) \<le> card (set tokens)"
  by (rule card_inj_on_le [OF taken_inj]) (auto simp: taken_from_def)

lemma taken_Suc:
  "0 < k \<Longrightarrow> token_candidate token k \<in> set tokens \<Longrightarrow>
     card (taken_from token tokens k) = Suc (card (taken_from token tokens (Suc k)))"
proof -
  assume k: "0 < k" "token_candidate token k \<in> set tokens"
  then have "taken_from token tokens k = insert k (taken_from token tokens (Suc k))"
    by (auto simp: taken_from_def not_less_eq_eq dest: le_antisym)
  moreover have "k \<notin> taken_from token tokens (Suc k)" by (simp add: taken_from_def)
  ultimately show ?thesis by simp
qed

function unique_token :: "string \<Rightarrow> string list \<Rightarrow> nat \<Rightarrow> string" where
  "unique_token token tokens n =
     (if token_candidate token (Suc n) \<in> set tokens then unique_token token tokens (Suc n)
      else token_candidate token (Suc n))"
  by pat_completeness auto
termination
  by (relation "measure (\<lambda>(token, tokens, n). card (taken_from token tokens (Suc n)))") (auto simp: taken_Suc)

declare unique_token.simps [simp del]

text \<open>One entry after the other gets its token.\<close>

fun assign_tokens :: "string list \<Rightarrow> proxy_entry list \<Rightarrow> proxy_entry list" where
  "assign_tokens tokens [] = []"
| "assign_tokens tokens (e # es) =
     (let u = unique_token (env_token_of (pe_name e)) tokens 0
      in e\<lparr>pe_env_token := u\<rparr> # assign_tokens (u # tokens) es)"

definition assignment_warnings :: "string list \<Rightarrow> (string \<times> string) list \<Rightarrow> string list" where
  "assignment_warnings names assignments =
     List.map (\<lambda>(connector, v). connector @ '' is assigned the proxy '' @ mentionable v
                @ '', which the Proxy connector does not define; it follows the environment'')
       (filter (\<lambda>(connector, v). v \<noteq> [] \<and> py_lower v \<notin> set NONE_WORDS \<and> v \<notin> set names) (sort_key fst assignments))"

definition default_warnings :: "string list \<Rightarrow> string \<Rightarrow> string list" where
  "default_warnings names raw_default =
     (if raw_default \<noteq> [] \<and> raw_default \<notin> set names \<and> names \<noteq> []
      then [''the default proxy '' @ mentionable raw_default @ '' is not defined; '' @ str_repr (hd names) @ '' is the default'']
      else [])"

definition build_proxy_plan :: "jval \<Rightarrow> proxy_plan" where
  "build_proxy_plan raw =
     (let sec = normalize_proxy_section raw;
          entries = assign_tokens [] (ps_proxies sec);
          found = find (\<lambda>e. pe_name e = ps_default sec) entries;
          dflt = (if found = None \<and> entries \<noteq> [] then Some (hd entries) else found);
          names = List.map pe_name entries
      in \<lparr>pp_enabled = ps_enabled sec, pp_entries = entries, pp_default = dflt, pp_assignments = ps_assignments sec,
          pp_warnings = assignment_warnings names (ps_assignments sec)
            @ default_warnings names (proxy_text (jget (obj_or_empty raw) ''default''))\<rparr>)"

section \<open>The token search\<close>

lemma unique_token_free: "unique_token token tokens n \<notin> set tokens"
proof (induction token tokens n rule: unique_token.induct)
  case (1 token tokens n)
  then show ?case by (subst unique_token.simps) simp
qed

lemma unique_token_number:
  "\<exists>k. n \<le> k \<and> k \<le> n + card (taken_from token tokens (Suc n)) \<and> unique_token token tokens n = token_candidate token (Suc k)
     \<and> (\<forall>j. n \<le> j \<and> j < k \<longrightarrow> token_candidate token (Suc j) \<in> set tokens)"
proof (induction token tokens n rule: unique_token.induct)
  case (1 token tokens n)
  show ?case
  proof (cases "token_candidate token (Suc n) \<in> set tokens")
    case True
    with 1 obtain k where k: "Suc n \<le> k" "k \<le> Suc n + card (taken_from token tokens (Suc (Suc n)))"
      "unique_token token tokens (Suc n) = token_candidate token (Suc k)"
      "\<forall>j. Suc n \<le> j \<and> j < k \<longrightarrow> token_candidate token (Suc j) \<in> set tokens" by blast
    have "\<forall>j. n \<le> j \<and> j < k \<longrightarrow> token_candidate token (Suc j) \<in> set tokens"
      using k(4) True by (metis Suc_leI le_neq_implies_less)
    moreover have "k \<le> n + card (taken_from token tokens (Suc n))" using k(2) True by (simp add: taken_Suc)
    ultimately show ?thesis using k(1,3) True by (intro exI [of _ k]) (simp add: unique_token.simps [of _ _ n])
  next
    case False
    then show ?thesis by (intro exI [of _ n]) (auto simp: unique_token.simps [of _ _ n])
  qed
qed

text \<open>The search for a free token ends: it returns the first of the token and its numbered variants
  that is not taken, and has looked at no more than one more variant than there are taken tokens.\<close>

theorem token_search_ends:
  "\<exists>k \<le> length tokens. unique_token token tokens 0 = token_candidate token (Suc k)
     \<and> unique_token token tokens 0 \<notin> set tokens
     \<and> list_all (\<lambda>j. token_candidate token (Suc j) \<in> set tokens) [0..<k]"
proof -
  obtain k where k: "k \<le> card (taken_from token tokens (Suc 0))"
      "unique_token token tokens 0 = token_candidate token (Suc k)"
      "\<forall>j. j < k \<longrightarrow> token_candidate token (Suc j) \<in> set tokens"
    using unique_token_number [of 0 token tokens] by auto
  have "k \<le> length tokens" using k(1) taken_card [of token tokens "Suc 0"] card_length [of tokens] by linarith
  then show ?thesis using k unique_token_free [of token tokens 0] by (auto simp: list_all_iff)
qed

theorem token_search_ends_witness:
  "unique_token ''CORP_A'' [''CORP_A'', ''CORP_A_2''] 0 \<notin> {''CORP_A'', ''CORP_A_2''}"
  using token_search_ends [of "[''CORP_A'', ''CORP_A_2'']" "''CORP_A''"] by auto

section \<open>\<open>NO_PROXY\<close> lists\<close>

definition clean_words :: "(char \<Rightarrow> bool) \<Rightarrow> string list \<Rightarrow> bool" where
  "clean_words p ws = list_all (\<lambda>w. w \<noteq> [] \<and> list_all (\<lambda>c. \<not> p c) w) ws"

lemma split_when_run: "list_all (\<lambda>c. \<not> p c) w \<Longrightarrow> split_when p acc (w @ s) = split_when p (rev w @ acc) s"
  by (induction w arbitrary: acc) auto

lemma split_when_clean: "list_all (\<lambda>c. \<not> p c) acc \<Longrightarrow> clean_words p (split_when p acc s)"
  by (induction p acc s rule: split_when.induct) (simp_all add: clean_words_def list_all_rev)

lemma split_when_join: "clean_words p ws \<Longrightarrow> p c \<Longrightarrow> split_when p [] (join_with [c] ws) = ws"
proof (induction "[c]" ws rule: join_with.induct)
  case 1
  show ?case by simp
next
  case (2 w)
  then show ?case using split_when_run [of p w "[]" "[]"] by (simp add: clean_words_def)
next
  case (3 w v ws)
  then have w: "w \<noteq> []" "list_all (\<lambda>c. \<not> p c) w" by (auto simp: clean_words_def)
  have "split_when p [] (join_with [c] (v # ws)) = v # ws" using 3 by (simp add: clean_words_def)
  then show ?case using w 3(3) split_when_run [OF w(2), of "[]" "c # join_with [c] (v # ws)"] by simp
qed

lemma no_proxy_items_clean: "clean_words no_proxy_sep (no_proxy_items s)"
  by (simp add: no_proxy_items_def split_when_clean)

lemma clean_loopback: "clean_words no_proxy_sep [''127.0.0.1'', ''localhost'']"
  by code_simp

lemma clean_required:
  "clean_words no_proxy_sep ws \<Longrightarrow> r \<in> {''127.0.0.1'', ''localhost''} \<Longrightarrow> clean_words no_proxy_sep (add_required l r ws)"
  using clean_loopback unfolding add_required_def clean_words_def
  by (cases "r = ''localhost''") (simp_all only: list_all_append list.pred_inject insert_iff empty_iff if_splits simp_thms)

definition listed_items :: "proxy_entry \<Rightarrow> string \<Rightarrow> string list" where
  "listed_items e dflt = no_proxy_items (if py_strip (pe_no_proxy e) = [] then dflt else py_strip (pe_no_proxy e))"

lemma no_proxy_text_items:
  "no_proxy_items (no_proxy_text e dflt) =
     (let items = listed_items e dflt; low = List.map py_lower items
      in add_required low ''localhost'' (add_required low ''127.0.0.1'' items))"
proof -
  have "clean_words no_proxy_sep (listed_items e dflt)" by (simp add: listed_items_def no_proxy_items_clean)
  then have "clean_words no_proxy_sep (add_required low ''localhost'' (add_required low ''127.0.0.1'' (listed_items e dflt)))" for low
    by (intro clean_required) auto
  from split_when_join [OF this, of "CHR '',''"] show ?thesis
    by (simp add: no_proxy_text_def listed_items_def no_proxy_items_def no_proxy_sep_def Let_def)
qed

lemma lower_required [simp]: "py_lower ''localhost'' = ''localhost''" "py_lower ''127.0.0.1'' = ''127.0.0.1''"
  by (simp_all add: py_lower_def lower_char_def)

lemma add_required_lists: "r \<in> py_lower ` set (add_required (List.map py_lower items) r items)" if "py_lower r = r"
  using that by (auto simp: add_required_def)

lemma add_required_prefix: "prefix items (add_required l r items)"
  by (simp add: add_required_def)

lemma loopback_listed:
  "{''127.0.0.1'', ''localhost''} \<subseteq> py_lower ` set (no_proxy_items (no_proxy_text e dflt))
   \<and> prefix (listed_items e dflt) (no_proxy_items (no_proxy_text e dflt))"
  by (auto simp: no_proxy_text_items Let_def add_required_def image_iff)

text \<open>What the environment of the plan says to exempt, read back as a list, begins with what the default
  proxy lists (or the default list) in that order and always holds the two loopback names; the six proxy
  variables all carry one URL; a plan that is off or has no proxy sets nothing.\<close>

theorem environment_exempts_loopback:
  "case plan_environment p dflt of
     None \<Rightarrow> True
   | Some env \<Rightarrow>
       (case (pp_enabled p, pp_default p) of
          (True, Some e) \<Rightarrow>
            list_all (\<lambda>k. map_of env k = url_with_credentials e) PROXY_URL_ENV_KEYS
            \<and> list_all (\<lambda>k. case map_of env k of None \<Rightarrow> False
                  | Some t \<Rightarrow> {''127.0.0.1'', ''localhost''} \<subseteq> py_lower ` set (no_proxy_items t)
                             \<and> prefix (listed_items e dflt) (no_proxy_items t)) NO_PROXY_ENV_KEYS
        | _ \<Rightarrow> env = [])"
proof (cases "pp_enabled p \<and> pp_default p \<noteq> None")
  case False
  then show ?thesis by (cases "pp_enabled p") (auto simp: plan_environment_def plan_configured_def split: option.split)
next
  case True
  then obtain e where e: "pp_default p = Some e" "pp_enabled p" by auto
  then show ?thesis
  proof (cases "url_with_credentials e")
    case None
    with e show ?thesis by (simp add: plan_environment_def plan_configured_def)
  next
    case (Some url)
    with e show ?thesis
      by (simp add: plan_environment_def plan_configured_def PROXY_URL_ENV_KEYS_def NO_PROXY_ENV_KEYS_def
          loopback_listed [unfolded insert_subset])
  qed
qed

section \<open>Choices\<close>

lemma plan_entry_in: "plan_entry p name = Some e \<Longrightarrow> e \<in> set (pp_entries p) \<and> pe_name e = py_strip name"
  by (auto simp: plan_entry_def proxy_text_def find_Some_iff)

definition choice_ok :: "proxy_plan \<Rightarrow> string \<Rightarrow> jval \<Rightarrow> proxy_choice \<Rightarrow> bool" where
  "choice_ok p host own c =
     (case pc_entry c of
        Some e \<Rightarrow> pp_enabled p \<and> e \<in> set (pp_entries p)
          \<and> (pc_kind c = KIND_PROXY) = (pc_source c \<in> {SOURCE_INSTANCE, SOURCE_ASSIGNMENT})
          \<and> (pc_source c = SOURCE_NO_PROXY) = (host \<noteq> [] \<and> no_proxy_exempts host (no_proxy_text e DEFAULT_NO_PROXY))
          \<and> (pc_kind c = KIND_NONE) = (pc_source c = SOURCE_NO_PROXY)
          \<and> (pc_source c = SOURCE_DEFAULT \<longrightarrow> (case pp_default p of Some d \<Rightarrow> pe_name e = pe_name d | None \<Rightarrow> False))
      | None \<Rightarrow> pc_kind c = KIND_PROXY \<longrightarrow>
          pc_source c = SOURCE_INSTANCE \<and> pc_url c = proxy_text own \<and> looks_like_url (pc_url c))"

lemma entry_choice_ok:
  "e \<in> set (pp_entries p) \<Longrightarrow> pp_enabled p \<Longrightarrow> s \<in> {SOURCE_INSTANCE, SOURCE_ASSIGNMENT} \<Longrightarrow> choice_ok p host own (entry_choice p e host s)"
  by (auto simp: choice_ok_def entry_choice_def split: option.splits)

lemma assigned_choice_ok: "choice_ok p host own (assigned_choice p connector host)"
proof -
  let ?c = "assigned_choice p connector host"
  have plain: "choice_ok p host own (choice_of k s)" if "k \<noteq> KIND_PROXY" for k s using that by (simp add: choice_ok_def)
  show ?thesis
    by (auto simp: assigned_choice_def Let_def plain split: option.split intro: entry_choice_ok dest: plan_entry_in)
qed

lemma plan_choice_ok: "choice_ok p host own (plan_choice p connector host own)"
proof (cases "proxy_text own \<noteq> [] \<and> py_lower (proxy_text own) \<in> set NONE_WORDS")
  case True
  then show ?thesis by (simp add: plan_choice_def choice_ok_def)
next
  case none: False
  show ?thesis
  proof (cases "if proxy_text own \<noteq> [] \<and> pp_enabled p then plan_entry p (proxy_text own) else None")
    case None
    with none have "plan_choice p connector host own =
        (if proxy_text own \<noteq> [] \<and> looks_like_url (proxy_text own)
         then (choice_of KIND_PROXY SOURCE_INSTANCE)\<lparr>pc_url := proxy_text own\<rparr> else assigned_choice p connector host)"
      unfolding plan_choice_def Let_def None by (cases "proxy_text own = []") simp_all
    moreover have "choice_ok p host own ((choice_of KIND_PROXY SOURCE_INSTANCE)\<lparr>pc_url := proxy_text own\<rparr>)"
      if "looks_like_url (proxy_text own)" using that by (simp add: choice_ok_def)
    ultimately show ?thesis using assigned_choice_ok by simp
  next
    case (Some e)
    with none have "plan_choice p connector host own = entry_choice p e host SOURCE_INSTANCE"
      unfolding plan_choice_def Let_def Some by (cases "proxy_text own = []") simp_all
    moreover have "e \<in> set (pp_entries p)" "pp_enabled p" using Some by (auto dest: plan_entry_in split: if_splits)
    ultimately show ?thesis by (simp add: entry_choice_ok)
  qed
qed

text \<open>A consumer is sent through a proxy only when the plan is on, the proxy is one the plan defines and
  that proxy's own exemptions do not cover the host, or when the consumer's own setting is an address; it is
  kept off a named proxy as exempt exactly when the exemptions cover the host; and its setting is then the
  proxy's URL, \<open>none\<close> or empty.\<close>

theorem proxy_choice_sound:
  "let c = plan_choice p connector host own in
     choice_ok p host own c \<and>
     choice_setting c = (case (pc_kind c, pc_entry c) of
         (KIND_PROXY, Some e) \<Rightarrow> url_with_credentials e
       | (KIND_PROXY, None) \<Rightarrow> Some (proxy_text own)
       | (KIND_NONE, _) \<Rightarrow> Some ''none''
       | (KIND_ENVIRONMENT, _) \<Rightarrow> Some [])"
  using plan_choice_ok [of p host own connector]
  by (auto simp: Let_def choice_setting_def choice_ok_def split: proxy_kind.split option.split)

section \<open>Credentials\<close>

abbreviation user_key :: "proxy_entry \<Rightarrow> string" where
  "user_key e \<equiv> fst (credential_env_names e)"

abbreviation pass_key :: "proxy_entry \<Rightarrow> string" where
  "pass_key e \<equiv> snd (credential_env_names e)"

lemma token_candidate_nonempty: "t \<noteq> [] \<Longrightarrow> token_candidate t k \<noteq> []"
  by (simp add: token_candidate_def)

lemma unique_token_nonempty: "t \<noteq> [] \<Longrightarrow> unique_token t tokens n \<noteq> []"
  using unique_token_number [of n t tokens] token_candidate_nonempty by metis

lemma env_token_nonempty [simp]: "env_token_of s \<noteq> []"
  by (simp add: env_token_of_def Let_def)

lemma assign_tokens_distinct:
  "distinct (List.map pe_env_token (assign_tokens tokens es)) \<and> [] \<notin> set (List.map pe_env_token (assign_tokens tokens es))
   \<and> set (List.map pe_env_token (assign_tokens tokens es)) \<inter> set tokens = {}"
proof (induction es arbitrary: tokens)
  case Nil
  show ?case by simp
next
  case (Cons e es)
  let ?u = "unique_token (env_token_of (pe_name e)) tokens 0"
  have "?u \<notin> set tokens" "?u \<noteq> []" by (simp_all add: unique_token_free unique_token_nonempty)
  then show ?case using Cons.IH [of "?u # tokens"] by (auto simp: Let_def)
qed

lemma key_inj:
  "pe_env_token a \<noteq> [] \<Longrightarrow> pe_env_token b \<noteq> [] \<Longrightarrow> pe_env_token a \<noteq> pe_env_token b \<Longrightarrow>
     user_key a \<noteq> user_key b \<and> pass_key a \<noteq> pass_key b"
  by (simp add: credential_env_names_def Let_def)

lemma key_kinds: "user_key a \<noteq> pass_key b"
proof
  assume "user_key a = pass_key b"
  then have "last (user_key a) = last (pass_key b)" by simp
  then show False by (simp add: credential_env_names_def Let_def)
qed

lemma add_credentials_map:
  "map_of (add_credentials e env) k =
     (if k = pass_key e \<and> pe_password e \<noteq> [] then Some (pe_password e)
      else if k = user_key e \<and> pe_username e \<noteq> [] then Some (pe_username e) else map_of env k)"
  using key_kinds [of e e] by (auto simp: add_credentials_def put_if_def case_prod_beta)

lemma fold_credentials_other:
  "\<forall>e \<in> set es. k \<noteq> user_key e \<and> k \<noteq> pass_key e \<Longrightarrow> map_of (fold add_credentials es env) k = map_of env k"
  by (induction es arbitrary: env) (auto simp: add_credentials_map)

definition carries :: "(string \<times> string) list \<Rightarrow> proxy_entry \<Rightarrow> bool" where
  "carries env e =
     (map_of env (user_key e) = (if pe_username e = [] then None else Some (pe_username e))
      \<and> map_of env (pass_key e) = (if pe_password e = [] then None else Some (pe_password e)))"

lemma fold_credentials:
  "distinct (List.map pe_env_token es) \<Longrightarrow> [] \<notin> set (List.map pe_env_token es) \<Longrightarrow>
   \<forall>e \<in> set es. map_of env (user_key e) = None \<and> map_of env (pass_key e) = None \<Longrightarrow>
   \<forall>e \<in> set es. carries (fold add_credentials es env) e"
proof (induction es arbitrary: env)
  case Nil
  show ?case by simp
next
  case (Cons a es)
  have apart: "user_key b \<noteq> user_key a \<and> pass_key b \<noteq> pass_key a" if "b \<in> set es" for b
  proof -
    have "pe_env_token b \<noteq> pe_env_token a" "pe_env_token b \<noteq> []" "pe_env_token a \<noteq> []"
      using that Cons.prems(1,2) by (auto simp: image_iff)
    from key_inj [OF this(2,3,1)] show ?thesis .
  qed
  have "\<forall>e \<in> set es. map_of (add_credentials a env) (user_key e) = None
      \<and> map_of (add_credentials a env) (pass_key e) = None"
    using Cons.prems(3) apart key_kinds key_kinds [symmetric] by (simp add: add_credentials_map)
  then have rest: "\<forall>e \<in> set es. carries (fold add_credentials es (add_credentials a env)) e"
    using Cons.IH Cons.prems(1,2) by auto
  have "map_of (fold add_credentials es (add_credentials a env)) k = map_of (add_credentials a env) k"
    if "k \<in> {user_key a, pass_key a}" for k
    using that apart key_kinds key_kinds [symmetric] by (intro fold_credentials_other) fastforce
  then have "carries (fold add_credentials es (add_credentials a env)) a"
    using Cons.prems(3) key_kinds [of a a] by (simp add: carries_def add_credentials_map)
  with rest show ?case by simp
qed

text \<open>In the environment of a plan built from any section, every proxy finds its own user name and
  password under its own two variables, and a half it does not have is not set; a plan that is off sets
  none.\<close>

theorem plan_credentials_separate:
  "let p = build_proxy_plan raw; env = credential_environment p in
     if pp_enabled p then list_all (carries env) (pp_entries p) else env = []"
proof -
  let ?es = "pp_entries (build_proxy_plan raw)"
  have "?es = assign_tokens [] (ps_proxies (normalize_proxy_section raw))" by (simp add: build_proxy_plan_def Let_def)
  then have "distinct (List.map pe_env_token ?es)" "[] \<notin> set (List.map pe_env_token ?es)"
    using assign_tokens_distinct [of "[]"] by (metis, metis)
  from fold_credentials [OF this, of "[]"] show ?thesis
    by (simp add: Let_def credential_environment_def list_all_iff)
qed

end
