(* ===== verification/ThinkingEvents.thy ===== *)
theory ThinkingEvents
  imports PyTime
begin

text \<open>
  \<^verbatim>\<open>thinking_events.py\<close>: the redaction every preview passes through and the runtime events the adapter
  builds. The regular expressions are written out as matchers on the text from a position on, given the
  character before it; \<open>re_sub\<close> is \<^verbatim>\<open>re.sub\<close>'s leftmost scan over such a matcher. In each pattern the
  alternatives exclude one another at a given place, so greedy matching needs no backtracking. The
  ellipsis that marks a truncated text (U+2026) has no code point below 256; the middle dot
  (code 183) stands for it.
\<close>

section \<open>Regular expressions\<close>

function re_sub :: "(char option \<Rightarrow> string \<Rightarrow> (string \<times> nat) option) \<Rightarrow> char option \<Rightarrow> string \<Rightarrow> string" where
  "re_sub m prev [] = []"
| "re_sub m prev (c # s) =
     (case m prev (c # s) of
        Some (rep, n) \<Rightarrow>
          if n = 0 then c # re_sub m (Some c) s
          else rep @ re_sub m (Some ((c # s) ! min (n - 1) (length s))) (drop (n - 1) s)
      | None \<Rightarrow> c # re_sub m (Some c) s)"
  by pat_completeness auto
termination by (relation "measure (\<lambda>(m, p, s). length s)") auto

definition REDACTED :: string where
  "REDACTED = ''***REDACTED***''"

definition is_quote :: "char \<Rightarrow> bool" where
  "is_quote c = (c = char_of (34::nat) \<or> c = char_of (39::nat))"

text \<open>\<^verbatim>\<open>\w\<close> on the code points up to 255.\<close>

definition is_word :: "char \<Rightarrow> bool" where
  "is_word c = (let n = of_char c :: nat in
     (48 \<le> n \<and> n \<le> 57) \<or> (65 \<le> n \<and> n \<le> 90) \<or> n = 95 \<or> (97 \<le> n \<and> n \<le> 122)
     \<or> n \<in> {170, 178, 179, 181, 185, 186, 188, 189, 190} \<or> (192 \<le> n \<and> n \<noteq> 215 \<and> n \<noteq> 247))"

definition token_char :: "char \<Rightarrow> bool" where
  "token_char c = (let n = of_char c :: nat in
     (48 \<le> n \<and> n \<le> 57) \<or> (65 \<le> n \<and> n \<le> 90) \<or> n = 95 \<or> n = 45 \<or> (97 \<le> n \<and> n \<le> 122))"

text \<open>The first of the words \<open>ks\<close> that \<open>s\<close> starts with (case aside) and whose rest passes \<open>k\<close>; the result
  of \<open>k\<close> on the rest.\<close>

fun first_word :: "(string \<Rightarrow> nat \<Rightarrow> 'a option) \<Rightarrow> string list \<Rightarrow> string \<Rightarrow> 'a option" where
  "first_word k [] s = None"
| "first_word k (w # ws) s =
     (if startswith (py_lower s) w
      then (case k (drop (length w) s) (length w) of Some x \<Rightarrow> Some x | None \<Rightarrow> first_word k ws s)
      else first_word k ws s)"

definition count_while :: "(char \<Rightarrow> bool) \<Rightarrow> string \<Rightarrow> nat" where
  "count_while p s = length (takeWhile p s)"

section \<open>Redaction\<close>

definition SENSITIVE_KEYS :: "string list" where
  "SENSITIVE_KEYS = [''password'', ''passwd'', ''secret'', ''token'', ''api_key'', ''apikey'', ''access'', ''refresh'',
     ''access_token'', ''refresh_token'', ''authorization'', ''auth'', ''credential'', ''private_key'']"

definition is_sensitive_key :: "string \<Rightarrow> bool" where
  "is_sensitive_key key = list_ex (contains (py_lower key)) SENSITIVE_KEYS"

definition ellipsis :: string where
  "ellipsis = [char_of (183::nat)]"

definition truncate_text :: "string \<Rightarrow> nat \<Rightarrow> string" where
  "truncate_text text n = (if length text \<le> n then text else take n text @ ellipsis)"

text \<open>\<^verbatim>\<open>str.splitlines()\<close>: a carriage return and newline end one line, and a final line end opens no line.\<close>

definition line_end :: "char \<Rightarrow> bool" where
  "line_end c = (let n = of_char c :: nat in (10 \<le> n \<and> n \<le> 13) \<or> (28 \<le> n \<and> n \<le> 30) \<or> n = 133)"

function splitlines :: "string \<Rightarrow> string list" where
  "splitlines s = (if s = [] then []
     else let line = takeWhile (\<lambda>c. \<not> line_end c) s; rest = dropWhile (\<lambda>c. \<not> line_end c) s
       in line # (case rest of [] \<Rightarrow> []
          | [c] \<Rightarrow> []
          | c # d # t \<Rightarrow> if c = CHR 0x0D \<and> d = CHR 0x0A then splitlines t else splitlines (d # t)))"
  by pat_completeness auto
termination
proof (relation "measure length", goal_cases)
  case 1 then show ?case by simp
next
  case (2 s x xa c l d t)
  then have "length (c # d # t) \<le> length s" by (metis length_dropWhile_le)
  then show ?case by simp
next
  case (3 s x xa c l d t)
  then have "length (c # d # t) \<le> length s" by (metis length_dropWhile_le)
  then show ?case by simp
qed

declare splitlines.simps [simp del]

definition redact_env_line :: "string \<Rightarrow> string" where
  "redact_env_line line =
     (if CHR ''='' \<in> set line \<and> is_sensitive_key (py_strip (takeWhile (\<lambda>c. c \<noteq> CHR ''='') line))
      then takeWhile (\<lambda>c. c \<noteq> CHR ''='') line @ ''='' @ REDACTED
      else line)"

definition redact_env_lines :: "string \<Rightarrow> string" where
  "redact_env_lines text = join_with [CHR 0x0A] (List.map redact_env_line (splitlines text))"

text \<open>\<^verbatim>\<open>(?im)^(\s*authorization\s*:\s*).*$\<close>.\<close>

definition match_authorization :: "char option \<Rightarrow> string \<Rightarrow> (string \<times> nat) option" where
  "match_authorization prev s =
     (if prev \<noteq> None \<and> prev \<noteq> Some (CHR 0x0A) then None
      else let a = count_while py_isspace s; s1 = drop a s; w = length ''authorization'' in
        if \<not> startswith (py_lower s1) ''authorization'' then None
        else let s2 = drop w s1; b = count_while py_isspace s2; s3 = drop b s2 in
          case s3 of
            [] \<Rightarrow> None
          | c # s4 \<Rightarrow> if c \<noteq> CHR '':'' then None
              else let d = count_while py_isspace s4;
                       n = a + w + b + 1 + d;
                       v = count_while (\<lambda>c. c \<noteq> CHR 0x0A) (drop d s4)
                   in Some (take n s @ REDACTED, n + v))"

definition KEY_UNION :: "string list" where
  "KEY_UNION = [''key'', ''api_key'', ''apikey'', ''access'', ''refresh'', ''access_token'', ''refresh_token'', ''token'',
     ''authorization'', ''password'', ''secret'', ''oauth'']"

text \<open>What follows the key in \<^verbatim>\<open>["']?\s*:\s*["']\<close>: its length, \<^verbatim>\<open>None\<close> when it does not match.\<close>

definition quoted_colon :: "string \<Rightarrow> nat option" where
  "quoted_colon s =
     (let q = (case s of c # _ \<Rightarrow> if is_quote c then 1 else 0 | [] \<Rightarrow> 0);
          a = count_while py_isspace (drop q s);
          s1 = drop (q + a) s in
      case s1 of [] \<Rightarrow> None
      | c # s2 \<Rightarrow> if c \<noteq> CHR '':'' then None
          else (let b = count_while py_isspace s2 in
            case drop b s2 of [] \<Rightarrow> None
            | d # _ \<Rightarrow> if is_quote d then Some (q + a + 1 + b + 1) else None))"

definition match_quoted_value :: "char option \<Rightarrow> string \<Rightarrow> (string \<times> nat) option" where
  "match_quoted_value prev s =
     (let q = (case s of c # _ \<Rightarrow> if is_quote c then 1 else 0 | [] \<Rightarrow> 0) in
      first_word (\<lambda>rest w.
        (case quoted_colon rest of None \<Rightarrow> None
         | Some n \<Rightarrow>
            (let v = count_while (\<lambda>c. \<not> is_quote c) (drop n rest) in
             if v = 0 then None
             else (case drop (n + v) rest of [] \<Rightarrow> None
               | close # _ \<Rightarrow> Some (take (q + w + n) s @ REDACTED @ [close], q + w + n + v + 1)))))
        KEY_UNION (drop q s))"

definition value_end :: "char \<Rightarrow> bool" where
  "value_end c = (py_isspace c \<or> c \<in> set '',;&}]'')"

definition match_plain_value :: "char option \<Rightarrow> string \<Rightarrow> (string \<times> nat) option" where
  "match_plain_value prev s =
     (if (case prev of Some p \<Rightarrow> is_word p | None \<Rightarrow> False) then None
      else first_word (\<lambda>rest w.
        (if (case rest of c # _ \<Rightarrow> is_word c | [] \<Rightarrow> False) then None
         else let a = count_while py_isspace rest in
           case drop a rest of [] \<Rightarrow> None
           | c # s2 \<Rightarrow> if c \<noteq> CHR '':'' \<and> c \<noteq> CHR ''='' then None
               else let b = count_while py_isspace s2; n = w + a + 1 + b;
                        v = count_while (\<lambda>c. \<not> value_end c) (drop b s2)
                    in if v = 0 then None else Some (take n s @ REDACTED, n + v)))
        KEY_UNION s)"

definition redact_sensitive_text_values :: "string \<Rightarrow> string" where
  "redact_sensitive_text_values text = re_sub match_plain_value None (re_sub match_quoted_value None text)"

definition TOKEN_PREFIXES :: "(string \<times> nat) list" where
  "TOKEN_PREFIXES = [(''gho_'', 1), (''ghu_'', 1), (''ghp_'', 1), (''github_pat_'', 1), (''sk-'', 8)]"

definition match_token :: "string \<times> nat \<Rightarrow> char option \<Rightarrow> string \<Rightarrow> (string \<times> nat) option" where
  "match_token pat prev s =
     (case pat of (p, least) \<Rightarrow>
        if (case prev of Some c \<Rightarrow> token_char c | None \<Rightarrow> False) \<or> \<not> startswith s p then None
        else let n = count_while token_char (drop (length p) s) in
          if n < least then None else Some (REDACTED, length p + n))"

definition redact_token_patterns :: "string \<Rightarrow> string" where
  "redact_token_patterns text = fold (\<lambda>pat out. re_sub (match_token pat) None out) TOKEN_PREFIXES text"

definition preview_text :: "string \<Rightarrow> nat \<Rightarrow> string" where
  "preview_text s n = truncate_text
     (redact_token_patterns (redact_sensitive_text_values (re_sub match_authorization None (redact_env_lines s)))) n"

fun safe_preview :: "jval \<Rightarrow> nat \<Rightarrow> jval"
  and preview_items :: "jval list \<Rightarrow> nat \<Rightarrow> jval list"
  and preview_pairs :: "(string \<times> jval) list \<Rightarrow> nat \<Rightarrow> (string \<times> jval) list" where
  "safe_preview (JObj d) n = JObj (preview_pairs d n)"
| "safe_preview (JList xs) n = JList (preview_items xs n)"
| "safe_preview (JStr s) n = JStr (preview_text s n)"
| "safe_preview JNull n = JNull"
| "safe_preview (JBool b) n = JBool b"
| "safe_preview (JInt i) n = JInt i"
| "safe_preview (JFloat f) n = JFloat f"
| "preview_items [] n = []"
| "preview_items (x # xs) n = safe_preview x n # preview_items xs n"
| "preview_pairs [] n = []"
| "preview_pairs ((k, v) # d) n =
     (k, if is_sensitive_key k then JStr REDACTED else safe_preview v n) # preview_pairs d n"

section \<open>Events\<close>

text \<open>The keyword arguments of \<open>build_thinking_event\<close>: the session and request id are passed on as the callers
  hold them, and for the others a \<^verbatim>\<open>None\<close> and an empty text are treated alike. \<open>stamp\<close> is \<^verbatim>\<open>utc_now_iso()\<close>, \<open>ts\<close> is \<^verbatim>\<open>time.time()\<close>.\<close>

record event_args =
  ev_session_id :: jval
  ev_request_id :: jval
  ev_task_id :: string
  ev_agent_id :: string
  ev_opencode_session_id :: string
  ev_state :: string
  ev_summary :: string
  ev_data :: jobj

definition event_args_for :: "jval \<Rightarrow> jval \<Rightarrow> event_args" where
  "event_args_for sid rid = \<lparr>ev_session_id = sid, ev_request_id = rid, ev_task_id = [], ev_agent_id = [],
     ev_opencode_session_id = [], ev_state = [], ev_summary = [], ev_data = []\<rparr>"

definition build_thinking_event :: "string \<Rightarrow> pyfloat \<Rightarrow> string \<Rightarrow> event_args \<Rightarrow> jobj" where
  "build_thinking_event stamp ts event_type a =
     (let data = (if ev_data a \<noteq> [] then ev_data a
                  else [(''session_id'', ev_session_id a), (''request_id'', py_or (ev_request_id a) (JStr []))])
      in [(''type'', JStr event_type), (''event_type'', JStr event_type), (''engine'', JStr ''opencode''),
          (''session_id'', ev_session_id a), (''request_id'', py_or (ev_request_id a) (JStr [])),
          (''state'', JStr (if ev_state a \<noteq> [] then ev_state a else ''running'')),
          (''summary'', safe_preview (JStr (ev_summary a)) 500), (''data'', safe_preview (JObj data) 500),
          (''created_at'', JStr stamp), (''ts'', JFloat ts)]
         @ (if ev_task_id a \<noteq> [] then [(''task_id'', JStr (ev_task_id a))] else [])
         @ (if ev_agent_id a \<noteq> [] then [(''agent_id'', JStr (ev_agent_id a))] else [])
         @ (if ev_opencode_session_id a \<noteq> [] then [(''opencode_session_id'', JStr (ev_opencode_session_id a))] else []))"

definition chat_started_event :: "string \<Rightarrow> pyfloat \<Rightarrow> event_args \<Rightarrow> jobj" where
  "chat_started_event stamp ts a =
     build_thinking_event stamp ts ''execution.started'' (a\<lparr>ev_state := ''running'', ev_summary := ''Execution started''\<rparr>)"

definition assistant_delta_event :: "string \<Rightarrow> pyfloat \<Rightarrow> string \<Rightarrow> event_args \<Rightarrow> jobj" where
  "assistant_delta_event stamp ts text a =
     (let p = JStr (preview_text text 500) in
      build_thinking_event stamp ts ''assistant_delta'' (a\<lparr>ev_state := ''running'', ev_summary := ''Assistant delta'',
        ev_data := [(''delta'', p), (''message'', p)]\<rparr>))"

definition chat_complete_event :: "string \<Rightarrow> pyfloat \<Rightarrow> string \<Rightarrow> event_args \<Rightarrow> jobj" where
  "chat_complete_event stamp ts text a =
     build_thinking_event stamp ts ''complete'' (a\<lparr>ev_state := ''success'', ev_summary := preview_text text 500,
        ev_data := [(''message'', JStr (preview_text text 500))]\<rparr>)"

definition chat_completed_compat_event :: "string \<Rightarrow> pyfloat \<Rightarrow> string \<Rightarrow> event_args \<Rightarrow> jobj" where
  "chat_completed_compat_event stamp ts text a =
     build_thinking_event stamp ts ''execution.completed'' (a\<lparr>ev_state := ''success'',
        ev_summary := preview_text text 500, ev_data := [(''message'', JStr (preview_text text 500))]\<rparr>)"

definition chat_failed_event :: "string \<Rightarrow> pyfloat \<Rightarrow> string \<Rightarrow> event_args \<Rightarrow> jobj" where
  "chat_failed_event stamp ts error a =
     build_thinking_event stamp ts ''execution.failed'' (a\<lparr>ev_state := ''failed'',
        ev_summary := preview_text error 500, ev_data := [(''error'', JStr (preview_text error 500))]\<rparr>)"

definition permission_request_event ::
    "string \<Rightarrow> pyfloat \<Rightarrow> string \<Rightarrow> string \<Rightarrow> string \<Rightarrow> string \<Rightarrow> event_args \<Rightarrow> jobj" where
  "permission_request_event stamp ts permission_id tool input risk a =
     (let fields = [(''permission_id'', JStr permission_id), (''tool'', JStr tool),
            (''input_preview'', JStr (preview_text input 500)), (''risk_level'', JStr risk)]
      in build_thinking_event stamp ts ''permission_request''
           (a\<lparr>ev_state := ''pending'', ev_summary := ''Permission requested'', ev_data := fields\<rparr>) @ fields)"

definition task_lifecycle_event :: "string \<Rightarrow> pyfloat \<Rightarrow> string \<Rightarrow> event_args \<Rightarrow> jobj" where
  "task_lifecycle_event stamp ts event_type a = build_thinking_event stamp ts event_type a"

section \<open>What a preview can show\<close>

text \<open>At every depth: a sensitive key holds the redaction mark, and every other text was cut to the limit.\<close>

fun shows_safely :: "nat \<Rightarrow> jval \<Rightarrow> bool"
  and shows_items :: "nat \<Rightarrow> jval list \<Rightarrow> bool"
  and shows_pairs :: "nat \<Rightarrow> (string \<times> jval) list \<Rightarrow> bool" where
  "shows_safely n (JObj d) = shows_pairs n d"
| "shows_safely n (JList xs) = shows_items n xs"
| "shows_safely n (JStr s) = (length s \<le> n + 1)"
| "shows_safely n JNull = True"
| "shows_safely n (JBool b) = True"
| "shows_safely n (JInt i) = True"
| "shows_safely n (JFloat f) = True"
| "shows_items n [] = True"
| "shows_items n (x # xs) = (shows_safely n x \<and> shows_items n xs)"
| "shows_pairs n [] = True"
| "shows_pairs n ((k, v) # d) =
     ((if is_sensitive_key k then v = JStr REDACTED else shows_safely n v) \<and> shows_pairs n d)"

lemma preview_text_length: "length (preview_text s n) \<le> n + 1"
  by (simp add: preview_text_def truncate_text_def ellipsis_def)

lemma preview_keys: "dkeys (preview_pairs d n) = dkeys d"
  by (induction d) auto

lemma preview_shows:
  "shows_safely n (safe_preview v n)" "shows_items n (preview_items xs n)" "shows_pairs n (preview_pairs d n)"
  by (induction v n and xs n and d n rule: safe_preview_preview_items_preview_pairs.induct)
     (use preview_text_length in auto)

text \<open>C30: a preview leaks no field with a sensitive name: at any depth of dicts and lists the value under a key
  that contains one of the sensitive words is the redaction mark, every other text is at most one
  character over the limit, and a dict keeps exactly its keys, in order.\<close>

theorem preview_hides_sensitive_fields:
  "shows_safely n (safe_preview v n) \<and> (\<forall>d. v = JObj d \<longrightarrow>
      (\<exists>d'. safe_preview v n = JObj d' \<and> dkeys d' = dkeys d
         \<and> (\<forall>k w. (k, w) \<in> set d' \<and> is_sensitive_key k \<longrightarrow> w = JStr REDACTED)))"
proof -
  have "w = JStr REDACTED" if "(k, w) \<in> set d" "is_sensitive_key k" "shows_pairs n d" for k w d
    using that by (induction d) (auto split: if_splits)
  then show ?thesis using preview_shows(1) [of n v] preview_shows(3) [of n] preview_keys by auto
qed

lemma preview_hides_sensitive_fields_witness:
  "shows_safely 5 (safe_preview (JObj [(''api_key'', JStr ''k''), (''items'', JList [JStr ''abcdefgh''])]) 5)"
  by (rule preview_hides_sensitive_fields [THEN conjunct1])

end
