(* ===== verification/OutboundProxy.thy ===== *)
theory OutboundProxy
  imports ProxyPlan
begin

text \<open>
  How the adapter's loopback proxies reach the model provider (\<^verbatim>\<open>outbound_proxy.py\<close>): the proxy assigned to
  the Model provider, else the environment's. The variables written to \<^verbatim>\<open>opencode.env\<close> and those of the
  process are arguments; a \<^verbatim>\<open>ValueError\<close> of \<^verbatim>\<open>urlsplit\<close> is \<^verbatim>\<open>None\<close>.
\<close>

type_synonym environ = "(string \<times> string) list"

record outbound_config =
  oc_proxy_url :: "string option"
  oc_trust_env :: bool

definition direct_connection :: outbound_config where
  "direct_connection = \<lparr>oc_proxy_url = None, oc_trust_env = False\<rparr>"

definition DIRECT_WORDS :: "string list" where
  "DIRECT_WORDS = [''none'', ''direct'', ''off'']"

definition env_value :: "environ \<Rightarrow> string \<Rightarrow> string" where
  "env_value env k = (case map_of env k of None \<Rightarrow> [] | Some v \<Rightarrow> py_strip v)"

definition first_proxy_value :: "environ \<Rightarrow> environ \<Rightarrow> string list \<Rightarrow> string option" where
  "first_proxy_value runtime_env process_env keys =
     find (\<lambda>v. v \<noteq> []) (List.map (env_value runtime_env) keys @ List.map (env_value process_env) keys)"

definition default_port :: "string \<Rightarrow> nat option" where
  "default_port scheme = (if scheme = ''http'' then Some 80 else if scheme = ''https'' then Some 443 else None)"

definition clean_host :: "split_url \<Rightarrow> string" where
  "clean_host u = rstrip_chars ''.'' (py_lower (py_strip (url_hostname u)))"

definition no_proxy_entry_host_port :: "string \<Rightarrow> (string \<times> nat option) option" where
  "no_proxy_entry_host_port entry =
     map_option (\<lambda>u. (clean_host u, port_of u)) (urlsplit (if contains entry ''://'' then entry else ''//'' @ entry))"

definition host_matches_no_proxy_entry :: "string \<Rightarrow> string \<Rightarrow> bool" where
  "host_matches_no_proxy_entry host entry_host =
     (if entry_host = [] then False
      else let e = (if startswith entry_host ''*.'' then tl entry_host else entry_host);
               suffix = (if startswith e ''.'' then tl e else e)
           in host = suffix \<or> endswith host (''.'' @ suffix))"

fun no_proxy_loop :: "string \<Rightarrow> nat option \<Rightarrow> string list \<Rightarrow> bool option" where
  "no_proxy_loop host target_port [] = Some False"
| "no_proxy_loop host target_port (entry # rest) =
     (if entry = ''*'' then Some True
      else case no_proxy_entry_host_port entry of None \<Rightarrow> None
      | Some (entry_host, entry_port) \<Rightarrow>
          if entry_port \<noteq> None \<and> target_port \<noteq> entry_port then no_proxy_loop host target_port rest
          else if host_matches_no_proxy_entry host entry_host then Some True
          else no_proxy_loop host target_port rest)"

definition target_port_of :: "split_url \<Rightarrow> nat option" where
  "target_port_of u = (case port_of u of Some p \<Rightarrow> if p = 0 then default_port (py_lower (su_scheme u)) else Some p
     | None \<Rightarrow> default_port (py_lower (su_scheme u)))"

definition no_proxy_matches :: "string option \<Rightarrow> string \<Rightarrow> bool option" where
  "no_proxy_matches no_proxy target_url =
     (case no_proxy of None \<Rightarrow> Some False
      | Some list \<Rightarrow>
          if list = [] then Some False
          else case urlsplit target_url of None \<Rightarrow> None
          | Some parts \<Rightarrow>
              if clean_host parts = [] then Some False
              else no_proxy_loop (clean_host parts) (target_port_of parts) (no_proxy_items list))"

definition scheme_keys :: "string \<Rightarrow> string list" where
  "scheme_keys scheme =
     (if scheme = ''https'' then [''HTTPS_PROXY'', ''https_proxy'', ''ALL_PROXY'', ''all_proxy'', ''HTTP_PROXY'', ''http_proxy'']
      else if scheme = ''http'' then [''HTTP_PROXY'', ''http_proxy'', ''ALL_PROXY'', ''all_proxy''] else [])"

text \<open>The branch of the assigned proxy, and that of the environment.\<close>

definition llm_proxy_config :: "environ \<Rightarrow> environ \<Rightarrow> string \<Rightarrow> string \<Rightarrow> outbound_config option" where
  "llm_proxy_config runtime_env process_env llm_proxy target_url =
     (if py_lower llm_proxy \<in> set DIRECT_WORDS then Some direct_connection
      else case no_proxy_matches (first_proxy_value runtime_env process_env [''EFP_LLM_NO_PROXY'']) target_url of
        None \<Rightarrow> None
      | Some True \<Rightarrow> Some direct_connection
      | Some False \<Rightarrow>
          map_option (\<lambda>loopback. if loopback then direct_connection
                                 else \<lparr>oc_proxy_url = Some llm_proxy, oc_trust_env = False\<rparr>)
            (no_proxy_matches (Some ''127.0.0.1,localhost,::1'') target_url))"

definition env_proxy_config :: "environ \<Rightarrow> environ \<Rightarrow> string \<Rightarrow> outbound_config option" where
  "env_proxy_config runtime_env process_env target_url =
     (case no_proxy_matches (first_proxy_value runtime_env process_env [''NO_PROXY'', ''no_proxy'']) target_url of
        None \<Rightarrow> None
      | Some True \<Rightarrow> Some direct_connection
      | Some False \<Rightarrow>
          map_option (\<lambda>u. let keys = scheme_keys (py_lower (su_scheme u)) in
              if keys = [] then \<lparr>oc_proxy_url = None, oc_trust_env = True\<rparr>
              else \<lparr>oc_proxy_url = first_proxy_value runtime_env process_env keys, oc_trust_env = True\<rparr>)
            (urlsplit target_url))"

definition outbound_proxy_config_for_url :: "environ \<Rightarrow> environ \<Rightarrow> string \<Rightarrow> outbound_config option" where
  "outbound_proxy_config_for_url runtime_env process_env target_url =
     (case first_proxy_value runtime_env process_env [''EFP_LLM_PROXY''] of
        Some llm_proxy \<Rightarrow> llm_proxy_config runtime_env process_env llm_proxy target_url
      | None \<Rightarrow> env_proxy_config runtime_env process_env target_url)"

definition outbound_proxy_for_url :: "environ \<Rightarrow> environ \<Rightarrow> string \<Rightarrow> string option option" where
  "outbound_proxy_for_url runtime_env process_env target_url =
     map_option oc_proxy_url (outbound_proxy_config_for_url runtime_env process_env target_url)"

section \<open>Loopback targets\<close>

lemma loopback_entries:
  "no_proxy_items ''127.0.0.1,localhost,::1'' = [''127.0.0.1'', ''localhost'', ''::1'']"
  by code_simp

lemma loopback_hosts:
  "no_proxy_entry_host_port ''127.0.0.1'' = Some (''127.0.0.1'', None)"
  "no_proxy_entry_host_port ''localhost'' = Some (''localhost'', None)"
  "no_proxy_entry_host_port ''::1'' = Some ([], None)"
  by code_simp+

lemma not_own_prefix: "\<not> startswith ''127.0.0.1'' ''*.''" "\<not> startswith ''localhost'' ''*.''"
  "\<not> startswith ''127.0.0.1'' ''.''" "\<not> startswith ''localhost'' ''.''"
  by (simp_all add: startswith_def)

definition under_name :: "string \<Rightarrow> string \<Rightarrow> bool" where
  "under_name name host = (host = name \<or> endswith host (''.'' @ name))"

lemma loopback_loop:
  "no_proxy_loop host port [''127.0.0.1'', ''localhost'', ''::1''] =
     Some (under_name ''127.0.0.1'' host \<or> under_name ''localhost'' host)"
  by (simp add: loopback_hosts host_matches_no_proxy_entry_def not_own_prefix under_name_def Let_def)

lemma ipv6_loopback_name: "\<not> under_name ''127.0.0.1'' ''::1''" "\<not> under_name ''localhost'' ''::1''"
  by (simp_all add: under_name_def endswith_def startswith_def)

text \<open>With a proxy assigned to the Model provider and no exemption list of its own, a target is reached
  directly exactly when its host is 127.0.0.1 or localhost or a name below them; the IPv6 loopback address is
  not among the exempt hosts, so a model served on it is sent through the proxy.\<close>

theorem loopback_exemption:
  assumes "first_proxy_value renv penv [''EFP_LLM_PROXY''] = Some x" and "py_lower x \<notin> set DIRECT_WORDS"
    and "first_proxy_value renv penv [''EFP_LLM_NO_PROXY''] = None" and "urlsplit url = Some u" and "clean_host u \<noteq> []"
  shows "outbound_proxy_for_url renv penv url =
           Some (if under_name ''127.0.0.1'' (clean_host u) \<or> under_name ''localhost'' (clean_host u) then None else Some x)
         \<and> (clean_host u = ''::1'' \<longrightarrow> outbound_proxy_for_url renv penv url = Some (Some x))"
  using assms
  by (auto simp: outbound_proxy_for_url_def outbound_proxy_config_for_url_def llm_proxy_config_def no_proxy_matches_def
      loopback_entries loopback_loop ipv6_loopback_name direct_connection_def simp del: no_proxy_loop.simps)

lemma env_values:
  "first_proxy_value [(''EFP_LLM_PROXY'', ''http://p:1'')] [] [''EFP_LLM_PROXY''] = Some ''http://p:1''"
  "first_proxy_value [(''EFP_LLM_PROXY'', ''http://p:1'')] [] [''EFP_LLM_NO_PROXY''] = None"
  by code_simp+

lemma ipv6_target: "map_option clean_host (urlsplit ''http://[::1]:1/'') = Some ''::1''"
  by code_simp

theorem loopback_exemption_witness:
  "outbound_proxy_for_url [(''EFP_LLM_PROXY'', ''http://p:1'')] [] ''http://[::1]:1/'' = Some (Some ''http://p:1'')"
proof -
  obtain u where u: "urlsplit ''http://[::1]:1/'' = Some u" "clean_host u = ''::1''" using ipv6_target by auto
  have "py_lower ''http://p:1'' \<notin> set DIRECT_WORDS" by code_simp
  from loopback_exemption [OF env_values(1) this env_values(2) u(1)] u(2) show ?thesis by (simp add: ipv6_loopback_name)
qed

end
