(* ===== verification/Sha256.thy ===== *)
theory Sha256
  imports PyPrelude "HOL-Library.Word"
begin

text \<open>
  \<^verbatim>\<open>hashlib.sha256(text.encode("utf-8")).hexdigest()\<close> on texts whose code points are at most 255: the
  adapter keys Copilot conversations and its token cache on it. Words are 32 bits wide and wrap.
\<close>

unbundle bit_operations_syntax

type_synonym word32 = "32 word"

definition rotr :: "nat \<Rightarrow> word32 \<Rightarrow> word32" where
  "rotr n w = drop_bit n w OR push_bit (32 - n) w"

definition small_sigma0 :: "word32 \<Rightarrow> word32" where
  "small_sigma0 x = rotr 7 x XOR rotr 18 x XOR drop_bit 3 x"

definition small_sigma1 :: "word32 \<Rightarrow> word32" where
  "small_sigma1 x = rotr 17 x XOR rotr 19 x XOR drop_bit 10 x"

definition big_sigma0 :: "word32 \<Rightarrow> word32" where
  "big_sigma0 x = rotr 2 x XOR rotr 13 x XOR rotr 22 x"

definition big_sigma1 :: "word32 \<Rightarrow> word32" where
  "big_sigma1 x = rotr 6 x XOR rotr 11 x XOR rotr 25 x"

text \<open>The constants of the standard: the first 32 fractional bits of the cube roots of the first 64 primes, and of
  the square roots of the first eight, here by a search for the integer root from its highest bit down.\<close>

definition small_primes :: "nat list" where
  "small_primes = filter (\<lambda>n. list_all (\<lambda>d. n mod d \<noteq> 0) [2..<n]) [2..<312]"

fun root_search :: "nat \<Rightarrow> nat \<Rightarrow> nat \<Rightarrow> nat \<Rightarrow> nat" where
  "root_search 0 k n r = r"
| "root_search (Suc b) k n r = root_search b k n (if (r + 2 ^ b) ^ k \<le> n then r + 2 ^ b else r)"

definition root_bits :: "nat \<Rightarrow> nat \<Rightarrow> word32" where
  "root_bits k p = of_nat (root_search 37 k (p * 2 ^ (32 * k)) 0)"

definition round_constants :: "word32 list" where
  "round_constants = List.map (root_bits 3) small_primes"

definition initial_state :: "word32 list" where
  "initial_state = List.map (root_bits 2) (take 8 small_primes)"

text \<open>The message schedule, newest word first, and one round on the eight working words.\<close>

fun extend_schedule :: "nat \<Rightarrow> word32 list \<Rightarrow> word32 list" where
  "extend_schedule 0 ws = rev ws"
| "extend_schedule (Suc n) ws =
     extend_schedule n ((small_sigma1 (ws ! 1) + ws ! 6 + small_sigma0 (ws ! 14) + ws ! 15) # ws)"

fun sha_round :: "word32 \<times> word32 \<Rightarrow> word32 list \<Rightarrow> word32 list" where
  "sha_round (k, w) [a, b, c, d, e, f, g, h] =
     (let t1 = h + big_sigma1 e + ((e AND f) XOR (NOT e AND g)) + k + w;
          t2 = big_sigma0 a + ((a AND b) XOR (a AND c) XOR (b AND c))
      in [t1 + t2, a, b, c, d + t1, e, f, g])"
| "sha_round kw st = st"

definition sha_block :: "word32 list \<Rightarrow> word32 list \<Rightarrow> word32 list" where
  "sha_block ws st = map2 (+) st (fold sha_round (zip round_constants (extend_schedule 48 (rev ws))) st)"

fun words_of_bytes :: "int list \<Rightarrow> word32 list" where
  "words_of_bytes (a # b # c # d # r) = word_of_int (((a * 256 + b) * 256 + c) * 256 + d) # words_of_bytes r"
| "words_of_bytes _ = []"

definition sha_padding :: "nat \<Rightarrow> int list" where
  "sha_padding n = 128 # replicate ((119 - n mod 64) mod 64) 0
     @ List.map (\<lambda>k. (8 * int n) div 256 ^ k mod 256) [7, 6, 5, 4, 3, 2, 1, 0]"

function sha_blocks :: "word32 list \<Rightarrow> word32 list \<Rightarrow> word32 list" where
  "sha_blocks ws st = (if length ws < 16 then st else sha_blocks (drop 16 ws) (sha_block (take 16 ws) st))"
  by pat_completeness auto
termination by (relation "measure (\<lambda>(ws, st). length ws)") auto

declare sha_blocks.simps [simp del]

definition hex_word :: "word32 \<Rightarrow> string" where
  "hex_word w = List.map (\<lambda>k. hex_digit (nat (uint w div 16 ^ k mod 16))) [7, 6, 5, 4, 3, 2, 1, 0]"

definition sha256_hex :: "int list \<Rightarrow> string" where
  "sha256_hex bytes =
     concat (List.map hex_word (sha_blocks (words_of_bytes (bytes @ sha_padding (length bytes))) initial_state))"

definition utf8_char :: "char \<Rightarrow> int list" where
  "utf8_char c = (let n = of_char c :: int in if n < 128 then [n] else [192 + n div 64, 128 + n mod 64])"

definition utf8_bytes :: "string \<Rightarrow> int list" where
  "utf8_bytes s = concat (List.map utf8_char s)"

definition sha256_of :: "string \<Rightarrow> string" where
  "sha256_of s = sha256_hex (utf8_bytes s)"

lemma length_hex_word [simp]: "length (hex_word w) = 8"
  by (simp add: hex_word_def)

lemma length_sha_round [simp]: "length (sha_round kw st) = length st"
  by (induction kw st rule: sha_round.induct) (auto simp: Let_def)

lemma length_sha_rounds [simp]: "length (fold sha_round kws st) = length st"
  by (induction kws arbitrary: st) auto

lemma length_sha_blocks [simp]: "length (sha_blocks ws st) = length st"
  by (induction ws st rule: sha_blocks.induct) (subst sha_blocks.simps, simp add: sha_block_def)

lemma eight_primes: "8 \<le> length small_primes"
proof -
  have sum: "20 + 292 = (312::nat)" by simp
  have "[2..<312] = [2..<20] @ [20..<(312::nat)]" by (rule upt_add_eq_append [of 2 20 292, unfolded sum]) simp
  moreover have "length (filter (\<lambda>n. list_all (\<lambda>d. n mod d \<noteq> 0) [2..<n]) [2..<(20::nat)]) = 8" by code_simp
  ultimately show ?thesis unfolding small_primes_def by (simp only: filter_append length_append)
qed

text \<open>A digest is 64 characters long whatever the text.\<close>

lemma length_sha256 [simp]: "length (sha256_of s) = 64"
proof -
  have "length (concat (List.map hex_word ws)) = 8 * length ws" for ws
    by (induction ws) auto
  then show ?thesis by (simp add: sha256_of_def sha256_hex_def initial_state_def min_absorb2 eight_primes)
qed

end
