(* ===== verification/CopilotAuth.thy ===== *)
theory CopilotAuth
  imports ThinkingEvents OutboundProxy JsonText Sha256
begin

text \<open>
  The Copilot credential (\<^verbatim>\<open>copilot_plugin_auth.py\<close>): reading it from the runtime profile, keeping it in its file,
  exchanging it for an internal token, the token cache, and the redaction of texts that may carry secrets.
  The answer of the token service is an argument; a file is the document \<^verbatim>\<open>json.loads\<close> reads from it.
\<close>

section \<open>The credential\<close>

definition PROVIDER_ALIASES :: "(string \<times> string) list" where
  "PROVIDER_ALIASES =
     [(''github'', ''github-copilot''), (''copilot'', ''github-copilot''), (''github_copilot'', ''github-copilot''),
      (''github-copilot'', ''github-copilot''), (''ai_platform'', ''ai-platform''), (''ai-platform'', ''ai-platform''),
      (''ai platform'', ''ai-platform''), (''claude'', ''anthropic''), (''anthropic'', ''anthropic''), (''openai'', ''openai'')]"

definition normalize_opencode_provider_id :: "jval \<Rightarrow> string" where
  "normalize_opencode_provider_id provider =
     (let raw = py_lower (py_strip (str_or_empty provider)) in
      case map_of PROVIDER_ALIASES raw of Some p \<Rightarrow> p | None \<Rightarrow> raw)"

text \<open>The empty text stands for \<^verbatim>\<open>None\<close>.\<close>

definition provider_from_llm :: "jobj \<Rightarrow> string" where
  "provider_from_llm llm =
     (let provider = normalize_opencode_provider_id (jget llm ''provider'') in
      if provider \<noteq> [] then provider
      else case jget llm ''model'' of
        JStr m \<Rightarrow> if CHR ''/'' \<in> set m then normalize_opencode_provider_id (JStr (takeWhile (\<lambda>c. c \<noteq> CHR ''/'') m)) else []
      | _ \<Rightarrow> [])"

definition provider_from_runtime_config :: "jobj \<Rightarrow> string" where
  "provider_from_runtime_config config = (case jget config ''llm'' of JObj llm \<Rightarrow> provider_from_llm llm | _ \<Rightarrow> [])"

definition is_copilot_runtime_config :: "jobj \<Rightarrow> bool" where
  "is_copilot_runtime_config config = (provider_from_runtime_config config = ''github-copilot'')"

definition copilot_clean :: "jval \<Rightarrow> string" where
  "copilot_clean v = (case v of JStr s \<Rightarrow> py_strip s | _ \<Rightarrow> [])"

record source_credential =
  sc_credential :: string
  sc_source :: string
  sc_enterprise_url :: string

definition extract_copilot_source_credential :: "jobj \<Rightarrow> source_credential option" where
  "extract_copilot_source_credential config =
     (case jget config ''llm'' of
        JObj llm \<Rightarrow>
          if provider_from_llm llm \<noteq> ''github-copilot'' then None
          else (let oauth = obj_or_empty (jget llm ''oauth'');
                    url = copilot_clean (jget oauth ''enterpriseUrl'');
                    cred = (\<lambda>c s. \<lparr>sc_credential = c, sc_source = s, sc_enterprise_url = url\<rparr>)
                in if copilot_clean (jget oauth ''refresh'') \<noteq> [] then Some (cred (copilot_clean (jget oauth ''refresh'')) ''oauth_refresh'')
                   else if copilot_clean (jget oauth ''access'') \<noteq> [] then Some (cred (copilot_clean (jget oauth ''access'')) ''oauth_access'')
                   else if copilot_clean (jget llm ''api_key'') \<noteq> [] then Some (cred (copilot_clean (jget llm ''api_key'')) ''api_key'')
                   else None)
      | _ \<Rightarrow> None)"

definition optional_text :: "string \<Rightarrow> jval" where
  "optional_text s = (if s = [] then JNull else JStr s)"

text \<open>\<open>stamp\<close> is the time of the write as text.\<close>

definition credential_document :: "string \<Rightarrow> source_credential \<Rightarrow> jval" where
  "credential_document stamp c = JObj
     [(''type'', JStr ''github_copilot_plugin_oauth''), (''source'', JStr (sc_source c)), (''credential'', JStr (sc_credential c)),
      (''enterpriseUrl'', optional_text (sc_enterprise_url c)), (''updated_at'', JStr stamp)]"

record credential_apply_result =
  ca_provider :: string
  ca_present :: bool
  ca_stored :: bool
  ca_cleared :: bool
  ca_enterprise_url_present :: bool

text \<open>The file before and after; storing overwrites it, clearing reports whether there was one.\<close>

definition save_or_clear_credential :: "string \<Rightarrow> jobj \<Rightarrow> jfile option \<Rightarrow> credential_apply_result \<times> jfile option" where
  "save_or_clear_credential stamp config file =
     (let provider = provider_from_runtime_config config in
      case (provider = ''github-copilot'', extract_copilot_source_credential config) of
        (True, Some c) \<Rightarrow>
          (\<lparr>ca_provider = provider, ca_present = True, ca_stored = True, ca_cleared = False,
            ca_enterprise_url_present = (sc_enterprise_url c \<noteq> [])\<rparr>, Some (JsonText (credential_document stamp c)))
      | _ \<Rightarrow>
          (\<lparr>ca_provider = provider, ca_present = False, ca_stored = False, ca_cleared = (file \<noteq> None),
            ca_enterprise_url_present = False\<rparr>, None))"

definition load_credential :: "jfile option \<Rightarrow> source_credential option" where
  "load_credential file =
     (case file of
        Some (JsonText (JObj d)) \<Rightarrow>
          (let credential = copilot_clean (jget d ''credential''); source = copilot_clean (jget d ''source'') in
           if credential = [] then None
           else Some \<lparr>sc_credential = credential, sc_source = (if source = [] then ''unknown'' else source),
                      sc_enterprise_url = copilot_clean (jget d ''enterpriseUrl'')\<rparr>)
      | _ \<Rightarrow> None)"

section \<open>Redaction\<close>

definition is_word_at :: "char option \<Rightarrow> bool" where
  "is_word_at prev = (case prev of Some p \<Rightarrow> is_word p | None \<Rightarrow> False)"

definition url_scheme_char :: "char \<Rightarrow> bool" where
  "url_scheme_char c = (is_alpha c \<or> is_digit c \<or> c \<in> set ''+.-'')"

text \<open>\<^verbatim>\<open>(?i)\b([a-z][a-z0-9+.-]*://)[^/\s?#@]+@\<close>.\<close>

definition match_userinfo :: "char option \<Rightarrow> string \<Rightarrow> (string \<times> nat) option" where
  "match_userinfo prev s =
     (case s of [] \<Rightarrow> None
      | c # r \<Rightarrow>
          if is_word_at prev \<or> \<not> is_alpha c then None
          else (let a = 1 + count_while url_scheme_char r in
            if \<not> startswith (drop a s) ''://'' then None
            else (let b = count_while (\<lambda>x. \<not> py_isspace x \<and> x \<notin> set ''/?#@'') (drop (a + 3) s) in
              if b = 0 then None
              else case drop (a + 3 + b) s of
                d # rest \<Rightarrow> if d = CHR ''@'' then Some (take (a + 3) s @ ''[redacted]@'', a + 3 + b + 1) else None
              | [] \<Rightarrow> None)))"

text \<open>\<^verbatim>\<open>gh[uo]_[A-Za-z0-9._~+/=-]+\<close>.\<close>

definition match_gh_token :: "char option \<Rightarrow> string \<Rightarrow> (string \<times> nat) option" where
  "match_gh_token prev s =
     (if startswith s ''ghu_'' \<or> startswith s ''gho_''
      then (let n = count_while (\<lambda>c. is_alpha c \<or> is_digit c \<or> c \<in> set ''._~+/=-'') (drop 4 s)
            in if n = 0 then None else Some (''[redacted]'', 4 + n))
      else None)"

definition secret_char :: "char \<Rightarrow> bool" where
  "secret_char c = (\<not> py_isspace c \<and> c \<notin> set '';&,'' \<and> \<not> is_quote c)"

text \<open>\<^verbatim>\<open>tid=[^;&,\s"']+\<close>.\<close>

definition match_tid :: "char option \<Rightarrow> string \<Rightarrow> (string \<times> nat) option" where
  "match_tid prev s =
     (let n = count_while secret_char (drop 4 s) in
      if startswith s ''tid='' \<and> n \<noteq> 0 then Some (''[redacted]'', 4 + n) else None)"

text \<open>The length of \<^verbatim>\<open>bearer\s+[^;&,\s"']+\<close>, case aside.\<close>

definition bearer_len :: "string \<Rightarrow> nat option" where
  "bearer_len s =
     (if startswith (py_lower s) ''bearer''
      then (let a = count_while py_isspace (drop 6 s); b = count_while secret_char (drop (6 + a) s)
            in if a = 0 \<or> b = 0 then None else Some (6 + a + b))
      else None)"

text \<open>\<^verbatim>\<open>(?i)authorization\s*[:=]\s*bearer\s+[^;&,\s"']+\<close>.\<close>

definition match_auth_bearer :: "char option \<Rightarrow> string \<Rightarrow> (string \<times> nat) option" where
  "match_auth_bearer prev s =
     (if \<not> startswith (py_lower s) ''authorization'' then None
      else (let a = 13 + count_while py_isspace (drop 13 s) in
        case drop a s of [] \<Rightarrow> None
        | c # r \<Rightarrow>
            if c \<noteq> CHR '':'' \<and> c \<noteq> CHR ''='' then None
            else (let b = count_while py_isspace r in
              case bearer_len (drop b r) of None \<Rightarrow> None | Some n \<Rightarrow> Some (''[redacted-header]'', a + 1 + b + n))))"

text \<open>\<^verbatim>\<open>(?i)\bauthorization\b\<close> and \<^verbatim>\<open>(?i)\bbearer\s+[^;&,\s"']+\<close>.\<close>

definition match_auth_word :: "char option \<Rightarrow> string \<Rightarrow> (string \<times> nat) option" where
  "match_auth_word prev s =
     (if \<not> is_word_at prev \<and> startswith (py_lower s) ''authorization''
         \<and> (case drop 13 s of [] \<Rightarrow> True | c # r \<Rightarrow> \<not> is_word c)
      then Some (''[redacted-header]'', 13) else None)"

definition match_bearer :: "char option \<Rightarrow> string \<Rightarrow> (string \<times> nat) option" where
  "match_bearer prev s =
     (if is_word_at prev then None
      else case bearer_len s of None \<Rightarrow> None | Some n \<Rightarrow> Some (''Bearer [redacted]'', n))"

text \<open>\<^verbatim>\<open>s.replace(secret, "[redacted]")\<close> for a secret that is not empty.\<close>

definition match_secret :: "string \<Rightarrow> char option \<Rightarrow> string \<Rightarrow> (string \<times> nat) option" where
  "match_secret secret prev s = (if startswith s secret then Some (''[redacted]'', length secret) else None)"

definition redact_extra :: "string \<Rightarrow> string \<Rightarrow> string" where
  "redact_extra secret text = (if secret = [] then text else re_sub (match_secret secret) None text)"

definition SECRET_PATTERNS :: "(char option \<Rightarrow> string \<Rightarrow> (string \<times> nat) option) list" where
  "SECRET_PATTERNS = [match_userinfo, match_gh_token, match_tid, match_auth_bearer, match_auth_word, match_bearer]"

definition redact_copilot_secrets :: "string \<Rightarrow> string list \<Rightarrow> string" where
  "redact_copilot_secrets text extra =
     fold (\<lambda>m out. re_sub m None out) SECRET_PATTERNS (fold redact_extra extra text)"

section \<open>The internal token\<close>

definition COPILOT_PLUGIN_HEADERS :: environ where
  "COPILOT_PLUGIN_HEADERS =
     [(''User-Agent'', ''GitHubCopilotChat/0.41.0''), (''Editor-Version'', ''vscode/1.133.0''),
      (''Editor-Plugin-Version'', ''copilot-chat/0.41.0''), (''Copilot-Integration-Id'', ''vscode-chat'')]"

definition TOKEN_REFRESH_MARGIN_SECONDS :: int where
  "TOKEN_REFRESH_MARGIN_SECONDS = 300"

record internal_token =
  it_token :: string
  it_expires_at :: int
  it_api_base_url :: string

text \<open>The settings the exchange reads.\<close>

record copilot_settings =
  cs_github_api_base_url :: string
  cs_api_base_url :: string

datatype auth_error =
    CopilotCredentialMissing string
  | CopilotTokenExchangeError string
  | OtherError string

definition build_copilot_token_exchange_headers :: "string \<Rightarrow> environ" where
  "build_copilot_token_exchange_headers credential =
     fold (\<lambda>(k, v) h. AList.update k v h) COPILOT_PLUGIN_HEADERS
       [(''Accept'', ''application/json''), (''Authorization'', ''Bearer '' @ credential)]"

definition copilot_token_exchange_url :: "copilot_settings \<Rightarrow> string" where
  "copilot_token_exchange_url st = rstrip_chars ''/'' (cs_github_api_base_url st) @ ''/copilot_internal/v2/token''"

text \<open>\<^verbatim>\<open>re.search(r"(?:^|[;&,\s])proxy-ep=([^;&,\s]+)", token)\<close>: the group.\<close>

definition ep_sep :: "char \<Rightarrow> bool" where
  "ep_sep c = (c \<in> set '';&,'' \<or> py_isspace c)"

fun search_proxy_ep :: "bool \<Rightarrow> string \<Rightarrow> string option" where
  "search_proxy_ep boundary [] = None"
| "search_proxy_ep boundary (c # s) =
     (let v = takeWhile (\<lambda>x. \<not> ep_sep x) (drop 9 (c # s)) in
      if boundary \<and> startswith (c # s) ''proxy-ep='' \<and> v \<noteq> [] then Some v else search_proxy_ep (ep_sep c) s)"

text \<open>The outer sum is the \<^verbatim>\<open>ValueError\<close> of \<^verbatim>\<open>urlparse\<close>.\<close>

definition parse_copilot_api_base_url_from_token :: "string \<Rightarrow> auth_error + string option" where
  "parse_copilot_api_base_url_from_token token =
     (case search_proxy_ep True token of None \<Rightarrow> Inr None
      | Some g \<Rightarrow>
          (let raw = unquote (py_strip g) in
           case urlsplit raw of None \<Rightarrow> Inl (OtherError (urlsplit_error raw))
           | Some u \<Rightarrow>
               (let host = py_strip (if su_netloc u \<noteq> [] then su_netloc u else takeWhile (\<lambda>c. c \<noteq> CHR ''/'') (params_path u));
                    host' = (if startswith host ''proxy.'' then ''api.'' @ drop 6 host else host)
                in Inr (if host = [] then None else Some (''https://'' @ rstrip_chars ''/'' host')))))"

text \<open>\<^verbatim>\<open>int(value)\<close> on a JSON value.\<close>

fun py_int :: "jval \<Rightarrow> py_error + int" where
  "py_int (JInt i) = Inr i"
| "py_int (JBool b) = Inr (if b then 1 else 0)"
| "py_int (JFloat f) = (case py_float (JFloat f) of Inl e \<Rightarrow> Inl e | Inr x \<Rightarrow> int_of_float x)"
| "py_int (JStr s) = (case parse_int s of None \<Rightarrow> Inl ValueError | Some i \<Rightarrow> Inr i)"
| "py_int _ = Inl TypeError"

text \<open>What a request came to: an exception with its text, or a status with the body's JSON (if it is any).\<close>

datatype http_answer = HttpFailed string | HttpAnswer int "jval option"

definition token_of_payload :: "copilot_settings \<Rightarrow> jval \<Rightarrow> auth_error + internal_token" where
  "token_of_payload st payload =
     (case payload of
        JObj d \<Rightarrow>
          (let token = copilot_clean (jget d ''token'') in
           case py_int (jget d ''expires_at'') of
             Inl e \<Rightarrow> Inl (CopilotTokenExchangeError ''copilot token exchange returned invalid expiry'')
           | Inr expires_at \<Rightarrow>
               if token = [] \<or> expires_at \<le> 0 then Inl (CopilotTokenExchangeError ''copilot token exchange returned invalid token'')
               else (case parse_copilot_api_base_url_from_token token of Inl e \<Rightarrow> Inl e
                     | Inr base \<Rightarrow> Inr \<lparr>it_token = token, it_expires_at = expires_at,
                         it_api_base_url = (case base of Some b \<Rightarrow> b | None \<Rightarrow> cs_api_base_url st)\<rparr>))
      | _ \<Rightarrow> Inl (CopilotTokenExchangeError ''copilot token exchange returned invalid response''))"

definition exchange_copilot_internal_token ::
    "copilot_settings \<Rightarrow> environ \<Rightarrow> environ \<Rightarrow> source_credential \<Rightarrow> http_answer \<Rightarrow> auth_error + internal_token" where
  "exchange_copilot_internal_token st runtime_env process_env c answer =
     (case outbound_proxy_config_for_url runtime_env process_env (copilot_token_exchange_url st) of
        None \<Rightarrow> Inl (OtherError (urlsplit_error (copilot_token_exchange_url st)))
      | Some proxy \<Rightarrow>
          (case answer of
             HttpFailed text \<Rightarrow> Inl (CopilotTokenExchangeError (redact_copilot_secrets text
               (sc_credential c # (case oc_proxy_url proxy of Some u \<Rightarrow> if u = [] then [] else [u] | None \<Rightarrow> []))))
           | HttpAnswer status body \<Rightarrow>
               if status < 200 \<or> 300 \<le> status
               then Inl (CopilotTokenExchangeError (''copilot token exchange failed with status '' @ int_text status))
               else (case body of
                  None \<Rightarrow> Inl (CopilotTokenExchangeError ''copilot token exchange returned invalid json'')
                | Some payload \<Rightarrow> token_of_payload st payload)))"

section \<open>The token cache\<close>

record token_manager =
  tm_cached :: "internal_token option"
  tm_fingerprint :: "string option"

definition new_token_manager :: token_manager where
  "new_token_manager = \<lparr>tm_cached = None, tm_fingerprint = None\<rparr>"

definition credential_fingerprint :: "string \<Rightarrow> string" where
  "credential_fingerprint credential = sha256_of credential"

text \<open>\<open>now\<close> is \<^verbatim>\<open>int(time.time())\<close>.\<close>

definition cache_valid :: "source_credential \<Rightarrow> int \<Rightarrow> token_manager \<Rightarrow> bool" where
  "cache_valid c now m =
     (case tm_cached m of None \<Rightarrow> False
      | Some t \<Rightarrow> tm_fingerprint m = Some (credential_fingerprint (sc_credential c))
                  \<and> it_expires_at t - now \<ge> TOKEN_REFRESH_MARGIN_SECONDS)"

definition missing_credential :: auth_error where
  "missing_credential = CopilotCredentialMissing ''copilot credential is not configured''"

text \<open>\<open>get_token\<close> up to the lock: a result, or \<^verbatim>\<open>None\<close> when it goes on to take the lock; then what it does
  under the lock. Other requests run between the two and while the exchange is awaited, but only read.\<close>

definition get_token_fast :: "jfile option \<Rightarrow> int \<Rightarrow> token_manager \<Rightarrow> (auth_error + internal_token) option" where
  "get_token_fast file now m =
     (case load_credential file of None \<Rightarrow> Some (Inl missing_credential)
      | Some c \<Rightarrow> if cache_valid c now m then map_option Inr (tm_cached m) else None)"

definition get_token_locked ::
    "copilot_settings \<Rightarrow> environ \<Rightarrow> environ \<Rightarrow> jfile option \<Rightarrow> int \<Rightarrow> http_answer \<Rightarrow> token_manager
     \<Rightarrow> (auth_error + internal_token) \<times> token_manager" where
  "get_token_locked st runtime_env process_env file now answer m =
     (case load_credential file of
        None \<Rightarrow> (Inl missing_credential, new_token_manager)
      | Some c \<Rightarrow>
          (case (cache_valid c now m, tm_cached m) of
             (True, Some t) \<Rightarrow> (Inr t, m)
           | _ \<Rightarrow>
               (case exchange_copilot_internal_token st runtime_env process_env c answer of
                  Inl e \<Rightarrow> (Inl e, m)
                | Inr t \<Rightarrow> (Inr t, \<lparr>tm_cached = Some t,
                                   tm_fingerprint = Some (credential_fingerprint (sc_credential c))\<rparr>))))"

definition get_token ::
    "copilot_settings \<Rightarrow> environ \<Rightarrow> environ \<Rightarrow> jfile option \<Rightarrow> int \<Rightarrow> http_answer \<Rightarrow> token_manager
     \<Rightarrow> (auth_error + internal_token) \<times> token_manager" where
  "get_token st runtime_env process_env file now answer m =
     (case get_token_fast file now m of Some r \<Rightarrow> (r, m)
      | None \<Rightarrow> get_token_locked st runtime_env process_env file now answer m)"

definition token_status_snapshot :: "jfile option \<Rightarrow> int \<Rightarrow> token_manager \<Rightarrow> (string \<times> bool) list" where
  "token_status_snapshot file now m =
     (let present = load_credential file \<noteq> None;
          cached = (\<lambda>p. case tm_cached m of None \<Rightarrow> False | Some t \<Rightarrow> p (it_expires_at t)) in
      [(''enabled'', present), (''credential_present'', present), (''token_cached'', cached (\<lambda>e. e > now)),
       (''expires_at_present'', cached (\<lambda>e. e > 0))])"

section \<open>Whose token is used\<close>

text \<open>A run of the manager: requests on the fast path and under the lock, interleaved in any order, with the
  file and the answers as they come. The exchanges of a run pair each token with the credential it was given
  for.\<close>

datatype token_op = FastPath "jfile option" int | LockedPath "jfile option" int http_answer

fun token_op_result :: "copilot_settings \<Rightarrow> environ \<Rightarrow> environ \<Rightarrow> token_op \<Rightarrow> token_manager
    \<Rightarrow> (auth_error + internal_token) option \<times> token_manager" where
  "token_op_result st renv penv (FastPath file now) m = (get_token_fast file now m, m)"
| "token_op_result st renv penv (LockedPath file now answer) m =
     (let (r, m') = get_token_locked st renv penv file now answer m in (Some r, m'))"

fun op_exchange :: "copilot_settings \<Rightarrow> environ \<Rightarrow> environ \<Rightarrow> token_op \<Rightarrow> (string \<times> internal_token) list" where
  "op_exchange st renv penv (FastPath file now) = []"
| "op_exchange st renv penv (LockedPath file now answer) =
     (case load_credential file of None \<Rightarrow> []
      | Some c \<Rightarrow> (case exchange_copilot_internal_token st renv penv c answer of
          Inl e \<Rightarrow> [] | Inr t \<Rightarrow> [(sc_credential c, t)]))"

definition token_run :: "copilot_settings \<Rightarrow> environ \<Rightarrow> environ \<Rightarrow> token_op list \<Rightarrow> token_manager" where
  "token_run st renv penv ops = fold (\<lambda>x m. snd (token_op_result st renv penv x m)) ops new_token_manager"

definition op_file :: "token_op \<Rightarrow> jfile option" where
  "op_file x = (case x of FastPath f n \<Rightarrow> f | LockedPath f n a \<Rightarrow> f)"

definition op_now :: "token_op \<Rightarrow> int" where
  "op_now x = (case x of FastPath f n \<Rightarrow> n | LockedPath f n a \<Rightarrow> n)"

definition cached_from :: "(string \<times> internal_token) list \<Rightarrow> token_manager \<Rightarrow> bool" where
  "cached_from xs m = (case tm_cached m of None \<Rightarrow> True
     | Some t \<Rightarrow> \<exists>c. (c, t) \<in> set xs \<and> tm_fingerprint m = Some (credential_fingerprint c))"

lemma cached_from_mono: "cached_from xs m \<Longrightarrow> set xs \<subseteq> set ys \<Longrightarrow> cached_from ys m"
  by (auto simp: cached_from_def split: option.splits)

lemma cached_from_step:
  "cached_from xs m \<Longrightarrow> cached_from (xs @ op_exchange st renv penv x) (snd (token_op_result st renv penv x m))"
proof (cases x)
  case (FastPath f n)
  then show "cached_from xs m \<Longrightarrow> ?thesis" by simp
next
  case (LockedPath f n a)
  assume "cached_from xs m"
  then have m: "cached_from (xs @ op_exchange st renv penv x) m" by (rule cached_from_mono) simp
  show ?thesis
  proof (cases "load_credential f")
    case None
    then show ?thesis using LockedPath by (simp add: get_token_locked_def cached_from_def new_token_manager_def)
  next
    case (Some c)
    show ?thesis
    proof (cases "exchange_copilot_internal_token st renv penv c a")
      case (Inl e)
      then show ?thesis using LockedPath Some m
        by (auto simp: get_token_locked_def case_prod_beta split: option.split bool.split)
    next
      case (Inr t)
      then show ?thesis using LockedPath Some m
        by (auto simp: get_token_locked_def case_prod_beta cached_from_def split: option.split bool.split)
    qed
  qed
qed

lemma cached_from_run: "cached_from (concat (List.map (op_exchange st renv penv) ops)) (token_run st renv penv ops)"
proof (induction ops rule: rev_induct)
  case Nil
  show ?case by (simp add: token_run_def cached_from_def new_token_manager_def)
next
  case (snoc x ops)
  then show ?case using cached_from_step by (simp add: token_run_def)
qed

lemma cached_result:
  assumes "cached_from xs m" and "load_credential file = Some c" and "cache_valid c now m" and "tm_cached m = Some t"
  shows "(\<exists>d. (d, t) \<in> set xs \<and> credential_fingerprint d = credential_fingerprint (sc_credential c))
         \<and> it_expires_at t - now \<ge> TOKEN_REFRESH_MARGIN_SECONDS"
  using assms by (auto simp: cached_from_def cache_valid_def)

text \<open>C10: In any interleaving of requests, a token is handed out only while a credential is on file, it was
  obtained by an exchange of this run for a credential with the same fingerprint as the one on file, and it
  either was exchanged by this very request or has at least the margin of seconds left.\<close>

theorem token_is_for_credential:
  assumes "fst (token_op_result st renv penv x (token_run st renv penv ops)) = Some (Inr t)"
  shows "\<exists>c d. load_credential (op_file x) = Some c
           \<and> (d, t) \<in> set (concat (List.map (op_exchange st renv penv) (ops @ [x])))
           \<and> credential_fingerprint d = credential_fingerprint (sc_credential c)
           \<and> ((sc_credential c, t) \<in> set (op_exchange st renv penv x)
              \<or> it_expires_at t - op_now x \<ge> TOKEN_REFRESH_MARGIN_SECONDS)"
proof -
  let ?m = "token_run st renv penv ops" and ?xs = "concat (List.map (op_exchange st renv penv) ops)"
  have m: "cached_from ?xs ?m" by (rule cached_from_run)
  obtain c where c: "load_credential (op_file x) = Some c"
    using assms by (cases x) (auto simp: get_token_fast_def get_token_locked_def op_file_def case_prod_beta split: option.splits)
  have "(cache_valid c (op_now x) ?m \<and> tm_cached ?m = Some t) \<or> (sc_credential c, t) \<in> set (op_exchange st renv penv x)"
  proof (cases x)
    case (FastPath f n)
    then show ?thesis using assms c
      by (auto simp: get_token_fast_def op_file_def op_now_def split: if_splits)
  next
    case (LockedPath f n a)
    then show ?thesis using assms c
      by (auto simp: get_token_locked_def op_file_def op_now_def case_prod_beta cache_valid_def
          split: option.splits bool.splits sum.splits if_splits)
  qed
  then show ?thesis
  proof
    assume v: "cache_valid c (op_now x) ?m \<and> tm_cached ?m = Some t"
    with cached_result [OF m c] show ?thesis using c by (fastforce simp: concat_append)
  next
    assume "(sc_credential c, t) \<in> set (op_exchange st renv penv x)"
    then show ?thesis using c by (intro exI [of _ c] exI [of _ "sc_credential c"]) auto
  qed
qed

definition sample_credential_file :: "jfile option" where
  "sample_credential_file = Some (JsonText (JObj [(''credential'', JStr ''ghu_x'')]))"

definition sample_token_answer :: http_answer where
  "sample_token_answer = HttpAnswer 200 (Some (JObj [(''token'', JStr ''t''), (''expires_at'', JInt 5000)]))"

definition sample_settings :: copilot_settings where
  "sample_settings = \<lparr>cs_github_api_base_url = ''h'', cs_api_base_url = ''a''\<rparr>"

lemma sample_load:
  "load_credential sample_credential_file = Some \<lparr>sc_credential = ''ghu_x'', sc_source = ''unknown'', sc_enterprise_url = []\<rparr>"
  by code_simp

lemma sample_payload:
  "token_of_payload sample_settings (JObj [(''token'', JStr ''t''), (''expires_at'', JInt 5000)]) =
     Inr \<lparr>it_token = ''t'', it_expires_at = 5000, it_api_base_url = ''a''\<rparr>"
  by code_simp

lemma sample_direct:
  "outbound_proxy_config_for_url [(''EFP_LLM_PROXY'', ''none'')] [] url = Some direct_connection"
proof -
  have "first_proxy_value [(''EFP_LLM_PROXY'', ''none'')] [] [''EFP_LLM_PROXY''] = Some ''none''" by code_simp
  moreover have "py_lower ''none'' \<in> set DIRECT_WORDS" by code_simp
  ultimately show ?thesis by (simp add: outbound_proxy_config_for_url_def llm_proxy_config_def)
qed

lemma sample_exchange:
  "fst (token_op_result sample_settings [(''EFP_LLM_PROXY'', ''none'')] [] (LockedPath sample_credential_file 1000 sample_token_answer)
         (token_run sample_settings [(''EFP_LLM_PROXY'', ''none'')] [] [])) =
     Some (Inr \<lparr>it_token = ''t'', it_expires_at = 5000, it_api_base_url = ''a''\<rparr>)"
  by (simp add: token_run_def get_token_locked_def sample_load cache_valid_def new_token_manager_def
      exchange_copilot_internal_token_def sample_direct sample_token_answer_def sample_payload)

theorem token_is_for_credential_witness:
  "\<exists>c. load_credential sample_credential_file = Some c"
  using token_is_for_credential [OF sample_exchange] by (auto simp: op_file_def)

end
