(* ===== verification/CopilotCatalog.thy ===== *)
theory CopilotCatalog
  imports PyFloat
begin

text \<open>
  The constants and pure helpers of Copilot's automatic model selection (\<^verbatim>\<open>copilot_auto_catalog.py\<close>): model ids
  and tiers, context limits, when a picked model is refused, and the clamping of a reasoning effort, which is
  proved to choose the nearest listed effort in the order of the ladder.
\<close>

section \<open>Constants\<close>

definition AUTO_MODEL_ID :: string where
  "AUTO_MODEL_ID = ''auto''"

definition DEFAULT_AUTO_TIER :: string where
  "DEFAULT_AUTO_TIER = ''balance''"

definition COPILOT_AUTO_TIERS :: "(string \<times> string) list" where
  "COPILOT_AUTO_TIERS =
     [(AUTO_MODEL_ID, DEFAULT_AUTO_TIER), (''auto-efficiency'', ''efficiency''), (''auto-intelligence'', ''intelligence'')]"

definition DEFAULT_AUTO_FALLBACK_MODEL :: string where
  "DEFAULT_AUTO_FALLBACK_MODEL = ''gpt-6-sol''"

definition COPILOT_LONG_CONTEXT_ENV :: string where
  "COPILOT_LONG_CONTEXT_ENV = ''EFP_OPENCODE_COPILOT_LONG_CONTEXT''"

definition COPILOT_OUTPUT_TOKENS :: int where
  "COPILOT_OUTPUT_TOKENS = 128000"

definition COPILOT_DEFAULT_TIER_PROMPT_TOKENS :: int where
  "COPILOT_DEFAULT_TIER_PROMPT_TOKENS = 272000"

definition COPILOT_DEFAULT_TIER_CONTEXT_TOKENS :: int where
  "COPILOT_DEFAULT_TIER_CONTEXT_TOKENS = COPILOT_DEFAULT_TIER_PROMPT_TOKENS + COPILOT_OUTPUT_TOKENS"

text \<open>A model's context window and output cap.\<close>

definition COPILOT_LONG_CONTEXT_MODEL_LIMITS :: "(string \<times> int \<times> int) list" where
  "COPILOT_LONG_CONTEXT_MODEL_LIMITS =
     [(''gpt-6-astra'', 1050000, COPILOT_OUTPUT_TOKENS), (''gpt-6-luna'', 1000000, COPILOT_OUTPUT_TOKENS),
      (''gpt-6-sol'', 1000000, COPILOT_OUTPUT_TOKENS), (''gpt-6.1-sol'', 1050000, COPILOT_OUTPUT_TOKENS)]"

definition COPILOT_MODEL_LIMITS :: "(string \<times> int \<times> int) list" where
  "COPILOT_MODEL_LIMITS =
     List.map (\<lambda>(model, l). (model, COPILOT_DEFAULT_TIER_CONTEXT_TOKENS, COPILOT_OUTPUT_TOKENS)) COPILOT_LONG_CONTEXT_MODEL_LIMITS"

definition AUTO_MODEL_NAMES :: "(string \<times> string) list" where
  "AUTO_MODEL_NAMES =
     [(AUTO_MODEL_ID, ''Auto (Balance)''), (''auto-efficiency'', ''Auto (Efficiency)''),
      (''auto-intelligence'', ''Auto (Intelligence)'')]"

definition copilot_long_context_enabled :: "(string \<times> string) list \<Rightarrow> bool" where
  "copilot_long_context_enabled environ =
     (case map_of environ COPILOT_LONG_CONTEXT_ENV of None \<Rightarrow> False
      | Some raw \<Rightarrow> py_lower (py_strip raw) \<in> {''1'', ''true'', ''yes'', ''on''})"

text \<open>With the flag left out, the environment decides.\<close>

definition copilot_model_limits_table :: "(string \<times> string) list \<Rightarrow> bool option \<Rightarrow> (string \<times> int \<times> int) list" where
  "copilot_model_limits_table environ long_context =
     (if (case long_context of None \<Rightarrow> copilot_long_context_enabled environ | Some b \<Rightarrow> b)
      then COPILOT_LONG_CONTEXT_MODEL_LIMITS else COPILOT_MODEL_LIMITS)"

definition limit_payload :: "int \<times> int \<Rightarrow> jval" where
  "limit_payload l = JObj [(''context'', JInt (fst l)), (''output'', JInt (snd l))]"

definition copilot_auto_model_configs :: "(string \<times> string) list \<Rightarrow> bool option \<Rightarrow> jobj" where
  "copilot_auto_model_configs environ long_context =
     (let fallback = the (map_of (copilot_model_limits_table environ long_context) DEFAULT_AUTO_FALLBACK_MODEL) in
      List.map (\<lambda>(auto_id, name). (auto_id, JObj [(''name'', JStr name), (''limit'', limit_payload fallback)])) AUTO_MODEL_NAMES)"

definition REASONING_EFFORT_LADDER :: "string list" where
  "REASONING_EFFORT_LADDER = [''none'', ''low'', ''medium'', ''high'', ''xhigh'', ''max'']"

section \<open>Model ids\<close>

text \<open>The empty text stands for \<^verbatim>\<open>None\<close>.\<close>

definition normalize_model_id :: "jval \<Rightarrow> string" where
  "normalize_model_id v =
     (case v of
        JStr s \<Rightarrow>
          (let text = py_lower (py_strip s);
               text' = (if CHR ''/'' \<in> set text then tl (dropWhile (\<lambda>c. c \<noteq> CHR ''/'') text) else text)
           in join_with ''-'' (py_words text'))
      | _ \<Rightarrow> [])"

definition is_auto_model :: "jval \<Rightarrow> bool" where
  "is_auto_model v = (map_of COPILOT_AUTO_TIERS (normalize_model_id v) \<noteq> None)"

definition auto_tier_for :: "jval \<Rightarrow> string option" where
  "auto_tier_for v = (if normalize_model_id v = [] then None else map_of COPILOT_AUTO_TIERS (normalize_model_id v))"

section \<open>Context limits\<close>

record model_limits =
  ml_context :: int
  ml_prompt :: int
  ml_output :: int

definition positive_int_or_none :: "jval \<Rightarrow> int option" where
  "positive_int_or_none v =
     (case v of
        JInt i \<Rightarrow> if i < 1 then None else Some i
      | JFloat (Finite r t) \<Rightarrow> if of_int \<lfloor>r\<rfloor> = r \<and> \<not> \<lfloor>r\<rfloor> < 1 then Some \<lfloor>r\<rfloor> else None
      | _ \<Rightarrow> None)"

definition copilot_model_limits :: "jval \<Rightarrow> model_limits option" where
  "copilot_model_limits entry =
     (case jget (obj_or_empty (jget (obj_or_empty entry) ''capabilities'')) ''limits'' of
        JObj limits \<Rightarrow>
          (case positive_int_or_none (jget limits ''max_context_window_tokens'') of
             None \<Rightarrow> None
           | Some window \<Rightarrow>
               (let output = positive_int_or_none (jget limits ''max_output_tokens'');
                    from_window = (case output of Some v \<Rightarrow> if v < window then window - v else window * 3 div 4
                                   | None \<Rightarrow> window * 3 div 4);
                    prompt = (case positive_int_or_none (jget limits ''max_prompt_tokens'') of
                                Some p \<Rightarrow> if p > window then from_window else p | None \<Rightarrow> from_window);
                    output' = (case output of Some v \<Rightarrow> if v > window then min 128000 (window div 4) else v
                               | None \<Rightarrow> min 128000 (window div 4))
                in Some \<lparr>ml_context = window, ml_prompt = max 1 prompt, ml_output = max 1 output'\<rparr>))
      | _ \<Rightarrow> None)"

definition static_model_limits :: "(string \<times> string) list \<Rightarrow> jval \<Rightarrow> bool option \<Rightarrow> model_limits option" where
  "static_model_limits environ model long_context =
     (if normalize_model_id model = [] then None
      else map_option (\<lambda>(context, output). \<lparr>ml_context = context, ml_prompt = context - output, ml_output = output\<rparr>)
             (map_of (copilot_model_limits_table environ long_context) (normalize_model_id model)))"

fun preferred_model_limits :: "model_limits option list \<Rightarrow> model_limits option" where
  "preferred_model_limits [] = None"
| "preferred_model_limits (Some l # rest) = Some l"
| "preferred_model_limits (None # rest) = preferred_model_limits rest"

text \<open>Whatever the gateway states, the limits used are positive and the prompt cap lies within the window.\<close>

lemma positive_int_pos: "positive_int_or_none v = Some i \<Longrightarrow> 1 \<le> i"
  by (auto simp: positive_int_or_none_def split: jval.splits pyfloat.splits if_splits)

lemma copilot_model_limits_bounds:
  assumes "copilot_model_limits entry = Some l"
  shows "1 \<le> ml_prompt l \<and> ml_prompt l \<le> ml_context l \<and> 1 \<le> ml_output l \<and> ml_output l \<le> ml_context l"
proof -
  obtain limits window where w: "positive_int_or_none (jget limits ''max_context_window_tokens'') = Some window"
    and l: "l = \<lparr>ml_context = window,
        ml_prompt = max 1 (let from_window = (case positive_int_or_none (jget limits ''max_output_tokens'') of
                Some v \<Rightarrow> if v < window then window - v else window * 3 div 4 | None \<Rightarrow> window * 3 div 4)
            in case positive_int_or_none (jget limits ''max_prompt_tokens'') of
                 Some p \<Rightarrow> if p > window then from_window else p | None \<Rightarrow> from_window),
        ml_output = max 1 (case positive_int_or_none (jget limits ''max_output_tokens'') of
                Some v \<Rightarrow> if v > window then min 128000 (window div 4) else v | None \<Rightarrow> min 128000 (window div 4))\<rparr>"
    using assms by (auto simp: copilot_model_limits_def Let_def split: jval.splits option.splits)
  have "1 \<le> window" using w by (rule positive_int_pos)
  then show ?thesis unfolding l Let_def
    by (auto dest!: positive_int_pos split: option.split)
qed

section \<open>Refusals\<close>

definition served_on_responses :: "jval \<Rightarrow> bool" where
  "served_on_responses entry =
     (case entry of JStr s \<Rightarrow> startswith (dropWhile (\<lambda>c. c \<in> set ''ws:'') (py_strip s)) ''/responses'' | _ \<Rightarrow> False)"

definition source_refusal :: "string \<Rightarrow> jobj \<Rightarrow> string option" where
  "source_refusal model source =
     (let capabilities = obj_or_empty (jget source ''capabilities'');
          kind = (case jget capabilities ''type'' of JStr s \<Rightarrow> py_strip s | _ \<Rightarrow> []);
          endpoints = (case jget source ''supported_endpoints'' of JList xs \<Rightarrow> xs | _ \<Rightarrow> [])
      in if kind \<noteq> [] \<and> kind \<noteq> ''chat''
         then Some (''selected model '' @ model @ '' is a '' @ kind @ '' model, not a chat model'')
         else if endpoints \<noteq> [] \<and> \<not> list_ex served_on_responses endpoints
         then Some (''selected model '' @ model @ '' is not served on /responses (endpoints: ''
                @ join_with '', '' (List.map py_str endpoints) @ '')'')
         else if jget (obj_or_empty (jget capabilities ''supports'')) ''tool_calls'' = JBool False
         then Some (''selected model '' @ model @ '' does not support tool calls'')
         else None)"

fun auto_pick_refusal :: "string \<Rightarrow> jval list \<Rightarrow> string option" where
  "auto_pick_refusal model [] = None"
| "auto_pick_refusal model (JObj source # rest) =
     (case source_refusal model source of Some r \<Rightarrow> Some r | None \<Rightarrow> auto_pick_refusal model rest)"
| "auto_pick_refusal model (other # rest) = auto_pick_refusal model rest"

section \<open>Reasoning efforts\<close>

definition listed_efforts :: "jval list \<Rightarrow> string list" where
  "listed_efforts efforts =
     concat (List.map (\<lambda>e. case e of JStr s \<Rightarrow> if py_strip s = [] then [] else [py_lower (py_strip s)] | _ \<Rightarrow> []) efforts)"

text \<open>The empty list stands for \<^verbatim>\<open>None\<close>: no source lists an effort.\<close>

fun allowed_reasoning_efforts :: "jval list \<Rightarrow> string list" where
  "allowed_reasoning_efforts [] = []"
| "allowed_reasoning_efforts (source # rest) =
     (case jget (obj_or_empty (jget (obj_or_empty (jget (obj_or_empty source) ''capabilities'')) ''supports'')) ''reasoning_effort'' of
        JList efforts \<Rightarrow> if listed_efforts efforts \<noteq> [] then listed_efforts efforts else allowed_reasoning_efforts rest
      | _ \<Rightarrow> allowed_reasoning_efforts rest)"

definition clamp_reasoning_effort :: "jval \<Rightarrow> string list \<Rightarrow> jval" where
  "clamp_reasoning_effort configured allowed =
     (case configured of
        JStr s \<Rightarrow>
          (let effort = py_lower (py_strip s) in
           if allowed = [] \<or> effort \<in> set allowed \<or> effort \<notin> set REASONING_EFFORT_LADDER then configured
           else (case find (\<lambda>c. c \<in> set allowed \<and> c \<noteq> ''none'') (rev (takeWhile (\<lambda>e. e \<noteq> effort) REASONING_EFFORT_LADDER)) of
                   Some c \<Rightarrow> JStr c
                 | None \<Rightarrow> (case find (\<lambda>c. c \<in> set allowed) (tl (dropWhile (\<lambda>e. e \<noteq> effort) REASONING_EFFORT_LADDER)) of
                     Some c \<Rightarrow> JStr c | None \<Rightarrow> configured)))
      | _ \<Rightarrow> configured)"

section \<open>The ladder as an order\<close>

datatype effort = E_none | E_low | E_medium | E_high | E_xhigh | E_max

fun effort_rank :: "effort \<Rightarrow> nat" where
  "effort_rank E_none = 0"
| "effort_rank E_low = 1"
| "effort_rank E_medium = 2"
| "effort_rank E_high = 3"
| "effort_rank E_xhigh = 4"
| "effort_rank E_max = 5"

fun effort_name :: "effort \<Rightarrow> string" where
  "effort_name E_none = ''none''"
| "effort_name E_low = ''low''"
| "effort_name E_medium = ''medium''"
| "effort_name E_high = ''high''"
| "effort_name E_xhigh = ''xhigh''"
| "effort_name E_max = ''max''"

lemma effort_rank_inj [simp]: "effort_rank a = effort_rank b \<longleftrightarrow> a = b"
  by (cases a; cases b) simp_all

lemma effort_name_inj [simp]: "effort_name a = effort_name b \<longleftrightarrow> a = b"
  by (cases a; cases b) simp_all

instantiation effort :: linorder
begin

definition less_eq_effort :: "effort \<Rightarrow> effort \<Rightarrow> bool" where
  "less_eq_effort a b = (effort_rank a \<le> effort_rank b)"

definition less_effort :: "effort \<Rightarrow> effort \<Rightarrow> bool" where
  "less_effort a b = (effort_rank a < effort_rank b)"

instance
  by standard (auto simp: less_eq_effort_def less_effort_def)

end

definition all_efforts :: "effort list" where
  "all_efforts = [E_none, E_low, E_medium, E_high, E_xhigh, E_max]"

lemma ladder_names: "REASONING_EFFORT_LADDER = List.map effort_name all_efforts"
  by (simp add: REASONING_EFFORT_LADDER_def all_efforts_def)

lemma all_efforts_sorted: "sorted_wrt (<) all_efforts"
  by (simp add: all_efforts_def less_effort_def)

lemma set_all_efforts: "set all_efforts = UNIV"
proof -
  have "e \<in> set all_efforts" for e by (cases e) (simp_all add: all_efforts_def)
  then show ?thesis by blast
qed

lemma finite_effort [simp]: "finite (A :: effort set)"
  by (metis List.finite_set finite_subset set_all_efforts subset_UNIV)

text \<open>The first match along an ascending (descending) list is the least (greatest) one.\<close>

lemma find_ascending:
  "sorted_wrt (<) (xs :: effort list) \<Longrightarrow>
     find P xs = (if {x \<in> set xs. P x} = {} then None else Some (Min {x \<in> set xs. P x}))"
proof (induction xs)
  case Nil
  show ?case by simp
next
  case (Cons a xs)
  show ?case
  proof (cases "P a")
    case True
    then have "Min {x \<in> set (a # xs). P x} = a" using Cons.prems by (intro Min_eqI) auto
    then show ?thesis using True by auto
  next
    case False
    then have "{x \<in> set (a # xs). P x} = {x \<in> set xs. P x}" by auto
    then show ?thesis using Cons False by simp
  qed
qed

lemma find_descending:
  "sorted_wrt (>) (xs :: effort list) \<Longrightarrow>
     find P xs = (if {x \<in> set xs. P x} = {} then None else Some (Max {x \<in> set xs. P x}))"
proof (induction xs)
  case Nil
  show ?case by simp
next
  case (Cons a xs)
  show ?case
  proof (cases "P a")
    case True
    then have "Max {x \<in> set (a # xs). P x} = a" using Cons.prems by (intro Max_eqI) auto
    then show ?thesis using True by auto
  next
    case False
    then have "{x \<in> set (a # xs). P x} = {x \<in> set xs. P x}" by auto
    then show ?thesis using Cons False by simp
  qed
qed

lemma find_map: "find P (List.map f xs) = map_option f (find (\<lambda>x. P (f x)) xs)"
  by (induction xs) auto

text \<open>What lies below and above an effort on the ladder.\<close>

lemma split_ladder:
  "set (takeWhile (\<lambda>x. x \<noteq> e) all_efforts) = {x. x < e} \<and> set (tl (dropWhile (\<lambda>x. x \<noteq> e) all_efforts)) = {x. e < x}"
proof -
  have "x \<in> set (takeWhile (\<lambda>x. x \<noteq> e) all_efforts) \<longleftrightarrow> x < e"
    "x \<in> set (tl (dropWhile (\<lambda>x. x \<noteq> e) all_efforts)) \<longleftrightarrow> e < x" for x
    by (cases e; cases x; simp add: all_efforts_def less_effort_def)+
  then show ?thesis by blast
qed

definition nearest_effort :: "effort \<Rightarrow> effort set \<Rightarrow> effort option" where
  "nearest_effort e A =
     (let below = {a \<in> A. a < e \<and> a \<noteq> E_none}; above = {a \<in> A. e < a} in
      if below \<noteq> {} then Some (Max below) else if above \<noteq> {} then Some (Min above) else None)"

definition allowed_set :: "string list \<Rightarrow> effort set" where
  "allowed_set allowed = {a. effort_name a \<in> set allowed}"

lemma find_below:
  "find (\<lambda>c. c \<in> set allowed \<and> c \<noteq> ''none'') (rev (takeWhile (\<lambda>x. x \<noteq> effort_name e) REASONING_EFFORT_LADDER)) =
     (let B = {a \<in> allowed_set allowed. a < e \<and> a \<noteq> E_none} in if B = {} then None else Some (effort_name (Max B)))"
proof -
  have tw: "takeWhile (\<lambda>x. x \<noteq> effort_name e) REASONING_EFFORT_LADDER = List.map effort_name (takeWhile (\<lambda>x. x \<noteq> e) all_efforts)"
    by (simp add: ladder_names takeWhile_map o_def)
  have n: "effort_name x \<noteq> ''none'' \<longleftrightarrow> x \<noteq> E_none" for x using effort_name_inj [of x E_none] by simp
  have "sorted_wrt (>) (rev (takeWhile (\<lambda>x. x \<noteq> e) all_efforts))"
    using all_efforts_sorted sorted_wrt_rev sorted_wrt_takeWhile by (simp add: sorted_wrt_rev sorted_wrt_takeWhile)
  from find_descending [OF this, of "\<lambda>x. effort_name x \<in> set allowed \<and> x \<noteq> E_none"]
  have "find (\<lambda>x. effort_name x \<in> set allowed \<and> x \<noteq> E_none) (rev (takeWhile (\<lambda>x. x \<noteq> e) all_efforts)) =
     (let B = {a \<in> allowed_set allowed. a < e \<and> a \<noteq> E_none} in if B = {} then None else Some (Max B))"
    using split_ladder [of e] by (simp add: allowed_set_def Let_def conj_commute conj_left_commute)
  then show ?thesis by (simp add: tw rev_map find_map n Let_def)
qed

lemma find_above:
  "find (\<lambda>c. c \<in> set allowed) (tl (dropWhile (\<lambda>x. x \<noteq> effort_name e) REASONING_EFFORT_LADDER)) =
     (let B = {a \<in> allowed_set allowed. e < a} in if B = {} then None else Some (effort_name (Min B)))"
proof -
  have dw: "tl (dropWhile (\<lambda>x. x \<noteq> effort_name e) REASONING_EFFORT_LADDER) =
      List.map effort_name (tl (dropWhile (\<lambda>x. x \<noteq> e) all_efforts))"
    by (simp add: ladder_names dropWhile_map o_def map_tl)
  have "sorted_wrt (<) (tl (dropWhile (\<lambda>x. x \<noteq> e) all_efforts))"
    using all_efforts_sorted by (cases e) (simp_all add: all_efforts_def)
  from find_ascending [OF this, of "\<lambda>x. effort_name x \<in> set allowed"]
  have "find (\<lambda>x. effort_name x \<in> set allowed) (tl (dropWhile (\<lambda>x. x \<noteq> e) all_efforts)) =
     (let B = {a \<in> allowed_set allowed. e < a} in if B = {} then None else Some (Min B))"
    using split_ladder [of e] by (simp add: allowed_set_def Let_def conj_commute)
  then show ?thesis by (simp add: dw find_map Let_def)
qed

text \<open>C32: A configured effort that is on the ladder and not among the listed ones is replaced by the greatest
  listed effort below it other than \<open>none\<close>, or else by the least listed effort above it; with no such effort
  listed it is sent as configured.\<close>

theorem clamp_is_nearest:
  assumes "py_lower (py_strip s) = effort_name e" and "e \<notin> allowed_set allowed" and "allowed \<noteq> []"
  shows "clamp_reasoning_effort (JStr s) allowed =
           (case nearest_effort e (allowed_set allowed) of Some a \<Rightarrow> JStr (effort_name a) | None \<Rightarrow> JStr s)"
proof -
  have "effort_name e \<in> set REASONING_EFFORT_LADDER" by (simp add: ladder_names set_all_efforts)
  moreover have "effort_name e \<notin> set allowed" using assms(2) by (simp add: allowed_set_def)
  ultimately show ?thesis using assms(1,3)
    by (simp add: clamp_reasoning_effort_def Let_def find_below find_above nearest_effort_def
        del: Collect_empty_eq empty_Collect_eq)
qed

lemma sample_effort: "py_lower (py_strip '' XHigh'') = effort_name E_xhigh"
  by code_simp

theorem clamp_is_nearest_witness:
  "clamp_reasoning_effort (JStr '' XHigh'') [''low'', ''high'', ''max''] = JStr ''high''"
proof -
  have a: "allowed_set [''low'', ''high'', ''max''] = {E_low, E_high, E_max}"
  proof -
    have "x \<in> allowed_set [''low'', ''high'', ''max''] \<longleftrightarrow> x \<in> {E_low, E_high, E_max}" for x
      by (cases x) (simp_all add: allowed_set_def)
    then show ?thesis by blast
  qed
  have b: "{x \<in> {E_low, E_high, E_max}. x < E_xhigh \<and> x \<noteq> E_none} = {E_low, E_high}"
    by (auto simp: less_effort_def)
  have "Max {E_low, E_high} = E_high" by (intro Max_eqI) (auto simp: less_eq_effort_def)
  then have "nearest_effort E_xhigh {E_low, E_high, E_max} = Some E_high" unfolding nearest_effort_def b Let_def by simp
  then show ?thesis using clamp_is_nearest [OF sample_effort, of "[''low'', ''high'', ''max'']"] by (simp add: a)
qed

end
