(* ===== verification/CopilotAuto.thy ===== *)
theory CopilotAuto
  imports CopilotAuth CopilotCatalog
begin

text \<open>
  Routing Copilot's \<open>auto\<close> requests (\<^verbatim>\<open>copilot_auto_session.py\<close>): reading the turn off a chat body, parsing the
  service's answers, the cache of decisions and of model catalogs, admission and fallback, and the rewriting
  of the body. The answers of the service and the two clocks are arguments; a routing runs under the manager's
  lock, so it is one step.
\<close>

section \<open>Data\<close>

definition AUTO_SESSION_REFRESH_MARGIN_SECONDS :: rat where
  "AUTO_SESSION_REFRESH_MARGIN_SECONDS = 300"

definition MODELS_CATALOG_TTL_SECONDS :: rat where
  "MODELS_CATALOG_TTL_SECONDS = 3600"

definition MODELS_CATALOG_RETRY_SECONDS :: rat where
  "MODELS_CATALOG_RETRY_SECONDS = 300"

definition MAX_CACHED_DECISIONS :: nat where
  "MAX_CACHED_DECISIONS = 64"

definition CHARS_PER_TOKEN :: int where
  "CHARS_PER_TOKEN = 4"

text \<open>The module's own error, and what a number outside the integers raises.\<close>

datatype auto_error = CopilotAutoSessionError string | Uncaught py_error

record auto_decision =
  ad_model :: string
  ad_session_token :: string
  ad_expires_at :: int
  ad_tier :: "string option"
  ad_metadata :: jobj
  ad_discounted_costs :: jobj

record auto_routing =
  ar_model :: string
  ar_session_token :: "string option"
  ar_fallback_reason :: "string option"
  ar_tier :: "string option"
  ar_discount :: jval
  ar_reasoning_efforts :: "string list"
  ar_limits :: "model_limits option"
  ar_expires_at :: "int option"

text \<open>\<open>now\<close> is \<^verbatim>\<open>time.time()\<close>.\<close>

definition routing_expires_within :: "auto_routing \<Rightarrow> rat \<Rightarrow> rat \<Rightarrow> bool" where
  "routing_expires_within r seconds now =
     (case ar_expires_at r of None \<Rightarrow> False | Some e \<Rightarrow> of_int e - now < seconds)"

record auto_turn =
  at_prompt :: string
  at_conversation_key :: string
  at_turn_index :: nat
  at_history_chars :: int
  at_has_image :: bool

section \<open>Parsing the answers\<close>

definition is_number :: "jval \<Rightarrow> bool" where
  "is_number v = (case v of JInt i \<Rightarrow> True | JFloat f \<Rightarrow> True | _ \<Rightarrow> False)"

definition not_positive :: "jval \<Rightarrow> bool" where
  "not_positive v = (case v of JInt i \<Rightarrow> i \<le> 0
     | JFloat (Finite r t) \<Rightarrow> r \<le> 0 | JFloat NegInf \<Rightarrow> True | _ \<Rightarrow> False)"

definition blank_text :: "jval \<Rightarrow> bool" where
  "blank_text v = (case v of JStr s \<Rightarrow> py_strip s = [] | _ \<Rightarrow> True)"

definition parse_auto_decision :: "jval \<Rightarrow> string option \<Rightarrow> auto_error + auto_decision" where
  "parse_auto_decision payload tier =
     (case payload of
        JObj d \<Rightarrow>
          (let session_token = jget d ''session_token''; expires_at = jget d ''expires_at'' in
           if blank_text session_token then Inl (CopilotAutoSessionError ''auto route returned no session_token'')
           else if \<not> is_number expires_at \<or> not_positive expires_at
           then Inl (CopilotAutoSessionError ''auto route returned an invalid expires_at'')
           else case jget d ''selected_model'' of
             JObj selected \<Rightarrow>
               if blank_text (jget selected ''id'')
               then Inl (CopilotAutoSessionError ''auto route returned a selected_model without an id'')
               else (case py_int expires_at of
                  Inl e \<Rightarrow> Inl (Uncaught e)
                | Inr n \<Rightarrow> Inr \<lparr>ad_model = py_lower (copilot_clean (jget selected ''id'')),
                     ad_session_token = copilot_clean session_token, ad_expires_at = n, ad_tier = tier,
                     ad_metadata = selected, ad_discounted_costs = obj_or_empty (jget d ''discounted_costs'')\<rparr>)
           | _ \<Rightarrow> Inl (CopilotAutoSessionError ''auto route returned no selected_model''))
      | _ \<Rightarrow> Inl (CopilotAutoSessionError ''auto route returned a non-object JSON response''))"

type_synonym catalog = "(string \<times> jval) list"

definition catalog_row :: "jval \<Rightarrow> catalog \<Rightarrow> catalog" where
  "catalog_row row cat =
     (case row of JObj d \<Rightarrow> if blank_text (jget d ''id'') then cat
                            else AList.update (py_lower (copilot_clean (jget d ''id''))) (JObj d) cat
      | _ \<Rightarrow> cat)"

definition parse_models_catalog :: "jval \<Rightarrow> auto_error + catalog" where
  "parse_models_catalog payload =
     (case jget (obj_or_empty payload) ''data'' of
        JList rows \<Rightarrow> Inr (fold catalog_row rows [])
      | _ \<Rightarrow> Inl (CopilotAutoSessionError ''models request returned no data list''))"

section \<open>The turn of a chat body\<close>

definition part_kind :: "jobj \<Rightarrow> string" where
  "part_kind d = py_lower (str_or_empty (jget d ''type''))"

definition part_texts :: "jval \<Rightarrow> string list" where
  "part_texts part =
     (case part of
        JStr s \<Rightarrow> [s]
      | JObj d \<Rightarrow> (case (part_kind d \<in> {''input_text'', ''text'', ''output_text''}, jget d ''text'') of
                     (True, JStr s) \<Rightarrow> [s] | _ \<Rightarrow> [])
      | _ \<Rightarrow> [])"

definition part_is_image :: "jval \<Rightarrow> bool" where
  "part_is_image part = (case part of JObj d \<Rightarrow> part_kind d \<in> {''input_image'', ''image_url'', ''image''} | _ \<Rightarrow> False)"

definition message_text_and_image :: "jval \<Rightarrow> string \<times> bool" where
  "message_text_and_image content =
     (case content of
        JStr s \<Rightarrow> (py_strip s, False)
      | JList parts \<Rightarrow>
          (py_strip (join_with '' '' (filter (\<lambda>t. t \<noteq> []) (List.map py_strip (concat (List.map part_texts parts))))),
           list_ex part_is_image parts)
      | _ \<Rightarrow> ([], False))"

definition user_message :: "jval \<Rightarrow> (string \<times> bool) list" where
  "user_message item =
     (case item of
        JObj d \<Rightarrow>
          (let (text, image) = message_text_and_image (jget d ''content'') in
           if py_lower (py_str (py_or (jget d ''type'') (JStr ''message''))) = ''message''
              \<and> py_lower (str_or_empty (jget d ''role'')) = ''user'' \<and> (text \<noteq> [] \<or> image)
           then [(text, image)] else [])
      | _ \<Rightarrow> [])"

definition user_messages :: "jobj \<Rightarrow> (string \<times> bool) list" where
  "user_messages payload =
     (case jget payload ''input'' of
        JStr s \<Rightarrow> if py_strip s = [] then [] else [(py_strip s, False)]
      | JList items \<Rightarrow> concat (List.map user_message items)
      | _ \<Rightarrow> (case jget payload ''messages'' of JList items \<Rightarrow> concat (List.map user_message items) | _ \<Rightarrow> []))"

definition auto_turn_from_payload :: "jobj \<Rightarrow> int \<Rightarrow> auto_turn option" where
  "auto_turn_from_payload payload body_size =
     (let messages = user_messages payload in
      if messages = [] then None
      else (let first_text = fst (hd messages); (last_text, has_image) = last messages;
                prompt = (if last_text \<noteq> [] then last_text else if has_image then ''(image)'' else [])
            in if prompt = [] then None
               else Some \<lparr>at_prompt = prompt,
                      at_conversation_key = take 16 (sha256_of (if first_text \<noteq> [] then first_text else prompt)),
                      at_turn_index = length messages, at_history_chars = max 0 body_size, at_has_image = has_image\<rparr>))"

section \<open>Requests to the service\<close>

datatype capi_answer = CapiFailed string | CapiAnswer int string

definition capi_json :: "internal_token \<Rightarrow> string option \<Rightarrow> string \<Rightarrow> capi_answer \<Rightarrow> auto_error + jval" where
  "capi_json token proxy_url label answer =
     (let secrets = it_token token # (case proxy_url of Some u \<Rightarrow> if u = [] then [] else [u] | None \<Rightarrow> []) in
      case answer of
        CapiFailed text \<Rightarrow> Inl (CopilotAutoSessionError (redact_copilot_secrets (label @ '' failed: '' @ text) secrets))
      | CapiAnswer status text \<Rightarrow>
          if status \<noteq> 200
          then (let detail = redact_copilot_secrets (take 500 (py_strip text)) secrets in
                Inl (CopilotAutoSessionError (label @ '' failed with HTTP '' @ int_text status
                       @ (if detail = [] then [] else '': '' @ detail))))
          else (case json_loads text of None \<Rightarrow> Inl (CopilotAutoSessionError (label @ '' returned invalid JSON''))
                | Some v \<Rightarrow> Inr v))"

text \<open>The body sent to the routing service.\<close>

definition route_request_body :: "string \<Rightarrow> string option \<Rightarrow> bool \<Rightarrow> jobj" where
  "route_request_body prompt tier has_image =
     [(''prompt'', JStr prompt)]
     @ (case tier of Some t \<Rightarrow> if t = [] then [] else [(''tier'', JStr t)] | None \<Rightarrow> [])
     @ (if has_image then [(''has_image'', JBool True)] else [])"

section \<open>The manager\<close>

type_synonym auto_key = "string \<times> string \<times> string option \<times> nat \<times> string"

record auto_manager =
  am_decisions :: "(auto_key, auto_routing) odict"
  am_catalogs :: "(string, catalog \<times> rat) odict"
  am_failed_at :: "(string, rat) odict"
  am_last_fallback_reason :: "string option"
  am_last_routing :: "auto_routing option"

definition new_auto_manager :: auto_manager where
  "new_auto_manager = \<lparr>am_decisions = [], am_catalogs = [], am_failed_at = [], am_last_fallback_reason = None,
     am_last_routing = None\<rparr>"

definition manager_invalidate :: "internal_token option \<Rightarrow> auto_manager \<Rightarrow> auto_manager" where
  "manager_invalidate token m =
     (case token of
        None \<Rightarrow> m\<lparr>am_decisions := [], am_catalogs := [], am_failed_at := []\<rparr>
      | Some t \<Rightarrow> m\<lparr>am_decisions := filter (\<lambda>(key, v). fst key \<noteq> it_token t) (am_decisions m),
                    am_catalogs := AList.delete (it_token t) (am_catalogs m),
                    am_failed_at := AList.delete (it_token t) (am_failed_at m)\<rparr>)"

definition manager_remember :: "auto_key \<Rightarrow> auto_routing \<Rightarrow> auto_manager \<Rightarrow> auto_manager" where
  "manager_remember key r m =
     m\<lparr>am_decisions := evict_front MAX_CACHED_DECISIONS (AList.update key r (am_decisions m)), am_last_routing := Some r\<rparr>"

text \<open>\<open>environ\<close> is the process environment the pinned limits depend on.\<close>

definition fallback_routing :: "environ \<Rightarrow> string \<Rightarrow> string option \<Rightarrow> auto_routing" where
  "fallback_routing environ reason tier =
     \<lparr>ar_model = DEFAULT_AUTO_FALLBACK_MODEL, ar_session_token = None, ar_fallback_reason = Some reason, ar_tier = tier,
      ar_discount = JNull, ar_reasoning_efforts = [],
      ar_limits = static_model_limits environ (JStr DEFAULT_AUTO_FALLBACK_MODEL) None, ar_expires_at = None\<rparr>"

definition manager_fallback :: "environ \<Rightarrow> string \<Rightarrow> string option \<Rightarrow> auto_manager \<Rightarrow> auto_routing \<times> auto_manager" where
  "manager_fallback environ reason tier m =
     (let r = fallback_routing environ reason tier in
      (r, m\<lparr>am_last_fallback_reason := Some reason, am_last_routing := Some r\<rparr>))"

text \<open>The catalog for a token: cached for an hour, not asked for again for a while after a failure; \<open>tick\<close> is
  \<^verbatim>\<open>time.monotonic()\<close>.\<close>

definition manager_catalog ::
    "internal_token \<Rightarrow> string option \<Rightarrow> rat \<Rightarrow> capi_answer \<Rightarrow> auto_manager \<Rightarrow> catalog \<times> auto_manager" where
  "manager_catalog token proxy_url tick answer m =
     (let t = it_token token; cached = map_of (am_catalogs m) t;
          known = (case cached of Some (c, since) \<Rightarrow> c | None \<Rightarrow> []) in
      if (case cached of Some (c, since) \<Rightarrow> tick - since < MODELS_CATALOG_TTL_SECONDS | None \<Rightarrow> False) then (known, m)
      else if (case map_of (am_failed_at m) t of Some f \<Rightarrow> tick - f < MODELS_CATALOG_RETRY_SECONDS | None \<Rightarrow> False) then (known, m)
      else case (case capi_json token proxy_url ''models request'' answer of Inl e \<Rightarrow> Inl e | Inr v \<Rightarrow> parse_models_catalog v) of
        Inl e \<Rightarrow> (known, m\<lparr>am_failed_at := AList.update t tick (am_failed_at m)\<rparr>)
      | Inr cat \<Rightarrow> (cat, m\<lparr>am_catalogs := [(t, (cat, tick))], am_failed_at := AList.delete t (am_failed_at m)\<rparr>))"

text \<open>What is wrong with a decision (the text of the fallback), or the routing it becomes.\<close>

definition admit :: "environ \<Rightarrow> auto_turn \<Rightarrow> string option \<Rightarrow> jval \<Rightarrow> auto_decision \<Rightarrow> string + auto_routing" where
  "admit environ turn tier entry d =
     (let model = ad_model d; metadata = JObj (ad_metadata d) in
      case auto_pick_refusal model [metadata, entry] of
        Some refusal \<Rightarrow> Inl refusal
      | None \<Rightarrow>
          (case preferred_model_limits [copilot_model_limits entry, copilot_model_limits metadata,
                  static_model_limits environ (JStr model) None] of
             None \<Rightarrow> Inl (''selected model '' @ model @ '' has no usable context metadata'')
           | Some limits \<Rightarrow>
               (let history_tokens = at_history_chars turn div CHARS_PER_TOKEN in
                if history_tokens > ml_prompt limits
                then Inl (''selected model '' @ model @ '': prompt cap '' @ int_text (ml_prompt limits)
                       @ '' tokens is below the request's ~'' @ int_text history_tokens @ '' tokens'')
                else Inr \<lparr>ar_model = model, ar_session_token = Some (ad_session_token d), ar_fallback_reason = None,
                       ar_tier = tier, ar_discount = jget (ad_discounted_costs d) model,
                       ar_reasoning_efforts = allowed_reasoning_efforts [metadata, entry],
                       ar_limits = Some limits, ar_expires_at = Some (ad_expires_at d)\<rparr>)))"

definition auto_key :: "internal_token \<Rightarrow> auto_turn \<Rightarrow> string option \<Rightarrow> auto_key" where
  "auto_key token turn tier = (it_token token, at_conversation_key turn, tier, at_turn_index turn, at_prompt turn)"

definition reusable :: "auto_key \<Rightarrow> rat \<Rightarrow> auto_manager \<Rightarrow> auto_routing option" where
  "reusable key now m =
     (case map_of (am_decisions m) key of
        Some r \<Rightarrow> if routing_expires_within r AUTO_SESSION_REFRESH_MARGIN_SECONDS now then None else Some r
      | None \<Rightarrow> None)"

definition remember_fallback ::
    "environ \<Rightarrow> auto_key \<Rightarrow> string \<Rightarrow> string option \<Rightarrow> auto_manager \<Rightarrow> auto_routing \<times> auto_manager" where
  "remember_fallback environ key reason tier m =
     (let (r, m1) = manager_fallback environ reason tier m in (r, manager_remember key r m1))"

text \<open>A decision that was parsed: the catalog is asked, and the pick admitted or replaced by the fallback.\<close>

definition settle ::
    "environ \<Rightarrow> internal_token \<Rightarrow> string option \<Rightarrow> auto_turn \<Rightarrow> string option \<Rightarrow> rat \<Rightarrow> capi_answer \<Rightarrow> auto_decision
     \<Rightarrow> auto_manager \<Rightarrow> auto_routing \<times> auto_manager" where
  "settle environ token proxy_url turn tier tick models_answer d m =
     (let key = auto_key token turn tier;
          (cat, m1) = manager_catalog token proxy_url tick models_answer m in
      case admit environ turn tier (jget cat (ad_model d)) d of
        Inl reason \<Rightarrow> remember_fallback environ key reason tier m1
      | Inr r \<Rightarrow> (r, manager_remember key r (m1\<lparr>am_last_fallback_reason := None\<rparr>)))"

definition manager_route ::
    "environ \<Rightarrow> internal_token \<Rightarrow> string option \<Rightarrow> auto_turn \<Rightarrow> string option \<Rightarrow> rat \<Rightarrow> rat \<Rightarrow> capi_answer \<Rightarrow> capi_answer
     \<Rightarrow> auto_manager \<Rightarrow> (auto_error + auto_routing) \<times> auto_manager" where
  "manager_route environ token proxy_url turn tier now tick route_answer models_answer m =
     (let key = auto_key token turn tier in
      case reusable key now m of
        Some r \<Rightarrow> (Inr r, m\<lparr>am_last_routing := Some r\<rparr>)
      | None \<Rightarrow>
          (case (case capi_json token proxy_url ''auto route request'' route_answer of
                   Inl e \<Rightarrow> Inl e | Inr v \<Rightarrow> parse_auto_decision v tier) of
             Inl (CopilotAutoSessionError text) \<Rightarrow>
               (let (r, m') = remember_fallback environ key (''auto route unavailable: '' @ text) tier m in (Inr r, m'))
           | Inl (Uncaught e) \<Rightarrow> (Inl (Uncaught e), m)
           | Inr d \<Rightarrow> (let (r, m') = settle environ token proxy_url turn tier tick models_answer d m in (Inr r, m'))))"

section \<open>The request body\<close>

definition clamp_field :: "string \<Rightarrow> string list \<Rightarrow> jobj \<Rightarrow> jobj" where
  "clamp_field k allowed d =
     (case jget d k of JStr s \<Rightarrow> AList.update k (clamp_reasoning_effort (JStr s) allowed) d | _ \<Rightarrow> d)"

definition clamp_payload_reasoning :: "jobj \<Rightarrow> string list \<Rightarrow> jobj" where
  "clamp_payload_reasoning payload allowed =
     (if allowed = [] then payload
      else let p1 = (case jget payload ''reasoning'' of
                       JObj d \<Rightarrow> AList.update ''reasoning'' (JObj (clamp_field ''effort'' allowed d)) payload
                     | _ \<Rightarrow> payload)
           in clamp_field ''reasoning_effort'' allowed p1)"

text \<open>A body is its text as UTF-8; \<^verbatim>\<open>None\<close> leaves it untouched.\<close>

definition route_auto_request_body ::
    "environ \<Rightarrow> internal_token \<Rightarrow> string option \<Rightarrow> rat \<Rightarrow> rat \<Rightarrow> capi_answer \<Rightarrow> capi_answer \<Rightarrow> string \<Rightarrow> auto_manager
     \<Rightarrow> (auto_error + (string \<times> auto_routing) option) \<times> auto_manager" where
  "route_auto_request_body environ token proxy_url now tick route_answer models_answer body m =
     (case (body = [], json_loads body) of
        (False, Some (JObj payload)) \<Rightarrow>
          if \<not> is_auto_model (jget payload ''model'') then (Inr None, m)
          else (let tier = auto_tier_for (jget payload ''model'');
                    (res, m') = (case auto_turn_from_payload payload (int (utf8_len body)) of
                        None \<Rightarrow> (let (r, m1) = manager_fallback environ ''no prompt to route'' tier m in (Inr r, m1))
                      | Some turn \<Rightarrow> manager_route environ token proxy_url turn tier now tick route_answer models_answer m)
                in case res of
                     Inl e \<Rightarrow> (Inl e, m')
                   | Inr r \<Rightarrow>
                       (Inr (Some (json_dumps (JObj (clamp_payload_reasoning (AList.update ''model'' (JStr (ar_model r)) payload)
                                                       (ar_reasoning_efforts r))), r)), m'))
      | _ \<Rightarrow> (Inr None, m))"

section \<open>What a routing promises\<close>

text \<open>A routing is either a pick with its session, a known expiry and a prompt cap that held the request, or the
  fallback model without a session and with a reason.\<close>

definition is_fallback :: "auto_routing \<Rightarrow> bool" where
  "is_fallback r = (ar_session_token r = None \<and> ar_model r = DEFAULT_AUTO_FALLBACK_MODEL \<and> ar_fallback_reason r \<noteq> None
     \<and> ar_expires_at r = None)"

definition is_session :: "auto_routing \<Rightarrow> bool" where
  "is_session r = (ar_session_token r \<noteq> None \<and> ar_fallback_reason r = None \<and> ar_expires_at r \<noteq> None \<and> ar_limits r \<noteq> None)"

definition manager_ok :: "auto_manager \<Rightarrow> bool" where
  "manager_ok m = (dict_ok (am_decisions m) \<and> length (am_decisions m) \<le> MAX_CACHED_DECISIONS
     \<and> (\<forall>(k, r) \<in> set (am_decisions m). is_fallback r \<or> is_session r))"

lemma manager_okI:
  "dict_ok (am_decisions m) \<Longrightarrow> length (am_decisions m) \<le> MAX_CACHED_DECISIONS \<Longrightarrow>
   (\<And>k r. (k, r) \<in> set (am_decisions m) \<Longrightarrow> is_fallback r \<or> is_session r) \<Longrightarrow> manager_ok m"
  unfolding manager_ok_def by blast

lemma manager_ok_same: "manager_ok m \<Longrightarrow> am_decisions m' = am_decisions m \<Longrightarrow> manager_ok m'"
  by (simp add: manager_ok_def)

lemma fallback_is_fallback [simp]: "is_fallback (fallback_routing environ reason tier)"
  by (simp add: is_fallback_def fallback_routing_def)

lemma remember_ok:
  assumes "manager_ok m" and "is_fallback r \<or> is_session r"
  shows "manager_ok (manager_remember key r m)"
proof (rule manager_okI)
  show "dict_ok (am_decisions (manager_remember key r m))"
    using assms(1) by (simp add: manager_remember_def manager_ok_def)
  show "length (am_decisions (manager_remember key r m)) \<le> MAX_CACHED_DECISIONS"
    by (simp add: manager_remember_def)
next
  fix k x
  assume "(k, x) \<in> set (am_decisions (manager_remember key r m))"
  then have "(k, x) = (key, r) \<or> (k, x) \<in> set (am_decisions m)"
    by (auto simp: manager_remember_def dest!: set_evict_front in_set_update)
  then show "is_fallback x \<or> is_session x" using assms by (auto simp: manager_ok_def)
qed

lemma fallback_ok: "manager_ok m \<Longrightarrow> manager_ok (snd (manager_fallback environ reason tier m))"
  by (rule manager_ok_same) (simp_all add: manager_fallback_def Let_def)

lemma remember_fallback_ok: "manager_ok m \<Longrightarrow> manager_ok (snd (remember_fallback environ key reason tier m))"
  using remember_ok [OF fallback_ok, where m1 = m and environ1 = environ and reason1 = reason and tier1 = tier and key = key
      and r = "fallback_routing environ reason tier"]
  by (simp add: remember_fallback_def manager_fallback_def Let_def)

lemma catalog_decisions [simp]: "am_decisions (snd (manager_catalog token proxy_url tick answer m)) = am_decisions m"
  by (simp add: manager_catalog_def Let_def split: sum.split)

lemma catalog_ok: "manager_ok m \<Longrightarrow> manager_ok (snd (manager_catalog token proxy_url tick answer m))"
  by (rule manager_ok_same) simp_all

lemma admit_session: "admit environ turn tier entry d = Inr r \<Longrightarrow> is_session r"
  by (auto simp: admit_def is_session_def Let_def split: option.splits if_splits)

text \<open>What \<open>settle\<close> returns and leaves, in one place.\<close>

lemma settle_cases:
  "settle environ token proxy_url turn tier tick answer d m =
     (case manager_catalog token proxy_url tick answer m of (cat, m1) \<Rightarrow>
        (case admit environ turn tier (jget cat (ad_model d)) d of
           Inl reason \<Rightarrow> remember_fallback environ (auto_key token turn tier) reason tier m1
         | Inr r \<Rightarrow> (r, manager_remember (auto_key token turn tier) r (m1\<lparr>am_last_fallback_reason := None\<rparr>))))"
  by (simp add: settle_def Let_def)

lemma settle_ok: "manager_ok m \<Longrightarrow> manager_ok (snd (settle environ token proxy_url turn tier tick answer d m))"
proof -
  assume m: "manager_ok m"
  obtain cat m1 where c: "manager_catalog token proxy_url tick answer m = (cat, m1)" by fastforce
  then have m1: "manager_ok m1" using catalog_ok [OF m, of token proxy_url tick answer] by simp
  show ?thesis
  proof (cases "admit environ turn tier (jget cat (ad_model d)) d")
    case (Inl reason)
    then show ?thesis using c m1 by (simp add: settle_cases remember_fallback_ok)
  next
    case (Inr r)
    have "manager_ok (m1\<lparr>am_last_fallback_reason := None\<rparr>)" by (rule manager_ok_same [OF m1]) simp
    then show ?thesis using c Inr admit_session [OF Inr] by (simp add: settle_cases remember_ok)
  qed
qed

lemma route_ok:
  "manager_ok m \<Longrightarrow>
     manager_ok (snd (manager_route environ token proxy_url turn tier now tick ra ma m))"
  by (auto simp: manager_route_def Let_def case_prod_beta split: option.split sum.split auto_error.split
      intro: remember_fallback_ok settle_ok manager_ok_same)

lemma invalidate_ok: "manager_ok m \<Longrightarrow> manager_ok (manager_invalidate token m)"
  by (cases token) (auto simp: manager_invalidate_def manager_ok_def intro: order_trans [OF length_filter_le])

text \<open>Requests and invalidations in any order.\<close>

inductive auto_reach :: "auto_manager \<Rightarrow> bool" where
  start: "auto_reach new_auto_manager"
| routed: "auto_reach m \<Longrightarrow> auto_reach (snd (manager_route environ token proxy_url turn tier now tick ra ma m))"
| gave_up: "auto_reach m \<Longrightarrow> auto_reach (snd (manager_fallback environ reason tier m))"
| invalidated: "auto_reach m \<Longrightarrow> auto_reach (manager_invalidate token' m)"

lemma reach_ok: "auto_reach m \<Longrightarrow> manager_ok m"
proof (induction rule: auto_reach.induct)
  case start
  show ?case by (simp add: manager_ok_def new_auto_manager_def)
qed (simp_all add: route_ok fallback_ok invalidate_ok)

lemma reusable_some: "reusable key now m = Some r \<Longrightarrow> (key, r) \<in> set (am_decisions m)
    \<and> \<not> routing_expires_within r AUTO_SESSION_REFRESH_MARGIN_SECONDS now"
  by (auto simp: reusable_def split: option.splits if_splits dest: map_of_SomeD)

text \<open>An admitted pick: the service's answer parses to it; neither what the answer says of the model nor the catalog's entry
  for it makes it anything but a chat model served on \<^verbatim>\<open>/responses\<close> that can call tools; its limits are the entry's,
  else the answer's own, else the static table's; and their prompt cap holds the request, four characters to a token.\<close>

definition usable_source :: "jval \<Rightarrow> bool" where
  "usable_source source =
     (case source of
        JObj d \<Rightarrow>
          (let capabilities = obj_or_empty (jget d ''capabilities'') in
           (case jget capabilities ''type'' of JStr kind \<Rightarrow> py_strip kind \<in> {[], ''chat''} | _ \<Rightarrow> True)
           \<and> (case jget d ''supported_endpoints'' of JList xs \<Rightarrow> xs = [] \<or> list_ex served_on_responses xs | _ \<Rightarrow> True)
           \<and> jget (obj_or_empty (jget capabilities ''supports'')) ''tool_calls'' \<noteq> JBool False)
      | _ \<Rightarrow> True)"

definition limits_of_pick :: "environ \<Rightarrow> jval \<Rightarrow> auto_decision \<Rightarrow> model_limits option" where
  "limits_of_pick environ entry d =
     (case copilot_model_limits entry of Some l \<Rightarrow> Some l
      | None \<Rightarrow> (case copilot_model_limits (JObj (ad_metadata d)) of Some l \<Rightarrow> Some l
          | None \<Rightarrow> static_model_limits environ (JStr (ad_model d)) None))"

definition admitted_pick ::
    "environ \<Rightarrow> internal_token \<Rightarrow> string option \<Rightarrow> auto_turn \<Rightarrow> string option \<Rightarrow> capi_answer \<Rightarrow> catalog \<Rightarrow> auto_routing \<Rightarrow> bool" where
  "admitted_pick environ token proxy_url turn tier ra cat r \<longleftrightarrow>
     (\<exists>v d l. capi_json token proxy_url ''auto route request'' ra = Inr v \<and> parse_auto_decision v tier = Inr d
        \<and> ar_model r = ad_model d \<and> ar_session_token r = Some (ad_session_token d) \<and> ar_expires_at r = Some (ad_expires_at d)
        \<and> usable_source (JObj (ad_metadata d)) \<and> usable_source (jget cat (ad_model d))
        \<and> ar_limits r = Some l \<and> limits_of_pick environ (jget cat (ad_model d)) d = Some l
        \<and> at_history_chars turn div 4 \<le> ml_prompt l)"

lemma unrefused_source: "source_refusal model d = None \<Longrightarrow> usable_source (JObj d)"
  by (auto simp: source_refusal_def usable_source_def Let_def split: if_splits jval.splits)

lemma unrefused_pick:
  "auto_pick_refusal model [metadata, entry] = None \<Longrightarrow> usable_source metadata \<and> usable_source entry"
  by (cases metadata; cases entry) (auto simp: unrefused_source split: option.splits, simp_all add: usable_source_def)

lemma admit_pick:
  assumes "admit environ turn tier (jget cat (ad_model d)) d = Inr r"
    and "capi_json token proxy_url ''auto route request'' ra = Inr v" and "parse_auto_decision v tier = Inr d"
  shows "admitted_pick environ token proxy_url turn tier ra cat r"
proof -
  let ?entry = "jget cat (ad_model d)" and ?metadata = "JObj (ad_metadata d)"
  obtain l where refused: "auto_pick_refusal (ad_model d) [?metadata, ?entry] = None"
    and limits: "preferred_model_limits [copilot_model_limits ?entry, copilot_model_limits ?metadata,
        static_model_limits environ (JStr (ad_model d)) None] = Some l"
    and fits: "at_history_chars turn div 4 \<le> ml_prompt l"
    and r: "ar_model r = ad_model d" "ar_session_token r = Some (ad_session_token d)" "ar_expires_at r = Some (ad_expires_at d)"
      "ar_limits r = Some l"
    using assms(1) by (auto simp: admit_def Let_def CHARS_PER_TOKEN_def split: option.splits if_splits)
  have "limits_of_pick environ ?entry d = Some l"
    using limits
    by (cases "copilot_model_limits ?entry"; cases "copilot_model_limits ?metadata"; cases "static_model_limits environ (JStr (ad_model d)) None")
      (simp_all add: limits_of_pick_def)
  then show ?thesis
    unfolding admitted_pick_def using assms(2,3) unrefused_pick [OF refused] fits r by blast
qed

lemma fresh_route:
  assumes "reusable (auto_key token turn tier) now m = None"
    and "manager_route environ token proxy_url turn tier now tick ra ma m = (Inr r, m')"
  shows "is_fallback r \<or> admitted_pick environ token proxy_url turn tier ra (fst (manager_catalog token proxy_url tick ma m)) r"
proof -
  let ?p = "case capi_json token proxy_url ''auto route request'' ra of Inl e \<Rightarrow> Inl e | Inr v \<Rightarrow> parse_auto_decision v tier"
  show ?thesis
  proof (cases ?p)
    case (Inl e)
    then show ?thesis using assms
      by (cases e) (auto simp: manager_route_def Let_def remember_fallback_def manager_fallback_def)
  next
    case (Inr d)
    then obtain v where v: "capi_json token proxy_url ''auto route request'' ra = Inr v" "parse_auto_decision v tier = Inr d"
      by (auto split: sum.splits)
    obtain cat m1 where c: "manager_catalog token proxy_url tick ma m = (cat, m1)" by fastforce
    have r: "r = fst (settle environ token proxy_url turn tier tick ma d m)"
      using assms Inr by (auto simp: manager_route_def Let_def case_prod_beta)
    show ?thesis
    proof (cases "admit environ turn tier (jget cat (ad_model d)) d")
      case (Inl reason)
      then have "r = fallback_routing environ reason tier"
        using r c by (simp add: settle_cases remember_fallback_def manager_fallback_def Let_def)
      then show ?thesis by simp
    next
      case (Inr x)
      with r c have "r = x" by (simp add: settle_cases)
      with admit_pick [OF Inr v] c show ?thesis by simp
    qed
  qed
qed

text \<open>C11: In every reachable state, an automatic request that gets a routing is sent either with the fallback
  model, no session and a reason, or with a session: one remembered for this very token, conversation, tier,
  turn and prompt that has more than the margin left, or a fresh pick that neither the answer nor the catalog's
  entry for the model refuses and the prompt cap of whose limits (the entry's, else the answer's, else the static
  table's) holds the request; and at most 64 decisions are kept.\<close>

theorem auto_session_is_admitted:
  assumes "auto_reach m" and "manager_route environ token proxy_url turn tier now tick ra ma m = (Inr r, m')"
  shows "length (am_decisions m') \<le> MAX_CACHED_DECISIONS \<and>
    (is_fallback r
     \<or> (is_session r \<and> map_of (am_decisions m) (auto_key token turn tier) = Some r
         \<and> \<not> routing_expires_within r AUTO_SESSION_REFRESH_MARGIN_SECONDS now)
     \<or> admitted_pick environ token proxy_url turn tier ra (fst (manager_catalog token proxy_url tick ma m)) r)"
proof
  have ok: "manager_ok m" using assms(1) by (rule reach_ok)
  have "manager_ok m'" using route_ok [OF ok] assms(2) by (metis snd_conv)
  then show "length (am_decisions m') \<le> MAX_CACHED_DECISIONS" by (simp add: manager_ok_def)
  let ?key = "auto_key token turn tier"
  show "is_fallback r
     \<or> (is_session r \<and> map_of (am_decisions m) ?key = Some r \<and> \<not> routing_expires_within r AUTO_SESSION_REFRESH_MARGIN_SECONDS now)
     \<or> admitted_pick environ token proxy_url turn tier ra (fst (manager_catalog token proxy_url tick ma m)) r"
  proof (cases "reusable ?key now m")
    case None
    from fresh_route [OF this assms(2)] show ?thesis by blast
  next
    case (Some x)
    with assms(2) have x: "x = r" by (simp add: manager_route_def Let_def)
    have "is_fallback r \<or> is_session r" "map_of (am_decisions m) ?key = Some r"
      using reusable_some [OF Some] ok x by (auto simp: manager_ok_def)
    then show ?thesis using reusable_some [OF Some] x by auto
  qed
qed

definition sample_token :: internal_token where
  "sample_token = \<lparr>it_token = ''t'', it_expires_at = 9000, it_api_base_url = ''b''\<rparr>"

definition sample_turn :: auto_turn where
  "sample_turn = \<lparr>at_prompt = ''hi'', at_conversation_key = ''c'', at_turn_index = 1, at_history_chars = 10, at_has_image = False\<rparr>"

lemma sample_route:
  "\<exists>reason m'. manager_route [] sample_token None sample_turn None 0 0 (CapiFailed ''down'') (CapiFailed ''down'') new_auto_manager
     = (Inr (fallback_routing [] reason None), m')"
  by (simp add: manager_route_def Let_def reusable_def new_auto_manager_def capi_json_def remember_fallback_def
      manager_fallback_def) blast

text \<open>A pick the service answers with, written with \<open>^\<close> for the double quote.\<close>

definition sample_pick :: capi_answer where
  "sample_pick = CapiAnswer 200 (List.map (\<lambda>c. if c = CHR 0x5E then CHR 0x22 else c)
     ''{^session_token^:^s^,^expires_at^:99,^selected_model^:{^id^:^m^,^capabilities^:{^limits^:{^max_context_window_tokens^:1000}}}}'')"

lemma sample_pick_route:
  "case fst (manager_route [] sample_token None sample_turn None 0 0 sample_pick (CapiFailed ''down'') new_auto_manager) of
     Inl e \<Rightarrow> False | Inr r \<Rightarrow> ar_session_token r = Some ''s''"
  by code_simp

theorem auto_session_is_admitted_witness:
  "\<exists>r. fst (manager_route [] sample_token None sample_turn None 0 0 sample_pick (CapiFailed ''down'') new_auto_manager) = Inr r
     \<and> admitted_pick [] sample_token None sample_turn None sample_pick
         (fst (manager_catalog sample_token None 0 (CapiFailed ''down'') new_auto_manager)) r"
proof -
  obtain r m' where r: "manager_route [] sample_token None sample_turn None 0 0 sample_pick (CapiFailed ''down'') new_auto_manager
      = (Inr r, m')" and token: "ar_session_token r = Some ''s''"
    using sample_pick_route by (auto simp: fst_def split: prod.splits sum.splits)
  have "am_decisions new_auto_manager = []" by (simp add: new_auto_manager_def)
  with auto_session_is_admitted [OF auto_reach.start r] r token show ?thesis by (simp add: is_fallback_def)
qed

section \<open>One routing per turn\<close>

lemma remember_finds:
  assumes "manager_ok m"
  shows "map_of (am_decisions (manager_remember key r m)) key = Some r"
proof (cases "map_of (am_decisions m) key")
  case None
  have "dict_ok (am_decisions m @ [(key, r)])" using assms None by (auto simp: manager_ok_def map_of_eq_None_iff)
  then have "dict_ok (evict_front 64 (am_decisions m @ [(key, r)]))" by (rule dict_ok_evict_front)
  moreover have "(key, r) \<in> set (evict_front 64 (am_decisions m @ [(key, r)]))" by (simp add: evict_front_last)
  ultimately show ?thesis using None by (simp add: manager_remember_def MAX_CACHED_DECISIONS_def update_new map_of_is_SomeI)
next
  case (Some x)
  then have "length (AList.update key r (am_decisions m)) \<le> MAX_CACHED_DECISIONS"
    using assms by (simp add: length_update_old manager_ok_def)
  then show ?thesis by (simp add: manager_remember_def)
qed

lemma remembers_last [simp]: "am_last_routing (manager_remember key r m) = Some r"
  by (simp add: manager_remember_def)

lemma fallback_remembered:
  assumes "manager_ok m" and "remember_fallback environ key reason tier m = (r, m')"
  shows "map_of (am_decisions m') key = Some r \<and> am_last_routing m' = Some r"
  using assms remember_finds [OF fallback_ok [OF assms(1)], of key]
  by (auto simp: remember_fallback_def manager_fallback_def Let_def)

lemma settle_remembered:
  assumes "manager_ok m" and "settle environ token proxy_url turn tier tick ma d m = (r, m')"
  shows "map_of (am_decisions m') (auto_key token turn tier) = Some r \<and> am_last_routing m' = Some r"
proof -
  obtain cat m1 where c: "manager_catalog token proxy_url tick ma m = (cat, m1)" by fastforce
  then have m1: "manager_ok m1" using catalog_ok [OF assms(1), of token proxy_url tick ma] by simp
  show ?thesis
  proof (cases "admit environ turn tier (jget cat (ad_model d)) d")
    case (Inl reason)
    then show ?thesis using assms(2) c fallback_remembered [OF m1] by (simp add: settle_cases)
  next
    case (Inr x)
    have "manager_ok (m1\<lparr>am_last_fallback_reason := None\<rparr>)" by (rule manager_ok_same [OF m1]) simp
    from remember_finds [OF this, of "auto_key token turn tier"] show ?thesis using assms(2) c Inr by (auto simp: settle_cases)
  qed
qed

lemma route_remembered:
  assumes ok: "manager_ok m" and r: "manager_route environ token proxy_url turn tier now tick ra ma m = (Inr r, m')"
  shows "map_of (am_decisions m') (auto_key token turn tier) = Some r \<and> am_last_routing m' = Some r"
proof (cases "reusable (auto_key token turn tier) now m")
  case (Some x)
  with r show ?thesis by (auto simp: manager_route_def Let_def dest: reusable_some split: if_splits)
      (auto simp: reusable_def split: option.splits if_splits)
next
  case None
  let ?p = "case capi_json token proxy_url ''auto route request'' ra of Inl e \<Rightarrow> Inl e | Inr v \<Rightarrow> parse_auto_decision v tier"
  show ?thesis
  proof (cases ?p)
    case (Inl e)
    then show ?thesis using r None fallback_remembered [OF ok, of environ "auto_key token turn tier" _ tier]
      by (cases e) (auto simp: manager_route_def Let_def case_prod_beta prod_eq_iff)
  next
    case (Inr d)
    then have "settle environ token proxy_url turn tier tick ma d m = (r, m')"
      using r None by (auto simp: manager_route_def Let_def case_prod_beta prod_eq_iff)
    from settle_remembered [OF ok this] show ?thesis .
  qed
qed

text \<open>A turn is routed once: after a request of a turn got a routing, the next request of the same turn and
  token gets that very routing and changes nothing, whatever the service would answer now, as long as the
  session has more than the margin left.\<close>

theorem turn_is_routed_once:
  assumes "auto_reach m" and "manager_route environ token proxy_url turn tier now tick ra ma m = (Inr r, m')"
    and "\<not> routing_expires_within r AUTO_SESSION_REFRESH_MARGIN_SECONDS later"
  shows "manager_route environ token proxy_url turn tier later tick' ra' ma' m' = (Inr r, m')"
proof -
  have "map_of (am_decisions m') (auto_key token turn tier) = Some r" "am_last_routing m' = Some r"
    using route_remembered [OF reach_ok [OF assms(1)] assms(2)] by auto
  then show ?thesis using assms(3) by (simp add: manager_route_def Let_def reusable_def)
qed

theorem turn_is_routed_once_witness:
  "\<exists>r m'. manager_route [] sample_token None sample_turn None 5 5 (CapiAnswer 200 ''{}'') (CapiFailed ''x'') m' = (Inr r, m')"
proof -
  obtain reason m' where r: "manager_route [] sample_token None sample_turn None 0 0 (CapiFailed ''down'') (CapiFailed ''down'')
      new_auto_manager = (Inr (fallback_routing [] reason None), m')" using sample_route by blast
  have "\<not> routing_expires_within (fallback_routing [] reason None) AUTO_SESSION_REFRESH_MARGIN_SECONDS 5"
    by (simp add: routing_expires_within_def fallback_routing_def)
  from turn_is_routed_once [OF auto_reach.start r this] show ?thesis by blast
qed

end
