(* ===== verification/CopilotProxy.thy ===== *)
theory CopilotProxy
  imports CopilotAuto
begin

text \<open>
  The loopback proxy OpenCode talks to for Copilot (\<^verbatim>\<open>copilot_proxy.py\<close>): who may use it, which headers go out
  and come back, the token, the routing of automatic requests and the redaction of what the service answers.
  Headers are (name, value) pairs in order; a header lookup ignores case. The answers of the token service, of
  the routing service and of the upstream are arguments.
\<close>

type_synonym headers = "(string \<times> string) list"

definition REQUEST_HEADER_BLOCKLIST :: "string list" where
  "REQUEST_HEADER_BLOCKLIST =
     [''host'', ''content-length'', ''authorization'', ''x-api-key'', ''connection'', ''keep-alive'', ''proxy-authenticate'',
      ''proxy-authorization'', ''te'', ''trailer'', ''transfer-encoding'', ''upgrade'']"

definition RESPONSE_HEADER_BLOCKLIST :: "string list" where
  "RESPONSE_HEADER_BLOCKLIST = REQUEST_HEADER_BLOCKLIST @ [''set-cookie'', ''www-authenticate'', ''content-encoding'']"

definition header_get :: "headers \<Rightarrow> string \<Rightarrow> string option" where
  "header_get hs name = map_option snd (find (\<lambda>(k, v). py_lower k = py_lower name) hs)"

section \<open>Who may ask\<close>

definition is_loopback_host :: "string option \<Rightarrow> bool" where
  "is_loopback_host value =
     (let host = strip_chars ''[]'' (py_strip (case value of None \<Rightarrow> [] | Some v \<Rightarrow> v)) in
      if host = [] then False
      else if py_lower host = ''localhost'' then True
      else case parse_ip (takeWhile (\<lambda>c. c \<noteq> CHR ''%'') host) of None \<Rightarrow> False | Some a \<Rightarrow> ip_is_loopback a)"

definition request_is_loopback :: "string option \<Rightarrow> headers \<Rightarrow> bool" where
  "request_is_loopback remote hs =
     (if \<not> is_loopback_host remote then False
      else case header_get hs ''X-Forwarded-For'' of
        None \<Rightarrow> True
      | Some forwarded \<Rightarrow>
          (let first_hop = py_strip (takeWhile (\<lambda>c. c \<noteq> CHR '','') forwarded) in
           \<not> (forwarded \<noteq> [] \<and> first_hop \<noteq> [] \<and> \<not> is_loopback_host (Some first_hop))))"

section \<open>Headers\<close>

definition INITIATORS :: "string list" where
  "INITIATORS = [''user'', ''agent'']"

definition inbound_initiator :: "headers \<Rightarrow> string option" where
  "inbound_initiator hs =
     (case find (\<lambda>(k, v). py_lower k = ''x-initiator'') hs of
        None \<Rightarrow> None
      | Some (k, v) \<Rightarrow> if py_lower (py_strip v) \<in> set INITIATORS then Some (py_lower (py_strip v)) else None)"

definition safe_request_headers :: "headers \<Rightarrow> headers" where
  "safe_request_headers hs =
     fold (\<lambda>(k, v) out. if py_lower k \<in> set REQUEST_HEADER_BLOCKLIST then out else AList.update k v out) hs []"

definition dropped_response_header :: "string \<Rightarrow> bool" where
  "dropped_response_header k =
     (let low = py_lower k in low \<in> set RESPONSE_HEADER_BLOCKLIST
        \<or> contains low ''token'' \<or> contains low ''secret'' \<or> contains low ''authorization'')"

definition safe_response_headers :: "headers \<Rightarrow> headers" where
  "safe_response_headers hs =
     fold (\<lambda>(k, v) out. if dropped_response_header k then out
                        else AList.update k (redact_copilot_secrets v []) out) hs []"

definition update_headers :: "headers \<Rightarrow> headers \<Rightarrow> headers" where
  "update_headers new hs = fold (\<lambda>(k, v) out. AList.update k v out) new hs"

definition upstream_url :: "string \<Rightarrow> string \<Rightarrow> string \<Rightarrow> string" where
  "upstream_url base_url tail query_string =
     (let path = dropWhile (\<lambda>c. c = CHR ''/'') tail;
          url = (if path = [] then rstrip_chars ''/'' base_url else rstrip_chars ''/'' base_url @ ''/'' @ path)
      in if query_string = [] then url else url @ ''?'' @ query_string)"

text \<open>The headers that go out: the inbound ones without the blocked ones and without any initiator, the plugin's,
  and the proxy's own.\<close>

definition outbound_headers :: "internal_token \<Rightarrow> headers \<Rightarrow> headers" where
  "outbound_headers token hs =
     update_headers
       [(''Authorization'', ''Bearer '' @ it_token token), (''Openai-Intent'', ''conversation-edits''),
        (''x-initiator'', case inbound_initiator hs of Some i \<Rightarrow> i | None \<Rightarrow> ''agent'')]
       (update_headers COPILOT_PLUGIN_HEADERS
          (filter (\<lambda>(k, v). py_lower k \<noteq> ''x-initiator'') (safe_request_headers hs)))"

section \<open>The handler\<close>

record proxy_request =
  pr_remote :: "string option"
  pr_method :: string
  pr_headers :: headers
  pr_tail :: string
  pr_query :: string
  pr_body :: string

record upstream_request =
  ur_method :: string
  ur_url :: string
  ur_headers :: headers
  ur_body :: string
  ur_proxy :: outbound_config

datatype proxy_reply =
    JsonError int string "string option"
  | EmptyReply int
  | BodyReply int string headers
  | StreamReply int "string list" headers
  | Crash

text \<open>A status and error, and the redacted detail (left out when empty).\<close>

definition proxy_json_error :: "int \<Rightarrow> string \<Rightarrow> string \<Rightarrow> string list \<Rightarrow> proxy_reply" where
  "proxy_json_error status error detail extra =
     JsonError status error (if detail = [] then None else Some (redact_copilot_secrets detail extra))"

definition auth_error_reply :: "auth_error \<Rightarrow> proxy_reply" where
  "auth_error_reply e = (case e of
       CopilotCredentialMissing m \<Rightarrow> proxy_json_error 401 ''copilot credential not configured'' [] []
     | CopilotTokenExchangeError m \<Rightarrow> proxy_json_error 502 ''copilot token exchange failed'' m []
     | OtherError m \<Rightarrow> proxy_json_error 502 ''copilot proxy unavailable'' m [])"

text \<open>What the upstream came to: an exception, or a status with headers, body and the chunks it streams in.\<close>

datatype upstream_answer = UpstreamFailed string | UpstreamAnswer int headers string "string list"

definition proxy_extra :: "internal_token \<Rightarrow> outbound_config \<Rightarrow> string list" where
  "proxy_extra token proxy =
     it_token token # (case oc_proxy_url proxy of Some u \<Rightarrow> if u = [] then [] else [u] | None \<Rightarrow> [])"

definition upstream_reply :: "internal_token \<Rightarrow> outbound_config \<Rightarrow> upstream_answer \<Rightarrow> proxy_reply" where
  "upstream_reply token proxy answer =
     (case answer of
        UpstreamFailed text \<Rightarrow> proxy_json_error 502 ''copilot upstream request failed'' text (proxy_extra token proxy)
      | UpstreamAnswer status hs body chunks \<Rightarrow>
          (let response_headers = safe_response_headers hs;
               content_type = (case header_get hs ''Content-Type'' of Some t \<Rightarrow> t | None \<Rightarrow> [])
           in if contains (py_lower content_type) ''text/event-stream'' then StreamReply status chunks response_headers
              else BodyReply status (if status \<ge> 400 then redact_copilot_secrets body [it_token token] else body) response_headers))"

text \<open>What the handler's services answer.\<close>

record proxy_world =
  pw_runtime_env :: environ
  pw_process_env :: environ
  pw_now :: rat
  pw_monotonic :: rat
  pw_route_answer :: capi_answer
  pw_models_answer :: capi_answer
  pw_upstream :: "upstream_request \<Rightarrow> upstream_answer"

text \<open>The request that goes upstream for an authorized one: body and session header after routing.\<close>

definition route_body ::
    "proxy_world \<Rightarrow> internal_token \<Rightarrow> outbound_config \<Rightarrow> proxy_request \<Rightarrow> auto_manager
     \<Rightarrow> (auto_error + (string \<times> auto_routing) option) \<times> auto_manager" where
  "route_body w token proxy rq m =
     (if pr_method rq = ''POST'' \<and> pr_body rq \<noteq> []
      then route_auto_request_body (pw_process_env w) token (oc_proxy_url proxy) (pw_now w) (pw_monotonic w)
             (pw_route_answer w) (pw_models_answer w) (pr_body rq) m
      else (Inr None, m))"

definition upstream_request_of ::
    "internal_token \<Rightarrow> outbound_config \<Rightarrow> proxy_request \<Rightarrow> (string \<times> auto_routing) option \<Rightarrow> upstream_request" where
  "upstream_request_of token proxy rq routed =
     (let hs = outbound_headers token (pr_headers rq);
          (body, hs') = (case routed of
             None \<Rightarrow> (pr_body rq, hs)
           | Some (b, r) \<Rightarrow> (b, case ar_session_token r of
                 Some s \<Rightarrow> if s = [] then hs else AList.update ''Copilot-Session-Token'' s hs | None \<Rightarrow> hs))
      in \<lparr>ur_method = pr_method rq, ur_url = upstream_url (it_api_base_url token) (pr_tail rq) (pr_query rq),
          ur_headers = hs', ur_body = body, ur_proxy = proxy\<rparr>)"

text \<open>\<open>token\<close> is what \<open>get_token\<close> gave. The reply, the requests that went upstream, and the manager after it.\<close>

definition copilot_proxy_handler ::
    "proxy_world \<Rightarrow> (auth_error + internal_token) \<Rightarrow> proxy_request \<Rightarrow> auto_manager
     \<Rightarrow> proxy_reply \<times> upstream_request list \<times> auto_manager" where
  "copilot_proxy_handler w token_result rq m =
     (if \<not> request_is_loopback (pr_remote rq) (pr_headers rq) then (proxy_json_error 403 ''forbidden'' [] [], [], m)
      else if pr_method rq = ''OPTIONS'' then (EmptyReply 204, [], m)
      else if pr_method rq \<notin> {''GET'', ''POST''} then (proxy_json_error 405 ''method not allowed'' [] [], [], m)
      else case token_result of
        Inl e \<Rightarrow> (auth_error_reply e, [], m)
      | Inr token \<Rightarrow>
          (case outbound_proxy_config_for_url (pw_runtime_env w) (pw_process_env w)
                  (upstream_url (it_api_base_url token) (pr_tail rq) (pr_query rq)) of
             None \<Rightarrow> (Crash, [], m)
           | Some proxy \<Rightarrow>
               (case route_body w token proxy rq m of
                  (Inl e, m') \<Rightarrow> (Crash, [], m')
                | (Inr routed, m') \<Rightarrow>
                    (let up = upstream_request_of token proxy rq routed
                     in (upstream_reply token proxy (pw_upstream w up), [up], m')))))"

section \<open>What goes upstream\<close>

lemma fold_update_in:
  "(k, v) \<in> set (update_headers new hs) \<Longrightarrow> (k, v) \<in> set new \<or> (k, v) \<in> set hs"
proof (induction new arbitrary: hs)
  case Nil
  then show ?case by (simp add: update_headers_def)
next
  case (Cons a new)
  obtain k' v' where a: "a = (k', v')" by fastforce
  have "(k, v) \<in> set (update_headers new (AList.update k' v' hs))"
    using Cons.prems a by (simp add: update_headers_def)
  from Cons.IH [OF this] show ?case using a by (auto dest: in_set_update)
qed

lemma safe_headers_fold:
  "\<forall>(k, v) \<in> set acc. \<not> P k \<Longrightarrow>
   \<forall>(k, v) \<in> set (fold (\<lambda>(k, v) out. if P k then out else AList.update k (f v) out) hs acc). \<not> P k"
proof (induction hs arbitrary: acc)
  case Nil
  then show ?case by simp
next
  case (Cons a hs)
  obtain k v where a: "a = (k, v)" by fastforce
  have "\<forall>(k', v') \<in> set (if P k then acc else AList.update k (f v) acc). \<not> P k'"
    using Cons.prems by (auto dest!: in_set_update split: if_splits)
  from Cons.IH [OF this] show ?case by (simp add: a)
qed

lemma safe_request_header: "(k, v) \<in> set (safe_request_headers hs) \<Longrightarrow> py_lower k \<notin> set REQUEST_HEADER_BLOCKLIST"
  using safe_headers_fold [of "[]" "\<lambda>k. py_lower k \<in> set REQUEST_HEADER_BLOCKLIST" "\<lambda>v. v" hs]
  by (auto simp: safe_request_headers_def)

lemma safe_response_header: "(k, v) \<in> set (safe_response_headers hs) \<Longrightarrow> \<not> dropped_response_header k"
  using safe_headers_fold [of "[]" dropped_response_header "\<lambda>v. redact_copilot_secrets v []" hs]
  by (auto simp: safe_response_headers_def)

definition harmless_header :: "string \<Rightarrow> bool" where
  "harmless_header k = (py_lower k \<notin> set REQUEST_HEADER_BLOCKLIST \<and> py_lower k \<noteq> ''x-initiator'')"

lemma plugin_headers_harmless: "list_all harmless_header (List.map fst COPILOT_PLUGIN_HEADERS)"
  by code_simp

lemma own_headers_harmless: "harmless_header ''Openai-Intent''" "harmless_header ''Copilot-Session-Token''"
  "py_lower ''x-initiator'' \<notin> set REQUEST_HEADER_BLOCKLIST"
  by code_simp+

lemma lower_authorization: "py_lower ''Authorization'' \<noteq> ''x-initiator''"
  by code_simp

definition initiator_of :: "headers \<Rightarrow> string" where
  "initiator_of hs = (case inbound_initiator hs of Some i \<Rightarrow> i | None \<Rightarrow> ''agent'')"

lemma initiator_known: "initiator_of hs \<in> set INITIATORS"
  by (auto simp: initiator_of_def inbound_initiator_def INITIATORS_def split: option.splits if_splits)

definition own_header :: "internal_token \<Rightarrow> headers \<Rightarrow> string \<Rightarrow> string \<Rightarrow> bool" where
  "own_header token hs k v = (harmless_header k \<or> (k = ''Authorization'' \<and> v = ''Bearer '' @ it_token token)
     \<or> (k = ''x-initiator'' \<and> v = initiator_of hs))"

lemma outbound_header_own: "(k, v) \<in> set (outbound_headers token hs) \<Longrightarrow> own_header token hs k v"
proof -
  assume "(k, v) \<in> set (outbound_headers token hs)"
  then consider "(k, v) \<in> {(''Authorization'', ''Bearer '' @ it_token token), (''Openai-Intent'', ''conversation-edits''),
        (''x-initiator'', initiator_of hs)}"
    | "(k, v) \<in> set COPILOT_PLUGIN_HEADERS"
    | "(k, v) \<in> set (filter (\<lambda>(k, v). py_lower k \<noteq> ''x-initiator'') (safe_request_headers hs))"
    unfolding outbound_headers_def initiator_of_def by (auto dest!: fold_update_in)
  then show ?thesis
  proof cases
    case 1
    then show ?thesis using own_headers_harmless by (auto simp: own_header_def)
  next
    case 2
    then have "k \<in> set (List.map fst COPILOT_PLUGIN_HEADERS)" by force
    then show ?thesis using plugin_headers_harmless unfolding own_header_def list_all_iff by blast
  next
    case 3
    then show ?thesis using safe_request_header [of k v hs] by (auto simp: own_header_def harmless_header_def)
  qed
qed

lemma outbound_authorization: "map_of (outbound_headers token hs) ''Authorization'' = Some (''Bearer '' @ it_token token)"
  by (simp add: outbound_headers_def update_headers_def)

lemma upstream_headers_cases:
  "ur_headers (upstream_request_of token proxy rq routed) = outbound_headers token (pr_headers rq)
   \<or> (\<exists>s. ur_headers (upstream_request_of token proxy rq routed)
            = AList.update ''Copilot-Session-Token'' s (outbound_headers token (pr_headers rq)))"
  by (auto simp: upstream_request_of_def Let_def split: option.split prod.split)

lemma upstream_headers_own:
  assumes "(k, v) \<in> set (ur_headers (upstream_request_of token proxy rq routed))"
  shows "own_header token (pr_headers rq) k v"
proof -
  from upstream_headers_cases [of token proxy rq routed] assms
  consider "(k, v) \<in> set (outbound_headers token (pr_headers rq))" | "k = ''Copilot-Session-Token''"
    by (elim disjE exE) (auto dest: in_set_update)
  then show ?thesis using outbound_header_own own_headers_harmless(2) by cases (auto simp: own_header_def)
qed

lemma upstream_authorization:
  "map_of (ur_headers (upstream_request_of token proxy rq routed)) ''Authorization'' = Some (''Bearer '' @ it_token token)"
  using upstream_headers_cases [of token proxy rq routed] outbound_authorization by (elim disjE exE) simp_all

text \<open>The headers the proxy must never pass on from its caller, by their lower-case names: credentials first, then what belongs
  to the one connection.\<close>

definition CALLERS_OWN_HEADERS :: "string list" where
  "CALLERS_OWN_HEADERS = [''authorization'', ''x-api-key'', ''proxy-authorization'', ''proxy-authenticate'', ''host'', ''content-length'',
     ''connection'', ''keep-alive'', ''te'', ''trailer'', ''transfer-encoding'', ''upgrade'']"

lemma callers_own_blocked:
  assumes "k \<in> set CALLERS_OWN_HEADERS"
  shows "k \<in> set REQUEST_HEADER_BLOCKLIST"
proof -
  have "list_all (\<lambda>h. h \<in> set REQUEST_HEADER_BLOCKLIST) CALLERS_OWN_HEADERS"
    by (simp add: CALLERS_OWN_HEADERS_def REQUEST_HEADER_BLOCKLIST_def)
  with assms show ?thesis by (simp add: list_all_iff)
qed


definition sample_request :: proxy_request where
  "sample_request = \<lparr>pr_remote = Some ''localhost'', pr_method = ''GET'', pr_headers = [(''Authorization'', ''Bearer mine'')],
     pr_tail = ''models'', pr_query = [], pr_body = []\<rparr>"

definition sample_world :: proxy_world where
  "sample_world = \<lparr>pw_runtime_env = [(''EFP_LLM_PROXY'', ''none'')], pw_process_env = [], pw_now = 0, pw_monotonic = 0,
     pw_route_answer = CapiFailed [], pw_models_answer = CapiFailed [], pw_upstream = (\<lambda>u. UpstreamFailed ''down'')\<rparr>"

lemma sample_is_loopback: "request_is_loopback (Some ''localhost'') [(''Authorization'', ''Bearer mine'')]"
  by code_simp

lemma sample_forwards:
  "\<exists>reply up. copilot_proxy_handler sample_world (Inr sample_token) sample_request new_auto_manager
     = (reply, [up], new_auto_manager)"
  using sample_is_loopback
  by (simp add: copilot_proxy_handler_def sample_request_def sample_world_def sample_direct route_body_def Let_def)


end
