(* ===== verification/CopilotPricing.thy ===== *)
theory CopilotPricing
  imports CopilotCatalog
begin

text \<open>
  Copilot AI-credit pricing (\<^verbatim>\<open>copilot_pricing.py\<close>): the price table, the tier of a request, dollars and credits
  for its tokens, and the estimate for a usage row. Prices and sums are IEEE doubles: every literal, product,
  sum, quotient and decimal rounding is rounded to the nearest double as Python does it.
\<close>

section \<open>Double arithmetic\<close>

definition ff_of_rat :: "rat \<Rightarrow> ffloat" where
  "ff_of_rat r = (case to_double r of None \<Rightarrow> FInf (r < 0) | Some d \<Rightarrow> FFin d)"

definition dbl :: "rat \<Rightarrow> rat" where
  "dbl r = (case to_double r of None \<Rightarrow> 0 | Some d \<Rightarrow> d)"

text \<open>An integer times a float; the integer is converted first, which may overflow.\<close>

definition int_times :: "int \<Rightarrow> rat \<Rightarrow> py_error + ffloat" where
  "int_times n p = (case to_double (of_int n) of None \<Rightarrow> Inl OverflowError | Some d \<Rightarrow> Inr (ff_of_rat (d * p)))"

fun ff_add :: "ffloat \<Rightarrow> ffloat \<Rightarrow> ffloat" where
  "ff_add (FFin a) (FFin b) = ff_of_rat (a + b)"
| "ff_add (FInf s) (FFin b) = FInf s"
| "ff_add (FFin a) (FInf s) = FInf s"
| "ff_add (FInf s) (FInf t) = (if s = t then FInf s else FNaN)"
| "ff_add FNaN _ = FNaN"
| "ff_add _ FNaN = FNaN"

text \<open>Division by a positive float, and \<^verbatim>\<open>round(x, n)\<close>: the exact value to \<open>n\<close> decimals, ties to even.\<close>

definition ff_div :: "ffloat \<Rightarrow> rat \<Rightarrow> ffloat" where
  "ff_div x c = (case x of FFin a \<Rightarrow> ff_of_rat (a / c) | y \<Rightarrow> y)"

definition ff_round :: "nat \<Rightarrow> ffloat \<Rightarrow> ffloat" where
  "ff_round n x = (case x of FFin a \<Rightarrow> ff_of_rat (of_int (round_half_even (a * 10 ^ n)) / 10 ^ n) | y \<Rightarrow> y)"

section \<open>The table\<close>

datatype pricing_tier = DEFAULT_TIER | LONG_CONTEXT_TIER

record tier_price =
  tp_input :: rat
  tp_cached_input :: rat
  tp_cache_write :: rat
  tp_output :: rat

record model_pricing =
  mp_model :: string
  mp_threshold_tokens :: "int option"
  mp_default :: tier_price
  mp_long_context :: "tier_price option"

definition CREDIT_USD :: rat where
  "CREDIT_USD = dbl (1 / 100)"

definition GPT6_LONG_CONTEXT_THRESHOLD_TOKENS :: int where
  "GPT6_LONG_CONTEXT_THRESHOLD_TOKENS = 272000"

definition GPT56_LUNA_LONG_CONTEXT_THRESHOLD_TOKENS :: int where
  "GPT56_LUNA_LONG_CONTEXT_THRESHOLD_TOKENS = 200000"

definition tier_for :: "model_pricing \<Rightarrow> int \<Rightarrow> pricing_tier" where
  "tier_for p prompt_tokens =
     (case (mp_long_context p, mp_threshold_tokens p) of
        (Some l, Some t) \<Rightarrow> if prompt_tokens > t then LONG_CONTEXT_TIER else DEFAULT_TIER
      | _ \<Rightarrow> DEFAULT_TIER)"

definition price_for :: "model_pricing \<Rightarrow> pricing_tier \<Rightarrow> tier_price" where
  "price_for p tier = (case (tier, mp_long_context p) of (LONG_CONTEXT_TIER, Some l) \<Rightarrow> l | _ \<Rightarrow> mp_default p)"

definition price_row :: "rat list \<Rightarrow> tier_price" where
  "price_row r = (case r of
       [a, b, c, d] \<Rightarrow> \<lparr>tp_input = dbl a, tp_cached_input = dbl b, tp_cache_write = dbl c, tp_output = dbl d\<rparr>
     | _ \<Rightarrow> \<lparr>tp_input = 0, tp_cached_input = 0, tp_cache_write = 0, tp_output = 0\<rparr>)"

definition gpt6 :: "string \<Rightarrow> rat list \<Rightarrow> rat list \<Rightarrow> int \<Rightarrow> string \<times> model_pricing" where
  "gpt6 model default_row long_row threshold =
     (model, \<lparr>mp_model = model, mp_threshold_tokens = Some threshold, mp_default = price_row default_row,
              mp_long_context = Some (price_row long_row)\<rparr>)"

definition COPILOT_MODEL_PRICING :: "(string \<times> model_pricing) list" where
  "COPILOT_MODEL_PRICING =
     [gpt6 ''gpt-6.1-sol'' [2, 1/10, 5/2, 10] [4, 2/10, 5, 15] GPT6_LONG_CONTEXT_THRESHOLD_TOKENS,
      gpt6 ''gpt-6-sol'' [2, 2/10, 5/2, 10] [4, 4/10, 5, 15] GPT6_LONG_CONTEXT_THRESHOLD_TOKENS,
      gpt6 ''gpt-6-luna'' [1/10, 1/100, 1/8, 1/2] [2/10, 2/100, 1/4, 3/4] GPT6_LONG_CONTEXT_THRESHOLD_TOKENS,
      gpt6 ''gpt-6-astra'' [10, 1, 25/2, 50] [20, 2, 25, 75] GPT6_LONG_CONTEXT_THRESHOLD_TOKENS,
      gpt6 ''gpt-6.1-terra'' [1, 5/100, 5/4, 5] [2, 1/10, 5/2, 15/2] GPT6_LONG_CONTEXT_THRESHOLD_TOKENS,
      gpt6 ''gpt-5.6-sol'' [4, 4/10, 5, 20] [8, 8/10, 10, 30] GPT6_LONG_CONTEXT_THRESHOLD_TOKENS,
      gpt6 ''gpt-5.6-terra'' [2, 2/10, 5/2, 12] [4, 4/10, 5, 18] GPT6_LONG_CONTEXT_THRESHOLD_TOKENS,
      gpt6 ''gpt-5.6-luna'' [2/10, 2/100, 1/4, 12/10] [4/10, 4/100, 1/2, 18/10] GPT56_LUNA_LONG_CONTEXT_THRESHOLD_TOKENS]"

text \<open>\<^verbatim>\<open>normalize_pricing_model_id\<close> reads an id as \<^verbatim>\<open>_normalize_model_id\<close> of the catalog does, line for line.\<close>

definition normalize_pricing_model_id :: "jval \<Rightarrow> string" where
  "normalize_pricing_model_id v =
     (case v of
        JStr s \<Rightarrow>
          (let text = py_lower (py_strip s);
               text' = (if CHR ''/'' \<in> set text then tl (dropWhile (\<lambda>c. c \<noteq> CHR ''/'') text) else text)
           in join_with ''-'' (py_words text'))
      | _ \<Rightarrow> [])"

definition pricing_for :: "jval \<Rightarrow> model_pricing option" where
  "pricing_for model =
     (if normalize_pricing_model_id model = [] then None else map_of COPILOT_MODEL_PRICING (normalize_pricing_model_id model))"

definition billing_threshold_tokens :: "jval \<Rightarrow> int option" where
  "billing_threshold_tokens model =
     (case pricing_for model of None \<Rightarrow> None
      | Some p \<Rightarrow> if mp_long_context p = None then None else mp_threshold_tokens p)"

section \<open>Dollars and credits\<close>

definition token_count :: "jval \<Rightarrow> int" where
  "token_count v =
     (case v of JNull \<Rightarrow> 0 | JBool b \<Rightarrow> 0
      | _ \<Rightarrow> (case py_float v of Inl e \<Rightarrow> 0 | Inr f \<Rightarrow> (case int_of_float f of Inl e \<Rightarrow> 0 | Inr i \<Rightarrow> max 0 i)))"

definition pricing_tier_of :: "jval \<Rightarrow> jval \<Rightarrow> pricing_tier option" where
  "pricing_tier_of model prompt_tokens = map_option (\<lambda>p. tier_for p (token_count prompt_tokens)) (pricing_for model)"

text \<open>The token arguments of \<^verbatim>\<open>usd_for\<close>.\<close>

record token_usage =
  tu_input :: jval
  tu_cached_input :: jval
  tu_cache_write :: jval
  tu_output :: jval
  tu_reasoning :: jval

record token_buckets =
  tb_uncached :: int
  tb_cached :: int
  tb_written :: int
  tb_output :: int

definition buckets_of :: "token_usage \<Rightarrow> token_buckets" where
  "buckets_of u =
     (let prompt = token_count (tu_input u);
          cached = min (token_count (tu_cached_input u)) prompt;
          written = min (token_count (tu_cache_write u)) (max 0 (prompt - cached))
      in \<lparr>tb_uncached = max 0 (prompt - cached - written), tb_cached = cached, tb_written = written,
          tb_output = token_count (tu_output u) + token_count (tu_reasoning u)\<rparr>)"

definition price_buckets :: "tier_price \<Rightarrow> token_buckets \<Rightarrow> py_error + ffloat" where
  "price_buckets p b =
     (case int_times (tb_uncached b) (tp_input p) of Inl e \<Rightarrow> Inl e
      | Inr x1 \<Rightarrow> (case int_times (tb_cached b) (tp_cached_input p) of Inl e \<Rightarrow> Inl e
      | Inr x2 \<Rightarrow> (case int_times (tb_written b) (tp_cache_write p) of Inl e \<Rightarrow> Inl e
      | Inr x3 \<Rightarrow> (case int_times (tb_output b) (tp_output p) of Inl e \<Rightarrow> Inl e
      | Inr x4 \<Rightarrow> Inr (ff_round 6 (ff_div (ff_add (ff_add (ff_add x1 x2) x3) x4) 1000000))))))"

text \<open>\<^verbatim>\<open>None\<close> for a model the table does not know.\<close>

definition usd_for :: "jval \<Rightarrow> token_usage \<Rightarrow> pricing_tier option \<Rightarrow> (py_error + ffloat) option" where
  "usd_for model u tier =
     (case pricing_for model of None \<Rightarrow> None
      | Some p \<Rightarrow> Some (price_buckets
          (price_for p (case tier of Some t \<Rightarrow> t | None \<Rightarrow> tier_for p (token_count (tu_input u)))) (buckets_of u)))"

definition credits_for :: "jval \<Rightarrow> token_usage \<Rightarrow> pricing_tier option \<Rightarrow> (py_error + ffloat) option" where
  "credits_for model u tier =
     map_option (\<lambda>r. case r of Inl e \<Rightarrow> Inl e | Inr usd \<Rightarrow> Inr (ff_round 2 (ff_div usd CREDIT_USD))) (usd_for model u tier)"

record pricing_payload =
  pl_model :: string
  pl_tier :: "pricing_tier option"
  pl_threshold_tokens :: "int option"

definition pricing_payload_of :: "jval \<Rightarrow> pricing_tier option \<Rightarrow> pricing_payload" where
  "pricing_payload_of model tier =
     \<lparr>pl_model = normalize_pricing_model_id model, pl_tier = (if pricing_for model = None then None else tier),
      pl_threshold_tokens = (case pricing_for model of Some p \<Rightarrow> if mp_long_context p = None then None else mp_threshold_tokens p
                             | None \<Rightarrow> None)\<rparr>"

record usage_estimate =
  ue_credits :: "ffloat option"
  ue_pricing :: pricing_payload
  ue_cache_hit_ratio :: "ffloat option"

text \<open>\<^verbatim>\<open>a / b\<close> of two integers: the exact quotient rounded once.\<close>

definition cache_ratio :: "int \<Rightarrow> int \<Rightarrow> ffloat option" where
  "cache_ratio cached prompt =
     (if prompt > 0 then Some (ff_round 4 (ff_of_rat (of_int (min cached prompt) / of_int prompt))) else None)"

definition estimate_usage_credits :: "jval \<Rightarrow> jobj \<Rightarrow> jval \<Rightarrow> py_error + usage_estimate" where
  "estimate_usage_credits model usage largest_prompt_tokens =
     (let prompt = token_count (jget usage ''input_tokens''); cached = token_count (jget usage ''cached_input_tokens'');
          tier_prompt = (if largest_prompt_tokens = JNull then prompt else token_count largest_prompt_tokens);
          tier = pricing_tier_of model (JInt tier_prompt);
          u = \<lparr>tu_input = JInt prompt, tu_cached_input = JInt cached, tu_cache_write = jget usage ''cache_write_tokens'',
               tu_output = jget usage ''output_tokens'', tu_reasoning = jget usage ''reasoning_tokens''\<rparr>;
          result = (\<lambda>c. \<lparr>ue_credits = c, ue_pricing = pricing_payload_of model tier, ue_cache_hit_ratio = cache_ratio cached prompt\<rparr>)
      in case credits_for model u tier of
           None \<Rightarrow> Inr (result None) | Some (Inl e) \<Rightarrow> Inl e | Some (Inr c) \<Rightarrow> Inr (result (Some c)))"

section \<open>Bounds\<close>

lemma round_half_even_nonneg: "0 \<le> q \<Longrightarrow> 0 \<le> round_half_even q"
  by (simp add: round_half_even_def Let_def)

lemma round_half_even_le: "q \<le> of_int m \<Longrightarrow> round_half_even q \<le> m"
proof -
  assume q: "q \<le> of_int m"
  show ?thesis
  proof (cases "q = of_int m")
    case True
    then show ?thesis by simp
  next
    case False
    with q have "\<lfloor>q\<rfloor> < m" by (simp add: floor_less_iff)
    then show ?thesis by (simp add: round_half_even_def Let_def)
  qed
qed

lemma exp2_pos: "0 < exp2 e"
  by (simp add: exp2_def)

lemma to_double_nonneg: "0 \<le> x \<Longrightarrow> to_double x = Some r \<Longrightarrow> 0 \<le> r"
proof -
  assume x: "0 \<le> x" and r: "to_double x = Some r"
  show "0 \<le> r"
  proof (cases "x = 0")
    case True
    with r show ?thesis by (simp add: to_double_def)
  next
    case False
    define e where "e = max (ilog2 x - 52) (- 1074)"
    have "r = of_int (round_half_even (x / exp2 e)) * exp2 e"
      using r False x by (simp add: to_double_def Let_def split: if_splits flip: e_def)
    moreover have "0 \<le> round_half_even (x / exp2 e)" using exp2_pos [of e] x by (intro round_half_even_nonneg) simp
    ultimately show ?thesis using exp2_pos [of e] by simp
  qed
qed

lemma ff_of_rat_nonneg: "0 \<le> r \<Longrightarrow> (case ff_of_rat r of FFin d \<Rightarrow> 0 \<le> d | FInf neg \<Rightarrow> \<not> neg | FNaN \<Rightarrow> False)"
  by (auto simp: ff_of_rat_def split: option.split dest: to_double_nonneg)

definition ff_nonneg :: "ffloat \<Rightarrow> bool" where
  "ff_nonneg x = (case x of FFin d \<Rightarrow> 0 \<le> d | FInf neg \<Rightarrow> \<not> neg | FNaN \<Rightarrow> False)"

lemma ff_nonneg_simps [simp]: "ff_nonneg (FFin d) = (0 \<le> d)" "ff_nonneg (FInf b) = (\<not> b)" "\<not> ff_nonneg FNaN"
  by (simp_all add: ff_nonneg_def)

lemma ff_of_rat_ok [intro]: "0 \<le> r \<Longrightarrow> ff_nonneg (ff_of_rat r)"
  by (simp add: ff_nonneg_def ff_of_rat_nonneg)

lemma ff_add_ok [intro]: "ff_nonneg x \<Longrightarrow> ff_nonneg y \<Longrightarrow> ff_nonneg (ff_add x y)"
  by (cases x; cases y) auto

lemma ff_div_ok [intro]: "ff_nonneg x \<Longrightarrow> 0 < c \<Longrightarrow> ff_nonneg (ff_div x c)"
  by (cases x) (auto simp: ff_div_def)

lemma ff_round_ok [intro]: "ff_nonneg x \<Longrightarrow> ff_nonneg (ff_round n x)"
  by (cases x) (auto simp: ff_round_def intro!: ff_of_rat_ok divide_nonneg_nonneg round_half_even_nonneg)

lemma int_times_ok: "int_times n p = Inr x \<Longrightarrow> 0 \<le> n \<Longrightarrow> 0 \<le> p \<Longrightarrow> ff_nonneg x"
  using to_double_nonneg [of "of_int n"]
  by (auto simp: int_times_def split: option.splits intro!: ff_of_rat_ok mult_nonneg_nonneg)

lemma dbl_nonneg: "0 \<le> r \<Longrightarrow> 0 \<le> dbl r"
  by (auto simp: dbl_def split: option.split dest: to_double_nonneg)

lemma bitlen_mono: "m \<le> n \<Longrightarrow> bitlen m \<le> bitlen n"
proof (cases "0 < n")
  case True
  assume "m \<le> n"
  with bitlen_bounds [OF True] have "m < 2 ^ bitlen n" by linarith
  then show ?thesis by (rule bitlen_le)
qed (simp add: bitlen.simps)

lemma ilog2_le_one:
  assumes "0 < x" and "x \<le> 1"
  shows "ilog2 x \<le> 0"
proof -
  obtain n d where q: "quotient_of x = (n, d)" by fastforce
  then have d: "0 < d" and x: "x = of_int n / of_int d" by (auto dest: quotient_of_denom_pos quotient_of_div)
  with assms(2) have "n \<le> d" by (simp add: divide_le_eq)
  then have "bitlen n \<le> bitlen d" by (rule bitlen_mono)
  then show ?thesis by (simp add: ilog2_def q Let_def)
qed

lemma to_double_unit:
  assumes "0 \<le> x" and "x \<le> 1"
  shows "\<exists>r. to_double x = Some r \<and> 0 \<le> r \<and> r \<le> 1"
proof (cases "x = 0")
  case True
  then show ?thesis by (simp add: to_double_def)
next
  case False
  with assms have x: "0 < x" by simp
  define e where "e = max (ilog2 x - 52) (- 1074)"
  define s where "s = nat (- e)"
  have "e \<le> 0" using ilog2_le_one [OF x assms(2)] by (simp add: e_def)
  then have ee: "exp2 e = 1 / 2 ^ s" by (cases "e = 0") (auto simp: exp2_def s_def)
  have "x / exp2 e \<le> of_int (2 ^ s)" using assms(2) by (simp add: ee)
  then have "round_half_even (x / exp2 e) \<le> 2 ^ s" by (rule round_half_even_le)
  then have "of_int (round_half_even (x / exp2 e)) \<le> (of_int (2 ^ s) :: rat)" by (simp only: of_int_le_iff)
  then have r: "of_int (round_half_even (x / exp2 e)) * exp2 e \<le> 1" by (simp add: ee)
  have "to_double x = Some (of_int (round_half_even (x / exp2 e)) * exp2 e)"
    using x r by (simp add: to_double_def Let_def flip: e_def)
  moreover from this have "0 \<le> of_int (round_half_even (x / exp2 e)) * exp2 e" using assms(1) to_double_nonneg by blast
  ultimately show ?thesis using r by blast
qed

definition unit_float :: "ffloat \<Rightarrow> bool" where
  "unit_float x = (case x of FFin r \<Rightarrow> 0 \<le> r \<and> r \<le> 1 | _ \<Rightarrow> False)"

lemma ff_of_rat_unit: "0 \<le> x \<Longrightarrow> x \<le> 1 \<Longrightarrow> unit_float (ff_of_rat x)"
  using to_double_unit [of x] by (auto simp: ff_of_rat_def unit_float_def)

lemma ff_round_unit: "unit_float x \<Longrightarrow> unit_float (ff_round n x)"
proof (cases x)
  case (FFin a)
  assume "unit_float x"
  with FFin have a: "0 \<le> a" "a \<le> 1" by (auto simp: unit_float_def)
  have "a * 10 ^ n \<le> of_int (10 ^ n)" using a(2) by simp
  then have "round_half_even (a * 10 ^ n) \<le> 10 ^ n" by (rule round_half_even_le)
  then have "of_int (round_half_even (a * 10 ^ n)) \<le> (of_int (10 ^ n) :: rat)" by (simp only: of_int_le_iff)
  moreover have "0 \<le> round_half_even (a * 10 ^ n)" using a(1) by (intro round_half_even_nonneg) simp
  ultimately show ?thesis using FFin by (auto simp: ff_round_def intro!: ff_of_rat_unit)
qed (simp_all add: unit_float_def)

lemma cache_ratio_unit: "0 \<le> cached \<Longrightarrow> (case cache_ratio cached prompt of None \<Rightarrow> prompt \<le> 0 | Some r \<Rightarrow> unit_float r)"
  by (auto simp: cache_ratio_def intro!: ff_round_unit ff_of_rat_unit)

lemma token_count_nonneg [simp]: "0 \<le> token_count v"
  by (auto simp: token_count_def split: jval.split sum.split)

lemma buckets_partition:
  "tb_uncached (buckets_of u) + tb_cached (buckets_of u) + tb_written (buckets_of u) = token_count (tu_input u)
   \<and> 0 \<le> tb_uncached (buckets_of u) \<and> 0 \<le> tb_cached (buckets_of u) \<and> 0 \<le> tb_written (buckets_of u)
   \<and> 0 \<le> tb_output (buckets_of u)"
  using token_count_nonneg [of "tu_input u"] token_count_nonneg [of "tu_cached_input u"]
    token_count_nonneg [of "tu_cache_write u"] token_count_nonneg [of "tu_output u"] token_count_nonneg [of "tu_reasoning u"]
  by (auto simp: buckets_of_def Let_def min_def max_def)

definition price_ok :: "tier_price \<Rightarrow> bool" where
  "price_ok p = (0 \<le> tp_input p \<and> 0 \<le> tp_cached_input p \<and> 0 \<le> tp_cache_write p \<and> 0 \<le> tp_output p)"

lemma price_row_ok: "list_all (\<lambda>x. 0 \<le> x) r \<Longrightarrow> price_ok (price_row r)"
  by (auto simp: price_ok_def price_row_def dbl_nonneg split: list.split)

lemma table_prices: "list_all (\<lambda>(k, p). price_ok (mp_default p) \<and> (case mp_long_context p of None \<Rightarrow> True | Some l \<Rightarrow> price_ok l))
    COPILOT_MODEL_PRICING"
  unfolding COPILOT_MODEL_PRICING_def gpt6_def by (simp add: price_row_ok)

lemma price_for_ok: "pricing_for model = Some p \<Longrightarrow> price_ok (price_for p tier)"
proof -
  assume "pricing_for model = Some p"
  then have "(normalize_pricing_model_id model, p) \<in> set COPILOT_MODEL_PRICING"
    by (auto simp: pricing_for_def split: if_splits dest: map_of_SomeD)
  then have "price_ok (mp_default p) \<and> (case mp_long_context p of None \<Rightarrow> True | Some l \<Rightarrow> price_ok l)"
    using table_prices by (auto simp: list_all_iff)
  then show ?thesis by (auto simp: price_for_def split: pricing_tier.split option.splits)
qed

lemma price_buckets_ok:
  "price_ok p \<Longrightarrow> price_buckets p (buckets_of u) = Inr x \<Longrightarrow> ff_nonneg x"
  using buckets_partition [of u]
  by (auto simp: price_buckets_def price_ok_def split: sum.splits
      intro!: ff_round_ok ff_div_ok ff_add_ok dest!: int_times_ok)

lemma credit_pos: "0 < CREDIT_USD"
  by code_simp

text \<open>Whatever a usage row holds, the tokens that are charged split the prompt exactly into uncached, cached
  and written ones, none of them negative; an estimate's credits are never negative nor undefined, and its
  cache hit ratio lies between 0 and 1 and is absent exactly when there is no prompt.\<close>

theorem usage_estimate_bounds:
  "let b = buckets_of u in
     tb_uncached b + tb_cached b + tb_written b = token_count (tu_input u)
     \<and> min (tb_uncached b) (min (tb_cached b) (min (tb_written b) (tb_output b))) \<ge> 0
     \<and> (case estimate_usage_credits model usage largest of
          Inl e \<Rightarrow> True
        | Inr est \<Rightarrow>
            (case ue_credits est of None \<Rightarrow> pricing_for model = None | Some c \<Rightarrow> ff_nonneg c)
            \<and> (case ue_cache_hit_ratio est of
                 None \<Rightarrow> token_count (jget usage ''input_tokens'') = 0
               | Some r \<Rightarrow> unit_float r))"
proof -
  have usd: "ff_nonneg x" if "usd_for model v tier = Some (Inr x)" for v tier x
    using that by (auto simp: usd_for_def split: option.splits dest: price_buckets_ok [OF price_for_ok])
  have credits: "ff_nonneg c" if "credits_for model v tier = Some (Inr c)" for v tier c
  proof -
    from that obtain r where r: "usd_for model v tier = Some r" by (auto simp: credits_for_def)
    with that obtain x where "r = Inr x" "c = ff_round 2 (ff_div x CREDIT_USD)"
      by (cases r) (auto simp: credits_for_def)
    with r have "usd_for model v tier = Some (Inr x)" "c = ff_round 2 (ff_div x CREDIT_USD)" by simp_all
    then show ?thesis using usd by (auto intro!: ff_round_ok ff_div_ok credit_pos)
  qed
  have none: "pricing_for model = None" if "credits_for model v tier = None" for v tier
    using that by (auto simp: credits_for_def usd_for_def split: option.splits)
  have ratio: "case cache_ratio (token_count (jget usage ''cached_input_tokens'')) (token_count (jget usage ''input_tokens'')) of
      None \<Rightarrow> token_count (jget usage ''input_tokens'') = 0 | Some r \<Rightarrow> unit_float r"
    using cache_ratio_unit [OF token_count_nonneg, of "token_count (jget usage ''input_tokens'')" "jget usage ''cached_input_tokens''"]
      token_count_nonneg [of "jget usage ''input_tokens''"]
    by (auto split: option.splits intro: order.antisym simp del: token_count_nonneg)
  show ?thesis using buckets_partition [of u] ratio credits none
    by (auto simp: Let_def estimate_usage_credits_def split: option.splits sum.splits)
qed

end
