(* ===== verification/PermissionGenerator.thy ===== *)
theory PermissionGenerator
  imports PyPrelude
begin

text \<open>
  The permission table OpenCode is started with (\<^verbatim>\<open>permission_generator.py\<close>): the two baselines, the rules a
  runtime profile adds, the denial of built-in tools and the state of each skill. A table is a JSON object;
  the Python sets of names are lists of which only membership is used.
\<close>

section \<open>Baselines\<close>

definition BUILTIN_PERMISSION_ALIASES :: "(string \<times> string list) list" where
  "BUILTIN_PERMISSION_ALIASES =
     [(''read'', [''read'', ''opencode.builtin.read'']),
      (''glob'', [''glob'', ''opencode.builtin.glob'']),
      (''grep'', [''grep'', ''opencode.builtin.grep'']),
      (''edit'', [''edit'', ''opencode.builtin.edit'']),
      (''write'', [''write'', ''opencode.builtin.write'']),
      (''bash'', [''bash'', ''opencode.builtin.bash'']),
      (''todowrite'', [''todowrite'', ''opencode.builtin.todowrite'']),
      (''webfetch'', [''webfetch'', ''opencode.builtin.webfetch'']),
      (''websearch'', [''websearch'', ''opencode.builtin.websearch'']),
      (''question'', [''question'', ''opencode.builtin.question'']),
      (''skill'', [''skill'', ''opencode.builtin.skill''])]"

definition normalize_permission_mode :: "jval \<Rightarrow> string" where
  "normalize_permission_mode raw =
     (if py_lower (py_strip (str_or_empty raw)) \<in> {''profile_policy'', ''profile-policy'', ''policy'', ''restricted''}
      then ''profile_policy'' else ''workspace_full_access'')"

definition atlassian_bash :: jobj where
  "atlassian_bash =
     [(''jira commands*'', JStr ''allow''), (''jira schema*'', JStr ''allow''),
      (''jira version*'', JStr ''allow''), (''jira auth test*'', JStr ''allow''),
      (''jira instance list*'', JStr ''allow''), (''jira instance get*'', JStr ''allow''),
      (''jira resolve-url*'', JStr ''allow''), (''jira field list*'', JStr ''allow''),
      (''jira issue get*'', JStr ''allow''), (''jira issue search*'', JStr ''allow''),
      (''jira issue createmeta*'', JStr ''allow''), (''jira issue editmeta*'', JStr ''allow''),
      (''jira issue map-csv*'', JStr ''allow''), (''jira issue bulk-validate*'', JStr ''allow''),
      (''jira issue bulk-create *--dry-run*'', JStr ''allow''), (''jira *'', JStr ''ask''),
      (''confluence commands*'', JStr ''allow''), (''confluence schema*'', JStr ''allow''),
      (''confluence version*'', JStr ''allow''), (''confluence auth test*'', JStr ''allow''),
      (''confluence instance list*'', JStr ''allow''), (''confluence instance get*'', JStr ''allow''),
      (''confluence resolve-url*'', JStr ''allow''), (''confluence search*'', JStr ''allow''),
      (''confluence cql*'', JStr ''allow''), (''confluence page get*'', JStr ''allow''),
      (''confluence page body*'', JStr ''allow''), (''confluence space get*'', JStr ''allow''),
      (''confluence space list*'', JStr ''allow''), (''confluence *'', JStr ''ask'')]"

definition mobile_bash :: jobj where
  "mobile_bash =
     [(''mobile-auto commands*'', JStr ''allow''), (''mobile-auto schema*'', JStr ''allow''),
      (''mobile-auto version*'', JStr ''allow''), (''mobile-auto doctor*'', JStr ''allow''),
      (''mobile-auto auth test*'', JStr ''allow''), (''mobile-auto device list*'', JStr ''allow''),
      (''mobile-auto device resolve*'', JStr ''allow''), (''mobile-auto app resolve*'', JStr ''allow''),
      (''mobile-auto run status*'', JStr ''allow''), (''mobile-auto observe*'', JStr ''allow''),
      (''mobile-auto locate*'', JStr ''allow''), (''mobile-auto assert*'', JStr ''allow''),
      (''mobile-auto report*'', JStr ''allow''), (''mobile-auto *'', JStr ''ask'')]"

definition java_maven_bash :: jobj where
  "java_maven_bash =
     [(''java'', JStr ''allow''), (''java *'', JStr ''allow''), (''javac'', JStr ''allow''),
      (''javac *'', JStr ''allow''), (''jar'', JStr ''allow''), (''jar *'', JStr ''allow''),
      (''javadoc'', JStr ''allow''), (''javadoc *'', JStr ''allow''), (''jshell'', JStr ''allow''),
      (''jshell *'', JStr ''allow''), (''keytool'', JStr ''allow''), (''keytool *'', JStr ''allow''),
      (''jarsigner'', JStr ''allow''), (''jarsigner *'', JStr ''allow''), (''jcmd'', JStr ''allow''),
      (''jcmd *'', JStr ''allow''), (''jconsole'', JStr ''allow''), (''jconsole *'', JStr ''allow''),
      (''jdb'', JStr ''allow''), (''jdb *'', JStr ''allow''), (''jdeprscan'', JStr ''allow''),
      (''jdeprscan *'', JStr ''allow''), (''jdeps'', JStr ''allow''), (''jdeps *'', JStr ''allow''),
      (''jfr'', JStr ''allow''), (''jfr *'', JStr ''allow''), (''jhsdb'', JStr ''allow''),
      (''jhsdb *'', JStr ''allow''), (''jimage'', JStr ''allow''), (''jimage *'', JStr ''allow''),
      (''jinfo'', JStr ''allow''), (''jinfo *'', JStr ''allow''), (''jlink'', JStr ''allow''),
      (''jlink *'', JStr ''allow''), (''jmap'', JStr ''allow''), (''jmap *'', JStr ''allow''),
      (''jmod'', JStr ''allow''), (''jmod *'', JStr ''allow''), (''jpackage'', JStr ''allow''),
      (''jpackage *'', JStr ''allow''), (''jps'', JStr ''allow''), (''jps *'', JStr ''allow''),
      (''jrunscript'', JStr ''allow''), (''jrunscript *'', JStr ''allow''), (''jstack'', JStr ''allow''),
      (''jstack *'', JStr ''allow''), (''jstat'', JStr ''allow''), (''jstat *'', JStr ''allow''),
      (''jstatd'', JStr ''allow''), (''jstatd *'', JStr ''allow''), (''serialver'', JStr ''allow''),
      (''serialver *'', JStr ''allow''), (''jdk'', JStr ''allow''), (''jdk *'', JStr ''allow''),
      (''mvn'', JStr ''allow''), (''mvn *'', JStr ''allow''), (''mvn-jdk'', JStr ''allow''),
      (''mvn-jdk *'', JStr ''allow''), (''./mvnw'', JStr ''allow''), (''./mvnw *'', JStr ''allow''),
      (''mvnw'', JStr ''allow''), (''mvnw *'', JStr ''allow''), (''bash ./mvnw *'', JStr ''allow''),
      (''sh ./mvnw *'', JStr ''allow''), (''chmod +x ./mvnw'', JStr ''allow'')]"

definition aws_bash :: jobj where
  "aws_bash =
     [(''aws-auth *'', JStr ''allow''), (''aws sts get-caller-identity*'', JStr ''allow''),
      (''aws eks list-clusters*'', JStr ''allow''), (''aws eks describe-cluster*'', JStr ''allow''),
      (''aws eks list-nodegroups*'', JStr ''allow''), (''aws eks describe-nodegroup*'', JStr ''allow''),
      (''aws ecr describe-*'', JStr ''allow''), (''aws ecr list-images*'', JStr ''allow''),
      (''aws ecr batch-get-image*'', JStr ''allow''), (''aws logs describe-*'', JStr ''allow''),
      (''aws logs filter-log-events*'', JStr ''allow''), (''aws logs get-log-events*'', JStr ''allow''),
      (''aws ec2 describe-*'', JStr ''allow''), (''aws autoscaling describe-*'', JStr ''allow''),
      (''aws cloudwatch get-metric-*'', JStr ''allow''), (''aws cloudwatch describe-*'', JStr ''allow''),
      (''aws *'', JStr ''ask''), (''kubectl get secret*'', JStr ''ask''), (''kubectl get *'', JStr ''allow''),
      (''kubectl describe secret*'', JStr ''ask''), (''kubectl describe *'', JStr ''allow''),
      (''kubectl logs *'', JStr ''allow''), (''kubectl top *'', JStr ''allow''),
      (''kubectl explain *'', JStr ''allow''), (''kubectl api-resources*'', JStr ''allow''),
      (''kubectl api-versions*'', JStr ''allow''), (''kubectl version*'', JStr ''allow''),
      (''kubectl auth can-i *'', JStr ''allow''), (''kubectl config get-contexts*'', JStr ''allow''),
      (''kubectl config current-context*'', JStr ''allow''), (''kubectl config view*'', JStr ''allow''),
      (''kubectl cluster-info*'', JStr ''allow''), (''kubectl *'', JStr ''ask'')]"

definition merge_dict :: "jobj \<Rightarrow> jobj \<Rightarrow> jobj" where
  "merge_dict new d = fold (\<lambda>(k, v) out. AList.update k v out) new d"

definition policy_bash :: jobj where
  "policy_bash =
     AList.update ''*'' (JStr ''ask'')
       (fold merge_dict [java_maven_bash, atlassian_bash, mobile_bash, aws_bash]
         [(''git *'', JStr ''allow''), (''gh *'', JStr ''allow''), (''git status*'', JStr ''allow''),
      (''git diff*'', JStr ''allow''), (''git log*'', JStr ''allow'')])"

definition profile_policy_permission_baseline :: jobj where
  "profile_policy_permission_baseline =
     [(''*'', JStr ''ask''), (''read'', JStr ''allow''), (''glob'', JStr ''allow''), (''grep'', JStr ''allow''),
      (''edit'', JStr ''ask''), (''write'', JStr ''ask''), (''bash'', JObj policy_bash), (''external_directory'', JStr ''allow''),
      (''webfetch'', JStr ''ask''), (''websearch'', JStr ''ask''), (''todowrite'', JStr ''ask''), (''question'', JStr ''ask''),
      (''skill'', JObj [(''*'', JStr ''allow'')])]"

definition workspace_full_access_permission_baseline :: "bool \<Rightarrow> jobj" where
  "workspace_full_access_permission_baseline allow_bash_all =
     [(''*'', JStr ''allow''), (''read'', JStr ''allow''), (''glob'', JStr ''allow''), (''grep'', JStr ''allow''),
      (''edit'', JStr ''allow''), (''write'', JStr ''allow''),
      (''bash'', JObj [(''*'', JStr (if allow_bash_all then ''allow'' else ''ask''))]), (''external_directory'', JStr ''allow''),
      (''webfetch'', JStr ''allow''), (''websearch'', JStr ''allow''), (''todowrite'', JStr ''allow''),
      (''question'', JStr ''allow''), (''skill'', JObj [(''*'', JStr ''allow'')])]"

definition default_permission_baseline :: "string \<Rightarrow> bool \<Rightarrow> jobj" where
  "default_permission_baseline mode allow_bash_all =
     (if normalize_permission_mode (JStr mode) = ''profile_policy'' then profile_policy_permission_baseline
      else workspace_full_access_permission_baseline allow_bash_all)"

section \<open>Rules of a profile\<close>

definition as_set :: "jval \<Rightarrow> string list" where
  "as_set v = (case v of JList xs \<Rightarrow> List.map py_str xs | _ \<Rightarrow> [])"

definition name_of :: "jval \<Rightarrow> string list" where
  "name_of v = (case v of JStr s \<Rightarrow> if py_strip s = [] then [] else [py_strip s] | _ \<Rightarrow> [])"

definition as_name_set :: "jval \<Rightarrow> string list" where
  "as_name_set v = (case v of JList xs \<Rightarrow> concat (List.map name_of xs) | _ \<Rightarrow> name_of v)"

definition norm_text :: "string \<Rightarrow> string" where
  "norm_text s = py_lower (py_strip s)"

record rule_sets =
  rs_allowed_ids :: "string list"
  rs_allowed_actions :: "string list"
  rs_allowed_types :: "string list"
  rs_denied_actions :: "string list"
  rs_denied_types :: "string list"
  rs_allowed_external :: "string list"
  rs_allowed_skills :: "string list"
  rs_denied_skills :: "string list"

definition no_rules :: rule_sets where
  "no_rules = \<lparr>rs_allowed_ids = [], rs_allowed_actions = [], rs_allowed_types = [], rs_denied_actions = [],
     rs_denied_types = [], rs_allowed_external = [], rs_allowed_skills = [], rs_denied_skills = []\<rparr>"

definition merge_rule_block :: "jval \<Rightarrow> rule_sets \<Rightarrow> rule_sets" where
  "merge_rule_block block r =
     (case block of
        JObj b \<Rightarrow>
          \<lparr>rs_allowed_ids = rs_allowed_ids r @ as_set (jget b ''allowed_capability_ids''),
           rs_allowed_actions = rs_allowed_actions r @ as_set (jget b ''allowed_actions'') @ as_set (jget b ''allowed_adapter_actions''),
           rs_allowed_types = rs_allowed_types r @ as_set (jget b ''allowed_capability_types''),
           rs_denied_actions = rs_denied_actions r @ as_set (jget b ''denied_actions''),
           rs_denied_types = rs_denied_types r @ as_set (jget b ''denied_capability_types''),
           rs_allowed_external = rs_allowed_external r @ List.map py_lower (as_set (jget b ''allowed_external_systems'')),
           rs_allowed_skills = rs_allowed_skills r @ as_name_set (jget b ''allowed_skills'') @ as_name_set (jget b ''skill_set''),
           rs_denied_skills = rs_denied_skills r @ as_name_set (jget b ''denied_skills'')\<rparr>
      | _ \<Rightarrow> r)"

definition as_sets :: "jobj \<Rightarrow> string list \<Rightarrow> string list" where
  "as_sets d ks = concat (List.map (\<lambda>k. as_set (jget d k)) ks)"

definition merge_llm_tools :: "jval \<Rightarrow> rule_sets \<Rightarrow> rule_sets" where
  "merge_llm_tools tools r =
     (case tools of
        JList xs \<Rightarrow> r\<lparr>rs_allowed_ids := rs_allowed_ids r @ List.map py_str xs,
                      rs_allowed_actions := rs_allowed_actions r @ List.map py_str xs\<rparr>
      | JObj d \<Rightarrow>
          (let allow_vals = as_sets d [''allow'', ''allowed'', ''allowed_capability_ids'', ''allowed_actions''];
               deny_vals = as_sets d [''deny'', ''denied'', ''denied_actions'']
           in r\<lparr>rs_allowed_ids := rs_allowed_ids r @ allow_vals, rs_allowed_actions := rs_allowed_actions r @ allow_vals,
                rs_denied_actions := rs_denied_actions r @ deny_vals,
                rs_denied_types := rs_denied_types r @ as_set (jget d ''denied_capability_types''),
                rs_allowed_types := rs_allowed_types r @ as_set (jget d ''allowed_capability_types''),
                rs_allowed_external := rs_allowed_external r @ List.map py_lower (as_set (jget d ''allowed_external_systems'')),
                rs_allowed_skills := rs_allowed_skills r @ as_name_set (jget d ''allowed_skills''),
                rs_denied_skills := rs_denied_skills r @ as_name_set (jget d ''denied_skills'')\<rparr>)
      | _ \<Rightarrow> r)"

definition collect_allowed_and_denied :: "jobj \<Rightarrow> rule_sets" where
  "collect_allowed_and_denied config =
     merge_rule_block (jget config ''policy_context'')
       (merge_rule_block (jget config ''derived_runtime_rules'')
         (merge_llm_tools (jget (obj_or_empty (jget config ''llm'')) ''tools'')
           (merge_rule_block (JObj config) no_rules)))"

section \<open>Building the table\<close>

definition deny_all_patterns :: "jobj \<Rightarrow> jobj" where
  "deny_all_patterns d = AList.update ''*'' (JStr ''deny'') (List.map (\<lambda>(k, v). (k, JStr ''deny'')) d)"

definition deny_builtin :: "string \<Rightarrow> jobj \<Rightarrow> jobj" where
  "deny_builtin key permission =
     (if key = ''bash'' then AList.update ''bash'' (JObj (deny_all_patterns (obj_or_empty (jget permission ''bash'')))) permission
      else if key = ''skill''
      then AList.update ''skill'' (JObj (AList.update ''*'' (JStr ''deny'') (obj_or_empty (jget permission ''skill'')))) permission
      else AList.update key (JStr ''deny'') permission)"

definition builtin_denied :: "string \<times> string list \<Rightarrow> string list \<Rightarrow> string list \<Rightarrow> bool" where
  "builtin_denied ka denied_actions denied_types =
     (''tool'' \<in> set denied_types \<or> list_ex (\<lambda>a. a \<in> set denied_actions) (snd ka)
      \<or> (fst ka = ''bash'' \<and> ''shell'' \<in> set denied_types))"

definition apply_builtin_denies :: "string list \<Rightarrow> string list \<Rightarrow> jobj \<Rightarrow> jobj" where
  "apply_builtin_denies denied_actions denied_types permission =
     fold (\<lambda>ka p. if builtin_denied ka denied_actions denied_types then deny_builtin (fst ka) p else p)
       BUILTIN_PERMISSION_ALIASES permission"

text \<open>The normalized names the skills are compared with.\<close>

record skill_rules =
  sr_allowed :: "string list"
  sr_denied :: "string list"
  sr_allowed_skills :: "string list"
  sr_denied_skills :: "string list"
  sr_deny_all :: bool
  sr_allow_all :: bool

definition skill_rules_of :: "rule_sets \<Rightarrow> skill_rules" where
  "skill_rules_of r =
     (let allowed = List.map norm_text (rs_allowed_ids r @ rs_allowed_actions r);
          denied = List.map norm_text (rs_denied_actions r);
          allowed_types = List.map norm_text (rs_allowed_types r);
          denied_types = List.map norm_text (rs_denied_types r);
          allowed_skills = List.map norm_text (rs_allowed_skills r);
          denied_skills = List.map norm_text (rs_denied_skills r)
      in \<lparr>sr_allowed = allowed, sr_denied = denied, sr_allowed_skills = allowed_skills, sr_denied_skills = denied_skills,
          sr_deny_all = (''tool'' \<in> set denied_types \<or> ''skill'' \<in> set denied_types \<or> ''skill'' \<in> set denied
             \<or> ''opencode.builtin.skill'' \<in> set denied \<or> ''*'' \<in> set denied_skills),
          sr_allow_all = (''*'' \<in> set allowed_skills \<or> ''skill'' \<in> set allowed_types \<or> ''skill'' \<in> set allowed
             \<or> ''opencode.builtin.skill'' \<in> set allowed)\<rparr>)"

definition skill_aliases :: "string \<Rightarrow> string \<Rightarrow> string list" where
  "skill_aliases name efp_name =
     filter (\<lambda>a. a \<noteq> []) (List.map norm_text
       [name, efp_name, ''skill:'' @ name, ''skill:'' @ efp_name, ''opencode.skill.'' @ name])"

text \<open>\<^verbatim>\<open>None\<close> is the \<^verbatim>\<open>TypeError\<close> of iterating over a null, a number or a boolean; text and objects hold no
  dicts.\<close>

definition known_skills :: "jval \<Rightarrow> jobj list option" where
  "known_skills skills_index =
     (case jget_def (obj_or_empty skills_index) ''skills'' (JList []) of
        JList xs \<Rightarrow> Some (filter (\<lambda>d. truthy (jget d ''opencode_name''))
                           (concat (List.map (\<lambda>i. case i of JObj d \<Rightarrow> [d] | _ \<Rightarrow> []) xs)))
      | JObj d \<Rightarrow> Some []
      | JStr s \<Rightarrow> Some []
      | _ \<Rightarrow> None)"

definition any_in :: "string list \<Rightarrow> string list \<Rightarrow> bool" where
  "any_in xs ys = list_ex (\<lambda>x. x \<in> set ys) xs"

definition skill_entry :: "skill_rules \<Rightarrow> jobj \<Rightarrow> jobj \<Rightarrow> jobj" where
  "skill_entry r skill table =
     (let name = py_str (jget skill ''opencode_name'');
          aliases = skill_aliases name (str_or_empty (jget skill ''efp_name''))
      in if sr_deny_all r \<or> any_in aliases (sr_denied r) \<or> any_in aliases (sr_denied_skills r)
         then AList.update name (JStr ''deny'') table
         else if sr_allow_all r \<or> any_in aliases (sr_allowed r) \<or> any_in aliases (sr_allowed_skills r)
         then AList.update name (JStr ''allow'') table
         else table)"

definition skill_table :: "skill_rules \<Rightarrow> jobj list \<Rightarrow> jobj \<Rightarrow> jobj" where
  "skill_table r skills table =
     fold (skill_entry r) skills (AList.update ''*'' (JStr (if sr_deny_all r then ''deny'' else ''allow'')) table)"

definition build_permission :: "jval \<Rightarrow> jval \<Rightarrow> string \<Rightarrow> bool \<Rightarrow> jobj option" where
  "build_permission config skills_index permission_mode allow_bash_all =
     (let mode = normalize_permission_mode (JStr permission_mode);
          rules = collect_allowed_and_denied (obj_or_empty config);
          base = default_permission_baseline mode allow_bash_all;
          p = (if mode = ''profile_policy'' then apply_builtin_denies (rs_denied_actions rules) (rs_denied_types rules) base else base)
      in map_option (\<lambda>skills. AList.update ''skill''
           (JObj (skill_table (skill_rules_of rules) skills (obj_or_empty (jget p ''skill'')))) p) (known_skills skills_index))"

definition skill_permission_state :: "jval \<Rightarrow> string \<Rightarrow> string" where
  "skill_permission_state permission skill_name =
     (case jget (obj_or_empty permission) ''skill'' of
        JObj skill \<Rightarrow>
          (let norm = norm_text (str_or_empty (jget_def skill skill_name (jget_def skill ''*'' (JStr ''allow'')))) in
           if norm = ''deny'' then ''denied'' else if norm = ''ask'' then ''ask'' else ''allowed'')
      | _ \<Rightarrow> ''allowed'')"

section \<open>A denial holds\<close>

lemma fold_preserves: "(\<And>x p. P p \<Longrightarrow> P (f x p)) \<Longrightarrow> P p \<Longrightarrow> P (fold f xs p)"
  by (induction xs arbitrary: p) auto

lemma fold_establishes:
  "(\<And>x p. P p \<Longrightarrow> P (f x p)) \<Longrightarrow> x \<in> set xs \<Longrightarrow> (\<And>p. P (f x p)) \<Longrightarrow> P (fold f xs p)"
proof (induction xs arbitrary: p)
  case Nil
  then show ?case by simp
next
  case (Cons y ys)
  show ?case
  proof (cases "x \<in> set ys")
    case True
    with Cons show ?thesis by simp
  next
    case False
    with Cons.prems have "x = y" by simp
    then show ?thesis using Cons.prems(1,3) by (simp add: fold_preserves)
  qed
qed

definition all_denied :: "jval \<Rightarrow> bool" where
  "all_denied v = (case v of JObj t \<Rightarrow> t \<noteq> [] \<and> list_all (\<lambda>(k, x). x = JStr ''deny'') t | JStr s \<Rightarrow> s = ''deny'' | _ \<Rightarrow> False)"

lemma deny_all_patterns_denied: "all_denied (JObj (deny_all_patterns d))"
proof -
  let ?m = "List.map (\<lambda>(k, v). (k, JStr ''deny'')) d"
  have "x = JStr ''deny''" if "(k, x) \<in> set (AList.update ''*'' (JStr ''deny'') ?m)" for k x
    using in_set_update [OF that] by auto
  moreover have "AList.update ''*'' (JStr ''deny'') ?m \<noteq> []" by (cases d) auto
  ultimately show ?thesis by (auto simp: all_denied_def deny_all_patterns_def list_all_iff)
qed

lemma deny_builtin_keeps:
  "key \<noteq> ''skill'' \<Longrightarrow> all_denied (jget p key) \<Longrightarrow> all_denied (jget (deny_builtin key' p) key)"
  using deny_all_patterns_denied by (auto simp: deny_builtin_def all_denied_def)

lemma deny_builtin_denies: "key \<noteq> ''skill'' \<Longrightarrow> all_denied (jget (deny_builtin key p) key)"
  using deny_all_patterns_denied by (auto simp: deny_builtin_def all_denied_def)

lemma builtin_denies_hold:
  assumes "(key, aliases) \<in> set BUILTIN_PERMISSION_ALIASES" and "builtin_denied (key, aliases) actions types" and "key \<noteq> ''skill''"
  shows "all_denied (jget (apply_builtin_denies actions types p) key)"
  unfolding apply_builtin_denies_def
proof (rule fold_establishes [where x = "(key, aliases)"])
  show "all_denied (jget (if builtin_denied x actions types then deny_builtin (fst x) q else q) key)"
    if "all_denied (jget q key)" for x q using that assms(3) deny_builtin_keeps by simp
  show "all_denied (jget (if builtin_denied (key, aliases) actions types then deny_builtin (fst (key, aliases)) q else q) key)" for q
    using assms(2,3) deny_builtin_denies by simp
qed (rule assms(1))

definition skill_denied :: "skill_rules \<Rightarrow> string \<Rightarrow> bool" where
  "skill_denied r name = (sr_deny_all r \<or> norm_text name \<in> set (sr_denied r) \<or> norm_text name \<in> set (sr_denied_skills r))"

lemma skill_entry_denies:
  assumes "skill_denied r (py_str (jget skill ''opencode_name''))" and "norm_text (py_str (jget skill ''opencode_name'')) \<noteq> []"
  shows "skill_entry r skill t = AList.update (py_str (jget skill ''opencode_name'')) (JStr ''deny'') t"
proof -
  have "norm_text (py_str (jget skill ''opencode_name'')) \<in>
      set (skill_aliases (py_str (jget skill ''opencode_name'')) (str_or_empty (jget skill ''efp_name'')))"
    using assms(2) by (simp add: skill_aliases_def)
  then show ?thesis using assms(1) unfolding skill_denied_def skill_entry_def Let_def any_in_def list_ex_iff
    by (metis (no_types, lifting))
qed

lemma jget_def_update [simp]: "jget_def (AList.update k v d) k' x = (if k = k' then v else jget_def d k' x)"
  by (auto simp: jget_def_def update_conv')

lemma skill_entry_shape: "\<exists>v. skill_entry r skill t = t \<or> skill_entry r skill t = AList.update (py_str (jget skill ''opencode_name'')) v t"
  unfolding skill_entry_def Let_def by (auto split: if_splits)

lemma skill_denials_hold:
  assumes "skill \<in> set skills" and "py_str (jget skill ''opencode_name'') = name"
    and "skill_denied r name" and "norm_text name \<noteq> []"
  shows "jget_def (fold (skill_entry r) skills t) name x = JStr ''deny''"
proof (rule fold_establishes [where x = skill and P = "\<lambda>t. jget_def t name x = JStr ''deny''"])
  show "jget_def (skill_entry r s q) name x = JStr ''deny''" if q: "jget_def q name x = JStr ''deny''" for s q
  proof (cases "py_str (jget s ''opencode_name'') = name")
    case True
    then show ?thesis using skill_entry_denies [of r s q] assms(3,4) by simp
  next
    case False
    then show ?thesis using skill_entry_shape [of r s q] q by auto
  qed
  show "jget_def (skill_entry r skill q) name x = JStr ''deny''" for q
    using skill_entry_denies [of r skill q] assms(2-4) by simp
qed (rule assms(1))

lemma norm_deny: "norm_text ''deny'' = ''deny''"
  by code_simp

text \<open>C9: What a profile denies stays denied in the table: under the profile policy a built-in tool that the
  profile's rules deny is denied (for the shell, every pattern of it), and in either mode a known skill whose
  name is denied, or any skill when all are, is reported as denied.\<close>

theorem permission_denials_hold:
  assumes "build_permission config skills_index mode allow_bash_all = Some p"
    and "rules = collect_allowed_and_denied (obj_or_empty config)"
  shows "(normalize_permission_mode (JStr mode) = ''profile_policy'' \<longrightarrow>
            list_all (\<lambda>(key, aliases). key \<noteq> ''skill'' \<longrightarrow>
              builtin_denied (key, aliases) (rs_denied_actions rules) (rs_denied_types rules) \<longrightarrow> all_denied (jget p key))
              BUILTIN_PERMISSION_ALIASES)
    \<and> (case known_skills skills_index of None \<Rightarrow> False
       | Some skills \<Rightarrow> list_all (\<lambda>skill. let name = py_str (jget skill ''opencode_name'') in
            skill_denied (skill_rules_of rules) name \<and> norm_text name \<noteq> []
              \<longrightarrow> skill_permission_state (JObj p) name = ''denied'') skills)"
proof -
  obtain skills where s: "known_skills skills_index = Some skills" using assms(1) by (auto simp: build_permission_def Let_def)
  let ?m = "normalize_permission_mode (JStr mode)"
  define q where "q = (if ?m = ''profile_policy'' then apply_builtin_denies (rs_denied_actions rules) (rs_denied_types rules)
      (default_permission_baseline ?m allow_bash_all) else default_permission_baseline ?m allow_bash_all)"
  have p: "p = AList.update ''skill'' (JObj (skill_table (skill_rules_of rules) skills (obj_or_empty (jget q ''skill'')))) q"
    using assms(1) unfolding build_permission_def Let_def s assms(2) [symmetric] q_def by (simp split del: if_split)
  have "all_denied (jget p key)" if "?m = ''profile_policy''" "(key, aliases) \<in> set BUILTIN_PERMISSION_ALIASES" "key \<noteq> ''skill''"
      "builtin_denied (key, aliases) (rs_denied_actions rules) (rs_denied_types rules)" for key aliases
    using builtin_denies_hold [OF that(2,4,3)] that(1,3) by (simp add: p q_def)
  moreover have "skill_permission_state (JObj p) name = ''denied''"
    if "skill \<in> set skills" "name = py_str (jget skill ''opencode_name'')" "skill_denied (skill_rules_of rules) name" "norm_text name \<noteq> []"
    for skill name
    using skill_denials_hold [OF that(1) that(2) [symmetric] that(3,4)]
    by (simp add: skill_permission_state_def p skill_table_def Let_def norm_deny)
  ultimately show ?thesis using s by (auto simp: list_all_iff Let_def)
qed

text \<open>The built-in tools are matched as written, while skills are matched without regard to case.\<close>

lemma denial_is_case_sensitive: "\<not> builtin_denied (''edit'', [''edit'', ''opencode.builtin.edit'']) [''Edit''] []"
  by code_simp

definition sample_config :: jval where
  "sample_config = JObj [(''denied_actions'', JList [JStr ''edit'']), (''denied_skills'', JList [JStr ''deploy''])]"

definition sample_skills :: jval where
  "sample_skills = JObj [(''skills'', JList [JObj [(''opencode_name'', JStr ''deploy'')]])]"

lemma sample_permission:
  "\<exists>p. build_permission sample_config sample_skills ''policy'' True = Some p"
  by (simp add: build_permission_def Let_def sample_skills_def known_skills_def)

lemma sample_edit: "(''edit'', [''edit'', ''opencode.builtin.edit'']) \<in> set BUILTIN_PERMISSION_ALIASES"
  "normalize_permission_mode (JStr ''policy'') = ''profile_policy''"
  "builtin_denied (''edit'', [''edit'', ''opencode.builtin.edit''])
     (rs_denied_actions (collect_allowed_and_denied (obj_or_empty sample_config)))
     (rs_denied_types (collect_allowed_and_denied (obj_or_empty sample_config)))"
  by code_simp+

theorem permission_denials_hold_witness:
  "case build_permission sample_config sample_skills ''policy'' True of None \<Rightarrow> False
   | Some p \<Rightarrow> all_denied (jget p ''edit'')"
proof -
  obtain p where p: "build_permission sample_config sample_skills ''policy'' True = Some p" using sample_permission by blast
  from permission_denials_hold [OF p refl, THEN conjunct1] sample_edit show ?thesis
    by (fastforce simp: p list_all_iff)
qed

end
