(* ===== verification/FileTree.thy ===== *)
theory FileTree
  imports PyPrelude
begin

text \<open>
  The file system under the workspace service: a tree of directories, files and symbolic links given by its
  absolute paths (lists of names), \<^verbatim>\<open>Path.resolve\<close>, and the system calls the service makes. A file's content is a
  char list, one char per byte. A path that does not resolve because its links loop is \<^verbatim>\<open>None\<close>, the
  \<^verbatim>\<open>RuntimeError\<close> of \<^verbatim>\<open>resolve\<close>.
\<close>

type_synonym path = "string list"

datatype node = FileNode string | DirNode | LinkNode string

type_synonym fs = "(path \<times> node) list"

datatype fs_error = PermissionErr string | FileNotFound | ValueErr string | LoopErr | OsErr

definition node_at :: "fs \<Rightarrow> path \<Rightarrow> node option" where
  "node_at fs p = (if p = [] then Some DirNode else map_of fs p)"

definition link_at :: "fs \<Rightarrow> path \<Rightarrow> string option" where
  "link_at fs p = (case node_at fs p of Some (LinkNode t) \<Rightarrow> Some t | _ \<Rightarrow> None)"

section \<open>Resolving\<close>

text \<open>\<^verbatim>\<open>os.path.realpath\<close>: the directory reached so far and the names still to walk; a link puts its target in
  front of them. Only the links of the tree matter.\<close>

partial_function (option) resolve_from :: "(path \<Rightarrow> string option) \<Rightarrow> path \<Rightarrow> string list \<Rightarrow> path option" where
  "resolve_from links cur rest =
     (case rest of
        [] \<Rightarrow> Some cur
      | n # r \<Rightarrow>
          if n = [] \<or> n = ''.'' then resolve_from links cur r
          else if n = ''..'' then resolve_from links (butlast cur) r
          else (case links (cur @ [n]) of
                  Some t \<Rightarrow> resolve_from links (if startswith t ''/'' then [] else cur) (split_char (CHR ''/'') t @ r)
                | None \<Rightarrow> resolve_from links (cur @ [n]) r))"

definition resolve :: "fs \<Rightarrow> path \<Rightarrow> path option" where
  "resolve fs p = resolve_from (link_at fs) [] p"

lemma resolve_from_simps:
  "resolve_from links cur [] = Some cur"
  "resolve_from links cur (n # r) =
     (if n = [] \<or> n = ''.'' then resolve_from links cur r
      else if n = ''..'' then resolve_from links (butlast cur) r
      else (case links (cur @ [n]) of
              Some t \<Rightarrow> resolve_from links (if startswith t ''/'' then [] else cur) (split_char (CHR ''/'') t @ r)
            | None \<Rightarrow> resolve_from links (cur @ [n]) r))"
  by (subst resolve_from.simps, simp)+

text \<open>A path is real when no prefix of it is a link and its names are names.\<close>

definition real_name :: "string \<Rightarrow> bool" where
  "real_name n = (n \<noteq> [] \<and> n \<noteq> ''.'' \<and> n \<noteq> ''..'')"

definition real_path :: "(path \<Rightarrow> string option) \<Rightarrow> path \<Rightarrow> bool" where
  "real_path links p = (list_all real_name p \<and> (\<forall>k \<le> length p. links (take k p) = None))"

lemma real_path_snoc: "real_path links p \<Longrightarrow> real_name n \<Longrightarrow> links (p @ [n]) = None \<Longrightarrow> real_path links (p @ [n])"
  by (auto simp: real_path_def le_Suc_eq)

lemma real_path_take: "real_path links p \<Longrightarrow> real_path links (take k p)"
  by (auto simp: real_path_def list_all_iff min_def dest: in_set_takeD)

lemma real_path_butlast: "real_path links p \<Longrightarrow> real_path links (butlast p)"
  by (simp add: butlast_conv_take real_path_take)

definition rooted :: "(path \<Rightarrow> string option) \<Rightarrow> bool" where
  "rooted links = (links [] = None)"

lemma resolve_from_real:
  assumes "resolve_from links cur rest = Some q"
  shows "rooted links \<longrightarrow> real_path links cur \<longrightarrow> real_path links q"
proof (rule resolve_from.raw_induct [OF _ assms, where P = "\<lambda>links cur rest q. rooted links \<longrightarrow> real_path links cur \<longrightarrow> real_path links q"])
  fix f links cur rest q
  assume IH: "\<And>l c r y. f l c r = Some y \<Longrightarrow> rooted l \<longrightarrow> real_path l c \<longrightarrow> real_path l y"
    and eq: "(case rest of [] \<Rightarrow> Some cur
      | n # r \<Rightarrow> if n = [] \<or> n = ''.'' then f links cur r else if n = ''..'' then f links (butlast cur) r
          else case links (cur @ [n]) of None \<Rightarrow> f links (cur @ [n]) r
               | Some t \<Rightarrow> f links (if startswith t ''/'' then [] else cur) (split_char CHR ''/'' t @ r)) = Some q"
  show "rooted links \<longrightarrow> real_path links cur \<longrightarrow> real_path links q"
  proof (intro impI)
    assume ws: "rooted links" and cur: "real_path links cur"
    show "real_path links q"
    proof (cases rest)
      case Nil
      with eq cur show ?thesis by simp
    next
      case (Cons n r)
      consider "n = [] \<or> n = ''.''" | "n = ''..''" | t where "real_name n" "links (cur @ [n]) = Some t"
        | "real_name n" "links (cur @ [n]) = None"
        unfolding real_name_def by (cases "links (cur @ [n])") auto
      then show ?thesis
      proof cases
        case 1
        with eq Cons have "f links cur r = Some q" by auto
        then show ?thesis using IH ws cur by blast
      next
        case 2
        with eq Cons have "f links (butlast cur) r = Some q" by simp
        then show ?thesis using IH ws real_path_butlast [OF cur] by blast
      next
        case 3
        with eq Cons have "f links (if startswith t ''/'' then [] else cur) (split_char (CHR ''/'') t @ r) = Some q"
          by (simp add: real_name_def)
        moreover have "real_path links (if startswith t ''/'' then [] else cur)"
          using ws cur by (auto simp: real_path_def rooted_def)
        ultimately show ?thesis using IH ws by blast
      next
        case 4
        with eq Cons have "f links (cur @ [n]) r = Some q" by (simp add: real_name_def)
        moreover have "real_path links (cur @ [n])" using 4 cur by (intro real_path_snoc)
        ultimately show ?thesis using IH ws by blast
      qed
    qed
  qed
qed

lemma rooted_link_at [simp]: "rooted (link_at fs)"
  by (simp add: rooted_def link_at_def node_at_def)

lemma resolve_real: "resolve fs p = Some q \<Longrightarrow> real_path (link_at fs) q"
  using resolve_from_real [of "link_at fs" "[]" p q] by (simp add: resolve_def real_path_def link_at_def node_at_def)

text \<open>A real path resolves to itself.\<close>

lemma resolve_from_append:
  "real_path links (cur @ rest) \<Longrightarrow> resolve_from links cur rest = Some (cur @ rest)"
proof (induction rest arbitrary: cur)
  case Nil
  then show ?case by (simp add: resolve_from_simps)
next
  case (Cons n r)
  have "links (take (Suc (length cur)) (cur @ n # r)) = None" using Cons.prems by (simp add: real_path_def del: take_append)
  then have "links (cur @ [n]) = None" by simp
  moreover have "real_name n" using Cons.prems by (simp add: real_path_def)
  moreover have "real_path links ((cur @ [n]) @ r)" using Cons.prems by simp
  from Cons.IH [OF this] have "resolve_from links (cur @ [n]) r = Some (cur @ n # r)" by simp
  ultimately show ?case by (simp add: resolve_from_simps real_name_def)
qed

lemma resolve_self: "real_path (link_at fs) p \<Longrightarrow> resolve fs p = Some p"
  using resolve_from_append [of "link_at fs" "[]" p] by (simp add: resolve_def)

lemma resolve_idem: "resolve fs p = Some q \<Longrightarrow> resolve fs q = Some q"
  by (rule resolve_self) (rule resolve_real)

section \<open>System calls\<close>

text \<open>\<^verbatim>\<open>stat\<close> follows links, \<^verbatim>\<open>lstat\<close> not the last one; a path that loops does not exist.\<close>

definition stat :: "fs \<Rightarrow> path \<Rightarrow> node option" where
  "stat fs p = (case resolve fs p of None \<Rightarrow> None | Some q \<Rightarrow> node_at fs q)"

definition is_link :: "fs \<Rightarrow> path \<Rightarrow> bool" where
  "is_link fs p = (link_at fs p \<noteq> None)"

definition is_directory :: "fs \<Rightarrow> path \<Rightarrow> bool" where
  "is_directory fs p = (stat fs p = Some DirNode)"

definition is_regular :: "fs \<Rightarrow> path \<Rightarrow> bool" where
  "is_regular fs p = (case stat fs p of Some (FileNode b) \<Rightarrow> True | _ \<Rightarrow> False)"

text \<open>\<^verbatim>\<open>mkdir(parents=True, exist_ok=True)\<close>: walks down from a real directory, through links to directories, and
  creates what is missing. The result is the real path reached; on an error what was created stays.\<close>

fun mkdir_walk :: "fs \<Rightarrow> path \<Rightarrow> string list \<Rightarrow> (fs_error + path) \<times> fs" where
  "mkdir_walk fs cur [] = (Inr cur, fs)"
| "mkdir_walk fs cur (n # rest) =
     (let p = cur @ [n] in
      case node_at fs p of
        None \<Rightarrow> mkdir_walk (fs @ [(p, DirNode)]) p rest
      | Some DirNode \<Rightarrow> mkdir_walk fs p rest
      | Some (FileNode b) \<Rightarrow> (Inl OsErr, fs)
      | Some (LinkNode t) \<Rightarrow>
          (case resolve fs p of
             None \<Rightarrow> (Inl OsErr, fs)
           | Some q \<Rightarrow> if node_at fs q = Some DirNode then mkdir_walk fs q rest else (Inl OsErr, fs)))"

definition mkdirs :: "fs \<Rightarrow> path \<Rightarrow> (fs_error + path) \<times> fs" where
  "mkdirs fs p = mkdir_walk fs [] p"

text \<open>Opening a path for writing: the file its links lead to is created or replaced.\<close>

definition write_to :: "fs \<Rightarrow> path \<Rightarrow> string \<Rightarrow> (fs_error + unit) \<times> fs" where
  "write_to fs p bytes =
     (case resolve fs p of
        None \<Rightarrow> (Inl OsErr, fs)
      | Some q \<Rightarrow>
          if q = [] \<or> node_at fs q = Some DirNode \<or> node_at fs (butlast q) \<noteq> Some DirNode then (Inl OsErr, fs)
          else (Inr (), AList.update q (FileNode bytes) fs))"

text \<open>\<^verbatim>\<open>unlink\<close> and \<^verbatim>\<open>rmtree\<close> of a real path; \<^verbatim>\<open>rmdir\<close> of an empty directory; renaming a tree.\<close>

definition below :: "path \<Rightarrow> path \<Rightarrow> bool" where
  "below q p = (take (length q) p = q)"

definition remove_tree :: "path \<Rightarrow> fs \<Rightarrow> fs" where
  "remove_tree q fs = filter (\<lambda>(p, x). \<not> below q p) fs"

definition remove_dir :: "path \<Rightarrow> fs \<Rightarrow> (fs_error + unit) \<times> fs" where
  "remove_dir q fs =
     (if list_ex (\<lambda>(p, x). below q p \<and> p \<noteq> q) fs then (Inl OsErr, fs) else (Inr (), remove_tree q fs))"

definition rename_tree :: "path \<Rightarrow> path \<Rightarrow> fs \<Rightarrow> fs" where
  "rename_tree src dst fs = List.map (\<lambda>(p, x). (if below src p then dst @ drop (length src) p else p, x)) fs"

section \<open>What the calls leave alone\<close>

lemma below_iff: "below q p \<longleftrightarrow> (\<exists>r. p = q @ r)"
  unfolding below_def by (metis append_eq_conv_conj append_take_drop_id)

lemma below_self [simp]: "below q q"
  by (simp add: below_def)

lemma below_append [simp]: "below q (q @ r)"
  by (simp add: below_def)

lemma below_trans: "below a b \<Longrightarrow> below b c \<Longrightarrow> below a c"
  by (auto simp: below_iff)

lemma below_take: "below a b \<Longrightarrow> length a \<le> k \<Longrightarrow> below a (take k b)"
  by (auto simp: below_iff take_append)

definition same_outside :: "path \<Rightarrow> fs \<Rightarrow> fs \<Rightarrow> bool" where
  "same_outside ws fs fs' = (\<forall>q. \<not> below ws q \<longrightarrow> map_of fs' q = map_of fs q)"

lemma same_outside_refl [simp]: "same_outside ws fs fs"
  by (simp add: same_outside_def)

lemma same_outside_trans: "same_outside ws a b \<Longrightarrow> same_outside ws b c \<Longrightarrow> same_outside ws a c"
  by (simp add: same_outside_def)

text \<open>The links of the tree do not change.\<close>

definition same_links :: "fs \<Rightarrow> fs \<Rightarrow> bool" where
  "same_links fs fs' = (link_at fs' = link_at fs)"

lemma same_links_refl [simp]: "same_links fs fs"
  by (simp add: same_links_def)

lemma same_links_trans: "same_links a b \<Longrightarrow> same_links b c \<Longrightarrow> same_links a c"
  by (simp add: same_links_def)

lemma same_links_resolve: "same_links fs fs' \<Longrightarrow> resolve fs' p = resolve fs p"
  by (simp add: same_links_def resolve_def)

lemma append_dir_links: "map_of fs p = None \<Longrightarrow> p \<noteq> [] \<Longrightarrow> same_links fs (fs @ [(p, DirNode)])"
  unfolding same_links_def
  by (rule ext) (auto simp: link_at_def node_at_def map_add_def split: option.splits)

lemma append_dir_outside: "map_of fs p = None \<Longrightarrow> below ws p \<Longrightarrow> same_outside ws fs (fs @ [(p, DirNode)])"
  by (auto simp: same_outside_def map_add_def split: option.splits)

lemma node_None: "node_at fs p = None \<Longrightarrow> map_of fs p = None \<and> p \<noteq> []"
  by (simp add: node_at_def split: if_splits)

lemma mkdir_walk_links: "same_links fs (snd (mkdir_walk fs cur rest))"
proof (induction fs cur rest rule: mkdir_walk.induct)
  case (1 fs cur)
  show ?case by simp
next
  case (2 fs cur n rest)
  let ?p = "cur @ [n]"
  show ?case
  proof (cases "node_at fs ?p")
    case None
    have "same_links fs (fs @ [(?p, DirNode)])" using node_None [OF None] by (intro append_dir_links) auto
    from same_links_trans [OF this "2.IH"(1) [OF refl None]] None show ?thesis by (simp add: Let_def)
  next
    case (Some x)
    show ?thesis
    proof (cases x)
      case DirNode
      with Some "2.IH"(2) [OF refl Some] show ?thesis by (simp add: Let_def)
    next
      case (FileNode b)
      with Some show ?thesis by (simp add: Let_def)
    next
      case (LinkNode t)
      show ?thesis
      proof (cases "resolve fs ?p")
        case None
        with Some LinkNode show ?thesis by (simp add: Let_def)
      next
        case q: (Some q)
        with Some LinkNode "2.IH"(3) [OF refl Some LinkNode q] show ?thesis by (simp add: Let_def)
      qed
    qed
  qed
qed

text \<open>Walking down real names to a path below the root, whose own directories exist, creates nothing outside.\<close>

definition has_root :: "path \<Rightarrow> fs \<Rightarrow> bool" where
  "has_root ws fs = (\<forall>k \<le> length ws. node_at fs (take k ws) = Some DirNode)"

lemma below_prefix: "below ws p \<Longrightarrow> k \<le> length ws \<Longrightarrow> take k p = take k ws"
  by (auto simp: below_iff)

lemma node_at_append_dir: "node_at fs q = Some x \<Longrightarrow> node_at (fs @ [(p, y)]) q = Some x"
  by (auto simp: node_at_def map_add_def split: if_splits)

lemma has_root_append: "has_root ws fs \<Longrightarrow> has_root ws (fs @ [(p, y)])"
  by (auto simp: has_root_def intro: node_at_append_dir)

lemma missing_is_below:
  assumes "has_root ws fs" and "below ws (p @ r)" and "node_at fs p = None"
  shows "below ws p"
proof (cases "length p \<le> length ws")
  case True
  then have "p = take (length p) ws" using below_prefix [OF assms(2) True] by simp
  then have "node_at fs p = Some DirNode" using assms(1) True by (metis has_root_def)
  then show ?thesis using assms(3) by simp
next
  case False
  then show ?thesis using below_take [OF assms(2), of "length p"] by simp
qed

lemma mkdir_walk_real:
  "real_path (link_at fs) (cur @ rest) \<Longrightarrow> has_root ws fs \<Longrightarrow> below ws (cur @ rest) \<Longrightarrow>
     same_outside ws fs (snd (mkdir_walk fs cur rest)) \<and> has_root ws (snd (mkdir_walk fs cur rest))
     \<and> (\<forall>q. fst (mkdir_walk fs cur rest) = Inr q \<longrightarrow> q = cur @ rest)"
proof (induction fs cur rest rule: mkdir_walk.induct)
  case (1 fs cur)
  then show ?case by simp
next
  case (2 fs cur n rest)
  let ?p = "cur @ [n]"
  have real: "real_path (link_at fs) (?p @ rest)" and inside: "below ws (?p @ rest)" using "2.prems" by simp_all
  have "link_at fs (take (length ?p) (?p @ rest)) = None" using real unfolding real_path_def by (simp del: take_append)
  then have nolink: "link_at fs ?p = None" by simp
  show ?case
  proof (cases "node_at fs ?p")
    case None
    let ?fs = "fs @ [(?p, DirNode)]"
    have b: "below ws ?p" by (rule missing_is_below [OF "2.prems"(2) inside None])
    have "link_at ?fs = link_at fs" using append_dir_links node_None [OF None] by (simp add: same_links_def)
    then have "same_outside ws ?fs (snd (mkdir_walk ?fs ?p rest)) \<and> has_root ws (snd (mkdir_walk ?fs ?p rest))
        \<and> (\<forall>q. fst (mkdir_walk ?fs ?p rest) = Inr q \<longrightarrow> q = ?p @ rest)"
      using real inside has_root_append [OF "2.prems"(2)] by (intro "2.IH"(1) [OF refl None]) auto
    moreover have "same_outside ws fs ?fs" using node_None [OF None] b by (intro append_dir_outside) auto
    ultimately show ?thesis using None same_outside_trans [of ws fs ?fs] by (auto simp: Let_def)
  next
    case (Some x)
    show ?thesis
    proof (cases x)
      case DirNode
      with Some "2.prems" "2.IH"(2) [OF refl Some] show ?thesis by (simp add: Let_def)
    next
      case (FileNode b)
      with Some "2.prems" show ?thesis by (simp add: Let_def)
    next
      case (LinkNode t)
      with Some nolink show ?thesis by (simp add: link_at_def)
    qed
  qed
qed

lemma mkdirs_inside:
  "real_path (link_at fs) p \<Longrightarrow> has_root ws fs \<Longrightarrow> below ws p \<Longrightarrow>
     same_outside ws fs (snd (mkdirs fs p)) \<and> has_root ws (snd (mkdirs fs p))
     \<and> (\<forall>q. fst (mkdirs fs p) = Inr q \<longrightarrow> q = p)"
  using mkdir_walk_real [of fs "[]" p ws] by (simp add: mkdirs_def)

lemma mkdirs_links: "same_links fs (snd (mkdirs fs p))"
  by (simp add: mkdirs_def mkdir_walk_links)

text \<open>Writing touches only the path it resolves to; that is no directory, and no link as it is real.\<close>

lemma write_to_outside: "resolve fs p = Some q \<Longrightarrow> below ws q \<Longrightarrow> same_outside ws fs (snd (write_to fs p bytes))"
  by (auto simp: write_to_def same_outside_def)

lemma node_at_update: "q \<noteq> [] \<Longrightarrow> node_at (AList.update q x fs) p = (if p = q then Some x else node_at fs p)"
  by (auto simp: node_at_def)

lemma write_to_links: "same_links fs (snd (write_to fs p bytes))"
proof (cases "resolve fs p")
  case None
  then show ?thesis by (simp add: write_to_def)
next
  case (Some q)
  then have "link_at fs (take (length q) q) = None" using resolve_real [OF Some] unfolding real_path_def by blast
  then have "link_at fs q = None" by simp
  then show ?thesis using Some
    by (auto simp: write_to_def same_links_def link_at_def node_at_update fun_eq_iff split: option.splits node.splits)
qed

lemma write_to_root: "has_root ws fs \<Longrightarrow> has_root ws (snd (write_to fs p bytes))"
  by (auto simp: write_to_def has_root_def node_at_update split: option.split)

lemma map_of_remove: "map_of (remove_tree q fs) p = (if below q p then None else map_of fs p)"
  by (induction fs) (auto simp: remove_tree_def)

lemma remove_outside: "below ws q \<Longrightarrow> same_outside ws fs (remove_tree q fs)"
  by (auto simp: same_outside_def map_of_remove dest: below_trans)

lemma remove_dir_outside: "below ws q \<Longrightarrow> same_outside ws fs (snd (remove_dir q fs))"
  by (simp add: remove_dir_def remove_outside)

text \<open>Renaming a tree from one place below the root to another one.\<close>

lemma map_of_rename_outside:
  "below ws src \<Longrightarrow> below ws dst \<Longrightarrow> \<not> below ws p \<Longrightarrow> map_of (rename_tree src dst fs) p = map_of fs p"
proof (induction fs)
  case Nil
  then show ?case by (simp add: rename_tree_def)
next
  case (Cons a fs)
  obtain q x where a: "a = (q, x)" by fastforce
  have "p = (if below src q then dst @ drop (length src) q else q) \<longleftrightarrow> p = q"
    using Cons.prems below_trans [of ws src q] below_trans [of ws dst "dst @ drop (length src) q"] by auto
  then show ?case using Cons a by (simp add: rename_tree_def split del: if_split cong: if_cong)
qed

lemma rename_outside: "below ws src \<Longrightarrow> below ws dst \<Longrightarrow> same_outside ws fs (rename_tree src dst fs)"
  by (simp add: same_outside_def map_of_rename_outside)

end
