(* ===== verification/FileService.thy ===== *)
theory FileService
  imports FileTree PyFloat "HOL-Library.List_Lexorder" "HOL-Library.Char_ord"
begin

text \<open>
  The workspace file service (\<^verbatim>\<open>file_service.py\<close>) on the file system of theory \<^verbatim>\<open>FileTree\<close>: resolving a user's path,
  listing, reading, uploading, moving, creating, extracting archives, deleting and collecting downloads. An
  operation gives a reply or an error, and the tree after it. \<open>guess\<close> is \<^verbatim>\<open>mimetypes.guess_type(name)[0]\<close>, a
  file's bytes are not decoded, and modification times are left out of listings.
\<close>

type_synonym file_result = "(fs_error + jobj) \<times> fs"

definition backslash :: char where
  "backslash = CHR 0x5C"

definition outside_error :: fs_error where
  "outside_error = PermissionErr ''path outside workspace''"

section \<open>Paths\<close>

definition resolve_workspace_path :: "path \<Rightarrow> fs \<Rightarrow> string option \<Rightarrow> fs_error + path" where
  "resolve_workspace_path ws fs user_path =
     (let raw = py_strip (case user_path of None \<Rightarrow> ''.'' | Some s \<Rightarrow> if s = [] then ''.'' else s) in
      if raw \<in> {[], ''.'', ''/''} then Inr ws
      else let normalized = replace_char backslash ''/'' raw; names = split_char (CHR ''/'') normalized in
        if CHR 0x00 \<in> set raw then Inl (ValueErr ''embedded null byte'')
        else case resolve fs (if startswith normalized ''/'' then names else ws @ names) of
          None \<Rightarrow> Inl LoopErr
        | Some q \<Rightarrow> if below ws q then Inr q else Inl outside_error)"

definition ensure_under_workspace :: "path \<Rightarrow> fs \<Rightarrow> path \<Rightarrow> fs_error + path" where
  "ensure_under_workspace ws fs p =
     (case resolve fs p of None \<Rightarrow> Inl LoopErr | Some q \<Rightarrow> if below ws q then Inr q else Inl outside_error)"

definition relative_text :: "path \<Rightarrow> path \<Rightarrow> string" where
  "relative_text ws q = (if q = ws then ''.'' else join_with ''/'' (drop (length ws) q))"

definition workspace_relative_path :: "path \<Rightarrow> fs \<Rightarrow> path \<Rightarrow> fs_error + string" where
  "workspace_relative_path ws fs p =
     (case ensure_under_workspace ws fs p of Inl e \<Rightarrow> Inl e | Inr q \<Rightarrow> Inr (relative_text ws q))"

definition path_text :: "path \<Rightarrow> string" where
  "path_text p = ''/'' @ join_with ''/'' p"

definition path_name :: "path \<Rightarrow> string" where
  "path_name p = (if p = [] then [] else last p)"

definition exists_at :: "fs \<Rightarrow> path \<Rightarrow> bool" where
  "exists_at fs p = (stat fs p \<noteq> None)"

definition sanitize_filename :: "string \<Rightarrow> fs_error + string" where
  "sanitize_filename filename =
     (let name = filter (\<lambda>c. c \<notin> {CHR 0x00, CHR 0x0D, CHR 0x0A}) filename;
          base = py_strip (last (split_char (CHR ''/'') (replace_char backslash ''/'' name)))
      in if base = [] then Inl (ValueErr ''invalid filename'') else Inr base)"

definition path_suffix :: "string \<Rightarrow> string" where
  "path_suffix name =
     (let tail = takeWhile (\<lambda>c. c \<noteq> CHR ''.'') (rev name); i = length name - length tail in
      if length tail < length name \<and> i > 1 \<and> tail \<noteq> [] then CHR ''.'' # rev tail else [])"

definition guess_language :: "path \<Rightarrow> string" where
  "guess_language p =
     (case map_of [(''.md'', ''markdown''), (''.py'', ''python''), (''.js'', ''javascript''), (''.ts'', ''typescript''),
                   (''.json'', ''json''), (''.csv'', ''csv''), (''.txt'', ''text'')] (py_lower (path_suffix (path_name p))) of
        Some l \<Rightarrow> l | None \<Rightarrow> ''text'')"

definition content_type_of :: "(string \<Rightarrow> string option) \<Rightarrow> string \<Rightarrow> jval" where
  "content_type_of guess name = JStr (case guess name of Some t \<Rightarrow> if t = [] then ''application/octet-stream'' else t
                                      | None \<Rightarrow> ''application/octet-stream'')"

section \<open>Reading\<close>

definition DEFAULT_READ_FILE_MAX_BYTES :: int where
  "DEFAULT_READ_FILE_MAX_BYTES = 1024 * 1024"

definition read_file_max_bytes :: "string option \<Rightarrow> int" where
  "read_file_max_bytes raw =
     (let v = (case raw of None \<Rightarrow> DEFAULT_READ_FILE_MAX_BYTES
               | Some s \<Rightarrow> (case parse_int s of None \<Rightarrow> DEFAULT_READ_FILE_MAX_BYTES | Some i \<Rightarrow> i))
      in if v > 0 then v else DEFAULT_READ_FILE_MAX_BYTES)"

definition node_size :: "node \<Rightarrow> int" where
  "node_size x = (case x of FileNode b \<Rightarrow> int (length b) | _ \<Rightarrow> 0)"

definition list_item :: "path \<Rightarrow> path \<times> node \<Rightarrow> jobj" where
  "list_item ws e = (case e of (p, x) \<Rightarrow>
     [(''name'', JStr (path_name p)), (''path'', JStr (path_text p)), (''relative_path'', JStr (relative_text ws p)),
      (''is_dir'', JBool (x = DirNode)), (''is_file'', JBool (x \<noteq> DirNode)),
      (''type'', JStr (if x = DirNode then ''directory'' else ''file'')), (''size'', JInt (node_size x))])"

definition children :: "fs \<Rightarrow> path \<Rightarrow> (path \<times> node) list" where
  "children fs d = filter (\<lambda>(p, x). p \<noteq> [] \<and> butlast p = d) fs"

definition sort_entries :: "(path \<times> node) list \<Rightarrow> (path \<times> node) list" where
  "sort_entries es =
     (let s = sort_key (\<lambda>(p, x). py_lower (path_name p)) es
      in filter (\<lambda>(p, x). x = DirNode) s @ filter (\<lambda>(p, x). x \<noteq> DirNode) s)"

definition list_files :: "path \<Rightarrow> fs \<Rightarrow> string option \<Rightarrow> fs_error + jobj" where
  "list_files ws fs user_path =
     (case resolve_workspace_path ws fs user_path of Inl e \<Rightarrow> Inl e
      | Inr target \<Rightarrow>
          if \<not> exists_at fs target then Inl FileNotFound
          else if \<not> is_directory fs target then Inl (ValueErr ''path must be a directory'')
          else Inr [(''success'', JBool True), (''root_path'', JStr (path_text ws)), (''path'', JStr (path_text target)),
                 (''relative_path'', JStr (relative_text ws target)),
                 (''items'', JList (List.map (\<lambda>e. JObj (list_item ws e))
                    (sort_entries (filter (\<lambda>(p, x). \<not> is_link fs p) (children fs target)))))])"

text \<open>The reply without its text, and the bytes it returns.\<close>

definition read_file :: "(string \<Rightarrow> string option) \<Rightarrow> string option \<Rightarrow> path \<Rightarrow> fs \<Rightarrow> string option
    \<Rightarrow> fs_error + jobj \<times> string" where
  "read_file guess max_env ws fs user_path =
     (case resolve_workspace_path ws fs user_path of Inl e \<Rightarrow> Inl e
      | Inr target \<Rightarrow>
          (case stat fs target of
             Some (FileNode bytes) \<Rightarrow>
               (let limit = nat (read_file_max_bytes max_env); raw = take limit bytes; is_binary = (CHR 0x00 \<in> set raw)
                in Inr ([(''success'', JBool True), (''path'', JStr (relative_text ws target)),
                      (''language'', JStr (guess_language target)), (''content_type'', content_type_of guess (path_name target)),
                      (''size'', JInt (int (length bytes))), (''returned_bytes'', JInt (int (length raw))),
                      (''truncated'', JBool (length bytes > limit)), (''is_binary'', JBool is_binary)],
                      if is_binary then [] else raw))
           | _ \<Rightarrow> Inl FileNotFound))"

definition get_content_path :: "path \<Rightarrow> fs \<Rightarrow> string option \<Rightarrow> fs_error + path" where
  "get_content_path ws fs user_path =
     (case resolve_workspace_path ws fs user_path of Inl e \<Rightarrow> Inl e
      | Inr target \<Rightarrow> if is_regular fs target then Inr target else Inl FileNotFound)"

section \<open>Writing\<close>

text \<open>The path to write to; a name \<open>..\<close> or \<open>.\<close> is a directory, so writing there fails.\<close>

definition resolve_write_target :: "path \<Rightarrow> fs \<Rightarrow> string option \<Rightarrow> string \<Rightarrow> (fs_error + path \<times> string) \<times> fs" where
  "resolve_write_target ws fs directory filename =
     (case sanitize_filename filename of Inl e \<Rightarrow> (Inl e, fs)
      | Inr name \<Rightarrow>
          (case resolve_workspace_path ws fs directory of Inl e \<Rightarrow> (Inl e, fs)
           | Inr target_dir \<Rightarrow>
               (case mkdirs fs target_dir of
                  (Inl e, fs1) \<Rightarrow> (Inl e, fs1)
                | (Inr d, fs1) \<Rightarrow>
                    if name = ''..'' then (if below ws (butlast target_dir) then (Inl OsErr, fs1) else (Inl outside_error, fs1))
                    else if name = ''.'' then (Inl OsErr, fs1)
                    else if is_link fs1 (target_dir @ [name]) then (Inl outside_error, fs1)
                    else (Inr (target_dir @ [name], name), fs1))))"

definition saved_reply :: "path \<Rightarrow> path \<Rightarrow> string \<Rightarrow> (string \<times> jval) list" where
  "saved_reply ws target mode =
     [(''success'', JBool True), (''mode'', JStr mode), (''path'', JStr (relative_text ws target)),
      (''relative_path'', JStr (relative_text ws target)), (''target_path'', JStr (path_text target))]"

definition upload_file :: "(string \<Rightarrow> string option) \<Rightarrow> path \<Rightarrow> fs \<Rightarrow> string option \<Rightarrow> string \<Rightarrow> string \<Rightarrow> file_result" where
  "upload_file guess ws fs directory filename data =
     (case resolve_write_target ws fs directory filename of
        (Inl e, fs1) \<Rightarrow> (Inl e, fs1)
      | (Inr (target, name), fs1) \<Rightarrow>
          (case write_to fs1 target data of
             (Inl e, fs2) \<Rightarrow> (Inl e, fs2)
           | (Inr u, fs2) \<Rightarrow>
               (Inr (saved_reply ws target ''file_save'' @ [(''name'', JStr name), (''uploaded_filename'', JStr name),
                      (''size'', JInt (int (length data))), (''content_type'', content_type_of guess name)]), fs2)))"

definition move_path :: "path \<Rightarrow> fs \<Rightarrow> string option \<Rightarrow> string option \<Rightarrow> file_result" where
  "move_path ws fs source destination =
     (case resolve_workspace_path ws fs source of Inl e \<Rightarrow> (Inl e, fs)
      | Inr src \<Rightarrow>
          if src = ws then (Inl (PermissionErr ''cannot move workspace root''), fs)
          else if \<not> exists_at fs src then (Inl FileNotFound, fs)
          else if is_link fs src then (Inl outside_error, fs)
          else (case resolve_workspace_path ws fs destination of Inl e \<Rightarrow> (Inl e, fs)
            | Inr dst \<Rightarrow>
                if dst = ws \<or> dst = src then (Inl (ValueErr ''invalid destination''), fs)
                else if exists_at fs dst then (Inl (ValueErr ''destination already exists''), fs)
                else (case mkdirs fs (butlast dst) of
                   (Inl e, fs1) \<Rightarrow> (Inl e, fs1)
                 | (Inr d, fs1) \<Rightarrow>
                     if below src dst then (Inl OsErr, fs1)
                     else (let fs2 = rename_tree src dst fs1 in
                       (Inr (saved_reply ws dst ''move'' @ [(''source_relative_path'', JStr (relative_text ws src)),
                              (''is_dir'', JBool (is_directory fs2 dst)), (''is_file'', JBool (is_regular fs2 dst))]), fs2)))))"

definition make_directory :: "path \<Rightarrow> fs \<Rightarrow> string option \<Rightarrow> file_result" where
  "make_directory ws fs user_path =
     (case resolve_workspace_path ws fs user_path of Inl e \<Rightarrow> (Inl e, fs)
      | Inr target \<Rightarrow>
          if target = ws then (Inl (ValueErr ''path is required''), fs)
          else if exists_at fs target then (Inl (ValueErr ''already exists''), fs)
          else (case mkdirs fs target of
             (Inl e, fs1) \<Rightarrow> (Inl e, fs1)
           | (Inr d, fs1) \<Rightarrow> (Inr (saved_reply ws target ''mkdir'' @ [(''is_dir'', JBool True)]), fs1)))"

definition create_file :: "(string \<Rightarrow> string option) \<Rightarrow> path \<Rightarrow> fs \<Rightarrow> string option \<Rightarrow> file_result" where
  "create_file guess ws fs user_path =
     (case resolve_workspace_path ws fs user_path of Inl e \<Rightarrow> (Inl e, fs)
      | Inr target \<Rightarrow>
          if target = ws then (Inl (ValueErr ''path is required''), fs)
          else if exists_at fs target then (Inl (ValueErr ''already exists''), fs)
          else (case mkdirs fs (butlast target) of
             (Inl e, fs1) \<Rightarrow> (Inl e, fs1)
           | (Inr d, fs1) \<Rightarrow>
               (case write_to fs1 target [] of
                  (Inl e, fs2) \<Rightarrow> (Inl e, fs2)
                | (Inr u, fs2) \<Rightarrow> (Inr (saved_reply ws target ''file_create'' @ [(''is_file'', JBool True), (''size'', JInt 0),
                     (''content_type'', content_type_of guess (path_name target))]), fs2))))"

section \<open>Archives\<close>

text \<open>A member's name, the file type bits of its mode, and its bytes.\<close>

record zip_member =
  zm_name :: string
  zm_type :: nat
  zm_data :: string

definition zip_error :: fs_error where
  "zip_error = PermissionErr ''zip entry outside target directory''"

definition posix_parts :: "string \<Rightarrow> string list" where
  "posix_parts name = filter (\<lambda>n. n \<noteq> [] \<and> n \<noteq> ''.'') (split_char (CHR ''/'') name)"

definition member_error :: "path \<Rightarrow> fs \<Rightarrow> path \<Rightarrow> zip_member \<Rightarrow> fs_error option" where
  "member_error ws fs target_dir info =
     (let name = replace_char backslash ''/'' (zm_name info) in
      if startswith name ''/'' \<or> ''..'' \<in> set (posix_parts name) then Some zip_error
      else if zm_type info = 40960 then Some zip_error
      else case resolve fs (target_dir @ posix_parts name) of
        None \<Rightarrow> Some LoopErr
      | Some q \<Rightarrow> if below ws q \<and> below target_dir q then None else Some zip_error)"

fun first_error :: "('a \<Rightarrow> fs_error option) \<Rightarrow> 'a list \<Rightarrow> fs_error option" where
  "first_error f [] = None"
| "first_error f (x # xs) = (case f x of Some e \<Rightarrow> Some e | None \<Rightarrow> first_error f xs)"

text \<open>\<^verbatim>\<open>ZipFile.extractall\<close> into an empty directory.\<close>

definition extract_member :: "zip_member \<Rightarrow> fs \<Rightarrow> (fs_error + unit) \<times> fs" where
  "extract_member info tmp =
     (let names = filter (\<lambda>n. n \<noteq> [] \<and> n \<noteq> ''.'' \<and> n \<noteq> ''..'') (split_char (CHR ''/'') (zm_name info)) in
      if zm_name info = [] then (Inl OsErr, tmp)
      else if last (zm_name info) = CHR ''/''
      then (case mkdirs tmp names of (Inl e, t) \<Rightarrow> (Inl e, t) | (Inr d, t) \<Rightarrow> (Inr (), t))
      else (case mkdirs tmp (butlast names) of (Inl e, t) \<Rightarrow> (Inl e, t) | (Inr d, t) \<Rightarrow> write_to t names (zm_data info)))"

fun extract_all :: "zip_member list \<Rightarrow> fs \<Rightarrow> fs_error + fs" where
  "extract_all [] tmp = Inr tmp"
| "extract_all (info # infos) tmp =
     (case extract_member info tmp of (Inl e, t) \<Rightarrow> Inl e | (Inr u, t) \<Rightarrow> extract_all infos t)"

text \<open>Copying one entry of the temporary tree; \<^verbatim>\<open>shutil.copy2\<close> copies into a directory that bears the name.\<close>

definition copy_entry :: "path \<Rightarrow> path \<Rightarrow> path \<times> node \<Rightarrow> fs \<Rightarrow> (fs_error + string list) \<times> fs" where
  "copy_entry ws target_dir e fs =
     (case e of (p, x) \<Rightarrow> let dest = target_dir @ p in
      (case x of
         FileNode b \<Rightarrow>
           (case mkdirs fs (butlast dest) of
              (Inl e, fs1) \<Rightarrow> (Inl e, fs1)
            | (Inr d, fs1) \<Rightarrow>
                (case write_to fs1 (if is_directory fs1 dest then dest @ [path_name p] else dest) b of
                   (Inl e, fs2) \<Rightarrow> (Inl e, fs2)
                 | (Inr u, fs2) \<Rightarrow>
                     (case workspace_relative_path ws fs2 dest of Inl e \<Rightarrow> (Inl e, fs2) | Inr r \<Rightarrow> (Inr [r], fs2))))
       | _ \<Rightarrow> (case mkdirs fs dest of (Inl e, fs1) \<Rightarrow> (Inl e, fs1) | (Inr d, fs1) \<Rightarrow> (Inr [], fs1))))"

fun copy_entries :: "path \<Rightarrow> path \<Rightarrow> (path \<times> node) list \<Rightarrow> fs \<Rightarrow> (fs_error + string list) \<times> fs" where
  "copy_entries ws target_dir [] fs = (Inr [], fs)"
| "copy_entries ws target_dir (e # es) fs =
     (case copy_entry ws target_dir e fs of
        (Inl err, fs1) \<Rightarrow> (Inl err, fs1)
      | (Inr items, fs1) \<Rightarrow>
          (case copy_entries ws target_dir es fs1 of
             (Inl err, fs2) \<Rightarrow> (Inl err, fs2) | (Inr later, fs2) \<Rightarrow> (Inr (items @ later), fs2)))"

text \<open>\<open>members\<close> is \<^verbatim>\<open>None\<close> for data that is no archive.\<close>

definition extract_zip_safely :: "path \<Rightarrow> fs \<Rightarrow> string option \<Rightarrow> string \<Rightarrow> zip_member list option \<Rightarrow> file_result" where
  "extract_zip_safely ws fs directory filename members =
     (case sanitize_filename filename of Inl e \<Rightarrow> (Inl e, fs)
      | Inr clean_name \<Rightarrow>
      (case resolve_workspace_path ws fs directory of Inl e \<Rightarrow> (Inl e, fs)
      | Inr target_dir \<Rightarrow>
      (case mkdirs fs target_dir of (Inl e, fs1) \<Rightarrow> (Inl e, fs1)
      | (Inr d, fs1) \<Rightarrow>
      (case members of None \<Rightarrow> (Inl (ValueErr ''invalid_zip_file''), fs1)
      | Some infos \<Rightarrow>
      (case first_error (member_error ws fs1 target_dir) infos of Some e \<Rightarrow> (Inl e, fs1)
      | None \<Rightarrow>
      (case extract_all infos [] of Inl e \<Rightarrow> (Inl e, fs1)
      | Inr tmp \<Rightarrow>
      (case copy_entries ws target_dir tmp fs1 of (Inl e, fs2) \<Rightarrow> (Inl e, fs2)
      | (Inr items, fs2) \<Rightarrow>
          (Inr (saved_reply ws target_dir ''zip_extract'' @ [(''uploaded_filename'', JStr clean_name),
                 (''items'', JList (List.map JStr (sort items))), (''extracted_count'', JInt (int (length items)))]), fs2))))))))"

section \<open>Deleting\<close>

definition delete_target :: "bool \<Rightarrow> path \<Rightarrow> fs \<Rightarrow> (fs_error + unit) \<times> fs" where
  "delete_target recursive target fs =
     (case stat fs target of
        Some (FileNode b) \<Rightarrow> (Inr (), remove_tree target fs)
      | Some DirNode \<Rightarrow> if recursive then (Inr (), remove_tree target fs) else remove_dir target fs
      | _ \<Rightarrow> (Inr (), fs))"

definition delete_path :: "path \<Rightarrow> fs \<Rightarrow> string option \<Rightarrow> bool \<Rightarrow> file_result" where
  "delete_path ws fs user_path recursive =
     (case resolve_workspace_path ws fs user_path of Inl e \<Rightarrow> (Inl e, fs)
      | Inr target \<Rightarrow>
          if target = ws then (Inl (PermissionErr ''cannot delete workspace root''), fs)
          else if \<not> exists_at fs target then (Inl FileNotFound, fs)
          else (case delete_target recursive target fs of
             (Inl e, fs1) \<Rightarrow> (Inl e, fs1)
           | (Inr u, fs1) \<Rightarrow> (Inr [(''success'', JBool True), (''path'', JStr (relative_text ws target)),
                                (''deleted'', JBool True)], fs1)))"

type_synonym delete_item = "path \<times> bool"

text \<open>A target with whether it is a directory; the loop over the user's paths, without repetitions.\<close>

fun delete_targets :: "path \<Rightarrow> fs \<Rightarrow> path list \<Rightarrow> string list \<Rightarrow> fs_error + delete_item list" where
  "delete_targets ws fs seen [] = Inr []"
| "delete_targets ws fs seen (u # us) =
     (case resolve_workspace_path ws fs (Some u) of Inl e \<Rightarrow> Inl e
      | Inr target \<Rightarrow>
          if target = ws then Inl (PermissionErr ''cannot delete workspace root'')
          else if \<not> exists_at fs target then Inl FileNotFound
          else if target \<in> set seen then delete_targets ws fs seen us
          else (case delete_targets ws fs (target # seen) us of Inl e \<Rightarrow> Inl e
                | Inr ts \<Rightarrow> Inr ((target, is_directory fs target) # ts)))"

definition is_descendant :: "path \<Rightarrow> path \<Rightarrow> bool" where
  "is_descendant child parent = (below parent child \<and> child \<noteq> parent)"

definition collapse_step :: "delete_item \<Rightarrow> delete_item list \<Rightarrow> delete_item list" where
  "collapse_step t collapsed =
     (if list_ex (\<lambda>(existing, is_dir). is_dir \<and> is_descendant (fst t) existing) collapsed then collapsed
      else (if snd t then filter (\<lambda>(existing, is_dir). \<not> is_descendant existing (fst t)) collapsed else collapsed) @ [t])"

definition collapse_delete_targets :: "delete_item list \<Rightarrow> delete_item list" where
  "collapse_delete_targets ts = fold collapse_step ts []"

definition deleted_item :: "path \<Rightarrow> delete_item \<Rightarrow> jval" where
  "deleted_item ws t = JObj [(''path'', JStr (path_text (fst t))), (''relative_path'', JStr (relative_text ws (fst t))),
     (''is_dir'', JBool (snd t)), (''is_file'', JBool (\<not> snd t))]"

definition delete_one :: "bool \<Rightarrow> delete_item \<Rightarrow> fs \<Rightarrow> (fs_error + unit) \<times> fs" where
  "delete_one recursive t fs =
     (if \<not> snd t then (if is_regular fs (fst t) then (Inr (), remove_tree (fst t) fs) else (Inl FileNotFound, fs))
      else if \<not> is_directory fs (fst t) then (Inl FileNotFound, fs)
      else if recursive then (Inr (), remove_tree (fst t) fs) else remove_dir (fst t) fs)"

fun delete_all :: "path \<Rightarrow> bool \<Rightarrow> delete_item list \<Rightarrow> fs \<Rightarrow> (fs_error + jval list) \<times> fs" where
  "delete_all ws recursive [] fs = (Inr [], fs)"
| "delete_all ws recursive (t # ts) fs =
     (case delete_one recursive t fs of (Inl e, fs1) \<Rightarrow> (Inl e, fs1)
      | (Inr u, fs1) \<Rightarrow>
          (case delete_all ws recursive ts fs1 of (Inl e, fs2) \<Rightarrow> (Inl e, fs2)
           | (Inr items, fs2) \<Rightarrow> (Inr (deleted_item ws t # items), fs2)))"

definition delete_paths :: "path \<Rightarrow> fs \<Rightarrow> string list \<Rightarrow> bool \<Rightarrow> file_result" where
  "delete_paths ws fs user_paths recursive =
     (if user_paths = [] then (Inl (ValueErr ''paths is required''), fs)
      else case delete_targets ws fs [] user_paths of Inl e \<Rightarrow> (Inl e, fs)
      | Inr ts \<Rightarrow>
          (case delete_all ws recursive (collapse_delete_targets ts) fs of (Inl e, fs1) \<Rightarrow> (Inl e, fs1)
           | (Inr items, fs1) \<Rightarrow> (Inr [(''success'', JBool True), (''deleted'', JList items)], fs1)))"

section \<open>Downloads\<close>

text \<open>The entries of a download: names in the archive with the paths of their files.\<close>

datatype download = SingleFile path | Archive string "(string \<times> path) list"

definition tree_entries :: "path \<Rightarrow> fs \<Rightarrow> path \<Rightarrow> fs_error + (string \<times> path) list" where
  "tree_entries ws fs target =
     (let inner = filter (\<lambda>(p, x). below target p \<and> p \<noteq> target) fs in
      if list_ex (\<lambda>(p, x). is_link fs p) inner then Inl outside_error
      else Inr (List.map (\<lambda>(p, x). (relative_text ws p, p)) (filter (\<lambda>(p, x). x \<noteq> DirNode) inner)))"

definition prepare_download :: "path \<Rightarrow> fs \<Rightarrow> string option \<Rightarrow> fs_error + download" where
  "prepare_download ws fs user_path =
     (case resolve_workspace_path ws fs user_path of Inl e \<Rightarrow> Inl e
      | Inr target \<Rightarrow>
          (case stat fs target of
             None \<Rightarrow> Inl FileNotFound
           | Some (FileNode b) \<Rightarrow> Inr (SingleFile target)
           | Some DirNode \<Rightarrow>
               (case tree_entries ws fs target of Inl e \<Rightarrow> Inl e
                | Inr es \<Rightarrow> Inr (Archive ((if path_name target = [] then ''workspace'' else path_name target) @ ''.zip'') es))
           | Some (LinkNode t) \<Rightarrow> Inl (ValueErr ''unsupported path'')))"

fun download_targets :: "path \<Rightarrow> fs \<Rightarrow> string list \<Rightarrow> fs_error + path list" where
  "download_targets ws fs [] = Inr []"
| "download_targets ws fs (u # us) =
     (case resolve_workspace_path ws fs (Some u) of Inl e \<Rightarrow> Inl e
      | Inr target \<Rightarrow> if \<not> exists_at fs target then Inl FileNotFound
          else (case download_targets ws fs us of Inl e \<Rightarrow> Inl e | Inr ts \<Rightarrow> Inr (target # ts)))"

fun download_entries :: "path \<Rightarrow> fs \<Rightarrow> path list \<Rightarrow> fs_error + (string \<times> path) list" where
  "download_entries ws fs [] = Inr []"
| "download_entries ws fs (t # ts) =
     (case (if is_link fs t then Inl outside_error
            else if is_regular fs t then Inr [(relative_text ws t, t)] else tree_entries ws fs t) of
        Inl e \<Rightarrow> Inl e
      | Inr es \<Rightarrow> (case download_entries ws fs ts of Inl e \<Rightarrow> Inl e | Inr later \<Rightarrow> Inr (es @ later)))"

definition prepare_download_many :: "path \<Rightarrow> fs \<Rightarrow> string list \<Rightarrow> fs_error + download" where
  "prepare_download_many ws fs user_paths =
     (case user_paths of
        [] \<Rightarrow> Inl (ValueErr ''paths is required'')
      | [u] \<Rightarrow> prepare_download ws fs (Some u)
      | us \<Rightarrow>
          (case download_targets ws fs us of Inl e \<Rightarrow> Inl e
           | Inr ts \<Rightarrow> (case download_entries ws fs ts of Inl e \<Rightarrow> Inl e | Inr es \<Rightarrow> Inr (Archive ''server-files.zip'' es))))"

section \<open>Requests\<close>

datatype file_request =
    Upload "string option" string string
  | Move "string option" "string option"
  | MakeDirectory "string option"
  | CreateFile "string option"
  | ExtractZip "string option" string "zip_member list option"
  | Delete "string option" bool
  | DeleteMany "string list" bool

fun file_step :: "(string \<Rightarrow> string option) \<Rightarrow> path \<Rightarrow> file_request \<Rightarrow> fs \<Rightarrow> fs" where
  "file_step guess ws (Upload d n b) fs = snd (upload_file guess ws fs d n b)"
| "file_step guess ws (Move s d) fs = snd (move_path ws fs s d)"
| "file_step guess ws (MakeDirectory p) fs = snd (make_directory ws fs p)"
| "file_step guess ws (CreateFile p) fs = snd (create_file guess ws fs p)"
| "file_step guess ws (ExtractZip d n ms) fs = snd (extract_zip_safely ws fs d n ms)"
| "file_step guess ws (Delete p r) fs = snd (delete_path ws fs p r)"
| "file_step guess ws (DeleteMany ps r) fs = snd (delete_paths ws fs ps r)"

definition no_links :: "path \<Rightarrow> fs \<Rightarrow> bool" where
  "no_links ws fs = list_all (\<lambda>(p, x). below ws p \<longrightarrow> (case x of LinkNode t \<Rightarrow> False | _ \<Rightarrow> True)) fs"

text \<open>A step is contained when nothing outside the root changed, the root is still there, and no link appeared
  below it.\<close>

definition contained :: "path \<Rightarrow> fs \<Rightarrow> fs \<Rightarrow> bool" where
  "contained ws fs fs' = (same_outside ws fs fs' \<and> has_root ws fs' \<and> (no_links ws fs \<longrightarrow> no_links ws fs'))"

lemma contained_refl: "has_root ws fs \<Longrightarrow> contained ws fs fs"
  by (simp add: contained_def)

lemma contained_trans: "contained ws a b \<Longrightarrow> contained ws b c \<Longrightarrow> contained ws a c"
  by (auto simp: contained_def intro: same_outside_trans)

lemma root_real: "has_root ws fs \<Longrightarrow> list_all real_name ws \<Longrightarrow> real_path (link_at fs) ws"
  by (simp add: real_path_def has_root_def link_at_def)

lemma resolved_path:
  "resolve_workspace_path ws fs u = Inr q \<Longrightarrow> has_root ws fs \<Longrightarrow> list_all real_name ws \<Longrightarrow>
     real_path (link_at fs) q \<and> below ws q"
  by (auto simp: resolve_workspace_path_def Let_def resolve_real root_real split: if_splits option.splits)

lemma no_links_walk: "no_links ws fs \<Longrightarrow> no_links ws (snd (mkdir_walk fs cur rest))"
proof (induction fs cur rest rule: mkdir_walk.induct)
  case (1 fs cur)
  then show ?case by simp
next
  case (2 fs cur n rest)
  have "no_links ws (fs @ [(cur @ [n], DirNode)])" using "2.prems" by (simp add: no_links_def)
  with "2.prems" "2.IH" show ?case by (simp add: Let_def split: option.split node.split)
qed

lemma mkdirs_contained:
  "real_path (link_at fs) p \<Longrightarrow> has_root ws fs \<Longrightarrow> below ws p \<Longrightarrow>
     contained ws fs (snd (mkdirs fs p)) \<and> (\<forall>q. fst (mkdirs fs p) = Inr q \<longrightarrow> q = p)"
  using mkdirs_inside [of fs p ws] no_links_walk [of ws fs "[]" p] by (auto simp: contained_def mkdirs_def)

lemma write_contained:
  assumes "real_path (link_at fs) p" and "has_root ws fs" and "below ws p"
  shows "contained ws fs (snd (write_to fs p b))"
proof -
  have "resolve fs p = Some p" using assms(1) by (rule resolve_self)
  moreover have "no_links ws fs \<longrightarrow> no_links ws (AList.update p (FileNode b) fs)"
    by (auto simp: no_links_def list_all_iff dest!: in_set_update)
  ultimately show ?thesis using write_to_outside [of fs p p ws b] assms(2,3) write_to_root [of ws fs p b]
    by (auto simp: contained_def write_to_def)
qed

lemma not_below_prefix: "below ws q \<Longrightarrow> q \<noteq> ws \<Longrightarrow> k \<le> length ws \<Longrightarrow> \<not> below q (take k ws)"
proof
  assume a: "below ws q" "q \<noteq> ws" "k \<le> length ws" "below q (take k ws)"
  obtain r where q: "q = ws @ r" using a(1) unfolding below_iff by blast
  obtain s where s: "take k ws = q @ s" using a(4) unfolding below_iff by blast
  from s have "length (take k ws) = length q + length s" by simp
  then show False using a(2,3) q by simp
qed

lemma remove_contained:
  assumes "has_root ws fs" and "below ws q" and "q \<noteq> ws"
  shows "contained ws fs (remove_tree q fs)"
proof -
  have "node_at (remove_tree q fs) (take k ws) = Some DirNode" if "k \<le> length ws" for k
    using assms(1) not_below_prefix [OF assms(2,3) that] that
    by (auto simp: has_root_def node_at_def map_of_remove)
  moreover have "no_links ws fs \<longrightarrow> no_links ws (remove_tree q fs)"
    by (auto simp: no_links_def list_all_iff remove_tree_def)
  ultimately show ?thesis using remove_outside [OF assms(2)] by (simp add: contained_def has_root_def)
qed

lemma remove_dir_contained: "has_root ws fs \<Longrightarrow> below ws q \<Longrightarrow> q \<noteq> ws \<Longrightarrow> contained ws fs (snd (remove_dir q fs))"
  by (simp add: remove_dir_def contained_refl remove_contained)

lemma map_of_rename_prefix:
  "below ws src \<Longrightarrow> src \<noteq> ws \<Longrightarrow> below ws dst \<Longrightarrow> dst \<noteq> ws \<Longrightarrow> k \<le> length ws \<Longrightarrow>
     map_of (rename_tree src dst fs) (take k ws) = map_of fs (take k ws)"
proof (induction fs)
  case Nil
  then show ?case by (simp add: rename_tree_def)
next
  case (Cons a fs)
  obtain q x where a: "a = (q, x)" by fastforce
  have "take k ws = (if below src q then dst @ drop (length src) q else q) \<longleftrightarrow> take k ws = q"
    using not_below_prefix [OF Cons.prems(1,2,5)] not_below_prefix [OF Cons.prems(3,4,5)] by auto
  then show ?case using Cons a by (simp add: rename_tree_def split del: if_split cong: if_cong)
qed

lemma rename_contained:
  assumes "has_root ws fs" and "below ws src" and "src \<noteq> ws" and "below ws dst" and "dst \<noteq> ws"
  shows "contained ws fs (rename_tree src dst fs)"
proof -
  have "node_at (rename_tree src dst fs) (take k ws) = Some DirNode" if "k \<le> length ws" for k
  proof -
    have "node_at (rename_tree src dst fs) (take k ws) = node_at fs (take k ws)"
      unfolding node_at_def map_of_rename_prefix [OF assms(2-5) that] by simp
    then show ?thesis using assms(1) that by (simp add: has_root_def)
  qed
  moreover have "no_links ws (rename_tree src dst fs)" if "no_links ws fs"
    using that assms(2) below_trans [of ws src]
    by (auto simp: no_links_def list_all_iff rename_tree_def split: if_splits)
  ultimately show ?thesis using rename_outside [OF assms(2,4)] by (simp add: contained_def has_root_def)
qed

section \<open>Containment of each operation\<close>

lemma snd_case_sum: "snd (case r of Inl e \<Rightarrow> (Inl e, fs) | Inr x \<Rightarrow> g x) = (case r of Inl e \<Rightarrow> fs | Inr x \<Rightarrow> snd (g x))"
  by (simp split: sum.split)

text \<open>After making a directory the walked path is still real.\<close>

lemma real_after_mkdirs: "real_path (link_at fs) p \<Longrightarrow> real_path (link_at (snd (mkdirs fs q))) p"
  using mkdirs_links [of fs q] by (simp add: same_links_def)

lemma write_target_contained:
  assumes "has_root ws fs" and "list_all real_name ws" and "resolve_write_target ws fs d f = (r, fs1)"
  shows "contained ws fs fs1
    \<and> (case r of Inl e \<Rightarrow> True | Inr (target, name) \<Rightarrow> real_path (link_at fs1) target \<and> below ws target)"
proof (cases "sanitize_filename f")
  case (Inl e)
  then show ?thesis using assms by (auto simp: resolve_write_target_def contained_refl)
next
  case name: (Inr name)
  show ?thesis
  proof (cases "resolve_workspace_path ws fs d")
    case (Inl e)
    then show ?thesis using assms name by (auto simp: resolve_write_target_def contained_refl)
  next
    case (Inr dir)
    note dir = resolved_path [OF Inr assms(1,2)]
    note mk = mkdirs_contained [OF conjunct1 [OF dir] assms(1) conjunct2 [OF dir]]
    have fs1: "fs1 = snd (mkdirs fs dir)"
      using assms(3) name Inr by (auto simp: resolve_write_target_def split: prod.splits sum.splits if_splits)
    have ok: "real_path (link_at fs1) (dir @ [name]) \<and> below ws (dir @ [name])" if r: "r = Inr (dir @ [name], name)"
    proof
      have n: "name \<noteq> ''..''" "name \<noteq> ''.''" "\<not> is_link fs1 (dir @ [name])"
        using assms(3) name Inr r by (auto simp: resolve_write_target_def split: prod.splits sum.splits if_splits)
      have "name \<noteq> []" using name by (auto simp: sanitize_filename_def Let_def split: if_splits)
      then have "real_name name" using n by (simp add: real_name_def)
      then show "real_path (link_at fs1) (dir @ [name])"
        using n(3) real_after_mkdirs [OF conjunct1 [OF dir], of dir] fs1 by (intro real_path_snoc) (auto simp: is_link_def)
      show "below ws (dir @ [name])" using dir below_trans [of ws dir] by simp
    qed
    have "case r of Inl e \<Rightarrow> True | Inr (target, nm) \<Rightarrow> target = dir @ [name] \<and> nm = name"
      using assms(3) name Inr by (auto simp: resolve_write_target_def split: prod.splits sum.splits if_splits)
    then show ?thesis using mk fs1 ok by (cases r) auto
  qed
qed

lemma upload_contained:
  assumes "has_root ws fs" and "list_all real_name ws"
  shows "contained ws fs (snd (upload_file guess ws fs d f b))"
proof -
  obtain r fs1 where r: "resolve_write_target ws fs d f = (r, fs1)" by fastforce
  note w = write_target_contained [OF assms r]
  show ?thesis
  proof (cases r)
    case (Inl e)
    then show ?thesis using r w by (simp add: upload_file_def)
  next
    case (Inr tn)
    obtain target name where tn: "tn = (target, name)" by fastforce
    have "contained ws fs1 (snd (write_to fs1 target b))"
      using w Inr tn by (intro write_contained) (auto simp: contained_def)
    moreover have "snd (upload_file guess ws fs d f b) = snd (write_to fs1 target b)"
      using r Inr tn by (simp add: upload_file_def split: prod.split sum.split)
    ultimately show ?thesis using w contained_trans by auto
  qed
qed

lemma below_butlast: "below ws q \<Longrightarrow> q \<noteq> ws \<Longrightarrow> below ws (butlast q)"
  by (auto simp: below_iff butlast_append)

text \<open>Making the parent of a real path below the root.\<close>

lemma parent_contained:
  assumes "has_root ws fs" and "real_path (link_at fs) q" and "below ws q" and "q \<noteq> ws"
  shows "contained ws fs (snd (mkdirs fs (butlast q)))"
  using mkdirs_contained [OF real_path_butlast [OF assms(2)] assms(1) below_butlast [OF assms(3,4)]] by simp

lemma move_contained:
  assumes "has_root ws fs" and "list_all real_name ws"
  shows "contained ws fs (snd (move_path ws fs s d))"
proof (cases "resolve_workspace_path ws fs s")
  case (Inl e)
  then show ?thesis using assms by (simp add: move_path_def contained_refl)
next
  case src: (Inr src)
  show ?thesis
  proof (cases "resolve_workspace_path ws fs d")
    case (Inl e)
    then show ?thesis using assms src by (simp add: move_path_def contained_refl)
  next
    case dst: (Inr dst)
    obtain r fs1 where mk: "mkdirs fs (butlast dst) = (r, fs1)" by fastforce
    show ?thesis
    proof (cases "src = ws \<or> dst = ws")
      case True
      then show ?thesis using assms src dst by (auto simp: move_path_def contained_refl)
    next
      case False
      note s = resolved_path [OF src assms] and t = resolved_path [OF dst assms]
      have fs1: "contained ws fs fs1" using parent_contained [OF assms(1), of dst] t False mk by simp
      then have "contained ws fs1 (rename_tree src dst fs1)"
        using s t False by (intro rename_contained) (auto simp: contained_def)
      with fs1 have "contained ws fs (rename_tree src dst fs1)" by (rule contained_trans)
      then show ?thesis using src dst mk fs1 contained_refl [OF assms(1)]
        by (simp add: move_path_def Let_def split: sum.split)
    qed
  qed
qed

lemma make_directory_contained:
  assumes "has_root ws fs" and "list_all real_name ws"
  shows "contained ws fs (snd (make_directory ws fs u))"
proof (cases "resolve_workspace_path ws fs u")
  case (Inl e)
  then show ?thesis using assms by (simp add: make_directory_def contained_refl)
next
  case (Inr q)
  obtain r fs1 where mk: "mkdirs fs q = (r, fs1)" by fastforce
  note q = resolved_path [OF Inr assms]
  have "contained ws fs fs1" using mkdirs_contained [OF conjunct1 [OF q] assms(1) conjunct2 [OF q]] mk by simp
  then show ?thesis using Inr mk contained_refl [OF assms(1)] by (simp add: make_directory_def split: sum.split)
qed

lemma create_file_contained:
  assumes "has_root ws fs" and "list_all real_name ws"
  shows "contained ws fs (snd (create_file guess ws fs u))"
proof (cases "resolve_workspace_path ws fs u")
  case (Inl e)
  then show ?thesis using assms by (simp add: create_file_def contained_refl)
next
  case (Inr q)
  obtain r fs1 where mk: "mkdirs fs (butlast q) = (r, fs1)" by fastforce
  show ?thesis
  proof (cases "q = ws")
    case True
    then show ?thesis using Inr contained_refl [OF assms(1)] by (simp add: create_file_def)
  next
    case False
    note q = resolved_path [OF Inr assms]
    have fs1: "contained ws fs fs1" using parent_contained [OF assms(1), of q] q False mk by simp
    have "real_path (link_at fs1) q" using real_after_mkdirs [OF conjunct1 [OF q], of "butlast q"] mk by simp
    then have "contained ws fs1 (snd (write_to fs1 q []))" using fs1 q by (intro write_contained) (auto simp: contained_def)
    with fs1 have "contained ws fs (snd (write_to fs1 q []))" by (rule contained_trans)
    then show ?thesis using Inr mk fs1 contained_refl [OF assms(1)]
      by (auto simp: create_file_def split: sum.split prod.split)
  qed
qed

lemma delete_target_contained:
  "has_root ws fs \<Longrightarrow> below ws q \<Longrightarrow> q \<noteq> ws \<Longrightarrow> contained ws fs (snd (delete_target r q fs))"
  by (auto simp: delete_target_def contained_refl remove_contained remove_dir_contained split: option.split node.split)

lemma delete_path_contained:
  assumes "has_root ws fs" and "list_all real_name ws"
  shows "contained ws fs (snd (delete_path ws fs u r))"
proof (cases "resolve_workspace_path ws fs u")
  case (Inl e)
  then show ?thesis using assms by (simp add: delete_path_def contained_refl)
next
  case (Inr q)
  then show ?thesis using delete_target_contained [OF assms(1), of q r] resolved_path [OF Inr assms] contained_refl [OF assms(1)]
    by (auto simp: delete_path_def split: sum.split prod.split)
qed

definition inner_items :: "path \<Rightarrow> delete_item list \<Rightarrow> bool" where
  "inner_items ws ts = list_all (\<lambda>t. below ws (fst t) \<and> fst t \<noteq> ws) ts"

lemma delete_targets_inner:
  "delete_targets ws fs seen us = Inr ts \<Longrightarrow> has_root ws fs \<Longrightarrow> list_all real_name ws \<Longrightarrow> inner_items ws ts"
proof (induction us arbitrary: seen ts)
  case Nil
  then show ?case by (simp add: inner_items_def)
next
  case (Cons u us)
  then obtain q where q: "resolve_workspace_path ws fs (Some u) = Inr q" by (auto split: sum.splits)
  with Cons resolved_path [OF q] show ?case by (auto simp: inner_items_def split: if_splits sum.splits)
qed

lemma collapse_subset: "set (fold collapse_step ts acc) \<subseteq> set acc \<union> set ts"
proof (induction ts arbitrary: acc)
  case Nil
  show ?case by simp
next
  case (Cons t ts)
  have "set (collapse_step t acc) \<subseteq> insert t (set acc)" by (auto simp: collapse_step_def)
  then show ?case using Cons.IH [of "collapse_step t acc"] by auto
qed

lemma delete_all_contained:
  "inner_items ws ts \<Longrightarrow> has_root ws fs \<Longrightarrow> contained ws fs (snd (delete_all ws r ts fs))"
proof (induction ts arbitrary: fs)
  case Nil
  then show ?case by (simp add: contained_refl)
next
  case (Cons t ts)
  have t: "below ws (fst t)" "fst t \<noteq> ws" and ts: "inner_items ws ts" using Cons.prems(1) by (simp_all add: inner_items_def)
  obtain x fs1 where d: "delete_one r t fs = (x, fs1)" by fastforce
  have "contained ws fs (snd (delete_one r t fs))"
    using t Cons.prems(2) by (auto simp: delete_one_def contained_refl remove_contained remove_dir_contained)
  then have fs1: "contained ws fs fs1" using d by simp
  then have "contained ws fs (snd (delete_all ws r ts fs1))"
    using Cons.IH [OF ts, of fs1] contained_trans by (auto simp: contained_def)
  then show ?case using d fs1 by (auto split: sum.split prod.split)
qed

lemma delete_paths_contained:
  assumes "has_root ws fs" and "list_all real_name ws"
  shows "contained ws fs (snd (delete_paths ws fs us r))"
proof (cases "us = [] \<or> (\<exists>e. delete_targets ws fs [] us = Inl e)")
  case True
  then show ?thesis using contained_refl [OF assms(1)] by (auto simp: delete_paths_def)
next
  case False
  then obtain ts where ts: "delete_targets ws fs [] us = Inr ts" by (cases "delete_targets ws fs [] us") auto
  have "set (collapse_delete_targets ts) \<subseteq> set ts"
    using collapse_subset [of ts "[]"] by (simp add: collapse_delete_targets_def)
  then have "inner_items ws (collapse_delete_targets ts)"
    using delete_targets_inner [OF ts assms] by (auto simp: inner_items_def list_all_iff)
  from delete_all_contained [OF this assms(1), of r] show ?thesis
    using False ts by (auto simp: delete_paths_def split: sum.split prod.split)
qed

section \<open>Archives below a root without links\<close>

text \<open>The tree an archive is extracted to has real names and no links.\<close>

definition plain_tree :: "fs \<Rightarrow> bool" where
  "plain_tree tmp = list_all (\<lambda>(p, x). p \<noteq> [] \<and> list_all real_name p \<and> (case x of LinkNode t \<Rightarrow> False | _ \<Rightarrow> True)) tmp"

lemma plain_link: "plain_tree tmp \<Longrightarrow> link_at tmp p = None"
  by (auto simp: plain_tree_def link_at_def node_at_def list_all_iff split: option.splits node.splits dest!: map_of_SomeD)

lemma plain_walk: "plain_tree fs \<Longrightarrow> list_all real_name cur \<Longrightarrow> list_all real_name names \<Longrightarrow> plain_tree (snd (mkdir_walk fs cur names))"
proof (induction fs cur names rule: mkdir_walk.induct)
  case (1 fs cur)
  then show ?case by simp
next
  case (2 fs cur n rest)
  have new: "plain_tree (fs @ [(cur @ [n], DirNode)])" using "2.prems" by (simp add: plain_tree_def)
  have nolink: "node_at fs (cur @ [n]) \<noteq> Some (LinkNode t)" for t
    using plain_link [OF "2.prems"(1), of "cur @ [n]"] by (auto simp: link_at_def)
  show ?case
    using "2.IH"(1,2) new "2.prems" nolink by (auto simp: Let_def split: option.split node.split)
qed

lemma plain_mkdirs: "plain_tree fs \<Longrightarrow> list_all real_name names \<Longrightarrow> plain_tree (snd (mkdirs fs names))"
  by (simp add: mkdirs_def plain_walk)

lemma plain_write: "plain_tree fs \<Longrightarrow> list_all real_name names \<Longrightarrow> plain_tree (snd (write_to fs names b))"
proof -
  assume fs: "plain_tree fs" and n: "list_all real_name names"
  have "real_path (link_at fs) names" using n plain_link [OF fs] by (simp add: real_path_def)
  then have "resolve fs names = Some names" by (rule resolve_self)
  then show ?thesis using fs n by (auto simp: write_to_def plain_tree_def list_all_iff dest!: in_set_update)
qed

lemma plain_extract: "plain_tree tmp \<Longrightarrow> plain_tree (snd (extract_member info tmp))"
proof -
  assume tmp: "plain_tree tmp"
  let ?names = "filter (\<lambda>n. n \<noteq> [] \<and> n \<noteq> ''.'' \<and> n \<noteq> ''..'') (split_char (CHR ''/'') (zm_name info))"
  have n: "list_all real_name ?names" by (auto simp: list_all_iff real_name_def)
  then have bn: "list_all real_name (butlast ?names)" by (auto simp: list_all_iff dest: in_set_butlastD)
  obtain r1 t1 where m1: "mkdirs tmp ?names = (r1, t1)" by fastforce
  obtain r2 t2 where m2: "mkdirs tmp (butlast ?names) = (r2, t2)" by fastforce
  have "plain_tree t1" using plain_mkdirs [OF tmp n] m1 by simp
  moreover have t2: "plain_tree t2" using plain_mkdirs [OF tmp bn] m2 by simp
  moreover have "plain_tree (snd (write_to t2 ?names (zm_data info)))" using t2 n by (rule plain_write)
  ultimately show ?thesis using tmp m1 m2 by (simp add: extract_member_def Let_def split: sum.split)
qed

lemma plain_extract_all: "extract_all infos tmp = Inr t \<Longrightarrow> plain_tree tmp \<Longrightarrow> plain_tree t"
proof (induction infos arbitrary: tmp)
  case Nil
  then show ?case by simp
next
  case (Cons info infos)
  then show ?case using plain_extract [of tmp info] by (auto split: prod.splits sum.splits)
qed

lemma no_links_at: "no_links ws fs \<Longrightarrow> below ws p \<Longrightarrow> link_at fs p = None"
  by (auto simp: no_links_def link_at_def node_at_def list_all_iff split: option.splits node.splits if_splits dest!: map_of_SomeD)

lemma real_below:
  assumes "no_links ws fs" and "real_path (link_at fs) dir" and "below ws dir" and "list_all real_name p"
  shows "real_path (link_at fs) (dir @ p) \<and> below ws (dir @ p)"
proof
  show b: "below ws (dir @ p)" using assms(3) below_trans below_append by blast
  have "link_at fs (take k (dir @ p)) = None" if "k \<le> length (dir @ p)" for k
  proof (cases "k \<le> length dir")
    case True
    then show ?thesis using assms(2) by (simp add: real_path_def)
  next
    case False
    have "length ws \<le> length dir" using assms(3) by (auto simp: below_iff)
    then have "below ws (take k (dir @ p))" using b False by (intro below_take) auto
    then show ?thesis using assms(1) by (simp add: no_links_at)
  qed
  then show "real_path (link_at fs) (dir @ p)" using assms(2,4) by (auto simp: real_path_def)
qed

lemma copy_entry_contained:
  assumes "has_root ws fs" and "no_links ws fs" and "real_path (link_at fs) dir" and "below ws dir"
    and "p \<noteq> []" and "list_all real_name p"
  shows "contained ws fs (snd (copy_entry ws dir (p, x) fs)) \<and> same_links fs (snd (copy_entry ws dir (p, x) fs))"
proof -
  have bp: "list_all real_name (butlast p)" and lp: "list_all real_name (p @ [last p])"
    using assms(5,6) by (auto simp: list_all_iff dest: in_set_butlastD)
  note whole = real_below [OF assms(2-4,6)] and parent = real_below [OF assms(2-4) bp]
  have bl: "butlast (dir @ p) = dir @ butlast p" using assms(5) by (simp add: butlast_append)
  obtain r1 fs1 where m1: "mkdirs fs (dir @ p) = (r1, fs1)" by fastforce
  obtain r2 fs2 where m2: "mkdirs fs (dir @ butlast p) = (r2, fs2)" by fastforce
  have c1: "contained ws fs fs1" "same_links fs fs1"
    using mkdirs_contained [OF conjunct1 [OF whole] assms(1) conjunct2 [OF whole]] mkdirs_links [of fs "dir @ p"] m1 by auto
  have c2: "contained ws fs fs2" "same_links fs fs2"
    using mkdirs_contained [OF conjunct1 [OF parent] assms(1) conjunct2 [OF parent]] mkdirs_links [of fs "dir @ butlast p"] m2 by auto
  have n2: "no_links ws fs2" "has_root ws fs2" "real_path (link_at fs2) dir"
    using c2 assms(2,3) by (auto simp: contained_def same_links_def)
  have w: "contained ws fs (snd (write_to fs2 (dir @ q) b)) \<and> same_links fs (snd (write_to fs2 (dir @ q) b))"
    if "list_all real_name q" for q b
  proof -
    note d = real_below [OF n2(1,3) assms(4) that]
    have "contained ws fs2 (snd (write_to fs2 (dir @ q) b))" using d n2(2) by (intro write_contained) auto
    then show ?thesis using c2 contained_trans same_links_trans [OF c2(2) write_to_links] by blast
  qed
  show ?thesis
  proof (cases x)
    case (FileNode b)
    let ?t = "if is_directory fs2 (dir @ p) then p @ [last p] else p"
    have "contained ws fs (snd (write_to fs2 (dir @ ?t) b)) \<and> same_links fs (snd (write_to fs2 (dir @ ?t) b))"
      by (rule w) (use lp assms(6) in auto)
    then show ?thesis using FileNode c2 m2 bl assms(5)
      by (auto simp: copy_entry_def Let_def path_name_def split: prod.split sum.split)
  next
    case DirNode
    then show ?thesis using m1 c1 by (auto simp: copy_entry_def Let_def split: sum.split)
  next
    case (LinkNode t)
    then show ?thesis using m1 c1 by (auto simp: copy_entry_def Let_def split: sum.split)
  qed
qed

lemma copy_entries_contained:
  "plain_tree es \<Longrightarrow> has_root ws fs \<Longrightarrow> no_links ws fs \<Longrightarrow> real_path (link_at fs) dir \<Longrightarrow> below ws dir \<Longrightarrow>
     contained ws fs (snd (copy_entries ws dir es fs))"
proof (induction es arbitrary: fs)
  case Nil
  then show ?case by (simp add: contained_refl)
next
  case (Cons e es)
  obtain p x where e: "e = (p, x)" by fastforce
  have p: "p \<noteq> []" "list_all real_name p" and es: "plain_tree es" using Cons.prems(1) e by (auto simp: plain_tree_def)
  obtain r fs1 where c: "copy_entry ws dir (p, x) fs = (r, fs1)" by fastforce
  have fs1: "contained ws fs fs1" "same_links fs fs1"
    using copy_entry_contained [OF Cons.prems(2-5) p, of x] c by auto
  then have "contained ws fs1 (snd (copy_entries ws dir es fs1))"
    using Cons.prems by (intro Cons.IH [OF es]) (auto simp: contained_def same_links_def)
  with fs1(1) have "contained ws fs (snd (copy_entries ws dir es fs1))" by (rule contained_trans)
  then show ?case using e c fs1(1) by (auto split: sum.split prod.split)
qed

lemma extract_zip_contained:
  assumes "has_root ws fs" and "list_all real_name ws" and "no_links ws fs"
  shows "contained ws fs (snd (extract_zip_safely ws fs d f ms))"
proof (cases "sanitize_filename f")
  case (Inl e)
  then show ?thesis using contained_refl [OF assms(1)] by (simp add: extract_zip_safely_def)
next
  case name: (Inr name)
  show ?thesis
  proof (cases "resolve_workspace_path ws fs d")
    case (Inl e)
    then show ?thesis using name contained_refl [OF assms(1)] by (simp add: extract_zip_safely_def)
  next
    case dir: (Inr dir)
    obtain r fs1 where mk: "mkdirs fs dir = (r, fs1)" by fastforce
    note q = resolved_path [OF dir assms(1,2)]
    have fs1: "contained ws fs fs1"
      using mkdirs_contained [OF conjunct1 [OF q] assms(1) conjunct2 [OF q]] mk by simp
    have real: "real_path (link_at fs1) dir" using real_after_mkdirs [OF conjunct1 [OF q], of dir] mk by simp
    have copy: "contained ws fs (snd (copy_entries ws dir tmp fs1))" if "extract_all infos [] = Inr tmp" for infos tmp
    proof -
      have "plain_tree tmp" using plain_extract_all [OF that] by (simp add: plain_tree_def)
      then have "contained ws fs1 (snd (copy_entries ws dir tmp fs1))"
        using fs1 assms(3) real q by (intro copy_entries_contained) (auto simp: contained_def)
      with fs1 show ?thesis by (rule contained_trans)
    qed
    show ?thesis using name dir mk fs1 copy
      by (auto simp: extract_zip_safely_def split: sum.split option.split prod.split dest: copy)
  qed
qed

section \<open>Every request\<close>

definition is_archive_request :: "file_request \<Rightarrow> bool" where
  "is_archive_request r = (case r of ExtractZip d n ms \<Rightarrow> True | _ \<Rightarrow> False)"

lemma file_step_contained:
  "has_root ws fs \<Longrightarrow> list_all real_name ws \<Longrightarrow> \<not> is_archive_request r \<or> no_links ws fs \<Longrightarrow>
     contained ws fs (file_step guess ws r fs)"
  by (cases r) (auto simp: is_archive_request_def intro: upload_contained move_contained make_directory_contained
      create_file_contained delete_path_contained delete_paths_contained extract_zip_contained)

lemma file_run_contained:
  "has_root ws fs \<Longrightarrow> list_all real_name ws \<Longrightarrow> list_all (\<lambda>r. \<not> is_archive_request r) rs \<or> no_links ws fs \<Longrightarrow>
     contained ws fs (fold (file_step guess ws) rs fs)"
proof (induction rs arbitrary: fs)
  case Nil
  then show ?case by (simp add: contained_refl)
next
  case (Cons r rs)
  have step: "contained ws fs (file_step guess ws r fs)" using Cons.prems by (intro file_step_contained) auto
  then have "contained ws (file_step guess ws r fs) (fold (file_step guess ws) rs (file_step guess ws r fs))"
    using Cons.prems by (intro Cons.IH) (auto simp: contained_def)
  with step show ?case by (auto intro: contained_trans)
qed

text \<open>C5: Whatever paths, names and archives are sent, no sequence of uploads, moves, creations and deletions
  changes anything outside the workspace, however its symbolic links are set up; extracting archives keeps
  to it as well when the workspace holds no symbolic link.\<close>

theorem file_requests_stay_inside:
  assumes "has_root ws fs" and "list_all real_name ws" and "list_all (\<lambda>r. \<not> is_archive_request r) rs \<or> no_links ws fs"
  shows "\<forall>q. \<not> below ws q \<longrightarrow> map_of (fold (file_step guess ws) rs fs) q = map_of fs q"
  using file_run_contained [OF assms, of guess] by (simp add: contained_def same_outside_def)

definition sample_tree :: fs where
  "sample_tree = [([''w''], DirNode), ([''w'', ''x''], DirNode), ([''w'', ''x'', ''x''], LinkNode ''/o''), ([''o''], FileNode ''old'')]"

lemma sample_root: "has_root [''w''] sample_tree" "list_all real_name [''w'']"
  by (auto simp: has_root_def sample_tree_def node_at_def real_name_def take_Cons split: nat.split)

theorem file_requests_stay_inside_witness:
  "map_of (fold (file_step (\<lambda>n. None) [''w'']) [Upload (Some ''x/x/..'') ''n'' ''data'', Delete (Some ''x'') True] sample_tree) [''o'']
     = Some (FileNode ''old'')"
proof -
  have "list_all (\<lambda>r. \<not> is_archive_request r) [Upload (Some ''x/x/..'') ''n'' ''data'', Delete (Some ''x'') True]"
    by (simp add: is_archive_request_def)
  from file_requests_stay_inside [OF sample_root disjI1 [OF this], THEN spec, of "[''o'']"] show ?thesis
    by (simp add: below_def sample_tree_def)
qed

text \<open>Extracting an archive can write outside the workspace: a member with the name of an existing directory
  is copied into that directory under the same name, which may be a symbolic link the check of the members
  never looked at.\<close>

theorem archive_copy_escapes:
  "map_of (snd (extract_zip_safely [''w''] sample_tree None ''a.zip''
      (Some [\<lparr>zm_name = ''x'', zm_type = 0, zm_data = ''new''\<rparr>]))) [''o''] = Some (FileNode ''new'')"
proof -
  note eval = resolve_def resolve_from_simps link_at_def node_at_def sample_tree_def below_def startswith_def
  let ?x = "[''w'', ''x'', ''x'']"
  have r: "resolve sample_tree [''w'', ''x''] = Some [''w'', ''x'']" "resolve sample_tree ?x = Some [''o'']"
    by (simp_all add: eval)
  have strip: "py_strip ''.'' = ''.''" by code_simp
  have "sanitize_filename ''a.zip'' = Inr ''a.zip''" by code_simp
  moreover have "resolve_workspace_path [''w''] sample_tree None = Inr [''w'']"
    using strip by (simp add: resolve_workspace_path_def)
  moreover have "mkdirs sample_tree [''w''] = (Inr [''w''], sample_tree)" by (simp add: mkdirs_def eval Let_def)
  moreover have p: "posix_parts ''x'' = [''x'']" by code_simp
  moreover have "member_error [''w''] sample_tree [''w''] \<lparr>zm_name = ''x'', zm_type = 0, zm_data = ''new''\<rparr> = None"
    using p r by (simp add: member_error_def replace_char_def backslash_def startswith_def below_def)
  moreover have "extract_all [\<lparr>zm_name = ''x'', zm_type = 0, zm_data = ''new''\<rparr>] [] = Inr [([''x''], FileNode ''new'')]"
    by (simp add: extract_member_def mkdirs_def write_to_def eval Let_def)
  moreover have "map_of (snd (copy_entry [''w''] [''w''] ([''x''], FileNode ''new'') sample_tree)) [''o''] = Some (FileNode ''new'')"
  proof -
    have "mkdirs sample_tree [''w''] = (Inr [''w''], sample_tree)" by (simp add: mkdirs_def eval Let_def)
    moreover have "is_directory sample_tree [''w'', ''x'']" using r by (simp add: is_directory_def stat_def node_at_def sample_tree_def)
    moreover have "write_to sample_tree ?x ''new'' = (Inr (), AList.update [''o''] (FileNode ''new'') sample_tree)"
      using r by (simp add: write_to_def node_at_def sample_tree_def)
    ultimately show ?thesis
      by (auto simp: copy_entry_def path_name_def split: sum.split)
  qed
  ultimately show ?thesis
    by (auto simp: extract_zip_safely_def split: sum.split prod.split)
qed

end
