(* ===== verification/ChatLogStore.thy ===== *)
theory ChatLogStore
  imports ThinkingEvents
begin

text \<open>
  \<^verbatim>\<open>chatlog_store.py\<close>: one JSON document per session, an LRU cache of documents in front of the files, and
  event appends whose write is deferred within a flush interval. Sessions are known by their sanitized
  name, which is also the file stem. A cached dict is mutated in place and written under the same name
  before any other code runs, so the model passes the changed document on. Monotonic clock readings are
  rationals, stamps are texts, both arguments; the \<^verbatim>\<open>_pending\<close> set is a list without repetition, its order
  standing for the order the set is iterated in. Errors of the file system are not modelled.
\<close>

section \<open>State\<close>

datatype chatlog_error = CorruptFile | BadPayload

record chatlog_store =
  cl_interval :: rat
  cl_max_cached :: nat
  cl_cache :: "(string, jobj) odict"
  cl_pending :: "string list"
  cl_last_write :: "(string, rat) odict"
  cl_files :: "(string, jfile) odict"
  cl_backups :: "(string \<times> jfile) list"

definition new_chatlog_store :: "rat \<Rightarrow> int \<Rightarrow> (string, jfile) odict \<Rightarrow> chatlog_store" where
  "new_chatlog_store interval n files =
     \<lparr>cl_interval = interval, cl_max_cached = nat (max 1 n), cl_cache = [], cl_pending = [],
      cl_last_write = [], cl_files = files, cl_backups = []\<rparr>"

text \<open>\<^verbatim>\<open>re.sub(r"[^A-Za-z0-9._-]+", "-", s).strip(".-") or "default"\<close>.\<close>

definition name_char :: "char \<Rightarrow> bool" where
  "name_char c = (let n = of_char c :: nat in
     (48 \<le> n \<and> n \<le> 57) \<or> (65 \<le> n \<and> n \<le> 90) \<or> (97 \<le> n \<and> n \<le> 122) \<or> c \<in> set ''._-'')"

fun dash_runs :: "bool \<Rightarrow> string \<Rightarrow> string" where
  "dash_runs in_run [] = []"
| "dash_runs in_run (c # s) =
     (if name_char c then c # dash_runs False s
      else if in_run then dash_runs True s else CHR ''-'' # dash_runs True s)"

definition sanitize :: "string \<Rightarrow> string" where
  "sanitize session_id =
     (let name = strip_chars ''.-'' (dash_runs False session_id) in if name = [] then ''default'' else name)"

text \<open>\<^verbatim>\<open>_remember\<close>: cache as most recent, then evict the oldest entries that are neither pending nor the one
  being remembered, as many as the cache is over its cap.\<close>

definition evict_all :: "string list \<Rightarrow> (string, 'a) odict \<Rightarrow> (string, 'a) odict" where
  "evict_all ks d = filter (\<lambda>(k, v). k \<notin> set ks) d"

definition remember :: "string \<Rightarrow> jobj \<Rightarrow> chatlog_store \<Rightarrow> chatlog_store" where
  "remember name payload st =
     (let cache = put_last name payload (cl_cache st);
          victims = take (length cache - cl_max_cached st)
                      (filter (\<lambda>k. k \<noteq> name \<and> k \<notin> set (cl_pending st)) (dkeys cache))
      in st\<lparr>cl_cache := evict_all victims cache, cl_last_write := evict_all victims (cl_last_write st)\<rparr>)"

definition chatlog_get :: "string \<Rightarrow> chatlog_store \<Rightarrow> chatlog_error + (jval option \<times> chatlog_store)" where
  "chatlog_get session_id st =
     (let name = sanitize session_id in
      case map_of (cl_cache st) name of
        Some p \<Rightarrow> Inr (Some (JObj p), st\<lparr>cl_cache := put_last name p (cl_cache st)\<rparr>)
      | None \<Rightarrow>
          (case map_of (cl_files st) name of
             None \<Rightarrow> Inr (None, st)
           | Some NotJson \<Rightarrow> Inl CorruptFile
           | Some (JsonText v) \<Rightarrow>
               (case v of JObj p \<Rightarrow> Inr (Some v, remember name p st) | _ \<Rightarrow> Inr (Some v, st))))"

definition chatlog_write :: "rat \<Rightarrow> string \<Rightarrow> jobj \<Rightarrow> chatlog_store \<Rightarrow> chatlog_store" where
  "chatlog_write t session_id payload st =
     (let name = sanitize session_id; st1 = remember name payload st in
      st1\<lparr>cl_files := AList.update name (JsonText (JObj payload)) (cl_files st1),
          cl_pending := removeAll name (cl_pending st1),
          cl_last_write := AList.update name t (cl_last_write st1)\<rparr>)"

definition chatlog_write_coalesced ::
    "rat \<Rightarrow> rat \<Rightarrow> string \<Rightarrow> jobj \<Rightarrow> chatlog_store \<Rightarrow> chatlog_store" where
  "chatlog_write_coalesced t1 t2 session_id payload st =
     (let name = sanitize session_id; st1 = remember name payload st in
      case map_of (cl_last_write st1) name of
        Some t \<Rightarrow> if t1 - t < cl_interval st1 then st1\<lparr>cl_pending := List.insert name (cl_pending st1)\<rparr>
                  else chatlog_write t2 session_id payload st1
      | None \<Rightarrow> chatlog_write t2 session_id payload st1)"

definition chatlog_flush :: "rat \<Rightarrow> string \<Rightarrow> chatlog_store \<Rightarrow> bool \<times> chatlog_store" where
  "chatlog_flush t session_id st =
     (let name = sanitize session_id in
      case map_of (cl_cache st) name of
        Some payload \<Rightarrow>
          if name \<in> set (cl_pending st) then (True, chatlog_write t session_id payload st) else (False, st)
      | None \<Rightarrow> (False, st\<lparr>cl_pending := removeAll name (cl_pending st)\<rparr>))"

fun flush_names :: "rat \<Rightarrow> string list \<Rightarrow> nat \<times> chatlog_store \<Rightarrow> nat \<times> chatlog_store" where
  "flush_names t [] (n, st) = (n, st)"
| "flush_names t (name # names) (n, st) =
     (case chatlog_flush t name st of (moved, st1) \<Rightarrow> flush_names t names (if moved then n + 1 else n, st1))"

definition chatlog_flush_all :: "rat \<Rightarrow> chatlog_store \<Rightarrow> nat \<times> chatlog_store" where
  "chatlog_flush_all t st = flush_names t (cl_pending st) (0, st)"

definition chatlog_forget :: "string \<Rightarrow> chatlog_store \<Rightarrow> chatlog_store" where
  "chatlog_forget session_id st =
     (let name = sanitize session_id in
      st\<lparr>cl_cache := AList.delete name (cl_cache st), cl_pending := removeAll name (cl_pending st),
         cl_last_write := AList.delete name (cl_last_write st)\<rparr>)"

definition fresh_payload :: "string \<Rightarrow> string \<Rightarrow> jobj" where
  "fresh_payload stamp session_id =
     [(''session_id'', JStr session_id), (''engine'', JStr ''opencode''), (''entries'', JList []),
      (''updated_at'', JStr stamp)]"

definition backup_suffix :: "string \<Rightarrow> string" where
  "backup_suffix now = replace_char (CHR ''/'') ''_'' (replace_char (CHR ''+'') ''_''
     (replace_char (CHR '':'') [] now))"

definition chatlog_quarantine :: "string \<Rightarrow> string \<Rightarrow> chatlog_store \<Rightarrow> chatlog_store" where
  "chatlog_quarantine stamp session_id st =
     (let name = sanitize session_id; st1 = chatlog_forget session_id st in
      case map_of (cl_files st1) name of None \<Rightarrow> st1
      | Some f \<Rightarrow> st1\<lparr>cl_files := AList.delete name (cl_files st1),
          cl_backups := AList.update (name @ ''.json.corrupt-'' @ backup_suffix stamp) f (cl_backups st1)\<rparr>)"

text \<open>\<^verbatim>\<open>_ensure\<close>: a file that is not JSON is set aside; an empty document is replaced by a fresh one; any other
  value than a dict is returned as it is, and every caller fails on it.\<close>

definition chatlog_ensure :: "string \<Rightarrow> string \<Rightarrow> chatlog_store \<Rightarrow> chatlog_error + (jobj \<times> chatlog_store)" where
  "chatlog_ensure stamp session_id st =
     (case chatlog_get session_id st of
        Inl e \<Rightarrow> Inr (fresh_payload stamp session_id, chatlog_quarantine stamp session_id st)
      | Inr (None, st1) \<Rightarrow> Inr (fresh_payload stamp session_id, st1)
      | Inr (Some v, st1) \<Rightarrow>
          if truthy v then (case v of JObj d \<Rightarrow> Inr (d, st1) | _ \<Rightarrow> Inl BadPayload)
          else Inr (fresh_payload stamp session_id, st1))"

section \<open>Entries\<close>

definition entries_of :: "jobj \<Rightarrow> chatlog_error + jval list" where
  "entries_of d = (case jget_def d ''entries'' (JList []) of JList xs \<Rightarrow> Inr xs | _ \<Rightarrow> Inl BadPayload)"

text \<open>The last entry with the request id: scanning from the end, a value that is not a dict raises.\<close>

fun find_from_end :: "string \<Rightarrow> jval list \<Rightarrow> chatlog_error + nat option" where
  "find_from_end rid [] = Inr None"
| "find_from_end rid (e # rest) =
     (case e of JObj d \<Rightarrow> if jget d ''request_id'' = JStr rid then Inr (Some (length rest)) else find_from_end rid rest
      | _ \<Rightarrow> Inl BadPayload)"

definition find_entry :: "string \<Rightarrow> jval list \<Rightarrow> chatlog_error + nat option" where
  "find_entry rid entries = find_from_end rid (rev entries)"

definition new_entry :: "string \<Rightarrow> string \<Rightarrow> jobj" where
  "new_entry stamp rid =
     [(''request_id'', JStr rid), (''status'', JStr ''running''), (''message'', JStr []), (''response'', JStr []),
      (''events'', JList []), (''runtime_events'', JList []), (''context_state'', JObj []), (''llm_debug'', JObj []),
      (''created_at'', JStr stamp), (''finished_at'', JStr [])]"

text \<open>The entry of a request changed by \<open>f\<close>, appended first when there is none.\<close>

definition change_entry ::
    "string \<Rightarrow> string \<Rightarrow> (jobj \<Rightarrow> chatlog_error + jobj) \<Rightarrow> jval list \<Rightarrow> chatlog_error + jval list" where
  "change_entry stamp rid f entries =
     (case find_entry rid entries of
        Inl e \<Rightarrow> Inl e
      | Inr None \<Rightarrow> (case f (new_entry stamp rid) of Inl e \<Rightarrow> Inl e | Inr d \<Rightarrow> Inr (entries @ [JObj d]))
      | Inr (Some i) \<Rightarrow> (case f (obj_or_empty (entries ! i)) of Inl e \<Rightarrow> Inl e
          | Inr d \<Rightarrow> Inr (entries[i := JObj d])))"

definition put_entries :: "string \<Rightarrow> jval list \<Rightarrow> jobj \<Rightarrow> jobj" where
  "put_entries stamp entries d =
     AList.update ''updated_at'' (JStr stamp) (AList.update ''entries'' (JList entries) d)"

record entry_fields =
  ef_runtime_events :: "jval option"
  ef_events :: "jval option"
  ef_context_state :: "jval option"
  ef_llm_debug :: "jval option"

text \<open>\<^verbatim>\<open>x or dflt\<close> for an optional argument, and \<^verbatim>\<open>x if x is not None else e.get(key, dflt)\<close>.\<close>

definition given_or :: "jval option \<Rightarrow> jval \<Rightarrow> jval" where
  "given_or x dflt = (case x of None \<Rightarrow> dflt | Some v \<Rightarrow> py_or v dflt)"

definition given_or_kept :: "jval option \<Rightarrow> jobj \<Rightarrow> string \<Rightarrow> jval \<Rightarrow> jval" where
  "given_or_kept x e key dflt = (case x of Some v \<Rightarrow> v | None \<Rightarrow> jget_def e key dflt)"

definition started_entry :: "string \<Rightarrow> string \<Rightarrow> string \<Rightarrow> entry_fields \<Rightarrow> jobj" where
  "started_entry stamp rid message f =
     [(''request_id'', JStr rid), (''status'', JStr ''running''), (''message'', safe_preview (JStr message) 2000),
      (''response'', JStr []), (''events'', JList []),
      (''runtime_events'', safe_preview (given_or (ef_runtime_events f) (JList [])) 4000),
      (''context_state'', safe_preview (given_or (ef_context_state f) (JObj [])) 4000),
      (''llm_debug'', safe_preview (given_or (ef_llm_debug f) (JObj [])) 4000),
      (''created_at'', JStr stamp), (''finished_at'', JStr [])]"

definition finish_fields :: "string \<Rightarrow> string \<Rightarrow> string \<Rightarrow> entry_fields \<Rightarrow> jobj \<Rightarrow> jobj" where
  "finish_fields stamp status response f e =
     fold (\<lambda>(k, v) d. AList.update k v d)
       [(''status'', JStr status), (''response'', safe_preview (JStr response) 2000),
        (''runtime_events'', safe_preview (given_or_kept (ef_runtime_events f) e ''runtime_events'' (JList [])) 4000),
        (''events'', safe_preview (given_or_kept (ef_events f) e ''events'' (JList [])) 4000),
        (''context_state'', safe_preview (given_or_kept (ef_context_state f) e ''context_state'' (JObj [])) 4000),
        (''llm_debug'', safe_preview (given_or_kept (ef_llm_debug f) e ''llm_debug'' (JObj [])) 4000),
        (''finished_at'', JStr stamp)] e"

definition push_event :: "string \<Rightarrow> jobj \<Rightarrow> jobj \<Rightarrow> chatlog_error + jobj" where
  "push_event key event e =
     (case jget_def e key (JList []) of
        JList xs \<Rightarrow> Inr (AList.update key (JList (xs @ [safe_preview (JObj event) 1000])) e)
      | _ \<Rightarrow> Inl BadPayload)"

definition chatlog_start_entry ::
    "string \<Rightarrow> rat \<Rightarrow> string \<Rightarrow> string \<Rightarrow> string \<Rightarrow> entry_fields \<Rightarrow> chatlog_store \<Rightarrow> chatlog_error + (jobj \<times> chatlog_store)" where
  "chatlog_start_entry stamp t session_id rid message f st =
     (case chatlog_ensure stamp session_id st of Inl e \<Rightarrow> Inl e
      | Inr (d, st1) \<Rightarrow> (case entries_of d of Inl e \<Rightarrow> Inl e
          | Inr entries \<Rightarrow>
              let d1 = put_entries stamp (entries @ [JObj (started_entry stamp rid message f)]) d
              in Inr (d1, chatlog_write t session_id d1 st1)))"

definition chatlog_finish_entry ::
    "string \<Rightarrow> rat \<Rightarrow> string \<Rightarrow> string \<Rightarrow> string \<Rightarrow> string \<Rightarrow> entry_fields \<Rightarrow> chatlog_store \<Rightarrow>
       chatlog_error + (jobj \<times> chatlog_store)" where
  "chatlog_finish_entry stamp t session_id rid status response f st =
     (case chatlog_ensure stamp session_id st of Inl e \<Rightarrow> Inl e
      | Inr (d, st1) \<Rightarrow> (case entries_of d of Inl e \<Rightarrow> Inl e
          | Inr entries \<Rightarrow>
              (case change_entry stamp rid (\<lambda>e. Inr (finish_fields stamp status response f e)) entries of
                 Inl e \<Rightarrow> Inl e
               | Inr entries1 \<Rightarrow> let d1 = put_entries stamp entries1 d in Inr (d1, chatlog_write t session_id d1 st1))))"

definition chatlog_fail_entry ::
    "string \<Rightarrow> rat \<Rightarrow> string \<Rightarrow> string \<Rightarrow> string \<Rightarrow> entry_fields \<Rightarrow> chatlog_store \<Rightarrow> chatlog_error + (jobj \<times> chatlog_store)" where
  "chatlog_fail_entry stamp t session_id rid error f st =
     chatlog_finish_entry stamp t session_id rid ''error'' error (f\<lparr>ef_events := ef_runtime_events f\<rparr>) st"

definition chatlog_append_event ::
    "string \<Rightarrow> rat \<Rightarrow> rat \<Rightarrow> string \<Rightarrow> string \<Rightarrow> jobj \<Rightarrow> bool \<Rightarrow> chatlog_store \<Rightarrow> chatlog_error + (jobj \<times> chatlog_store)" where
  "chatlog_append_event stamp t1 t2 session_id rid event runtime st =
     (case chatlog_ensure stamp session_id st of Inl e \<Rightarrow> Inl e
      | Inr (d, st1) \<Rightarrow> (case entries_of d of Inl e \<Rightarrow> Inl e
          | Inr entries \<Rightarrow>
              (case change_entry stamp rid (push_event (if runtime then ''runtime_events'' else ''events'') event) entries of
                 Inl e \<Rightarrow> Inl e
               | Inr entries1 \<Rightarrow> let d1 = put_entries stamp entries1 d
                                 in Inr (d1, chatlog_write_coalesced t1 t2 session_id d1 st1))))"

definition chatlog_latest_entry :: "string \<Rightarrow> chatlog_store \<Rightarrow> chatlog_error + (jval option \<times> chatlog_store)" where
  "chatlog_latest_entry session_id st =
     (case chatlog_get session_id st of Inl e \<Rightarrow> Inl e
      | Inr (None, st1) \<Rightarrow> Inr (None, st1)
      | Inr (Some v, st1) \<Rightarrow>
          if \<not> truthy v then Inr (None, st1)
          else (case v of
             JObj d \<Rightarrow> if \<not> truthy (jget d ''entries'') then Inr (None, st1)
               else (case jget d ''entries'' of JList xs \<Rightarrow> Inr (Some (last xs), st1)
                     | JStr s \<Rightarrow> Inr (Some (JStr [last s]), st1) | _ \<Rightarrow> Inl BadPayload)
           | _ \<Rightarrow> Inl BadPayload))"

text \<open>The ids \<open>list_session_ids\<close> sorts: the id a document names, the file stem when there is none or the file
  is no dict. Ids are texts here; another JSON value in that place may not sort.\<close>

definition file_session_id :: "string \<Rightarrow> jfile \<Rightarrow> jval" where
  "file_session_id stem f = (case f of JsonText (JObj d) \<Rightarrow> jget_def d ''session_id'' (JStr stem) | _ \<Rightarrow> JStr stem)"

definition chatlog_session_ids :: "chatlog_store \<Rightarrow> jval list" where
  "chatlog_session_ids st = remdups (List.map (\<lambda>(stem, f). file_session_id stem f) (cl_files st))"

definition chatlog_delete :: "string \<Rightarrow> chatlog_store \<Rightarrow> bool \<times> chatlog_store" where
  "chatlog_delete session_id st =
     (let name = sanitize session_id; st1 = chatlog_forget session_id st in
      case map_of (cl_files st1) name of None \<Rightarrow> (False, st1)
      | Some f \<Rightarrow> (True, st1\<lparr>cl_files := AList.delete name (cl_files st1)\<rparr>))"

section \<open>The cache is transparent\<close>

text \<open>The abstract store: one document per name, written through. \<open>doc_view\<close> is the document a reader sees.\<close>

type_synonym doc_map = "string \<Rightarrow> jfile option"

definition doc_view :: "chatlog_store \<Rightarrow> doc_map" where
  "doc_view st name = (case map_of (cl_cache st) name of Some p \<Rightarrow> Some (JsonText (JObj p))
     | None \<Rightarrow> map_of (cl_files st) name)"

text \<open>Unwritten documents are cached, and every other cached document is what its file holds; \<open>but\<close> exempts
  a name between caching and writing.\<close>

definition in_sync_but :: "string set \<Rightarrow> chatlog_store \<Rightarrow> bool" where
  "in_sync_but but st \<longleftrightarrow> dict_ok (cl_cache st) \<and> dict_ok (cl_files st) \<and> distinct (cl_pending st)
     \<and> set (cl_pending st) \<subseteq> set (dkeys (cl_cache st))
     \<and> (\<forall>name p. map_of (cl_cache st) name = Some p \<and> name \<notin> set (cl_pending st) \<and> name \<notin> but
          \<longrightarrow> map_of (cl_files st) name = Some (JsonText (JObj p)))"

abbreviation in_sync :: "chatlog_store \<Rightarrow> bool" where
  "in_sync st \<equiv> in_sync_but {} st"

lemma in_sync_new: "dict_ok files \<Longrightarrow> in_sync (new_chatlog_store i n files)"
  by (simp add: in_sync_but_def new_chatlog_store_def)

lemma in_syncD:
  assumes "in_sync_but B st"
  shows "dict_ok (cl_cache st)" "dict_ok (cl_files st)" "distinct (cl_pending st)"
    "set (cl_pending st) \<subseteq> set (dkeys (cl_cache st))"
    "map_of (cl_cache st) name = Some p \<Longrightarrow> name \<notin> set (cl_pending st) \<Longrightarrow> name \<notin> B \<Longrightarrow>
       map_of (cl_files st) name = Some (JsonText (JObj p))"
  using assms by (simp_all add: in_sync_but_def)

lemma in_syncI:
  assumes "dict_ok (cl_cache st)" "dict_ok (cl_files st)" "distinct (cl_pending st)"
    "set (cl_pending st) \<subseteq> set (dkeys (cl_cache st))"
    "\<And>name p. map_of (cl_cache st) name = Some p \<Longrightarrow> name \<notin> set (cl_pending st) \<Longrightarrow> name \<notin> B \<Longrightarrow>
       map_of (cl_files st) name = Some (JsonText (JObj p))"
  shows "in_sync_but B st"
  using assms by (simp add: in_sync_but_def)

lemma map_of_evict_all: "dict_ok d \<Longrightarrow> map_of (evict_all ks d) k = (if k \<in> set ks then None else map_of d k)"
  by (simp add: evict_all_def map_of_filter_dict split: option.split)

lemma dict_ok_evict_all: "dict_ok d \<Longrightarrow> dict_ok (evict_all ks d)"
  by (simp add: evict_all_def distinct_map_filter)

text \<open>The entries a \<open>remember\<close> evicts.\<close>

definition victims_of :: "string \<Rightarrow> jobj \<Rightarrow> chatlog_store \<Rightarrow> string list" where
  "victims_of name payload st =
     (let cache = put_last name payload (cl_cache st) in take (length cache - cl_max_cached st)
        (filter (\<lambda>k. k \<noteq> name \<and> k \<notin> set (cl_pending st)) (dkeys cache)))"

lemma victims_safe: "k \<in> set (victims_of name payload st) \<Longrightarrow> k \<noteq> name \<and> k \<notin> set (cl_pending st)"
  by (auto simp: victims_of_def Let_def dest: in_set_takeD)

lemma remember_fields:
  "cl_cache (remember name p st) = evict_all (victims_of name p st) (put_last name p (cl_cache st))"
  "cl_pending (remember name p st) = cl_pending st" "cl_files (remember name p st) = cl_files st"
  "cl_interval (remember name p st) = cl_interval st" "cl_max_cached (remember name p st) = cl_max_cached st"
  "cl_backups (remember name p st) = cl_backups st"
  by (simp_all add: remember_def victims_of_def Let_def)

lemma remember_look:
  assumes "dict_ok (cl_cache st)"
  shows "map_of (cl_cache (remember name p st)) k =
     (if k \<in> set (victims_of name p st) then None else if k = name then Some p else map_of (cl_cache st) k)"
  using assms by (simp add: remember_fields map_of_evict_all)

lemma remember_self:
  "dict_ok (cl_cache st) \<Longrightarrow> map_of (cl_cache (remember name p st)) name = Some p"
  using victims_safe [of name name p st] by (auto simp: remember_look)

lemma remember_view:
  assumes "in_sync_but B st" "B \<subseteq> {name}"
  shows "doc_view (remember name p st) = (doc_view st)(name \<mapsto> JsonText (JObj p))"
proof
  fix k
  note ok = in_syncD [OF assms(1)]
  show "doc_view (remember name p st) k = ((doc_view st)(name \<mapsto> JsonText (JObj p))) k"
  proof (cases "k = name")
    case True
    then show ?thesis using remember_self [OF ok(1)] by (simp add: doc_view_def)
  next
    case False
    show ?thesis
    proof (cases "k \<in> set (victims_of name p st)")
      case True
      from victims_safe [OF this] ok(5) [of k] assms(2) False
      show ?thesis using True by (auto simp: doc_view_def remember_look [OF ok(1)] remember_fields(3) split: option.split)
    next
      case notin: False
      then show ?thesis using False by (simp add: doc_view_def remember_look [OF ok(1)] remember_fields(3) split: option.split)
    qed
  qed
qed

lemma remember_sync:
  assumes "in_sync_but B st" "B \<subseteq> {name}"
  shows "in_sync_but {name} (remember name p st)"
proof -
  note ok = in_syncD [OF assms(1)]
  have "dict_ok (cl_cache (remember name p st))" by (simp add: remember_fields dict_ok_evict_all ok(1))
  moreover have "set (cl_pending st) \<subseteq> set (dkeys (cl_cache (remember name p st)))"
  proof
    fix k assume k: "k \<in> set (cl_pending st)"
    then obtain q where "map_of (cl_cache st) k = Some q" using ok(4) by (metis map_of_eq_None_iff not_None_eq set_map subsetD)
    then have "map_of (cl_cache (remember name p st)) k \<noteq> None"
      using victims_safe [of k name p st] k by (auto simp: remember_look [OF ok(1)])
    then show "k \<in> set (dkeys (cl_cache (remember name p st)))" by (simp add: map_of_eq_None_iff)
  qed
  moreover have "map_of (cl_files st) k = Some (JsonText (JObj q))"
    if "map_of (cl_cache (remember name p st)) k = Some q" "k \<notin> set (cl_pending st)" "k \<noteq> name" for k q
    using that ok(5) [of k q] assms(2) by (auto simp: remember_look [OF ok(1)] split: if_splits)
  ultimately show ?thesis using ok by (simp add: in_sync_but_def remember_fields)
qed

text \<open>Reading a file into the cache keeps it in step with the file.\<close>

lemma remember_read:
  assumes "in_sync st" "map_of (cl_files st) name = Some (JsonText (JObj p))"
  shows "in_sync (remember name p st)"
proof (rule in_syncI)
  note s = in_syncD [OF remember_sync [OF assms(1), of name p]]
  show "dict_ok (cl_cache (remember name p st))" "dict_ok (cl_files (remember name p st))"
    "distinct (cl_pending (remember name p st))"
    "set (cl_pending (remember name p st)) \<subseteq> set (dkeys (cl_cache (remember name p st)))"
    using s(1-4) by simp_all
  fix k q assume k: "map_of (cl_cache (remember name p st)) k = Some q" "k \<notin> set (cl_pending (remember name p st))"
  have "map_of (cl_cache (remember name p st)) name = Some p"
    using assms(1) by (simp add: remember_self in_sync_but_def)
  with s(5) [of k q] k assms(2) show "map_of (cl_files (remember name p st)) k = Some (JsonText (JObj q))"
    by (cases "k = name") (simp_all add: remember_fields(3))
qed

lemma write_view:
  assumes "in_sync_but B st" "B \<subseteq> {sanitize sid}"
  shows "doc_view (chatlog_write t sid p st) = (doc_view st)(sanitize sid \<mapsto> JsonText (JObj p))"
    and "in_sync (chatlog_write t sid p st)"
proof -
  let ?n = "sanitize sid"
  note s = in_syncD [OF remember_sync [OF assms, of p]]
  have self: "map_of (cl_cache (remember ?n p st)) ?n = Some p"
    using assms(1) by (simp add: remember_self in_sync_but_def)
  have "doc_view (chatlog_write t sid p st) k = doc_view (remember ?n p st) k" for k
    using self by (auto simp: doc_view_def chatlog_write_def Let_def update_conv split: option.split)
  then show "doc_view (chatlog_write t sid p st) = (doc_view st)(?n \<mapsto> JsonText (JObj p))"
    using remember_view [OF assms] by auto
  show "in_sync (chatlog_write t sid p st)"
  proof (rule in_syncI)
    fix k q assume "map_of (cl_cache (chatlog_write t sid p st)) k = Some q"
      "k \<notin> set (cl_pending (chatlog_write t sid p st))"
    then show "map_of (cl_files (chatlog_write t sid p st)) k = Some (JsonText (JObj q))"
      using s(5) [of k q] self by (cases "k = ?n") (simp_all add: chatlog_write_def Let_def update_conv)
  qed (use s(1-4) in \<open>auto simp: chatlog_write_def Let_def distinct_removeAll\<close>)
qed

lemma coalesced_view:
  assumes "in_sync st"
  shows "doc_view (chatlog_write_coalesced t1 t2 sid p st) = (doc_view st)(sanitize sid \<mapsto> JsonText (JObj p))"
    and "in_sync (chatlog_write_coalesced t1 t2 sid p st)"
proof -
  let ?n = "sanitize sid" and ?r = "remember (sanitize sid) p st"
  have r: "in_sync_but {?n} ?r" by (rule remember_sync [OF assms]) simp
  have v: "doc_view ?r = (doc_view st)(?n \<mapsto> JsonText (JObj p))" by (rule remember_view [OF assms]) simp
  have self: "map_of (cl_cache ?r) ?n = Some p" using assms by (simp add: remember_self in_sync_but_def)
  let ?d = "?r\<lparr>cl_pending := List.insert ?n (cl_pending ?r)\<rparr>"
  have dv: "doc_view ?d = doc_view ?r" by (simp add: fun_eq_iff doc_view_def split: option.split)
  have key: "?n \<in> set (dkeys (cl_cache ?r))" using map_of_SomeD [OF self] by force
  have di: "in_sync ?d"
  proof (rule in_syncI)
    fix k q assume "map_of (cl_cache ?d) k = Some q" "k \<notin> set (cl_pending ?d)"
    then show "map_of (cl_files ?d) k = Some (JsonText (JObj q))"
      using in_syncD(5) [OF r, of k q] by simp
  qed (use in_syncD(1-4) [OF r] key in auto)
  have "chatlog_write_coalesced t1 t2 sid p st \<in> {?d, chatlog_write t2 sid p ?r}"
    by (auto simp: chatlog_write_coalesced_def Let_def split: option.split)
  moreover have "(doc_view ?r)(?n \<mapsto> JsonText (JObj p)) = doc_view ?r" by (simp add: v)
  ultimately show "doc_view (chatlog_write_coalesced t1 t2 sid p st) = (doc_view st)(?n \<mapsto> JsonText (JObj p))"
    "in_sync (chatlog_write_coalesced t1 t2 sid p st)"
    using write_view [OF r, of sid t2 p] di dv v by auto
qed

lemma flush_view:
  assumes "in_sync st"
  shows "doc_view (snd (chatlog_flush t sid st)) = doc_view st" and "in_sync (snd (chatlog_flush t sid st))"
    and "set (cl_pending (snd (chatlog_flush t sid st))) = set (cl_pending st) - {sanitize sid}"
proof -
  note ok = in_syncD [OF assms]
  have "doc_view (snd (chatlog_flush t sid st)) = doc_view st \<and> in_sync (snd (chatlog_flush t sid st))
      \<and> set (cl_pending (snd (chatlog_flush t sid st))) = set (cl_pending st) - {sanitize sid}"
  proof (cases "map_of (cl_cache st) (sanitize sid)")
    case None
    then have n: "sanitize sid \<notin> set (cl_pending st)" using ok(4) by (metis map_of_eq_None_iff set_map subsetD)
    then have "st\<lparr>cl_pending := removeAll (sanitize sid) (cl_pending st)\<rparr> = st" by simp
    then show ?thesis using None n assms by (simp add: chatlog_flush_def Let_def)
  next
    case (Some p)
    have "(doc_view st)(sanitize sid \<mapsto> JsonText (JObj p)) = doc_view st"
      using Some by (auto simp: doc_view_def fun_eq_iff)
    moreover have "set (cl_pending (chatlog_write t sid p st)) = set (cl_pending st) - {sanitize sid}"
      by (auto simp: chatlog_write_def Let_def remember_fields(2))
    ultimately show ?thesis using Some assms write_view [OF assms, of sid t p]
      by (simp add: chatlog_flush_def Let_def)
  qed
  then show "doc_view (snd (chatlog_flush t sid st)) = doc_view st" "in_sync (snd (chatlog_flush t sid st))"
    "set (cl_pending (snd (chatlog_flush t sid st))) = set (cl_pending st) - {sanitize sid}" by simp_all
qed

lemma flush_names_view:
  "in_sync st \<Longrightarrow> doc_view (snd (flush_names t names (n, st))) = doc_view st
     \<and> in_sync (snd (flush_names t names (n, st)))
     \<and> set (cl_pending (snd (flush_names t names (n, st)))) = set (cl_pending st) - sanitize ` set names"
proof (induction names arbitrary: n st)
  case (Cons a names)
  obtain m st1 where f: "chatlog_flush t a st = (m, st1)" by fastforce
  have "doc_view st1 = doc_view st" "in_sync st1" "set (cl_pending st1) = set (cl_pending st) - {sanitize a}"
    using flush_view [OF Cons.prems, of t a] by (simp_all add: f)
  with Cons.IH [of st1 "if m then n + 1 else n"] show ?case by (simp add: f) blast
qed simp

text \<open>Sanitizing a name again changes nothing, so flushing by name reaches what was written by session id.\<close>

lemma dash_runs_ok: "list_all name_char s \<Longrightarrow> dash_runs b s = s"
  by (induction s arbitrary: b) auto

lemma dash_runs_chars: "list_all name_char (dash_runs b s)"
  by (induction s arbitrary: b) (auto simp: name_char_def)

lemma rstrip_prefix: "prefix (rstrip_chars cs s) s"
  unfolding rstrip_chars_def by (metis rev_rev_ident suffix_dropWhile suffix_to_prefix)

lemma dropWhile_hd: "s = [] \<or> \<not> P (hd s) \<Longrightarrow> dropWhile P s = s"
  by (cases s) auto

lemma strip_chars_idem: "strip_chars cs (strip_chars cs s) = strip_chars cs s"
proof -
  let ?P = "\<lambda>c. c \<in> set cs" and ?t = "strip_chars cs s"
  have hd: "?t = [] \<or> \<not> ?P (hd ?t)"
  proof -
    obtain z where z: "dropWhile ?P s = ?t @ z"
      using rstrip_prefix [of cs "dropWhile ?P s"] by (auto simp: strip_chars_def prefix_def)
    show ?thesis
    proof (cases "?t = []")
      case False
      then have "hd (dropWhile ?P s) = hd ?t" "dropWhile ?P s \<noteq> []" by (simp_all add: z)
      then show ?thesis using hd_dropWhile [of ?P s] by metis
    qed simp
  qed
  have lst: "rev ?t = dropWhile ?P (rev (dropWhile ?P s))" by (simp add: strip_chars_def rstrip_chars_def)
  then have "dropWhile ?P (rev ?t) = rev ?t" by (simp add: dropWhile_idem)
  with dropWhile_hd [of ?t ?P, OF hd] show ?thesis
    unfolding strip_chars_def [of cs ?t] rstrip_chars_def by simp
qed

lemma sanitize_idem [simp]: "sanitize (sanitize s) = sanitize s"
proof -
  let ?t = "strip_chars ''.-'' (dash_runs False s)"
  have "set ?t \<subseteq> set (dash_runs False s)"
    unfolding strip_chars_def by (meson rstrip_prefix set_dropWhileD set_mono_prefix subset_iff)
  then have "list_all name_char ?t" using dash_runs_chars [of False s] by (auto simp: list_all_iff)
  then have t: "strip_chars ''.-'' (dash_runs False ?t) = ?t" by (simp add: dash_runs_ok strip_chars_idem)
  have d: "strip_chars ''.-'' (dash_runs False ''default'') = ''default''" by code_simp
  show ?thesis
  proof (cases "?t = []")
    case True
    then have "sanitize s = ''default''" by (simp add: sanitize_def)
    then show ?thesis using d by (simp add: sanitize_def)
  next
    case False
    then have "sanitize s = ?t" by (simp add: sanitize_def)
    then show ?thesis using t False by (simp add: sanitize_def)
  qed
qed

section \<open>Operations against the abstract store\<close>

definition names_clean :: "chatlog_store \<Rightarrow> bool" where
  "names_clean st \<longleftrightarrow> (\<forall>n \<in> set (cl_pending st). sanitize n = n)"

definition abs_ensure :: "string \<Rightarrow> string \<Rightarrow> doc_map \<Rightarrow> chatlog_error + (jobj \<times> doc_map)" where
  "abs_ensure stamp sid m =
     (case m (sanitize sid) of
        None \<Rightarrow> Inr (fresh_payload stamp sid, m)
      | Some NotJson \<Rightarrow> Inr (fresh_payload stamp sid, m(sanitize sid := None))
      | Some (JsonText v) \<Rightarrow>
          if truthy v then (case v of JObj d \<Rightarrow> Inr (d, m) | _ \<Rightarrow> Inl BadPayload)
          else Inr (fresh_payload stamp sid, m))"

text \<open>Change the entries of a session by \<open>g\<close> and store the document.\<close>

definition abs_change ::
    "string \<Rightarrow> string \<Rightarrow> (jval list \<Rightarrow> chatlog_error + jval list) \<Rightarrow> doc_map \<Rightarrow> chatlog_error + (jobj \<times> doc_map)" where
  "abs_change stamp sid g m =
     (case abs_ensure stamp sid m of Inl e \<Rightarrow> Inl e
      | Inr (d, m1) \<Rightarrow> (case entries_of d of Inl e \<Rightarrow> Inl e
          | Inr xs \<Rightarrow> (case g xs of Inl e \<Rightarrow> Inl e
              | Inr ys \<Rightarrow> Inr (put_entries stamp ys d, m1(sanitize sid \<mapsto> JsonText (JObj (put_entries stamp ys d)))))))"

lemma get_view:
  assumes "in_sync st"
  shows "case chatlog_get sid st of
      Inl e \<Rightarrow> e = CorruptFile \<and> doc_view st (sanitize sid) = Some NotJson
    | Inr (v, st1) \<Rightarrow> doc_view st1 = doc_view st \<and> in_sync st1 \<and> cl_pending st1 = cl_pending st
        \<and> doc_view st (sanitize sid) = map_option JsonText v"
proof (cases "map_of (cl_cache st) (sanitize sid)")
  case (Some p)
  let ?st = "st\<lparr>cl_cache := put_last (sanitize sid) p (cl_cache st)\<rparr>"
  note ok = in_syncD [OF assms]
  have same: "map_of (cl_cache ?st) = map_of (cl_cache st)" using Some by auto
  then have "doc_view ?st = doc_view st" by (simp add: doc_view_def fun_eq_iff split: option.split)
  moreover have "in_sync ?st"
  proof (rule in_syncI)
    have "set (dkeys (cl_cache ?st)) = set (dkeys (cl_cache st))" using same by (metis dom_map_of_conv_image_fst set_map)
    then show "set (cl_pending ?st) \<subseteq> set (dkeys (cl_cache ?st))" using ok(4) by simp
    show "map_of (cl_files ?st) k = Some (JsonText (JObj q))"
      if "map_of (cl_cache ?st) k = Some q" "k \<notin> set (cl_pending ?st)" for k q
      using that ok(5) [of k q] unfolding same by simp
  qed (use ok in auto)
  ultimately show ?thesis using Some by (simp add: chatlog_get_def Let_def doc_view_def)
next
  case None
  show ?thesis
  proof (cases "map_of (cl_files st) (sanitize sid)")
    case files: (Some f)
    show ?thesis
    proof (cases "\<exists>p. f = JsonText (JObj p)")
      case True
      then obtain p where f: "f = JsonText (JObj p)" by blast
      have "(doc_view st)(sanitize sid \<mapsto> JsonText (JObj p)) = doc_view st"
        using None files f by (auto simp: doc_view_def fun_eq_iff)
      then show ?thesis using None files f remember_read [OF assms files [unfolded f]] remember_view [OF assms, of "sanitize sid" p]
        by (simp add: chatlog_get_def Let_def remember_fields(2) doc_view_def [of st])
    next
      case False
      then show ?thesis using None files assms
        by (cases f) (auto simp: chatlog_get_def Let_def doc_view_def split: jval.split)
    qed
  qed (use None assms in \<open>simp add: chatlog_get_def Let_def doc_view_def\<close>)
qed

lemma quarantine_view:
  assumes "in_sync st"
  shows "doc_view (chatlog_quarantine stamp sid st) = (doc_view st)(sanitize sid := None)"
    and "in_sync (chatlog_quarantine stamp sid st)"
    and "set (cl_pending (chatlog_quarantine stamp sid st)) \<subseteq> set (cl_pending st)"
proof -
  let ?n = "sanitize sid" and ?q = "chatlog_quarantine stamp sid st"
  note ok = in_syncD [OF assms]
  have f: "map_of (cl_cache ?q) = (map_of (cl_cache st))(?n := None)" "cl_pending ?q = removeAll ?n (cl_pending st)"
    "map_of (cl_files ?q) = (map_of (cl_files st))(?n := None)"
    "dict_ok (cl_cache ?q)" "dict_ok (cl_files ?q)" "dkeys (cl_cache ?q) = removeAll ?n (dkeys (cl_cache st))"
    using ok(1,2) by (auto simp: chatlog_quarantine_def chatlog_forget_def Let_def dkeys_delete distinct_removeAll
      split: option.split)
  show "doc_view ?q = (doc_view st)(?n := None)" by (simp add: doc_view_def fun_eq_iff f split: option.split)
  show "in_sync ?q"
  proof (rule in_syncI)
    show "set (cl_pending ?q) \<subseteq> set (dkeys (cl_cache ?q))" unfolding f(2,6) using ok(4) by auto
    show "map_of (cl_files ?q) k = Some (JsonText (JObj p))"
      if "map_of (cl_cache ?q) k = Some p" "k \<notin> set (cl_pending ?q)" for k p
      using that ok(5) [of k p] unfolding f(1,2,3) by (auto split: if_splits)
  qed (use f ok(3) in \<open>auto simp: distinct_removeAll\<close>)
  show "set (cl_pending ?q) \<subseteq> set (cl_pending st)" by (simp add: f(2))
qed

lemma ensure_view:
  assumes "in_sync st"
  shows "case chatlog_ensure stamp sid st of
      Inl e \<Rightarrow> abs_ensure stamp sid (doc_view st) = Inl e
    | Inr (d, st1) \<Rightarrow> abs_ensure stamp sid (doc_view st) = Inr (d, doc_view st1) \<and> in_sync st1
        \<and> set (cl_pending st1) \<subseteq> set (cl_pending st)"
proof (cases "chatlog_get sid st")
  case (Inl e)
  then show ?thesis using get_view [OF assms, of sid] quarantine_view [OF assms, of stamp sid]
    by (simp add: chatlog_ensure_def abs_ensure_def)
next
  case (Inr r)
  obtain v st1 where r: "r = (v, st1)" by fastforce
  then have g: "doc_view st1 = doc_view st" "in_sync st1" "cl_pending st1 = cl_pending st"
      "doc_view st (sanitize sid) = map_option JsonText v"
    using get_view [OF assms, of sid] Inr by simp_all
  show ?thesis
  proof (cases v)
    case None
    then show ?thesis using Inr r g by (simp add: chatlog_ensure_def abs_ensure_def)
  next
    case (Some w)
    then show ?thesis using Inr r g
      by (cases w) (simp_all add: chatlog_ensure_def abs_ensure_def)
  qed
qed

text \<open>Every mutator changes the entries and hands the document to one of the two writers.\<close>

lemma change_view:
  assumes "in_sync st"
    and opd: "f st = (case chatlog_ensure stamp sid st of Inl e \<Rightarrow> Inl e
        | Inr (d, st1) \<Rightarrow> (case entries_of d of Inl e \<Rightarrow> Inl e
            | Inr xs \<Rightarrow> (case g xs of Inl e \<Rightarrow> Inl e
                | Inr ys \<Rightarrow> Inr (put_entries stamp ys d, wrt (put_entries stamp ys d) st1))))"
    and wr: "\<And>p st. in_sync st \<Longrightarrow> doc_view (wrt p st) = (doc_view st)(sanitize sid \<mapsto> JsonText (JObj p))"
      "\<And>p st. in_sync st \<Longrightarrow> in_sync (wrt p st)"
      "\<And>p st. set (cl_pending (wrt p st)) \<subseteq> insert (sanitize sid) (set (cl_pending st))"
  shows "case f st of
      Inl e \<Rightarrow> abs_change stamp sid g (doc_view st) = Inl e
    | Inr (d, st1) \<Rightarrow> abs_change stamp sid g (doc_view st) = Inr (d, doc_view st1) \<and> in_sync st1
        \<and> set (cl_pending st1) \<subseteq> insert (sanitize sid) (set (cl_pending st))"
proof (cases "chatlog_ensure stamp sid st")
  case (Inl e)
  then show ?thesis using ensure_view [OF assms(1), of stamp sid] by (simp add: opd abs_change_def)
next
  case (Inr r)
  obtain d st1 where r: "r = (d, st1)" by fastforce
  then have e: "abs_ensure stamp sid (doc_view st) = Inr (d, doc_view st1)" "in_sync st1"
      "set (cl_pending st1) \<subseteq> set (cl_pending st)"
    using ensure_view [OF assms(1), of stamp sid] Inr by simp_all
  show ?thesis
  proof (cases "entries_of d")
    case xs: (Inr xs)
    show ?thesis
    proof (cases "g xs")
      case ys: (Inr ys)
      show ?thesis using wr(3) [of "put_entries stamp ys d" st1] e
        by (auto simp: opd abs_change_def Inr r xs ys wr(1,2))
    qed (simp add: opd abs_change_def Inr r xs e)
  qed (simp add: opd abs_change_def Inr r e)
qed

lemma write_pending: "set (cl_pending (chatlog_write t sid p st)) \<subseteq> insert (sanitize sid) (set (cl_pending st))"
  by (auto simp: chatlog_write_def Let_def remember_fields(2))

lemma coalesced_pending:
  "set (cl_pending (chatlog_write_coalesced t1 t2 sid p st)) \<subseteq> insert (sanitize sid) (set (cl_pending st))"
proof -
  have "set (cl_pending (chatlog_write t2 sid p (remember (sanitize sid) p st)))
      \<subseteq> insert (sanitize sid) (set (cl_pending st))"
    using write_pending [of t2 sid p "remember (sanitize sid) p st"] by (simp add: remember_fields(2))
  then show ?thesis
    by (auto simp: chatlog_write_coalesced_def Let_def remember_fields(2) split: option.split)
qed

datatype chat_op =
    ChatStart string rat string string string entry_fields
  | ChatFinish string rat string string string string entry_fields
  | ChatFail string rat string string string entry_fields
  | ChatAppend string rat rat string string jobj bool
  | ChatGet string
  | ChatFlush rat string
  | ChatFlushAll rat
  | ChatDelete string

text \<open>One call. A call that raises writes nothing and leaves every document as it was.\<close>

fun chat_step :: "chat_op \<Rightarrow> chatlog_store \<Rightarrow> chatlog_store" where
  "chat_step (ChatStart s t sid rid m f) st =
     (case chatlog_start_entry s t sid rid m f st of Inl e \<Rightarrow> st | Inr (d, st') \<Rightarrow> st')"
| "chat_step (ChatFinish s t sid rid status r f) st =
     (case chatlog_finish_entry s t sid rid status r f st of Inl e \<Rightarrow> st | Inr (d, st') \<Rightarrow> st')"
| "chat_step (ChatFail s t sid rid err f) st =
     (case chatlog_fail_entry s t sid rid err f st of Inl e \<Rightarrow> st | Inr (d, st') \<Rightarrow> st')"
| "chat_step (ChatAppend s t1 t2 sid rid ev rt) st =
     (case chatlog_append_event s t1 t2 sid rid ev rt st of Inl e \<Rightarrow> st | Inr (d, st') \<Rightarrow> st')"
| "chat_step (ChatGet sid) st = (case chatlog_get sid st of Inl e \<Rightarrow> st | Inr (v, st') \<Rightarrow> st')"
| "chat_step (ChatFlush t sid) st = snd (chatlog_flush t sid st)"
| "chat_step (ChatFlushAll t) st = snd (chatlog_flush_all t st)"
| "chat_step (ChatDelete sid) st = snd (chatlog_delete sid st)"

text \<open>The specification: a map of documents with no cache, no clock and no deferred writes.\<close>

definition abs_put ::
    "string \<Rightarrow> string \<Rightarrow> (jval list \<Rightarrow> chatlog_error + jval list) \<Rightarrow> doc_map \<Rightarrow> doc_map" where
  "abs_put stamp sid g m = (case abs_change stamp sid g m of Inl e \<Rightarrow> m | Inr (d, m') \<Rightarrow> m')"

definition start_change :: "string \<Rightarrow> string \<Rightarrow> string \<Rightarrow> entry_fields \<Rightarrow> jval list \<Rightarrow> chatlog_error + jval list" where
  "start_change stamp rid msg f xs = Inr (xs @ [JObj (started_entry stamp rid msg f)])"

definition finish_change ::
    "string \<Rightarrow> string \<Rightarrow> string \<Rightarrow> string \<Rightarrow> entry_fields \<Rightarrow> jval list \<Rightarrow> chatlog_error + jval list" where
  "finish_change stamp rid status resp f xs =
     change_entry stamp rid (\<lambda>e. Inr (finish_fields stamp status resp f e)) xs"

definition append_change :: "string \<Rightarrow> string \<Rightarrow> jobj \<Rightarrow> bool \<Rightarrow> jval list \<Rightarrow> chatlog_error + jval list" where
  "append_change stamp rid ev rt xs =
     change_entry stamp rid (push_event (if rt then ''runtime_events'' else ''events'') ev) xs"

fun abs_step :: "chat_op \<Rightarrow> doc_map \<Rightarrow> doc_map" where
  "abs_step (ChatStart s t sid rid msg f) m = abs_put s sid (start_change s rid msg f) m"
| "abs_step (ChatFinish s t sid rid status r f) m = abs_put s sid (finish_change s rid status r f) m"
| "abs_step (ChatFail s t sid rid err f) m =
     abs_put s sid (finish_change s rid ''error'' err (f\<lparr>ef_events := ef_runtime_events f\<rparr>)) m"
| "abs_step (ChatAppend s t1 t2 sid rid ev rt) m = abs_put s sid (append_change s rid ev rt) m"
| "abs_step (ChatGet sid) m = m"
| "abs_step (ChatFlush t sid) m = m"
| "abs_step (ChatFlushAll t) m = m"
| "abs_step (ChatDelete sid) m = m(sanitize sid := None)"

definition chat_inv :: "chatlog_store \<Rightarrow> bool" where
  "chat_inv st \<longleftrightarrow> in_sync st \<and> names_clean st"

lemma names_clean_sub:
  "names_clean st \<Longrightarrow> set (cl_pending st') \<subseteq> insert (sanitize sid) (set (cl_pending st)) \<Longrightarrow> names_clean st'"
  by (auto simp: names_clean_def)

lemma put_step:
  assumes "chat_inv st"
    and "case r of Inl e \<Rightarrow> abs_change stamp sid g (doc_view st) = Inl e
      | Inr (d, st1) \<Rightarrow> abs_change stamp sid g (doc_view st) = Inr (d, doc_view st1) \<and> in_sync st1
          \<and> set (cl_pending st1) \<subseteq> insert (sanitize sid) (set (cl_pending st))"
  shows "chat_inv (case r of Inl e \<Rightarrow> st | Inr (d, st') \<Rightarrow> st')
    \<and> doc_view (case r of Inl e \<Rightarrow> st | Inr (d, st') \<Rightarrow> st') = abs_put stamp sid g (doc_view st)"
  using assms names_clean_sub [of st] by (auto simp: chat_inv_def abs_put_def split: sum.splits)

lemma delete_view:
  assumes "in_sync st"
  shows "doc_view (snd (chatlog_delete sid st)) = (doc_view st)(sanitize sid := None)"
    and "in_sync (snd (chatlog_delete sid st))"
    and "set (cl_pending (snd (chatlog_delete sid st))) \<subseteq> set (cl_pending st)"
proof -
  let ?q = "chatlog_quarantine [] sid st" and ?d = "snd (chatlog_delete sid st)"
  have same: "cl_cache ?d = cl_cache ?q" "cl_files ?d = cl_files ?q" "cl_pending ?d = cl_pending ?q"
    by (auto simp: chatlog_delete_def chatlog_quarantine_def Let_def split: option.split)
  have "doc_view ?d = doc_view ?q" by (simp add: doc_view_def same fun_eq_iff split: option.split)
  moreover have "in_sync ?d = in_sync ?q" by (simp only: in_sync_but_def same)
  ultimately show "doc_view ?d = (doc_view st)(sanitize sid := None)" "in_sync ?d"
    "set (cl_pending ?d) \<subseteq> set (cl_pending st)"
    using quarantine_view [OF assms, of "[]" sid] by (simp_all add: same)
qed

lemma flush_all_view:
  assumes "chat_inv st"
  shows "doc_view (snd (chatlog_flush_all t st)) = doc_view st \<and> in_sync (snd (chatlog_flush_all t st))
    \<and> cl_pending (snd (chatlog_flush_all t st)) = []"
proof -
  have "set (cl_pending st) - sanitize ` set (cl_pending st) = {}"
    using assms by (force simp: chat_inv_def names_clean_def)
  then have "set (cl_pending (snd (flush_names t (cl_pending st) (0, st)))) = {}"
    using flush_names_view [of st t "cl_pending st" 0] assms by (simp add: chat_inv_def)
  then show ?thesis using flush_names_view [of st t "cl_pending st" 0] assms
    by (simp add: chatlog_flush_all_def chat_inv_def)
qed

lemma chat_step_refines:
  assumes "chat_inv st"
  shows "chat_inv (chat_step op st) \<and> doc_view (chat_step op st) = abs_step op (doc_view st)"
proof -
  have sync: "in_sync st" and clean: "names_clean st" using assms by (simp_all add: chat_inv_def)
  note wr = write_view [where B = "{}"] write_pending
  show ?thesis
  proof (cases op)
    case (ChatStart s t sid rid msg f)
    show ?thesis unfolding ChatStart chat_step.simps abs_step.simps
      by (rule put_step [OF assms], rule change_view [OF sync, where wrt = "chatlog_write t sid"])
         (auto simp: chatlog_start_entry_def start_change_def Let_def wr split: sum.split)
  next
    case (ChatFinish s t sid rid status r f)
    show ?thesis unfolding ChatFinish chat_step.simps abs_step.simps
      by (rule put_step [OF assms], rule change_view [OF sync, where wrt = "chatlog_write t sid"])
         (auto simp: chatlog_finish_entry_def finish_change_def Let_def wr split: sum.split)
  next
    case (ChatFail s t sid rid err f)
    show ?thesis unfolding ChatFail chat_step.simps abs_step.simps
      by (rule put_step [OF assms], rule change_view [OF sync, where wrt = "chatlog_write t sid"])
         (auto simp: chatlog_fail_entry_def chatlog_finish_entry_def finish_change_def Let_def wr split: sum.split)
  next
    case (ChatAppend s t1 t2 sid rid ev rt)
    show ?thesis unfolding ChatAppend chat_step.simps abs_step.simps
      by (rule put_step [OF assms], rule change_view [OF sync, where wrt = "chatlog_write_coalesced t1 t2 sid"])
         (auto simp: chatlog_append_event_def append_change_def Let_def coalesced_view coalesced_pending split: sum.split)
  next
    case (ChatGet sid)
    then show ?thesis using get_view [OF sync, of sid] assms
      by (auto simp: chat_inv_def names_clean_def split: sum.splits)
  next
    case (ChatFlush t sid)
    then show ?thesis using flush_view [OF sync, of t sid] names_clean_sub [OF clean]
      by (auto simp: chat_inv_def names_clean_def)
  next
    case (ChatFlushAll t)
    then show ?thesis using flush_all_view [OF assms, of t] by (simp add: chat_inv_def names_clean_def)
  next
    case (ChatDelete sid)
    then show ?thesis using delete_view [OF sync, of sid] clean
      by (auto simp: chat_inv_def names_clean_def)
  qed
qed

lemma chat_run_refines:
  "chat_inv st \<Longrightarrow> chat_inv (fold chat_step ops st) \<and> doc_view (fold chat_step ops st) = fold abs_step ops (doc_view st)"
  by (induction ops arbitrary: st) (simp_all add: chat_step_refines)

section \<open>Properties\<close>

text \<open>C31: the bounded cache and the deferred writes cannot be seen: after any run of starts, finishes, failures,
  appends, reads, flushes and deletes, a reader of any session finds exactly the document a plain
  write-through map would hold, and flushing at shutdown lands exactly that on disk, so no appended event
  is lost to an eviction or a flush that never came.\<close>

theorem chatlog_cache_is_transparent:
  assumes "dict_ok files"
  shows "doc_view (fold chat_step ops (new_chatlog_store interval n files)) = fold abs_step ops (map_of files)
    \<and> map_of (cl_files (snd (chatlog_flush_all t (fold chat_step ops (new_chatlog_store interval n files)))))
        = fold abs_step ops (map_of files)"
proof -
  let ?new = "new_chatlog_store interval n files" and ?st = "fold chat_step ops (new_chatlog_store interval n files)"
  have "chat_inv ?new" using in_sync_new [OF assms] by (simp add: chat_inv_def names_clean_def) (simp add: new_chatlog_store_def)
  moreover have "doc_view ?new = map_of files" by (simp add: doc_view_def new_chatlog_store_def fun_eq_iff)
  ultimately have run: "chat_inv ?st" "doc_view ?st = fold abs_step ops (map_of files)"
    using chat_run_refines [of ?new ops] by simp_all
  have "map_of (cl_files s) = doc_view s" if "in_sync s" "cl_pending s = []" for s
    using in_syncD(5) [OF that(1)] that(2) by (auto simp: doc_view_def fun_eq_iff split: option.split)
  then show ?thesis using flush_all_view [OF run(1), of t] run(2) by simp
qed

definition no_fields :: entry_fields where
  "no_fields = \<lparr>ef_runtime_events = None, ef_events = None, ef_context_state = None, ef_llm_debug = None\<rparr>"

lemma chatlog_cache_is_transparent_witness:
  "doc_view (fold chat_step [ChatStart ''t'' 1 ''s'' ''r'' ''hi'' no_fields, ChatAppend ''t'' 2 2 ''s'' ''r'' [] True]
      (new_chatlog_store 2 1 []))
    = fold abs_step [ChatStart ''t'' 1 ''s'' ''r'' ''hi'' no_fields, ChatAppend ''t'' 2 2 ''s'' ''r'' [] True] (map_of [])"
  by (rule chatlog_cache_is_transparent [THEN conjunct1]) simp

text \<open>An append adds its event to the entry of its request and touches no other entry.\<close>

lemma find_from_end_some:
  "find_from_end rid xs = Inr (Some i) \<Longrightarrow> i < length xs \<and> (\<exists>d. rev xs ! i = JObj d \<and> jget d ''request_id'' = JStr rid)"
  by (induction xs) (auto simp: nth_append split: jval.splits if_splits)

lemma find_entry_some:
  "find_entry rid xs = Inr (Some i) \<Longrightarrow> i < length xs \<and> (\<exists>d. xs ! i = JObj d \<and> jget d ''request_id'' = JStr rid)"
  unfolding find_entry_def by (drule find_from_end_some) simp

lemma append_event_cases:
  assumes "append_change stamp rid ev rt xs = Inr ys"
  shows "\<exists>i e e'. i \<le> length xs \<and> (if i < length xs then xs ! i = JObj e \<and> jget e ''request_id'' = JStr rid
        else e = new_entry stamp rid)
      \<and> push_event (if rt then ''runtime_events'' else ''events'') ev e = Inr e'
      \<and> ys = take i xs @ [JObj e'] @ drop (i + 1) xs"
proof (cases "find_entry rid xs")
  case (Inr o1)
  show ?thesis
  proof (cases o1)
    case None
    then obtain e' where "push_event (if rt then ''runtime_events'' else ''events'') ev (new_entry stamp rid) = Inr e'"
        "ys = xs @ [JObj e']"
      using assms Inr by (auto simp: append_change_def change_entry_def split: sum.splits)
    then show ?thesis by (intro exI [of _ "length xs"]) auto
  next
    case (Some i)
    from find_entry_some [OF Inr [unfolded Some]] obtain e where
      i: "i < length xs" "xs ! i = JObj e" "jget e ''request_id'' = JStr rid" by blast
    then obtain e' where "push_event (if rt then ''runtime_events'' else ''events'') ev e = Inr e'"
        "ys = xs[i := JObj e']"
      using assms Inr Some by (auto simp: append_change_def change_entry_def split: sum.splits)
    then show ?thesis using i by (intro exI [of _ i] exI [of _ e] exI [of _ e']) (simp add: upd_conv_take_nth_drop)
  qed
qed (use assms in \<open>simp add: append_change_def change_entry_def\<close>)

end
