(* ===== verification/TaskStore.thy ===== *)
theory TaskStore
  imports JsonText
begin

text \<open>
  \<^verbatim>\<open>task_store.py\<close>: one JSON file per task. A dataclass field holds whatever the file's JSON held, so the
  fields of a task record are JSON values. A file is its text with the document \<^verbatim>\<open>json.loads\<close> reads from
  it; written files hold the text of \<open>json_dumps\<close>. The directory is a dict from file stem to file, its
  order the order the directory is listed in; the environment variables are a map.
\<close>

section \<open>Limits\<close>

definition ACTIVE_TASK_STATUSES :: "string list" where
  "ACTIVE_TASK_STATUSES = [''accepted'', ''running'']"

definition DEFAULT_TASK_LIST_MAX_RECORDS :: int where
  "DEFAULT_TASK_LIST_MAX_RECORDS = 512"

definition DEFAULT_TASK_SCAN_MAX_RECORDS :: int where
  "DEFAULT_TASK_SCAN_MAX_RECORDS = 1024"

definition DEFAULT_TASK_LOAD_MAX_FILE_BYTES :: int where
  "DEFAULT_TASK_LOAD_MAX_FILE_BYTES = 2000000"

definition DEFAULT_TASK_PERSIST_MAX_FILE_BYTES :: int where
  "DEFAULT_TASK_PERSIST_MAX_FILE_BYTES = 2000000"

definition DEFAULT_TASK_PERSIST_EVENT_TAIL :: int where
  "DEFAULT_TASK_PERSIST_EVENT_TAIL = 50"

type_synonym env = "string \<Rightarrow> string option"

definition env_non_negative_int :: "env \<Rightarrow> string \<Rightarrow> int \<Rightarrow> int" where
  "env_non_negative_int env name dflt =
     (case env name of None \<Rightarrow> max 0 dflt
      | Some raw \<Rightarrow> (case parse_int raw of None \<Rightarrow> max 0 dflt | Some v \<Rightarrow> max 0 v))"

definition env_positive_int :: "env \<Rightarrow> string \<Rightarrow> int \<Rightarrow> int" where
  "env_positive_int env name dflt =
     (case env name of None \<Rightarrow> max 1 dflt
      | Some raw \<Rightarrow> (case parse_int raw of None \<Rightarrow> max 1 dflt | Some v \<Rightarrow> max 1 v))"

record task_limits =
  tl_list_max_records :: int
  tl_scan_max_records :: int
  tl_load_max_file_bytes :: int
  tl_persist_max_file_bytes :: int
  tl_persist_event_tail :: int

definition task_store_limits :: "env \<Rightarrow> task_limits" where
  "task_store_limits env =
     \<lparr>tl_list_max_records = env_non_negative_int env ''EFP_OPENCODE_TASKS_LIST_MAX_RECORDS''
        DEFAULT_TASK_LIST_MAX_RECORDS,
      tl_scan_max_records = env_non_negative_int env ''EFP_OPENCODE_TASKS_SCAN_MAX_RECORDS''
        DEFAULT_TASK_SCAN_MAX_RECORDS,
      tl_load_max_file_bytes = env_non_negative_int env ''EFP_OPENCODE_TASKS_LOAD_MAX_FILE_BYTES''
        DEFAULT_TASK_LOAD_MAX_FILE_BYTES,
      tl_persist_max_file_bytes = env_positive_int env ''EFP_OPENCODE_TASKS_PERSIST_MAX_FILE_BYTES''
        DEFAULT_TASK_PERSIST_MAX_FILE_BYTES,
      tl_persist_event_tail = env_non_negative_int env ''EFP_OPENCODE_TASKS_PERSIST_EVENT_TAIL''
        DEFAULT_TASK_PERSIST_EVENT_TAIL\<rparr>"

text \<open>\<^verbatim>\<open>_coerce_non_negative_int\<close> on the integers its callers pass.\<close>

definition coerce_non_negative_int :: "int option \<Rightarrow> int option" where
  "coerce_non_negative_int v = map_option (max 0) v"

section \<open>Records\<close>

datatype task_error =
    InvalidTaskId
  | LoadLimitExceeded string int nat
  | RecordReadError string
  | PersistenceLimitExceeded jval int
  | TaskMissing string
  | BadField

record task_record =
  tr_task_id :: jval
  tr_task_type :: jval
  tr_request_id :: jval
  tr_status :: jval
  tr_portal_session_id :: jval
  tr_opencode_session_id :: jval
  tr_input_payload :: jval
  tr_metadata :: jval
  tr_output_payload :: jval
  tr_artifacts :: jval
  tr_runtime_events :: jval
  tr_error :: jval
  tr_created_at :: jval
  tr_started_at :: jval
  tr_finished_at :: jval
  tr_source :: jval
  tr_shared_context_ref :: jval
  tr_context_ref :: jval
  tr_message_cursor :: jval
  tr_opencode_prompt_id :: jval
  tr_opencode_message_id :: jval
  tr_completion_source :: jval
  tr_pending_permission_ids :: jval

text \<open>\<^verbatim>\<open>asdict(record)\<close>, in field order, and \<^verbatim>\<open>TaskRecord(**payload)\<close>: a missing required field or an
  unknown one is a \<^verbatim>\<open>TypeError\<close>, a missing optional one is \<^verbatim>\<open>None\<close>.\<close>

definition task_asdict :: "task_record \<Rightarrow> jobj" where
  "task_asdict r =
     [(''task_id'', tr_task_id r),
      (''task_type'', tr_task_type r),
      (''request_id'', tr_request_id r),
      (''status'', tr_status r),
      (''portal_session_id'', tr_portal_session_id r),
      (''opencode_session_id'', tr_opencode_session_id r),
      (''input_payload'', tr_input_payload r),
      (''metadata'', tr_metadata r),
      (''output_payload'', tr_output_payload r),
      (''artifacts'', tr_artifacts r),
      (''runtime_events'', tr_runtime_events r),
      (''error'', tr_error r),
      (''created_at'', tr_created_at r),
      (''started_at'', tr_started_at r),
      (''finished_at'', tr_finished_at r),
      (''source'', tr_source r),
      (''shared_context_ref'', tr_shared_context_ref r),
      (''context_ref'', tr_context_ref r),
      (''message_cursor'', tr_message_cursor r),
      (''opencode_prompt_id'', tr_opencode_prompt_id r),
      (''opencode_message_id'', tr_opencode_message_id r),
      (''completion_source'', tr_completion_source r),
      (''pending_permission_ids'', tr_pending_permission_ids r)]"

definition REQUIRED_TASK_FIELDS :: "string list" where
  "REQUIRED_TASK_FIELDS =
     [''task_id'', ''task_type'', ''request_id'', ''status'',
      ''portal_session_id'', ''opencode_session_id'', ''input_payload'', ''metadata'',
      ''output_payload'', ''artifacts'', ''runtime_events'', ''error'',
      ''created_at'']"

definition OPTIONAL_TASK_FIELDS :: "string list" where
  "OPTIONAL_TASK_FIELDS =
     [''started_at'', ''finished_at'', ''source'', ''shared_context_ref'',
      ''context_ref'', ''message_cursor'', ''opencode_prompt_id'', ''opencode_message_id'',
      ''completion_source'', ''pending_permission_ids'']"

definition task_of_payload :: "jobj \<Rightarrow> task_error + task_record" where
  "task_of_payload d =
     (if list_all (jhas d) REQUIRED_TASK_FIELDS
         \<and> list_all (\<lambda>k. k \<in> set (REQUIRED_TASK_FIELDS @ OPTIONAL_TASK_FIELDS)) (dkeys d)
      then Inr
        \<lparr>tr_task_id = jget d ''task_id'',
         tr_task_type = jget d ''task_type'',
         tr_request_id = jget d ''request_id'',
         tr_status = jget d ''status'',
         tr_portal_session_id = jget d ''portal_session_id'',
         tr_opencode_session_id = jget d ''opencode_session_id'',
         tr_input_payload = jget d ''input_payload'',
         tr_metadata = jget d ''metadata'',
         tr_output_payload = jget d ''output_payload'',
         tr_artifacts = jget d ''artifacts'',
         tr_runtime_events = jget d ''runtime_events'',
         tr_error = jget d ''error'',
         tr_created_at = jget d ''created_at'',
         tr_started_at = jget d ''started_at'',
         tr_finished_at = jget d ''finished_at'',
         tr_source = jget d ''source'',
         tr_shared_context_ref = jget d ''shared_context_ref'',
         tr_context_ref = jget d ''context_ref'',
         tr_message_cursor = jget d ''message_cursor'',
         tr_opencode_prompt_id = jget d ''opencode_prompt_id'',
         tr_opencode_message_id = jget d ''opencode_message_id'',
         tr_completion_source = jget d ''completion_source'',
         tr_pending_permission_ids = jget d ''pending_permission_ids''\<rparr>
      else Inl BadField)"

section \<open>Encoding a record within the limit\<close>

definition MINIMAL_OUTPUT_KEYS :: "string list" where
  "MINIMAL_OUTPUT_KEYS = [''summary'', ''error_code'', ''blockers'', ''next_recommendation'',
     ''completion_state'', ''incomplete_reason'', ''pending_permission_ids'']"

definition MINIMAL_METADATA_KEYS :: "string list" where
  "MINIMAL_METADATA_KEYS = [''task_id'', ''portal_task_id'', ''agent_id'', ''trace_id'',
     ''portal_dispatch_id'', ''runtime_request_id'', ''opencode_session_id'']"

text \<open>Copying the keys of \<open>ks\<close> that \<open>src\<close> has.\<close>

definition copy_keys :: "string list \<Rightarrow> jobj \<Rightarrow> jobj \<Rightarrow> jobj" where
  "copy_keys ks src d = fold (\<lambda>k d. if jhas src k then AList.update k (jget src k) d else d) ks d"

definition omitted_reason :: jval where
  "omitted_reason = JStr ''task_record_exceeded_persistence_limit''"

definition minimal_output_payload :: "task_record \<Rightarrow> jobj" where
  "minimal_output_payload r = copy_keys MINIMAL_OUTPUT_KEYS (obj_or_empty (tr_output_payload r))
     [(''status'', tr_status r), (''payload_omitted_from_persistence'', JBool True), (''reason'', omitted_reason)]"

definition minimal_metadata :: "jval \<Rightarrow> jobj" where
  "minimal_metadata metadata = (case metadata of JObj m \<Rightarrow> copy_keys MINIMAL_METADATA_KEYS m [] | _ \<Rightarrow> [])"

text \<open>\<^verbatim>\<open>list(record.runtime_events or [])\<close>: the events of a list; other JSON iterates over its keys or
  characters, or (numbers, \<^verbatim>\<open>True\<close>) raises.\<close>

definition event_list :: "jval \<Rightarrow> task_error + jval list" where
  "event_list v = (if truthy v then
      (case v of JList xs \<Rightarrow> Inr xs | JStr s \<Rightarrow> Inr (List.map (\<lambda>c. JStr [c]) s)
       | JObj d \<Rightarrow> Inr (List.map JStr (dkeys d)) | _ \<Rightarrow> Inl BadField)
    else Inr [])"

definition minimal_record_for_persistence :: "env \<Rightarrow> bool \<Rightarrow> task_record \<Rightarrow> task_error + jobj" where
  "minimal_record_for_persistence env keep_event_tail r =
     (case event_list (tr_runtime_events r) of Inl e \<Rightarrow> Inl e
      | Inr events \<Rightarrow>
        let tail = tl_persist_event_tail (task_store_limits env) in
        Inr [(''task_id'', tr_task_id r), (''task_type'', tr_task_type r), (''request_id'', tr_request_id r),
          (''status'', tr_status r), (''portal_session_id'', tr_portal_session_id r),
          (''opencode_session_id'', tr_opencode_session_id r),
          (''input_payload'', if truthy (tr_input_payload r)
             then JObj [(''_omitted'', JBool True), (''reason'', omitted_reason)] else JObj []),
          (''metadata'', JObj (minimal_metadata (tr_metadata r))),
          (''output_payload'', JObj (minimal_output_payload r)),
          (''artifacts'', JObj []),
          (''runtime_events'', JList (if keep_event_tail \<and> tail > 0 then last_n (nat tail) events else [])),
          (''error'', tr_error r), (''created_at'', tr_created_at r), (''started_at'', tr_started_at r),
          (''finished_at'', tr_finished_at r), (''source'', tr_source r),
          (''shared_context_ref'', tr_shared_context_ref r), (''context_ref'', JNull),
          (''message_cursor'', tr_message_cursor r), (''opencode_prompt_id'', tr_opencode_prompt_id r),
          (''opencode_message_id'', tr_opencode_message_id r), (''completion_source'', tr_completion_source r),
          (''pending_permission_ids'', tr_pending_permission_ids r)])"

definition ultra_minimal_record_for_persistence :: "task_record \<Rightarrow> jobj" where
  "ultra_minimal_record_for_persistence r =
     [(''task_id'', tr_task_id r), (''task_type'', tr_task_type r), (''request_id'', tr_request_id r),
      (''status'', tr_status r), (''portal_session_id'', tr_portal_session_id r),
      (''opencode_session_id'', tr_opencode_session_id r), (''input_payload'', JObj []), (''metadata'', JObj []),
      (''output_payload'', JObj [(''status'', tr_status r), (''payload_omitted_from_persistence'', JBool True),
         (''record_minimized_from_persistence'', JBool True), (''reason'', omitted_reason)]),
      (''artifacts'', JObj []), (''runtime_events'', JList []), (''error'', tr_error r),
      (''created_at'', tr_created_at r)]"

definition fits :: "env \<Rightarrow> jobj \<Rightarrow> bool" where
  "fits env d = (int (utf8_len (json_dumps (JObj d))) \<le> tl_persist_max_file_bytes (task_store_limits env))"

text \<open>The document to write, \<^verbatim>\<open>None\<close> when none of the four forms fits.\<close>

definition encode_record_for_persistence :: "env \<Rightarrow> task_record \<Rightarrow> task_error + jobj option" where
  "encode_record_for_persistence env r =
     (if fits env (task_asdict r) then Inr (Some (task_asdict r))
      else case minimal_record_for_persistence env True r of Inl e \<Rightarrow> Inl e
      | Inr d1 \<Rightarrow> if fits env d1 then Inr (Some d1)
        else (case minimal_record_for_persistence env False r of Inl e \<Rightarrow> Inl e
        | Inr d2 \<Rightarrow> if fits env d2 then Inr (Some d2)
          else if fits env (ultra_minimal_record_for_persistence r)
               then Inr (Some (ultra_minimal_record_for_persistence r))
               else Inr None))"

section \<open>The store\<close>

record task_file =
  tf_text :: string
  tf_doc :: jfile

type_synonym task_dir = "(string, task_file) odict"

definition write_doc :: "jobj \<Rightarrow> task_file" where
  "write_doc d = \<lparr>tf_text = json_dumps (JObj d), tf_doc = JsonText (JObj d)\<rparr>"

text \<open>\<^verbatim>\<open>is_valid_task_id\<close> on a string, and the path of a task: the file stem. A record's id is a JSON value;
  one that is not a string is either refused or raises, and is read as refused here.\<close>

definition is_valid_task_id :: "string \<Rightarrow> bool" where
  "is_valid_task_id tid \<longleftrightarrow>
     tid \<noteq> [] \<and> \<not> contains tid ''/'' \<and> \<not> contains tid [char_of (92::nat)] \<and> \<not> contains tid ''..''"

definition task_path :: "jval \<Rightarrow> task_error + string" where
  "task_path v = (case v of JStr s \<Rightarrow> if is_valid_task_id s then Inr s else Inl InvalidTaskId
                  | _ \<Rightarrow> Inl InvalidTaskId)"

text \<open>\<^verbatim>\<open>_read_record\<close> with the byte limit it works under; every failure other than the limit is an
  exception its callers wrap or skip.\<close>

definition read_record :: "env \<Rightarrow> int option \<Rightarrow> string \<Rightarrow> task_file \<Rightarrow> task_error + task_record" where
  "read_record env max_bytes stem f =
     (let limit = (case coerce_non_negative_int max_bytes of None \<Rightarrow> max 0 (tl_load_max_file_bytes (task_store_limits env))
                   | Some l \<Rightarrow> l);
          size = utf8_len (tf_text f) in
      if int size > limit then Inl (LoadLimitExceeded stem limit size)
      else case tf_doc f of
        JsonText (JObj d) \<Rightarrow> task_of_payload d
      | _ \<Rightarrow> Inl (RecordReadError stem))"

definition task_get :: "env \<Rightarrow> string \<Rightarrow> task_dir \<Rightarrow> task_error + task_record option" where
  "task_get env tid dir =
     (if \<not> is_valid_task_id tid then Inl InvalidTaskId
      else case map_of dir tid of None \<Rightarrow> Inr None
      | Some f \<Rightarrow> (case read_record env None tid f of
          Inr r \<Rightarrow> Inr (Some r)
        | Inl (LoadLimitExceeded s l n) \<Rightarrow> Inl (LoadLimitExceeded s l n)
        | Inl e \<Rightarrow> Inl (RecordReadError tid)))"

definition task_save :: "env \<Rightarrow> task_record \<Rightarrow> task_dir \<Rightarrow> task_error + (task_record \<times> task_dir)" where
  "task_save env r dir =
     (case task_path (tr_task_id r) of Inl e \<Rightarrow> Inl e
      | Inr tid \<Rightarrow> (case encode_record_for_persistence env r of
          Inl e \<Rightarrow> Inl e
        | Inr None \<Rightarrow>
            (case task_get env tid dir of
               Inl e \<Rightarrow> Inl e
             | Inr (Some existing) \<Rightarrow> Inr (existing, dir)
             | Inr None \<Rightarrow> Inl (PersistenceLimitExceeded (tr_task_id r)
                             (tl_persist_max_file_bytes (task_store_limits env))))
        | Inr (Some d) \<Rightarrow> Inr (r, AList.update tid (write_doc d) dir)))"

definition task_create_or_get ::
    "env \<Rightarrow> task_record \<Rightarrow> task_dir \<Rightarrow> task_error + ((task_record \<times> bool) \<times> task_dir)" where
  "task_create_or_get env r dir =
     (case task_path (tr_task_id r) of Inl e \<Rightarrow> Inl e
      | Inr tid \<Rightarrow> (case task_get env tid dir of Inl e \<Rightarrow> Inl e
          | Inr (Some existing) \<Rightarrow> Inr ((existing, False), dir)
          | Inr None \<Rightarrow> (case task_save env r dir of Inl e \<Rightarrow> Inl e
              | Inr (saved, dir') \<Rightarrow> Inr ((saved, True), dir'))))"

definition task_update ::
    "env \<Rightarrow> string \<Rightarrow> jobj \<Rightarrow> task_dir \<Rightarrow> task_error + (task_record \<times> task_dir)" where
  "task_update env tid changes dir =
     (case task_get env tid dir of Inl e \<Rightarrow> Inl e
      | Inr None \<Rightarrow> Inl (TaskMissing tid)
      | Inr (Some r) \<Rightarrow>
          (case task_of_payload (fold (\<lambda>(k, v) d. AList.update k v d) changes (task_asdict r)) of
             Inl e \<Rightarrow> Inl e | Inr updated \<Rightarrow> task_save env updated dir))"

definition task_append_event ::
    "env \<Rightarrow> string \<Rightarrow> jval \<Rightarrow> task_dir \<Rightarrow> task_error + (task_record \<times> task_dir)" where
  "task_append_event env tid event dir =
     (case task_get env tid dir of Inl e \<Rightarrow> Inl e
      | Inr None \<Rightarrow> Inl (TaskMissing tid)
      | Inr (Some r) \<Rightarrow>
          (case (case tr_runtime_events r of JList xs \<Rightarrow> Inr xs | JStr s \<Rightarrow> Inr (List.map (\<lambda>c. JStr [c]) s)
                 | JObj d \<Rightarrow> Inr (List.map JStr (dkeys d)) | _ \<Rightarrow> Inl BadField) of
             Inl e \<Rightarrow> Inl e
           | Inr events \<Rightarrow> task_update env tid [(''runtime_events'', JList (events @ [event]))] dir))"

section \<open>Listing\<close>

text \<open>\<^verbatim>\<open>_iter_task_paths\<close>: without a scan limit the directory order, with one the first entries, sorted by
  file name.\<close>

definition path_lt :: "string \<Rightarrow> string \<Rightarrow> bool" where
  "path_lt a b = (lexordp (\<lambda>x y. (of_char x :: nat) < of_char y) a b)"

fun insert_path :: "string \<times> 'a \<Rightarrow> (string \<times> 'a) list \<Rightarrow> (string \<times> 'a) list" where
  "insert_path x [] = [x]"
| "insert_path x (y # ys) = (if path_lt (fst y @ ''.json'') (fst x @ ''.json'') then y # insert_path x ys else x # y # ys)"

definition sort_paths :: "(string \<times> 'a) list \<Rightarrow> (string \<times> 'a) list" where
  "sort_paths xs = fold insert_path xs []"

definition iter_task_paths :: "int option \<Rightarrow> task_dir \<Rightarrow> (string \<times> task_file) list" where
  "iter_task_paths scan_limit dir =
     (case scan_limit of None \<Rightarrow> dir
      | Some n \<Rightarrow> if n \<le> 0 then [] else sort_paths (take (nat n) dir))"

definition over :: "int option \<Rightarrow> nat \<Rightarrow> bool" where
  "over limit n = (case limit of None \<Rightarrow> False | Some l \<Rightarrow> int n \<ge> l)"

text \<open>The loop of \<open>list_all\<close> and of \<open>iter_active\<close>: they differ in which records they keep. \<open>n\<close> counts the
  records kept so far, \<open>scanned\<close> the files looked at.\<close>

fun list_loop :: "env \<Rightarrow> (task_record \<Rightarrow> bool) \<Rightarrow> int option \<Rightarrow> int option \<Rightarrow> int option \<Rightarrow> nat \<Rightarrow> nat \<Rightarrow>
    (string \<times> task_file) list \<Rightarrow> task_record list" where
  "list_loop env keep record_limit scan_limit size_limit n scanned [] = []"
| "list_loop env keep record_limit scan_limit size_limit n scanned ((stem, f) # rest) =
     (if over record_limit n then []
      else if over scan_limit scanned then []
      else if (case size_limit of None \<Rightarrow> False | Some l \<Rightarrow> int (utf8_len (tf_text f)) > l)
        then list_loop env keep record_limit scan_limit size_limit n (scanned + 1) rest
      else case read_record env size_limit stem f of
        Inl e \<Rightarrow> list_loop env keep record_limit scan_limit size_limit n (scanned + 1) rest
      | Inr r \<Rightarrow> if keep r then r # list_loop env keep record_limit scan_limit size_limit (n + 1) (scanned + 1) rest
          else list_loop env keep record_limit scan_limit size_limit n (scanned + 1) rest)"

definition list_records ::
    "env \<Rightarrow> (task_record \<Rightarrow> bool) \<Rightarrow> int option \<Rightarrow> int option \<Rightarrow> int option \<Rightarrow> task_dir \<Rightarrow> task_record list" where
  "list_records env keep record_limit scan_limit size_limit dir =
     (if record_limit = Some 0 \<or> scan_limit = Some 0 then []
      else list_loop env keep record_limit scan_limit size_limit 0 0 (iter_task_paths scan_limit dir))"

definition or_limit :: "int option \<Rightarrow> int \<Rightarrow> int option" where
  "or_limit v dflt = coerce_non_negative_int (Some (case v of None \<Rightarrow> dflt | Some x \<Rightarrow> x))"

definition task_list_all :: "env \<Rightarrow> int option \<Rightarrow> int option \<Rightarrow> int option \<Rightarrow> task_dir \<Rightarrow> task_record list" where
  "task_list_all env max_records max_scan max_bytes dir =
     (let l = task_store_limits env in
      list_records env (\<lambda>r. True) (or_limit max_records (tl_list_max_records l))
        (or_limit max_scan (tl_scan_max_records l)) (or_limit max_bytes (tl_load_max_file_bytes l)) dir)"

text \<open>A list or an object as a status is unhashable and the membership test raises; such a record reads as
  not active here, as does a message id of that kind in \<open>find_message\<close> as not among the ids.\<close>

definition active_status :: "jval \<Rightarrow> bool" where
  "active_status v = (case v of JStr s \<Rightarrow> s \<in> set ACTIVE_TASK_STATUSES | _ \<Rightarrow> False)"

definition task_iter_active ::
    "env \<Rightarrow> int option \<Rightarrow> int option \<Rightarrow> int option \<Rightarrow> bool \<Rightarrow> task_dir \<Rightarrow> task_record list" where
  "task_iter_active env max_records max_scan max_bytes use_defaults dir =
     (let l = task_store_limits env;
          pick = (\<lambda>v d. if v \<noteq> None \<or> \<not> use_defaults then coerce_non_negative_int v else or_limit v d) in
      list_records env (\<lambda>r. active_status (tr_status r)) (pick max_records (tl_list_max_records l))
        (pick max_scan (tl_scan_max_records l)) (or_limit max_bytes (tl_load_max_file_bytes l)) dir)"

definition task_list_active :: "env \<Rightarrow> int option \<Rightarrow> int option \<Rightarrow> int option \<Rightarrow> task_dir \<Rightarrow> task_record list" where
  "task_list_active env max_records max_scan max_bytes dir =
     task_iter_active env max_records max_scan max_bytes True dir"

text \<open>\<^verbatim>\<open>find_for_opencode_event\<close>: the loop returns at the first record one of the messages names.\<close>

fun find_message :: "string list \<Rightarrow> task_record list \<Rightarrow> task_record option" where
  "find_message ids [] = None"
| "find_message ids (r # rs) =
     (if ids \<noteq> [] \<and> (tr_opencode_message_id r \<in> JStr ` set ids \<or> tr_opencode_prompt_id r \<in> JStr ` set ids)
      then Some r else find_message ids rs)"

definition find_for_opencode_event :: "env \<Rightarrow> string \<Rightarrow> string list \<Rightarrow> task_dir \<Rightarrow> task_record option" where
  "find_for_opencode_event env oid ids dir =
     (if oid = [] then None
      else let mine = filter (\<lambda>r. tr_opencode_session_id r = JStr oid) (task_list_all env None None None dir)
        in case find_message ids mine of Some r \<Rightarrow> Some r
           | None \<Rightarrow> (case filter (\<lambda>r. active_status (tr_status r)) mine of
                [r] \<Rightarrow> if ids = [] then Some r else None
              | _ \<Rightarrow> None))"

definition task_file_count_exceeds :: "int option \<Rightarrow> task_dir \<Rightarrow> bool" where
  "task_file_count_exceeds limit dir =
     (case limit of None \<Rightarrow> False | Some l \<Rightarrow> if l \<le> 0 then False else int (length dir) > l)"

definition possibly_truncated :: "env \<Rightarrow> task_dir \<Rightarrow> bool" where
  "possibly_truncated env dir =
     (let l = task_store_limits env in
      task_file_count_exceeds (coerce_non_negative_int (Some (tl_list_max_records l))) dir
      \<or> task_file_count_exceeds (coerce_non_negative_int (Some (tl_scan_max_records l))) dir)"

section \<open>Reading back what was written\<close>

lemma task_roundtrip: "task_of_payload (task_asdict r) = Inr r"
  by (cases r) (simp add: task_of_payload_def task_asdict_def REQUIRED_TASK_FIELDS_def
    OPTIONAL_TASK_FIELDS_def jhas_def jget_def)

text \<open>The fields no degraded form touches.\<close>

definition task_core :: "task_record \<Rightarrow> jval list" where
  "task_core r = [tr_task_id r, tr_task_type r, tr_request_id r, tr_status r, tr_portal_session_id r,
     tr_opencode_session_id r, tr_error r, tr_created_at r]"

lemma minimal_reads:
  assumes "minimal_record_for_persistence env keep r = Inr d"
  shows "\<exists>q. task_of_payload d = Inr q \<and> task_core q = task_core r"
  using assms by (auto simp: minimal_record_for_persistence_def Let_def task_of_payload_def task_core_def
      REQUIRED_TASK_FIELDS_def OPTIONAL_TASK_FIELDS_def jhas_def jget_def split: sum.splits)

lemma ultra_reads:
  "\<exists>q. task_of_payload (ultra_minimal_record_for_persistence r) = Inr q \<and> task_core q = task_core r"
  by (simp add: ultra_minimal_record_for_persistence_def task_of_payload_def task_core_def
      REQUIRED_TASK_FIELDS_def OPTIONAL_TASK_FIELDS_def jhas_def jget_def)

lemma encode_reads:
  assumes "encode_record_for_persistence env r = Inr (Some d)"
  shows "\<exists>q. task_of_payload d = Inr q \<and> task_core q = task_core r \<and> fits env d
    \<and> (fits env (task_asdict r) \<longrightarrow> q = r)"
proof (cases "fits env (task_asdict r)")
  case True
  then show ?thesis using assms task_roundtrip [of r] by (auto simp: encode_record_for_persistence_def)
next
  case False
  then show ?thesis using assms ultra_reads [of r]
    by (auto simp: encode_record_for_persistence_def dest: minimal_reads split: sum.splits if_splits)
qed

definition limits_agree :: "env \<Rightarrow> bool" where
  "limits_agree env \<longleftrightarrow>
     tl_persist_max_file_bytes (task_store_limits env) \<le> tl_load_max_file_bytes (task_store_limits env)"

lemma limits_agree_default: "limits_agree (\<lambda>k. None)"
  by (simp add: limits_agree_def task_store_limits_def env_non_negative_int_def env_positive_int_def
    DEFAULT_TASK_PERSIST_MAX_FILE_BYTES_def DEFAULT_TASK_LOAD_MAX_FILE_BYTES_def)

lemma load_limit_nonneg [simp]: "0 \<le> tl_load_max_file_bytes (task_store_limits env)"
  by (simp add: task_store_limits_def env_non_negative_int_def split: option.split)

lemma read_written:
  assumes "limits_agree env" "fits env d"
  shows "read_record env None stem (write_doc d) = task_of_payload d"
  using assms by (simp add: read_record_def write_doc_def Let_def limits_agree_def fits_def
    coerce_non_negative_int_def)

lemma get_written:
  assumes "limits_agree env" "fits env d" "is_valid_task_id tid" "map_of dir tid = Some (write_doc d)"
    "task_of_payload d = Inr q"
  shows "task_get env tid dir = Inr (Some q)"
  using assms by (simp add: task_get_def read_written)

text \<open>C28: saving a task does not lose it. When the size limit for loading is no smaller than the one for saving (they are two
  settings, and agree by default), the id is a valid one and one of the four forms fits, then the file written is the one read
  back, it carries the task's id, type, request, status, sessions, error and creation time, and it is the
  whole record when that fits. No other task's file changes.\<close>

theorem saved_task_reads_back:
  assumes "limits_agree env" "tr_task_id r = JStr tid" "is_valid_task_id tid"
    and "encode_record_for_persistence env r = Inr (Some d)"
  shows "\<exists>q dir'. task_save env r dir = Inr (r, dir') \<and> task_get env tid dir' = Inr (Some q)
    \<and> task_core q = task_core r \<and> (fits env (task_asdict r) \<longrightarrow> q = r)
    \<and> (\<forall>k. k \<noteq> tid \<longrightarrow> map_of dir' k = map_of dir k)"
proof -
  obtain q where q: "task_of_payload d = Inr q" "task_core q = task_core r" "fits env d"
      "fits env (task_asdict r) \<longrightarrow> q = r"
    using encode_reads [OF assms(4)] by blast
  let ?dir = "AList.update tid (write_doc d) dir"
  have "task_save env r dir = Inr (r, ?dir)" using assms by (simp add: task_save_def task_path_def)
  moreover have "task_get env tid ?dir = Inr (Some q)"
    by (rule get_written [OF assms(1) q(3) assms(3) _ q(1)]) (simp add: update_conv)
  ultimately show ?thesis using q by (intro exI [of _ q] exI [of _ ?dir]) (simp add: update_conv)
qed

definition sample_task :: task_record where
  "sample_task = \<lparr>tr_task_id = JStr ''t1'', tr_task_type = JStr ''review'', tr_request_id = JStr ''r'',
     tr_status = JStr ''running'', tr_portal_session_id = JStr ''s'', tr_opencode_session_id = JStr ''o'',
     tr_input_payload = JObj [], tr_metadata = JObj [], tr_output_payload = JNull, tr_artifacts = JObj [],
     tr_runtime_events = JList [], tr_error = JNull, tr_created_at = JStr ''2024'', tr_started_at = JNull,
     tr_finished_at = JNull, tr_source = JNull, tr_shared_context_ref = JNull, tr_context_ref = JNull,
     tr_message_cursor = JNull, tr_opencode_prompt_id = JNull, tr_opencode_message_id = JNull,
     tr_completion_source = JNull, tr_pending_permission_ids = JNull\<rparr>"

lemma sample_fits: "fits (\<lambda>k. None) (task_asdict sample_task)"
  by code_simp

lemma sample_encode: "encode_record_for_persistence (\<lambda>k. None) sample_task = Inr (Some (task_asdict sample_task))"
  by (simp add: encode_record_for_persistence_def sample_fits)

lemma sample_id: "is_valid_task_id ''t1''"
  by code_simp

lemma saved_task_reads_back_witness:
  "\<exists>q dir'. task_save (\<lambda>k. None) sample_task [] = Inr (sample_task, dir')
     \<and> task_get (\<lambda>k. None) ''t1'' dir' = Inr (Some q) \<and> q = sample_task"
  using saved_task_reads_back [OF limits_agree_default _ sample_id sample_encode, of "[]"] sample_fits
  by (auto simp: sample_task_def)

section \<open>The directory the adapter writes\<close>

text \<open>Every file is a document within the persistence limit that reads as a record of its own id.\<close>

definition dir_inv :: "env \<Rightarrow> task_dir \<Rightarrow> bool" where
  "dir_inv env dir \<longleftrightarrow> dict_ok dir \<and> (\<forall>(k, f) \<in> set dir. is_valid_task_id k \<and>
     (\<exists>d q. f = write_doc d \<and> fits env d \<and> task_of_payload d = Inr q \<and> tr_task_id q = JStr k))"

lemma dir_inv_get:
  assumes "limits_agree env" "dir_inv env dir" "map_of dir tid = Some f"
  shows "\<exists>q. task_get env tid dir = Inr (Some q) \<and> tr_task_id q = JStr tid"
proof -
  have mem: "(tid, f) \<in> set dir" using assms(3) by (rule map_of_SomeD)
  then obtain d q where "f = write_doc d" "fits env d" "task_of_payload d = Inr q" "tr_task_id q = JStr tid"
      "is_valid_task_id tid"
    using assms(2) by (fastforce simp: dir_inv_def)
  then show ?thesis using get_written assms by metis
qed

lemma core_id: "task_core q = task_core r \<Longrightarrow> tr_task_id q = tr_task_id r"
  by (simp add: task_core_def)

lemma save_dir_inv:
  assumes "dir_inv env dir" "task_save env r dir = Inr (r', dir')"
  shows "dir_inv env dir'"
proof (cases "encode_record_for_persistence env r")
  case (Inr od)
  show ?thesis
  proof (cases od)
    case None
    then show ?thesis using assms Inr by (auto simp: task_save_def split: sum.splits option.splits)
  next
    case (Some d)
    then obtain tid where tid: "tr_task_id r = JStr tid" "is_valid_task_id tid" "dir' = AList.update tid (write_doc d) dir"
      using assms(2) Inr by (auto simp: task_save_def task_path_def split: sum.splits jval.splits if_splits)
    obtain q where "task_of_payload d = Inr q" "task_core q = task_core r" "fits env d"
      using encode_reads [OF Inr [unfolded Some]] by blast
    then show ?thesis using assms(1) tid core_id [of q r]
      by (auto simp: dir_inv_def dest!: in_set_update)
  qed
next
  case (Inl e)
  then show ?thesis using assms by (auto simp: task_save_def split: sum.splits)
qed

datatype task_op =
    TaskSave task_record
  | TaskCreate task_record
  | TaskUpdate string jobj
  | TaskAppend string jval

text \<open>One call; a call that raises leaves the directory as it was (its temporary file aside).\<close>

fun task_step :: "env \<Rightarrow> task_op \<Rightarrow> task_dir \<Rightarrow> task_dir" where
  "task_step env (TaskSave r) dir = (case task_save env r dir of Inl e \<Rightarrow> dir | Inr (x, d) \<Rightarrow> d)"
| "task_step env (TaskCreate r) dir = (case task_create_or_get env r dir of Inl e \<Rightarrow> dir | Inr (x, d) \<Rightarrow> d)"
| "task_step env (TaskUpdate tid ch) dir = (case task_update env tid ch dir of Inl e \<Rightarrow> dir | Inr (x, d) \<Rightarrow> d)"
| "task_step env (TaskAppend tid e) dir = (case task_append_event env tid e dir of Inl e \<Rightarrow> dir | Inr (x, d) \<Rightarrow> d)"

lemma update_dir_inv: "dir_inv env dir \<Longrightarrow> task_update env tid ch dir = Inr (x, dir') \<Longrightarrow> dir_inv env dir'"
  by (auto simp: task_update_def split: sum.splits option.splits intro: save_dir_inv)

lemma task_step_inv: "dir_inv env dir \<Longrightarrow> dir_inv env (task_step env op dir)"
proof (cases op)
  case (TaskCreate r)
  assume "dir_inv env dir"
  then show ?thesis using TaskCreate
    by (auto simp: task_create_or_get_def split: sum.splits option.splits intro: save_dir_inv)
next
  case (TaskAppend tid e)
  assume "dir_inv env dir"
  then show ?thesis using TaskAppend
    by (auto simp: task_append_event_def split: sum.split option.split intro: update_dir_inv)
qed (auto split: sum.split intro: save_dir_inv update_dir_inv)

lemma task_run_inv: "dir_inv env dir \<Longrightarrow> dir_inv env (fold (task_step env) ops dir)"
  by (induction ops arbitrary: dir) (simp_all add: task_step_inv)

text \<open>whatever records are created, saved, updated and extended, every task file is readable: \<open>get\<close>
  returns a record of that id for each, so no degraded encoding or failed save leaves a task behind that
  the adapter cannot load, as long as the load limit is not set below the persistence limit.\<close>

theorem stored_tasks_are_readable:
  assumes "limits_agree env" "map_of (fold (task_step env) ops []) tid = Some f"
  shows "\<exists>q. task_get env tid (fold (task_step env) ops []) = Inr (Some q) \<and> tr_task_id q = JStr tid"
proof -
  have "dir_inv env []" by (simp add: dir_inv_def)
  from dir_inv_get [OF assms(1) task_run_inv [OF this] assms(2)] show ?thesis .
qed

lemma stored_tasks_are_readable_witness:
  "\<exists>q. task_get (\<lambda>k. None) ''t1'' (fold (task_step (\<lambda>k. None)) [TaskSave sample_task] []) = Inr (Some q)
     \<and> tr_task_id q = JStr ''t1''"
proof (rule stored_tasks_are_readable [OF limits_agree_default])
  have "tr_task_id sample_task = JStr ''t1''" by (simp add: sample_task_def)
  then show "map_of (fold (task_step (\<lambda>k. None)) [TaskSave sample_task] []) ''t1''
      = Some (write_doc (task_asdict sample_task))"
    by (simp add: task_save_def task_path_def sample_id sample_encode)
qed

section \<open>Events of a task\<close>

lemma find_message_some:
  "find_message ids rs = Some r \<Longrightarrow> r \<in> set rs \<and> ids \<noteq> [] \<and>
     (tr_opencode_message_id r \<in> JStr ` set ids \<or> tr_opencode_prompt_id r \<in> JStr ` set ids)"
  by (induction rs) (auto split: if_splits)

text \<open>an OpenCode event is attributed to a task only on evidence: the task has the event's OpenCode
  session, and either one of the event's message ids is its prompt or message id, or the event names no
  message and the task is the only active one of that session among those listed.\<close>

theorem event_task_is_unambiguous:
  assumes "find_for_opencode_event env oid ids dir = Some r"
  shows "tr_opencode_session_id r = JStr oid \<and> oid \<noteq> [] \<and> r \<in> set (task_list_all env None None None dir) \<and>
    (if ids = [] then filter (\<lambda>q. active_status (tr_status q) \<and> tr_opencode_session_id q = JStr oid)
         (task_list_all env None None None dir) = [r]
     else tr_opencode_message_id r \<in> JStr ` set ids \<or> tr_opencode_prompt_id r \<in> JStr ` set ids)"
proof -
  let ?mine = "filter (\<lambda>r. tr_opencode_session_id r = JStr oid) (task_list_all env None None None dir)"
  show ?thesis
  proof (cases "find_message ids ?mine")
    case (Some q)
    then show ?thesis using assms find_message_some [OF Some]
      by (auto simp: find_for_opencode_event_def Let_def split: if_splits)
  next
    case None
    have conj: "filter (\<lambda>q. active_status (tr_status q) \<and> tr_opencode_session_id q = JStr oid) xs
        = filter (\<lambda>r. active_status (tr_status r)) (filter (\<lambda>r. tr_opencode_session_id r = JStr oid) xs)" for xs
      by (induction xs) auto
    from None have "filter (\<lambda>r. active_status (tr_status r)) ?mine = [r]" "ids = []" "oid \<noteq> []"
      using assms by (auto simp: find_for_opencode_event_def Let_def simp del: filter_filter
        split: if_splits list.splits)
    moreover from this have "r \<in> set ?mine" by (metis filter_is_subset list.set_intros(1) subset_iff)
    ultimately show ?thesis unfolding conj by (simp del: filter_filter)
  qed
qed

lemma sample_listed:
  "task_list_all (\<lambda>k. None) None None None [(''t1'', write_doc (task_asdict sample_task))] = [sample_task]"
  by code_simp

lemma event_task_is_unambiguous_witness: "tr_opencode_session_id sample_task = JStr ''o''"
proof -
  have "find_for_opencode_event (\<lambda>k. None) ''o'' [] [(''t1'', write_doc (task_asdict sample_task))] = Some sample_task"
    by (simp add: find_for_opencode_event_def sample_listed)
       (simp add: sample_task_def active_status_def ACTIVE_TASK_STATUSES_def)
  from event_task_is_unambiguous [OF this] show ?thesis by (rule conjunct1)
qed

end
