(* ===== verification/ProfileStore.thy ===== *)
theory ProfileStore
  imports PyFloat
begin

text \<open>
  \<^verbatim>\<open>profile_store.py\<close>: what the adapter removes from values before they leave it (event payloads, status
  pages, the stored profile), and the boot record it keeps of the last profile. A record's fields hold what
  \<^verbatim>\<open>load\<close> makes of them; the two that it passes on unchecked stay JSON values.
\<close>

section \<open>Redaction\<close>

definition PROFILE_REDACTED :: string where
  "PROFILE_REDACTED = ''***REDACTED***''"

definition SECRET_KEYS :: "string list" where
  "SECRET_KEYS = [''api_key'', ''token'', ''secret'', ''password'', ''authorization'', ''credential'', ''access'',
     ''refresh'', ''oauth'', ''access_token'', ''refresh_token'']"

definition PUBLIC_REDACTED :: string where
  "PUBLIC_REDACTED = ''[redacted]''"

definition contains_secret_marker :: "string \<Rightarrow> bool" where
  "contains_secret_marker text = list_ex (contains (py_lower text)) SECRET_KEYS"

fun secret_text :: "jval \<Rightarrow> bool" where
  "secret_text (JStr s) = contains_secret_marker s"
| "secret_text _ = False"

fun is_list :: "jval \<Rightarrow> bool" where
  "is_list (JList xs) = True"
| "is_list _ = False"

fun list_or_empty :: "jval \<Rightarrow> jval list" where
  "list_or_empty (JList xs) = xs"
| "list_or_empty _ = []"

fun sanitize_public_secrets :: "jval \<Rightarrow> jval"
  and sanitize_items :: "jval list \<Rightarrow> jval list"
  and sanitize_pairs :: "(string \<times> jval) list \<Rightarrow> (string \<times> jval) list" where
  "sanitize_public_secrets (JObj d) = JObj (sanitize_pairs d)"
| "sanitize_public_secrets (JList xs) = JList (sanitize_items xs)"
| "sanitize_public_secrets (JStr s) = JStr (if contains_secret_marker s then PUBLIC_REDACTED else s)"
| "sanitize_public_secrets JNull = JNull"
| "sanitize_public_secrets (JBool b) = JBool b"
| "sanitize_public_secrets (JInt i) = JInt i"
| "sanitize_public_secrets (JFloat f) = JFloat f"
| "sanitize_items [] = []"
| "sanitize_items (x # xs) = (if secret_text x then sanitize_items xs else sanitize_public_secrets x # sanitize_items xs)"
| "sanitize_pairs [] = []"
| "sanitize_pairs ((k, v) # d) =
     (if contains_secret_marker k then sanitize_pairs d
      else (k, if k = ''required'' \<and> is_list v then JList (filter (\<lambda>x. \<not> secret_text x) (list_or_empty v))
               else sanitize_public_secrets v) # sanitize_pairs d)"

fun redact_secrets :: "jval \<Rightarrow> jval"
  and redact_items :: "jval list \<Rightarrow> jval list"
  and redact_pairs :: "(string \<times> jval) list \<Rightarrow> (string \<times> jval) list" where
  "redact_secrets (JObj d) = JObj (redact_pairs d)"
| "redact_secrets (JList xs) = JList (redact_items xs)"
| "redact_secrets (JStr s) = JStr s"
| "redact_secrets JNull = JNull"
| "redact_secrets (JBool b) = JBool b"
| "redact_secrets (JInt i) = JInt i"
| "redact_secrets (JFloat f) = JFloat f"
| "redact_items [] = []"
| "redact_items (x # xs) = redact_secrets x # redact_items xs"
| "redact_pairs [] = []"
| "redact_pairs ((k, v) # d) =
     (k, if contains_secret_marker k then JStr PROFILE_REDACTED else redact_secrets v) # redact_pairs d"

definition sanitize_profile_config_for_storage :: "jobj \<Rightarrow> jobj" where
  "sanitize_profile_config_for_storage config = obj_or_empty (redact_secrets (JObj config))"

section \<open>The boot record\<close>

record profile_overlay =
  po_runtime_profile_id :: jval
  po_revision :: jval
  po_config :: jobj
  po_applied_at :: string
  po_generated_config_hash :: string
  po_warnings :: "string list"
  po_updated_sections :: "string list"
  po_env_hash :: "string option"
  po_env_path :: "string option"
  po_git_auth_configured :: bool
  po_gh_host :: "string option"
  po_gh_config_dir :: "string option"
  po_git_askpass_path :: "string option"
  po_gitconfig_path :: "string option"
  po_atlassian_cli_configured :: bool
  po_atlassian_config_path :: "string option"
  po_atlassian_jira_instances :: int
  po_atlassian_confluence_instances :: int
  po_mobile_cli_configured :: bool
  po_mobile_config_path :: "string option"
  po_mobile_status :: jobj
  po_aws_configured :: bool
  po_vision_via_chat :: bool

text \<open>\<^verbatim>\<open>[str(x) for x in payload.get(key, []) if isinstance(x, str)]\<close>: a string is iterated by character, a
  dict by key, and what is not iterable raises.\<close>

fun text_items :: "jval \<Rightarrow> py_error + string list" where
  "text_items (JList xs) = Inr (concat (List.map (\<lambda>x. case x of JStr s \<Rightarrow> [s] | _ \<Rightarrow> []) xs))"
| "text_items (JStr s) = Inr (List.map (\<lambda>c. [c]) s)"
| "text_items (JObj d) = Inr (dkeys d)"
| "text_items _ = Inl TypeError"

definition overlay_texts :: "jobj \<Rightarrow> string \<Rightarrow> py_error + string list" where
  "overlay_texts payload key = text_items (jget_def payload key (JList []))"

definition overlay_text :: "jobj \<Rightarrow> string \<Rightarrow> string option" where
  "overlay_text payload key = (case jget payload key of JNull \<Rightarrow> None | v \<Rightarrow> Some (py_str v))"

text \<open>\<^verbatim>\<open>int(payload.get(key, 0) or 0)\<close>.\<close>

definition overlay_count :: "jobj \<Rightarrow> string \<Rightarrow> py_error + int" where
  "overlay_count payload key =
     (case py_or (jget payload key) (JInt 0) of
        JInt i \<Rightarrow> Inr i
      | JBool b \<Rightarrow> Inr (if b then 1 else 0)
      | JStr s \<Rightarrow> (case parse_int s of None \<Rightarrow> Inl ValueError | Some i \<Rightarrow> Inr i)
      | JFloat f \<Rightarrow> (case py_float (JFloat f) of Inl e \<Rightarrow> Inl e | Inr x \<Rightarrow> int_of_float x)
      | _ \<Rightarrow> Inl TypeError)"

definition overlay_of_payload :: "jobj \<Rightarrow> py_error + profile_overlay" where
  "overlay_of_payload payload =
     (case overlay_texts payload ''warnings'' of Inl e \<Rightarrow> Inl e
      | Inr warnings \<Rightarrow>
      (case overlay_texts payload ''updated_sections'' of Inl e \<Rightarrow> Inl e
      | Inr sections \<Rightarrow>
      (case overlay_count payload ''atlassian_jira_instances'' of Inl e \<Rightarrow> Inl e
      | Inr jira \<Rightarrow>
      (case overlay_count payload ''atlassian_confluence_instances'' of Inl e \<Rightarrow> Inl e
      | Inr confluence \<Rightarrow>
          Inr \<lparr>po_runtime_profile_id = jget payload ''runtime_profile_id'', po_revision = jget payload ''revision'',
            po_config = sanitize_profile_config_for_storage (obj_or_empty (jget payload ''config'')),
            po_applied_at = str_or_empty (jget payload ''applied_at''),
            po_generated_config_hash = str_or_empty (jget payload ''generated_config_hash''),
            po_warnings = warnings, po_updated_sections = sections,
            po_env_hash = overlay_text payload ''env_hash'', po_env_path = overlay_text payload ''env_path'',
            po_git_auth_configured = truthy (jget payload ''git_auth_configured''),
            po_gh_host = overlay_text payload ''gh_host'', po_gh_config_dir = overlay_text payload ''gh_config_dir'',
            po_git_askpass_path = overlay_text payload ''git_askpass_path'',
            po_gitconfig_path = overlay_text payload ''gitconfig_path'',
            po_atlassian_cli_configured = truthy (jget payload ''atlassian_cli_configured''),
            po_atlassian_config_path = overlay_text payload ''atlassian_config_path'',
            po_atlassian_jira_instances = jira, po_atlassian_confluence_instances = confluence,
            po_mobile_cli_configured = truthy (jget payload ''mobile_cli_configured''),
            po_mobile_config_path = overlay_text payload ''mobile_config_path'',
            po_mobile_status = obj_or_empty (jget payload ''mobile_status''),
            po_aws_configured = truthy (jget payload ''aws_configured''),
            po_vision_via_chat = truthy (jget_def payload ''vision_via_chat'' (JBool True))\<rparr>))))"

text \<open>A missing or unreadable file, or one that holds no object, is no record.\<close>

definition overlay_load :: "jfile option \<Rightarrow> py_error + profile_overlay option" where
  "overlay_load f =
     (case f of
        Some (JsonText (JObj payload)) \<Rightarrow>
          (case overlay_of_payload payload of Inl e \<Rightarrow> Inl e | Inr o' \<Rightarrow> Inr (Some o'))
      | _ \<Rightarrow> Inr None)"

definition opt_json :: "string option \<Rightarrow> jval" where
  "opt_json x = (case x of None \<Rightarrow> JNull | Some s \<Rightarrow> JStr s)"

definition overlay_asdict :: "profile_overlay \<Rightarrow> jobj" where
  "overlay_asdict o' =
     [(''runtime_profile_id'', po_runtime_profile_id o'), (''revision'', po_revision o'), (''config'', JObj (po_config o')),
      (''applied_at'', JStr (po_applied_at o')), (''generated_config_hash'', JStr (po_generated_config_hash o')),
      (''warnings'', JList (List.map JStr (po_warnings o'))),
      (''updated_sections'', JList (List.map JStr (po_updated_sections o'))),
      (''env_hash'', opt_json (po_env_hash o')), (''env_path'', opt_json (po_env_path o')),
      (''git_auth_configured'', JBool (po_git_auth_configured o')), (''gh_host'', opt_json (po_gh_host o')),
      (''gh_config_dir'', opt_json (po_gh_config_dir o')), (''git_askpass_path'', opt_json (po_git_askpass_path o')),
      (''gitconfig_path'', opt_json (po_gitconfig_path o')),
      (''atlassian_cli_configured'', JBool (po_atlassian_cli_configured o')),
      (''atlassian_config_path'', opt_json (po_atlassian_config_path o')),
      (''atlassian_jira_instances'', JInt (po_atlassian_jira_instances o')),
      (''atlassian_confluence_instances'', JInt (po_atlassian_confluence_instances o')),
      (''mobile_cli_configured'', JBool (po_mobile_cli_configured o')),
      (''mobile_config_path'', opt_json (po_mobile_config_path o')), (''mobile_status'', JObj (po_mobile_status o')),
      (''aws_configured'', JBool (po_aws_configured o')), (''vision_via_chat'', JBool (po_vision_via_chat o'))]"

definition overlay_save :: "profile_overlay \<Rightarrow> jfile" where
  "overlay_save o' =
     JsonText (JObj (AList.update ''config'' (JObj (sanitize_profile_config_for_storage (po_config o'))) (overlay_asdict o')))"

definition build_profile_status_payload :: "jfile option \<Rightarrow> py_error + jobj" where
  "build_profile_status_payload f =
     (case overlay_load f of
        Inl e \<Rightarrow> Inl e
      | Inr None \<Rightarrow> Inr [(''engine'', JStr ''opencode''), (''source'', JStr ''boot''), (''runtime_profile_id'', JNull),
                     (''revision'', JNull), (''warnings'', JList []), (''updated_sections'', JList [])]
      | Inr (Some o') \<Rightarrow>
          Inr [(''engine'', JStr ''opencode''), (''source'', JStr ''boot''),
               (''runtime_profile_id'', po_runtime_profile_id o'), (''revision'', po_revision o'),
               (''updated_sections'', JList (List.map JStr (po_updated_sections o'))),
               (''config_hash'', JStr (po_generated_config_hash o')), (''warnings'', JList (List.map JStr (po_warnings o'))),
               (''applied_at'', JStr (po_applied_at o')), (''env_hash'', opt_json (po_env_hash o')),
               (''env_path'', opt_json (po_env_path o')), (''git_auth_configured'', JBool (po_git_auth_configured o')),
               (''gh_host'', opt_json (po_gh_host o')), (''gh_config_dir'', opt_json (po_gh_config_dir o')),
               (''git_askpass_path'', opt_json (po_git_askpass_path o')),
               (''gitconfig_path'', opt_json (po_gitconfig_path o')),
               (''atlassian_cli_configured'', JBool (po_atlassian_cli_configured o')),
               (''atlassian_config_path'', opt_json (po_atlassian_config_path o')),
               (''atlassian_jira_instances'', JInt (po_atlassian_jira_instances o')),
               (''atlassian_confluence_instances'', JInt (po_atlassian_confluence_instances o')),
               (''mobile_cli_configured'', JBool (po_mobile_cli_configured o')),
               (''mobile_config_path'', opt_json (po_mobile_config_path o')),
               (''mobile_status'', JObj (po_mobile_status o')), (''aws_configured'', JBool (po_aws_configured o')),
               (''vision_via_chat'', JBool (po_vision_via_chat o'))])"

section \<open>What a sanitized value may hold\<close>

text \<open>No key, no text and no item of a list bears a secret's marker.\<close>

fun clean_value :: "jval \<Rightarrow> bool" where
  "clean_value (JObj d) = list_all (\<lambda>(k, v). \<not> contains_secret_marker k \<and> clean_value v) d"
| "clean_value (JList xs) = list_all clean_value xs"
| "clean_value (JStr s) = (\<not> contains_secret_marker s)"
| "clean_value _ = True"

text \<open>The lists under a key \<open>required\<close> (as JSON schemas have them) hold scalars only.\<close>

fun scalar :: "jval \<Rightarrow> bool" where
  "scalar (JObj d) = False"
| "scalar (JList xs) = False"
| "scalar _ = True"

fun flat_required :: "jval \<Rightarrow> bool" where
  "flat_required (JObj d) = list_all (\<lambda>(k, v). (k = ''required'' \<longrightarrow> list_all scalar (list_or_empty v)) \<and> flat_required v) d"
| "flat_required (JList xs) = list_all flat_required xs"
| "flat_required _ = True"

lemma redacted_clean: "\<not> contains_secret_marker PUBLIC_REDACTED"
  by code_simp

lemma scalar_clean: "scalar x \<Longrightarrow> \<not> secret_text x \<Longrightarrow> clean_value x"
  by (cases x) auto

lemma published_clean:
  "flat_required v \<Longrightarrow> clean_value (sanitize_public_secrets v)"
  "list_all flat_required xs \<Longrightarrow> list_all clean_value (sanitize_items xs)"
  "list_all (\<lambda>(k, v). (k = ''required'' \<longrightarrow> list_all scalar (list_or_empty v)) \<and> flat_required v) d
     \<Longrightarrow> list_all (\<lambda>(k, v). \<not> contains_secret_marker k \<and> clean_value v) (sanitize_pairs d)"
proof (induction v and xs and d rule: sanitize_public_secrets_sanitize_items_sanitize_pairs.induct)
  case (3 s)
  then show ?case by (simp add: redacted_clean)
next
  case (11 k v d)
  then show ?case
    by (auto simp: list_all_iff intro: scalar_clean)
qed auto

lemma clean_sanitized:
  "clean_value v \<Longrightarrow> sanitize_public_secrets v = v"
  "list_all clean_value xs \<Longrightarrow> sanitize_items xs = xs"
  "list_all (\<lambda>(k, v). \<not> contains_secret_marker k \<and> clean_value v) d \<Longrightarrow> sanitize_pairs d = d"
proof (induction v and xs and d rule: sanitize_public_secrets_sanitize_items_sanitize_pairs.induct)
  case (9 x xs)
  then show ?case by (cases x) auto
next
  case (11 k v d)
  have "\<not> secret_text x" if "clean_value x" for x using that by (cases x) auto
  then have "filter (\<lambda>x. \<not> secret_text x) xs = xs" if "v = JList xs" for xs
    using 11(4) that by (intro filter_True) (auto simp: list_all_iff)
  with 11 show ?case by (cases v) auto
qed auto

text \<open>C34: What the adapter publishes about a value shows no secret: no key and no text in it bears one of the
  markers, as long as the lists under a key \<open>required\<close> hold scalars; publishing it again changes nothing.\<close>

theorem published_values_are_clean:
  assumes "flat_required v"
  shows "clean_value (sanitize_public_secrets v)
    \<and> sanitize_public_secrets (sanitize_public_secrets v) = sanitize_public_secrets v"
  using published_clean(1) [OF assms] clean_sanitized(1) by simp

lemma sample_flat: "flat_required (JObj [(''Api_Key'', JStr ''k''), (''note'', JStr ''my Password''),
    (''required'', JList [JStr ''token'', JStr ''id''])])"
  by simp

theorem published_values_are_clean_witness:
  "clean_value (sanitize_public_secrets (JObj [(''Api_Key'', JStr ''k''), (''note'', JStr ''my Password''),
     (''required'', JList [JStr ''token'', JStr ''id''])]))"
  using published_values_are_clean [OF sample_flat] by simp

text \<open>An object inside a list under the key \<open>required\<close> is published as it is.\<close>

theorem required_lists_leak:
  "sanitize_public_secrets (JObj [(''required'', JList [JObj [(''password'', JStr ''hunter2'')]])])
     = JObj [(''required'', JList [JObj [(''password'', JStr ''hunter2'')]])]"
  by code_simp

lemma redacted_again:
  "redact_secrets (redact_secrets v) = redact_secrets v"
  "redact_items (redact_items xs) = redact_items xs"
  "redact_pairs (redact_pairs d) = redact_pairs d"
  by (induction v and xs and d rule: redact_secrets_redact_items_redact_pairs.induct) auto

lemma redacted_config: "sanitize_profile_config_for_storage (sanitize_profile_config_for_storage c)
    = sanitize_profile_config_for_storage c"
  by (simp add: sanitize_profile_config_for_storage_def redacted_again)

lemma saved_texts: "text_items (JList (List.map JStr xs)) = Inr xs"
  by (induction xs) auto

lemma saved_count: "map_of d key = Some (JInt i) \<Longrightarrow> overlay_count d key = Inr i"
  by (simp add: overlay_count_def jget_def py_or_def)

lemma saved_option: "(case opt_json x of JNull \<Rightarrow> None | v \<Rightarrow> Some (py_str v)) = x"
  by (cases x) (auto simp: opt_json_def)

text \<open>The boot record reads back as it was saved, with the profile's secrets blacked out, and the status
  page shows that record.\<close>

theorem overlay_reads_back:
  "overlay_load (Some (overlay_save o')) = Inr (Some (o'\<lparr>po_config := sanitize_profile_config_for_storage (po_config o')\<rparr>))"
  by (cases o') (simp add: overlay_load_def overlay_save_def overlay_asdict_def overlay_of_payload_def overlay_texts_def
      saved_texts saved_count overlay_text_def saved_option redacted_config del: text_items.simps)

end
