(* ===== verification/TraceContext.thy ===== *)
theory TraceContext
  imports ThinkingEvents ProfileStore
begin

text \<open>
  \<^verbatim>\<open>trace_context.py\<close>: the identifiers every published event carries. The one attribute of the settings that is
  read is an argument (empty for \<^verbatim>\<open>None\<close>). An event and its data hold the same trace dict; here each holds its
  value, and later updates are made to both.
\<close>

definition TRACE_KEYS :: "string list" where
  "TRACE_KEYS = [''engine'', ''runtime_type'', ''agent_id'', ''request_id'', ''session_id'', ''task_id'',
     ''opencode_session_id'', ''tool_name'', ''tool_source'', ''skill_name'', ''profile_version'', ''runtime_profile_id'',
     ''group_id'', ''coordination_run_id'', ''model'', ''provider'', ''trace_id'']"

definition san_value :: "jval \<Rightarrow> nat \<Rightarrow> jval" where
  "san_value v n = safe_preview (sanitize_public_secrets v) n"

text \<open>\<^verbatim>\<open>_s\<close>: the redacted text of a value, none for \<^verbatim>\<open>None\<close>.\<close>

definition trace_text :: "jval \<Rightarrow> string" where
  "trace_text v =
     (case san_value (JStr (case v of JNull \<Rightarrow> [] | _ \<Rightarrow> py_str v)) 300 of JStr s \<Rightarrow> s | _ \<Rightarrow> [])"

record trace_args =
  ta_request_id :: jval
  ta_session_id :: jval
  ta_task_id :: jval
  ta_opencode_session_id :: jval
  ta_tool_name :: jval
  ta_tool_source :: jval
  ta_skill_name :: jval
  ta_profile_version :: jval
  ta_runtime_profile_id :: jval
  ta_group_id :: jval
  ta_coordination_run_id :: jval
  ta_model :: jval
  ta_provider :: jval

definition no_trace :: trace_args where
  "no_trace = \<lparr>ta_request_id = JStr [], ta_session_id = JStr [], ta_task_id = JStr [], ta_opencode_session_id = JStr [],
     ta_tool_name = JStr [], ta_tool_source = JStr [], ta_skill_name = JStr [], ta_profile_version = JStr [],
     ta_runtime_profile_id = JStr [], ta_group_id = JStr [], ta_coordination_run_id = JStr [], ta_model = JStr [],
     ta_provider = JStr []\<rparr>"

definition build_trace_context :: "string \<Rightarrow> trace_args \<Rightarrow> jobj" where
  "build_trace_context agent_id a =
     (let t = (\<lambda>v. JStr (trace_text v));
          trace_id = py_or (ta_request_id a) (py_or (ta_task_id a) (py_or (ta_session_id a)
                       (py_or (ta_opencode_session_id a) (JStr []))))
      in [(''engine'', JStr ''opencode''), (''runtime_type'', JStr ''opencode''), (''agent_id'', t (JStr agent_id)),
          (''request_id'', t (ta_request_id a)), (''session_id'', t (ta_session_id a)), (''task_id'', t (ta_task_id a)),
          (''opencode_session_id'', t (ta_opencode_session_id a)), (''tool_name'', t (ta_tool_name a)),
          (''tool_source'', t (ta_tool_source a)), (''skill_name'', t (ta_skill_name a)),
          (''profile_version'', t (ta_profile_version a)), (''runtime_profile_id'', t (ta_runtime_profile_id a)),
          (''group_id'', t (ta_group_id a)), (''coordination_run_id'', t (ta_coordination_run_id a)),
          (''model'', t (ta_model a)), (''provider'', t (ta_provider a)), (''trace_id'', t trace_id)])"

definition own_trace_key :: "jobj \<Rightarrow> string \<Rightarrow> jobj \<Rightarrow> jobj" where
  "own_trace_key tc key event =
     AList.update key (if jhas event key then JStr (trace_text (jget event key)) else jget_def tc key (JStr [])) event"

definition kept_trace_key :: "jobj \<Rightarrow> string \<Rightarrow> jobj \<Rightarrow> jobj" where
  "kept_trace_key tc key event =
     AList.update key (case jget event key of
         JStr s \<Rightarrow> if s \<noteq> [] then JStr (trace_text (JStr s)) else jget_def tc key (JStr [])
       | _ \<Rightarrow> jget_def tc key (JStr [])) event"

definition add_trace_context :: "jobj \<Rightarrow> jobj \<Rightarrow> jobj" where
  "add_trace_context event trace_context =
     (let tc = List.map (\<lambda>k. (k, JStr (trace_text (jget_def trace_context k (JStr []))))) TRACE_KEYS;
          event1 = AList.update ''trace_context'' (JObj tc) event;
          data = obj_or_empty (case jget event1 ''data'' of JObj d \<Rightarrow> san_value (JObj d) 500 | _ \<Rightarrow> JNull);
          event2 = AList.update ''data'' (JObj (AList.update ''trace_context'' (JObj tc) data)) event1
      in fold (kept_trace_key tc) [''request_id'', ''session_id'', ''task_id'']
           (fold (own_trace_key tc) [''agent_id'', ''group_id'', ''coordination_run_id'', ''runtime_type'', ''trace_id'']
             event2))"

definition profile_version_from_metadata :: "jobj \<Rightarrow> jobj \<Rightarrow> string \<times> string" where
  "profile_version_from_metadata metadata runtime_profile =
     (let profile_id = py_or (jget metadata ''runtime_profile_id'') (py_or (jget runtime_profile ''runtime_profile_id'')
                         (py_or (jget runtime_profile ''id'') (JStr [])));
          version = py_or (jget metadata ''runtime_profile_revision'') (py_or (jget metadata ''profile_revision'')
                      (py_or (jget runtime_profile ''revision'') (py_or (jget runtime_profile ''version'') (JStr []))))
      in (trace_text version, trace_text profile_id))"

text \<open>Sanitizing an object leaves an object, and a text a text.\<close>

lemma san_value_obj: "\<exists>e. san_value (JObj d) n = JObj e"
  by (simp add: san_value_def)

lemma san_value_str: "\<exists>t. san_value (JStr s) n = JStr t"
  by (simp add: san_value_def)

lemma trace_key_other:
  "k \<noteq> key \<Longrightarrow> jget (own_trace_key tc key event) k = jget event k"
  "k \<noteq> key \<Longrightarrow> jget (kept_trace_key tc key event) k = jget event k"
  by (simp_all add: own_trace_key_def kept_trace_key_def)

lemma add_trace_other:
  assumes "k \<notin> {''trace_context'', ''data'', ''request_id'', ''session_id'', ''task_id'', ''agent_id'', ''group_id'',
      ''coordination_run_id'', ''runtime_type'', ''trace_id''}"
  shows "jget (add_trace_context event tc) k = jget event k"
  using assms by (auto simp: add_trace_context_def Let_def trace_key_other)

lemma add_trace_data: "\<exists>d. jget (add_trace_context event tc) ''data'' = JObj d"
  by (simp add: add_trace_context_def Let_def trace_key_other)

end
