(* ===== verification/MessageAdapter.thy ===== *)
theory MessageAdapter
  imports ThinkingEvents
begin

text \<open>
  \<^verbatim>\<open>opencode_message_adapter.py\<close>: reading OpenCode's messages (their role, id, visible text and time), deciding
  from a run's messages whether the assistant has finished, and the message the Portal shows. Messages are JSON
  values of either of OpenCode's shapes; \<open>None\<close> of a set of excluded ids is the empty list.
\<close>

lemma jget_smaller:
  assumes "jget d k = JObj e"
  shows "size (JObj e) < size (JObj d)"
proof -
  from assms have "map_of d k = Some (JObj e)" by (auto simp: jget_def split: option.splits)
  then show ?thesis by (induction d) (auto split: if_splits)
qed

section \<open>Fields of a message\<close>

function (sequential) message_role :: "jval \<Rightarrow> string" where
  "message_role (JObj d) =
     (case jget (obj_or_empty (jget d ''info'')) ''role'' of JStr r \<Rightarrow> r
      | _ \<Rightarrow> (case jget d ''role'' of JStr r \<Rightarrow> r
          | _ \<Rightarrow> (case jget d ''message'' of JObj e \<Rightarrow> message_role (JObj e) | _ \<Rightarrow> [])))"
| "message_role _ = []"
  by pat_completeness auto
termination by (relation "measure size") (auto simp: jget_smaller simp del: jval.size)

text \<open>The first truthy of some fields, as text.\<close>

definition first_truthy :: "jobj \<Rightarrow> string list \<Rightarrow> string option" where
  "first_truthy d keys = map_option (\<lambda>k. py_str (jget d k)) (find (\<lambda>k. truthy (jget d k)) keys)"

function (sequential) message_id :: "jval \<Rightarrow> string" where
  "message_id (JObj d) =
     (case first_truthy (obj_or_empty (jget d ''info'')) [''id''] of Some i \<Rightarrow> i
      | None \<Rightarrow> (case first_truthy d [''id'', ''message_id''] of Some i \<Rightarrow> i
          | None \<Rightarrow> (case jget d ''message'' of JObj e \<Rightarrow> message_id (JObj e) | _ \<Rightarrow> [])))"
| "message_id _ = []"
  by pat_completeness auto
termination by (relation "measure size") (auto simp: jget_smaller simp del: jval.size)

definition visible_part :: "bool \<Rightarrow> jval \<Rightarrow> string list" where
  "visible_part include_synthetic part =
     (case part of
        JObj d \<Rightarrow>
          if jget d ''ignored'' = JBool True then []
          else if jget d ''synthetic'' = JBool True \<and> \<not> include_synthetic then []
          else (case jget d ''text'' of
                  JStr t \<Rightarrow> if jget d ''type'' = JStr ''text'' \<and> py_strip t \<noteq> [] then [t] else []
                | _ \<Rightarrow> [])
      | JStr s \<Rightarrow> [s]
      | _ \<Rightarrow> [])"

definition extract_visible_text_from_parts :: "jval \<Rightarrow> bool \<Rightarrow> string" where
  "extract_visible_text_from_parts parts include_synthetic =
     (case parts of
        JList ps \<Rightarrow> py_strip (join_with [CHR 0x0A] (concat (List.map (visible_part include_synthetic) ps)))
      | _ \<Rightarrow> [])"

definition first_text_field :: "jobj \<Rightarrow> string list \<Rightarrow> string option" where
  "first_text_field d keys =
     find (\<lambda>s. s \<noteq> []) (concat (List.map (\<lambda>k. case jget d k of JStr s \<Rightarrow> [s] | _ \<Rightarrow> []) keys))"

definition TEXT_FIELDS :: "string list" where
  "TEXT_FIELDS = [''content'', ''text'', ''response'']"

definition message_to_visible_text :: "jval \<Rightarrow> string" where
  "message_to_visible_text message =
     (case message of
        JStr s \<Rightarrow> s
      | JObj d \<Rightarrow>
          (let nested = obj_or_empty (jget d ''message'') in
           case jget d ''parts'' of JList ps \<Rightarrow> extract_visible_text_from_parts (JList ps) False
           | _ \<Rightarrow>
           (case jget nested ''parts'' of JList ps \<Rightarrow> extract_visible_text_from_parts (JList ps) False
           | _ \<Rightarrow>
           (case first_text_field d TEXT_FIELDS of Some s \<Rightarrow> s
            | None \<Rightarrow> (case first_text_field nested TEXT_FIELDS of Some s \<Rightarrow> s | None \<Rightarrow> []))))
      | _ \<Rightarrow> [])"

section \<open>Times\<close>

text \<open>\<^verbatim>\<open>datetime.fromtimestamp(seconds, UTC)\<close>: the fraction of a double is rounded to microseconds in double
  precision; a year that is not between 1 and 9999 raises (\<^verbatim>\<open>ValueError\<close> stands for every error of the range).\<close>

definition year_bounded :: "int \<Rightarrow> py_error + int" where
  "year_bounded us = (if - 62135596800000000 \<le> us \<and> us < 253402300800000000 then Inr us else Inl ValueError)"

fun from_timestamp :: "ffloat \<Rightarrow> py_error + int" where
  "from_timestamp (FFin r) =
     (let whole = (if 0 \<le> r then \<lfloor>r\<rfloor> else - \<lfloor>- r\<rfloor>); frac = r - of_int whole
      in case to_double (frac * 1000000) of None \<Rightarrow> Inl OverflowError
         | Some f \<Rightarrow> year_bounded (whole * 1000000 + round_half_even f))"
| "from_timestamp (FInf _) = Inl OverflowError"
| "from_timestamp FNaN = Inl ValueError"

definition ff_gt :: "ffloat \<Rightarrow> rat \<Rightarrow> bool" where
  "ff_gt f q = (case f of FFin r \<Rightarrow> q < r | FInf neg \<Rightarrow> \<not> neg | FNaN \<Rightarrow> False)"

definition milliseconds :: "ffloat \<Rightarrow> py_error + ffloat" where
  "milliseconds f = (case f of
     FFin r \<Rightarrow> (case to_double (r / 1000) of None \<Rightarrow> Inl OverflowError | Some x \<Rightarrow> Inr (FFin x))
   | _ \<Rightarrow> Inr f)"

text \<open>An integer is compared and divided exactly; the quotient of two integers is the double nearest to it.\<close>

definition as_iso :: "jval \<Rightarrow> py_error + string" where
  "as_iso value =
     (let instant = (\<lambda>f. case f of Inl e \<Rightarrow> Inl e
                         | Inr x \<Rightarrow> (case from_timestamp x of Inl e \<Rightarrow> Inl e | Inr us \<Rightarrow> Inr (utc_iso us)))
      in case value of
        JStr s \<Rightarrow> Inr s
      | JBool b \<Rightarrow> instant (Inr (FFin (if b then 1 else 0)))
      | JInt i \<Rightarrow> if i > 1000000000000 then instant (milliseconds (FFin (of_int i))) else instant (Inr (FFin (of_int i)))
      | JFloat f \<Rightarrow>
          (case py_float (JFloat f) of Inl e \<Rightarrow> Inl e
           | Inr x \<Rightarrow> instant (if ff_gt x 1000000000000 then milliseconds x else Inr x))
      | _ \<Rightarrow> Inr [])"

text \<open>The first of some fields that reads as a time; the fields are read in order until then.\<close>

fun first_iso :: "jval list \<Rightarrow> py_error + string" where
  "first_iso [] = Inr []"
| "first_iso (v # vs) =
     (case as_iso v of Inl e \<Rightarrow> Inl e | Inr t \<Rightarrow> if t \<noteq> [] then Inr t else first_iso vs)"

definition info_times :: "jval \<Rightarrow> jval list" where
  "info_times m =
     (case m of
        JObj d \<Rightarrow>
          (case jget (obj_or_empty (jget d ''info'')) ''time'' of
             JObj t \<Rightarrow> [jget t ''created'', jget t ''completed'', jget t ''updated'']
           | _ \<Rightarrow> [])
      | _ \<Rightarrow> [])"

definition timestamp_from_message :: "jval \<Rightarrow> py_error + string" where
  "timestamp_from_message message =
     (case message of
        JObj d \<Rightarrow> first_iso ([jget d ''timestamp'', jget d ''created_at'', jget d ''updated_at'']
                     @ info_times message @ info_times (jget d ''message''))
      | _ \<Rightarrow> Inr [])"

function (sequential) opencode_session_id_from_message :: "jval \<Rightarrow> string" where
  "opencode_session_id_from_message (JObj d) =
     (case first_truthy d [''session_id'', ''sessionID''] of Some s \<Rightarrow> s
      | None \<Rightarrow> (case first_truthy (obj_or_empty (jget d ''info'')) [''session_id'', ''sessionID''] of Some s \<Rightarrow> s
          | None \<Rightarrow> (case jget d ''message'' of JObj e \<Rightarrow> opencode_session_id_from_message (JObj e) | _ \<Rightarrow> [])))"
| "opencode_session_id_from_message _ = []"
  by pat_completeness auto
termination by (relation "measure size") (auto simp: jget_smaller simp del: jval.size)

section \<open>The messages of a payload\<close>

definition with_nested :: "jobj \<Rightarrow> jval list" where
  "with_nested d = JObj d # (case jget d ''message'' of JObj e \<Rightarrow> [JObj e] | _ \<Rightarrow> [])"

definition list_messages :: "jval \<Rightarrow> jval list" where
  "list_messages v =
     (case v of JList xs \<Rightarrow> concat (List.map (\<lambda>x. case x of JObj d \<Rightarrow> with_nested d | _ \<Rightarrow> []) xs) | _ \<Rightarrow> [])"

definition iter_messages :: "jval \<Rightarrow> jval list" where
  "iter_messages payload =
     (case payload of
        JObj d \<Rightarrow> with_nested d @ list_messages (jget d ''messages'') @ list_messages (jget d ''data'')
      | _ \<Rightarrow> list_messages payload)"

fun fresh_ids :: "string list \<Rightarrow> string list \<Rightarrow> string list" where
  "fresh_ids seen [] = []"
| "fresh_ids seen (i # is) = (if i = [] \<or> i \<in> set seen then fresh_ids seen is else i # fresh_ids (i # seen) is)"

definition is_assistant :: "jval \<Rightarrow> bool" where
  "is_assistant m = (py_lower (message_role m) = ''assistant'')"

definition extract_assistant_message_ids :: "jval \<Rightarrow> string list \<Rightarrow> string list" where
  "extract_assistant_message_ids payload exclude =
     fresh_ids exclude (List.map message_id (filter is_assistant (iter_messages payload)))"

definition extract_last_assistant_visible_text :: "jval \<Rightarrow> string" where
  "extract_last_assistant_visible_text payload =
     (case find (\<lambda>t. t \<noteq> []) (List.map message_to_visible_text (rev (filter is_assistant (iter_messages payload)))) of
        Some t \<Rightarrow> t | None \<Rightarrow> [])"

section \<open>Whether a message ends the run\<close>

text \<open>\<^verbatim>\<open>^\s*phrase\b\<close> on a stripped text, case aside; the last pattern asks for a second phrase on the same line.\<close>

definition phrase_at :: "string \<Rightarrow> string \<Rightarrow> bool" where
  "phrase_at phrase s =
     (startswith (py_lower s) phrase \<and> (case drop (length phrase) s of [] \<Rightarrow> True | c # _ \<Rightarrow> \<not> is_word c))"

fun phrase_in_line :: "string \<Rightarrow> char \<Rightarrow> string \<Rightarrow> bool" where
  "phrase_in_line phrase prev [] = False"
| "phrase_in_line phrase prev (c # s) =
     ((\<not> is_word prev \<and> phrase_at phrase (c # s)) \<or> (c \<noteq> CHR 0x0A \<and> phrase_in_line phrase c s))"

definition PROGRESS_PHRASES :: "string list" where
  "PROGRESS_PHRASES = [''i am fetching'', ''i'm fetching'', ''im fetching'', ''i am retrieving'',
     ''i am reading'', ''let me fetch'', ''let me retrieve'']"

definition is_progress_only_assistant_text :: "string \<Rightarrow> bool" where
  "is_progress_only_assistant_text text =
     (let s = py_strip text in
      s \<noteq> [] \<and> (list_ex (\<lambda>p. phrase_at p s) PROGRESS_PHRASES
        \<or> (phrase_at ''i will summarize'' s
           \<and> phrase_in_line ''once i have'' (CHR ''e'') (drop (length ''i will summarize'') s))))"

text \<open>What the parts of a message say about its tools.\<close>

record tool_state =
  ts_pending_tool :: bool
  ts_pending_permission :: bool
  ts_error :: bool
  ts_summary :: string

definition PENDING_STATES :: "string list" where
  "PENDING_STATES = [[], ''pending'', ''running'', ''started'', ''queued'', ''created'', ''requested'', ''open'']"

definition DONE_STATES :: "string list" where
  "DONE_STATES = [''completed'', ''complete'', ''done'', ''success'', ''resolved'']"

definition ERROR_STATES :: "string list" where
  "ERROR_STATES = [''failed'', ''error'', ''rejected'', ''denied'']"

definition part_status :: "jobj \<Rightarrow> string" where
  "part_status part = py_lower (str_or_empty (py_or (jget part ''status'') (jget part ''state'')))"

definition read_part :: "jval \<Rightarrow> tool_state \<Rightarrow> tool_state" where
  "read_part v st =
     (case v of
        JObj part \<Rightarrow>
          (let ptype = py_lower (str_or_empty (jget part ''type'')); status = part_status part;
               is_permission = contains ptype ''permission'';
               is_tool = (ptype = ''function_call'' \<or> contains ptype ''tool'') in
           if \<not> is_tool \<and> \<not> is_permission then st
           else if status \<in> set ERROR_STATES
           then st\<lparr>ts_error := True,
                   ts_summary := (if ts_summary st \<noteq> [] then ts_summary st
                     else py_str (py_or (jget part ''error'') (py_or (jget part ''message'') (JStr status))))\<rparr>
           else if status \<in> set DONE_STATES then st
           else if is_permission \<and> status \<in> set PENDING_STATES then st\<lparr>ts_pending_permission := True\<rparr>
           else if status \<in> set PENDING_STATES \<or> (is_tool \<and> \<not> truthy (jget part ''result'') \<and> \<not> truthy (jget part ''output''))
           then st\<lparr>ts_pending_tool := True\<rparr>
           else st)
      | _ \<Rightarrow> st)"

definition message_parts :: "jobj \<Rightarrow> jobj \<Rightarrow> jval list" where
  "message_parts msg nested =
     (case jget msg ''parts'' of JList ps \<Rightarrow> ps
      | _ \<Rightarrow> (case jget nested ''parts'' of JList ps \<Rightarrow> ps | _ \<Rightarrow> []))"

definition FINISH_FIELDS :: "string list" where
  "FINISH_FIELDS = [''finish_reason'', ''finish'', ''stop_reason'', ''reason'']"

definition finish_reason_of :: "jobj \<Rightarrow> jobj \<Rightarrow> string" where
  "finish_reason_of msg nested =
     (case find (\<lambda>s. py_strip s \<noteq> [])
             (concat (List.map (\<lambda>d. concat (List.map (\<lambda>k. case jget d k of JStr s \<Rightarrow> [s] | _ \<Rightarrow> []) FINISH_FIELDS))
               [msg, nested, obj_or_empty (jget msg ''info''), obj_or_empty (jget nested ''info'')])) of
        Some s \<Rightarrow> py_lower (py_strip s) | None \<Rightarrow> [])"

record message_state =
  ms_message_id :: string
  ms_role :: string
  ms_text :: string
  ms_tools :: tool_state
  ms_finish_reason :: string
  ms_progress_only :: bool
  ms_terminal :: bool
  ms_empty_final :: bool

definition UNFINISHED_REASONS :: "string list" where
  "UNFINISHED_REASONS = [''tool_use'', ''tool_calls'', ''tool-call'', ''function_call'', ''continue'']"

definition FINAL_REASONS :: "string list" where
  "FINAL_REASONS = [''stop'', ''end'', ''done'', ''complete'', ''completed'', ''success'']"

definition summarize_message_runtime_state :: "jval \<Rightarrow> message_state" where
  "summarize_message_runtime_state message =
     (let msg = obj_or_empty message; nested = obj_or_empty (jget msg ''message'');
          role = py_lower (message_role (JObj msg)); text = message_to_visible_text (JObj msg);
          finish_reason = finish_reason_of msg nested;
          tools = fold read_part (message_parts msg nested)
                    \<lparr>ts_pending_tool = False, ts_pending_permission = False, ts_error = False, ts_summary = []\<rparr>;
          settled = (\<not> ts_pending_tool tools \<and> \<not> ts_pending_permission tools \<and> \<not> ts_error tools);
          progress_only = is_progress_only_assistant_text text
      in \<lparr>ms_message_id = message_id (JObj msg), ms_role = role, ms_text = text, ms_tools = tools,
          ms_finish_reason = finish_reason, ms_progress_only = progress_only,
          ms_terminal = (role = ''assistant'' \<and> text \<noteq> [] \<and> \<not> progress_only \<and> settled
                         \<and> finish_reason \<notin> set UNFINISHED_REASONS),
          ms_empty_final = (role = ''assistant'' \<and> text = [] \<and> settled \<and> finish_reason \<in> set FINAL_REASONS)\<rparr>)"

text \<open>The dict the code returns for a state.\<close>

definition state_payload :: "message_state \<Rightarrow> jobj" where
  "state_payload s =
     [(''message_id'', JStr (ms_message_id s)), (''role'', JStr (ms_role s)), (''text'', JStr (ms_text s)),
      (''has_visible_text'', JBool (ms_text s \<noteq> [])), (''has_pending_tool'', JBool (ts_pending_tool (ms_tools s))),
      (''has_tool_error'', JBool (ts_error (ms_tools s))),
      (''has_pending_permission'', JBool (ts_pending_permission (ms_tools s))),
      (''finish_reason'', JStr (ms_finish_reason s)), (''progress_only'', JBool (ms_progress_only s)),
      (''terminal'', JBool (ms_terminal s)), (''empty_final'', JBool (ms_empty_final s)),
      (''error_summary'', JStr (ts_summary (ms_tools s)))]"

definition not_excluded :: "string list \<Rightarrow> message_state \<Rightarrow> bool" where
  "not_excluded exclude s = (ms_message_id s = [] \<or> ms_message_id s \<notin> set exclude)"

definition extract_terminal_assistant_visible_text :: "jval \<Rightarrow> string list \<Rightarrow> string" where
  "extract_terminal_assistant_visible_text payload exclude =
     (case find (\<lambda>s. not_excluded exclude s \<and> ms_terminal s)
             (List.map summarize_message_runtime_state (rev (filter is_assistant (iter_messages payload)))) of
        Some s \<Rightarrow> ms_text s | None \<Rightarrow> [])"

section \<open>How a run stands\<close>

record completion =
  cm_text :: string
  cm_message_id :: string
  cm_state :: string
  cm_reason :: string
  cm_diagnostics :: jobj

definition assistant_states :: "jval \<Rightarrow> string list \<Rightarrow> message_state list" where
  "assistant_states payload exclude =
     filter (\<lambda>s. ms_role s = ''assistant'' \<and> not_excluded exclude s)
       (List.map summarize_message_runtime_state (iter_messages payload))"

definition found_state :: "string \<Rightarrow> string \<Rightarrow> string \<Rightarrow> message_state \<Rightarrow> completion" where
  "found_state text state reason s =
     \<lparr>cm_text = text, cm_message_id = ms_message_id s, cm_state = state, cm_reason = reason, cm_diagnostics = state_payload s\<rparr>"

text \<open>The latest state of the first of the kinds, in the order of the code's loops.\<close>

definition find_latest_assistant_completion :: "jval \<Rightarrow> string list \<Rightarrow> completion" where
  "find_latest_assistant_completion payload exclude =
     (let states = assistant_states payload exclude; latest = (\<lambda>P. find P (rev states)) in
      case latest ms_terminal of Some s \<Rightarrow> found_state (ms_text s) ''completed'' ''terminal_assistant_message'' s
      | None \<Rightarrow>
      (case latest (\<lambda>s. ts_pending_permission (ms_tools s)) of Some s \<Rightarrow> found_state [] ''blocked'' ''pending_permission'' s
      | None \<Rightarrow>
      (case latest (\<lambda>s. ts_error (ms_tools s)) of Some s \<Rightarrow> found_state [] ''error'' ''tool_error'' s
      | None \<Rightarrow>
      (case latest ms_empty_final of Some s \<Rightarrow> found_state [] ''empty_final'' ''empty_final_assistant_text'' s
      | None \<Rightarrow>
      (case latest (\<lambda>s. ts_pending_tool (ms_tools s) \<or> ms_progress_only s) of
         Some s \<Rightarrow> found_state [] ''pending'' ''assistant_in_progress'' s
      | None \<Rightarrow> \<lparr>cm_text = [], cm_message_id = [], cm_state = ''incomplete'', cm_reason = ''no_terminal_assistant_message'',
                  cm_diagnostics = [(''states_seen'', JInt (int (length states)))]\<rparr>)))))"

section \<open>The Portal's message\<close>

definition bump :: "string \<Rightarrow> (string \<times> int) list \<Rightarrow> (string \<times> int) list" where
  "bump k d = AList.update k ((case map_of d k of None \<Rightarrow> 0 | Some n \<Rightarrow> n) + 1) d"

definition parts_summary :: "jval list \<Rightarrow> (string \<times> int) list" where
  "parts_summary parts =
     fold (\<lambda>v. case v of JObj p \<Rightarrow> bump (py_str (py_or (jget p ''type'') (JStr ''unknown''))) | _ \<Rightarrow> id) parts []"

definition efp_parts :: "jobj \<Rightarrow> jval list" where
  "efp_parts d =
     (let parts = (case jget d ''parts'' of JList ps \<Rightarrow> ps | _ \<Rightarrow> []) in
      if parts \<noteq> [] then parts
      else (case jget (obj_or_empty (jget d ''message'')) ''parts'' of JList ps \<Rightarrow> ps | _ \<Rightarrow> []))"

definition to_efp_message :: "jobj \<Rightarrow> int option \<Rightarrow> py_error + jobj" where
  "to_efp_message message index =
     (let mid = message_id (JObj message);
          out_id = (if mid \<noteq> [] then mid else case index of None \<Rightarrow> [] | Some i \<Rightarrow> if i = 0 then [] else int_text i);
          role = message_role (JObj message)
      in case timestamp_from_message (JObj message) of Inl e \<Rightarrow> Inl e
         | Inr stamp \<Rightarrow>
             Inr [(''id'', JStr out_id), (''role'', JStr (if role = [] then ''unknown'' else role)),
                  (''content'', JStr (message_to_visible_text (JObj message))), (''timestamp'', JStr stamp),
                  (''metadata'', JObj [(''opencode_message_id'', JStr out_id),
                     (''opencode_session_id'', JStr (opencode_session_id_from_message (JObj message))),
                     (''parts_summary'', JObj (List.map (\<lambda>(k, n). (k, JInt n)) (parts_summary (efp_parts message))))])])"

section \<open>Properties\<close>

lemma find_filter: "find P xs = (case filter P xs of [] \<Rightarrow> None | x # _ \<Rightarrow> Some x)"
  by (induction xs) auto

lemma find_rev_last: "find P (rev xs) = (if filter P xs = [] then None else Some (last (filter P xs)))"
proof (cases "filter P xs" rule: rev_cases)
  case (snoc ys y)
  then show ?thesis by (simp add: find_filter rev_filter [symmetric])
qed (simp add: find_filter rev_filter [symmetric])

lemma iter_messages_objects: "m \<in> set (iter_messages payload) \<Longrightarrow> \<exists>d. m = JObj d"
  by (auto simp: iter_messages_def list_messages_def with_nested_def split: jval.splits if_splits)

lemma summarized_assistants:
  "filter (\<lambda>s. not_excluded exclude s \<and> ms_terminal s) (List.map summarize_message_runtime_state (filter is_assistant (iter_messages payload)))
     = filter ms_terminal (assistant_states payload exclude)"
proof -
  have "ms_role (summarize_message_runtime_state m) = ''assistant'' \<longleftrightarrow> is_assistant m" if "m \<in> set (iter_messages payload)" for m
    using iter_messages_objects [OF that] by (auto simp: summarize_message_runtime_state_def Let_def is_assistant_def simp del: message_role.simps)
  then show ?thesis
    by (auto simp: assistant_states_def filter_map comp_def intro!: arg_cong [where f = "List.map _"] filter_cong)
qed

lemma terminal_has_text: "ms_terminal (summarize_message_runtime_state m) \<Longrightarrow> ms_text (summarize_message_runtime_state m) \<noteq> []"
  by (simp add: summarize_message_runtime_state_def Let_def)

text \<open>C33: A run counts as completed exactly when the assistant wrote a message that ends it and that the caller did
  not exclude; the answer is the text of the last such message, it is never empty, and it is the same text
  the other reader of the payload finds. Without such a message there is no answer text.\<close>

theorem completion_is_last_terminal:
  "let c = find_latest_assistant_completion payload exclude; ends = filter ms_terminal (assistant_states payload exclude) in
     (cm_state c = ''completed'' \<longleftrightarrow> ends \<noteq> [])
     \<and> cm_text c = extract_terminal_assistant_visible_text payload exclude
     \<and> cm_text c = (if ends = [] then [] else ms_text (last ends))
     \<and> (cm_text c = [] \<longleftrightarrow> ends = [])"
proof -
  let ?ends = "filter ms_terminal (assistant_states payload exclude)"
  have same: "extract_terminal_assistant_visible_text payload exclude = (if ?ends = [] then [] else ms_text (last ?ends))"
    using find_rev_last [of "\<lambda>s. not_excluded exclude s \<and> ms_terminal s"
        "List.map summarize_message_runtime_state (filter is_assistant (iter_messages payload))"]
    by (simp add: extract_terminal_assistant_visible_text_def rev_map summarized_assistants)
  have nonempty: "ms_text (last ?ends) \<noteq> []" if "?ends \<noteq> []"
  proof -
    have "last ?ends \<in> set ?ends" using that by (rule last_in_set)
    then show ?thesis by (auto simp: assistant_states_def terminal_has_text)
  qed
  show ?thesis
  proof (cases "?ends = []")
    case True
    then show ?thesis using same
      by (simp add: find_latest_assistant_completion_def Let_def find_rev_last found_state_def)
  next
    case False
    then show ?thesis using same nonempty
      by (simp add: find_latest_assistant_completion_def Let_def find_rev_last found_state_def)
  qed
qed

text \<open>A tool call in OpenCode's own shape, whose state is an object, is read as still running when it has ended,
  so a message that holds one never ends a run.\<close>

theorem nested_tool_state_is_pending:
  "cm_state (find_latest_assistant_completion (JObj [(''info'', JObj [(''role'', JStr ''assistant''), (''finish'', JStr ''stop'')]),
     (''parts'', JList [JObj [(''type'', JStr ''tool''), (''state'', JObj [(''status'', JStr ''completed''), (''output'', JStr ''x'')])],
                       JObj [(''type'', JStr ''text''), (''text'', JStr ''Done.'')]])]) []) = ''pending''"
  by code_simp

end
