(* ===== verification/EventBridge.thy ===== *)
theory EventBridge
  imports EventBus SessionStore RequestBindings ChatLogStore TaskStore JsonText TraceContext MessageAdapter Sha256
    "HOL-Library.List_Lexorder" "HOL-Library.Char_ord"
begin

text \<open>
  \<^verbatim>\<open>event_bridge.py\<close>: from an event of OpenCode's stream to the event the adapter publishes. Reading the raw event
  (its envelope, type and identifiers), classifying it, building the normalized event, the bridge's two caches,
  and the step that publishes an event and files it with the task and the chat log. The settings are two
  arguments (the preview length and the agent id); OpenCode's answer to a message lookup is an argument of the
  step; the tool metadata, which the code leaves empty, is an argument of the normalization.
\<close>

section \<open>Sanitized values\<close>

definition san_text :: "jval \<Rightarrow> nat \<Rightarrow> string" where
  "san_text v n = (case san_value v n of JStr s \<Rightarrow> s | JNull \<Rightarrow> [] | _ \<Rightarrow> ''[redacted]'')"

definition san_str :: "string \<Rightarrow> nat \<Rightarrow> string" where
  "san_str s n = san_text (JStr s) n"

section \<open>The envelope\<close>

definition add_missing :: "string \<times> jval \<Rightarrow> jobj \<Rightarrow> jobj" where
  "add_missing kv d = jsetdefault (fst kv) (snd kv) d"

definition merge_properties :: "jobj \<Rightarrow> jobj" where
  "merge_properties envelope = fold add_missing (obj_or_empty (jget envelope ''properties'')) envelope"

definition canonical_event :: "jobj \<Rightarrow> jobj" where
  "canonical_event raw =
     (case jget raw ''payload'' of
        JObj payload \<Rightarrow>
          (case (jget payload ''type'', jget payload ''syncEvent'') of
             (JStr t, JObj sync) \<Rightarrow>
               if t = ''sync''
               then AList.update ''opencode_event_id'' (jget sync ''id'')
                      (AList.update ''type'' (py_or (jget sync ''type'') (jget payload ''type''))
                        (obj_or_empty (jget sync ''data'')))
               else merge_properties payload
           | _ \<Rightarrow> merge_properties payload)
      | _ \<Rightarrow> (case jget raw ''data'' of JObj d \<Rightarrow> merge_properties d | _ \<Rightarrow> merge_properties raw))"

definition raw_event_type :: "jobj \<Rightarrow> jobj \<Rightarrow> string" where
  "raw_event_type raw canonical =
     (let explicit = py_or (jget canonical ''event'') (jget raw ''event'');
          value = (case first_truthy canonical [''type'', ''event''] of Some t \<Rightarrow> py_lower t
                   | None \<Rightarrow> (case first_truthy raw [''type'', ''event''] of Some t \<Rightarrow> py_lower t | None \<Rightarrow> []))
      in if (case explicit of JStr s \<Rightarrow> startswith (py_lower s) ''session.status'' | _ \<Rightarrow> False) then ''session.status''
         else if startswith value ''message.part.updated'' then ''message.part.updated''
         else if startswith value ''message.part.delta'' then ''message.part.delta''
         else value)"

text \<open>Every text of an event by its key, the first one of a key in reading order.\<close>

type_synonym texts = "(string, string) odict"

definition note_text :: "string \<Rightarrow> jval \<Rightarrow> texts \<Rightarrow> texts" where
  "note_text k v out =
     (case v of JStr s \<Rightarrow> if s \<noteq> [] \<and> map_of out k = None then out @ [(k, s)] else out | _ \<Rightarrow> out)"

fun collect_strings :: "jval \<Rightarrow> texts \<Rightarrow> texts"
  and collect_items :: "jval list \<Rightarrow> texts \<Rightarrow> texts"
  and collect_pairs :: "(string \<times> jval) list \<Rightarrow> texts \<Rightarrow> texts" where
  "collect_strings (JObj d) out = collect_pairs d out"
| "collect_strings (JList xs) out = collect_items xs out"
| "collect_strings _ out = out"
| "collect_items [] out = out"
| "collect_items (x # xs) out = collect_items xs (collect_strings x out)"
| "collect_pairs [] out = out"
| "collect_pairs ((k, v) # d) out = collect_pairs d (collect_strings v (note_text k v out))"

definition vget :: "texts \<Rightarrow> string \<Rightarrow> string" where
  "vget values k = (case map_of values k of None \<Rightarrow> [] | Some s \<Rightarrow> s)"

definition first_string :: "texts \<Rightarrow> string list \<Rightarrow> string" where
  "first_string values keys = (case find (\<lambda>k. vget values k \<noteq> []) keys of None \<Rightarrow> [] | Some k \<Rightarrow> vget values k)"

definition event_texts :: "jobj \<Rightarrow> jobj \<Rightarrow> texts" where
  "event_texts raw canonical = collect_strings (JObj canonical) (collect_strings (JObj raw) [])"

definition status_value :: "texts \<Rightarrow> string" where
  "status_value values =
     py_lower (first_string values [''status'', ''state'', ''decision'', ''resolution'', ''response'', ''action'', ''answer''])"

definition tool_name :: "texts \<Rightarrow> string" where
  "tool_name values = first_string values [''tool'', ''tool_name'', ''toolName'', ''name'', ''command'', ''callName'']"

definition message_text :: "jobj \<Rightarrow> texts \<Rightarrow> string" where
  "message_text canonical values =
     (case jget canonical ''part'' of
        JObj p \<Rightarrow> extract_visible_text_from_parts (JList [JObj p]) False
      | _ \<Rightarrow>
          (let text = extract_visible_text_from_parts (jget canonical ''parts'') False in
           if text \<noteq> [] then text else first_string values [''delta'', ''text'', ''message'', ''content'']))"

section \<open>Identifiers\<close>

text \<open>The first of some fields that holds a text.\<close>

definition text_of :: "jobj \<Rightarrow> string list \<Rightarrow> string option" where
  "text_of d keys = first_text_field d keys"

definition safe_identifier :: "jval \<Rightarrow> string \<Rightarrow> nat \<Rightarrow> string" where
  "safe_identifier value fallback max_chars =
     (let raw0 = (case value of JNull \<Rightarrow> [] | _ \<Rightarrow> py_str value);
          raw = (if raw0 = [] then fallback else raw0);
          san = san_str raw (max_chars * 4); safe = (if san = [] then fallback else san)
      in if length safe \<le> max_chars then safe
         else (let digest = take 16 (sha256_of safe) in
               take (max 8 (max_chars - length digest - 1)) safe @ ''-'' @ digest))"

text \<open>\<^verbatim>\<open>json.dumps(x, sort_keys=True, ensure_ascii=False)\<close>.\<close>

fun sort_keys :: "jval \<Rightarrow> jval"
  and sort_items :: "jval list \<Rightarrow> jval list"
  and sort_pairs :: "(string \<times> jval) list \<Rightarrow> (string \<times> jval) list" where
  "sort_keys (JObj d) = JObj (sort_key fst (sort_pairs d))"
| "sort_keys (JList xs) = JList (sort_items xs)"
| "sort_keys v = v"
| "sort_items [] = []"
| "sort_items (x # xs) = sort_keys x # sort_items xs"
| "sort_pairs [] = []"
| "sort_pairs ((k, v) # d) = (k, sort_keys v) # sort_pairs d"

definition stable_generated_event_id :: "jobj \<Rightarrow> string \<Rightarrow> string \<Rightarrow> string" where
  "stable_generated_event_id raw event_type raw_type =
     (let payload = spaced_dumps (sort_keys (sanitize_public_secrets (JObj raw)));
          digest = take 20 (sha256_of (event_type @ [CHR 0x0A] @ raw_type @ [CHR 0x0A] @ payload))
      in ''opencode:'' @ event_type @ '':'' @ digest)"

definition raw_event_id :: "jobj \<Rightarrow> jobj \<Rightarrow> string" where
  "raw_event_id raw canonical =
     (let keys = [''id'', ''event_id'', ''eventID'', ''opencode_event_id''] in
      case text_of raw keys of Some i \<Rightarrow> i | None \<Rightarrow> (case text_of canonical keys of Some i \<Rightarrow> i | None \<Rightarrow> []))"

definition raw_properties :: "jobj \<Rightarrow> jobj \<Rightarrow> jobj" where
  "raw_properties raw canonical =
     (case jget canonical ''properties'' of JObj p \<Rightarrow> p
      | _ \<Rightarrow> (case jget raw ''properties'' of JObj p \<Rightarrow> p
      | _ \<Rightarrow> (case jget (obj_or_empty (jget raw ''payload'')) ''properties'' of JObj p \<Rightarrow> p
      | _ \<Rightarrow> (case jget raw ''data'' of JObj d \<Rightarrow> d
      | _ \<Rightarrow> filter (\<lambda>(k, v). k \<notin> {''type'', ''event'', ''event_type'', ''opencode_event_id''}) canonical))))"

definition opencode_session_id_of :: "texts \<Rightarrow> string" where
  "opencode_session_id_of values = first_string values [''opencode_session_id'', ''sessionID'', ''sessionId'', ''session_id'']"

definition portal_session_id_of :: "texts \<Rightarrow> string \<Rightarrow> session_store \<Rightarrow> string" where
  "portal_session_id_of values oid ss =
     (case (if oid \<noteq> [] then find_by_opencode_session_id ss oid else None) of
        Some r \<Rightarrow> sr_portal_session_id r
      | None \<Rightarrow> (let s = first_string values [''portal_session_id'', ''session_id''] in if s \<noteq> [] then s else oid))"

definition portal_request_id_of :: "texts \<Rightarrow> string" where
  "portal_request_id_of values = first_string values [''portal_request_id'', ''request_id'']"

definition event_part :: "jobj \<Rightarrow> jobj" where
  "event_part canonical = obj_or_empty (jget canonical ''part'')"

definition raw_message_id :: "jobj \<Rightarrow> texts \<Rightarrow> string" where
  "raw_message_id canonical values =
     (case text_of (event_part canonical) [''messageID'', ''messageId'', ''message_id''] of Some i \<Rightarrow> i
      | None \<Rightarrow> (case text_of (obj_or_empty (jget canonical ''info'')) [''id''] of Some i \<Rightarrow> i
          | None \<Rightarrow> first_string values [''messageID'', ''message_id'', ''messageId'']))"

definition raw_part_id :: "jobj \<Rightarrow> texts \<Rightarrow> string" where
  "raw_part_id canonical values =
     (case text_of (event_part canonical) [''id''] of Some i \<Rightarrow> i
      | None \<Rightarrow> first_string values [''partID'', ''part_id'', ''partId''])"

definition CALL_KEYS :: "string list" where
  "CALL_KEYS = [''callID'', ''callId'', ''call_id'', ''toolCallID'', ''toolCallId'', ''tool_call_id'']"

definition call_id_of :: "jobj \<Rightarrow> texts \<Rightarrow> string" where
  "call_id_of canonical values =
     (case text_of (event_part canonical) CALL_KEYS of Some i \<Rightarrow> i | None \<Rightarrow> first_string values CALL_KEYS)"

section \<open>Types\<close>

definition TERMINAL_SUCCESS_STATUSES :: "string list" where
  "TERMINAL_SUCCESS_STATUSES = [''complete'', ''completed'', ''done'', ''end'', ''ended'', ''finish'', ''finished'',
     ''success'', ''succeeded'', ''ok'']"

definition TERMINAL_FAILED_STATUSES :: "string list" where
  "TERMINAL_FAILED_STATUSES = [''blocked'', ''denied'', ''deny'', ''error'', ''failed'', ''failure'', ''rejected'', ''refused'']"

definition STARTED_STATUSES :: "string list" where
  "STARTED_STATUSES = [[], ''call'', ''called'', ''created'', ''open'', ''pending'', ''running'', ''start'', ''started'']"

definition STANDARD_EVENT_TYPES :: "string list" where
  "STANDARD_EVENT_TYPES = [''permission.requested'', ''permission.resolved'']"

definition is_standard_event_type :: "string \<Rightarrow> bool" where
  "is_standard_event_type t = (startswith t ''session.next.'' \<or> t \<in> set STANDARD_EVENT_TYPES)"

definition step_status_event_type :: "string \<Rightarrow> string \<Rightarrow> string" where
  "step_status_event_type part_type status =
     (if part_type \<in> {''step-start'', ''step_start''} then ''session.next.step.started''
      else if part_type \<in> {''step-finish'', ''step_finish''}
      then (if status \<in> set TERMINAL_FAILED_STATUSES then ''session.next.step.failed'' else ''session.next.step.ended'')
      else [])"

definition text_status_event_type :: "string \<Rightarrow> string \<Rightarrow> string" where
  "text_status_event_type part_type status =
     (if part_type \<noteq> ''text'' then []
      else if status \<in> {''start'', ''started'', ''created'', ''open'', ''pending'', ''running''} then ''session.next.text.started''
      else if status \<in> set TERMINAL_SUCCESS_STATUSES \<or> status \<in> set TERMINAL_FAILED_STATUSES then ''session.next.text.ended''
      else [])"

definition tool_event_type_from_status :: "string \<Rightarrow> string \<Rightarrow> string" where
  "tool_event_type_from_status status legacy_type =
     (if legacy_type = ''tool.failed'' \<or> status \<in> set TERMINAL_FAILED_STATUSES then ''session.next.tool.failed''
      else if legacy_type = ''tool.completed'' \<or> status \<in> set TERMINAL_SUCCESS_STATUSES then ''session.next.tool.success''
      else if legacy_type = ''tool.started'' \<or> status \<in> set STARTED_STATUSES then ''session.next.tool.called''
      else ''session.next.tool.progress'')"

definition any_token :: "string list \<Rightarrow> string \<Rightarrow> bool" where
  "any_token tokens text = list_ex (contains text) tokens"

definition compaction_event_type :: "string \<Rightarrow> string \<Rightarrow> string" where
  "compaction_event_type raw_type status =
     (if \<not> any_token [''compact'', ''compaction''] raw_type then []
      else if contains raw_type ''delta'' then ''session.next.compaction.delta''
      else if status \<in> set TERMINAL_SUCCESS_STATUSES \<or> any_token [''end'', ''finish'', ''complete'', ''completed'', ''done''] raw_type
      then ''session.next.compaction.ended''
      else if status \<in> set STARTED_STATUSES \<or> any_token [''start'', ''begin'', ''started''] raw_type
      then ''session.next.compaction.started''
      else ''session.next.compaction.delta'')"

definition nonempty_or :: "string \<Rightarrow> string \<Rightarrow> string" where
  "nonempty_or a b = (if a \<noteq> [] then a else b)"

definition projected_type :: "string \<Rightarrow> string \<Rightarrow> string \<Rightarrow> string \<Rightarrow> string \<Rightarrow> string" where
  "projected_type raw_type legacy_type part_type status field =
     (if is_standard_event_type raw_type then raw_type
      else if compaction_event_type raw_type status \<noteq> [] then compaction_event_type raw_type status
      else if legacy_type = ''permission_request'' then ''permission.requested''
      else if legacy_type = ''permission_resolved'' then ''permission.resolved''
      else if legacy_type \<in> {''message.delta'', ''assistant_delta''} then ''session.next.text.delta''
      else if startswith legacy_type ''tool.'' then tool_event_type_from_status status legacy_type
      else if legacy_type = ''opencode.step.started'' then ''session.next.step.started''
      else if legacy_type = ''opencode.step.finished''
      then (if status \<in> set TERMINAL_FAILED_STATUSES then ''session.next.step.failed'' else ''session.next.step.ended'')
      else if legacy_type = ''message.completed'' then ''session.next.step.ended''
      else if raw_type = ''message.part.delta'' \<and> part_type = ''tool'' \<and> field \<in> {''input'', ''args'', ''arguments'', ''params''}
      then ''session.next.tool.input.delta''
      else if raw_type = ''message.part.updated''
      then nonempty_or (step_status_event_type part_type status)
             (nonempty_or (text_status_event_type part_type status) legacy_type)
      else legacy_type)"

definition projected_state :: "string \<Rightarrow> string \<Rightarrow> string" where
  "projected_state event_type legacy_type =
     (if endswith event_type ''.failed'' \<or> endswith legacy_type ''.failed'' then ''failed''
      else if event_type = ''permission.requested'' then ''pending''
      else if endswith event_type ''.success'' \<or> endswith event_type ''.ended'' \<or> event_type = ''permission.resolved'' then ''success''
      else if endswith event_type ''.delta'' \<or> endswith event_type ''.progress'' \<or> endswith event_type ''.started''
              \<or> endswith event_type ''.called'' then ''running''
      else [])"

section \<open>Parts\<close>

definition bool_true :: "jval \<Rightarrow> bool" where
  "bool_true v = (case v of JBool b \<Rightarrow> b | JStr s \<Rightarrow> py_lower (py_strip s) \<in> {''true'', ''1'', ''yes''} | _ \<Rightarrow> False)"

definition part_meta_from_part :: "jobj \<Rightarrow> jobj" where
  "part_meta_from_part part =
     [(''type'', JStr (py_lower (str_or_empty (jget part ''type'')))), (''ignored'', JBool (bool_true (jget part ''ignored''))),
      (''synthetic'', JBool (bool_true (jget part ''synthetic'')))]"

definition role_text :: "jval \<Rightarrow> string list" where
  "role_text v = (case v of JStr s \<Rightarrow> if py_strip s \<noteq> [] then [py_lower (py_strip s)] else [] | _ \<Rightarrow> [])"

definition role_candidates :: "texts \<Rightarrow> jobj \<Rightarrow> string option \<Rightarrow> jobj \<Rightarrow> string list" where
  "role_candidates values canonical role meta =
     concat (List.map role_text
       [case role of None \<Rightarrow> JNull | Some r \<Rightarrow> JStr r, jget meta ''role'', JStr (vget values ''role''),
        JStr (vget values ''message_role''), JStr (first_string values [''info.role'']), jget canonical ''role''])"

text \<open>What a delta of a part says, with the cached role and part if there are any.\<close>

record delta_info =
  di_field :: string
  di_delta :: string
  di_role :: string
  di_part_type :: string
  di_incomplete :: bool
  di_visible :: bool

definition delta_part_meta :: "jobj \<Rightarrow> jobj option \<Rightarrow> jobj" where
  "delta_part_meta canonical part_meta =
     (let own = event_part canonical; cached = (case part_meta of None \<Rightarrow> [] | Some m \<Rightarrow> m)
      in if cached \<noteq> [] then cached else if own \<noteq> [] then part_meta_from_part own else [])"

definition read_delta :: "jobj \<Rightarrow> texts \<Rightarrow> string option \<Rightarrow> jobj option \<Rightarrow> delta_info" where
  "read_delta canonical values role part_meta =
     (let field = py_lower (str_or_empty (py_or (jget canonical ''field'') (JStr (vget values ''field''))));
          delta = (case py_or (jget canonical ''delta'') (JStr (vget values ''delta'')) of JStr s \<Rightarrow> s | _ \<Rightarrow> []);
          meta = delta_part_meta canonical part_meta;
          roles = role_candidates values canonical role meta;
          chosen = (case find (\<lambda>r. r \<in> {''assistant'', ''user''}) roles of Some r \<Rightarrow> r
                    | None \<Rightarrow> (case roles of [] \<Rightarrow> [] | r # _ \<Rightarrow> r));
          ptype = py_lower (str_or_empty (jget meta ''type''))
      in \<lparr>di_field = field, di_delta = delta, di_role = chosen, di_part_type = ptype,
          di_incomplete = (chosen = [] \<or> ptype = []),
          di_visible = (field = ''text'' \<and> delta \<noteq> [] \<and> \<not> bool_true (jget meta ''ignored'')
             \<and> \<not> bool_true (jget meta ''synthetic'') \<and> ''user'' \<notin> set roles
             \<and> ptype \<in> {[], ''text''} \<and> chosen \<in> {[], ''assistant''})\<rparr>)"

section \<open>Classification\<close>

definition RESOLVED_PERMISSION_STATUSES :: "string list" where
  "RESOLVED_PERMISSION_STATUSES = [''approved'', ''allow'', ''allowed'', ''accepted'', ''granted'', ''denied'', ''deny'',
     ''rejected'', ''refused'', ''blocked'', ''resolved'', ''replied'', ''closed'']"

definition permission_legacy_type :: "string \<Rightarrow> string \<Rightarrow> string \<Rightarrow> string" where
  "permission_legacy_type raw_type status dflt =
     (if any_token [''replied'', ''resolved'', ''approved'', ''denied'', ''rejected'', ''closed''] raw_type
      then ''permission_resolved''
      else if contains raw_type ''updated''
      then (if status \<in> set RESOLVED_PERMISSION_STATUSES then ''permission_resolved'' else ''permission_request'')
      else if any_token [''asked'', ''requested'', ''created'', ''pending''] raw_type then ''permission_request''
      else dflt)"

definition part_legacy_type :: "jobj \<Rightarrow> string \<Rightarrow> string" where
  "part_legacy_type part status =
     (let ptype = py_lower (str_or_empty (jget part ''type'')) in
      if ptype = ''tool''
      then (if status \<in> {''failed'', ''error'', ''rejected'', ''denied''} then ''tool.failed''
            else if status \<in> {[], ''started'', ''running'', ''pending''} then ''tool.started'' else ''tool.completed'')
      else if ptype = ''step-start'' then ''opencode.step.started''
      else if ptype = ''step-finish'' then ''opencode.step.finished''
      else ''opencode.message.part.updated'')"

definition plain_legacy_type :: "string \<Rightarrow> jobj \<Rightarrow> string \<Rightarrow> delta_info \<Rightarrow> string" where
  "plain_legacy_type raw_type canonical status di =
     (let dflt = (if raw_type = ''sync'' then ''opencode.sync'' else ''opencode.raw'');
          tool = contains raw_type ''tool''
      in if contains raw_type ''permission'' then permission_legacy_type raw_type status dflt
         else if tool \<and> any_token [''start'', ''call'', ''begin'', ''running''] raw_type then ''tool.started''
         else if tool \<and> any_token [''complete'', ''result'', ''end'', ''finish'', ''success''] raw_type then ''tool.completed''
         else if tool \<and> any_token [''fail'', ''error''] raw_type then ''tool.failed''
         else if raw_type = ''message.part.updated'' then part_legacy_type (event_part canonical) status
         else if raw_type = ''message.part.delta'' then (if di_visible di then ''message.delta'' else ''opencode.raw'')
         else if raw_type \<in> {''message.completed'', ''message.finished''} then ''message.completed''
         else if startswith raw_type ''session.'' then ''session.updated''
         else dflt)"

text \<open>A retry of the provider goes before every other reading.\<close>

definition retry_status_of :: "jobj \<Rightarrow> jobj" where
  "retry_status_of canonical = obj_or_empty (jget canonical ''status'')"

definition is_retry :: "string \<Rightarrow> jobj \<Rightarrow> string \<Rightarrow> bool" where
  "is_retry raw_type canonical status =
     ((raw_type = ''session.status'' \<and> py_lower (py_str (jget_def (retry_status_of canonical) ''type'' (JStr []))) = ''retry'')
      \<or> any_token [''provider.retry'', ''model.retry'', ''rate.limit'', ''rate_limit'', ''ratelimit''] raw_type
      \<or> status \<in> {''retry'', ''retrying'', ''rate_limit'', ''rate_limited'', ''ratelimited''})"

definition legacy_type_of :: "string \<Rightarrow> jobj \<Rightarrow> string \<Rightarrow> delta_info \<Rightarrow> string" where
  "legacy_type_of raw_type canonical status di =
     (if is_retry raw_type canonical status then ''provider.retry'' else plain_legacy_type raw_type canonical status di)"

text \<open>The branch of a part's delta is reached when no earlier test of the type holds; it is the one that changes
  the collected texts.\<close>

definition reads_delta :: "string \<Rightarrow> bool" where
  "reads_delta raw_type = (raw_type = ''message.part.delta'')"

definition delta_texts :: "jobj \<Rightarrow> texts \<Rightarrow> delta_info \<Rightarrow> texts" where
  "delta_texts canonical values di =
     fold (\<lambda>(k, v). AList.update k v)
       [(''__part_field'', di_field di), (''__part_message_id'', raw_message_id canonical values),
        (''__part_id'', raw_part_id canonical values), (''__message_role'', di_role di), (''__part_type'', di_part_type di),
        (''__metadata_incomplete'', if di_incomplete di then ''true'' else ''false'')] values"

definition event_text :: "string \<Rightarrow> jobj \<Rightarrow> texts \<Rightarrow> delta_info \<Rightarrow> string" where
  "event_text raw_type canonical values di =
     (if raw_type = ''message.part.updated'' then []
      else if reads_delta raw_type then (if di_visible di then di_delta di else [])
      else message_text canonical values)"

section \<open>The permission card\<close>

definition event_data :: "jobj \<Rightarrow> jobj" where
  "event_data event = obj_or_empty (jget event ''data'')"

definition put_data :: "jobj \<Rightarrow> jobj \<Rightarrow> jobj" where
  "put_data extra event = AList.update ''data'' (JObj (put_all extra (event_data event))) event"

definition PERMISSION_ID_KEYS :: "string list" where
  "PERMISSION_ID_KEYS = [''permissionID'', ''permission_id'', ''requestID'', ''request_id'', ''id'']"

definition PREVIEW_KEYS :: "string list" where
  "PREVIEW_KEYS = [''input'', ''arguments'', ''args'', ''params'', ''command'']"

definition card_permission_id :: "jobj \<Rightarrow> texts \<Rightarrow> string" where
  "card_permission_id event values =
     san_text (py_or (jget event ''permission_id'') (py_or (jget (event_data event) ''permission_id'')
       (py_or (jget (event_data event) ''id'') (JStr (first_string values PERMISSION_ID_KEYS))))) 300"

definition permission_request_payload :: "jobj \<Rightarrow> texts \<Rightarrow> nat \<Rightarrow> jobj option" where
  "permission_request_payload event values max_chars =
     (let data = event_data event; permission_id = card_permission_id event values in
      if permission_id = [] then None
      else let tool = san_text (py_or (jget event ''tool'') (py_or (jget data ''tool'') (JStr (tool_name values)))) 300;
               title = san_value (JStr (first_string values [''title''])) max_chars;
               preview = san_value (py_or (jget event ''input_preview'') (py_or (jget data ''input_preview'')
                           (JStr (first_string values PREVIEW_KEYS)))) max_chars
           in Some [(''request_id'', JStr permission_id), (''id'', JStr permission_id), (''permission_id'', JStr permission_id),
                    (''tool'', JStr tool), (''tool_id'', JStr tool), (''tool_name'', JStr tool), (''title'', title),
                    (''args'', py_or preview title),
                    (''risk_level'', JStr (san_text (py_or (jget event ''risk_level'') (py_or (jget data ''risk_level'')
                        (JStr ''medium''))) 100)),
                    (''session_id'', JStr (san_text (jget event ''session_id'') 300)),
                    (''opencode_session_id'', JStr (san_text (jget event ''opencode_session_id'') 300)),
                    (''created_at'', JStr (san_text (jget event ''created_at'') 100))])"

definition attach_permission_request :: "jobj \<Rightarrow> texts \<Rightarrow> nat \<Rightarrow> jobj" where
  "attach_permission_request event values max_chars =
     (if str_or_empty (jget event ''type'') \<noteq> ''permission.requested'' then event
      else case permission_request_payload event values max_chars of
             None \<Rightarrow> event
           | Some request \<Rightarrow> put_data [(''permission_request'', JObj request)] event)"

section \<open>The normalized event\<close>

text \<open>The settings read, and the clock: \<^verbatim>\<open>utc_now_iso()\<close> and \<^verbatim>\<open>time.time()\<close>.\<close>

record bridge_settings =
  bs_max_chars :: nat
  bs_agent_id :: string

record bridge_now =
  bn_stamp :: string
  bn_ts :: pyfloat

definition put_id :: "string \<Rightarrow> string \<Rightarrow> string \<Rightarrow> jobj \<Rightarrow> jobj" where
  "put_id event_key data_key value event =
     (if value = [] then event
      else put_data [(data_key, py_or (jget (event_data event) data_key) (JStr value))]
             (AList.update event_key (JStr value) event))"

definition standard_passthrough_event ::
    "bridge_settings \<Rightarrow> bridge_now \<Rightarrow> session_store \<Rightarrow> jobj \<Rightarrow> jobj \<Rightarrow> string \<Rightarrow> texts \<Rightarrow> jobj" where
  "standard_passthrough_event cfg now ss raw canonical raw_type values =
     (let n = bs_max_chars cfg; oid = opencode_session_id_of values;
          event_id = safe_identifier (JStr (raw_event_id raw canonical)) (stable_generated_event_id raw raw_type raw_type) 180;
          properties = obj_or_empty (san_value (JObj (raw_properties raw canonical)) n);
          created = san_text (py_or (jget canonical ''created_at'') (py_or (jget raw ''created_at'') (JStr (bn_stamp now)))) 100;
          event = [(''id'', JStr event_id), (''type'', JStr raw_type), (''event_type'', JStr raw_type),
            (''engine'', JStr ''opencode''), (''session_id'', JStr (san_str (portal_session_id_of values oid ss) 300)),
            (''opencode_session_id'', JStr (san_str oid 300)), (''request_id'', JStr (san_str (portal_request_id_of values) 300)),
            (''raw_type'', JStr (san_str raw_type 200)), (''properties'', JObj properties), (''data'', JObj properties),
            (''created_at'', JStr (nonempty_or created (bn_stamp now))), (''ts'', JFloat (bn_ts now)),
            (''state'', JStr (nonempty_or (projected_state raw_type raw_type) ''received'')), (''summary'', JStr raw_type),
            (''metadata'', JObj [(''raw_type'', JStr (san_str raw_type 200)), (''projected'', JBool True)])]
      in put_id ''call_id'' ''call_id'' (safe_identifier (JStr (call_id_of canonical values)) [] 120)
           (put_id ''opencode_part_id'' ''part_id'' (san_str (raw_part_id canonical values) 300)
             (put_id ''opencode_message_id'' ''message_id'' (san_str (raw_message_id canonical values) 300) event)))"

text \<open>The part of the data that depends on the raw type.\<close>

definition status_type_of :: "string \<Rightarrow> jobj \<Rightarrow> string" where
  "status_type_of raw_type canonical =
     (let status = retry_status_of canonical in
      if status \<noteq> [] then str_or_empty (py_or (jget status ''type'') (jget status ''status''))
      else (case find (\<lambda>(k, s). \<not> (k = ''type'' \<and> s = raw_type))
              (concat (List.map (\<lambda>k. case jget canonical k of JStr s \<Rightarrow> if s \<noteq> [] then [(k, s)] else [] | _ \<Rightarrow> [])
                [''status_type'', ''type'', ''status'', ''state''])) of
              Some (k, s) \<Rightarrow> s | None \<Rightarrow> []))"

definition typed_data :: "bridge_settings \<Rightarrow> string \<Rightarrow> jobj \<Rightarrow> texts \<Rightarrow> jobj option \<Rightarrow> jobj \<Rightarrow> jobj" where
  "typed_data cfg raw_type canonical values part_meta data =
     (let n = bs_max_chars cfg; text = (\<lambda>k. str_or_empty (jget data k)) in
      if raw_type = ''message.updated'' then
        (let info = obj_or_empty (jget canonical ''info'') in
         put_all [(''raw_type'', JStr ''message.updated''), (''info'', san_value (JObj info) n),
                  (''message_id'', JStr (san_str (py_str (py_or (jget info ''id'') (JStr (text ''message_id'')))) 300))] data)
      else if raw_type = ''message.part.updated'' then
        (let part = event_part canonical in
         put_all [(''raw_type'', JStr ''message.part.updated''), (''part'', san_value (JObj part) n),
                  (''part_id'', JStr (san_str (py_str (py_or (jget part ''id'') (JStr (text ''part_id'')))) 300)),
                  (''part_type'', JStr (san_str (py_str (py_or (jget part ''type'') (JStr (text ''part_type'')))) 100)),
                  (''message_id'', JStr (san_str (py_str (py_or (jget part ''messageID'') (py_or (jget part ''messageId'')
                      (py_or (jget part ''message_id'') (JStr (text ''message_id'')))))) 300))] data)
      else if raw_type = ''message.part.delta'' then
        (let delta = (case jget canonical ''delta'' of JStr s \<Rightarrow> s | _ \<Rightarrow> vget values ''delta'');
             meta = delta_part_meta canonical part_meta
         in put_all ([(''raw_type'', JStr ''message.part.delta'')]
              @ (if delta \<noteq> [] then [(''delta'', JStr (san_str delta n))] else [])
              @ [(''field'', JStr (san_str (py_str (py_or (jget canonical ''field'') (py_or (JStr (vget values ''field''))
                    (JStr (text ''field''))))) 100)),
                 (''part_id'', JStr (san_str (nonempty_or (text ''part_id'') (raw_part_id canonical values)) 300)),
                 (''message_id'', JStr (san_str (nonempty_or (text ''message_id'') (raw_message_id canonical values)) 300)),
                 (''part_type'', JStr (san_str (str_or_empty (py_or (jget data ''part_type'') (jget meta ''type''))) 100))]) data)
      else if raw_type = ''session.status'' then
        (let status = retry_status_of canonical; status_type = nonempty_or (status_type_of raw_type canonical) ''unknown'' in
         put_all [(''raw_type'', JStr ''session.status''),
                  (''status'', if status \<noteq> [] then san_value (JObj status) n else san_value (JObj [(''type'', JStr status_type)]) n),
                  (''status_type'', JStr (san_str status_type 100))] data)
      else if raw_type = ''session.idle'' then
        put_all [(''raw_type'', JStr ''session.idle''), (''reconcile_hint'', JStr ''fetch_session_messages'')] data
      else data)"

definition base_data ::
    "bridge_settings \<Rightarrow> jobj \<Rightarrow> jobj \<Rightarrow> string \<Rightarrow> texts \<Rightarrow> texts \<Rightarrow> string \<Rightarrow> string \<Rightarrow> string option \<Rightarrow> jobj option \<Rightarrow> jobj" where
  "base_data cfg raw canonical raw_type values0 values legacy text role part_meta =
     (let n = bs_max_chars cfg; delta = san_value (JStr text) n;
          meta_type = (case part_meta of None \<Rightarrow> JNull | Some m \<Rightarrow> jget m ''type'')
      in put_all [(''message_role'', JStr (san_str (nonempty_or (vget values ''__message_role'')
                      (case role of None \<Rightarrow> [] | Some r \<Rightarrow> r)) 100)),
                  (''part_type'', JStr (san_text (py_or (JStr (vget values ''__part_type'')) (py_or meta_type (JStr []))) 100)),
                  (''field'', JStr (san_str (nonempty_or (vget values ''__part_field'') (vget values ''field'')) 100)),
                  (''metadata_incomplete'', JBool (vget values ''__metadata_incomplete'' = ''true'')),
                  (''message_id'', JStr (san_str (nonempty_or (vget values ''__part_message_id'') (raw_message_id canonical values)) 300)),
                  (''part_id'', JStr (san_str (nonempty_or (vget values ''__part_id'') (raw_part_id canonical values)) 300))]
          (put_all (if legacy \<in> {''assistant_delta'', ''message.delta''} \<and> truthy delta
                    then [(''delta'', delta), (''message'', delta)] else [])
            [(''raw_event_preview'', san_value (JObj raw) n), (''canonical_preview'', san_value (JObj canonical) n),
             (''raw_type'', JStr (san_str raw_type 200)),
             (''permission_id'', san_value (JStr (first_string values0 PERMISSION_ID_KEYS)) 300),
             (''tool'', san_value (JStr (tool_name values0)) 300),
             (''input_preview'', san_value (JStr (first_string values0 PREVIEW_KEYS)) n),
             (''output_preview'', san_value (JStr (first_string values0 [''output'', ''result'', ''response''])) n),
             (''risk_level'', san_value (JStr (nonempty_or (first_string values0 [''risk_level'', ''riskLevel'']) ''medium'')) 100),
             (''status'', san_value (JStr (status_value values0)) 100)]))"

text \<open>Tool metadata.\<close>

definition BUILTIN_TOOLS :: "string list" where
  "BUILTIN_TOOLS = [''bash'', ''read'', ''edit'', ''write'', ''grep'', ''glob'', ''webfetch'', ''websearch'', ''skill'',
     ''todowrite'', ''question'']"

definition is_scalar_tag :: "jval \<Rightarrow> bool" where
  "is_scalar_tag v = (case v of JStr s \<Rightarrow> True | JInt i \<Rightarrow> True | JFloat f \<Rightarrow> True | JBool b \<Rightarrow> True | _ \<Rightarrow> False)"

definition safe_policy_tags :: "jobj \<Rightarrow> string list" where
  "safe_policy_tags meta =
     (let raw = py_or (jget meta ''policy_tags'') (JList []);
          candidates = (case raw of JList xs \<Rightarrow> xs | v \<Rightarrow> if is_scalar_tag v then [v] else [])
      in filter (\<lambda>s. s \<noteq> []) (List.map (\<lambda>v. preview_text (py_str v) 100) (filter is_scalar_tag candidates)))"

definition is_mutation_tool :: "jobj \<Rightarrow> bool" where
  "is_mutation_tool meta =
     (jget meta ''mutation'' = JBool True
      \<or> list_ex (\<lambda>tag. py_lower tag \<in> {''mutation'', ''write'', ''writeback'', ''external_write'', ''destructive''})
          (safe_policy_tags meta)
      \<or> py_lower (str_or_empty (jget meta ''risk_level'')) \<in> {''high'', ''critical''})"

definition tool_meta_of :: "jobj \<Rightarrow> string \<Rightarrow> jval \<Rightarrow> jobj option" where
  "tool_meta_of tool_metadata tool s_tool =
     (case py_or (jget tool_metadata tool) (jget tool_metadata (py_str s_tool)) of JObj m \<Rightarrow> Some m | _ \<Rightarrow> None)"

definition tool_source_of :: "jobj option \<Rightarrow> string \<Rightarrow> jval" where
  "tool_source_of meta tool =
     (case meta of
        Some m \<Rightarrow> py_or (jget m ''source_ref'') (JStr ''opencode'')
      | None \<Rightarrow> JStr (if py_lower tool \<in> set BUILTIN_TOOLS then ''opencode_builtin'' else ''unknown''))"

definition tool_extra :: "jobj option \<Rightarrow> jval \<Rightarrow> jobj" where
  "tool_extra meta s_risk =
     (case meta of
        Some m \<Rightarrow>
          (let mutation = is_mutation_tool m;
               risk = py_str (py_or (jget m ''risk_level'') (py_or s_risk (JStr ''medium'')));
               identity = truthy (jget m ''requires_identity_binding'')
           in [(''capability_id'', san_value (jget m ''capability_id'') 200),
               (''policy_tags'', JList (List.map JStr (safe_policy_tags m))), (''risk_level'', san_value (JStr risk) 100),
               (''requires_identity_binding'', JBool identity), (''mutation'', JBool mutation),
               (''audit_event'', JBool (mutation \<or> identity \<or> py_lower risk \<in> {''high'', ''critical''})),
               (''tool_source_ref'', san_value (jget m ''source_ref'') 200)])
      | None \<Rightarrow>
          [(''capability_id'', JNull), (''policy_tags'', JList []), (''risk_level'', py_or s_risk (JStr ''medium'')),
           (''requires_identity_binding'', JBool False), (''mutation'', JBool False), (''audit_event'', JBool False),
           (''tool_source_ref'', JNull)])"

text \<open>The fields that depend on the legacy type.\<close>

definition retry_fields :: "bridge_settings \<Rightarrow> string \<Rightarrow> jobj \<Rightarrow> texts \<Rightarrow> string \<Rightarrow> jobj \<Rightarrow> jobj" where
  "retry_fields cfg raw_type canonical values0 text event =
     (let retry = retry_status_of canonical; n = bs_max_chars cfg in
      put_data [(''message'', san_value (py_or (jget retry ''message'')
                    (py_or (JStr (first_string values0 [''output'', ''result'', ''response'']))
                      (py_or (JStr text) (JStr (status_value values0))))) n),
                (''attempt'', jget retry ''attempt''), (''next'', jget retry ''next''),
                (''raw_type'', JStr (san_str raw_type 200)),
                (''diagnostic_hint'', JStr ''OpenCode provider API retrying. Check the Model provider and Proxy connectors in Portal.'')]
        (put_all [(''state'', JStr ''retrying''), (''summary'', JStr ''Provider API retry'')] event))"

definition permission_fields :: "bridge_settings \<Rightarrow> string \<Rightarrow> texts \<Rightarrow> jobj \<Rightarrow> jobj" where
  "permission_fields cfg legacy values0 event =
     (let data_san = (\<lambda>s n. san_value (JStr s) n); status = data_san (status_value values0) 100 in
      put_all ([(''permission_id'', data_san (first_string values0 PERMISSION_ID_KEYS) 300),
                (''tool'', data_san (tool_name values0) 300),
                (''input_preview'', data_san (first_string values0 PREVIEW_KEYS) (bs_max_chars cfg)),
                (''risk_level'', data_san (nonempty_or (first_string values0 [''risk_level'', ''riskLevel'']) ''medium'') 100)]
          @ (if legacy = ''permission_resolved''
             then [(''decision'', py_or status
                     (data_san (first_string values0 [''decision'', ''resolution'', ''response'', ''answer'']) 100))]
             else [])) event)"

definition tool_fields :: "bridge_settings \<Rightarrow> jobj \<Rightarrow> texts \<Rightarrow> jobj \<Rightarrow> jobj" where
  "tool_fields cfg tool_metadata values0 event =
     (let tool = tool_name values0; s_tool = san_value (JStr tool) 300;
          inp = first_string values0 PREVIEW_KEYS; outp = first_string values0 [''output'', ''result'', ''response''];
          s_risk = san_value (JStr (nonempty_or (first_string values0 [''risk_level'', ''riskLevel'']) ''medium'')) 100;
          extra = tool_extra (tool_meta_of tool_metadata tool s_tool) s_risk;
          event1 = put_all ([(''tool'', s_tool)]
              @ (if inp \<noteq> [] then [(''input_preview'', san_value (JStr inp) (bs_max_chars cfg))] else [])
              @ (if outp \<noteq> [] then [(''output_preview'', san_value (JStr outp) (bs_max_chars cfg))] else [])) event
      in AList.update ''tool_name'' s_tool (put_data extra (put_all extra event1)))"

text \<open>The projection onto the protocol's types.\<close>

definition event_metadata :: "jobj \<Rightarrow> jobj" where
  "event_metadata event = obj_or_empty (jget event ''metadata'')"

definition projected_type_of_event :: "string \<Rightarrow> string \<Rightarrow> texts \<Rightarrow> string \<Rightarrow> jobj \<Rightarrow> string" where
  "projected_type_of_event raw_type legacy values status event =
     (let data = event_data event;
          field = py_lower (str_or_empty (py_or (jget data ''field'') (JStr (nonempty_or (vget values ''__part_field'')
                    (vget values ''field'')))))
      in projected_type raw_type legacy (py_lower (str_or_empty (jget data ''part_type''))) status field)"

definition apply_projected_protocol ::
    "bridge_settings \<Rightarrow> jobj \<Rightarrow> jobj \<Rightarrow> string \<Rightarrow> string \<Rightarrow> texts \<Rightarrow> string \<Rightarrow> jobj \<Rightarrow> jobj" where
  "apply_projected_protocol cfg raw canonical raw_type legacy values status event =
     (let data = event_data event; typ = projected_type_of_event raw_type legacy values status event;
          state = projected_state typ legacy;
          legacy_data = (if typ \<noteq> legacy then [(''legacy_type'', JStr legacy), (''legacy_event_type'', JStr legacy),
                                             (''compat_type'', JStr legacy)] else []);
          call = safe_identifier (JStr (call_id_of canonical values)) [] 120;
          event1 = put_all ([(''id'', JStr (safe_identifier (JStr (raw_event_id raw canonical))
                                 (stable_generated_event_id raw typ raw_type) 180)),
                             (''type'', JStr typ), (''event_type'', JStr typ),
                             (''summary'', if jget event ''summary'' = JStr legacy then JStr typ
                                         else jget_def event ''summary'' (JStr typ))]
                     @ (if state \<noteq> [] then [(''state'', JStr state)] else [])
                     @ (if typ \<noteq> legacy then [(''legacy_type'', JStr legacy), (''legacy_event_type'', JStr legacy)] else [])) event;
          event2 = put_data (legacy_data @ [(''event_type'', JStr typ),
                       (''raw_type'', py_or (jget data ''raw_type'') (py_or (jget event ''raw_type'') (JStr raw_type)))]) event1;
          event3 = (case san_value (JObj (raw_properties raw canonical)) (bs_max_chars cfg) of
                      JObj p \<Rightarrow> AList.update ''properties'' (JObj p) event2 | _ \<Rightarrow> event2);
          event4 = put_id ''call_id'' ''call_id'' call event3
      in AList.update ''metadata'' (JObj (put_all ([(''raw_type'', jget_def event ''raw_type'' (JStr raw_type)),
             (''projected_type'', JStr typ)] @ (if typ \<noteq> legacy then [(''legacy_type'', JStr legacy)] else []))
             (event_metadata event4))) event4)"

text \<open>Events that are not of a standard type: the fields in the order the code sets them.\<close>

definition event_message_ids :: "texts \<Rightarrow> string list" where
  "event_message_ids values =
     filter (\<lambda>s. s \<noteq> []) (List.map (vget values) [''message_id'', ''messageID'', ''messageId'', ''parentID'', ''parent_id''])"

definition task_of_event :: "env \<Rightarrow> task_dir \<Rightarrow> texts \<Rightarrow> jval" where
  "task_of_event tenv tasks values =
     (case find_for_opencode_event tenv (opencode_session_id_of values) (event_message_ids values) tasks of
        Some r \<Rightarrow> tr_task_id r | None \<Rightarrow> JNull)"

definition opt_put :: "bool \<Rightarrow> string \<Rightarrow> jval \<Rightarrow> jobj \<Rightarrow> jobj" where
  "opt_put c k v d = (if c then AList.update k v d else d)"

definition raw_request_fields :: "texts \<Rightarrow> jobj \<Rightarrow> jobj" where
  "raw_request_fields values0 event =
     (let rid = san_str (first_string values0 [''requestID'', ''request_id'', ''id'']) 300;
          extra = [(''raw_request_id'', JStr rid), (''opencode_request_id'', JStr rid)]
      in if rid = [] then event else put_data extra (put_all extra event))"

definition projected_event ::
    "bridge_settings \<Rightarrow> bridge_now \<Rightarrow> session_store \<Rightarrow> env \<Rightarrow> task_dir \<Rightarrow> jobj \<Rightarrow> string option \<Rightarrow> jobj option \<Rightarrow>
       jobj \<Rightarrow> jobj \<Rightarrow> string \<Rightarrow> texts \<Rightarrow> jobj" where
  "projected_event cfg now ss tenv tasks tool_metadata role part_meta raw canonical raw_type values0 =
     (let di = read_delta canonical values0 role part_meta;
          values = (if reads_delta raw_type then delta_texts canonical values0 di else values0);
          status = status_value values0; legacy = legacy_type_of raw_type canonical status di;
          text = event_text raw_type canonical values0 di; oid = opencode_session_id_of values0;
          mapped = (if oid \<noteq> [] then find_by_opencode_session_id ss oid else None);
          sid = (case mapped of Some r \<Rightarrow> sr_portal_session_id r | None \<Rightarrow> oid);
          task_id = task_of_event tenv tasks values0; tool = tool_name values0; s_tool = san_value (JStr tool) 300;
          data = typed_data cfg raw_type canonical values part_meta
                   (base_data cfg raw canonical raw_type values0 values legacy text role part_meta);
          s_sid = JStr (san_str sid 300); s_oid = JStr (san_str oid 300);
          s_rid = JStr (san_str (first_string values0 [''portal_request_id'']) 300); s_raw = JStr (san_str raw_type 200);
          evt0 = [(''type'', JStr legacy), (''event_type'', JStr legacy), (''engine'', JStr ''opencode''), (''raw_type'', s_raw),
            (''session_id'', s_sid), (''opencode_session_id'', s_oid), (''request_id'', s_rid), (''state'', JStr ''received''),
            (''summary'', JStr legacy), (''data'', JObj data), (''metadata'', JObj [(''raw_type'', s_raw)]),
            (''created_at'', JStr (bn_stamp now)), (''ts'', JFloat (bn_ts now))];
          evt1 = opt_put (truthy (jget data ''status_type'')) ''opencode_status'' (jget data ''status_type'')
                  (opt_put (truthy (jget data ''part_id'')) ''opencode_part_id'' (jget data ''part_id'')
                    (opt_put (truthy (jget data ''message_id'')) ''opencode_message_id'' (jget data ''message_id'') evt0));
          evt2 = raw_request_fields values0 evt1;
          evt3 = (if legacy = ''provider.retry'' then retry_fields cfg raw_type canonical values0 text evt2 else evt2);
          evt4 = opt_put (truthy task_id) ''task_id'' task_id evt3;
          is_permission = startswith legacy ''permission_''; is_tool = startswith legacy ''tool.'';
          evt5 = (if is_permission then permission_fields cfg legacy values0 evt4 else evt4);
          evt6 = (if is_tool then tool_fields cfg tool_metadata values0 evt5 else evt5);
          source = tool_source_of (tool_meta_of tool_metadata tool s_tool) tool;
          trace = build_trace_context (bs_agent_id cfg) (no_trace\<lparr>ta_request_id := s_rid, ta_session_id := s_sid,
            ta_task_id := py_or task_id (JStr []), ta_opencode_session_id := s_oid,
            ta_tool_name := (if is_tool \<or> is_permission then s_tool else JStr []), ta_tool_source := source\<rparr>);
          evt7 = AList.update ''tool_source'' (JStr (san_text source 200)) (add_trace_context evt6 trace)
      in attach_permission_request (apply_projected_protocol cfg raw canonical raw_type legacy values status evt7) values
           (bs_max_chars cfg))"

definition normalize_opencode_event ::
    "bridge_settings \<Rightarrow> bridge_now \<Rightarrow> session_store \<Rightarrow> env \<Rightarrow> task_dir \<Rightarrow> jobj \<Rightarrow> string option \<Rightarrow> jobj option \<Rightarrow>
       jval \<Rightarrow> jobj option" where
  "normalize_opencode_event cfg now ss tenv tasks tool_metadata role part_meta raw_event =
     (case raw_event of
        JObj raw \<Rightarrow>
          (let canonical = canonical_event raw; raw_type = raw_event_type raw canonical; values = event_texts raw canonical in
           Some (if is_standard_event_type raw_type
                 then attach_permission_request (standard_passthrough_event cfg now ss raw canonical raw_type values) values
                        (bs_max_chars cfg)
                 else projected_event cfg now ss tenv tasks tool_metadata role part_meta raw canonical raw_type values))
      | _ \<Rightarrow> None)"

section \<open>The bridge\<close>

definition CACHE_LIMIT :: nat where
  "CACHE_LIMIT = 5000"

definition cache_put_limited :: "'k \<Rightarrow> 'v \<Rightarrow> nat \<Rightarrow> ('k, 'v) odict \<Rightarrow> ('k, 'v) odict" where
  "cache_put_limited key value limit cache = evict_front limit (put_last key value cache)"

record bridge_state =
  br_running :: bool
  br_connected :: bool
  br_reconnects :: nat
  br_last_event_at :: jval
  br_last_error :: "string option"
  br_last_raw_type :: jval
  br_roles :: "(string \<times> string, string) odict"
  br_parts :: "(string \<times> string \<times> string, jobj) odict"

definition new_bridge :: bridge_state where
  "new_bridge = \<lparr>br_running = False, br_connected = False, br_reconnects = 0, br_last_event_at = JNull, br_last_error = None,
     br_last_raw_type = JStr [], br_roles = [], br_parts = []\<rparr>"

definition bridge_status_snapshot :: "bridge_state \<Rightarrow> jobj" where
  "bridge_status_snapshot b =
     [(''enabled'', JBool True), (''running'', JBool (br_running b)), (''connected'', JBool (br_connected b)),
      (''reconnects'', JInt (int (br_reconnects b))), (''last_event_at'', br_last_event_at b),
      (''last_error'', case br_last_error b of None \<Rightarrow> JNull | Some e \<Rightarrow> JStr e), (''last_raw_type'', br_last_raw_type b)]"

definition put_role :: "string \<Rightarrow> string \<Rightarrow> string \<Rightarrow> bridge_state \<Rightarrow> bridge_state" where
  "put_role sid mid role b = b\<lparr>br_roles := cache_put_limited (sid, mid) role CACHE_LIMIT (br_roles b)\<rparr>"

definition put_part :: "string \<Rightarrow> string \<Rightarrow> string \<Rightarrow> jobj \<Rightarrow> bridge_state \<Rightarrow> bridge_state" where
  "put_part sid mid pid part b =
     b\<lparr>br_parts := cache_put_limited (sid, mid, pid) (part_meta_from_part part) CACHE_LIMIT (br_parts b)\<rparr>"

text \<open>The answer to a message lookup: its info, its parts, and what they add to the caches.\<close>

definition payload_info :: "jval \<Rightarrow> jobj" where
  "payload_info payload = obj_or_empty (jget (obj_or_empty payload) ''info'')"

definition payload_parts :: "jval \<Rightarrow> jobj list" where
  "payload_parts payload =
     (let d = obj_or_empty payload;
          objects = (\<lambda>xs. concat (List.map (\<lambda>x. case x of JObj p \<Rightarrow> [p] | _ \<Rightarrow> []) xs))
      in case jget d ''parts'' of JList xs \<Rightarrow> objects xs
         | _ \<Rightarrow> (case jget (obj_or_empty (jget d ''message'')) ''parts'' of JList xs \<Rightarrow> objects xs | _ \<Rightarrow> []))"

definition learn_part :: "string \<Rightarrow> string \<Rightarrow> jobj \<Rightarrow> bridge_state \<Rightarrow> bridge_state" where
  "learn_part sid mid part b =
     (let pid = str_or_empty (jget part ''id'') in
      if sid \<noteq> [] \<and> mid \<noteq> [] \<and> pid \<noteq> [] then put_part sid mid pid part b else b)"

definition learn_message :: "string \<Rightarrow> string \<Rightarrow> jval \<Rightarrow> bridge_state \<Rightarrow> bridge_state" where
  "learn_message sid mid payload b =
     (let info = payload_info payload; role = py_lower (str_or_empty (jget info ''role''));
          mid' = py_str (py_or (jget info ''id'') (JStr mid));
          b1 = (if role \<noteq> [] \<and> sid \<noteq> [] \<and> mid' \<noteq> [] then put_role sid mid' role b else b)
      in fold (learn_part sid mid') (payload_parts payload) b1)"

text \<open>What the bridge knows about the event before it is normalized: the role and part of a delta, looked up with the
  client when a cache has no answer (\<open>fetched\<close> is \<^verbatim>\<open>None\<close> when the lookup fails), and the message id used later.\<close>

record event_context =
  ec_session_id :: string
  ec_message_id :: string
  ec_role :: "string option"
  ec_part :: "jobj option"

definition cached_role :: "bridge_state \<Rightarrow> string \<Rightarrow> string \<Rightarrow> string option" where
  "cached_role b sid mid = (if sid \<noteq> [] \<and> mid \<noteq> [] then map_of (br_roles b) (sid, mid) else None)"

definition cached_part :: "bridge_state \<Rightarrow> string \<Rightarrow> string \<Rightarrow> string \<Rightarrow> jobj option" where
  "cached_part b sid mid pid = (if sid \<noteq> [] \<and> mid \<noteq> [] \<and> pid \<noteq> [] then map_of (br_parts b) (sid, mid, pid) else None)"

definition needs_lookup :: "string option \<Rightarrow> jobj option \<Rightarrow> string \<Rightarrow> string \<Rightarrow> bool" where
  "needs_lookup role part sid mid = ((role = None \<or> role = Some [] \<or> part = None \<or> part = Some []) \<and> sid \<noteq> [] \<and> mid \<noteq> [])"

definition observe_raw :: "jval option \<Rightarrow> jobj \<Rightarrow> bridge_state \<Rightarrow> event_context \<times> bridge_state" where
  "observe_raw fetched raw b =
     (let canonical = canonical_event raw; raw_type = raw_event_type raw canonical; values = event_texts raw canonical;
          sid = opencode_session_id_of values; mid = raw_message_id canonical values; pid = raw_part_id canonical values;
          plain = \<lparr>ec_session_id = sid, ec_message_id = mid, ec_role = None, ec_part = None\<rparr>
      in if raw_type = ''message.updated'' then
           (let info = obj_or_empty (jget canonical ''info'') in
            if info = [] then (plain, b)
            else let mid' = py_str (py_or (jget info ''id'') (JStr mid)); role = py_lower (str_or_empty (jget info ''role''));
                     isid = py_str (py_or (jget info ''sessionID'') (py_or (jget info ''sessionId'') (JStr sid)))
                 in (plain\<lparr>ec_message_id := mid'\<rparr>,
                     if isid \<noteq> [] \<and> mid' \<noteq> [] \<and> role \<noteq> [] then put_role isid mid' role b else b))
         else if raw_type = ''message.part.updated'' then
           (let part = event_part canonical;
                pmid = py_str (py_or (jget part ''messageID'') (py_or (jget part ''messageId'') (py_or (jget part ''message_id'')
                         (JStr mid))));
                ppid = py_str (py_or (jget part ''id'') (JStr pid))
            in (plain, if sid \<noteq> [] \<and> pmid \<noteq> [] \<and> ppid \<noteq> [] then put_part sid pmid ppid part b else b))
         else if raw_type = ''message.part.delta'' then
           (let role = cached_role b sid mid; part = cached_part b sid mid pid in
            if \<not> needs_lookup role part sid mid then (plain\<lparr>ec_role := role, ec_part := part\<rparr>, b)
            else let b1 = (case fetched of None \<Rightarrow> b | Some payload \<Rightarrow> learn_message sid mid payload b)
                 in (plain\<lparr>ec_role := cached_role b1 sid mid,
                       ec_part := (if pid \<noteq> [] then cached_part b1 sid mid pid else part)\<rparr>, b1))
         else (plain, b))"

text \<open>The request an event belongs to.\<close>

definition bind_trace :: "request_binding \<Rightarrow> jobj \<Rightarrow> jobj" where
  "bind_trace b trace =
     put_all [(''request_id'', JStr (rb_request_id b)), (''session_id'', JStr (rb_portal_session_id b)),
              (''opencode_session_id'', JStr (rb_opencode_session_id b)),
              (''trace_id'', if rb_request_id b \<noteq> [] then JStr (rb_request_id b) else jget_def trace ''trace_id'' (JStr []))] trace"

definition own_fields :: "request_binding \<Rightarrow> jobj" where
  "own_fields b = [(''request_id'', JStr (rb_request_id b)), (''portal_request_id'', JStr (rb_request_id b)),
     (''opencode_session_id'', JStr (rb_opencode_session_id b))]"

definition bind_trace_contexts :: "request_binding \<Rightarrow> jobj \<Rightarrow> jobj" where
  "bind_trace_contexts b event =
     (let event1 = AList.update ''trace_context'' (JObj (bind_trace b (obj_or_empty (jget event ''trace_context'')))) event
      in case jget (event_data event1) ''trace_context'' of
           JObj t \<Rightarrow> put_data [(''trace_context'', JObj (bind_trace b t))] event1 | _ \<Rightarrow> event1)"

definition bind_properties :: "request_binding \<Rightarrow> jobj \<Rightarrow> jobj" where
  "bind_properties b event =
     AList.update ''properties'' (JObj (put_all (own_fields b) (obj_or_empty (jget event ''properties'')))) event"

definition apply_binding :: "request_binding \<Rightarrow> jobj \<Rightarrow> jobj" where
  "apply_binding b event =
     (let event1 = put_all ([(''session_id'', JStr (rb_portal_session_id b))] @ own_fields b) event;
          event2 = put_data (own_fields b @ (if rb_task_id b \<noteq> [] then [(''task_id'', JStr (rb_task_id b))] else [])) event1;
          event3 = bind_trace_contexts b (bind_properties b event2)
      in opt_put (rb_task_id b \<noteq> [] \<and> \<not> truthy (jget event3 ''task_id'')) ''task_id'' (JStr (rb_task_id b)) event3)"

text \<open>\<open>t1\<close> to \<open>t4\<close> are the clock readings of the two lookups.\<close>

definition binding_for_event ::
    "rat \<times> rat \<times> rat \<times> rat \<Rightarrow> string \<Rightarrow> string \<Rightarrow> string \<Rightarrow> binding_store \<Rightarrow> request_binding option \<times> binding_store" where
  "binding_for_event t sid mid tid st =
     (case t of (t1, t2, t3, t4) \<Rightarrow>
        let (exact, st1) = (if mid \<noteq> [] \<or> tid \<noteq> [] then binding_resolve_exact t1 t2 sid mid tid False st else (None, st))
        in case exact of Some b \<Rightarrow> (Some b, st1) | None \<Rightarrow> binding_resolve t3 t4 sid mid tid st1)"

record 'o bridge_world =
  bw_bridge :: bridge_state
  bw_sessions :: session_store
  bw_bindings :: "binding_store option"
  bw_bus :: event_bus
  bw_observers :: 'o
  bw_tasks :: task_dir
  bw_chatlogs :: "chatlog_store option"

record bridge_clock =
  bc_now :: bridge_now
  bc_bind :: "rat \<times> rat \<times> rat \<times> rat"
  bc_bus :: "rat \<times> rat \<times> rat"
  bc_log :: "string \<times> rat \<times> rat"

definition bound_event :: "bridge_clock \<Rightarrow> event_context \<Rightarrow> jobj \<Rightarrow> binding_store option \<Rightarrow> jobj \<times> binding_store option" where
  "bound_event clock ctx event bindings =
     (case bindings of
        None \<Rightarrow> (event, None)
      | Some st \<Rightarrow>
          if ec_session_id ctx = [] then (event, Some st)
          else (case binding_for_event (bc_bind clock) (ec_session_id ctx) (ec_message_id ctx)
                       (str_or_empty (jget event ''task_id'')) st of
                  (None, st1) \<Rightarrow> (event, Some st1)
                | (Some b, st1) \<Rightarrow> (apply_binding b event, Some st1)))"

definition log_event :: "bridge_clock \<Rightarrow> jobj \<Rightarrow> chatlog_store option \<Rightarrow> chatlog_store option" where
  "log_event clock event logs =
     (case logs of
        None \<Rightarrow> None
      | Some st \<Rightarrow>
          if truthy (jget event ''session_id'') \<and> truthy (jget event ''request_id'')
          then (case bc_log clock of (stamp, t1, t2) \<Rightarrow>
                 (case chatlog_append_event stamp t1 t2 (py_str (jget event ''session_id'')) (py_str (jget event ''request_id''))
                        event True st of
                    Inl e \<Rightarrow> Some st | Inr (d, st1) \<Rightarrow> Some st1))
          else Some st)"

definition file_with_task :: "env \<Rightarrow> jobj \<Rightarrow> task_dir \<Rightarrow> task_dir" where
  "file_with_task tenv event tasks =
     (let tid = jget event ''task_id'' in
      if \<not> truthy tid then tasks
      else case task_append_event tenv (py_str tid) (JObj event) tasks of Inl e \<Rightarrow> tasks | Inr (r, tasks1) \<Rightarrow> tasks1)"

definition publish_raw_event ::
    "bridge_settings \<Rightarrow> env \<Rightarrow> jobj \<Rightarrow> ('o \<Rightarrow> jval \<Rightarrow> 'o) list \<Rightarrow> bridge_clock \<Rightarrow> jval option \<Rightarrow> jobj \<Rightarrow> 'o bridge_world \<Rightarrow>
       jobj \<times> 'o bridge_world" where
  "publish_raw_event cfg tenv tool_metadata observers clock fetched raw w =
     (let (ctx, b1) = observe_raw fetched raw (bw_bridge w);
          event0 = (case normalize_opencode_event cfg (bc_now clock) (bw_sessions w) tenv (bw_tasks w) tool_metadata
                      (ec_role ctx) (ec_part ctx) (JObj raw) of Some e \<Rightarrow> e | None \<Rightarrow> []);
          (event, bindings) = bound_event clock ctx event0 (bw_bindings w);
          (bus, os) = publish observers (bc_bus clock) event (bw_bus w, bw_observers w)
      in (event, w\<lparr>bw_bridge := b1\<lparr>br_last_event_at := jget event ''created_at'', br_last_raw_type := jget_def event ''raw_type'' (JStr [])\<rparr>,
            bw_bindings := bindings, bw_bus := bus, bw_observers := os, bw_tasks := file_with_task tenv event (bw_tasks w),
            bw_chatlogs := log_event clock event (bw_chatlogs w)\<rparr>))"

end
