(* ===== verification/BridgeRun.thy ===== *)
theory BridgeRun
  imports EventBridge PendingInput
begin

text \<open>
  The rest of \<^verbatim>\<open>event_bridge.py\<close>: the lifecycle events and \<open>run_forever\<close>, whose connections are given by what
  the stream delivers and how it ends, and the facts about what the bridge publishes: which fields of a
  published event survive each later step, that a permission question becomes an open question of its
  session, that the text of the user is never published as the assistant's, that an event is attributed to an
  open request only, that the caches stay bounded, and how long a reconnect waits.
\<close>

section \<open>Lifecycle events and connections\<close>

definition lifecycle_event :: "bridge_now \<Rightarrow> string \<Rightarrow> string \<Rightarrow> bridge_state \<Rightarrow> jobj" where
  "lifecycle_event now event_type error b =
     (let reconnects = JInt (int (br_reconnects b)) in
      [(''type'', JStr event_type), (''event_type'', JStr event_type), (''engine'', JStr ''opencode''),
       (''state'', JStr (if event_type \<in> {''event_bridge.connected'', ''event_bridge.reconnected''}
                        then ''connected'' else ''disconnected'')),
       (''summary'', JStr event_type), (''created_at'', JStr (bn_stamp now)), (''ts'', JFloat (bn_ts now)),
       (''reconnects'', reconnects)]
      @ (if error \<noteq> [] then [(''error'', JStr error), (''data'', JObj [(''error'', JStr error), (''reconnects'', reconnects)])]
         else [(''data'', JObj [(''reconnects'', reconnects)])]))"

definition publish_lifecycle_event ::
    "('o \<Rightarrow> jval \<Rightarrow> 'o) list \<Rightarrow> bridge_clock \<Rightarrow> string \<Rightarrow> string \<Rightarrow> 'o bridge_world \<Rightarrow> 'o bridge_world" where
  "publish_lifecycle_event observers clock event_type error w =
     (let (bus, os) = publish observers (bc_bus clock) (lifecycle_event (bc_now clock) event_type error (bw_bridge w))
                        (bw_bus w, bw_observers w)
      in w\<lparr>bw_bus := bus, bw_observers := os\<rparr>)"

text \<open>A stream ends, raises an exception with some text, or the bridge's task is cancelled.\<close>

datatype stream_end = Ended | Failed string | Cancelled

record connection =
  cn_opened :: bridge_clock
  cn_events :: "(bridge_clock \<times> jval option \<times> jobj) list"
  cn_end :: stream_end
  cn_closed :: bridge_clock

text \<open>The settings of the reconnect delay. Doubling a float is exact, and where it would overflow the maximum is
  the smaller value, so the delays are rationals.\<close>

record backoff_settings =
  bk_initial :: rat
  bk_max :: rat

definition set_connected :: "bool \<Rightarrow> bridge_state \<Rightarrow> bridge_state" where
  "set_connected c b = b\<lparr>br_connected := c\<rparr>"

definition count_reconnect :: "bridge_state \<Rightarrow> bridge_state" where
  "count_reconnect b = b\<lparr>br_reconnects := br_reconnects b + 1\<rparr>"

definition on_bridge :: "(bridge_state \<Rightarrow> bridge_state) \<Rightarrow> 'o bridge_world \<Rightarrow> 'o bridge_world" where
  "on_bridge f w = w\<lparr>bw_bridge := f (bw_bridge w)\<rparr>"

definition note_failure :: "string \<Rightarrow> bridge_state \<Rightarrow> bridge_state" where
  "note_failure exc b =
     b\<lparr>br_connected := False,
       br_last_error := Some (case san_value (JStr exc) 300 of JStr s \<Rightarrow> s | _ \<Rightarrow> ''[redacted]'')\<rparr>"

definition stop_bridge :: "bridge_state \<Rightarrow> bridge_state" where
  "stop_bridge b = b\<lparr>br_running := False, br_connected := False\<rparr>"

record 'o bridge_run =
  rn_world :: "'o bridge_world"
  rn_backoff :: rat
  rn_delays :: "rat list"
  rn_stopped :: bool

definition start_run :: "backoff_settings \<Rightarrow> 'o bridge_world \<Rightarrow> 'o bridge_run" where
  "start_run bk w = \<lparr>rn_world = on_bridge (\<lambda>b. b\<lparr>br_running := True\<rparr>) w, rn_backoff = bk_initial bk, rn_delays = [],
     rn_stopped = False\<rparr>"

text \<open>Counting the reconnect, sleeping, and doubling the delay.\<close>

definition wait_and_retry :: "backoff_settings \<Rightarrow> 'o bridge_world \<Rightarrow> 'o bridge_run \<Rightarrow> 'o bridge_run" where
  "wait_and_retry bk w run =
     run\<lparr>rn_world := on_bridge count_reconnect w, rn_delays := rn_delays run @ [rn_backoff run],
         rn_backoff := min (bk_max bk) (rn_backoff run * 2)\<rparr>"

definition stop_run :: "'o bridge_world \<Rightarrow> 'o bridge_run \<Rightarrow> 'o bridge_run" where
  "stop_run w run = run\<lparr>rn_world := on_bridge stop_bridge w, rn_stopped := True\<rparr>"

definition deliver ::
    "bridge_settings \<Rightarrow> env \<Rightarrow> jobj \<Rightarrow> ('o \<Rightarrow> jval \<Rightarrow> 'o) list \<Rightarrow> bridge_clock \<times> jval option \<times> jobj \<Rightarrow> 'o bridge_world \<Rightarrow>
       'o bridge_world" where
  "deliver cfg tenv tool_metadata observers ev w =
     (case ev of (clock, fetched, raw) \<Rightarrow> snd (publish_raw_event cfg tenv tool_metadata observers clock fetched raw w))"

text \<open>One turn of the loop, and a cancellation while it sleeps.\<close>

datatype bridge_input = Connection connection | CancelledAsleep

definition run_connection ::
    "bridge_settings \<Rightarrow> backoff_settings \<Rightarrow> env \<Rightarrow> jobj \<Rightarrow> ('o \<Rightarrow> jval \<Rightarrow> 'o) list \<Rightarrow> connection \<Rightarrow> 'o bridge_run \<Rightarrow>
       'o bridge_run" where
  "run_connection cfg bk tenv tool_metadata observers c run =
     (let w0 = on_bridge (set_connected True) (rn_world run);
          opening = (if br_reconnects (bw_bridge w0) \<noteq> 0 then ''event_bridge.reconnected'' else ''event_bridge.connected'');
          w1 = publish_lifecycle_event observers (cn_opened c) opening [] w0;
          w2 = fold (deliver cfg tenv tool_metadata observers) (cn_events c) w1
      in case cn_end c of
           Ended \<Rightarrow> wait_and_retry bk (publish_lifecycle_event observers (cn_closed c) ''event_bridge.disconnected'' []
                     (on_bridge (set_connected False) w2)) run
         | Failed exc \<Rightarrow>
             (let w3 = on_bridge (note_failure exc) w2;
                  error = (case br_last_error (bw_bridge w3) of None \<Rightarrow> [] | Some e \<Rightarrow> e)
              in wait_and_retry bk (publish_lifecycle_event observers (cn_closed c) ''event_bridge.disconnected'' error w3) run)
         | Cancelled \<Rightarrow> stop_run w2 run)"

definition run_input ::
    "bridge_settings \<Rightarrow> backoff_settings \<Rightarrow> env \<Rightarrow> jobj \<Rightarrow> ('o \<Rightarrow> jval \<Rightarrow> 'o) list \<Rightarrow> bridge_input \<Rightarrow> 'o bridge_run \<Rightarrow>
       'o bridge_run" where
  "run_input cfg bk tenv tool_metadata observers i run =
     (if rn_stopped run then run
      else case i of
        Connection c \<Rightarrow> run_connection cfg bk tenv tool_metadata observers c run
      | CancelledAsleep \<Rightarrow> stop_run (rn_world run) run)"

definition run_forever ::
    "bridge_settings \<Rightarrow> backoff_settings \<Rightarrow> env \<Rightarrow> jobj \<Rightarrow> ('o \<Rightarrow> jval \<Rightarrow> 'o) list \<Rightarrow> bridge_input list \<Rightarrow> 'o bridge_world \<Rightarrow>
       'o bridge_run" where
  "run_forever cfg bk tenv tool_metadata observers inputs w =
     fold (run_input cfg bk tenv tool_metadata observers) inputs (start_run bk w)"

section \<open>What later steps keep of an event\<close>

named_theorems event_keys \<open>what a field of an event is after a step\<close>

declare put_all_other [event_keys]

lemma put_data_other [event_keys]: "k \<noteq> ''data'' \<Longrightarrow> jget (put_data extra e) k = jget e k"
  by (simp add: put_data_def)

lemma event_data_put [event_keys]: "event_data (put_data extra e) = put_all extra (event_data e)"
  by (simp add: put_data_def event_data_def)

lemma put_id_other [event_keys]: "k \<noteq> ek \<Longrightarrow> k \<noteq> ''data'' \<Longrightarrow> jget (put_id ek dk v e) k = jget e k"
  by (simp add: put_id_def event_keys)

lemma event_data_update [event_keys]: "k \<noteq> ''data'' \<Longrightarrow> event_data (AList.update k v e) = event_data e"
  by (simp add: event_data_def)

lemma opt_put_other [event_keys]: "k \<noteq> k' \<Longrightarrow> jget (opt_put c k' v e) k = jget e k"
  by (simp add: opt_put_def)

lemma attach_other [event_keys]: "k \<noteq> ''data'' \<Longrightarrow> jget (attach_permission_request e values n) k = jget e k"
  by (simp add: attach_permission_request_def event_keys split: option.split)

lemma event_data_attach [event_keys]:
  "k \<noteq> ''permission_request'' \<Longrightarrow> jget (event_data (attach_permission_request e values n)) k = jget (event_data e) k"
  by (simp add: attach_permission_request_def event_keys split: option.split)

lemma data_of_attach [event_keys]:
  assumes "jget e ''type'' = JStr ''permission.requested''" "permission_request_payload e values n = Some request"
  shows "jget (event_data (attach_permission_request e values n)) ''permission_request'' = JObj request"
  using assms by (simp add: attach_permission_request_def event_keys put_all_def)

lemma jget_if: "jget (if c then a else b) k = (if c then jget a k else jget b k)"
  by simp

lemma put_all_if_other: "k \<notin> fst ` set a \<Longrightarrow> jget (put_all (if c then a else []) d) k = jget d k"
  by (simp add: put_all_if event_keys)

lemma projected_protocol_keys:
  fixes cfg raw c t legacy "values" status e
  defines "e' \<equiv> apply_projected_protocol cfg raw c t legacy values status e"
  shows projected_protocol_type: "jget e' ''type'' = JStr (projected_type_of_event t legacy values status e)"
    and projected_protocol_legacy:
      "projected_type_of_event t legacy values status e \<noteq> legacy \<Longrightarrow> jget e' ''legacy_type'' = JStr legacy"
    and projected_protocol_session: "jget e' ''session_id'' = jget e ''session_id''"
    and projected_protocol_permission: "jget e' ''permission_id'' = jget e ''permission_id''"
    and projected_protocol_request: "jget e' ''request_id'' = jget e ''request_id''"
    and projected_protocol_opencode: "jget e' ''opencode_session_id'' = jget e ''opencode_session_id''"
    and projected_protocol_metadata: "jget (event_metadata e') ''replayed'' = jget (event_metadata e) ''replayed''"
proof -
  obtain p where p: "san_value (JObj (raw_properties raw c)) (bs_max_chars cfg) = JObj p" using san_value_obj by blast
  note unfolded = e'_def apply_projected_protocol_def event_metadata_def Let_def p jval.case put_all_append jget_update
  show "jget e' ''type'' = JStr (projected_type_of_event t legacy values status e)"
    by (simp add: unfolded event_keys put_all_if_other put_all_Cons del: put_all_append cong: if_cong)
  show "jget e' ''session_id'' = jget e ''session_id''" "jget e' ''permission_id'' = jget e ''permission_id''"
    "jget e' ''request_id'' = jget e ''request_id''" "jget e' ''opencode_session_id'' = jget e ''opencode_session_id''"
    by (simp_all add: unfolded event_keys put_all_if_other)
  show "jget (event_metadata e') ''replayed'' = jget (event_metadata e) ''replayed''"
    by (simp add: unfolded event_keys put_all_if_other)
  show "jget e' ''legacy_type'' = JStr legacy" if "projected_type_of_event t legacy values status e \<noteq> legacy"
    using that by (simp add: unfolded event_keys put_all_if_other put_all_Cons)
qed

lemma bind_traces_other [event_keys]:
  "k \<noteq> ''trace_context'' \<Longrightarrow> k \<noteq> ''data'' \<Longrightarrow> jget (bind_trace_contexts b e) k = jget e k"
  "k \<noteq> ''trace_context'' \<Longrightarrow> jget (event_data (bind_trace_contexts b e)) k = jget (event_data e) k"
  by (simp_all add: bind_trace_contexts_def Let_def event_keys split: jval.split)

lemma bind_properties_other [event_keys]:
  "k \<noteq> ''properties'' \<Longrightarrow> jget (bind_properties b e) k = jget e k"
  "event_data (bind_properties b e) = event_data e"
  by (simp_all add: bind_properties_def event_keys)

lemma bound_fields [event_keys]:
  "jget (apply_binding b e) ''session_id'' = JStr (rb_portal_session_id b)"
  "jget (apply_binding b e) ''request_id'' = JStr (rb_request_id b)"
  "jget (apply_binding b e) ''portal_request_id'' = JStr (rb_request_id b)"
  "jget (apply_binding b e) ''opencode_session_id'' = JStr (rb_opencode_session_id b)"
  by (simp_all add: apply_binding_def own_fields_def Let_def event_keys put_all_Cons)

lemma event_data_opt_put [event_keys]: "k \<noteq> ''data'' \<Longrightarrow> event_data (opt_put c k v e) = event_data e"
  by (simp add: opt_put_def event_keys)

lemma bound_other [event_keys]:
  "jget (apply_binding b e) ''type'' = jget e ''type''"
  "jget (apply_binding b e) ''legacy_type'' = jget e ''legacy_type''"
  "jget (apply_binding b e) ''metadata'' = jget e ''metadata''"
  "jget (event_data (apply_binding b e)) ''permission_request'' = jget (event_data e) ''permission_request''"
  by (simp_all add: apply_binding_def own_fields_def Let_def event_keys put_all_append put_all_if put_all_Cons)

section \<open>A permission question\<close>

text \<open>OpenCode asks for a permission (\<^verbatim>\<open>permission.asked\<close>, \<^verbatim>\<open>permission.updated\<close> without an answer, and the
  like), with an id; the id the bridge publishes.\<close>

definition raw_texts :: "jobj \<Rightarrow> texts" where
  "raw_texts raw = event_texts raw (canonical_event raw)"

definition raw_type_of :: "jobj \<Rightarrow> string" where
  "raw_type_of raw = raw_event_type raw (canonical_event raw)"

definition question_id :: "jobj \<Rightarrow> string" where
  "question_id raw = san_text (san_value (JStr (first_string (raw_texts raw) PERMISSION_ID_KEYS)) 300) 300"

definition asks_permission :: "jobj \<Rightarrow> bool" where
  "asks_permission raw =
     (let t = raw_type_of raw; status = status_value (raw_texts raw) in
      \<not> is_standard_event_type t \<and> compaction_event_type t status = [] \<and> \<not> is_retry t (canonical_event raw) status
      \<and> contains t ''permission'' \<and> permission_legacy_type t status [] = ''permission_request''
      \<and> truthy (san_value (JStr (first_string (raw_texts raw) PERMISSION_ID_KEYS)) 300) \<and> question_id raw \<noteq> [])"

lemma permission_type_default:
  "permission_legacy_type t s [] = ''permission_request'' \<Longrightarrow> permission_legacy_type t s d = ''permission_request''"
  by (auto simp: permission_legacy_type_def split: if_splits)

lemma question_legacy_type: "asks_permission raw \<Longrightarrow>
    legacy_type_of (raw_type_of raw) (canonical_event raw) (status_value (raw_texts raw)) di = ''permission_request''"
  by (simp add: asks_permission_def legacy_type_of_def plain_legacy_type_def Let_def permission_type_default)

lemma question_projected_type: "asks_permission raw \<Longrightarrow>
    projected_type_of_event (raw_type_of raw) ''permission_request'' v (status_value (raw_texts raw)) e
      = ''permission.requested''"
  by (simp add: asks_permission_def projected_type_of_event_def projected_type_def Let_def)

lemma raw_request_other [event_keys]:
  "k \<notin> {''raw_request_id'', ''opencode_request_id'', ''data''} \<Longrightarrow> jget (raw_request_fields v e) k = jget e k"
  by (simp add: raw_request_fields_def Let_def event_keys)

lemma permission_fields_id [event_keys]:
  "jget (permission_fields cfg legacy v e) ''permission_id'' = san_value (JStr (first_string v PERMISSION_ID_KEYS)) 300"
  "jget (permission_fields cfg legacy v e) ''metadata'' = jget e ''metadata''"
  by (simp_all add: permission_fields_def Let_def event_keys put_all_append put_all_if put_all_Cons)

lemma card_of_event:
  assumes "jget e ''permission_id'' = san_value (JStr s) 300" "truthy (san_value (JStr s) 300)"
    "san_text (san_value (JStr s) 300) 300 \<noteq> []"
  shows "\<exists>request. permission_request_payload e v n = Some request
    \<and> jget request ''permission_id'' = JStr (san_text (san_value (JStr s) 300) 300)"
  using assms by (simp add: permission_request_payload_def card_permission_id_def py_or_def Let_def)

lemma question_shape:
  assumes asks: "asks_permission raw"
  shows "\<exists>event v. projected_event cfg now ss tenv tasks tm role pm raw (canonical_event raw) (raw_type_of raw) (raw_texts raw)
      = attach_permission_request (apply_projected_protocol cfg raw (canonical_event raw) (raw_type_of raw)
          ''permission_request'' v (status_value (raw_texts raw)) event) v (bs_max_chars cfg)
    \<and> jget event ''permission_id'' = san_value (JStr (first_string (raw_texts raw) PERMISSION_ID_KEYS)) 300
    \<and> jget (event_metadata event) ''replayed'' = JNull"
  unfolding projected_event_def Let_def question_legacy_type [OF asks]
  by (intro exI conjI, rule refl) (simp_all add: event_keys add_trace_other event_metadata_def startswith_def)

text \<open>The published event of a question: its type, no sign of a replay, and the card Portal builds its dialog from.\<close>

lemma question_normalized:
  assumes asks: "asks_permission raw"
    and e: "e = projected_event cfg now ss tenv tasks tm role pm raw (canonical_event raw) (raw_type_of raw) (raw_texts raw)"
  shows "jget e ''type'' = JStr ''permission.requested''" "jget e ''legacy_type'' = JStr ''permission_request''"
    "jget (event_metadata e) ''replayed'' = JNull"
    "\<exists>request. jget (event_data e) ''permission_request'' = JObj request \<and> jget request ''permission_id'' = JStr (question_id raw)"
proof -
  from question_shape [OF asks] obtain event v where
    shape: "e = attach_permission_request (apply_projected_protocol cfg raw (canonical_event raw) (raw_type_of raw)
          ''permission_request'' v (status_value (raw_texts raw)) event) v (bs_max_chars cfg)"
    and ident: "jget event ''permission_id'' = san_value (JStr (first_string (raw_texts raw) PERMISSION_ID_KEYS)) 300"
    and fresh: "jget (event_metadata event) ''replayed'' = JNull"
    unfolding e by blast
  let ?p = "apply_projected_protocol cfg raw (canonical_event raw) (raw_type_of raw) ''permission_request'' v
    (status_value (raw_texts raw)) event"
  have type: "jget ?p ''type'' = JStr ''permission.requested''"
    by (simp add: projected_protocol_type question_projected_type [OF asks])
  then show "jget e ''type'' = JStr ''permission.requested''" by (simp add: shape event_keys)
  show "jget e ''legacy_type'' = JStr ''permission_request''"
    by (simp add: shape event_keys projected_protocol_legacy question_projected_type [OF asks])
  show "jget (event_metadata e) ''replayed'' = JNull"
    using fresh by (simp add: shape event_metadata_def event_keys projected_protocol_metadata [unfolded event_metadata_def])
  from asks have "truthy (san_value (JStr (first_string (raw_texts raw) PERMISSION_ID_KEYS)) 300)" "question_id raw \<noteq> []"
    by (simp_all add: asks_permission_def Let_def)
  with card_of_event [of ?p "first_string (raw_texts raw) PERMISSION_ID_KEYS" v "bs_max_chars cfg"] ident
  obtain request where "permission_request_payload ?p v (bs_max_chars cfg) = Some request"
    "jget request ''permission_id'' = JStr (question_id raw)"
    by (auto simp: projected_protocol_permission question_id_def)
  then show "\<exists>request. jget (event_data e) ''permission_request'' = JObj request
      \<and> jget request ''permission_id'' = JStr (question_id raw)"
    using type by (simp add: shape data_of_attach)
qed

lemma question_published:
  assumes asks: "asks_permission raw"
    and pub: "publish_raw_event cfg tenv tm obs clock fetched raw w = (e, w')"
  shows "jget e ''type'' = JStr ''permission.requested''" "jget e ''legacy_type'' = JStr ''permission_request''"
    "\<not> is_replayed e"
    "\<exists>request. jget (event_data e) ''permission_request'' = JObj request \<and> jget request ''permission_id'' = JStr (question_id raw)"
    "bw_observers w' = fold (\<lambda>f os. f os (JObj e)) obs (bw_observers w)"
proof -
  obtain ctx b1 where ctx: "observe_raw fetched raw (bw_bridge w) = (ctx, b1)" by fastforce
  let ?e = "projected_event cfg (bc_now clock) (bw_sessions w) tenv (bw_tasks w) tm (ec_role ctx) (ec_part ctx) raw
    (canonical_event raw) (raw_type_of raw) (raw_texts raw)"
  have norm: "normalize_opencode_event cfg (bc_now clock) (bw_sessions w) tenv (bw_tasks w) tm (ec_role ctx) (ec_part ctx)
      (JObj raw) = Some ?e"
    using asks by (simp add: normalize_opencode_event_def asks_permission_def Let_def raw_type_of_def raw_texts_def)
  have "e = ?e \<or> (\<exists>b. e = apply_binding b ?e)"
    using pub by (auto simp: publish_raw_event_def ctx norm bound_event_def Let_def
        split: option.splits if_splits prod.splits)
  then show "jget e ''type'' = JStr ''permission.requested''" "jget e ''legacy_type'' = JStr ''permission_request''"
    "\<not> is_replayed e"
    "\<exists>request. jget (event_data e) ''permission_request'' = JObj request \<and> jget request ''permission_id'' = JStr (question_id raw)"
    using question_normalized [OF asks refl, of cfg "bc_now clock" "bw_sessions w" tenv "bw_tasks w" tm "ec_role ctx" "ec_part ctx"]
    by (auto simp: event_keys is_replayed_def event_metadata_def split: jval.split)
  show "bw_observers w' = fold (\<lambda>f os. f os (JObj e)) obs (bw_observers w)"
    using pub by (auto simp: publish_raw_event_def publish_def ctx norm Let_def split: prod.splits)
qed

lemma traced_session [event_keys]:
  assumes "jget event ''session_id'' = JStr s" "s \<noteq> []"
  shows "jget (add_trace_context event tc) ''session_id'' = JStr (trace_text (JStr s))"
proof -
  have "jget (kept_trace_key c ''session_id'' d) ''session_id'' = JStr (trace_text (JStr s))"
    if "jget d ''session_id'' = JStr s" for c d
    using that assms by (simp add: kept_trace_key_def)
  then show ?thesis using assms by (simp add: add_trace_context_def Let_def trace_key_other)
qed

definition session_of_question :: "session_store \<Rightarrow> jobj \<Rightarrow> string" where
  "session_of_question ss raw =
     (let oid = opencode_session_id_of (raw_texts raw) in
      case (if oid \<noteq> [] then find_by_opencode_session_id ss oid else None) of
        Some r \<Rightarrow> sr_portal_session_id r | None \<Rightarrow> oid)"

lemma question_session:
  assumes asks: "asks_permission raw" and s: "san_str (session_of_question ss raw) 300 = s" "s \<noteq> []"
  shows "jget (projected_event cfg now ss tenv tasks tm role pm raw (canonical_event raw) (raw_type_of raw) (raw_texts raw))
      ''session_id'' = JStr (trace_text (JStr s))"
  using s unfolding projected_event_def Let_def question_legacy_type [OF asks]
  by (simp add: event_keys projected_protocol_session session_of_question_def Let_def startswith_def
      permission_fields_def put_all_append put_all_if put_all_Cons cong: option.case_cong)

lemma observed_question:
  assumes "\<not> is_replayed e" "jget e ''type'' = JStr ''permission.requested''"
    and "jget e ''legacy_type'' = JStr ''permission_request''"
    and "jget (event_data e) ''permission_request'' = JObj request" "jget request ''permission_id'' = JStr pid" "pid \<noteq> []"
    and "str_or_empty (jget e ''session_id'') = sid" "sid \<noteq> []"
  shows "\<exists>osid rid. observe_event st (JObj e) = record_entry st sid pid request osid rid"
proof -
  have "truthy (jget e ''session_id'')" "py_str (jget e ''session_id'') = sid"
    using assms(7,8) by (auto simp: str_or_empty_def py_or_def split: if_splits)
  then have "pi_event_session_id e = sid" by (simp add: pi_event_session_id_def)
  moreover have "pi_types e = [''permission.requested'', ''permission_request'']"
    using assms(2,3) by (simp add: pi_types_def pi_event_type_def pi_legacy_type_def py_or_def)
  ultimately show ?thesis
    using assms by (simp add: observe_refines classify_def event_data_def meets_def CLEAR_EVENT_TYPES_def
        RESOLVED_EVENT_TYPES_def RUN_ENDED_EVENT_TYPES_def RECORD_EVENT_TYPES_def py_or_def) blast
qed

text \<open>C35: A permission question of OpenCode reaches the member: once the bridge has published it for a session, that
  session's pending-input answer shows a card with the question's id, and the card can be answered unless an answer to
  this same question is already in flight.\<close>

theorem question_becomes_claimable:
  assumes "asks_permission raw"
    and "publish_raw_event cfg tenv tm [observe_event] clock fetched raw w = (e, w')"
    and "str_or_empty (jget e ''session_id'') = sid" "sid \<noteq> []" "0 < max_sessions (bw_observers w)"
  shows "\<exists>request. jget (pi_snapshot (bw_observers w') sid) ''permission_request'' = JObj request
    \<and> jget request ''permission_id'' = JStr (question_id raw)
    \<and> (fst (pi_claim (bw_observers w') sid (question_id raw)) \<longleftrightarrow>
        \<not> (\<exists>x. pi_get (bw_observers w) sid = Some x \<and> pp_permission_id x = question_id raw \<and> pp_claimed x))"
proof -
  note pub = question_published [OF assms(1,2)]
  from pub(4) obtain request where card: "jget (event_data e) ''permission_request'' = JObj request"
    "jget request ''permission_id'' = JStr (question_id raw)" by blast
  have "question_id raw \<noteq> []" using assms(1) by (simp add: asks_permission_def Let_def)
  from observed_question [OF pub(3,1,2) card this assms(3,4)] obtain osid rid where
    "bw_observers w' = record_entry (bw_observers w) sid (question_id raw) request osid rid"
    using pub(5) by fastforce
  then show ?thesis using card assms(5)
    by (simp add: record_entry_def pi_snapshot_def pi_claim_def pi_get_def map_of_evict_put_last split: option.split)
qed

definition asked_raw :: jobj where
  "asked_raw = [(''type'', JStr ''permission.asked''),
     (''properties'', JObj [(''id'', JStr ''per_1''), (''sessionID'', JStr ''ses_1'')])]"

definition quiet_settings :: bridge_settings where
  "quiet_settings = \<lparr>bs_max_chars = 200, bs_agent_id = ''a''\<rparr>"

definition quiet_clock :: bridge_clock where
  "quiet_clock = \<lparr>bc_now = \<lparr>bn_stamp = ''t'', bn_ts = Finite 1 ''1.0''\<rparr>, bc_bind = (1, 1, 1, 1), bc_bus = (1, 1, 1), bc_log = (''t'', 1, 1)\<rparr>"

definition quiet_world :: "pending_store bridge_world" where
  "quiet_world = \<lparr>bw_bridge = new_bridge, bw_sessions = \<lparr>ss_sessions = [], ss_index = None, ss_backups = []\<rparr>, bw_bindings = None,
     bw_bus = new_event_bus 10 60 1, bw_observers = new_pending_store 4, bw_tasks = [], bw_chatlogs = None\<rparr>"

lemma asked_raw_texts: "raw_type_of asked_raw = ''permission.asked''"
  "raw_texts asked_raw = [(''type'', ''permission.asked''), (''id'', ''per_1''), (''sessionID'', ''ses_1'')]"
  by code_simp+

lemma asked_plain_values: "san_value (JStr ''per_1'') 300 = JStr ''per_1''" "san_value (JStr ''ses_1'') 300 = JStr ''ses_1''"
  by code_simp+

lemma asked_id: "question_id asked_raw = ''per_1''"
  by (simp add: question_id_def asked_raw_texts first_string_def vget_def PERMISSION_ID_KEYS_def asked_plain_values san_text_def)

lemma asked_asks: "asks_permission asked_raw"
  by code_simp

lemma asked_session: "jget (fst (publish_raw_event quiet_settings (\<lambda>x. None) [] obs quiet_clock None asked_raw quiet_world))
    ''session_id'' = JStr ''ses_1''"
proof -
  have oid: "opencode_session_id_of (raw_texts asked_raw) = ''ses_1''"
    by (simp add: opencode_session_id_of_def asked_raw_texts first_string_def vget_def)
  have "san_str (session_of_question (bw_sessions quiet_world) asked_raw) 300 = ''ses_1''"
    by (simp add: session_of_question_def oid quiet_world_def find_by_opencode_session_id_def san_str_def san_text_def
        asked_plain_values session_list_active_def Let_def)
  moreover have "trace_text (JStr ''ses_1'') = ''ses_1''" by (simp add: trace_text_def asked_plain_values)
  ultimately have "jget (projected_event quiet_settings now (bw_sessions quiet_world) tenv tasks tm role pm asked_raw
      (canonical_event asked_raw) (raw_type_of asked_raw) (raw_texts asked_raw)) ''session_id'' = JStr ''ses_1''"
    for now tenv tasks tm role pm
    by (simp add: question_session [OF asked_asks])
  moreover have "\<not> is_standard_event_type (raw_event_type asked_raw (canonical_event asked_raw))"
    using asked_asks by (simp add: asks_permission_def Let_def raw_type_of_def)
  ultimately show ?thesis
    by (simp add: publish_raw_event_def normalize_opencode_event_def Let_def raw_type_of_def raw_texts_def bound_event_def
        quiet_world_def split: prod.split)
qed

lemma quiet_room: "0 < max_sessions (bw_observers quiet_world)"
  by (simp add: quiet_world_def new_pending_store_def)

lemma question_becomes_claimable_witness:
  "\<exists>request. jget (pi_snapshot (bw_observers (snd (publish_raw_event quiet_settings (\<lambda>x. None) [] [observe_event] quiet_clock None
      asked_raw quiet_world))) ''ses_1'') ''permission_request'' = JObj request \<and> jget request ''permission_id'' = JStr ''per_1''"
  using question_becomes_claimable [OF asked_asks prod.collapse [symmetric], of quiet_settings "\<lambda>x. None" "[]" quiet_clock None
      quiet_world "''ses_1''"]
  by (auto simp: asked_session asked_id quiet_room)

section \<open>Deltas of a message\<close>

lemma projected_event_type: "\<exists>v ev. jget (projected_event cfg now ss tenv tasks tm role pm raw c t values0) ''type''
    = JStr (projected_type_of_event t (legacy_type_of t c (status_value values0) (read_delta c values0 role pm)) v
        (status_value values0) ev)"
  unfolding projected_event_def Let_def 
  by (intro exI, subst attach_other, simp, rule projected_protocol_type)

text \<open>What is published for an event of no standard type: the projected event, with its request filled in when the
  event is bound.\<close>

lemma published_projection:
  assumes "\<not> is_standard_event_type (raw_type_of raw)"
    and "publish_raw_event cfg tenv tm obs clock fetched raw w = (e, w')"
  defines "ctx \<equiv> fst (observe_raw fetched raw (bw_bridge w))"
  defines "p \<equiv> projected_event cfg (bc_now clock) (bw_sessions w) tenv (bw_tasks w) tm (ec_role ctx) (ec_part ctx) raw
    (canonical_event raw) (raw_type_of raw) (raw_texts raw)"
  shows "e = p \<or> (\<exists>b. e = apply_binding b p)"
proof -
  obtain b1 where ctx: "observe_raw fetched raw (bw_bridge w) = (ctx, b1)" unfolding ctx_def by (cases "observe_raw fetched raw (bw_bridge w)") simp
  have norm: "normalize_opencode_event cfg (bc_now clock) (bw_sessions w) tenv (bw_tasks w) tm (ec_role ctx) (ec_part ctx)
      (JObj raw) = Some p"
    using assms(1) by (simp add: normalize_opencode_event_def p_def Let_def raw_type_of_def raw_texts_def)
  show ?thesis
    using assms(2) by (auto simp: publish_raw_event_def ctx norm bound_event_def Let_def
        split: option.splits if_splits prod.splits)
qed

lemma delta_projection:
  "projected_type_of_event ''message.part.delta'' (legacy_type_of ''message.part.delta'' c status di) v status ev
     = ''session.next.text.delta'' \<longleftrightarrow> di_visible di \<and> \<not> is_retry ''message.part.delta'' c status"
proof -
  have "legacy_type_of ''message.part.delta'' c status di
      = (if is_retry ''message.part.delta'' c status then ''provider.retry'' else if di_visible di then ''message.delta''
         else ''opencode.raw'')"
    by (simp add: legacy_type_of_def plain_legacy_type_def Let_def startswith_def)
  moreover have "compaction_event_type ''message.part.delta'' status = []"
    by (simp add: compaction_event_type_def any_token_def startswith_def)
  moreover have "\<not> is_standard_event_type ''message.part.delta''"
    by (simp add: is_standard_event_type_def STANDARD_EVENT_TYPES_def startswith_def)
  ultimately show ?thesis
    by (simp add: projected_type_of_event_def projected_type_def Let_def startswith_def)
qed

lemma user_role_seen:
  assumes "role = Some r" "py_lower (py_strip r) = ''user''" shows "''user'' \<in> set (role_candidates v c role m)"
proof -
  have "py_strip r \<noteq> []" using assms(2) by (auto simp: py_lower_def)
  then show ?thesis using assms by (simp add: role_candidates_def role_text_def)
qed

lemma hidden_delta:
  assumes "(\<exists>r. role = Some r \<and> py_lower (py_strip r) = ''user'')
    \<or> (\<exists>p. pm = Some p \<and> (bool_true (jget p ''ignored'') \<or> bool_true (jget p ''synthetic'')))"
  shows "\<not> di_visible (read_delta c v role pm)"
proof -
  have "p \<noteq> []" if "bool_true (jget p ''ignored'') \<or> bool_true (jget p ''synthetic'')" for p
    using that by (auto simp: bool_true_def)
  then show ?thesis
    using assms user_role_seen [of role _ v c] by (auto simp: read_delta_def Let_def delta_part_meta_def)
qed

text \<open>The member never sees the wrong text as the assistant's answer: a piece of a message is published as assistant
  text exactly when its own fields and what the bridge has learned of the message say so, and never when the bridge
  knows (from an earlier event or by asking OpenCode) that the message is the user's or the part is hidden.\<close>

theorem user_text_is_not_published:
  assumes "raw_type_of raw = ''message.part.delta''"
    and "publish_raw_event cfg tenv tm obs clock fetched raw w = (e, w')"
    and "observe_raw fetched raw (bw_bridge w) = (ctx, b1)"
  shows "(jget e ''type'' = JStr ''session.next.text.delta'' \<longleftrightarrow>
      di_visible (read_delta (canonical_event raw) (raw_texts raw) (ec_role ctx) (ec_part ctx))
      \<and> \<not> is_retry ''message.part.delta'' (canonical_event raw) (status_value (raw_texts raw)))
    \<and> ((\<exists>r. ec_role ctx = Some r \<and> py_lower (py_strip r) = ''user'')
       \<or> (\<exists>p. ec_part ctx = Some p \<and> (bool_true (jget p ''ignored'') \<or> bool_true (jget p ''synthetic'')))
       \<longrightarrow> jget e ''type'' \<noteq> JStr ''session.next.text.delta'')"
proof -
  have "\<not> is_standard_event_type (raw_type_of raw)"
    by (simp add: assms(1) is_standard_event_type_def STANDARD_EVENT_TYPES_def startswith_def)
  from published_projection [OF this assms(2)] assms(1,3)
  obtain v ev where "jget e ''type'' = JStr (projected_type_of_event ''message.part.delta''
      (legacy_type_of ''message.part.delta'' (canonical_event raw) (status_value (raw_texts raw))
        (read_delta (canonical_event raw) (raw_texts raw) (ec_role ctx) (ec_part ctx))) v (status_value (raw_texts raw)) ev)"
    using projected_event_type [of cfg "bc_now clock" "bw_sessions w" tenv "bw_tasks w" tm "ec_role ctx" "ec_part ctx" raw
        "canonical_event raw" "raw_type_of raw" "raw_texts raw"]
    by (auto simp: bound_other)
  then show ?thesis using hidden_delta [of "ec_role ctx" "ec_part ctx"] by (simp add: delta_projection) 
qed

definition user_delta :: jobj where
  "user_delta = [(''type'', JStr ''message.part.delta''), (''properties'', JObj [(''sessionID'', JStr ''ses_1''),
     (''messageID'', JStr ''msg_1''), (''partID'', JStr ''prt_1''), (''field'', JStr ''text''), (''delta'', JStr ''hi'')])]"

definition informed_world :: "pending_store bridge_world" where
  "informed_world = quiet_world\<lparr>bw_bridge := put_role ''ses_1'' ''msg_1'' ''user'' new_bridge\<rparr>"

lemma user_delta_type: "raw_type_of user_delta = ''message.part.delta''"
  by code_simp

lemma user_delta_role: "ec_role (fst (observe_raw None user_delta (bw_bridge informed_world))) = Some ''user''"
  by (simp add: informed_world_def) code_simp

lemma user_text_is_not_published_witness:
  "jget (fst (publish_raw_event quiet_settings (\<lambda>x. None) [] [observe_event] quiet_clock None user_delta informed_world)) ''type''
     \<noteq> JStr ''session.next.text.delta''"
proof -
  have "py_lower (py_strip ''user'') = ''user''" by code_simp
  then show ?thesis
    using user_text_is_not_published [OF user_delta_type prod.collapse [symmetric] prod.collapse [symmetric],
        of quiet_settings "\<lambda>x. None" "[]" "[observe_event]" quiet_clock None informed_world] user_delta_role
    by blast
qed

section \<open>The request of an event\<close>

lemma exact_address:
  assumes "fst (binding_resolve_exact t1 t2 oid mid tid False st) = Some b" "binding_inv st"
  shows "\<not> rb_completed b \<and> rb_opencode_session_id b = oid \<and> (\<exists>a \<in> set (binding_addresses st). b = rb_heap st ! a)"
proof -
  let ?st = "prune_expired t1 st"
  obtain a where a: "lookup_exact ?st oid mid tid = Some a" and b: "\<not> rb_completed b" "b = rb_heap st ! a"
    using assms(1) by (auto simp: binding_resolve_exact_def Let_def split: option.splits if_splits)
  have "rb_opencode_session_id (rb_heap ?st ! a) = oid"
    using a prune_inv [OF assms(2), of t1]
    by (auto simp: lookup_exact_def Let_def binding_inv_def split: if_splits dest!: filed_lookup)
  then show ?thesis using b lookup_exact_address [OF a] prune_addresses [of t1 st] by auto
qed

lemma resolved_address:
  assumes "fst (binding_resolve t1 t2 oid mid tid st) = Some b" "binding_inv st"
  shows "\<not> rb_completed b \<and> rb_opencode_session_id b = oid \<and> (\<exists>a \<in> set (binding_addresses st). b = rb_heap st ! a)"
proof -
  have "rb_opencode_session_id b = oid"
    using assms(1) prune_inv [OF assms(2), of t1]
    by (auto simp: binding_resolve_def lookup_exact_def Let_def binding_inv_def split: option.splits if_splits
        dest!: filed_lookup)
  then show ?thesis using found_address [OF assms(1)] by blast
qed

lemma closed_not: "request_closed rid st \<Longrightarrow> a \<in> set (binding_addresses st) \<Longrightarrow> b = rb_heap st ! a \<Longrightarrow>
    \<not> rb_completed b \<Longrightarrow> rb_request_id b \<noteq> rid"
  by (auto simp: request_closed_def)

lemma event_binding:
  assumes found: "fst (binding_for_event t sid mid tid st) = Some b" and inv: "binding_inv st"
  shows "\<not> rb_completed b \<and> rb_opencode_session_id b = sid \<and> (request_closed rid st \<longrightarrow> rb_request_id b \<noteq> rid)"
proof -
  obtain t1 t2 t3 t4 where t: "t = (t1, t2, t3, t4)" by (cases t)
  have exact_inv: "binding_inv (snd (binding_resolve_exact t1 t2 sid mid tid False st))"
    using inv by (simp add: binding_resolve_exact_def Let_def prune_inv)
  have exact_closed: "request_closed rid (snd (binding_resolve_exact t1 t2 sid mid tid False st))" if "request_closed rid st"
    using that by (simp add: binding_resolve_exact_def Let_def closed_prune)
  from found consider (exact) "fst (binding_resolve_exact t1 t2 sid mid tid False st) = Some b"
    | (later) "fst (binding_resolve t3 t4 sid mid tid (snd (binding_resolve_exact t1 t2 sid mid tid False st))) = Some b"
    | (session) "fst (binding_resolve t3 t4 sid mid tid st) = Some b"
    by (auto simp: binding_for_event_def t split: prod.splits if_splits option.splits)
  then show ?thesis
  proof cases
    case exact then show ?thesis using exact_address [OF exact inv] closed_not by blast
  next
    case later then show ?thesis
      using resolved_address [OF later exact_inv] exact_closed closed_not by blast
  next
    case session then show ?thesis using resolved_address [OF session inv] closed_not by blast
  qed
qed

lemma bound_places:
  "jget (event_data (apply_binding b e)) ''request_id'' = JStr (rb_request_id b)"
  "jget (obj_or_empty (jget (apply_binding b e) ''properties'')) ''request_id'' = JStr (rb_request_id b)"
  "jget (obj_or_empty (jget (apply_binding b e) ''trace_context'')) ''request_id'' = JStr (rb_request_id b)"
  by (simp_all add: apply_binding_def own_fields_def Let_def event_keys put_all_append put_all_if put_all_Cons
      bind_properties_def) (simp add: bind_trace_contexts_def Let_def bind_trace_def event_keys put_all_Cons split: jval.split)

text \<open>Whose event it is: when a request is bound to what the event names, the published event carries that
  request in all four places Portal reads and its Portal session, the request is still open, was bound to
  the very OpenCode session of the event, and is none that was completed before.\<close>

theorem event_carries_its_open_request:
  assumes "publish_raw_event cfg tenv tm obs clock fetched raw w = (e, w')"
    and "observe_raw fetched raw (bw_bridge w) = (ctx, b1)"
    and "normalize_opencode_event cfg (bc_now clock) (bw_sessions w) tenv (bw_tasks w) tm (ec_role ctx) (ec_part ctx)
           (JObj raw) = Some event"
    and "bw_bindings w = Some st" "binding_inv st" "ec_session_id ctx \<noteq> []"
    and "fst (binding_for_event (bc_bind clock) (ec_session_id ctx) (ec_message_id ctx)
           (str_or_empty (jget event ''task_id'')) st) = Some b"
  shows "jget e ''request_id'' = JStr (rb_request_id b) \<and> jget e ''session_id'' = JStr (rb_portal_session_id b)
    \<and> jget (event_data e) ''request_id'' = JStr (rb_request_id b)
    \<and> jget (obj_or_empty (jget e ''properties'')) ''request_id'' = JStr (rb_request_id b)
    \<and> jget (obj_or_empty (jget e ''trace_context'')) ''request_id'' = JStr (rb_request_id b)
    \<and> \<not> rb_completed b \<and> rb_opencode_session_id b = ec_session_id ctx
    \<and> (\<forall>rid. request_closed rid st \<longrightarrow> rb_request_id b \<noteq> rid)"
proof -
  have "e = apply_binding b event"
    using assms(1-4,6,7) by (auto simp: publish_raw_event_def bound_event_def Let_def split: prod.splits)
  then show ?thesis using event_binding [OF assms(7,5)] by (simp add: bound_fields bound_places)
qed

definition bound_world :: "pending_store bridge_world" where
  "bound_world = quiet_world\<lparr>bw_bindings := Some (bind_active 0 0 ''ses_1'' ''p'' ''r'' ''chat'' [] 60 new_binding_store)\<rparr>"

lemma bound_world_binding: "fst (binding_for_event (bc_bind quiet_clock) ''ses_1'' [] tid
    (bind_active 0 0 ''ses_1'' ''p'' ''r'' ''chat'' [] 60 new_binding_store)) = Some (new_binding 0 ''ses_1'' ''p'' ''r'' ''chat'' [] [] 60)"
  by (simp add: quiet_clock_def binding_for_event_def binding_resolve_exact_def binding_resolve_def lookup_exact_def
      bind_active_def prune_expired_def prune_dict_def new_binding_store_def new_binding_def binding_live_def Let_def)

lemma asked_context: "observe_raw None asked_raw b = (\<lparr>ec_session_id = ''ses_1'', ec_message_id = [], ec_role = None, ec_part = None\<rparr>, b)"
proof -
  have "opencode_session_id_of (raw_texts asked_raw) = ''ses_1''" "raw_message_id (canonical_event asked_raw) (raw_texts asked_raw) = []"
    by code_simp+
  then show ?thesis using asked_raw_texts by (simp add: observe_raw_def Let_def raw_texts_def raw_type_of_def)
qed

lemma event_carries_its_open_request_witness:
  "jget (fst (publish_raw_event quiet_settings (\<lambda>x. None) [] [observe_event] quiet_clock None asked_raw bound_world)) ''request_id''
     = JStr ''r''"
proof -
  have inv: "binding_inv (bind_active 0 0 ''ses_1'' ''p'' ''r'' ''chat'' [] 60 new_binding_store)"
    by (intro bind_active_inv binding_inv_new)
  have "\<not> is_standard_event_type (raw_event_type asked_raw (canonical_event asked_raw))"
    using asked_asks by (simp add: asks_permission_def Let_def raw_type_of_def)
  then have norm: "\<exists>event. normalize_opencode_event quiet_settings (bc_now quiet_clock) (bw_sessions bound_world) (\<lambda>x. None)
      (bw_tasks bound_world) [] None None (JObj asked_raw) = Some event"
    by (simp add: normalize_opencode_event_def Let_def)
  show ?thesis
    using event_carries_its_open_request [OF prod.collapse [symmetric] asked_context _ _ inv, where cfg = quiet_settings
        and tenv = "\<lambda>x. None" and tm = "[]" and obs = "[observe_event]" and clock = quiet_clock and w = bound_world] norm
    by (auto simp: bound_world_def bound_world_binding new_binding_def)
qed

section \<open>The bridge over time\<close>

definition caches_ok :: "bridge_state \<Rightarrow> bool" where
  "caches_ok b = (length (br_roles b) \<le> CACHE_LIMIT \<and> length (br_parts b) \<le> CACHE_LIMIT
     \<and> dict_ok (br_roles b) \<and> dict_ok (br_parts b))"

lemma cache_put_ok: "dict_ok c \<Longrightarrow> length (cache_put_limited k v n c) \<le> n \<and> dict_ok (cache_put_limited k v n c)"
  by (simp add: cache_put_limited_def)

lemma put_caches: "caches_ok b \<Longrightarrow> caches_ok (put_role s m r b)" "caches_ok b \<Longrightarrow> caches_ok (put_part s m i p b)"
  by (simp_all add: caches_ok_def put_role_def put_part_def cache_put_ok)

lemma learn_caches: "caches_ok b \<Longrightarrow> caches_ok (learn_message s m payload b)"
proof -
  have "caches_ok b \<Longrightarrow> caches_ok (fold (learn_part s m) parts b)" for parts m b
    by (induction parts arbitrary: b) (auto simp: learn_part_def Let_def put_caches)
  then show "caches_ok b \<Longrightarrow> caches_ok (learn_message s m payload b)"
    by (simp add: learn_message_def Let_def put_caches)
qed

lemma observe_caches: "caches_ok b \<Longrightarrow> caches_ok (snd (observe_raw fetched raw b))"
  by (simp add: observe_raw_def Let_def put_caches learn_caches split: option.split)

text \<open>Publishing leaves the connection's own fields alone.\<close>

lemma observe_frame [simp]:
  "br_running (snd (observe_raw fetched raw b)) = br_running b"
  "br_reconnects (snd (observe_raw fetched raw b)) = br_reconnects b"
proof -
  have part: "br_running (fold (learn_part s m) parts b) = br_running b \<and> br_reconnects (fold (learn_part s m) parts b) = br_reconnects b"
    for s m parts b
    by (induction parts arbitrary: b) (auto simp: learn_part_def put_part_def Let_def)
  show "br_running (snd (observe_raw fetched raw b)) = br_running b"
    "br_reconnects (snd (observe_raw fetched raw b)) = br_reconnects b"
    by (simp_all add: observe_raw_def learn_message_def put_part_def put_role_def Let_def part split: option.split)
qed

lemma publish_bridge:
  "\<exists>t l. bw_bridge (snd (publish_raw_event cfg tenv tm obs clock fetched raw w))
     = (snd (observe_raw fetched raw (bw_bridge w)))\<lparr>br_last_event_at := t, br_last_raw_type := l\<rparr>"
  by (auto simp: publish_raw_event_def Let_def split: prod.splits)

lemma deliver_bridge [simp]:
  "br_running (bw_bridge (deliver cfg tenv tm obs ev w)) = br_running (bw_bridge w)"
  "br_reconnects (bw_bridge (deliver cfg tenv tm obs ev w)) = br_reconnects (bw_bridge w)"
  "caches_ok (bw_bridge w) \<Longrightarrow> caches_ok (bw_bridge (deliver cfg tenv tm obs ev w))"
proof -
  obtain clock fetched raw where ev: "ev = (clock, fetched, raw)" by (cases ev)
  obtain t l where b: "bw_bridge (snd (publish_raw_event cfg tenv tm obs clock fetched raw w))
     = (snd (observe_raw fetched raw (bw_bridge w)))\<lparr>br_last_event_at := t, br_last_raw_type := l\<rparr>"
    using publish_bridge by blast
  show "br_running (bw_bridge (deliver cfg tenv tm obs ev w)) = br_running (bw_bridge w)"
    "br_reconnects (bw_bridge (deliver cfg tenv tm obs ev w)) = br_reconnects (bw_bridge w)"
    by (simp_all add: deliver_def ev b)
  show "caches_ok (bw_bridge (deliver cfg tenv tm obs ev w))" if "caches_ok (bw_bridge w)"
    using observe_caches [OF that] by (simp add: deliver_def ev b caches_ok_def)
qed

lemma deliver_all [simp]:
  "br_running (bw_bridge (fold (deliver cfg tenv tm obs) evs w)) = br_running (bw_bridge w)"
  "br_reconnects (bw_bridge (fold (deliver cfg tenv tm obs) evs w)) = br_reconnects (bw_bridge w)"
  "caches_ok (bw_bridge w) \<Longrightarrow> caches_ok (bw_bridge (fold (deliver cfg tenv tm obs) evs w))"
  by (induction evs arbitrary: w) auto

lemma lifecycle_bridge [simp]: "bw_bridge (publish_lifecycle_event obs c t e w) = bw_bridge w"
  by (simp add: publish_lifecycle_event_def split: prod.split)

lemma on_bridge_bridge [simp]: "bw_bridge (on_bridge f w) = f (bw_bridge w)"
  by (simp add: on_bridge_def)

lemmas bridge_steps = run_input_def run_connection_def wait_and_retry_def stop_run_def start_run_def set_connected_def
  count_reconnect_def note_failure_def stop_bridge_def Let_def

lemma run_input_caches:
  "caches_ok (bw_bridge (rn_world run)) \<Longrightarrow> caches_ok (bw_bridge (rn_world (run_input cfg bk tenv tm obs i run)))"
proof -
  assume ok: "caches_ok (bw_bridge (rn_world run))"
  have "caches_ok (b\<lparr>br_connected := c\<rparr>) = caches_ok b" for b c by (simp add: caches_ok_def)
  moreover have "caches_ok (b\<lparr>br_reconnects := n\<rparr>) = caches_ok b" for b n by (simp add: caches_ok_def)
  moreover have "caches_ok (b\<lparr>br_running := c, br_connected := d\<rparr>) = caches_ok b" for b c d by (simp add: caches_ok_def)
  moreover have "caches_ok (b\<lparr>br_connected := c, br_last_error := d\<rparr>) = caches_ok b" for b c d by (simp add: caches_ok_def)
  ultimately show ?thesis
    using ok by (simp add: bridge_steps split: bridge_input.split stream_end.split del: bridge_state.update_convs)
qed

text \<open>The bridge's memory stays bounded whatever OpenCode sends and however often the stream breaks.\<close>

theorem bridge_caches_bounded:
  assumes "bw_bridge w = new_bridge"
  shows "caches_ok (bw_bridge (rn_world (run_forever cfg bk tenv tm obs inputs w)))"
proof -
  have "caches_ok (bw_bridge (rn_world (start_run bk w)))"
    by (simp add: start_run_def assms new_bridge_def caches_ok_def)
  then have "caches_ok (bw_bridge (rn_world (fold (run_input cfg bk tenv tm obs) inputs (start_run bk w))))"
    by (induction inputs rule: rev_induct) (auto simp: run_input_caches)
  then show ?thesis by (simp add: run_forever_def)
qed

definition reconnect_delay :: "backoff_settings \<Rightarrow> nat \<Rightarrow> rat" where
  "reconnect_delay bk n = (if n = 0 then bk_initial bk else min (bk_max bk) (bk_initial bk * 2 ^ n))"

lemma next_delay: "0 \<le> bk_max bk \<Longrightarrow> min (bk_max bk) (reconnect_delay bk n * 2) = reconnect_delay bk (Suc n)"
  by (auto simp: reconnect_delay_def min_def)

lemma connection_step:
  assumes "\<not> rn_stopped run" "cn_end c \<noteq> Cancelled"
  shows "\<not> rn_stopped (run_input cfg bk tenv tm obs (Connection c) run)"
    and "br_running (bw_bridge (rn_world (run_input cfg bk tenv tm obs (Connection c) run)))
      = br_running (bw_bridge (rn_world run))"
    and "br_reconnects (bw_bridge (rn_world (run_input cfg bk tenv tm obs (Connection c) run)))
      = br_reconnects (bw_bridge (rn_world run)) + 1"
    and "rn_delays (run_input cfg bk tenv tm obs (Connection c) run) = rn_delays run @ [rn_backoff run]"
    and "rn_backoff (run_input cfg bk tenv tm obs (Connection c) run) = min (bk_max bk) (rn_backoff run * 2)"
  using assms by (simp_all add: bridge_steps split: stream_end.split)

text \<open>The bridge never gives up and never hammers: as long as it is not cancelled it stays running whatever the streams
  deliver and however they end, counts every reconnect, and waits before the n-th one the initial delay doubled n times,
  cut at the maximum.\<close>

theorem reconnects_with_doubling_delays:
  assumes "0 \<le> bk_max bk" "list_all (\<lambda>c. cn_end c \<noteq> Cancelled) conns"
  shows "let run = run_forever cfg bk tenv tm obs (List.map Connection conns) w; b = bw_bridge (rn_world run) in
    \<not> rn_stopped run \<and> br_running b \<and> br_reconnects b = br_reconnects (bw_bridge w) + length conns
    \<and> rn_delays run = List.map (reconnect_delay bk) [0..<length conns]"
proof -
  have "\<not> rn_stopped run \<and> br_running (bw_bridge (rn_world run))
      \<and> br_reconnects (bw_bridge (rn_world run)) = br_reconnects (bw_bridge w) + length conns
      \<and> rn_delays run = List.map (reconnect_delay bk) [0..<length conns] \<and> rn_backoff run = reconnect_delay bk (length conns)"
    if "run = fold (run_input cfg bk tenv tm obs) (List.map Connection conns) (start_run bk w)" for run
    using assms(2) that
  proof (induction conns arbitrary: run rule: rev_induct)
    case Nil
    then show ?case by (simp add: start_run_def reconnect_delay_def)
  next
    case (snoc c cs)
    let ?run = "fold (run_input cfg bk tenv tm obs) (List.map Connection cs) (start_run bk w)"
    have run: "run = run_input cfg bk tenv tm obs (Connection c) ?run" using snoc.prems(2) by simp
    have "cn_end c \<noteq> Cancelled" using snoc.prems(1) by simp
    then show ?case
      using snoc.IH [OF _ refl] snoc.prems(1) next_delay [OF assms(1), of "length cs"]
      by (simp add: run connection_step)
  qed
  then show ?thesis by (simp add: run_forever_def)
qed

lemma reconnects_with_doubling_delays_witness:
  "rn_delays (run_forever quiet_settings \<lparr>bk_initial = 1, bk_max = 30\<rparr> (\<lambda>x. None) [] [observe_event]
     (List.map Connection [\<lparr>cn_opened = quiet_clock, cn_events = [], cn_end = Ended, cn_closed = quiet_clock\<rparr>,
        \<lparr>cn_opened = quiet_clock, cn_events = [], cn_end = Failed ''refused'', cn_closed = quiet_clock\<rparr>]) quiet_world) = [1, 2]"
  using reconnects_with_doubling_delays [of "\<lparr>bk_initial = 1, bk_max = 30\<rparr>" "[\<lparr>cn_opened = quiet_clock, cn_events = [],
      cn_end = Ended, cn_closed = quiet_clock\<rparr>, \<lparr>cn_opened = quiet_clock, cn_events = [], cn_end = Failed ''refused'',
      cn_closed = quiet_clock\<rparr>]" quiet_settings "\<lambda>x. None" "[]" "[observe_event]" quiet_world]
  by (simp add: Let_def reconnect_delay_def)

end
