(* ===== verification/UsageTracker.thy ===== *)
theory UsageTracker
  imports CopilotPricing MessageAdapter JsonText ThinkingEvents
begin

text \<open>
  \<^verbatim>\<open>usage_tracker.py\<close>: the usage a message or payload books, the row written for a chat run or a title call, and
  the summary of a period. The usage file is its text; a row is read with \<^verbatim>\<open>json.loads\<close> line by line.
  \<open>shown\<close> stands for \<^verbatim>\<open>repr\<close> of a float, \<open>aware\<close> for \<^verbatim>\<open>datetime.fromisoformat\<close> of a text with an offset (\<^verbatim>\<open>None\<close>:
  it raises, or the time is naive and its comparison raises), and \<open>fsum\<close> for the float part of
  \<^verbatim>\<open>sum\<close>, whose last digits depend on the Python version. A usage without entries is \<^verbatim>\<open>None\<close>.
\<close>

definition TOKEN_FIELDS :: "string list" where
  "TOKEN_FIELDS = [''input_tokens'', ''cached_input_tokens'', ''cache_write_tokens'', ''output_tokens'', ''reasoning_tokens'']"

text \<open>\<^verbatim>\<open>_safe_float\<close>: what is no finite number reads as zero. The integer reader is \<open>safe_int\<close> of theory PyFloat.\<close>

definition safe_float :: "jval \<Rightarrow> rat" where
  "safe_float v =
     (let finite = (\<lambda>r. case r of Inr (FFin x) \<Rightarrow> x | _ \<Rightarrow> 0) in
      case v of JNull \<Rightarrow> 0 | JBool b \<Rightarrow> 0
      | JStr s \<Rightarrow> if py_strip s = [] then 0 else finite (py_float (JStr (py_strip s)))
      | _ \<Rightarrow> finite (py_float v))"

record usage =
  us_input :: int
  us_cached :: int
  us_written :: int
  us_output :: int
  us_reasoning :: int
  us_cost :: ffloat

text \<open>The first truthy of some fields of dicts, else the last one.\<close>

fun py_or_list :: "jval list \<Rightarrow> jval" where
  "py_or_list [] = JNull"
| "py_or_list [v] = v"
| "py_or_list (v # vs) = py_or v (py_or_list vs)"

definition usage_from_usage_block :: "jobj \<Rightarrow> usage" where
  "usage_from_usage_block raw =
     (let g = jget raw;
          input_details = obj_or_empty (py_or (g ''input_tokens_details'') (g ''prompt_tokens_details''));
          output_details = obj_or_empty (py_or (g ''output_tokens_details'') (g ''completion_tokens_details''));
          int_of = (\<lambda>vs. safe_int (py_or_list vs) 0)
      in \<lparr>us_input = int_of [g ''input_tokens'', g ''prompt_tokens''],
          us_cached = int_of [g ''cached_input_tokens'', jget input_details ''cached_tokens'', g ''cache_read_tokens''],
          us_written = int_of [g ''cache_write_tokens'', g ''cache_creation_input_tokens''],
          us_output = int_of [g ''output_tokens'', g ''completion_tokens''],
          us_reasoning = int_of [g ''reasoning_tokens'', jget output_details ''reasoning_tokens''],
          us_cost = FFin (safe_float (py_or_list [g ''cost'', g ''total_cost'']))\<rparr>)"

definition usage_from_tokens :: "jobj \<Rightarrow> jval \<Rightarrow> usage" where
  "usage_from_tokens tokens cost =
     (let g = jget tokens; cache = obj_or_empty (g ''cache''); int_of = (\<lambda>vs. safe_int (py_or_list vs) 0);
          cache_read = int_of [jget cache ''read'', g ''cache_read_tokens''];
          cache_write = int_of [jget cache ''write'', g ''cache_write_tokens''];
          fresh_input = int_of [g ''input'', g ''input_tokens'', g ''prompt_tokens'']
      in \<lparr>us_input = fresh_input + cache_read + cache_write, us_cached = cache_read, us_written = cache_write,
          us_output = int_of [g ''output'', g ''output_tokens'', g ''completion_tokens''],
          us_reasoning = int_of [g ''reasoning'', g ''reasoning_tokens''], us_cost = FFin (safe_float cost)\<rparr>)"

definition message_info :: "jobj \<Rightarrow> jobj" where
  "message_info message = obj_or_empty (jget message ''info'')"

definition booked_tokens :: "jobj \<Rightarrow> usage option" where
  "booked_tokens source =
     (case jget source ''tokens'' of JObj tokens \<Rightarrow>
        if tokens \<noteq> [] then Some (usage_from_tokens tokens (jget source ''cost'')) else None | _ \<Rightarrow> None)"

function (sequential) usage_from_message :: "jval \<Rightarrow> usage option" where
  "usage_from_message (JObj m) =
     (case jget m ''usage'' of
        JObj raw \<Rightarrow> Some (usage_from_usage_block raw)
      | _ \<Rightarrow> (case booked_tokens (message_info m) of
           Some u \<Rightarrow> Some u
         | None \<Rightarrow> (case booked_tokens m of
              Some u \<Rightarrow> Some u
            | None \<Rightarrow> (case jget m ''message'' of JObj nested \<Rightarrow> usage_from_message (JObj nested) | _ \<Rightarrow> None))))"
| "usage_from_message _ = None"
  by pat_completeness auto
termination by (relation "measure size") (auto simp: jget_smaller simp del: jval.size)

lemma jget_size: "size (jget d k) < size (JObj d)"
proof (cases "map_of d k")
  case (Some v)
  then have "size v < size (JObj d)" by (induction d) (auto split: if_splits)
  then show ?thesis using Some by (simp add: jget_def)
qed (simp add: jget_def)

text \<open>The latest item of a payload that books any usage: a list is read from its end.\<close>

function (sequential) extract_usage :: "jval \<Rightarrow> usage option" and extract_last :: "jval list \<Rightarrow> usage option" where
  "extract_usage (JList xs) = extract_last xs"
| "extract_usage (JObj d) =
     (case usage_from_message (JObj d) of
        Some u \<Rightarrow> Some u
      | None \<Rightarrow> (case extract_usage (jget d ''message'') of Some u \<Rightarrow> Some u | None \<Rightarrow> extract_usage (jget d ''data'')))"
| "extract_usage _ = None"
| "extract_last [] = None"
| "extract_last (x # xs) = (case extract_last xs of Some u \<Rightarrow> Some u | None \<Rightarrow> extract_usage x)"
  by pat_completeness auto
termination by (relation "measure (case_sum size (size_list size))") (use jget_size [unfolded jval.size] in auto)

definition sum_usage :: "usage list \<Rightarrow> usage" where
  "sum_usage usages =
     fold (\<lambda>u t. \<lparr>us_input = us_input t + safe_int (JInt (us_input u)) 0, us_cached = us_cached t + safe_int (JInt (us_cached u)) 0,
            us_written = us_written t + safe_int (JInt (us_written u)) 0, us_output = us_output t + safe_int (JInt (us_output u)) 0,
            us_reasoning = us_reasoning t + safe_int (JInt (us_reasoning u)) 0, us_cost = ff_add (us_cost t) (us_cost u)\<rparr>)
       usages \<lparr>us_input = 0, us_cached = 0, us_written = 0, us_output = 0, us_reasoning = 0, us_cost = FFin 0\<rparr>"

text \<open>The text a payload names its model or provider with.\<close>

definition text_aliases :: "string \<Rightarrow> string list" where
  "text_aliases key =
     key # (if key = ''model'' then [''modelID'', ''model_id''] else if key = ''provider'' then [''providerID'', ''provider_id''] else [])"

function (sequential) extract_text_field :: "string \<Rightarrow> jval \<Rightarrow> string option"
  and extract_last_text :: "string \<Rightarrow> jval list \<Rightarrow> string option" where
  "extract_text_field key (JList xs) = extract_last_text key xs"
| "extract_text_field key (JObj d) =
     (case first_text_field d [key] of
        Some s \<Rightarrow> Some s
      | None \<Rightarrow> (case first_text_field (obj_or_empty (jget d ''info'')) (text_aliases key) of
           Some s \<Rightarrow> Some s
         | None \<Rightarrow> (case extract_text_field key (jget d ''message'') of
              Some s \<Rightarrow> Some s | None \<Rightarrow> extract_text_field key (jget d ''data''))))"
| "extract_text_field key _ = None"
| "extract_last_text key [] = None"
| "extract_last_text key (x # xs) =
     (case extract_last_text key xs of Some s \<Rightarrow> Some s | None \<Rightarrow> extract_text_field key x)"
  by pat_completeness auto
termination by (relation "measure (case_sum (size \<circ> snd) (size_list size \<circ> snd))") (use jget_size [unfolded jval.size] in auto)

section \<open>Rows\<close>

definition number_json :: "(rat \<Rightarrow> string) \<Rightarrow> ffloat \<Rightarrow> jval" where
  "number_json shown f = JFloat (case f of FFin r \<Rightarrow> Finite r (shown r) | FInf neg \<Rightarrow> if neg then NegInf else PosInf | FNaN \<Rightarrow> NotANumber)"

definition usage_json :: "(rat \<Rightarrow> string) \<Rightarrow> usage \<Rightarrow> jobj" where
  "usage_json shown u =
     [(''input_tokens'', JInt (us_input u)), (''cached_input_tokens'', JInt (us_cached u)), (''cache_write_tokens'', JInt (us_written u)),
      (''output_tokens'', JInt (us_output u)), (''reasoning_tokens'', JInt (us_reasoning u)), (''cost'', number_json shown (us_cost u))]"

definition normalized_usage :: "jobj \<Rightarrow> usage" where
  "normalized_usage usage =
     (if list_all (jhas usage) TOKEN_FIELDS
      then let n = (\<lambda>k. safe_int (jget usage k) 0) in
           \<lparr>us_input = n ''input_tokens'', us_cached = n ''cached_input_tokens'', us_written = n ''cache_write_tokens'',
            us_output = n ''output_tokens'', us_reasoning = n ''reasoning_tokens'',
            us_cost = FFin (safe_float (py_or (jget usage ''cost'') (jget usage ''total_cost'')))\<rparr>
      else usage_from_usage_block usage)"

definition ff_times :: "ffloat \<Rightarrow> rat \<Rightarrow> ffloat" where
  "ff_times x c = (case x of FFin a \<Rightarrow> ff_of_rat (a * c) | y \<Rightarrow> y)"

text \<open>The reported cost when there is one, else the estimate in dollars.\<close>

definition row_cost :: "usage \<Rightarrow> ffloat option \<Rightarrow> ffloat" where
  "row_cost u credits =
     (if (case us_cost u of FFin r \<Rightarrow> 0 < r | FInf neg \<Rightarrow> \<not> neg | FNaN \<Rightarrow> False) then us_cost u
      else case credits of None \<Rightarrow> FFin 0 | Some c \<Rightarrow> ff_round 6 (ff_times c CREDIT_USD))"

definition PRICING_SOURCE :: string where
  "PRICING_SOURCE = ''static''"

definition tier_json :: "pricing_tier option \<Rightarrow> jval" where
  "tier_json t = (case t of None \<Rightarrow> JNull | Some DEFAULT_TIER \<Rightarrow> JStr ''default'' | Some LONG_CONTEXT_TIER \<Rightarrow> JStr ''long_context'')"

definition pricing_json :: "pricing_payload \<Rightarrow> jobj" where
  "pricing_json p = [(''model'', JStr (pl_model p)), (''tier'', tier_json (pl_tier p)), (''source'', JStr PRICING_SOURCE),
     (''threshold_tokens'', case pl_threshold_tokens p of None \<Rightarrow> JNull | Some n \<Rightarrow> JInt n)]"

record row_args =
  ra_type :: string
  ra_session_id :: string
  ra_request_id :: string
  ra_model :: string
  ra_provider :: string
  ra_messages :: int
  ra_usage :: jobj
  ra_iterations :: "int option"
  ra_largest_prompt :: "int option"

definition opt_number :: "int option \<Rightarrow> jval" where
  "opt_number n = (case n of None \<Rightarrow> JNull | Some i \<Rightarrow> JInt i)"

definition usage_row :: "(rat \<Rightarrow> string) \<Rightarrow> string \<Rightarrow> row_args \<Rightarrow> py_error + jobj" where
  "usage_row shown stamp a =
     (let u = normalized_usage (ra_usage a); opt_float = (\<lambda>x. case x of None \<Rightarrow> JNull | Some f \<Rightarrow> number_json shown f) in
      case estimate_usage_credits (JStr (ra_model a)) (usage_json shown u) (opt_number (ra_largest_prompt a)) of
        Inl e \<Rightarrow> Inl e
      | Inr est \<Rightarrow> Inr
          [(''timestamp'', JStr stamp), (''type'', JStr (ra_type a)), (''session_id'', JStr (ra_session_id a)),
           (''request_id'', JStr (ra_request_id a)), (''model'', JStr (ra_model a)), (''provider'', JStr (ra_provider a)),
           (''requests'', JInt 1), (''messages'', JInt (ra_messages a)), (''input_tokens'', JInt (us_input u)),
           (''output_tokens'', JInt (us_output u)), (''cached_input_tokens'', JInt (us_cached u)),
           (''cache_write_tokens'', JInt (us_written u)), (''reasoning_tokens'', JInt (us_reasoning u)),
           (''cost'', number_json shown (row_cost u (ue_credits est))), (''iterations'', opt_number (ra_iterations a)),
           (''cache_hit_ratio'', opt_float (ue_cache_hit_ratio est)), (''estimated_credits'', opt_float (ue_credits est)),
           (''pricing_tier'', tier_json (pl_tier (ue_pricing est))), (''pricing'', JObj (pricing_json (ue_pricing est)))])"

definition write_row :: "(rat \<Rightarrow> string) \<Rightarrow> string \<Rightarrow> row_args \<Rightarrow> string \<Rightarrow> py_error + (jobj \<times> string)" where
  "write_row shown stamp a file =
     (case usage_row shown stamp a of
        Inl e \<Rightarrow> Inl e | Inr row \<Rightarrow> Inr (row, file @ spaced_dumps (JObj row) @ [CHR 0x0A]))"

text \<open>The texts \<open>x or found or "unknown"\<close>, for a text or \<^verbatim>\<open>None\<close>.\<close>

definition or_unknown :: "string option \<Rightarrow> string option \<Rightarrow> string" where
  "or_unknown given found =
     (case (given, found) of
        (Some g, _) \<Rightarrow> if g \<noteq> [] then g else (case found of Some f \<Rightarrow> f | None \<Rightarrow> ''unknown'')
      | (None, Some f) \<Rightarrow> f | (None, None) \<Rightarrow> ''unknown'')"

record chat_args =
  ca_session_id :: string
  ca_request_id :: string
  ca_model :: "string option"
  ca_provider :: "string option"
  ca_response :: jval
  ca_run_messages :: "jval list"
  ca_iterations :: "int option"

definition step_usages :: "jval list \<Rightarrow> usage list" where
  "step_usages messages = concat (List.map (\<lambda>m. case usage_from_message m of None \<Rightarrow> [] | Some u \<Rightarrow> [u]) messages)"

definition chat_row_args :: "(rat \<Rightarrow> string) \<Rightarrow> chat_args \<Rightarrow> row_args" where
  "chat_row_args shown a =
     (let steps = step_usages (ca_run_messages a);
          found = (if steps \<noteq> [] then Some (sum_usage steps)
                   else extract_usage (py_or (ca_response a) (JObj [])))
      in \<lparr>ra_type = ''chat'', ra_session_id = ca_session_id a, ra_request_id = ca_request_id a,
          ra_model = or_unknown (ca_model a) (extract_text_field ''model'' (ca_response a)),
          ra_provider = or_unknown (ca_provider a) (extract_text_field ''provider'' (ca_response a)), ra_messages = 2,
          ra_usage = (case found of None \<Rightarrow> [] | Some u \<Rightarrow> usage_json shown u),
          ra_iterations = (if steps \<noteq> [] \<and> ca_iterations a = None then Some (int (length steps)) else ca_iterations a),
          ra_largest_prompt = (if steps \<noteq> [] then Some (Max (set (List.map (\<lambda>u. safe_int (JInt (us_input u)) 0) steps))) else None)\<rparr>)"

definition record_chat :: "(rat \<Rightarrow> string) \<Rightarrow> string \<Rightarrow> chat_args \<Rightarrow> string \<Rightarrow> py_error + (jobj \<times> string)" where
  "record_chat shown stamp a file = write_row shown stamp (chat_row_args shown a) file"

definition TITLE_TASK_TYPE :: string where
  "TITLE_TASK_TYPE = ''session_title''"

definition record_session_title ::
    "(rat \<Rightarrow> string) \<Rightarrow> string \<Rightarrow> string \<Rightarrow> string option \<Rightarrow> string option \<Rightarrow> jval \<Rightarrow> string \<Rightarrow> py_error + (jobj \<times> string)" where
  "record_session_title shown stamp sid model provider usage file =
     (let raw = obj_or_empty usage in
      write_row shown stamp
        \<lparr>ra_type = TITLE_TASK_TYPE, ra_session_id = sid, ra_request_id = [], ra_model = or_unknown model None,
         ra_provider = or_unknown provider None, ra_messages = 0,
         ra_usage = (case extract_usage (JObj raw) of Some u \<Rightarrow> usage_json shown u | None \<Rightarrow> raw), ra_iterations = Some 1,
         ra_largest_prompt = None\<rparr> file)"

section \<open>The summary\<close>

record totals =
  tt_requests :: int
  tt_messages :: int
  tt_input :: int
  tt_output :: int
  tt_cached :: int
  tt_written :: int
  tt_reasoning :: int
  tt_cost :: ffloat
  tt_credits :: ffloat
  tt_estimated_rows :: nat

definition sum_field :: "string \<Rightarrow> jobj list \<Rightarrow> int" where
  "sum_field k rows = sum_list (List.map (\<lambda>r. safe_int (jget r k) 0) rows)"

definition totals_of :: "(rat list \<Rightarrow> ffloat) \<Rightarrow> jobj list \<Rightarrow> totals" where
  "totals_of fsum rows =
     \<lparr>tt_requests = sum_field ''requests'' rows, tt_messages = sum_field ''messages'' rows,
      tt_input = sum_field ''input_tokens'' rows, tt_output = sum_field ''output_tokens'' rows,
      tt_cached = sum_field ''cached_input_tokens'' rows, tt_written = sum_field ''cache_write_tokens'' rows,
      tt_reasoning = sum_field ''reasoning_tokens'' rows,
      tt_cost = fsum (List.map (\<lambda>r. safe_float (jget r ''cost'')) rows),
      tt_credits = ff_round 2 (fsum (List.map (\<lambda>r. safe_float (jget r ''estimated_credits'')) rows)),
      tt_estimated_rows = length (filter (\<lambda>r. jget r ''estimated_credits'' \<noteq> JNull) rows)\<rparr>"

definition group_key :: "string \<Rightarrow> jobj \<Rightarrow> string" where
  "group_key key r = py_str (py_or (jget_def r key (JStr ''unknown'')) (JStr ''unknown''))"

definition add_to_group :: "string \<Rightarrow> jobj \<Rightarrow> (string, jobj list) odict \<Rightarrow> (string, jobj list) odict" where
  "add_to_group key r groups =
     (let k = group_key key r in
      AList.update k ((case map_of groups k of None \<Rightarrow> [] | Some rows \<Rightarrow> rows) @ [r]) groups)"

definition aggregate :: "(rat list \<Rightarrow> ffloat) \<Rightarrow> string \<Rightarrow> jobj list \<Rightarrow> (string \<times> totals) list" where
  "aggregate fsum key rows = List.map (\<lambda>(k, rs). (k, totals_of fsum rs)) (fold (add_to_group key) rows [])"

record usage_summary =
  sm_period_days :: int
  sm_global :: totals
  sm_by_model :: "(string \<times> totals) list"
  sm_by_provider :: "(string \<times> totals) list"

definition row_of_line :: "(string \<Rightarrow> rat option) \<Rightarrow> rat \<Rightarrow> string \<Rightarrow> jobj list" where
  "row_of_line aware cutoff line =
     (if py_strip line = [] then []
      else case json_loads line of
        Some (JObj row) \<Rightarrow>
          (case jget_def row ''timestamp'' (JStr []) of
             JStr s \<Rightarrow> (case aware (replace_char (CHR ''Z'') ''+00:00'' s) of
                Some ts \<Rightarrow> if cutoff \<le> ts then [row] else [] | None \<Rightarrow> [])
           | _ \<Rightarrow> [])
      | _ \<Rightarrow> [])"

definition usage_rows :: "(string \<Rightarrow> rat option) \<Rightarrow> rat \<Rightarrow> string option \<Rightarrow> jobj list" where
  "usage_rows aware cutoff file =
     (case file of None \<Rightarrow> [] | Some text \<Rightarrow> concat (List.map (row_of_line aware cutoff) (splitlines text)))"

definition summarize_usage ::
    "(rat list \<Rightarrow> ffloat) \<Rightarrow> (string \<Rightarrow> rat option) \<Rightarrow> rat \<Rightarrow> int \<Rightarrow> string option \<Rightarrow> usage_summary" where
  "summarize_usage fsum aware now days file =
     (let d = min 365 (max 1 days); rows = usage_rows aware (now - of_int d * 86400) file
      in \<lparr>sm_period_days = d, sm_global = totals_of fsum rows, sm_by_model = aggregate fsum ''model'' rows,
          sm_by_provider = aggregate fsum ''provider'' rows\<rparr>)"

section \<open>Groups and sums\<close>

definition over_groups :: "(jobj \<Rightarrow> int) \<Rightarrow> (string, jobj list) odict \<Rightarrow> int" where
  "over_groups f groups = sum_list (List.map (\<lambda>(k, rs). sum_list (List.map f rs)) groups)"

lemma over_groups_update:
  "dict_ok groups \<Longrightarrow> over_groups f (AList.update k rs groups)
     = over_groups f groups + sum_list (List.map f rs)
       - (case map_of groups k of None \<Rightarrow> 0 | Some old \<Rightarrow> sum_list (List.map f old))"
proof (induction groups)
  case (Cons x groups)
  obtain k' old where x: "x = (k', old)" by (cases x)
  have fresh: "map_of groups k' = None" using Cons.prems x by (simp add: map_of_eq_None_iff)
  show ?case using Cons x fresh by (cases "k' = k") (auto simp: over_groups_def split: option.splits)
qed (simp add: over_groups_def)

lemma add_to_group_sums:
  assumes "dict_ok groups"
  shows "over_groups f (add_to_group key r groups) = over_groups f groups + f r" "dict_ok (add_to_group key r groups)"
  using assms by (auto simp: add_to_group_def Let_def over_groups_update split: option.split)

lemma grouped_sums:
  "dict_ok groups \<Longrightarrow> over_groups f (fold (add_to_group key) rows groups) = over_groups f groups + sum_list (List.map f rows)
     \<and> dict_ok (fold (add_to_group key) rows groups)"
  by (induction rows arbitrary: groups) (auto simp: add_to_group_sums)

lemma aggregate_field:
  fixes f :: "jobj \<Rightarrow> int"
  assumes "\<And>rs. get (totals_of fsum rs) = sum_list (List.map f rs)"
  shows "sum_list (List.map (get \<circ> snd) (aggregate fsum key rows)) = get (totals_of fsum rows)"
proof -
  have "sum_list (List.map (get \<circ> snd) (aggregate fsum key rows)) = over_groups f (fold (add_to_group key) rows [])"
    by (simp add: aggregate_def over_groups_def comp_def case_prod_unfold assms)
  also have "\<dots> = sum_list (List.map f rows)" using grouped_sums [of "[]" f key rows] by (simp add: over_groups_def)
  finally show ?thesis by (simp add: assms)
qed

lemma aggregate_keys: "distinct (List.map fst (aggregate fsum key rows))"
proof -
  have "List.map fst (aggregate fsum key rows) = dkeys (fold (add_to_group key) rows [])"
    by (simp add: aggregate_def comp_def case_prod_unfold)
  then show ?thesis using grouped_sums [of "[]" "\<lambda>r. 0" key rows] by simp
qed

lemma counted_rows: "int (length (filter P xs)) = sum_list (List.map (\<lambda>x. if P x then 1 else 0) xs)"
  by (induction xs) auto

definition COUNTERS :: "(totals \<Rightarrow> int) list" where
  "COUNTERS = [tt_requests, tt_messages, tt_input, tt_output, tt_cached, tt_written, tt_reasoning,
     \<lambda>t. int (tt_estimated_rows t)]"

lemma counter_sums: "get \<in> set COUNTERS \<Longrightarrow> \<exists>f. \<forall>rs. get (totals_of fsum rs) = sum_list (List.map f rs)"
  by (auto simp: COUNTERS_def totals_of_def sum_field_def counted_rows)

text \<open>The summary adds up: every count of the period is split exactly over the models, and over the providers, so that
  no row is lost and none is counted twice, and each model and provider is listed once.\<close>

theorem usage_summary_adds_up:
  "let s = summarize_usage fsum aware now days file in
     list_all (\<lambda>count. sum_list (List.map (count \<circ> snd) (sm_by_model s)) = count (sm_global s)
       \<and> sum_list (List.map (count \<circ> snd) (sm_by_provider s)) = count (sm_global s)) COUNTERS
     \<and> distinct (List.map fst (sm_by_model s)) \<and> distinct (List.map fst (sm_by_provider s))
     \<and> 1 \<le> sm_period_days s \<and> sm_period_days s \<le> 365"
proof -
  have "sum_list (List.map (count \<circ> snd) (aggregate fsum key rows)) = count (totals_of fsum rows)"
    if "count \<in> set COUNTERS" for count key rows
    using counter_sums [OF that, of fsum] aggregate_field [of count fsum] by blast
  then show ?thesis by (simp add: summarize_usage_def Let_def list_all_iff aggregate_keys)
qed

section \<open>A chat run's row\<close>

definition exact :: "int \<Rightarrow> bool" where
  "exact i = (\<bar>i\<bar> < 2 ^ 53)"

lemma safe_int_fits [simp]: "exact i \<Longrightarrow> safe_int (JInt i) d = i"
  by (simp add: exact_def safe_int_exact)

lemma summed_counts:
  assumes "list_all (\<lambda>u. exact (us_input u) \<and> exact (us_output u)) us"
  shows "us_input (sum_usage us) = sum_list (List.map us_input us)"
    and "us_output (sum_usage us) = sum_list (List.map us_output us)"
proof -
  have "us_input (fold g us t) = us_input t + sum_list (List.map us_input us)
      \<and> us_output (fold g us t) = us_output t + sum_list (List.map us_output us)"
    if g: "\<And>u t. exact (us_input u) \<Longrightarrow> us_input (g u t) = us_input t + us_input u"
      "\<And>u t. exact (us_output u) \<Longrightarrow> us_output (g u t) = us_output t + us_output u" for g :: "usage \<Rightarrow> usage \<Rightarrow> usage" and t
    using assms by (induction us arbitrary: t) (auto simp: g)
  note * = this
  show "us_input (sum_usage us) = sum_list (List.map us_input us)"
    "us_output (sum_usage us) = sum_list (List.map us_output us)"
    unfolding sum_usage_def by (subst *; simp)+
qed

lemma normalized_usage_json:
  "exact (us_input u) \<Longrightarrow> us_input (normalized_usage (usage_json shown u)) = us_input u"
  "exact (us_output u) \<Longrightarrow> us_output (normalized_usage (usage_json shown u)) = us_output u"
  by (simp_all add: normalized_usage_def usage_json_def TOKEN_FIELDS_def Let_def)

lemma row_counts:
  "usage_row shown stamp a = Inr row \<Longrightarrow> jget row ''input_tokens'' = JInt (us_input (normalized_usage (ra_usage a)))"
  "usage_row shown stamp a = Inr row \<Longrightarrow> jget row ''output_tokens'' = JInt (us_output (normalized_usage (ra_usage a)))"
  "usage_row shown stamp a = Inr row \<Longrightarrow> jget row ''iterations'' = opt_number (ra_iterations a)"
  by (auto simp: usage_row_def Let_def split: sum.splits)

text \<open>A chat run is charged what its steps booked: as long as the counts are exactly representable, the row's prompt
  and answer tokens are the sums over the run's assistant messages that book any, one iteration is
  counted for each unless the caller says otherwise, and the row is appended to the file.\<close>

theorem chat_row_adds_up:
  assumes "record_chat shown stamp a file = Inr (row, file')" "step_usages (ca_run_messages a) = steps" "steps \<noteq> []"
    and "list_all (\<lambda>u. exact (us_input u) \<and> exact (us_output u)) steps"
    and "exact (sum_list (List.map us_input steps))" "exact (sum_list (List.map us_output steps))"
  shows "jget row ''input_tokens'' = JInt (sum_list (List.map us_input steps))
    \<and> jget row ''output_tokens'' = JInt (sum_list (List.map us_output steps))
    \<and> jget row ''iterations'' = JInt (case ca_iterations a of None \<Rightarrow> int (length steps) | Some n \<Rightarrow> n)
    \<and> file' = file @ spaced_dumps (JObj row) @ [CHR 0x0A]"
proof -
  from assms(1) have row: "usage_row shown stamp (chat_row_args shown a) = Inr row"
    and line: "file' = file @ spaced_dumps (JObj row) @ [CHR 0x0A]"
    by (auto simp: record_chat_def write_row_def split: sum.splits)
  have usage: "ra_usage (chat_row_args shown a) = usage_json shown (sum_usage steps)"
    and iterations: "ra_iterations (chat_row_args shown a) = (if ca_iterations a = None then Some (int (length steps)) else ca_iterations a)"
    using assms(2,3) by (simp_all add: chat_row_args_def Let_def)
  show ?thesis
    using row_counts [OF row] line assms(5,6)
    by (auto simp: usage iterations summed_counts [OF assms(4)] normalized_usage_json opt_number_def split: option.split)
qed

definition two_steps :: "jval list" where
  "two_steps = [JObj [(''info'', JObj [(''tokens'', JObj [(''input'', JInt 3), (''output'', JInt 2)])])],
     JObj [(''info'', JObj [(''tokens'', JObj [(''input'', JInt 4), (''output'', JInt 1)])])]]"

definition two_step_run :: chat_args where
  "two_step_run = \<lparr>ca_session_id = ''s'', ca_request_id = ''r'', ca_model = Some ''m'', ca_provider = Some ''p'', ca_response = JNull,
     ca_run_messages = two_steps, ca_iterations = None\<rparr>"

lemma read_count: "exact i \<Longrightarrow> i \<noteq> 0 \<Longrightarrow> safe_int (py_or (JInt i) v) 0 = i"
  by (simp add: py_or_def)

lemma small_count: "exact 1" "exact 2" "exact 3" "exact 4" "exact 7"
  by (simp_all add: exact_def)

lemma two_steps_booked: "step_usages two_steps =
    [\<lparr>us_input = 3, us_cached = 0, us_written = 0, us_output = 2, us_reasoning = 0, us_cost = FFin 0\<rparr>,
     \<lparr>us_input = 4, us_cached = 0, us_written = 0, us_output = 1, us_reasoning = 0, us_cost = FFin 0\<rparr>]"
  by (simp add: two_steps_def step_usages_def booked_tokens_def message_info_def usage_from_tokens_def Let_def read_count small_count)
    (simp add: safe_int_def safe_float_def py_or_def)

lemma unpriced_row: "pricing_for (JStr (ra_model a)) = None \<Longrightarrow> \<exists>row. usage_row shown stamp a = Inr row"
  by (simp add: usage_row_def estimate_usage_credits_def credits_for_def usd_for_def Let_def)

lemma normalized_m: "normalize_pricing_model_id (JStr ''m'') = ''m''"
  by code_simp

lemma unpriced_m: "pricing_for (JStr ''m'') = None"
  by (simp add: pricing_for_def normalized_m COPILOT_MODEL_PRICING_def gpt6_def)

lemma chat_row_adds_up_witness:
  "jget (fst (projr (record_chat (\<lambda>x. []) ''t'' two_step_run []))) ''input_tokens'' = JInt 7"
proof -
  have "ra_model (chat_row_args (\<lambda>x. []) two_step_run) = ''m''"
    by (simp add: chat_row_args_def two_step_run_def or_unknown_def Let_def)
  then obtain row where "usage_row (\<lambda>x. []) ''t'' (chat_row_args (\<lambda>x. []) two_step_run) = Inr row"
    using unpriced_row unpriced_m by metis
  then obtain line where rec: "record_chat (\<lambda>x. []) ''t'' two_step_run [] = Inr (row, line)"
    by (simp add: record_chat_def write_row_def)
  have "step_usages (ca_run_messages two_step_run) = step_usages two_steps" by (simp add: two_step_run_def)
  from chat_row_adds_up [OF rec this] show ?thesis by (simp add: rec two_steps_booked small_count)
qed

end
