(* ===== verification/SessionTitle.thy ===== *)
theory SessionTitle
  imports SessionStore UserDisplay UsageTracker ProfileStore CopilotAuth
begin

text \<open>
  \<^verbatim>\<open>session_title.py\<close> and \<^verbatim>\<open>reply_language.py\<close>: the cleaning of a generated name, the request to the title
  model, the texts it is made from, and the generation of a session's title as the steps between its two
  calls (reading the session from OpenCode, asking the model), so that renames and deletions may fall between
  them. The answers of the calls are arguments. Settings are the two loopback addresses; the reply-language block
  itself is a text of the prompts file and an argument.
\<close>

section \<open>The reply language\<close>

record reply_language =
  rl_tag :: string
  rl_strict :: bool

definition resolve_reply_language :: "string list \<Rightarrow> jval \<Rightarrow> reply_language option" where
  "resolve_reply_language known metadata =
     (case jget (obj_or_empty (jget (obj_or_empty metadata) ''portal_user'')) ''reply_language'' of
        JStr tag0 \<Rightarrow>
          (let tag = py_strip tag0;
               strict = (jget (obj_or_empty (jget (obj_or_empty metadata) ''portal_user'')) ''reply_language_strict'' = JBool True)
           in if tag \<notin> set known \<or> (tag = ''en'' \<and> \<not> strict) then None else Some \<lparr>rl_tag = tag, rl_strict = strict\<rparr>)
      | _ \<Rightarrow> None)"

definition prepend_reply_language_block ::
    "(reply_language \<Rightarrow> string) \<Rightarrow> string option \<Rightarrow> reply_language option \<Rightarrow> string option" where
  "prepend_reply_language_block render system lang =
     (case lang of None \<Rightarrow> system
      | Some l \<Rightarrow> Some (case system of
          Some s \<Rightarrow> if py_strip s \<noteq> [] then render l @ [CHR 0x0A, CHR 0x0A] @ s else render l | None \<Rightarrow> render l))"

section \<open>Cleaning a name\<close>

definition TITLE_MAX_CHARS :: nat where
  "TITLE_MAX_CHARS = 60"

definition TITLE_INPUT_MAX_CHARS :: nat where
  "TITLE_INPUT_MAX_CHARS = 1500"

definition TITLE_PREFIXES :: "string list" where
  "TITLE_PREFIXES = [''title'', ''session title'', ''session name'', ''name'']"

text \<open>\<^verbatim>\<open>_TITLE_PREFIX.sub("", text)\<close>: one of the words, a colon between blanks.\<close>

definition after_colon :: "string \<Rightarrow> string option" where
  "after_colon s = (case py_lstrip s of c # t \<Rightarrow> if c = CHR '':'' then Some (py_lstrip t) else None | [] \<Rightarrow> None)"

definition drop_title_prefix :: "string \<Rightarrow> string" where
  "drop_title_prefix s =
     (case find (\<lambda>p. startswith (py_lower s) p \<and> after_colon (drop (length p) s) \<noteq> None) TITLE_PREFIXES of
        None \<Rightarrow> s | Some p \<Rightarrow> the (after_colon (drop (length p) s)))"

definition TITLE_QUOTES :: string where
  "TITLE_QUOTES = [CHR 0x22, CHR 0x27, CHR 0x60]"

definition TRAILING_PUNCTUATION :: string where
  "TRAILING_PUNCTUATION = ''.!''"

text \<open>\<^verbatim>\<open>_EMPHASIS\<close>: the longest run of one to three stars or underscores that opens and closes the text.\<close>

definition emphasised_by :: "string \<Rightarrow> string \<Rightarrow> bool" where
  "emphasised_by s mark =
     (startswith s mark \<and> endswith s mark \<and> 2 * length mark < length s \<and> CHR 0x0A \<notin> set s)"

definition EMPHASIS_MARKS :: "string list" where
  "EMPHASIS_MARKS = [''***'', ''**'', ''*'', ''___'', ''__'', ''_'']"

definition drop_emphasis :: "string \<Rightarrow> string" where
  "drop_emphasis s =
     (case find (emphasised_by s) EMPHASIS_MARKS of
        None \<Rightarrow> s | Some m \<Rightarrow> py_strip (take (length s - 2 * length m) (drop (length m) s)))"

text \<open>\<^verbatim>\<open>re.sub(r"\s+", " ", text)\<close>.\<close>

function (sequential) collapse_spaces :: "string \<Rightarrow> string" where
  "collapse_spaces [] = []"
| "collapse_spaces (c # s) =
     (if py_isspace c then CHR '' '' # collapse_spaces (dropWhile py_isspace s) else c # collapse_spaces s)"
  by pat_completeness auto
termination by (relation "measure length") (auto simp: less_Suc_eq_le length_dropWhile_le)

definition strip_once :: "string \<Rightarrow> string" where
  "strip_once text =
     (let t1 = py_strip (drop_title_prefix text); t2 = py_strip (strip_chars TITLE_QUOTES t1); t3 = drop_emphasis t2;
          t4 = py_strip (rstrip_chars TRAILING_PUNCTUATION t3)
      in collapse_spaces t4)"

text \<open>What a cleaning step does not lengthen it leaves as it is, but for blanks that become spaces.\<close>

definition odd_blanks :: "string \<Rightarrow> nat" where
  "odd_blanks s = length (filter (\<lambda>c. py_isspace c \<and> c \<noteq> CHR '' '') s)"

definition shrinks :: "(string \<Rightarrow> string) \<Rightarrow> bool" where
  "shrinks f \<longleftrightarrow> (\<forall>s. length (f s) < length s \<or> f s = s)"

lemma shrinks_comp: "shrinks f \<Longrightarrow> shrinks g \<Longrightarrow> shrinks (\<lambda>s. f (g s))"
  unfolding shrinks_def by (metis order.strict_trans)

lemma dropWhile_shrinks: "length (dropWhile P s) < length s \<or> dropWhile P s = s"
  by (cases s) (auto intro: le_less_trans [OF length_dropWhile_le])

lemma strips_shrink: "shrinks py_strip" "shrinks (strip_chars cs)" "shrinks (rstrip_chars cs)" "shrinks py_lstrip"
proof -
  have l: "shrinks (dropWhile P)" for P by (simp add: shrinks_def dropWhile_shrinks)
  have r: "shrinks (\<lambda>s. rev (dropWhile P (rev s)))" for P
    unfolding shrinks_def by (metis dropWhile_shrinks length_rev rev_rev_ident)
  show "shrinks py_lstrip" using l by (simp add: py_lstrip_def [abs_def])
  show "shrinks (rstrip_chars cs)" using r by (simp add: rstrip_chars_def [abs_def])
  show "shrinks py_strip" using shrinks_comp [OF l r] shrinks_comp [OF r l]
    by (simp add: py_strip_def [abs_def] py_lstrip_def py_rstrip_def)
  show "shrinks (strip_chars cs)" using shrinks_comp [OF l r] shrinks_comp [OF r l]
    by (simp add: strip_chars_def [abs_def] rstrip_chars_def)
qed

lemma after_colon_shorter: "after_colon s = Some t \<Longrightarrow> length t < length s"
proof (induction s)
  case (Cons c s)
  have "length (py_lstrip x) \<le> length x" for x by (simp add: py_lstrip_def length_dropWhile_le)
  moreover have "py_lstrip (c # s) = d # u \<Longrightarrow> length u < length (c # s)" for d u
    by (metis calculation length_Cons less_eq_Suc_le)
  ultimately show ?case using Cons.prems
    by (auto simp: after_colon_def split: list.splits if_splits intro: le_less_trans)
qed (simp add: after_colon_def py_lstrip_def)

lemma prefix_shrinks: "shrinks drop_title_prefix"
proof -
  have "length (drop_title_prefix s) < length s \<or> drop_title_prefix s = s" for s
  proof (cases "find (\<lambda>p. startswith (py_lower s) p \<and> after_colon (drop (length p) s) \<noteq> None) TITLE_PREFIXES")
    case (Some p)
    then obtain t where t: "after_colon (drop (length p) s) = Some t" by (auto simp: find_Some_iff)
    then have "length t < length s" using after_colon_shorter [OF t] by simp
    then show ?thesis using Some t by (simp add: drop_title_prefix_def)
  qed (simp add: drop_title_prefix_def)
  then show ?thesis by (simp add: shrinks_def)
qed

lemma length_strip: "length (py_strip s) \<le> length s"
  using strips_shrink(1) unfolding shrinks_def by (metis le_eq_less_or_eq less_imp_le)

lemma emphasis_shrinks: "shrinks drop_emphasis"
proof -
  have "length (drop_emphasis s) < length s \<or> drop_emphasis s = s" for s
  proof (cases "find (emphasised_by s) EMPHASIS_MARKS")
    case (Some m)
    then have m: "emphasised_by s m" "m \<in> set EMPHASIS_MARKS" by (auto simp: find_Some_iff dest: nth_mem)
    then have "0 < length m" by (auto simp: EMPHASIS_MARKS_def)
    then have "length s - 2 * length m < length s" using m(1) by (cases m) (auto simp: emphasised_by_def)
    with m have "length (take (length s - 2 * length m) (drop (length m) s)) < length s" by (auto simp: emphasised_by_def)
    then have "length (py_strip (take (length s - 2 * length m) (drop (length m) s))) < length s"
      using length_strip le_less_trans by blast
    then show ?thesis using Some by (simp add: drop_emphasis_def)
  qed (simp add: drop_emphasis_def)
  then show ?thesis by (simp add: shrinks_def)
qed

definition strip_wrappers :: "string \<Rightarrow> string" where
  "strip_wrappers text = py_strip (rstrip_chars TRAILING_PUNCTUATION (drop_emphasis (py_strip (strip_chars TITLE_QUOTES
     (py_strip (drop_title_prefix text))))))"

lemma strip_once_collapses: "strip_once text = collapse_spaces (strip_wrappers text)"
  by (simp add: strip_once_def strip_wrappers_def Let_def)

lemma wrappers_shrink: "shrinks strip_wrappers"
  unfolding strip_wrappers_def [abs_def]
  by (rule shrinks_comp [OF strips_shrink(1) shrinks_comp [OF strips_shrink(3) shrinks_comp [OF emphasis_shrinks
        shrinks_comp [OF strips_shrink(1) shrinks_comp [OF strips_shrink(2) shrinks_comp [OF strips_shrink(1) prefix_shrinks]]]]]])

lemma collapse_length: "length (collapse_spaces s) \<le> length s"
  by (induction s rule: collapse_spaces.induct) (auto intro: order_trans [OF _ length_dropWhile_le])

lemma space_is_space: "py_isspace (CHR '' '')"
  by code_simp

lemma collapse_blanks: "odd_blanks (collapse_spaces s) = 0"
  by (induction s rule: collapse_spaces.induct) (auto simp: odd_blanks_def)

lemma collapse_same: "length (collapse_spaces s) = length s \<Longrightarrow> odd_blanks s = 0 \<Longrightarrow> collapse_spaces s = s"
proof (induction s rule: collapse_spaces.induct)
  case (2 c s)
  show ?case
  proof (cases "py_isspace c")
    case True
    then have "length (collapse_spaces (dropWhile py_isspace s)) = length s" "c = CHR '' ''" "odd_blanks s = 0"
      using 2(3,4) by (auto simp: odd_blanks_def split: if_splits)
    moreover from this(1) have "dropWhile py_isspace s = s"
      using collapse_length [of "dropWhile py_isspace s"] dropWhile_shrinks [of py_isspace s] by linarith
    ultimately show ?thesis using 2(1) True by simp
  next
    case False
    then show ?thesis using 2(2-4) by (auto simp: odd_blanks_def)
  qed
qed simp

lemma strip_once_decreases:
  assumes "strip_once s \<noteq> s"
  shows "length (strip_once s) < length s \<or> (length (strip_once s) = length s \<and> odd_blanks (strip_once s) < odd_blanks s)"
proof (cases "strip_wrappers s = s")
  case True
  then have s: "strip_once s = collapse_spaces s" by (simp add: strip_once_collapses)
  show ?thesis using collapse_length [of s] collapse_blanks [of s] collapse_same [of s] assms unfolding s
    by (metis gr0I le_neq_implies_less)
next
  case False
  then have "length (strip_wrappers s) < length s" using wrappers_shrink by (auto simp: shrinks_def)
  then show ?thesis using collapse_length le_less_trans unfolding strip_once_collapses by blast
qed

function clean_loop :: "string \<Rightarrow> string" where
  "clean_loop text = (if text = [] then [] else if strip_once text = text then text else clean_loop (strip_once text))"
  by pat_completeness auto
termination
  by (relation "measures [length, odd_blanks]") (use strip_once_decreases in auto)

declare clean_loop.simps [simp del]

definition first_line :: "string \<Rightarrow> string" where
  "first_line s = (case find (\<lambda>l. l \<noteq> []) (List.map py_strip (splitlines s)) of None \<Rightarrow> [] | Some l \<Rightarrow> l)"

definition clean_title :: "jval \<Rightarrow> string" where
  "clean_title raw =
     (let text = clean_loop (first_line (str_or_empty raw)) in
      if TITLE_MAX_CHARS < length text then py_rstrip (take (TITLE_MAX_CHARS - 1) text) @ ellipsis else text)"

lemma strip_once_Nil: "strip_once [] = []"
  by code_simp

lemma clean_loop_fixed: "strip_once (clean_loop t) = clean_loop t"
proof (induction t rule: clean_loop.induct)
  case (1 t)
  then show ?case by (subst (1 2) clean_loop.simps) (auto simp: strip_once_Nil)
qed

lemma clean_loop_stays: "strip_once t = t \<Longrightarrow> clean_loop t = t"
  by (simp add: clean_loop.simps)

lemma fixed_is_stripped:
  assumes "strip_once t = t"
  shows "py_strip t = t" "odd_blanks t = 0"
proof -
  have "length t \<le> length (strip_wrappers t)" using collapse_length [of "strip_wrappers t"] assms by (simp add: strip_once_collapses)
  then have "strip_wrappers t = t" using wrappers_shrink by (auto simp: shrinks_def dest: spec [of _ t])
  then show "py_strip t = t" by (metis py_strip_idem strip_wrappers_def)
  show "odd_blanks t = 0" using collapse_blanks [of "strip_wrappers t"] assms by (simp add: strip_once_collapses)
qed

lemma line_end_blank: "line_end c \<Longrightarrow> py_isspace c \<and> c \<noteq> CHR '' ''"
  by (auto simp: line_end_def py_isspace_def Let_def)

lemma one_line: "odd_blanks t = 0 \<Longrightarrow> t \<noteq> [] \<Longrightarrow> splitlines t = [t]"
proof -
  assume t: "odd_blanks t = 0" "t \<noteq> []"
  then have "\<not> line_end c" if "c \<in> set t" for c
    using that line_end_blank by (auto simp: odd_blanks_def filter_empty_conv)
  then have "takeWhile (\<lambda>c. \<not> line_end c) t = t" "dropWhile (\<lambda>c. \<not> line_end c) t = []"
    by (simp_all add: takeWhile_eq_all_conv dropWhile_eq_Nil_conv)
  then show ?thesis using t(2) by (subst splitlines.simps) (simp del: dropWhile_eq_Nil_conv takeWhile_eq_all_conv)
qed

lemma first_line_fixed: "strip_once t = t \<Longrightarrow> first_line t = t"
proof (cases "t = []")
  case True
  then show ?thesis by (simp add: first_line_def splitlines.simps)
next
  case False
  assume "strip_once t = t"
  then show ?thesis using False fixed_is_stripped one_line by (simp add: first_line_def)
qed

lemma title_cleaning_bound: "length (clean_title raw) \<le> TITLE_MAX_CHARS"
proof -
  have "length (py_rstrip u) \<le> length u" for u
    using length_dropWhile_le [of py_isspace "rev u"] by (simp add: py_rstrip_def)
  then have "length (py_rstrip (take n t)) \<le> n" for n and t :: string by (rule order_trans) simp
  then show ?thesis
    by (auto simp: clean_title_def Let_def ellipsis_def TITLE_MAX_CHARS_def intro: order_trans)
qed

lemma strip_Nil_iff: "py_strip s = [] \<longleftrightarrow> (\<forall>c \<in> set s. py_isspace c)"
proof -
  have "dropWhile py_isspace (rev (dropWhile py_isspace s)) = [] \<longleftrightarrow> (\<forall>c \<in> set (dropWhile py_isspace s). py_isspace c)" by simp
  also have "\<dots> \<longleftrightarrow> (\<forall>c \<in> set s. py_isspace c)" by (induction s) auto
  finally show ?thesis by (simp add: py_strip_def py_rstrip_def py_lstrip_def)
qed

text \<open>C37: Cleaning a model's reply always ends, whatever wrappers it nests; the name is at most sixty characters; and unless
  it had to be cut, no quotes, prefix, emphasis, period or line break are left around it, so that cleaning it again
  changes nothing.\<close>

theorem title_cleaning_settles:
  "length (clean_title raw) \<le> TITLE_MAX_CHARS
    \<and> (strip_once (clean_title raw) = clean_title raw \<and> odd_blanks (clean_title raw) = 0
         \<and> clean_title (JStr (clean_title raw)) = clean_title raw
       \<or> TITLE_MAX_CHARS < length (clean_loop (first_line (str_or_empty raw))))"
  using title_cleaning_bound clean_loop_fixed fixed_is_stripped first_line_fixed clean_loop_stays
  by (auto simp: clean_title_def Let_def)

section \<open>The request to the title model\<close>

definition TITLE_LANGUAGE_RULE :: string where
  "TITLE_LANGUAGE_RULE = ''- The same language as the user'' @ [CHR 0x27] @ ''s message.''"

definition TITLE_LANGUAGE_RULE_REPLY_LANGUAGE :: string where
  "TITLE_LANGUAGE_RULE_REPLY_LANGUAGE = ''- The same language as the assistant'' @ [CHR 0x27] @ ''s answer.''"

definition lines_of :: "string list \<Rightarrow> string" where
  "lines_of = join_with [CHR 0x0A]"

text \<open>The instructions with their language line.\<close>

definition instructions_with :: "string \<Rightarrow> string" where
  "instructions_with rule = lines_of
     [''You name chat sessions for a list of past conversations. Given the first message of a conversation and the assistant'' @ [CHR 0x27]
        @ ''s answer, reply with a short title.'',
      ''Rules:'',
      ''- A noun phrase of at most 40 characters (about 20 characters for Chinese, Japanese or Korean).'', rule,
      ''- Name the topic or task, not the fact that it was asked or answered.'',
      ''- No quotes, no trailing period, no prefix such as '' @ [CHR 0x27] @ ''Title:'' @ [CHR 0x27] @ '' or '' @ [CHR 0x27]
        @ ''Session about'' @ [CHR 0x27] @ ''.'',
      ''Reply with the title only.'']"

definition TITLE_INSTRUCTIONS :: string where
  "TITLE_INSTRUCTIONS = instructions_with TITLE_LANGUAGE_RULE"

definition title_instructions :: "reply_language option \<Rightarrow> string" where
  "title_instructions lang =
     (case lang of None \<Rightarrow> TITLE_INSTRUCTIONS | Some l \<Rightarrow> instructions_with TITLE_LANGUAGE_RULE_REPLY_LANGUAGE)"

text \<open>\<^verbatim>\<open>re.sub(r"[ \t]+", " ", text)\<close>.\<close>

function (sequential) collapse_tabs :: "string \<Rightarrow> string" where
  "collapse_tabs [] = []"
| "collapse_tabs (c # s) =
     (if c \<in> {CHR '' '', CHR 0x09} then CHR '' '' # collapse_tabs (dropWhile (\<lambda>d. d \<in> {CHR '' '', CHR 0x09}) s)
      else c # collapse_tabs s)"
  by pat_completeness auto
termination by (relation "measure length") (auto simp: less_Suc_eq_le length_dropWhile_le)

definition title_excerpt :: "string \<Rightarrow> string" where
  "title_excerpt text =
     (let collapsed = py_strip (collapse_tabs text) in
      if length collapsed \<le> TITLE_INPUT_MAX_CHARS then collapsed
      else py_rstrip (take TITLE_INPUT_MAX_CHARS collapsed) @ ellipsis)"

definition build_title_prompt :: "string \<Rightarrow> string \<Rightarrow> string" where
  "build_title_prompt user_text assistant_text =
     lines_of [''User message:'', title_excerpt user_text, [], ''Assistant answer:'', title_excerpt assistant_text, [], ''Title:'']"

record title_target =
  tt_provider :: string
  tt_model :: string
  tt_base_url :: string

definition title_api :: "title_target \<Rightarrow> string" where
  "title_api t = (if tt_provider t = ''github-copilot'' then ''responses'' else ''chat'')"

definition title_url :: "title_target \<Rightarrow> string" where
  "title_url t = rstrip_chars ''/'' (tt_base_url t) @ ''/''
     @ (if title_api t = ''responses'' then ''responses'' else ''chat/completions'')"

definition build_title_messages :: "string \<Rightarrow> string \<Rightarrow> reply_language option \<Rightarrow> jval" where
  "build_title_messages user_text assistant_text lang =
     JList [JObj [(''role'', JStr ''system''), (''content'', JStr (title_instructions lang))],
            JObj [(''role'', JStr ''user''), (''content'', JStr (build_title_prompt user_text assistant_text))]]"

definition input_part :: "string \<Rightarrow> string \<Rightarrow> jval" where
  "input_part role text = JObj [(''role'', JStr role),
     (''content'', JList [JObj [(''type'', JStr ''input_text''), (''text'', JStr text)]])]"

definition build_title_request_body :: "title_target \<Rightarrow> string \<Rightarrow> string \<Rightarrow> reply_language option \<Rightarrow> jobj" where
  "build_title_request_body t user_text assistant_text lang =
     (if title_api t = ''responses''
      then [(''model'', JStr (tt_model t)),
            (''input'', JList [input_part ''system'' (title_instructions lang),
                             input_part ''user'' (build_title_prompt user_text assistant_text)]),
            (''stream'', JBool False), (''reasoning'', JObj [(''effort'', JStr ''low'')])]
      else [(''model'', JStr (tt_model t)), (''messages'', build_title_messages user_text assistant_text lang),
            (''stream'', JBool False)])"

section \<open>The target\<close>

record title_settings =
  ts_copilot_url :: string
  ts_ai_platform_url :: string

definition loopback_proxy_base_url :: "title_settings \<Rightarrow> string \<Rightarrow> string" where
  "loopback_proxy_base_url cfg provider =
     (if provider = ''github-copilot'' then rstrip_chars ''/'' (py_strip (ts_copilot_url cfg))
      else if provider = ''ai-platform'' then rstrip_chars ''/'' (py_strip (ts_ai_platform_url cfg))
      else [])"

definition TITLE_MODELS :: "(string \<times> string) list" where
  "TITLE_MODELS = [(''github-copilot'', ''gpt-6-luna''), (''ai-platform'', ''gpt-5.6-luna'')]"

definition add_fallback :: "jobj \<Rightarrow> string \<Rightarrow> jobj \<Rightarrow> jobj" where
  "add_fallback profile key llm =
     (case jget profile key of
        JStr s \<Rightarrow> if py_strip s \<noteq> [] \<and> \<not> truthy (jget llm key) then AList.update key (JStr s) llm else llm
      | _ \<Rightarrow> llm)"

definition llm_config :: "jval \<Rightarrow> jobj" where
  "llm_config runtime_profile =
     (case runtime_profile of
        JObj profile \<Rightarrow> fold (add_fallback profile) [''provider'', ''model'', ''title_model'']
          (obj_or_empty (jget (obj_or_empty (jget profile ''config'')) ''llm''))
      | _ \<Rightarrow> [])"

text \<open>\<open>overlay\<close> is the text of the boot record, as \<open>overlay_load\<close> reads it.\<close>

definition llm_config_from_overlay :: "jfile option \<Rightarrow> jobj" where
  "llm_config_from_overlay overlay =
     (case overlay_load overlay of
        Inr (Some o') \<Rightarrow> obj_or_empty (jget (po_config o') ''llm'') | _ \<Rightarrow> [])"

definition llm_provider :: "jobj \<Rightarrow> string" where
  "llm_provider llm = provider_from_runtime_config [(''llm'', JObj llm)]"

definition title_model_for :: "string \<Rightarrow> string \<Rightarrow> jobj \<Rightarrow> string" where
  "title_model_for provider dflt llm =
     (case jget llm ''title_model'' of
        JStr s \<Rightarrow>
          (let override = py_strip s; prefix = takeWhile (\<lambda>c. c \<noteq> CHR ''/'') override;
               bare = py_strip (tl (dropWhile (\<lambda>c. c \<noteq> CHR ''/'') override))
           in if override = [] \<or> is_auto_model (JStr override) then dflt
              else if CHR ''/'' \<in> set override
              then (if normalize_opencode_provider_id (JStr prefix) \<noteq> provider then dflt
                    else if bare = [] then dflt else bare)
              else override)
      | _ \<Rightarrow> dflt)"

definition resolve_title_target :: "title_settings \<Rightarrow> jfile option \<Rightarrow> jval \<Rightarrow> title_target option" where
  "resolve_title_target cfg overlay runtime_profile =
     (let llm0 = llm_config runtime_profile;
          llm = (if llm_provider llm0 = []
                 then put_all (filter (\<lambda>(k, v). truthy v) llm0) (llm_config_from_overlay overlay) else llm0);
          provider = llm_provider llm; base = loopback_proxy_base_url cfg provider
      in case map_of TITLE_MODELS provider of
           None \<Rightarrow> None
         | Some dflt \<Rightarrow> if base = [] then None
             else Some \<lparr>tt_provider = provider, tt_model = title_model_for provider dflt llm, tt_base_url = base\<rparr>)"

section \<open>The reply\<close>

definition text_parts :: "jval \<Rightarrow> string" where
  "text_parts content =
     (case content of
        JStr s \<Rightarrow> s
      | JList items \<Rightarrow> concat (List.map (\<lambda>x. case jget (obj_or_empty x) ''text'' of JStr s \<Rightarrow> s | _ \<Rightarrow> []) items)
      | _ \<Rightarrow> [])"

text \<open>\<^verbatim>\<open>for part in item.get("content") or []\<close>: what is no list of parts adds nothing or raises.\<close>

definition output_texts :: "jval \<Rightarrow> py_error + string" where
  "output_texts item =
     (case item of
        JObj d \<Rightarrow>
          if jget d ''type'' \<noteq> JStr ''message'' then Inr []
          else (case py_iter (py_or (jget d ''content'') (JList [])) of
                  Inl e \<Rightarrow> Inl e
                | Inr parts \<Rightarrow> Inr (concat (List.map (\<lambda>p.
                    if jget (obj_or_empty p) ''type'' = JStr ''output_text''
                    then (case jget (obj_or_empty p) ''text'' of JStr s \<Rightarrow> s | _ \<Rightarrow> []) else []) parts)))
      | _ \<Rightarrow> Inr [])"

fun gather_texts :: "jval list \<Rightarrow> py_error + string" where
  "gather_texts [] = Inr []"
| "gather_texts (x # xs) =
     (case output_texts x of Inl e \<Rightarrow> Inl e
      | Inr s \<Rightarrow> (case gather_texts xs of Inl e \<Rightarrow> Inl e | Inr t \<Rightarrow> Inr (s @ t)))"

definition extract_reply_text :: "jval \<Rightarrow> string \<Rightarrow> py_error + string" where
  "extract_reply_text payload api =
     (case payload of
        JObj d \<Rightarrow>
          if api = ''responses''
          then (case py_iter (py_or (jget d ''output'') (JList [])) of Inl e \<Rightarrow> Inl e | Inr items \<Rightarrow> gather_texts items)
          else (case jget d ''choices'' of
                  JList (JObj c # cs) \<Rightarrow>
                    (case jget c ''message'' of JObj m \<Rightarrow> Inr (text_parts (jget m ''content'')) | _ \<Rightarrow> Inr [])
                | _ \<Rightarrow> Inr [])
      | _ \<Rightarrow> Inr [])"

text \<open>The answer of the loopback proxy: no answer in time, a connection error with its text, or a status and a body. An
  error carries its message and the status an endpoint reports; a \<^verbatim>\<open>KeyError\<close> is the unknown session.\<close>

datatype title_answer = TimedOut | ConnectionFailed string | Answered nat string

datatype title_error = TitleGenerationError string nat | UnknownSession | TitleRaised py_error

definition request_title :: "title_target \<Rightarrow> title_answer \<Rightarrow> title_error + (string \<times> jobj)" where
  "request_title t answer =
     (case answer of
        TimedOut \<Rightarrow> Inl (TitleGenerationError ''Title generation timed out after 30s.'' 504)
      | ConnectionFailed e \<Rightarrow> Inl (TitleGenerationError (''Title generation failed: '' @ e) 502)
      | Answered status raw \<Rightarrow>
          if 400 \<le> status
          then Inl (TitleGenerationError (''Title provider answered '' @ nat_text status @ '': '' @ preview_text raw 300) 502)
          else (case json_loads raw of
                  None \<Rightarrow> Inl (TitleGenerationError ''Title provider returned a non-JSON reply.'' 502)
                | Some data \<Rightarrow>
                    (case extract_reply_text data (title_api t) of
                       Inl e \<Rightarrow> Inl (TitleRaised e)
                     | Inr text \<Rightarrow> Inr (text, obj_or_empty (jget (obj_or_empty data) ''usage'')))))"

section \<open>The first turn\<close>

definition user_display_text :: "display_store option \<Rightarrow> string \<Rightarrow> string \<Rightarrow> jval \<Rightarrow> string" where
  "user_display_text display sid oid message =
     (let own = py_strip (message_to_visible_text message) in
      case (case display of None \<Rightarrow> None | Some d \<Rightarrow> get_user_message oid (message_id message) sid d) of
        None \<Rightarrow> own
      | Some r \<Rightarrow> (case jget r ''display_content'' of JStr s \<Rightarrow> if py_strip s \<noteq> [] then py_strip s else own | _ \<Rightarrow> own))"

fun turn_texts :: "(jval \<Rightarrow> string) \<Rightarrow> jval list \<Rightarrow> string \<Rightarrow> string \<Rightarrow> string \<times> string" where
  "turn_texts shown [] user assistant = (user, assistant)"
| "turn_texts shown (m # ms) user assistant =
     (let role = message_role m in
      if user = [] then turn_texts shown ms (if role = ''user'' then shown m else user) assistant
      else if role = ''user'' then (if assistant \<noteq> [] then (user, assistant) else turn_texts shown ms user assistant)
      else if role = ''assistant''
      then (let text = py_strip (message_to_visible_text m) in
            turn_texts shown ms user (if text \<noteq> [] then text else assistant))
      else turn_texts shown ms user assistant)"

definition first_turn_texts :: "display_store option \<Rightarrow> string \<Rightarrow> string \<Rightarrow> jval list \<Rightarrow> string \<times> string" where
  "first_turn_texts display sid oid messages = turn_texts (user_display_text display sid oid) messages [] []"

section \<open>Generating a title\<close>

text \<open>Up to the first call: nothing to do, an error, or the target with the session's OpenCode id.\<close>

definition title_begin ::
    "title_settings \<Rightarrow> jfile option \<Rightarrow> jval \<Rightarrow> bool \<Rightarrow> string \<Rightarrow> session_store \<Rightarrow> title_error + (title_target \<times> string) option" where
  "title_begin cfg overlay runtime_profile force sid st =
     (case session_get st sid of
        None \<Rightarrow> Inl UnknownSession
      | Some r \<Rightarrow>
          if sr_deleted r then Inl UnknownSession
          else if sr_custom_title r \<notin> {None, Some []} then Inr None
          else if sr_generated_title r \<notin> {None, Some []} \<and> \<not> force then Inr None
          else (case resolve_title_target cfg overlay runtime_profile of
                  None \<Rightarrow> Inl (TitleGenerationError ''No model proxy is configured for session titles.'' 502)
                | Some t \<Rightarrow> Inr (Some (t, sr_opencode_session_id r))))"

text \<open>The texts: the caller's, or those of the session's messages; \<open>messages\<close> is OpenCode's answer.\<close>

definition title_texts ::
    "display_store option \<Rightarrow> string \<Rightarrow> string \<Rightarrow> string + jval list \<Rightarrow> string option \<Rightarrow> string option \<Rightarrow> title_error + string \<times> string" where
  "title_texts display sid oid messages user_text assistant_text =
     (case (if user_text \<in> {None, Some []} \<or> assistant_text \<in> {None, Some []}
            then (case messages of
                    Inl e \<Rightarrow> Inl (TitleGenerationError (''Could not read the session from OpenCode: '' @ e) 502)
                  | Inr ms \<Rightarrow> Inr (first_turn_texts display sid oid ms))
            else Inr (the user_text, the assistant_text)) of
        Inl e \<Rightarrow> Inl e
      | Inr (u, a) \<Rightarrow>
          if u = [] \<or> a = [] then Inl (TitleGenerationError ''The session has no completed turn to name yet.'' 422)
          else Inr (u, a))"

text \<open>After the model's answer: the call is booked in the usage file first, then the name is stored unless the
  session was renamed or deleted while the model was thinking.\<close>

definition record_title_usage :: "(rat \<Rightarrow> string) \<Rightarrow> string \<Rightarrow> string \<Rightarrow> title_target \<Rightarrow> jobj \<Rightarrow> string \<Rightarrow> string" where
  "record_title_usage shown stamp sid t usage file =
     (case record_session_title shown stamp sid (Some (tt_model t)) (Some (tt_provider t)) (JObj usage) file of
        Inl e \<Rightarrow> file | Inr (row, file') \<Rightarrow> file')"

definition title_finish ::
    "(rat \<Rightarrow> string) \<Rightarrow> string \<Rightarrow> string \<Rightarrow> title_target \<Rightarrow> title_answer \<Rightarrow> string \<times> session_store \<Rightarrow>
       (title_error + string option) \<times> (string \<times> session_store)" where
  "title_finish shown stamp sid t answer w =
     (case w of (file, st) \<Rightarrow>
        case request_title t answer of
          Inl e \<Rightarrow> (Inl e, (file, st))
        | Inr (text, usage) \<Rightarrow>
            (let file1 = record_title_usage shown stamp sid t usage file; title = clean_title (JStr text) in
             if title = [] then (Inl (TitleGenerationError ''The model returned no usable title.'' 502), (file1, st))
             else case session_get st sid of
                    None \<Rightarrow> (Inl UnknownSession, (file1, st))
                  | Some latest \<Rightarrow>
                      if sr_deleted latest then (Inl UnknownSession, (file1, st))
                      else if sr_custom_title latest \<notin> {None, Some []} then (Inr None, (file1, st))
                      else (case set_generated_title sid title st of
                              Inl e \<Rightarrow> (Inl UnknownSession, (file1, st))
                            | Inr (r, st1) \<Rightarrow> (Inr (Some title), (file1, st1)))))"

text \<open>The background tasks that have not finished, by name.\<close>

definition title_task_name :: "string \<Rightarrow> string" where
  "title_task_name sid = ''session-title:'' @ sid"

definition find_background_task :: "string list \<Rightarrow> string \<Rightarrow> bool" where
  "find_background_task running name = (name \<in> set running)"

definition find_title_task :: "string list \<Rightarrow> string \<Rightarrow> bool" where
  "find_title_task running sid = find_background_task running (title_task_name sid)"

definition should_generate_after_turn :: "string list \<Rightarrow> session_record option \<Rightarrow> bool \<Rightarrow> string \<Rightarrow> bool" where
  "should_generate_after_turn running record ok assistant_text =
     (case record of None \<Rightarrow> False
      | Some r \<Rightarrow> \<not> sr_deleted r \<and> \<not> session_id_is_task_session (JStr (sr_portal_session_id r))
          \<and> sr_custom_title r \<in> {None, Some []} \<and> sr_generated_title r \<in> {None, Some []}
          \<and> ok \<and> py_strip assistant_text \<noteq> [] \<and> \<not> find_title_task running (sr_portal_session_id r))"

definition schedule_session_title :: "string \<Rightarrow> string list \<Rightarrow> bool \<times> string list" where
  "schedule_session_title sid running =
     (if find_title_task running sid then (False, running) else (True, running @ [title_task_name sid]))"

lemma clean_title_shown:
  assumes "clean_title raw \<noteq> []"
  shows "clean_name (JStr (clean_title raw)) = Some (py_strip (clean_title raw))"
proof -
  let ?t = "clean_loop (first_line (str_or_empty raw))"
  have "\<exists>c \<in> set (clean_title raw). \<not> py_isspace c"
  proof (cases "TITLE_MAX_CHARS < length ?t")
    case True
    then have "char_of (183::nat) \<in> set (clean_title raw)" by (simp add: clean_title_def Let_def ellipsis_def)
    moreover have "\<not> py_isspace (char_of (183::nat))" by code_simp
    ultimately show ?thesis by blast
  next
    case False
    then have "clean_title raw = ?t" by (simp add: clean_title_def Let_def)
    then have "py_strip (clean_title raw) = clean_title raw" using fixed_is_stripped clean_loop_fixed by simp
    with assms show ?thesis by (metis strip_Nil_iff)
  qed
  then show ?thesis by (simp add: clean_name_def strip_Nil_iff)
qed

lemma named_record:
  assumes "sr_custom_title r \<in> {None, Some []}" "clean_name (JStr title) = Some (py_strip title)"
  shows "session_display_name (r\<lparr>sr_generated_title := Some (py_strip title)\<rparr>) = py_strip title"
proof -
  have "clean_name (opt_str (sr_custom_title r)) = None"
    using assms(1) by (auto simp: clean_name_def opt_str_def py_strip_def py_lstrip_def py_rstrip_def)
  moreover have "clean_name (opt_str (Some (py_strip title))) = Some (py_strip title)"
    using assms(2) by (auto simp: clean_name_def opt_str_def split: if_splits)
  ultimately show ?thesis by (simp add: session_display_name_def)
qed

text \<open>The name a reply asks for: the cleaned text of the reply, if it can be read and is not empty then.\<close>

definition named_by :: "title_target \<Rightarrow> title_answer \<Rightarrow> string option" where
  "named_by t answer = (case request_title t answer of
     Inl e \<Rightarrow> None | Inr (said, usage) \<Rightarrow> if clean_title (JStr said) = [] then None else Some (clean_title (JStr said)))"

text \<open>C36: A generated name respects the member's. When the model's answer comes, the session is shown under the cleaned reply
  exactly when the call succeeded with a usable reply and the session, as it is then, exists, is not deleted and was not
  given a name by the member; the stored name has at most 60 characters, and every other session is as it was. In every other
  case no session changes, and the result tells a name of the member (nothing) from a failure (an error).\<close>

theorem generated_title_respects_renames:
  assumes "session_inv st" "title_finish shown stamp sid t answer (file, st) = (result, (file', st'))"
  shows "case (named_by t answer, session_get st sid) of
      (Some title, Some r) \<Rightarrow>
        if sr_deleted r then st' = st \<and> (\<exists>e. result = Inl e)
        else if sr_custom_title r \<notin> {None, Some []} then st' = st \<and> result = Inr None
        else result = Inr (Some title) \<and> length title \<le> TITLE_MAX_CHARS
          \<and> (\<exists>r'. session_get st' sid = Some r' \<and> session_display_name r' = py_strip title \<and> r' = r\<lparr>sr_generated_title := Some (py_strip title)\<rparr>)
          \<and> (\<forall>k. k = sid \<or> session_get st' k = session_get st k)
    | _ \<Rightarrow> st' = st \<and> (\<exists>e. result = Inl e)"
proof (cases "named_by t answer")
  case None
  then show ?thesis using assms(2) by (auto simp: title_finish_def named_by_def Let_def split: sum.splits if_splits)
next
  case (Some title)
  then obtain said usage where reply: "request_title t answer = Inr (said, usage)" "title = clean_title (JStr said)" "title \<noteq> []"
    by (auto simp: named_by_def split: sum.splits if_splits)
  show ?thesis
  proof (cases "\<exists>r. session_get st sid = Some r \<and> \<not> sr_deleted r \<and> sr_custom_title r \<in> {None, Some []}")
    case False
    then show ?thesis
      using assms(2) Some reply by (auto simp: title_finish_def Let_def split: option.splits if_splits)
  next
    case True
    then obtain r where r: "session_get st sid = Some r" "\<not> sr_deleted r" "sr_custom_title r \<in> {None, Some []}" by blast
    have key: "sr_portal_session_id r = sid" by (rule session_inv_get [OF assms(1) r(1)])
    have name: "clean_name (JStr title) = Some (py_strip title)" using clean_title_shown reply(2,3) by simp
    have "result = Inr (Some title)" "st' = session_upsert (r\<lparr>sr_generated_title := Some (py_strip title)\<rparr>) st"
      using assms(2) r name reply by (auto simp: title_finish_def Let_def set_generated_title_def)
    then show ?thesis
      using r key title_cleaning_bound named_record [OF r(3) name] Some reply(2) by (auto simp: session_get_def)
  qed
qed

definition unnamed_session :: session_record where
  "unnamed_session = \<lparr>sr_portal_session_id = ''s'', sr_opencode_session_id = ''o'', sr_title = ''Chat'', sr_agent = None, sr_model = None,
     sr_created_at = ''t'', sr_updated_at = ''t'', sr_last_message = [], sr_message_count = 2, sr_deleted = False,
     sr_partial_recovery = False, sr_custom_title = None, sr_generated_title = None\<rparr>"

definition one_session :: session_store where
  "one_session = session_save \<lparr>ss_sessions = [(''s'', unnamed_session)], ss_index = None, ss_backups = []\<rparr>"

definition chat_target :: title_target where
  "chat_target = \<lparr>tt_provider = ''ai-platform'', tt_model = ''m'', tt_base_url = ''u''\<rparr>"

definition named_reply :: title_answer where
  "named_reply = Answered 200 ([CHR 0x7B, CHR 0x22] @ ''choices'' @ [CHR 0x22] @ '':[{'' @ [CHR 0x22] @ ''message'' @ [CHR 0x22] @ '':{''
     @ [CHR 0x22] @ ''content'' @ [CHR 0x22] @ '':'' @ [CHR 0x22] @ ''Title: Foo.'' @ [CHR 0x22] @ ''}}]}'')"

lemma named_reply_read: "request_title chat_target named_reply = Inr (''Title: Foo.'', [])"
  by code_simp

lemma named_reply_clean: "clean_title (JStr ''Title: Foo.'') = ''Foo''"
  by code_simp

lemma one_session_inv: "session_inv one_session"
  by (simp add: session_inv_def one_session_def session_save_def unnamed_session_def)

lemma generated_title_respects_renames_witness:
  "\<exists>r. session_get (snd (snd (title_finish (\<lambda>x. []) ''t'' ''s'' chat_target named_reply ([], one_session)))) ''s'' = Some r
     \<and> session_display_name r = ''Foo''"
proof -
  let ?f = "title_finish (\<lambda>x. []) ''t'' ''s'' chat_target named_reply ([], one_session)"
  have split: "?f = (fst ?f, (fst (snd ?f), snd (snd ?f)))" by simp
  have "named_by chat_target named_reply = Some ''Foo''" by (simp add: named_by_def named_reply_read named_reply_clean)
  moreover have "session_get one_session ''s'' = Some unnamed_session"
    by (simp add: session_get_def one_session_def session_save_def)
  moreover have "py_strip ''Foo'' = ''Foo''" by code_simp
  ultimately show ?thesis
    using generated_title_respects_renames [OF one_session_inv split] by (auto simp: unnamed_session_def)
qed

end
