(* ===== verification/ChatParts.thy ===== *)
theory ChatParts
  imports EventBridge SessionTitle CopilotAuto
begin

text \<open>
  The first half of \<^verbatim>\<open>chat_api.py\<close>, with \<^verbatim>\<open>opencode_ids.py\<close> and \<^verbatim>\<open>inference_settings.py\<close>: reading a chat request,
  the session it runs in, sending its message with the probe after a broken connection, and waiting for the
  answer. What OpenCode answers, the clock and the generated ids are arguments; the two polling loops run
  over the list of polls (an answer, and the clock after it) and give \<^verbatim>\<open>None\<close> when the list ends first.
\<close>

section \<open>Errors\<close>

text \<open>\<^verbatim>\<open>OpenCodeClientError\<close> with the attributes the chat code reads (\<^verbatim>\<open>None\<close> of a text is the empty text), the errors
  of the session store, the HTTP errors raised with a JSON body, and any other exception by its text.\<close>

record client_error =
  ce_message :: string
  ce_status :: "int option"
  ce_recoverable :: bool
  ce_method :: string
  ce_path :: string

datatype raised = OpenCodeError client_error | SessionGone | BadRequest string | OtherError string

definition plain_client_error :: "string \<Rightarrow> client_error" where
  "plain_client_error m = \<lparr>ce_message = m, ce_status = None, ce_recoverable = False, ce_method = [], ce_path = []\<rparr>"

section \<open>Reading the request\<close>

definition author_header :: "(string \<Rightarrow> string) \<Rightarrow> string \<Rightarrow> nat \<Rightarrow> string" where
  "author_header headers name n =
     take n (py_strip (replace_char (CHR 0x0A) '' '' (replace_char (CHR 0x0D) '' '' (headers name))))"

definition portal_author_metadata :: "(string \<Rightarrow> string) \<Rightarrow> (string \<times> string) list" where
  "portal_author_metadata headers =
     (let author_id = author_header headers ''X-Portal-User-Id'' 128; name = author_header headers ''X-Portal-User-Name'' 255 in
      if py_lower (py_strip (headers ''X-Portal-Author-Source'')) \<noteq> ''portal'' \<or> (author_id = [] \<and> name = []) then []
      else [(''author_type'', ''human''), (''author_source'', ''portal'')]
        @ (if author_id \<noteq> [] then [(''author_id'', author_id)] else [])
        @ (if name \<noteq> [] then [(''author_name'', name)] else []))"

definition metadata_from_payload :: "jobj \<Rightarrow> raised + jobj" where
  "metadata_from_payload payload =
     (case jget payload ''metadata'' of JNull \<Rightarrow> Inr [] | JObj m \<Rightarrow> Inr m | _ \<Rightarrow> Inl (BadRequest ''metadata_must_be_object''))"

definition runtime_profile_from_metadata :: "jobj \<Rightarrow> raised + jobj" where
  "runtime_profile_from_metadata metadata =
     (case jget metadata ''runtime_profile'' of
        JNull \<Rightarrow> Inr [] | JObj m \<Rightarrow> Inr m | _ \<Rightarrow> Inl (BadRequest ''runtime_profile_must_be_object''))"

definition optional_str :: "jval \<Rightarrow> string option" where
  "optional_str v = (case v of JStr s \<Rightarrow> Some s | _ \<Rightarrow> None)"

definition or_text :: "string option \<Rightarrow> string option \<Rightarrow> string option" where
  "or_text a b = (case a of Some s \<Rightarrow> if s \<noteq> [] then a else b | None \<Rightarrow> b)"

definition normalize_title :: "string \<Rightarrow> string" where
  "normalize_title raw = (let t = py_strip (collapse_spaces raw) in if t = [] then ''Chat'' else t)"

definition first_named :: "jval list \<Rightarrow> string option" where
  "first_named candidates =
     find (\<lambda>s. py_strip s \<noteq> []) (concat (List.map (\<lambda>v. case v of JStr s \<Rightarrow> [s] | _ \<Rightarrow> []) candidates))"

definition model_from_chat_payload :: "jobj \<Rightarrow> jobj \<Rightarrow> jobj \<Rightarrow> string option" where
  "model_from_chat_payload payload metadata runtime_profile =
     (let llm = obj_or_empty (jget (obj_or_empty (jget (obj_or_empty (jget metadata ''runtime_profile'')) ''config'')) ''llm'') in
      case first_named [jget payload ''model'', jget payload ''model_override'', jget metadata ''model'', jget runtime_profile ''model'',
          jget llm ''model''] of
        None \<Rightarrow> None
      | Some model \<Rightarrow>
          if CHR ''/'' \<in> set model
          then Some (normalize_opencode_provider_id (JStr (takeWhile (\<lambda>c. c \<noteq> CHR ''/'') model)) @ dropWhile (\<lambda>c. c \<noteq> CHR ''/'') model)
          else (case first_named [jget metadata ''provider'', jget runtime_profile ''provider'', jget llm ''provider''] of
                  Some p \<Rightarrow> Some (normalize_opencode_provider_id (JStr p) @ ''/'' @ model)
                | None \<Rightarrow> Some model))"

definition SUPPORTED_REASONING_EFFORTS :: "string list" where
  "SUPPORTED_REASONING_EFFORTS = [''low'', ''medium'', ''high'', ''xhigh'', ''max'']"

text \<open>The left is the text of the \<^verbatim>\<open>ValueError\<close>.\<close>

definition normalize_reasoning_effort :: "jval \<Rightarrow> string + string option" where
  "normalize_reasoning_effort value =
     (case value of
        JNull \<Rightarrow> Inr None
      | JStr s \<Rightarrow> (let n = py_lower (py_strip s) in
          if n = [] then Inr None
          else if n \<in> set SUPPORTED_REASONING_EFFORTS then Inr (Some n) else Inl ''unsupported_reasoning_effort'')
      | _ \<Rightarrow> Inl ''reasoning_effort_must_be_string'')"

fun first_effort :: "jval list \<Rightarrow> string + string option" where
  "first_effort [] = Inr None"
| "first_effort (v # vs) =
     (case normalize_reasoning_effort v of Inl e \<Rightarrow> Inl e | Inr (Some s) \<Rightarrow> Inr (Some s) | Inr None \<Rightarrow> first_effort vs)"

definition reasoning_effort_from_metadata :: "jobj \<Rightarrow> string + string option" where
  "reasoning_effort_from_metadata source =
     (let llm = obj_or_empty (jget (obj_or_empty (jget (obj_or_empty (jget source ''runtime_profile'')) ''config'')) ''llm'') in
      first_effort [jget (obj_or_empty (jget source ''inference'')) ''reasoning_effort'', jget source ''reasoning_effort'',
        jget llm ''reasoning_effort''])"

definition reasoning_effort_from_chat_payload :: "jobj \<Rightarrow> jobj \<Rightarrow> string + string option" where
  "reasoning_effort_from_chat_payload payload metadata =
     (case normalize_reasoning_effort (jget payload ''reasoning_effort'') of
        Inl e \<Rightarrow> Inl e | Inr (Some s) \<Rightarrow> Inr (Some s) | Inr None \<Rightarrow> reasoning_effort_from_metadata metadata)"

definition optional_nonempty_string :: "jobj \<Rightarrow> string \<Rightarrow> string \<Rightarrow> string \<Rightarrow> raised + string" where
  "optional_nonempty_string payload key generated error =
     (case jget payload key of
        JNull \<Rightarrow> Inr generated
      | JStr s \<Rightarrow> Inr (if py_strip s = [] then generated else py_strip s)
      | _ \<Rightarrow> Inl (BadRequest error))"

definition portal_session_id_from_payload :: "string \<Rightarrow> jobj \<Rightarrow> raised + string" where
  "portal_session_id_from_payload uuid payload =
     optional_nonempty_string payload ''session_id'' uuid ''session_id_must_be_string''"

definition request_id_from_payload :: "string \<Rightarrow> jobj \<Rightarrow> raised + string" where
  "request_id_from_payload uuid payload =
     optional_nonempty_string payload ''request_id'' (''chat-'' @ uuid) ''request_id_must_be_string''"

section \<open>OpenCode's ids\<close>

definition hex12 :: "nat \<Rightarrow> string" where
  "hex12 n = List.map (\<lambda>i. hex_digit (n div 16 ^ (11 - i) mod 16)) [0..<12]"

text \<open>The module's counter: the millisecond of the last id, and the ids made in it. \<open>random\<close> is the random tail.\<close>

type_synonym id_state = "nat \<times> nat"

definition new_opencode_message_id :: "nat \<Rightarrow> string \<Rightarrow> id_state \<Rightarrow> string \<times> id_state" where
  "new_opencode_message_id now_ms random st =
     (case st of (last_ms, counter0) \<Rightarrow>
        let counter = ((if now_ms \<noteq> last_ms then 0 else counter0) + 1) mod 4096
        in (''msg_'' @ hex12 ((now_ms * 4096 + counter) mod 2 ^ 48) @ random, (now_ms, counter)))"

definition is_opencode_message_id :: "jval \<Rightarrow> bool" where
  "is_opencode_message_id v = (case v of JStr s \<Rightarrow> startswith s ''msg'' \<and> 4 \<le> length (py_strip s) | _ \<Rightarrow> False)"

definition requested_message_id :: "string \<Rightarrow> jobj \<Rightarrow> raised + string" where
  "requested_message_id fresh payload =
     (let value = (if jget payload ''message_id'' \<noteq> JNull then jget payload ''message_id'' else jget payload ''opencode_message_id'') in
      if value = JNull \<or> value = JStr [] then Inr fresh
      else if is_opencode_message_id value then Inr (py_str value)
      else Inl (BadRequest (''message_id must be an OpenCode message id starting with '' @ [CHR 0x27] @ ''msg'' @ [CHR 0x27])))"

definition extract_session_id :: "jval \<Rightarrow> string" where
  "extract_session_id payload =
     (case first_truthy (obj_or_empty payload) [''id'', ''session_id'', ''sessionID'', ''uuid''] of None \<Rightarrow> [] | Some s \<Rightarrow> s)"

definition require_opencode_session_id :: "jval \<Rightarrow> string \<Rightarrow> raised + string" where
  "require_opencode_session_id payload action =
     (let sid = extract_session_id payload in
      if sid = [] then Inl (OpenCodeError (plain_client_error (action @ '' returned no session id''))) else Inr sid)"

definition detect_new_message_ids :: "jval list \<Rightarrow> jval list \<Rightarrow> string \<times> string" where
  "detect_new_message_ids before after =
     (let known = List.map message_id before;
          fresh = filter (\<lambda>m. message_id m \<noteq> [] \<and> message_id m \<notin> set known) after;
          last_of = (\<lambda>role. case rev (filter (\<lambda>m. py_lower (message_role m) = role) fresh) of [] \<Rightarrow> [] | m # _ \<Rightarrow> message_id m)
      in (last_of ''user'', last_of ''assistant''))"

definition append_unique :: "string list \<Rightarrow> string list \<Rightarrow> string list" where
  "append_unique target candidates = fold (\<lambda>c out. if c \<noteq> [] \<and> c \<notin> set out then out @ [c] else out) candidates target"

section \<open>Which model answered\<close>

definition bare_model :: "string \<Rightarrow> string" where
  "bare_model requested = (if CHR ''/'' \<in> set requested then tl (dropWhile (\<lambda>c. c \<noteq> CHR ''/'') requested) else requested)"

definition model_attribution :: "auto_manager option \<Rightarrow> string option \<Rightarrow> jobj" where
  "model_attribution manager model =
     (let requested = py_strip (case model of None \<Rightarrow> [] | Some m \<Rightarrow> m); bare = bare_model requested;
          routing = (case manager of None \<Rightarrow> None | Some m \<Rightarrow> am_last_routing m);
          tier = or_text (case routing of None \<Rightarrow> None | Some r \<Rightarrow> ar_tier r) (auto_tier_for (JStr bare))
      in if \<not> is_auto_model (JStr requested) then (if bare = [] then [] else [(''model'', JStr bare)])
         else [(''requested_model'', JStr (py_lower bare))]
           @ (case tier of Some t \<Rightarrow> if t \<noteq> [] then [(''auto_tier'', JStr t)] else [] | None \<Rightarrow> [])
           @ (case routing of
                None \<Rightarrow> [(''model'', JStr DEFAULT_AUTO_FALLBACK_MODEL),
                        (''model_fallback_reason'', JStr ''no auto routing recorded for this request'')]
              | Some r \<Rightarrow> [(''model'', JStr (nonempty_or (ar_model r) DEFAULT_AUTO_FALLBACK_MODEL))]
                  @ (case ar_fallback_reason r of Some f \<Rightarrow> if f \<noteq> [] then [(''model_fallback_reason'', JStr f)] else []
                     | None \<Rightarrow> [])))"

section \<open>The session of a chat\<close>

text \<open>Before the first call: an error, a new session to create, or a known one to check.\<close>

datatype ensure_start = EnsureFails raised | EnsureCreates | EnsureChecks session_record

definition ensure_begin :: "string \<Rightarrow> session_store \<Rightarrow> ensure_start" where
  "ensure_begin sid st =
     (case session_get st sid of
        None \<Rightarrow> EnsureCreates
      | Some r \<Rightarrow> if sr_deleted r then EnsureFails SessionGone else EnsureChecks r)"

definition new_chat_session :: "string \<Rightarrow> string \<Rightarrow> string \<Rightarrow> string \<Rightarrow> string option \<Rightarrow> string option \<Rightarrow> session_record" where
  "new_chat_session now sid oid title agent model =
     \<lparr>sr_portal_session_id = sid, sr_opencode_session_id = oid, sr_title = title, sr_agent = agent, sr_model = model,
      sr_created_at = now, sr_updated_at = now, sr_last_message = [], sr_message_count = 0, sr_deleted = False,
      sr_partial_recovery = False, sr_custom_title = None, sr_generated_title = None\<rparr>"

definition recovered_session :: "string \<Rightarrow> string \<Rightarrow> string \<Rightarrow> string option \<Rightarrow> string option \<Rightarrow> session_record \<Rightarrow> session_record" where
  "recovered_session now oid title agent model r =
     r\<lparr>sr_opencode_session_id := oid, sr_title := (if sr_title r \<noteq> [] then sr_title r else title),
       sr_agent := or_text agent (sr_agent r), sr_model := or_text model (sr_model r), sr_updated_at := now,
       sr_deleted := False, sr_partial_recovery := True\<rparr>"

text \<open>OpenCode's answers: to the check of the session (an error or nothing), and to the creation. After the calls the
  store is the one of that moment.\<close>

definition ensure_created ::
    "string \<Rightarrow> string \<Rightarrow> string \<Rightarrow> string option \<Rightarrow> string option \<Rightarrow> client_error + jval \<Rightarrow> session_store \<Rightarrow>
       raised + ((session_record \<times> bool) \<times> session_store)" where
  "ensure_created now sid title agent model created st =
     (case created of
        Inl e \<Rightarrow> Inl (OpenCodeError e)
      | Inr payload \<Rightarrow>
          (case require_opencode_session_id payload ''create_session'' of
             Inl e \<Rightarrow> Inl e
           | Inr oid \<Rightarrow> (let r = new_chat_session now sid oid title agent model in Inr ((r, False), session_upsert r st))))"

definition ensure_checked ::
    "string \<Rightarrow> string \<Rightarrow> string option \<Rightarrow> string option \<Rightarrow> session_record \<Rightarrow> client_error option \<Rightarrow> client_error + jval \<Rightarrow>
       session_store \<Rightarrow> raised + ((session_record \<times> bool) \<times> session_store)" where
  "ensure_checked now title agent model existing checked created st =
     (case checked of
        None \<Rightarrow> Inr ((existing, sr_partial_recovery existing), st)
      | Some e \<Rightarrow>
          if ce_status e \<noteq> Some 404 then Inl (OpenCodeError e)
          else (case created of
                  Inl e' \<Rightarrow> Inl (OpenCodeError e')
                | Inr payload \<Rightarrow>
                    (case require_opencode_session_id payload ''partial_recovery_create_session'' of
                       Inl e' \<Rightarrow> Inl e'
                     | Inr oid \<Rightarrow> (let r = recovered_session now oid title agent model existing in
                                 Inr ((r, True), session_upsert r st)))))"

text \<open>The whole of \<^verbatim>\<open>_ensure_record_for_chat\<close>; \<open>meanwhile\<close> is what other requests do to the store during the calls.\<close>

definition ensure_record_for_chat ::
    "string \<Rightarrow> string \<Rightarrow> string \<Rightarrow> string option \<Rightarrow> string option \<Rightarrow> client_error option \<Rightarrow> client_error + jval \<Rightarrow>
       session_op list \<Rightarrow> session_store \<Rightarrow> (raised + (session_record \<times> bool)) \<times> session_store" where
  "ensure_record_for_chat now sid title agent model checked created meanwhile st =
     (let st1 = fold session_step meanwhile st;
          pack = (\<lambda>r. case r of Inl e \<Rightarrow> (Inl e, st1) | Inr (x, st2) \<Rightarrow> (Inr x, st2))
      in case ensure_begin sid st of
           EnsureFails e \<Rightarrow> (Inl e, st)
         | EnsureCreates \<Rightarrow> pack (ensure_created now sid title agent model created st1)
         | EnsureChecks r \<Rightarrow> pack (ensure_checked now title agent model r checked created st1))"

section \<open>Redaction of inlined files\<close>

definition url_type_char :: "char \<Rightarrow> bool" where
  "url_type_char c = (token_char c \<or> c \<in> set ''.+/'')"

definition url_param_char :: "char \<Rightarrow> bool" where
  "url_param_char c = (url_type_char c \<or> c = CHR ''='')"

definition base64_char :: "char \<Rightarrow> bool" where
  "base64_char c = (c \<in> set ''+/='' \<or> (token_char c \<and> c \<notin> set ''_-''))"

text \<open>The parameters up to the data: every one but the last is passed over, and the last is \<open>base64\<close> before a comma.
  The result is the number of characters read.\<close>

function data_url_tail :: "string \<Rightarrow> nat \<Rightarrow> nat option" where
  "data_url_tail s n =
     (case s of
        [] \<Rightarrow> None
      | c # t \<Rightarrow>
          if c \<noteq> CHR '';'' then None
          else if startswith t ''base64,'' \<and> 0 < count_while base64_char (drop 7 t)
          then Some (n + 8 + count_while base64_char (drop 7 t))
          else (let k = count_while url_param_char t in
                if k = 0 then None else data_url_tail (drop k t) (n + 1 + k)))"
  by pat_completeness auto
termination by (relation "measure (\<lambda>(s, n). length s)") auto

definition match_data_url :: "char option \<Rightarrow> string \<Rightarrow> (string \<times> nat) option" where
  "match_data_url prev s =
     (if \<not> startswith s ''data:'' then None
      else let k = count_while url_type_char (drop 5 s) in
        if k = 0 then None
        else map_option (\<lambda>n. (''data:<redacted>;base64,<redacted>'', n)) (data_url_tail (drop (5 + k) s) (5 + k)))"

fun redact_attachments :: "jval \<Rightarrow> jval"
  and redact_attachment_items :: "jval list \<Rightarrow> jval list"
  and redact_attachment_pairs :: "(string \<times> jval) list \<Rightarrow> (string \<times> jval) list" where
  "redact_attachments (JObj d) = JObj (redact_attachment_pairs d)"
| "redact_attachments (JList xs) = JList (redact_attachment_items xs)"
| "redact_attachments (JStr s) = JStr (re_sub match_data_url None s)"
| "redact_attachments v = v"
| "redact_attachment_items [] = []"
| "redact_attachment_items (x # xs) = redact_attachments x # redact_attachment_items xs"
| "redact_attachment_pairs [] = []"
| "redact_attachment_pairs ((k, v) # d) =
     (k, case v of JStr s \<Rightarrow> if k = ''url'' \<and> startswith s ''data:'' then JStr ''data:<redacted>'' else redact_attachments (JStr s)
         | _ \<Rightarrow> redact_attachments v) # redact_attachment_pairs d"

section \<open>Sending\<close>

text \<open>What \<^verbatim>\<open>client.send_message\<close> is called with; a \<^verbatim>\<open>variant\<close> that is empty is left out.\<close>

record send_call =
  sn_parts :: "jval list"
  sn_model :: "string option"
  sn_agent :: "string option"
  sn_system :: "string option"
  sn_variant :: "string option"
  sn_message_id :: string

definition send_message_call ::
    "jval list \<Rightarrow> string option \<Rightarrow> string option \<Rightarrow> string option \<Rightarrow> string option \<Rightarrow> string \<Rightarrow> send_call" where
  "send_message_call parts model agent system variant mid =
     \<lparr>sn_parts = parts, sn_model = model, sn_agent = agent, sn_system = system,
      sn_variant = (if variant = Some [] then None else variant), sn_message_id = mid\<rparr>"

definition message_recovery_key :: "jval \<Rightarrow> string" where
  "message_recovery_key m =
     (let mid = message_id m; role = py_lower (message_role m); text = py_strip (message_to_visible_text m) in
      if mid \<noteq> [] then ''id:'' @ mid else if role \<noteq> [] \<or> text \<noteq> [] then role @ '':'' @ text else [])"

definition py_upper_ascii :: "string \<Rightarrow> string" where
  "py_upper_ascii s = List.map (\<lambda>c. let n = of_char c :: nat in if 97 \<le> n \<and> n \<le> 122 then char_of (n - 32) else c) s"

definition is_recoverable_send_disconnect :: "client_error \<Rightarrow> string \<Rightarrow> bool" where
  "is_recoverable_send_disconnect e oid =
     (ce_recoverable e \<and> (ce_method e = [] \<or> py_upper_ascii (ce_method e) = ''POST'')
      \<and> (ce_path e = [] \<or> rstrip_chars ''/'' (takeWhile (\<lambda>c. c \<noteq> CHR ''?'') (ce_path e)) = ''/session/'' @ oid @ ''/message''))"

fun recovered_by :: "string set \<Rightarrow> string \<Rightarrow> string \<Rightarrow> jval list \<Rightarrow> string" where
  "recovered_by before_keys mid text [] = []"
| "recovered_by before_keys mid text (m # ms) =
     (if mid \<noteq> [] \<and> message_id m = mid then ''user_message_id''
      else let key = message_recovery_key m in
        if key \<noteq> [] \<and> key \<in> before_keys then recovered_by before_keys mid text ms
        else if py_lower (message_role m) = ''user'' \<and> text \<noteq> [] \<and> py_strip (message_to_visible_text m) = text
        then ''matching_user_text''
        else recovered_by before_keys mid text ms)"

definition detect_recovered_send_acceptance :: "jval list \<Rightarrow> jval list \<Rightarrow> string \<Rightarrow> string \<Rightarrow> string" where
  "detect_recovered_send_acceptance before after mid expected =
     recovered_by (set (filter (\<lambda>k. k \<noteq> []) (List.map message_recovery_key before))) mid (py_strip expected) after"

text \<open>A poll: the messages or the text of the exception, and the clock after it.\<close>

type_synonym poll = "(string + jval list) \<times> rat"

record acceptance =
  ac_accepted :: bool
  ac_detected_by :: string
  ac_attempts :: nat
  ac_messages :: "jval list"
  ac_probe_error :: string

fun acceptance_loop :: "jval list \<Rightarrow> string \<Rightarrow> string \<Rightarrow> rat \<Rightarrow> nat \<Rightarrow> poll list \<Rightarrow> acceptance option" where
  "acceptance_loop before mid expected deadline n [] = None"
| "acceptance_loop before mid expected deadline n ((answer, now) # polls) =
     (let n' = n + 1;
          found = (case answer of Inl e \<Rightarrow> [] | Inr ms \<Rightarrow> detect_recovered_send_acceptance before ms mid expected);
          ms = (case answer of Inl e \<Rightarrow> [] | Inr ms \<Rightarrow> ms);
          err = (case answer of Inl e \<Rightarrow> preview_text e 500 | Inr ms \<Rightarrow> [])
      in if found \<noteq> []
         then Some \<lparr>ac_accepted = True, ac_detected_by = found, ac_attempts = n', ac_messages = ms, ac_probe_error = []\<rparr>
         else if deadline \<le> now
         then Some \<lparr>ac_accepted = False, ac_detected_by = [], ac_attempts = n', ac_messages = ms, ac_probe_error = err\<rparr>
         else acceptance_loop before mid expected deadline n' polls)"

definition RECOVERABLE_SEND_ACCEPTANCE_PROBE_SECONDS :: rat where
  "RECOVERABLE_SEND_ACCEPTANCE_PROBE_SECONDS = 5"

definition probe_recoverable_send_acceptance ::
    "jval list \<Rightarrow> string \<Rightarrow> string \<Rightarrow> rat \<Rightarrow> rat \<Rightarrow> poll list \<Rightarrow> acceptance option" where
  "probe_recoverable_send_acceptance before mid expected timeout start polls =
     acceptance_loop before mid expected (start + max 0 (min RECOVERABLE_SEND_ACCEPTANCE_PROBE_SECONDS timeout)) 0 polls"

definition probe_debug :: "client_error \<Rightarrow> acceptance \<Rightarrow> jobj" where
  "probe_debug e a =
     [(''accepted'', JBool (ac_accepted a)), (''detected_by'', JStr (ac_detected_by a)), (''attempts'', JInt (int (ac_attempts a))),
      (''original_error'', JStr (preview_text (ce_message e) 500))]
     @ (if ac_probe_error a \<noteq> [] then [(''probe_error'', JStr (ac_probe_error a))] else [])"

text \<open>\<open>sent\<close> is the answer to the one send; \<open>None\<close>: the polls end before the probe does.\<close>

definition send_with_probe ::
    "string \<Rightarrow> string \<Rightarrow> jval list \<Rightarrow> string \<Rightarrow> rat \<Rightarrow> rat \<Rightarrow> client_error + jval \<Rightarrow> poll list \<Rightarrow>
       (raised + (jval \<times> jobj option)) option" where
  "send_with_probe oid mid before expected timeout start sent polls =
     (case sent of
        Inr payload \<Rightarrow> Some (Inr (payload, None))
      | Inl e \<Rightarrow>
          if \<not> is_recoverable_send_disconnect e oid then Some (Inl (OpenCodeError e))
          else (case probe_recoverable_send_acceptance before mid expected timeout start polls of
                  None \<Rightarrow> None
                | Some a \<Rightarrow> Some (if ac_accepted a
                    then Inr (JObj [(''messages'', JList (ac_messages a))], Some (probe_debug e a))
                    else Inl (OpenCodeError e))))"

section \<open>Waiting for the answer\<close>

definition TERMINAL_ASSISTANT_COMPLETION_STATES :: "string list" where
  "TERMINAL_ASSISTANT_COMPLETION_STATES = [''completed'', ''blocked'', ''error'', ''empty_final'']"

definition is_terminal_assistant_completion :: "completion \<Rightarrow> bool" where
  "is_terminal_assistant_completion probe = (cm_state probe \<in> set TERMINAL_ASSISTANT_COMPLETION_STATES)"

text \<open>\<open>shown\<close> writes a float; the times of the settings are exact rationals.\<close>

definition assistant_completion_timeout_probe ::
    "(rat \<Rightarrow> string) \<Rightarrow> completion \<Rightarrow> string \<Rightarrow> rat \<Rightarrow> rat \<Rightarrow> nat \<Rightarrow> completion" where
  "assistant_completion_timeout_probe shown last_probe last_id timeout interval attempts =
     \<lparr>cm_text = [], cm_message_id = last_id, cm_state = ''incomplete'', cm_reason = ''final_assistant_message_timeout'',
      cm_diagnostics = put_all
        [(''last_completion_state'', JStr (nonempty_or (cm_state last_probe) ''incomplete'')),
         (''last_reason'', JStr (nonempty_or (cm_reason last_probe) ''no_terminal_assistant_message'')),
         (''poll_attempts'', JInt (int attempts)), (''timeout_seconds'', JFloat (Finite timeout (shown timeout))),
         (''poll_seconds'', JFloat (Finite interval (shown interval)))] (cm_diagnostics last_probe)\<rparr>"

text \<open>One poll of the wait: what \<^verbatim>\<open>list_messages\<close> answers or raises, and the clock read after it.\<close>

type_synonym wait_poll = "(raised + jval list) \<times> rat"

record wait_setup =
  wt_known :: "string list"
  wt_deadline :: rat
  wt_timeout :: rat
  wt_interval :: rat

definition last_or :: "string list \<Rightarrow> string \<Rightarrow> string" where
  "last_or ids dflt = (if ids = [] then dflt else last ids)"

fun wait_loop :: "(rat \<Rightarrow> string) \<Rightarrow> wait_setup \<Rightarrow> string \<Rightarrow> nat \<Rightarrow> wait_poll list \<Rightarrow>
    (raised + (completion \<times> jval list)) option" where
  "wait_loop shown ws last_id n [] = None"
| "wait_loop shown ws last_id n ((answer, now) # polls) =
     (case answer of
        Inl e \<Rightarrow> Some (Inl e)
      | Inr ms \<Rightarrow>
          let probe = find_latest_assistant_completion (JList ms) (wt_known ws);
              last_id' = last_or (extract_assistant_message_ids (JList ms) (wt_known ws))
                           (nonempty_or (cm_message_id probe) last_id)
          in if is_terminal_assistant_completion probe then Some (Inr (probe, ms))
             else if wt_deadline ws \<le> now
             then Some (Inr (assistant_completion_timeout_probe shown probe last_id' (wt_timeout ws) (wt_interval ws) (n + 1), ms))
             else wait_loop shown ws last_id' (n + 1) polls)"

definition wait_for_visible_assistant_response ::
    "(rat \<Rightarrow> string) \<Rightarrow> jval \<Rightarrow> jval list \<Rightarrow> rat \<Rightarrow> rat \<Rightarrow> rat \<Rightarrow> wait_poll list \<Rightarrow> (raised + (completion \<times> jval list)) option"
where
  "wait_for_visible_assistant_response shown response before timeout interval start polls =
     (let known = extract_assistant_message_ids (JList before) [];
          probe = find_latest_assistant_completion response known;
          last_id = last_or (extract_assistant_message_ids response known) (cm_message_id probe)
      in if is_terminal_assistant_completion probe then Some (Inr (probe, []))
         else wait_loop shown \<lparr>wt_known = known, wt_deadline = start + max 0 timeout, wt_timeout = timeout, wt_interval = interval\<rparr>
                last_id 0 polls)"

definition non_success_assistant_text :: "string \<Rightarrow> string \<Rightarrow> string" where
  "non_success_assistant_text state reason =
     (if state = ''empty_final'' then ''OpenCode completed without a visible assistant response.''
      else if reason = ''final_assistant_message_timeout''
      then ''OpenCode is still working on this request in the background; the chat '' @
           ''response timed out waiting for the final assistant message. The result '' @
           ''will appear in this session'' @ [CHR 0x27] @ ''s history once the run completes.''
      else if state = ''blocked'' then ''OpenCode is blocked before producing a final visible assistant response.''
      else if state = ''error'' then ''OpenCode failed before producing a final visible assistant response.''
      else ''OpenCode did not produce a final visible assistant response.'')"

section \<open>The events of a turn\<close>

definition stable_runtime_event_id :: "string \<Rightarrow> string \<Rightarrow> string \<Rightarrow> string \<Rightarrow> jobj \<Rightarrow> string" where
  "stable_runtime_event_id event_type sid rid oid data =
     (let nl = [CHR 0x0A];
          payload = spaced_dumps (sort_keys (safe_preview (JObj data) 1000));
          digest = take 16 (sha256_of (event_type @ nl @ sid @ nl @ rid @ nl @ oid @ nl @ payload));
          named = ''opencode:'' @ nonempty_or rid (nonempty_or sid oid) @ '':'' @ event_type;
          start = (if 120 < length named then ''opencode:'' @ digest @ '':'' @ event_type else named)
      in start @ '':'' @ digest)"

record event_head =
  eh_session_id :: string
  eh_request_id :: string
  eh_opencode_session_id :: string

text \<open>The stamp and the clock of the event are arguments.\<close>

definition event_payload ::
    "string \<times> pyfloat \<Rightarrow> event_head \<Rightarrow> jobj \<Rightarrow> string \<Rightarrow> string \<Rightarrow> string \<Rightarrow> jobj \<Rightarrow> jobj" where
  "event_payload now head trace_context event_type state summary data =
     (let safe = obj_or_empty (safe_preview (JObj data) 1000);
          sid = eh_session_id head; rid = eh_request_id head; oid = eh_opencode_session_id head
      in add_trace_context
           [(''id'', JStr (stable_runtime_event_id event_type sid rid oid safe)), (''type'', JStr event_type),
            (''event_type'', JStr event_type), (''engine'', JStr ''opencode''), (''session_id'', JStr sid),
            (''request_id'', JStr rid), (''opencode_session_id'', JStr oid), (''state'', JStr state),
            (''summary'', safe_preview (JStr summary) 500), (''data'', JObj safe), (''created_at'', JStr (fst now)),
            (''ts'', JFloat (snd now))] trace_context)"

definition context_state :: "string \<Rightarrow> string \<Rightarrow> string \<Rightarrow> jobj" where
  "context_state message state response =
     [(''objective'', JStr (take 300 message)), (''summary'', JStr (take 500 (nonempty_or response message))),
      (''current_state'', JStr state), (''next_step'', JStr []), (''constraints'', JList []), (''decisions'', JList []),
      (''open_loops'', JList []), (''budget'', JObj [(''usage_percent'', JInt 0)])]"

text \<open>The first part is the message; the parts of the attachments come from the attachment service (\<open>build\<close>, told whether
  images are inlined), and a failure of it is a part that says so.\<close>

definition text_part :: "string \<Rightarrow> jobj" where
  "text_part text = [(''type'', JStr ''text''), (''text'', JStr text)]"

definition attachment_failure :: "string \<Rightarrow> jval" where
  "attachment_failure safe =
     JObj (text_part (''Attachment processing failed: '' @ safe)
           @ [(''synthetic'', JBool True), (''metadata'', JObj [(''efp_internal'', JStr ''attachment_context'')])])"

definition build_chat_parts ::
    "(bool \<Rightarrow> jval \<Rightarrow> string + (jval list \<times> jval list)) \<Rightarrow> jval \<Rightarrow> string \<Rightarrow> jval \<Rightarrow> jval list \<times> jval list" where
  "build_chat_parts build boot_snapshot message attachments =
     (let first = JObj (text_part message);
          inline_images = truthy (jget_def (obj_or_empty boot_snapshot) ''vision_via_chat'' (JBool True))
      in if \<not> truthy attachments then ([first], [])
         else case build inline_images attachments of
                Inr (parts, debug) \<Rightarrow> (first # parts, debug)
              | Inl e \<Rightarrow> (let safe = preview_text e 300 in
                  ([first, attachment_failure safe],
                   [JObj [(''status'', JStr ''error''), (''error'', JStr safe)]])))"

section \<open>What the parts promise\<close>

lemma wait_loop_ends:
  "\<exists>p \<in> set polls. wt_deadline ws \<le> snd p \<Longrightarrow> \<exists>r. wait_loop shown ws last_id n polls = Some r"
proof (induction polls arbitrary: last_id n)
  case (Cons p polls)
  show ?case
  proof (cases p)
    case (Pair answer now)
    then show ?thesis using Cons by (cases answer) (auto simp: Let_def)
  qed
qed simp

text \<open>Waiting for the assistant's answer cannot hang: as soon as one poll's clock reaches the deadline the wait has
  returned, with an answer, an error of the poll, or the timeout.\<close>

theorem waiting_ends_at_the_deadline:
  assumes "\<exists>p \<in> set polls. start + max 0 timeout \<le> snd p"
  shows "wait_for_visible_assistant_response shown response before timeout interval start polls \<noteq> None"
proof (rule ccontr)
  assume "\<not> ?thesis"
  moreover have "\<exists>r. wait_loop shown \<lparr>wt_known = known, wt_deadline = start + max 0 timeout, wt_timeout = timeout,
      wt_interval = interval\<rparr> i 0 polls = Some r" for known i
    by (rule wait_loop_ends) (use assms in simp)
  ultimately show False by (simp add: wait_for_visible_assistant_response_def Let_def split: if_splits) (metis option.distinct(1))
qed

theorem waiting_ends_at_the_deadline_witness:
  "wait_for_visible_assistant_response (\<lambda>_. []) JNull [] 2 1 10 [(Inr [], 11), (Inr [], 12)] \<noteq> None"
  by (rule waiting_ends_at_the_deadline) simp

definition new_terminal_text :: "jval \<Rightarrow> string list \<Rightarrow> string \<Rightarrow> bool" where
  "new_terminal_text payload known text \<longleftrightarrow>
     (\<exists>s \<in> set (assistant_states payload known). ms_terminal s \<and> ms_text s = text)"

lemma find_holds: "find P xs = Some x \<Longrightarrow> P x \<and> x \<in> set xs"
  by (auto simp: find_Some_iff)

lemma completed_is_terminal:
  "cm_state (find_latest_assistant_completion payload known) = ''completed'' \<Longrightarrow>
     new_terminal_text payload known (cm_text (find_latest_assistant_completion payload known))"
proof (cases "find ms_terminal (rev (assistant_states payload known))")
  case None
  moreover assume "cm_state (find_latest_assistant_completion payload known) = ''completed''"
  ultimately have False
    by (simp add: find_latest_assistant_completion_def found_state_def Let_def split: option.splits)
  then show ?thesis ..
next
  case (Some s)
  then have "ms_terminal s" "s \<in> set (assistant_states payload known)" using find_holds [OF Some] by auto
  then show ?thesis using Some
    by (auto simp: find_latest_assistant_completion_def found_state_def Let_def new_terminal_text_def)
qed

lemma completed_is_not_timeout: "cm_state (assistant_completion_timeout_probe shown p i t v n) = ''incomplete''"
  by (simp add: assistant_completion_timeout_probe_def)

lemma wait_loop_answer:
  "wait_loop shown ws last_id n polls = Some (Inr (probe, ms)) \<Longrightarrow> cm_state probe = ''completed'' \<Longrightarrow>
     new_terminal_text (JList ms) (wt_known ws) (cm_text probe)"
  by (induction shown ws last_id n polls rule: wait_loop.induct)
     (auto simp: Let_def completed_is_not_timeout split: sum.splits if_splits intro: completed_is_terminal)

text \<open>An answer the wait calls completed is the visible text of a finished assistant message, found in the reply to the
  send or in the messages of the last poll, and never one of the messages that were there before the turn.\<close>

theorem completed_answer_is_new:
  assumes "wait_for_visible_assistant_response shown response before timeout interval start polls = Some (Inr (probe, ms))"
    and "cm_state probe = ''completed''"
  shows "\<exists>payload \<in> {response, JList ms}. new_terminal_text payload (extract_assistant_message_ids (JList before) []) (cm_text probe)"
  using assms
  by (fastforce simp: wait_for_visible_assistant_response_def Let_def split: if_splits dest: completed_is_terminal wait_loop_answer)

definition example_reply :: jval where
  "example_reply = JObj [(''info'', JObj [(''id'', JStr ''m1''), (''role'', JStr ''assistant''), (''finish'', JStr ''stop'')]),
     (''parts'', JList [JObj [(''type'', JStr ''text''), (''text'', JStr ''Paris'')]])]"

theorem completed_answer_is_new_witness:
  "\<exists>payload \<in> {JNull, JList [example_reply]}. new_terminal_text payload [] ''Paris''"
  using completed_answer_is_new [of "\<lambda>_. []" JNull "[]" 2 1 10 "[(Inr [example_reply], 11)]"
      "find_latest_assistant_completion (JList [example_reply]) []" "[example_reply]"]
  by code_simp

section \<open>A broken send\<close>

definition holds_the_message :: "jval list \<Rightarrow> string \<Rightarrow> string \<Rightarrow> jval list \<Rightarrow> bool" where
  "holds_the_message before mid expected ms \<longleftrightarrow>
     (\<exists>m \<in> set ms. mid \<noteq> [] \<and> message_id m = mid
        \<or> py_lower (message_role m) = ''user'' \<and> py_strip expected \<noteq> [] \<and> py_strip (message_to_visible_text m) = py_strip expected
          \<and> message_recovery_key m \<notin> set (List.map message_recovery_key before))"

lemma key_of_user: "py_lower (message_role m) = ''user'' \<Longrightarrow> message_recovery_key m \<noteq> []"
  by (auto simp: message_recovery_key_def Let_def)

lemma recovered_by_holds:
  "recovered_by keys mid text ms \<noteq> [] \<Longrightarrow>
     \<exists>m \<in> set ms. mid \<noteq> [] \<and> message_id m = mid
        \<or> py_lower (message_role m) = ''user'' \<and> text \<noteq> [] \<and> py_strip (message_to_visible_text m) = text
          \<and> message_recovery_key m \<notin> keys"
  by (induction keys mid "text" ms rule: recovered_by.induct) (auto simp: Let_def key_of_user split: if_splits)

lemma acceptance_holds:
  "acceptance_loop before mid expected deadline n polls = Some a \<Longrightarrow> ac_accepted a \<Longrightarrow>
     holds_the_message before mid expected (ac_messages a) \<and> (\<exists>now. (Inr (ac_messages a), now) \<in> set polls)"
proof (induction before mid expected deadline n polls rule: acceptance_loop.induct)
  case (2 before mid expected deadline n answer now polls)
  show ?case
  proof (cases answer)
    case (Inl e)
    then show ?thesis using 2 by (auto simp: Let_def split: if_splits)
  next
    case (Inr ms)
    show ?thesis
    proof (cases "detect_recovered_send_acceptance before ms mid expected = []")
      case True
      then have "acceptance_loop before mid expected deadline (Suc n) polls = Some a"
        using 2(2,3) Inr by (auto simp: Let_def split: if_splits)
      moreover have "\<not> deadline \<le> now" using True 2(2,3) Inr by (auto simp: Let_def split: if_splits)
      ultimately show ?thesis using 2(1) [OF refl refl refl refl] 2(3) True Inr by auto
    next
      case False
      then have "holds_the_message before mid expected ms"
        using recovered_by_holds [of _ mid "py_strip expected" ms] key_of_user
        by (fastforce simp: detect_recovered_send_acceptance_def holds_the_message_def)
      then show ?thesis using 2(2) Inr False by (auto simp: Let_def)
    qed
  qed
qed simp

text \<open>When a send breaks, the turn goes on only if OpenCode demonstrably holds its message: a poll listed the message id,
  or a user message with the sent text that was not there before; what the turn then reads is that poll.\<close>

theorem broken_send_accepted_only_if_held:
  assumes "send_with_probe oid mid before expected timeout start (Inl e) polls = Some (Inr (payload, debug))"
  shows "\<exists>ms now. payload = JObj [(''messages'', JList ms)] \<and> (Inr ms, now) \<in> set polls
           \<and> holds_the_message before mid expected ms"
  using assms acceptance_holds
  by (fastforce simp: send_with_probe_def probe_recoverable_send_acceptance_def split: if_splits option.splits)

definition broken_pipe :: client_error where
  "broken_pipe = \<lparr>ce_message = ''reset'', ce_status = None, ce_recoverable = True, ce_method = ''post'', ce_path = ''/session/o1/message''\<rparr>"

definition own_message :: jval where
  "own_message = JObj [(''id'', JStr ''msg_1''), (''role'', JStr ''user'')]"

theorem broken_send_accepted_only_if_held_witness:
  "\<exists>ms now. JObj [(''messages'', JList [own_message])] = JObj [(''messages'', JList ms)]
     \<and> (Inr ms, now) \<in> set [(Inl ''refused'', 11::rat), (Inr [own_message], 12)] \<and> holds_the_message [] ''msg_1'' ''hi'' ms"
  by (rule broken_send_accepted_only_if_held [where oid = "''o1''" and e = broken_pipe and timeout = 60 and start = 10
        and debug = "Some (probe_debug broken_pipe \<lparr>ac_accepted = True, ac_detected_by = ''user_message_id'', ac_attempts = 2,
          ac_messages = [own_message], ac_probe_error = []\<rparr>)"]) code_simp

section \<open>The session of a turn\<close>

text \<open>A session deleted by another request while its recovery creates a new OpenCode session comes back: the recovered record
  is built from the one read before the calls.\<close>

theorem recovery_revives_deleted:
  assumes "session_get st sid = Some r" and "\<not> sr_deleted r" and "ce_status e = Some 404"
    and "require_opencode_session_id payload ''partial_recovery_create_session'' = Inr oid" and "sr_portal_session_id r = sid"
  shows "\<exists>r'. session_get (snd (ensure_record_for_chat now sid title agent model (Some e) (Inr payload) [MarkDeleted t sid] st)) sid
           = Some r' \<and> \<not> sr_deleted r'"
  using assms
  by (simp add: ensure_record_for_chat_def ensure_begin_def ensure_checked_def Let_def session_get_def session_upsert_def
      recovered_session_def session_save_def)

text \<open>A chat for a deleted session is refused before anything is sent or stored; and a chat that gets a session either
  keeps the stored one or stores the one it was given, live and under its own id.\<close>

theorem chat_gets_a_live_session:
  "(case ensure_record_for_chat now sid title agent model checked created [] st of
      (Inl SessionGone, st') \<Rightarrow> st' = st
    | (Inl _, st') \<Rightarrow> st' = st
    | (Inr (r, partial), st') \<Rightarrow> \<not> sr_deleted r \<and> session_get st' sid = Some r
        \<or> (\<exists>r0. session_get st sid = Some r0 \<and> sr_portal_session_id r0 \<noteq> sid))"
  by (auto simp: ensure_record_for_chat_def ensure_begin_def ensure_checked_def ensure_created_def Let_def session_get_def
      session_upsert_def recovered_session_def session_save_def new_chat_session_def
      split: option.splits sum.splits raised.splits prod.splits)

end
