(* ===== verification/SkillInvocation.thy ===== *)
theory SkillInvocation
  imports PermissionGenerator SessionTitle
begin

text \<open>
  \<^verbatim>\<open>skill_invocation.py\<close>, \<^verbatim>\<open>repository_workspace.py\<close> and \<^verbatim>\<open>index_loader.py\<close>: reading a slash command, finding its skill in
  the index, deciding whether it may run, the prompt that runs it, and preparing the repository of a
  create-pull-request skill. The two JSON files are arguments. Git is a list of answers, one for each command in
  turn; the result comes with the commands that were run.
\<close>

section \<open>JSON files\<close>

definition read_json_file :: "jfile option \<Rightarrow> jobj option" where
  "read_json_file f = (case f of Some (JsonText (JObj d)) \<Rightarrow> Some d | _ \<Rightarrow> None)"

definition load_skills_index :: "jfile option \<Rightarrow> jobj" where
  "load_skills_index f =
     (case read_json_file f of Some d \<Rightarrow> if d \<noteq> [] then d else [(''skills'', JList [])] | None \<Rightarrow> [(''skills'', JList [])])"

section \<open>Slash commands\<close>

definition slug_char :: "char \<Rightarrow> bool" where
  "slug_char c = (let n = of_char c :: nat in (48 \<le> n \<and> n \<le> 57) \<or> (97 \<le> n \<and> n \<le> 122) \<or> n = 45)"

fun squeeze :: "char \<Rightarrow> string \<Rightarrow> string" where
  "squeeze x [] = []"
| "squeeze x [c] = [c]"
| "squeeze x (c # d # s) = (if c = x \<and> d = x then squeeze x (d # s) else c # squeeze x (d # s))"

text \<open>Blanks become single dashes before any other character that is not of a slug becomes one each.\<close>

definition normalize_skill_name :: "string \<Rightarrow> string \<Rightarrow> string" where
  "normalize_skill_name raw_name fallback_seed =
     (let spaced = replace_char (CHR '' '') ''-'' (collapse_spaces (replace_char (CHR ''_'') ''-'' (py_lower raw_name)));
          n = strip_chars ''-'' (List.map (\<lambda>c. if slug_char c then c else CHR ''-'') spaced);
          name = squeeze (CHR ''-'') n
      in if name \<noteq> [] then name else ''skill-'' @ take 12 (sha256_of fallback_seed))"

record slash_invocation =
  si_raw_name :: string
  si_skill_name :: string
  si_arguments :: string

definition match_slash :: "string \<Rightarrow> (string \<times> string) option" where
  "match_slash s =
     (case s of
        [] \<Rightarrow> None
      | c # t \<Rightarrow>
          if c \<noteq> CHR ''/'' then None
          else (let name = takeWhile token_char t; rest = dropWhile token_char t in
            if name = [] \<or> hd name \<in> set ''_-'' then None
            else if rest = [] then Some (name, [])
            else if py_isspace (hd rest) then Some (name, py_lstrip rest) else None))"

definition parse_slash_invocation :: "string \<Rightarrow> slash_invocation option" where
  "parse_slash_invocation message =
     (let stripped = py_strip message in
      if stripped = [] then None
      else let parsed = (if CHR 0x0A \<in> set stripped
                         then (case splitlines stripped of [l] \<Rightarrow> match_slash (py_strip l) | _ \<Rightarrow> None)
                         else match_slash stripped)
           in map_option (\<lambda>(raw, arguments). \<lparr>si_raw_name = raw, si_skill_name = normalize_skill_name raw raw,
                                               si_arguments = py_strip arguments\<rparr>) parsed)"

section \<open>Finding the skill\<close>

definition name_spellings :: "string \<Rightarrow> string list" where
  "name_spellings v = [py_lower v, py_lower (replace_char (CHR ''_'') ''-'' v), normalize_skill_name v v]"

definition skill_spellings :: "jobj \<Rightarrow> string list" where
  "skill_spellings skill =
     concat (List.map (\<lambda>v. if v = [] then [] else name_spellings v)
       [str_or_empty (jget skill ''opencode_name''), str_or_empty (jget skill ''efp_name'')])"

definition resolve_skill :: "jfile option \<Rightarrow> string \<Rightarrow> jobj option" where
  "resolve_skill index name =
     (case jget_def (load_skills_index index) ''skills'' (JList []) of
        JList skills \<Rightarrow>
          find (\<lambda>s. any_in (name_spellings name) (skill_spellings s))
            (concat (List.map (\<lambda>s. case s of JObj d \<Rightarrow> [d] | _ \<Rightarrow> []) skills))
      | _ \<Rightarrow> None)"

definition load_skill_permission :: "jfile option \<Rightarrow> jobj" where
  "load_skill_permission config =
     (case jget (case read_json_file config of Some d \<Rightarrow> d | None \<Rightarrow> []) ''permission'' of
        JObj p \<Rightarrow> p | _ \<Rightarrow> default_permission_baseline ''workspace_full_access'' True)"

section \<open>May it run\<close>

definition WRITEBACK_TAGS :: "string list" where
  "WRITEBACK_TAGS = [''mutation'', ''write'', ''comment'', ''transition'', ''assign'', ''delete'', ''external_writeback'',
     ''requires_approval'']"

definition WRITEBACK_TOOL_NAMES :: "string list" where
  "WRITEBACK_TOOL_NAMES = [''github_create_pull_request'', ''efp_github_create_pull_request'']"

definition WRITEBACK_POLICY_TAGS :: "string list" where
  "WRITEBACK_POLICY_TAGS = [''mutation'', ''write'', ''requires_approval'']"

definition strings_in :: "jval list \<Rightarrow> string list" where
  "strings_in xs = concat (List.map (\<lambda>x. case x of JStr s \<Rightarrow> [s] | _ \<Rightarrow> []) xs)"

text \<open>\<^verbatim>\<open>for x in (v or [])\<close>.\<close>

definition iter_or_none :: "jval \<Rightarrow> py_error + jval list" where
  "iter_or_none v = py_iter (py_or v (JList []))"

definition lower_texts :: "jval list \<Rightarrow> string list" where
  "lower_texts xs = List.map (\<lambda>x. py_lower (py_str x)) xs"

definition needs_writeback :: "jval \<Rightarrow> bool" where
  "needs_writeback mapping =
     (case mapping of
        JObj m \<Rightarrow> jget m ''available'' = JBool False
          \<and> (any_in [str_or_empty (jget m ''efp_name''), str_or_empty (jget m ''opencode_name'')] WRITEBACK_TOOL_NAMES
             \<or> any_in (lower_texts (list_or_empty (jget m ''policy_tags''))) WRITEBACK_POLICY_TAGS)
      | _ \<Rightarrow> False)"

definition missing_required_writeback_tools :: "jobj \<Rightarrow> py_error + bool" where
  "missing_required_writeback_tools skill =
     (case iter_or_none (jget skill ''missing_tools'') of Inl e \<Rightarrow> Inl e
      | Inr a \<Rightarrow> (case iter_or_none (jget skill ''missing_opencode_tools'') of Inl e \<Rightarrow> Inl e
        | Inr b \<Rightarrow> (let missing = strings_in a @ strings_in b in
            Inr (any_in WRITEBACK_TOOL_NAMES missing
                 \<or> list_ex needs_writeback (list_or_empty (jget skill ''tool_mappings''))
                 \<or> (any_in (lower_texts (list_or_empty (jget skill ''policy_tags''))) WRITEBACK_POLICY_TAGS \<and> missing \<noteq> [])))))"

text \<open>The first mapping that is not available and carries a writeback tag; a tag list that cannot be iterated raises.\<close>

fun blocking_mapping :: "jval list \<Rightarrow> py_error + bool" where
  "blocking_mapping [] = Inr False"
| "blocking_mapping (m # ms) =
     (case m of
        JObj d \<Rightarrow>
          if jget d ''available'' = JBool True then blocking_mapping ms
          else (case iter_or_none (jget d ''policy_tags'') of Inl e \<Rightarrow> Inl e
                | Inr tags \<Rightarrow> if any_in (lower_texts tags) WRITEBACK_TAGS then Inr True else blocking_mapping ms)
      | _ \<Rightarrow> blocking_mapping ms)"

record skill_decision =
  sd_skill :: "jobj option"
  sd_allowed :: bool
  sd_reason :: string
  sd_permission_state :: string

definition refuse :: "jobj option \<Rightarrow> string \<Rightarrow> string \<Rightarrow> skill_decision" where
  "refuse skill reason state = \<lparr>sd_skill = skill, sd_allowed = False, sd_reason = reason, sd_permission_state = state\<rparr>"

definition allow :: "jobj \<Rightarrow> string \<Rightarrow> string \<Rightarrow> skill_decision" where
  "allow skill reason state = \<lparr>sd_skill = Some skill, sd_allowed = True, sd_reason = reason, sd_permission_state = state\<rparr>"

definition lacks_tools :: "jobj \<Rightarrow> bool" where
  "lacks_tools skill = (truthy (jget skill ''missing_tools'') \<or> truthy (jget skill ''missing_opencode_tools''))"

definition decide_missing_tools :: "jobj \<Rightarrow> string \<Rightarrow> py_error + skill_decision" where
  "decide_missing_tools skill state =
     (case missing_required_writeback_tools skill of Inl e \<Rightarrow> Inl e
      | Inr True \<Rightarrow> Inr (refuse (Some skill) ''missing_required_writeback_tools'' state)
      | Inr False \<Rightarrow>
          (case iter_or_none (jget skill ''tool_mappings'') of Inl e \<Rightarrow> Inl e
           | Inr mappings \<Rightarrow> (case blocking_mapping mappings of Inl e \<Rightarrow> Inl e
               | Inr True \<Rightarrow> Inr (refuse (Some skill) ''missing_required_writeback_tools'' state)
               | Inr False \<Rightarrow> Inr (allow skill ''allowed_with_missing_tools'' state))))"

definition permission_of_skill :: "jfile option \<Rightarrow> jobj \<Rightarrow> slash_invocation \<Rightarrow> string" where
  "permission_of_skill config skill call =
     skill_permission_state (JObj (load_skill_permission config)) (py_str (py_or (jget skill ''opencode_name'') (JStr (si_skill_name call))))"

definition evaluate_skill_invocation :: "jfile option \<Rightarrow> jfile option \<Rightarrow> slash_invocation \<Rightarrow> py_error + skill_decision" where
  "evaluate_skill_invocation index config call =
     (case resolve_skill index (si_skill_name call) of
        None \<Rightarrow> Inr (refuse None ''unknown_skill'' ''unknown'')
      | Some skill \<Rightarrow>
          if skill = [] then Inr (refuse None ''unknown_skill'' ''unknown'')
          else if jget skill ''opencode_supported'' = JBool False
          then Inr (refuse (Some skill) ''unsupported_for_opencode'' ''unknown'')
          else (let state = permission_of_skill config skill call in
            if state \<in> {''denied'', ''unknown''} then Inr (refuse (Some skill) ''permission_denied'' state)
            else if truthy (jget skill ''programmatic'') \<and> \<not> truthy (jget skill ''runtime_equivalence'')
            then Inr (refuse (Some skill) ''programmatic_skill_requires_opencode_wrapper'' state)
            else if lacks_tools skill then decide_missing_tools skill state
            else Inr (allow skill ''allowed'' state)))"

section \<open>The prompt\<close>

definition NL :: string where
  "NL = [CHR 0x0A]"

definition listed_or_none :: "jval list \<Rightarrow> string" where
  "listed_or_none tools = (if tools = [] then ''(none)'' else join_with '', '' (List.map py_str tools))"

definition compatibility_warning :: "jval list \<Rightarrow> jval list \<Rightarrow> bool \<Rightarrow> string" where
  "compatibility_warning missing missing_opencode blocker =
     NL @ NL @ ''Compatibility warning:'' @ NL
     @ ''- This skill has EFP-declared tools that are not currently mapped to OpenCode wrappers.'' @ NL
     @ ''- Missing EFP tools: '' @ listed_or_none missing @ NL
     @ ''- Missing declared OpenCode tools: '' @ listed_or_none missing_opencode @ NL
     @ (if blocker
        then ''- Missing tools include required writeback/mutation capability; do not continue with degraded execution.'' @ NL
        else ''- Still load and apply the skill as far as possible using available OpenCode tools.'' @ NL)
     @ (if blocker then ''- Report the exact blocker and stop.'' @ NL
        else ''- If a specific step requires an unavailable tool, explain the exact blocker and continue with any useful partial result.'' @ NL)
     @ ''- Do not replace missing writeback/API tools with raw curl or ungoverned shell/API calls.''"

definition prompt_text :: "string \<Rightarrow> string \<Rightarrow> string \<Rightarrow> string \<Rightarrow> string" where
  "prompt_text skill_name raw arguments warning =
     ''Run the OpenCode agent skill `'' @ skill_name @ ''`.'' @ NL @ NL @ ''Original user slash command:'' @ NL
     @ ''`'' @ raw @ ''`'' @ NL @ NL @ ''Arguments:'' @ NL @ arguments @ NL @ NL @ ''Instructions:'' @ NL
     @ ''1. Use the native OpenCode `skill` tool to load skill `'' @ skill_name @ ''`.'' @ NL
     @ ''2. Follow `.opencode/skills/'' @ skill_name @ ''/SKILL.md`.'' @ NL
     @ ''3. Do not claim that the skill is running unless you have actually loaded and applied it.'' @ NL
     @ ''4. If the skill cannot be loaded, or required tools are unavailable, report the exact blocker.'' @ warning"

definition build_skill_prompt :: "jobj \<Rightarrow> slash_invocation \<Rightarrow> py_error + string" where
  "build_skill_prompt skill call =
     (let skill_name = py_str (py_or (jget skill ''opencode_name'') (JStr (si_skill_name call)));
          raw = py_strip (''/'' @ si_raw_name call @ '' '' @ si_arguments call);
          missing = list_or_empty (jget skill ''missing_tools'');
          missing_opencode = list_or_empty (jget skill ''missing_opencode_tools'');
          prompt = prompt_text skill_name raw (si_arguments call)
      in if missing = [] \<and> missing_opencode = [] then Inr (prompt [])
         else (case iter_or_none (jget skill ''tool_mappings'') of Inl e \<Rightarrow> Inl e
               | Inr mappings \<Rightarrow> (case blocking_mapping mappings of Inl e \<Rightarrow> Inl e
                   | Inr b \<Rightarrow> Inr (prompt (compatibility_warning missing missing_opencode b)))))"

section \<open>The repository\<close>

record repo_request =
  rr_url :: string
  rr_owner :: string
  rr_repo :: string
  rr_head :: string
  rr_base :: string

definition repo_char :: "char \<Rightarrow> bool" where
  "repo_char c = (token_char c \<or> c = CHR ''.'')"

definition FORBIDDEN_BRANCH_CHARS :: string where
  "FORBIDDEN_BRANCH_CHARS = [CHR '';'', CHR ''&'', CHR ''|'', CHR ''$'', CHR 0x60, CHR 0x0A, CHR 0x0D]"

definition github_url :: "string \<Rightarrow> (string \<times> string) option" where
  "github_url url =
     (let p = ''https://github.com/'' in
      if \<not> startswith (py_lower url) p then None
      else let rest = drop (length p) url; owner = takeWhile repo_char rest; after = dropWhile repo_char rest in
        if owner = [] \<or> after = [] \<or> hd after \<noteq> CHR ''/'' then None
        else let repo = tl after in if repo \<noteq> [] \<and> list_all repo_char repo then Some (owner, repo) else None)"

definition without_git :: "string \<Rightarrow> string" where
  "without_git repo = (if endswith repo ''.git'' then take (length repo - 4) repo else repo)"

definition parse_create_pr_repo_request :: "string \<Rightarrow> repo_request option" where
  "parse_create_pr_repo_request arguments =
     (case py_words arguments of
        [w1, w2, w3, url, w4, w5, head, w6, base] \<Rightarrow>
          if List.map py_lower [w1, w2, w3, w4, w5, w6] \<noteq> [''in'', ''git'', ''repo'', ''from'', ''branch'', ''to''] then None
          else (case github_url url of None \<Rightarrow> None
                | Some (owner, repo) \<Rightarrow>
                    if list_ex (\<lambda>c. c \<in> set head \<or> c \<in> set base) FORBIDDEN_BRANCH_CHARS then None
                    else Some \<lparr>rr_url = url, rr_owner = owner, rr_repo = without_git repo, rr_head = head, rr_base = base\<rparr>)
      | _ \<Rightarrow> None)"

datatype git_answer = GitExit int string string | GitMissing | GitTimeout

record checkout =
  ck_success :: bool
  ck_path :: string
  ck_error :: "string option"
  ck_message :: string

definition failed :: "string \<Rightarrow> string \<Rightarrow> string \<Rightarrow> checkout" where
  "failed target error message = \<lparr>ck_success = False, ck_path = target, ck_error = Some error, ck_message = message\<rparr>"

definition AUTH_WORDS :: "string list" where
  "AUTH_WORDS = [''authentication'', ''permission denied'', ''could not read'', ''not found'']"

definition auth_or :: "string \<Rightarrow> string \<Rightarrow> string \<Rightarrow> string" where
  "auth_or out err dflt =
     (if list_ex (\<lambda>w. contains w (py_lower (out @ NL @ err))) AUTH_WORDS then ''git_auth_failed'' else dflt)"

text \<open>The steps of the checkout: a command, and what an answer with an exit status makes of it (\<^verbatim>\<open>None\<close>: go on).\<close>

type_synonym git_step = "string list \<times> (int \<Rightarrow> string \<Rightarrow> string \<Rightarrow> checkout option)"

definition clone_step :: "string \<Rightarrow> repo_request \<Rightarrow> git_step" where
  "clone_step target r =
     ([''git'', ''clone'', ''--origin'', ''origin'', rr_url r, target],
      \<lambda>rc out err. if rc \<noteq> 0 then Some (failed target (auth_or out err ''git_clone_failed'') ''Repository checkout failed during clone.'')
                   else None)"

definition status_step :: "string \<Rightarrow> git_step" where
  "status_step target =
     ([''git'', ''-C'', target, ''status'', ''--porcelain''],
      \<lambda>rc out err. if rc \<noteq> 0 then Some (failed target ''git_status_failed'' ''Repository checkout failed during status inspection.'')
                   else if py_strip out \<noteq> [] then Some (failed target ''workspace_dirty'' ''Repository checkout failed: workspace is dirty.'')
                   else None)"

definition set_url_step :: "string \<Rightarrow> repo_request \<Rightarrow> git_step" where
  "set_url_step target r =
     ([''git'', ''-C'', target, ''remote'', ''set-url'', ''origin'', rr_url r],
      \<lambda>rc out err. if rc \<noteq> 0
        then Some (failed target ''git_remote_update_failed'' ''Repository checkout failed while updating origin URL.'') else None)"

definition fetch_step :: "string \<Rightarrow> string \<Rightarrow> git_step" where
  "fetch_step target branch =
     ([''git'', ''-C'', target, ''fetch'', ''origin'', branch],
      \<lambda>rc out err. if rc \<noteq> 0
        then Some (failed target (auth_or out err ''git_fetch_failed'') (''Repository checkout failed while fetching branch '' @ branch @ ''.''))
        else None)"

definition checkout_step :: "string \<Rightarrow> string \<Rightarrow> git_step" where
  "checkout_step target head =
     ([''git'', ''-C'', target, ''checkout'', ''-B'', head, ''origin/'' @ head],
      \<lambda>rc out err. if rc \<noteq> 0
        then Some (failed target ''git_checkout_failed'' ''Repository checkout failed while checking out head branch.'') else None)"

fun run_git :: "string \<Rightarrow> git_step list \<Rightarrow> git_answer list \<Rightarrow> checkout \<times> string list list" where
  "run_git target [] answers =
     (\<lparr>ck_success = True, ck_path = target, ck_error = None, ck_message = ''Repository checkout prepared.''\<rparr>, [])"
| "run_git target ((command, judge) # steps) answers =
     (case (case answers of [] \<Rightarrow> GitMissing | a # _ \<Rightarrow> a) of
        GitMissing \<Rightarrow> (failed target ''git_not_available'' ''Repository checkout failed: git is not available.'', [command])
      | GitTimeout \<Rightarrow> (failed target ''git_timeout'' ''Repository checkout failed due to git timeout.'', [command])
      | GitExit rc out err \<Rightarrow>
          (case judge rc out err of
             Some failure \<Rightarrow> (failure, [command])
           | None \<Rightarrow> (case run_git target steps (tl answers) of (result, commands) \<Rightarrow> (result, command # commands))))"

definition join_dir :: "string \<Rightarrow> string \<Rightarrow> string" where
  "join_dir base part = (if part \<in> {[], ''.''} then base else if endswith base ''/'' then base @ part else base @ ''/'' @ part)"

definition checkout_target :: "string \<Rightarrow> repo_request \<Rightarrow> string" where
  "checkout_target repos_dir r = join_dir (join_dir repos_dir (rr_owner r)) (rr_repo r)"

text \<open>\<open>is_git_repo\<close>: whether the target holds a \<^verbatim>\<open>.git\<close>.\<close>

definition checkout_steps :: "string \<Rightarrow> bool \<Rightarrow> repo_request \<Rightarrow> git_step list" where
  "checkout_steps target is_git_repo r =
     (if is_git_repo then [status_step target, set_url_step target r] else [clone_step target r])
     @ [fetch_step target (rr_head r), fetch_step target (rr_base r), checkout_step target (rr_head r)]"

definition ensure_repo_checkout :: "string \<Rightarrow> (string \<Rightarrow> bool) \<Rightarrow> git_answer list \<Rightarrow> repo_request \<Rightarrow> checkout \<times> string list list" where
  "ensure_repo_checkout repos_dir is_git_repo answers r =
     (let target = checkout_target repos_dir r in run_git target (checkout_steps target (is_git_repo target) r) answers)"

section \<open>What may run\<close>

text \<open>What it means that a skill's missing tools leave it no way to write back: none of the two pull request tools is missing,
  no tool mapping that is not available carries one of the eight tags of a change or is one of the two tools, and the
  skill itself does not carry a tag of a change while a tool is missing. Tags are compared in lower case.\<close>

definition is_missing :: "jobj \<Rightarrow> string \<Rightarrow> bool" where
  "is_missing skill tool \<longleftrightarrow>
     JStr tool \<in> set (list_or_empty (jget skill ''missing_tools'') @ list_or_empty (jget skill ''missing_opencode_tools''))"

definition tags_of :: "jobj \<Rightarrow> string list" where
  "tags_of d = List.map (\<lambda>x. py_lower (py_str x)) (list_or_empty (jget d ''policy_tags''))"

definition mapping_harmless :: "jval \<Rightarrow> bool" where
  "mapping_harmless m =
     (case m of
        JObj d \<Rightarrow>
          (jget d ''available'' = JBool True \<or> list_all (\<lambda>tag. tag \<notin> {''mutation'', ''write'', ''comment'', ''transition'', ''assign'',
              ''delete'', ''external_writeback'', ''requires_approval''}) (tags_of d))
          \<and> (jget d ''available'' = JBool False \<longrightarrow> list_all (\<lambda>k. jget d k \<notin> JStr `
              {''github_create_pull_request'', ''efp_github_create_pull_request''}) [''efp_name'', ''opencode_name''])
      | _ \<Rightarrow> True)"

definition writeback_free :: "jobj \<Rightarrow> bool" where
  "writeback_free skill \<longleftrightarrow>
     \<not> is_missing skill ''github_create_pull_request'' \<and> \<not> is_missing skill ''efp_github_create_pull_request''
     \<and> list_all mapping_harmless (list_or_empty (jget skill ''tool_mappings''))
     \<and> ((\<exists>tool. is_missing skill tool) \<longrightarrow> list_all (\<lambda>tag. tag \<notin> {''mutation'', ''write'', ''requires_approval''}) (tags_of skill))"

lemma iter_list: "iter_or_none v = Inr xs \<Longrightarrow> list_or_empty v = xs \<or> list_or_empty v = []"
  by (cases v) (auto simp: iter_or_none_def py_or_def split: if_splits)

lemma missing_is_read:
  assumes "iter_or_none (jget skill ''missing_tools'') = Inr a" "iter_or_none (jget skill ''missing_opencode_tools'') = Inr b"
    and "is_missing skill tool"
  shows "tool \<in> set (strings_in a @ strings_in b)"
proof -
  have "JStr tool \<in> set a \<or> JStr tool \<in> set b"
    using assms(3) iter_list [OF assms(1)] iter_list [OF assms(2)] by (auto simp: is_missing_def)
  then show ?thesis by (force simp: strings_in_def)
qed

lemma unblocked_tags:
  assumes "blocking_mapping ms = Inr False" and "JObj d \<in> set ms" and "jget d ''available'' \<noteq> JBool True"
  shows "list_all (\<lambda>tag. tag \<notin> set WRITEBACK_TAGS) (tags_of d)"
  using assms
proof (induction ms)
  case (Cons m ms)
  show ?case
  proof (cases "m = JObj d")
    case True
    then obtain tags where tags: "iter_or_none (jget d ''policy_tags'') = Inr tags" "\<not> any_in (lower_texts tags) WRITEBACK_TAGS"
      using Cons.prems by (auto split: sum.splits if_splits)
    then have "list_all (\<lambda>tag. tag \<notin> set WRITEBACK_TAGS) (List.map (\<lambda>x. py_lower (py_str x)) tags)"
      by (auto simp: any_in_def lower_texts_def list_all_iff list_ex_iff)
    then show ?thesis using iter_list [OF tags(1)] by (auto simp: tags_of_def)
  next
    case False
    then show ?thesis using Cons by (auto split: jval.splits sum.splits if_splits)
  qed
qed simp

lemma not_needed_names:
  assumes "\<not> needs_writeback (JObj d)" and "jget d ''available'' = JBool False" and "k \<in> {''efp_name'', ''opencode_name''}"
  shows "jget d k \<notin> JStr ` {''github_create_pull_request'', ''efp_github_create_pull_request''}"
  using assms by (auto simp: needs_writeback_def any_in_def WRITEBACK_TOOL_NAMES_def)

lemma decided_missing:
  assumes "decide_missing_tools skill state = Inr d" and "sd_allowed d"
  shows "sd_skill d = Some skill \<and> writeback_free skill"
proof -
  obtain a b where lists: "iter_or_none (jget skill ''missing_tools'') = Inr a" "iter_or_none (jget skill ''missing_opencode_tools'') = Inr b"
    and clear: "missing_required_writeback_tools skill = Inr False"
    using assms by (auto simp: decide_missing_tools_def refuse_def missing_required_writeback_tools_def Let_def split: sum.splits bool.splits)
  obtain ms where ms: "iter_or_none (jget skill ''tool_mappings'') = Inr ms" "blocking_mapping ms = Inr False"
    using assms clear by (auto simp: decide_missing_tools_def refuse_def split: sum.splits bool.splits)
  let ?missing = "strings_in a @ strings_in b"
  have free: "\<not> any_in WRITEBACK_TOOL_NAMES ?missing" "\<not> list_ex needs_writeback (list_or_empty (jget skill ''tool_mappings''))"
      "\<not> any_in (lower_texts (list_or_empty (jget skill ''policy_tags''))) WRITEBACK_POLICY_TAGS \<or> ?missing = []"
    using clear lists by (auto simp: missing_required_writeback_tools_def Let_def)
  have "\<not> is_missing skill tool" if "tool \<in> set WRITEBACK_TOOL_NAMES" for tool
    using missing_is_read [OF lists, of tool] free(1) that by (auto simp: any_in_def list_ex_iff)
  moreover have "mapping_harmless m" if "m \<in> set (list_or_empty (jget skill ''tool_mappings''))" for m
  proof (cases m)
    case (JObj d)
    have "JObj d \<in> set ms" using iter_list [OF ms(1)] that JObj by auto
    moreover have "\<not> needs_writeback (JObj d)" using free(2) that JObj by (auto simp: list_ex_iff)
    ultimately show ?thesis
      using JObj unblocked_tags [OF ms(2), of d] not_needed_names [of d] by (auto simp: mapping_harmless_def WRITEBACK_TAGS_def)
  qed (simp_all add: mapping_harmless_def)
  moreover have "list_all (\<lambda>tag. tag \<notin> {''mutation'', ''write'', ''requires_approval''}) (tags_of skill)" if "is_missing skill tool" for tool
    using missing_is_read [OF lists that] free(3)
    by (auto simp: any_in_def tags_of_def lower_texts_def WRITEBACK_POLICY_TAGS_def list_all_iff list_ex_iff)
  ultimately have "writeback_free skill" by (auto simp: writeback_free_def WRITEBACK_TOOL_NAMES_def list_all_iff)
  moreover have "sd_skill d = Some skill"
    using assms by (auto simp: decide_missing_tools_def refuse_def allow_def split: sum.splits bool.splits)
  ultimately show ?thesis by blast
qed

definition may_run :: "jfile option \<Rightarrow> slash_invocation \<Rightarrow> jobj \<Rightarrow> bool" where
  "may_run config call skill \<longleftrightarrow>
     jget skill ''opencode_supported'' \<noteq> JBool False
     \<and> permission_of_skill config skill call \<notin> {''denied'', ''unknown''}
     \<and> (truthy (jget skill ''runtime_equivalence'') \<or> \<not> truthy (jget skill ''programmatic''))
     \<and> ((truthy (jget skill ''missing_tools'') \<or> truthy (jget skill ''missing_opencode_tools'')) \<longrightarrow> writeback_free skill)"


definition review_index :: "jfile option" where
  "review_index = Some (JsonText (JObj [(''skills'', JList [JObj [(''opencode_name'', JStr ''review''),
     (''missing_tools'', JList [JStr ''efp_lint'']), (''tool_mappings'', JList [JObj [(''available'', JBool False)]])]])]))"

definition review_call :: slash_invocation where
  "review_call = \<lparr>si_raw_name = ''review'', si_skill_name = ''review'', si_arguments = ''all''\<rparr>"


section \<open>What the checkout does\<close>

definition strict_step :: "git_step \<Rightarrow> bool" where
  "strict_step st \<longleftrightarrow> (\<forall>rc out err. (rc \<noteq> 0 \<longrightarrow> snd st rc out err \<noteq> None)
     \<and> (\<forall>r. snd st rc out err = Some r \<longrightarrow> \<not> ck_success r))"

fun exited_well :: "git_answer \<Rightarrow> bool" where
  "exited_well (GitExit rc out err) = (rc = 0)"
| "exited_well _ = False"

lemma run_git_success:
  "run_git target steps answers = (result, commands) \<Longrightarrow> ck_success result \<Longrightarrow> list_all strict_step steps \<Longrightarrow>
     commands = List.map fst steps \<and> length steps \<le> length answers \<and> list_all exited_well (take (length steps) answers)"
proof (induction target steps answers arbitrary: result commands rule: run_git.induct)
  case (2 target command judge steps answers)
  show ?case
  proof (cases answers)
    case Nil
    then show ?thesis using 2 by (auto simp: failed_def)
  next
    case (Cons a rest)
    show ?thesis
    proof (cases a)
      case (GitExit rc out err)
      then have "judge rc out err = None" using 2(2-4) Cons
        by (cases "judge rc out err") (auto simp: strict_step_def)
      moreover from 2(4) have "strict_step (command, judge)" by simp
      then have "rc \<noteq> 0 \<Longrightarrow> judge rc out err \<noteq> None" unfolding strict_step_def snd_conv by blast
      ultimately have "rc = 0" "judge rc out err = None" by auto
      then show ?thesis using 2 Cons GitExit by (auto split: prod.splits)
    qed (use 2 Cons in \<open>auto simp: failed_def\<close>)
  qed
qed simp

lemma checkout_steps_strict: "list_all strict_step (checkout_steps target is_repo r)"
  by (auto simp: checkout_steps_def strict_step_def clone_step_def status_step_def set_url_step_def fetch_step_def
      checkout_step_def failed_def)

text \<open>A prepared repository was really prepared: every git command was run, in order and in the target, both branches were
  fetched before the head branch was checked out, and each one exited with status zero.\<close>

theorem prepared_repository_is_checked_out:
  assumes "ensure_repo_checkout repos_dir is_git_repo answers r = (result, commands)" and "ck_success result"
  shows "let target = checkout_target repos_dir r; n = length commands in
     list_all exited_well (take n answers) \<and> n \<le> length answers
     \<and> drop (n - 3) commands = [[''git'', ''-C'', target, ''fetch'', ''origin'', rr_head r], [''git'', ''-C'', target, ''fetch'', ''origin'', rr_base r],
          [''git'', ''-C'', target, ''checkout'', ''-B'', rr_head r, ''origin/'' @ rr_head r]]
     \<and> hd commands = (if is_git_repo target then [''git'', ''-C'', target, ''status'', ''--porcelain'']
                     else [''git'', ''clone'', ''--origin'', ''origin'', rr_url r, target])"
  using run_git_success [OF assms(1) [unfolded ensure_repo_checkout_def Let_def] assms(2) checkout_steps_strict]
  by (auto simp: Let_def checkout_steps_def clone_step_def status_step_def set_url_step_def fetch_step_def checkout_step_def)

definition sample_repo :: repo_request where
  "sample_repo = \<lparr>rr_url = ''https://github.com/o/r'', rr_owner = ''o'', rr_repo = ''r'', rr_head = ''dev'', rr_base = ''main''\<rparr>"

definition four_exits :: "git_answer list" where
  "four_exits = replicate 4 (GitExit 0 [] [])"

theorem prepared_repository_is_checked_out_witness:
  "hd (snd (ensure_repo_checkout ''/w/repos'' (\<lambda>_. False) four_exits sample_repo))
     = [''git'', ''clone'', ''--origin'', ''origin'', ''https://github.com/o/r'', ''/w/repos/o/r'']"
proof -
  let ?x = "ensure_repo_checkout ''/w/repos'' (\<lambda>_. False) four_exits sample_repo"
  have target: "checkout_target ''/w/repos'' sample_repo = ''/w/repos/o/r''" by code_simp
  have "ck_success (fst ?x)" by code_simp
  from prepared_repository_is_checked_out [OF prod.collapse [symmetric] this] show ?thesis
    by (simp add: Let_def target) (simp add: sample_repo_def)
qed

text \<open>The owner and the repository of the address may be dots, which leads out of the repositories' directory; and a branch may
  begin with a dash, which git reads as an option.\<close>

theorem checkout_target_can_leave:
  "map_option (\<lambda>r. (checkout_target ''/w/repos'' r, rr_head r))
     (parse_create_pr_repo_request ''in git repo https://github.com/../.. from branch --all to main'')
   = Some (''/w/repos/../..'', ''--all'')"
  by code_simp

end
