(* ===== verification/PortalMetadata.thy ===== *)
theory PortalMetadata
  imports JsonText NetText ThinkingEvents
begin

text \<open>
  \<^verbatim>\<open>portal_metadata_client.py\<close>: what the Portal is told about a session. Each call makes one request; the Portal's
  answer (a failure by its text, or a status with a body) is an argument, and the pending file of failed publishes
  is the text of its lines.
\<close>

section \<open>The requests\<close>

record portal_settings =
  ps_base_url :: string
  ps_agent_id :: string
  ps_token :: string

definition portal_headers :: "portal_settings \<Rightarrow> (string \<times> string) list" where
  "portal_headers s =
     (if ps_token s = [] then []
      else [(''Authorization'', ''Bearer '' @ ps_token s), (''X-Portal-Internal-Token'', ps_token s)])"

definition session_url :: "portal_settings \<Rightarrow> string \<Rightarrow> string \<Rightarrow> string" where
  "session_url s session_id leaf =
     rstrip_chars ''/'' (ps_base_url s) @ ''/api/internal/agents/'' @ quote_all (ps_agent_id s) @ ''/sessions/'' @ quote_all session_id
       @ ''/'' @ leaf"

record portal_request =
  pq_method :: string
  pq_url :: string
  pq_headers :: "(string \<times> string) list"
  pq_body :: "jobj option"

datatype portal_answer = PortalFailed string | PortalAnswered int string "jval option"

definition configured :: "portal_settings \<Rightarrow> bool" where
  "configured s = (ps_base_url s \<noteq> [] \<and> ps_agent_id s \<noteq> [])"

definition SKIPPED :: jobj where
  "SKIPPED = [(''success'', JBool False), (''skipped'', JBool True)]"

definition good_status :: "int \<Rightarrow> bool" where
  "good_status status = (200 \<le> status \<and> status < 300)"

section \<open>The pending file\<close>

text \<open>\<open>None\<close>: no pending file is configured.\<close>

definition record_pending :: "string \<Rightarrow> string \<Rightarrow> jobj \<Rightarrow> string \<Rightarrow> string option \<Rightarrow> string option" where
  "record_pending verb url payload error pending =
     map_option (\<lambda>text. text @ spaced_dumps (JObj [(''method'', JStr verb), (''url'', JStr url),
        (''payload'', safe_preview (JObj payload) 4000), (''error'', JStr (preview_text error 1000))]) @ [CHR 0x0A]) pending"

section \<open>Publishing a session\<close>

record publication =
  pb_session_id :: string
  pb_event_type :: string
  pb_event_state :: string
  pb_request_id :: string
  pb_task_id :: "string option"
  pb_summary :: string
  pb_runtime_events :: "jval list"
  pb_metadata :: jobj

definition metadata_document :: "string \<Rightarrow> publication \<Rightarrow> jobj" where
  "metadata_document now p =
     put_all [(''latest_summary'', JStr (pb_summary p)), (''engine'', JStr ''opencode''), (''updated_at'', JStr now)] (pb_metadata p)"

definition metadata_body :: "string \<Rightarrow> publication \<Rightarrow> jobj" where
  "metadata_body now p =
     [(''latest_event_type'', JStr (pb_event_type p)), (''latest_event_state'', JStr (pb_event_state p)),
      (''last_execution_id'', JStr (pb_request_id p)),
      (''current_task_id'', (case pb_task_id p of Some t \<Rightarrow> if t \<noteq> [] then JStr t else JNull | None \<Rightarrow> JNull)),
      (''runtime_events_json'', JStr (spaced_dumps (safe_preview (JList (last_n 50 (pb_runtime_events p))) 4000))),
      (''metadata_json'', JStr (spaced_dumps (safe_preview (JObj (metadata_document now p)) 2000)))]"

definition metadata_request :: "portal_settings \<Rightarrow> string \<Rightarrow> publication \<Rightarrow> portal_request" where
  "metadata_request s now p =
     \<lparr>pq_method = ''PUT'', pq_url = session_url s (pb_session_id p) ''metadata'', pq_headers = portal_headers s,
      pq_body = Some (metadata_body now p)\<rparr>"

text \<open>The text of the error of an answer that is no success.\<close>

definition answer_error :: "portal_answer \<Rightarrow> string option" where
  "answer_error a =
     (case a of PortalFailed e \<Rightarrow> Some e
      | PortalAnswered status body json \<Rightarrow>
          if good_status status then None else Some (''status='' @ int_text status @ '' '' @ body))"

definition publish_session_metadata ::
    "portal_settings \<Rightarrow> string \<Rightarrow> portal_answer \<Rightarrow> publication \<Rightarrow> string option \<Rightarrow> jobj \<times> portal_request list \<times> string option"
where
  "publish_session_metadata s now a p pending =
     (if \<not> configured s then (SKIPPED, [], pending)
      else let request = metadata_request s now p in
        case answer_error a of
          None \<Rightarrow> ([(''success'', JBool True), (''status'', case a of PortalAnswered status body json \<Rightarrow> JInt status | _ \<Rightarrow> JNull)],
                  [request], pending)
        | Some e \<Rightarrow> ([(''success'', JBool False), (''error'', JStr (preview_text e 500))], [request],
                   record_pending ''PUT'' (pq_url request) (metadata_body now p) e pending))"

section \<open>The title alone, and deleting\<close>

definition status_reply :: "int \<Rightarrow> jobj" where
  "status_reply status = [(''success'', JBool True), (''status'', JInt status)]"

definition parse_title_response :: "portal_answer \<Rightarrow> jobj" where
  "parse_title_response a =
     (case a of PortalFailed e \<Rightarrow> [(''success'', JBool False), (''error'', JStr (preview_text e 500))]
      | PortalAnswered status body json \<Rightarrow>
          if good_status status then status_reply status
          else if status \<in> {404, 405}
          then [(''success'', JBool False), (''skipped'', JBool True), (''status'', JInt status),
                (''reason'', JStr ''portal_title_endpoint_unavailable'')]
          else [(''success'', JBool False), (''status'', JInt status), (''error'', JStr (preview_text body 500))])"

definition publish_session_title ::
    "portal_settings \<Rightarrow> portal_answer \<Rightarrow> string \<Rightarrow> string \<Rightarrow> string option \<Rightarrow> jobj \<times> portal_request list \<times> string option" where
  "publish_session_title s a session_id title pending =
     (let normalized = py_strip title in
      if \<not> configured s \<or> normalized = [] then (SKIPPED, [], pending)
      else let url = session_url s session_id ''title''; body = [(''title'', JStr normalized)]; out = parse_title_response a;
               request = \<lparr>pq_method = ''PATCH'', pq_url = url, pq_headers = portal_headers s, pq_body = Some body\<rparr>
           in (out, [request],
               if truthy (jget out ''success'') \<or> truthy (jget out ''skipped'') then pending
               else record_pending ''PATCH'' url body (py_str (py_or (jget out ''error'') (jget out ''status''))) pending))"

definition parse_delete_response :: "portal_answer \<Rightarrow> jobj" where
  "parse_delete_response a =
     (case a of PortalFailed e \<Rightarrow> [(''success'', JBool False), (''error'', JStr (preview_text e 500))]
      | PortalAnswered status body json \<Rightarrow>
          if good_status status
          then [(''success'', JBool True), (''status'', JInt status), (''payload'', case json of Some v \<Rightarrow> v | None \<Rightarrow> JNull)]
          else if status \<in> {404, 405}
          then [(''success'', JBool False), (''skipped'', JBool True), (''status'', JInt status),
                (''reason'', JStr ''portal_metadata_delete_endpoint_unavailable'')]
          else [(''success'', JBool False), (''status'', JInt status), (''error'', JStr (preview_text body 500))])"

definition delete_session_metadata :: "portal_settings \<Rightarrow> portal_answer \<Rightarrow> string \<Rightarrow> jobj \<times> portal_request list" where
  "delete_session_metadata s a session_id =
     (if \<not> configured s then (SKIPPED @ [(''reason'', JStr ''portal_metadata_not_configured'')], [])
      else (parse_delete_response a, [\<lparr>pq_method = ''DELETE'', pq_url = session_url s session_id ''metadata'',
              pq_headers = portal_headers s, pq_body = None\<rparr>]))"

end
