(* ===== verification/ChatTurn.thy ===== *)
theory ChatTurn
  imports ChatParts SkillInvocation PortalMetadata
begin

text \<open>
  The chat handler of \<^verbatim>\<open>chat_api.py\<close> (\<^verbatim>\<open>handle_chat_payload_for_app\<close> with \<^verbatim>\<open>_maybe_apply_skill_invocation\<close>): one turn as a
  computation over the stores of the application. A computation takes the turn's state (its events so far, its
  OpenCode session, its trace, the calls it made, and the world) to a value, an exception, or \<open>Unfinished\<close> when the
  polls given to it end first. At every \<^verbatim>\<open>await\<close> of a call to another service the \<open>meanwhile\<close> of the surroundings acts on
  the world: it is what any other requests do to the stores in that time. The answers of the calls, clocks and ids
  are fields of the surroundings.
\<close>

section \<open>The world of a turn\<close>

record 'o chat_world =
  cw_sessions :: session_store
  cw_bindings :: "binding_store option"
  cw_bus :: event_bus
  cw_observers :: 'o
  cw_logs :: chatlog_store
  cw_display :: "display_store option"
  cw_usage :: string
  cw_auto :: "auto_manager option"
  cw_tasks :: "string list"
  cw_pending :: "string option"
  cw_portal :: "portal_request list"

datatype opencode_call =
    SendMessage string send_call
  | ExecuteCommand string string string "string option" string string

record 'o chat_turn =
  tn_events :: "jobj list"
  tn_oid :: string
  tn_trace :: jobj
  tn_calls :: "opencode_call list"
  tn_world :: "'o chat_world"

datatype await_point = AtSession | AtPortal | AtBefore | AtCommands | AtCommand | AtSend | AtWait | AtAfter

text \<open>One event's stamp, time and the bus's three clock readings; \<open>sx_moment n\<close> is for the turn's \<open>n\<close>-th event.\<close>

type_synonym moment = "(string \<times> pyfloat) \<times> (rat \<times> rat \<times> rat)"

record 'o surroundings =
  sx_meanwhile :: "await_point \<Rightarrow> 'o chat_world \<Rightarrow> 'o chat_world"
  sx_observers :: "('o \<Rightarrow> jval \<Rightarrow> 'o) list"
  sx_moment :: "nat \<Rightarrow> moment"
  sx_stamp :: string
  sx_now :: rat
  sx_shown :: "rat \<Rightarrow> string"
  sx_portal_settings :: portal_settings
  sx_portal_answer :: portal_answer
  sx_timeout :: rat
  sx_poll :: rat
  sx_index :: "jfile option"
  sx_config :: "jfile option"
  sx_repos_dir :: string
  sx_is_repo :: "string \<Rightarrow> bool"
  sx_git :: "git_answer list"
  sx_boot_snapshot :: jval
  sx_build :: "string \<Rightarrow> bool \<Rightarrow> jval \<Rightarrow> string + (jval list \<times> jval list)"
  sx_languages :: "string list"
  sx_render :: "reply_language \<Rightarrow> string"
  sx_uuid :: string
  sx_message_id :: string
  sx_error_text :: "py_error \<Rightarrow> string"
  sx_log_error_text :: "chatlog_error \<Rightarrow> string"
  sx_checked :: "client_error option"
  sx_created :: "client_error + jval"
  sx_before :: "raised + jval list"
  sx_commands :: "string + jval list"
  sx_command_reply :: "raised + jval"
  sx_sent :: "client_error + jval"
  sx_probe_polls :: "poll list"
  sx_wait_polls :: "wait_poll list"
  sx_after :: "raised + jval list"

section \<open>Computations\<close>

datatype 'a outcome = Done 'a | Raises raised | Unfinished

type_synonym ('a, 'o) act = "'o chat_turn \<Rightarrow> 'a outcome \<times> 'o chat_turn"

definition give :: "'a \<Rightarrow> ('a, 'o) act" where
  "give a t = (Done a, t)"

definition raises :: "raised \<Rightarrow> ('a, 'o) act" where
  "raises e t = (Raises e, t)"

definition chain :: "('a, 'o) act \<Rightarrow> ('a \<Rightarrow> ('b, 'o) act) \<Rightarrow> ('b, 'o) act" where
  "chain m f t = (case m t of (Done a, t1) \<Rightarrow> f a t1 | (Raises e, t1) \<Rightarrow> (Raises e, t1) | (Unfinished, t1) \<Rightarrow> (Unfinished, t1))"

definition andthen :: "(unit, 'o) act \<Rightarrow> ('b, 'o) act \<Rightarrow> ('b, 'o) act" where
  "andthen m n = chain m (\<lambda>_. n)"

definition reads :: "('o chat_turn \<Rightarrow> 'a) \<Rightarrow> ('a, 'o) act" where
  "reads f t = (Done (f t), t)"

definition settled :: "raised + 'a \<Rightarrow> ('a, 'o) act" where
  "settled r = (case r of Inl e \<Rightarrow> raises e | Inr a \<Rightarrow> give a)"

definition on_world :: "('o chat_world \<Rightarrow> 'o chat_world) \<Rightarrow> (unit, 'o) act" where
  "on_world f t = (Done (), t\<lparr>tn_world := f (tn_world t)\<rparr>)"

definition await :: "'o surroundings \<Rightarrow> await_point \<Rightarrow> (unit, 'o) act" where
  "await sx p = on_world (sx_meanwhile sx p)"

definition calls :: "opencode_call \<Rightarrow> (unit, 'o) act" where
  "calls c t = (Done (), t\<lparr>tn_calls := tn_calls t @ [c]\<rparr>)"

definition to_turn :: "('o chat_turn \<Rightarrow> 'o chat_turn) \<Rightarrow> (unit, 'o) act" where
  "to_turn f t = (Done (), f t)"

section \<open>The request\<close>

record chat_request =
  cq_message :: string
  cq_metadata :: jobj
  cq_profile :: jobj
  cq_session_id :: string
  cq_request_id :: string
  cq_title :: string
  cq_model :: "string option"
  cq_effort :: "string option"
  cq_agent :: "string option"
  cq_system :: "string option"
  cq_language :: "reply_language option"
  cq_attachments :: jval
  cq_message_id :: string
  cq_author :: "(string \<times> jval) list"

definition FINAL_RESPONSE_CONTRACT_SUFFIX :: string where
  "FINAL_RESPONSE_CONTRACT_SUFFIX = NL @ NL @ ''Runtime contract: Return the final visible answer for this request. ''
     @ ''If blocked, state the exact blocker.''"

definition system_text :: "string option \<Rightarrow> string" where
  "system_text given =
     (case given of Some s \<Rightarrow> if s \<noteq> [] then s @ FINAL_RESPONSE_CONTRACT_SUFFIX else py_strip FINAL_RESPONSE_CONTRACT_SUFFIX
      | None \<Rightarrow> py_strip FINAL_RESPONSE_CONTRACT_SUFFIX)"

definition bad_value :: "string + 'a \<Rightarrow> raised + 'a" where
  "bad_value r = (case r of Inl e \<Rightarrow> Inl (BadRequest e) | Inr a \<Rightarrow> Inr a)"

definition request_with_ids ::
    "'o surroundings \<Rightarrow> (string \<times> jval) list \<Rightarrow> jobj \<Rightarrow> string \<Rightarrow> jobj \<Rightarrow> jobj \<Rightarrow> string \<Rightarrow> string \<Rightarrow> raised + chat_request" where
  "request_with_ids sx author payload message metadata profile sid rid =
     (case bad_value (reasoning_effort_from_chat_payload payload metadata) of Inl e \<Rightarrow> Inl e
      | Inr effort \<Rightarrow>
          let lang = resolve_reply_language (sx_languages sx) (JObj metadata);
              system = system_text (or_text (optional_str (jget payload ''system'')) (optional_str (jget metadata ''system'')))
          in case requested_message_id (sx_message_id sx) payload of Inl e \<Rightarrow> Inl e
             | Inr mid \<Rightarrow> Inr \<lparr>cq_message = message, cq_metadata = metadata, cq_profile = profile, cq_session_id = sid, cq_request_id = rid,
                 cq_title = normalize_title (case optional_str (jget metadata ''title'') of
                    Some t \<Rightarrow> if t \<noteq> [] then t else take 60 message | None \<Rightarrow> take 60 message),
                 cq_model = model_from_chat_payload payload metadata profile, cq_effort = effort,
                 cq_agent = or_text (optional_str (jget payload ''agent'')) (optional_str (jget metadata ''agent'')),
                 cq_system = prepend_reply_language_block (sx_render sx) (Some system) lang, cq_language = lang,
                 cq_attachments = jget payload ''attachments'', cq_message_id = mid, cq_author = author\<rparr>)"

definition read_chat_request :: "'o surroundings \<Rightarrow> (string \<times> jval) list \<Rightarrow> jobj \<Rightarrow> raised + chat_request" where
  "read_chat_request sx author payload =
     (let message = (case jget payload ''message'' of JStr s \<Rightarrow> py_strip s | _ \<Rightarrow> []) in
      if message = [] then Inl (BadRequest ''message_required'')
      else case metadata_from_payload payload of Inl e \<Rightarrow> Inl e
      | Inr metadata \<Rightarrow> (case runtime_profile_from_metadata metadata of Inl e \<Rightarrow> Inl e
      | Inr profile \<Rightarrow> (case portal_session_id_from_payload (sx_uuid sx) payload of Inl e \<Rightarrow> Inl e
      | Inr sid \<Rightarrow> (case request_id_from_payload (sx_uuid sx) payload of Inl e \<Rightarrow> Inl e
      | Inr rid \<Rightarrow> request_with_ids sx author payload message metadata profile sid rid))))"

definition trace_provider :: "chat_request \<Rightarrow> string" where
  "trace_provider q =
     normalize_opencode_provider_id (case or_text (optional_str (jget (cq_profile q) ''provider'')) (optional_str (jget (cq_metadata q) ''provider''))
        of Some p \<Rightarrow> JStr p | None \<Rightarrow> JNull)"

definition turn_trace :: "'o surroundings \<Rightarrow> chat_request \<Rightarrow> string \<Rightarrow> jobj" where
  "turn_trace sx q oid =
     (case profile_version_from_metadata (cq_metadata q) (cq_profile q) of (version, profile_id) \<Rightarrow>
        build_trace_context (ps_agent_id (sx_portal_settings sx)) (no_trace\<lparr>ta_request_id := JStr (cq_request_id q),
          ta_session_id := JStr (cq_session_id q), ta_opencode_session_id := JStr oid, ta_profile_version := JStr version,
          ta_runtime_profile_id := JStr profile_id, ta_model := JStr (case cq_model q of Some m \<Rightarrow> m | None \<Rightarrow> []),
          ta_provider := JStr (trace_provider q)\<rparr>))"

section \<open>The operations a turn uses\<close>

definition publish_event :: "'o surroundings \<Rightarrow> chat_request \<Rightarrow> string \<Rightarrow> string \<Rightarrow> string \<Rightarrow> jobj \<Rightarrow> (unit, 'o) act" where
  "publish_event sx q event_type state summary data t =
     (let now = sx_moment sx (length (tn_events t));
          event = event_payload (fst now) \<lparr>eh_session_id = cq_session_id q, eh_request_id = cq_request_id q,
            eh_opencode_session_id = tn_oid t\<rparr> (tn_trace t) event_type state summary data;
          w = tn_world t;
          (bus, os) = publish (sx_observers sx) (snd now) event (cw_bus w, cw_observers w)
      in (Done (), t\<lparr>tn_events := tn_events t @ [event], tn_world := w\<lparr>cw_bus := bus, cw_observers := os\<rparr>\<rparr>))"

definition log_with :: "'o surroundings \<Rightarrow> (chatlog_store \<Rightarrow> chatlog_error + (jobj \<times> chatlog_store)) \<Rightarrow> (unit, 'o) act" where
  "log_with sx f t =
     (case f (cw_logs (tn_world t)) of
        Inl e \<Rightarrow> (Raises (OtherError (sx_log_error_text sx e)), t)
      | Inr (d, logs) \<Rightarrow> (Done (), t\<lparr>tn_world := (tn_world t)\<lparr>cw_logs := logs\<rparr>\<rparr>))"

definition events_json :: "'o chat_turn \<Rightarrow> jval" where
  "events_json t = JList (List.map JObj (tn_events t))"

definition tell_portal :: "'o surroundings \<Rightarrow> chat_request \<Rightarrow> string \<Rightarrow> string \<Rightarrow> string \<Rightarrow> ('o chat_turn \<Rightarrow> jobj) \<Rightarrow> (unit, 'o) act" where
  "tell_portal sx q event_type event_state summary metadata t =
     (let p = \<lparr>pb_session_id = cq_session_id q, pb_event_type = event_type, pb_event_state = event_state, pb_request_id = cq_request_id q,
            pb_task_id = None, pb_summary = summary, pb_runtime_events = List.map JObj (tn_events t), pb_metadata = metadata t\<rparr>;
          (reply, requests, pending) = publish_session_metadata (sx_portal_settings sx) (sx_stamp sx) (sx_portal_answer sx) p
            (cw_pending (tn_world t))
      in await sx AtPortal (t\<lparr>tn_world := (tn_world t)\<lparr>cw_pending := pending, cw_portal := cw_portal (tn_world t) @ requests\<rparr>\<rparr>))"

definition text_fields :: "(string \<times> string) list \<Rightarrow> jobj" where
  "text_fields d = List.map (\<lambda>(k, v). (k, JStr v)) d"

definition start_debug :: "'o chat_turn \<Rightarrow> jobj" where
  "start_debug t = [(''engine'', JStr ''opencode''), (''opencode_session_id'', JStr (tn_oid t)), (''trace_context'', JObj (tn_trace t))]"

definition BINDING_TTL :: int where
  "BINDING_TTL = 3600"

definition bind_request :: "'o surroundings \<Rightarrow> chat_request \<Rightarrow> (unit, 'o) act" where
  "bind_request sx q t = on_world (\<lambda>w. w\<lparr>cw_bindings := map_option
     (bind_active (sx_now sx) (sx_now sx) (tn_oid t) (cq_session_id q) (cq_request_id q) ''chat'' [] BINDING_TTL) (cw_bindings w)\<rparr>) t"

definition bind_turn_message :: "'o surroundings \<Rightarrow> chat_request \<Rightarrow> string \<Rightarrow> (unit, 'o) act" where
  "bind_turn_message sx q mid t = on_world (\<lambda>w. w\<lparr>cw_bindings := map_option
     (bind_message (sx_now sx) (sx_now sx) (tn_oid t) mid (cq_session_id q) (cq_request_id q) ''chat'' [] BINDING_TTL) (cw_bindings w)\<rparr>) t"

section \<open>Its session\<close>

definition put_session :: "raised + ((session_record \<times> bool) \<times> session_store) \<Rightarrow> (session_record \<times> bool, 'o) act" where
  "put_session r =
     (case r of Inl e \<Rightarrow> raises e
      | Inr (x, st) \<Rightarrow> andthen (on_world (\<lambda>w. w\<lparr>cw_sessions := st\<rparr>)) (give x))"

definition ensure_session :: "'o surroundings \<Rightarrow> chat_request \<Rightarrow> (session_record \<times> bool, 'o) act" where
  "ensure_session sx q =
     chain (reads (\<lambda>t. ensure_begin (cq_session_id q) (cw_sessions (tn_world t)))) (\<lambda>start.
       case start of
         EnsureFails e \<Rightarrow> raises e
       | EnsureCreates \<Rightarrow> andthen (await sx AtSession) (chain (reads (\<lambda>t. cw_sessions (tn_world t))) (\<lambda>st.
           put_session (ensure_created (sx_stamp sx) (cq_session_id q) (cq_title q) (cq_agent q) (cq_model q) (sx_created sx) st)))
       | EnsureChecks r \<Rightarrow> andthen (await sx AtSession) (chain (reads (\<lambda>t. cw_sessions (tn_world t))) (\<lambda>st.
           put_session (ensure_checked (sx_stamp sx) (cq_title q) (cq_agent q) (cq_model q) r (sx_checked sx) (sx_created sx) st))))"

section \<open>Opening the turn\<close>

definition ids_data :: "chat_request \<Rightarrow> jobj" where
  "ids_data q = [(''session_id'', JStr (cq_session_id q)), (''request_id'', JStr (cq_request_id q))]"

definition opening_metadata :: "session_record \<Rightarrow> 'o chat_turn \<Rightarrow> jobj" where
  "opening_metadata r t = [(''opencode_session_id'', JStr (tn_oid t)), (''trace_context'', JObj (tn_trace t))]
     @ text_fields (session_title_metadata (Some r))"

definition open_turn :: "'o surroundings \<Rightarrow> chat_request \<Rightarrow> session_record \<Rightarrow> (unit, 'o) act" where
  "open_turn sx q r =
     andthen (to_turn (\<lambda>t. t\<lparr>tn_oid := sr_opencode_session_id r\<rparr>))
    (andthen (bind_request sx q)
    (andthen (to_turn (\<lambda>t. t\<lparr>tn_trace := turn_trace sx q (tn_oid t)\<rparr>))
    (andthen (publish_event sx q ''chat.started'' ''running'' ''Chat started.'' (ids_data q))
    (andthen (publish_event sx q ''execution.started'' ''running'' ''OpenCode execution started.'' (ids_data q))
    (andthen (\<lambda>t. log_with sx (chatlog_start_entry (sx_stamp sx) (sx_now sx) (cq_session_id q) (cq_request_id q) (cq_message q)
        \<lparr>ef_runtime_events = Some (events_json t), ef_events = None, ef_context_state = Some (JObj (context_state (cq_message q) ''running'' [])),
         ef_llm_debug = Some (JObj (start_debug t))\<rparr>) t)
    (tell_portal sx q ''chat.started'' ''running'' ''Chat started'' (opening_metadata r)))))))"

definition messages_before :: "'o surroundings \<Rightarrow> (jval list, 'o) act" where
  "messages_before sx = andthen (await sx AtBefore) (give (case sx_before sx of Inl e \<Rightarrow> [] | Inr ms \<Rightarrow> ms))"

definition AUTHOR_KEYS :: "string list" where
  "AUTHOR_KEYS = [''author_id'', ''author_name'', ''author_type'', ''author_source'']"

definition author_fields :: "(string \<times> jval) list \<Rightarrow> jobj" where
  "author_fields author =
     concat (List.map (\<lambda>k. case jget author k of JStr s \<Rightarrow> if py_strip s \<noteq> [] then [(k, JStr (py_strip s))] else [] | _ \<Rightarrow> []) AUTHOR_KEYS)"

definition show_user_message :: "'o surroundings \<Rightarrow> chat_request \<Rightarrow> (unit, 'o) act" where
  "show_user_message sx q t =
     (let metadata = put_all (author_fields (cq_author q)) [(''source'', JStr ''portal_original_user_message''),
            (''request_id'', JStr (cq_request_id q)), (''internal_model_content_hidden'', JBool True)]
      in on_world (\<lambda>w. w\<lparr>cw_display := map_option (\<lambda>d. snd (put_user_message (sx_stamp sx) (cq_session_id q) (tn_oid t) (cq_message_id q)
           (cq_message q) (JList (List.map JObj (sanitize_display_attachments (cq_attachments q)))) (JObj metadata) d)) (cw_display w)\<rparr>) t)"

section \<open>A skill\<close>

record skill_debug =
  kd_kind :: string
  kd_call :: slash_invocation
  kd_reason :: string
  kd_permission_state :: string
  kd_used_command :: bool
  kd_used_prompt :: bool
  kd_blocked :: bool
  kd_extra :: jobj

definition skill_debug_json :: "skill_debug \<Rightarrow> jobj" where
  "skill_debug_json k =
     [(''kind'', JStr (kd_kind k)), (''raw_name'', JStr (si_raw_name (kd_call k))), (''skill_name'', JStr (si_skill_name (kd_call k))),
      (''arguments'', JStr (si_arguments (kd_call k))), (''reason'', JStr (kd_reason k)), (''permission_state'', JStr (kd_permission_state k)),
      (''used_command_api'', JBool (kd_used_command k)), (''used_skill_prompt'', JBool (kd_used_prompt k)),
      (''blocked'', JBool (kd_blocked k))] @ kd_extra k"

text \<open>What the skill step leaves: the reply to a send, the text of a refusal, and what it notes for debugging.\<close>

record skill_result =
  kr_reply :: jval
  kr_synthetic :: "string option"
  kr_debug :: skill_debug

definition command_names :: "string + jval list \<Rightarrow> string list" where
  "command_names answer =
     (case answer of Inl e \<Rightarrow> []
      | Inr cs \<Rightarrow> concat (List.map (\<lambda>c. case c of JObj d \<Rightarrow> [str_or_empty (jget d ''name'')] | _ \<Rightarrow> []) cs))"

definition checkout_json :: "repo_request \<Rightarrow> checkout \<Rightarrow> jval" where
  "checkout_json r c =
     JObj [(''attempted'', JBool True), (''success'', JBool (ck_success c)), (''path'', JStr (ck_path c)), (''owner'', JStr (rr_owner r)),
       (''repo'', JStr (rr_repo r)), (''head_branch'', JStr (rr_head r)), (''base_branch'', JStr (rr_base r)),
       (''error'', case ck_error c of Some e \<Rightarrow> JStr e | None \<Rightarrow> JNull)]"

text \<open>The repository of an allowed create-pull-request skill: the decision it leaves, and the repository when it is ready.\<close>

definition prepare_repository ::
    "'o surroundings \<Rightarrow> slash_invocation \<Rightarrow> skill_decision \<Rightarrow> skill_debug \<Rightarrow>
       skill_decision \<times> skill_debug \<times> (repo_request \<times> checkout) option" where
  "prepare_repository sx call d k =
     (if \<not> (sd_allowed d \<and> si_skill_name call = ''create-pull-request'') then (d, k, None)
      else case parse_create_pr_repo_request (si_arguments call) of
        None \<Rightarrow> (d, k, None)
      | Some r \<Rightarrow>
          let c = fst (ensure_repo_checkout (sx_repos_dir sx) (sx_is_repo sx) (sx_git sx) r);
              k1 = k\<lparr>kd_extra := kd_extra k @ [(''repository_preflight'', checkout_json r c)]\<rparr>
          in if ck_success c then (d, k1, Some (r, c))
             else (d\<lparr>sd_allowed := False, sd_reason := ''repository_checkout_failed''\<rparr>,
                   k1\<lparr>kd_reason := ''repository_checkout_failed''\<rparr>, Some (r, c)))"

definition refusal_text :: "slash_invocation \<Rightarrow> skill_decision \<Rightarrow> (repo_request \<times> checkout) option \<Rightarrow> string" where
  "refusal_text call d repo =
     (if sd_reason d = ''missing_required_writeback_tools''
      then ''Skill create-pull-request cannot run because required writeback tool github_create_pull_request / efp_github_create_pull_request is unavailable.''
      else case (sd_reason d = ''repository_checkout_failed'', repo) of
        (True, Some (r, c)) \<Rightarrow> ''Repository checkout failed for '' @ rr_url r @ '' to '' @ ck_path c @ '' (head: '' @ rr_head r @ '', base: ''
           @ rr_base r @ '', failure: '' @ (case ck_error c of Some e \<Rightarrow> e | None \<Rightarrow> ''None'') @ '').''
      | _ \<Rightarrow> ''Skill `'' @ si_skill_name call @ ''` cannot run in OpenCode runtime: '' @ sd_reason d @ ''.'')"

definition repository_note :: "(repo_request \<times> checkout) option \<Rightarrow> string" where
  "repository_note repo =
     (case repo of None \<Rightarrow> []
      | Some (r, c) \<Rightarrow> NL @ NL @ ''Repository has been prepared at: '' @ ck_path c @ NL
          @ ''All local git inspection commands must run from that directory'' @ NL @ ''Use base branch: '' @ rr_base r @ NL
          @ ''Use head branch: '' @ rr_head r @ NL @ ''Do not run git inspection from /workspace unless /workspace/.git exists'')"

definition prompt_part :: "chat_request \<Rightarrow> string \<Rightarrow> jval \<Rightarrow> jval" where
  "prompt_part q prompt part =
     JObj (put_all [(''type'', JStr ''text''), (''text'', JStr prompt), (''synthetic'', JBool True),
        (''metadata'', JObj [(''efp_internal'', JStr ''skill_prompt''), (''portal_request_id'', JStr (cq_request_id q)),
           (''original_user_message_hidden'', JBool True)])] (obj_or_empty part))"

definition plain_send :: "'o surroundings \<Rightarrow> chat_request \<Rightarrow> jval list \<Rightarrow> (unit, 'o) act" where
  "plain_send sx q parts t =
     andthen (calls (SendMessage (tn_oid t) (send_message_call parts (cq_model q) (cq_agent q) (cq_system q) (cq_effort q) (cq_message_id q))))
       (await sx AtSend) t"

definition block_skill ::
    "'o surroundings \<Rightarrow> chat_request \<Rightarrow> slash_invocation \<Rightarrow> skill_decision \<Rightarrow> skill_debug \<Rightarrow> (repo_request \<times> checkout) option \<Rightarrow>
       (skill_result, 'o) act" where
  "block_skill sx q call d k repo =
     (let said = refusal_text call d repo in
      andthen (publish_event sx q ''skill.blocked'' ''failed'' said
        [(''skill_name'', JStr (si_skill_name call)), (''reason'', JStr (sd_reason d))])
      (give \<lparr>kr_reply = JNull, kr_synthetic = Some said, kr_debug = k\<lparr>kd_blocked := True\<rparr>\<rparr>))"

definition run_skill_prompt ::
    "'o surroundings \<Rightarrow> chat_request \<Rightarrow> jval list \<Rightarrow> slash_invocation \<Rightarrow> skill_decision \<Rightarrow> skill_debug \<Rightarrow> (repo_request \<times> checkout) option \<Rightarrow>
       (skill_result, 'o) act" where
  "run_skill_prompt sx q parts call d k repo =
     chain (settled (case build_skill_prompt (case sd_skill d of Some s \<Rightarrow> s | None \<Rightarrow> []) call of
              Inl e \<Rightarrow> Inl (OtherError (sx_error_text sx e)) | Inr p \<Rightarrow> Inr p)) (\<lambda>prompt.
       andthen (publish_event sx q ''skill.prompt_applied'' ''running'' ''Skill prompt sent to OpenCode.''
         [(''skill_name'', JStr (si_skill_name call))])
      (andthen (plain_send sx q (prompt_part q (prompt @ repository_note repo) (hd parts) # tl parts))
      (chain (settled (case sx_sent sx of Inl e \<Rightarrow> Inl (OpenCodeError e) | Inr reply \<Rightarrow> Inr reply)) (\<lambda>reply.
         give \<lparr>kr_reply = reply, kr_synthetic = None, kr_debug = k\<lparr>kd_used_prompt := True\<rparr>\<rparr>))))"

definition finish_skill ::
    "'o surroundings \<Rightarrow> chat_request \<Rightarrow> jval list \<Rightarrow> slash_invocation \<Rightarrow> skill_decision \<Rightarrow> skill_debug \<Rightarrow> (skill_result, 'o) act" where
  "finish_skill sx q parts call d0 k0 =
     (case prepare_repository sx call d0 k0 of (d, k, repo) \<Rightarrow>
        if \<not> sd_allowed d then block_skill sx q call d k repo else run_skill_prompt sx q parts call d k repo)"

text \<open>A command of OpenCode's own that the index does not know is run as that command, unless files are attached.\<close>

definition run_native_command :: "'o surroundings \<Rightarrow> chat_request \<Rightarrow> slash_invocation \<Rightarrow> skill_debug \<Rightarrow> (skill_result, 'o) act" where
  "run_native_command sx q call k t =
     andthen (calls (ExecuteCommand (tn_oid t) (si_skill_name call) (si_arguments call) (cq_model q)
         (case or_text (cq_agent q) None of Some a \<Rightarrow> a | None \<Rightarrow> ''efp-main'') (cq_message_id q)))
    (andthen (await sx AtCommand)
    (chain (settled (sx_command_reply sx)) (\<lambda>reply.
       give \<lparr>kr_reply = reply, kr_synthetic = None, kr_debug = k\<lparr>kd_kind := ''command'', kd_used_command := True, kd_reason := ''allowed'',
               kd_extra := kd_extra k @ [(''native_command'', JBool True)]\<rparr>\<rparr>))) t"

definition apply_skill_invocation :: "'o surroundings \<Rightarrow> chat_request \<Rightarrow> jval list \<Rightarrow> (skill_result option, 'o) act" where
  "apply_skill_invocation sx q parts =
     (case parse_slash_invocation (cq_message q) of
        None \<Rightarrow> give None
      | Some call \<Rightarrow>
          chain (chain (settled (case evaluate_skill_invocation (sx_index sx) (sx_config sx) call of
                   Inl e \<Rightarrow> Inl (OtherError (sx_error_text sx e)) | Inr d \<Rightarrow> Inr d)) (\<lambda>d.
            let k = \<lparr>kd_kind = ''skill'', kd_call = call, kd_reason = sd_reason d, kd_permission_state = sd_permission_state d,
                     kd_used_command = False, kd_used_prompt = False, kd_blocked = False, kd_extra = []\<rparr>
            in andthen (publish_event sx q ''skill.detected'' ''running'' ''Skill invocation detected.''
                 [(''skill_name'', JStr (si_skill_name call)), (''raw_name'', JStr (si_raw_name call))])
               (if sd_reason d \<noteq> ''unknown_skill'' then finish_skill sx q parts call d k
                else andthen (await sx AtCommands)
                  (let k1 = (case sx_commands sx of
                       Inl e \<Rightarrow> k\<lparr>kd_extra := [(''command_lookup_error'', JStr (preview_text e 300))]\<rparr> | Inr cs \<Rightarrow> k)
                   in if si_skill_name call \<in> set (command_names (sx_commands sx)) \<and> tl parts = []
                      then run_native_command sx q call k1 else finish_skill sx q parts call d k1)))) (\<lambda>r. give (Some r)))"

section \<open>Sending and waiting\<close>

definition or_unfinished :: "(raised + 'a) option \<Rightarrow> ('a, 'o) act" where
  "or_unfinished r = (case r of None \<Rightarrow> (\<lambda>t. (Unfinished, t)) | Some x \<Rightarrow> settled x)"

definition send_turn :: "'o surroundings \<Rightarrow> chat_request \<Rightarrow> jval list \<Rightarrow> jval list \<Rightarrow> (jval \<times> jobj option, 'o) act" where
  "send_turn sx q parts before =
     andthen (plain_send sx q parts)
       (chain (reads tn_oid) (\<lambda>oid. or_unfinished (send_with_probe oid (cq_message_id q) before (cq_message q) (sx_timeout sx) (sx_now sx)
          (sx_sent sx) (sx_probe_polls sx))))"

definition synthetic_probe :: "string \<Rightarrow> completion" where
  "synthetic_probe said = \<lparr>cm_text = said, cm_message_id = [], cm_state = ''completed'', cm_reason = ''synthetic_response'', cm_diagnostics = []\<rparr>"

definition messages_after :: "'o surroundings \<Rightarrow> completion \<times> jval list \<Rightarrow> (completion \<times> jval list, 'o) act" where
  "messages_after sx found =
     (if snd found \<noteq> [] then give found
      else andthen (await sx AtAfter) (give (fst found, case sx_after sx of Inl e \<Rightarrow> [] | Inr ms \<Rightarrow> ms)))"

definition await_answer :: "'o surroundings \<Rightarrow> string option \<Rightarrow> jval \<Rightarrow> jval list \<Rightarrow> (completion \<times> jval list, 'o) act" where
  "await_answer sx synthetic reply before =
     (case synthetic of
        Some said \<Rightarrow> andthen (await sx AtAfter) (chain (settled (sx_after sx)) (\<lambda>ms. give (synthetic_probe said, ms)))
      | None \<Rightarrow> andthen (await sx AtWait)
          (chain (or_unfinished (wait_for_visible_assistant_response (sx_shown sx) reply before (sx_timeout sx) (sx_poll sx) (sx_now sx)
             (sx_wait_polls sx))) (messages_after sx)))"

section \<open>The verdict\<close>

record verdict =
  vd_state :: string
  vd_reason :: string
  vd_text :: string
  vd_incomplete :: string
  vd_ok :: bool

definition verdict_of :: "completion \<Rightarrow> bool \<Rightarrow> verdict" where
  "verdict_of probe synthetic =
     (let state = nonempty_or (cm_state probe) ''incomplete''; reason = cm_reason probe; said = py_strip (cm_text probe) in
      if state = ''completed'' \<and> said \<noteq> []
      then \<lparr>vd_state = ''completed'', vd_reason = reason, vd_text = said, vd_incomplete = [], vd_ok = \<not> synthetic\<rparr>
      else \<lparr>vd_state = state, vd_reason = reason, vd_text = non_success_assistant_text state reason,
            vd_incomplete = nonempty_or reason state, vd_ok = False\<rparr>)"

record message_ids =
  mi_user :: string
  mi_assistant :: string
  mi_all :: "string list"

definition reply_message_id :: "jval \<Rightarrow> string" where
  "reply_message_id reply =
     (case reply of
        JObj d \<Rightarrow>
          (let candidate = (case jget d ''info'' of JObj info \<Rightarrow> jget info ''id'' | _ \<Rightarrow> JStr []) in
           if truthy candidate then py_str candidate
           else (case jget d ''message'' of JObj m \<Rightarrow> message_id (JObj m) | _ \<Rightarrow> str_or_empty candidate))
      | _ \<Rightarrow> [])"

definition turn_message_ids :: "chat_request \<Rightarrow> jval list \<Rightarrow> jval list \<Rightarrow> jval \<Rightarrow> completion \<Rightarrow> message_ids" where
  "turn_message_ids q before after reply probe =
     (let (user0, assistant0) = detect_new_message_ids before after;
          known = extract_assistant_message_ids (JList before) [];
          ids0 = append_unique (append_unique (append_unique [] (extract_assistant_message_ids (JList after) known))
                   (extract_assistant_message_ids reply known)) [cm_message_id probe];
          assistant1 = (if assistant0 = [] then reply_message_id reply else assistant0);
          ids = append_unique ids0 [assistant1]
      in \<lparr>mi_user = nonempty_or user0 (cq_message_id q), mi_assistant = (if ids = [] then assistant1 else last ids), mi_all = ids\<rparr>)"

definition bind_all :: "'o surroundings \<Rightarrow> chat_request \<Rightarrow> string list \<Rightarrow> (unit, 'o) act" where
  "bind_all sx q ids t = (Done (), fold (\<lambda>mid t. snd (bind_turn_message sx q mid t)) ids t)"

definition attribute_all :: "'o surroundings \<Rightarrow> chat_request \<Rightarrow> jobj \<Rightarrow> string list \<Rightarrow> (unit, 'o) act" where
  "attribute_all sx q attribution ids t =
     on_world (\<lambda>w. w\<lparr>cw_display := (if \<not> truthy (jget attribution ''model'') then cw_display w
        else map_option (\<lambda>d. fold (\<lambda>mid d. snd (put_assistant_attribution (sx_stamp sx) (cq_session_id q) (tn_oid t) mid attribution d)) ids d)
               (cw_display w))\<rparr>) t"

section \<open>Announcing and booking it\<close>

definition terminal_state :: "verdict \<Rightarrow> string" where
  "terminal_state v = (if vd_state v = ''completed'' then ''success'' else vd_state v)"

definition terminal_type :: "verdict \<Rightarrow> string" where
  "terminal_type v = (if vd_state v = ''completed'' then ''chat.completed'' else ''chat.failed'')"

definition terminal_data :: "verdict \<Rightarrow> jobj \<Rightarrow> jobj" where
  "terminal_data v attribution =
     put_all attribution [(''message'', JStr (vd_text v)), (''completion_state'', JStr (vd_state v))]
     @ (if vd_incomplete v \<noteq> [] then [(''incomplete_reason'', JStr (vd_incomplete v))] else [])"

definition announce_answer :: "'o surroundings \<Rightarrow> chat_request \<Rightarrow> verdict \<Rightarrow> (unit, 'o) act" where
  "announce_answer sx q v =
     (let shown = JStr (preview_text (vd_text v) 500) in
      if vd_state v = ''completed''
      then andthen (publish_event sx q ''assistant_delta'' ''running'' (vd_text v) [(''delta'', shown), (''message'', shown)])
             (publish_event sx q ''complete'' ''success'' (vd_text v) [(''message'', shown)])
      else give ())"

definition announce_verdict :: "'o surroundings \<Rightarrow> chat_request \<Rightarrow> verdict \<Rightarrow> jobj \<Rightarrow> (unit, 'o) act" where
  "announce_verdict sx q v attribution =
     andthen (announce_answer sx q v)
    (andthen (publish_event sx q (if vd_state v = ''completed'' then ''execution.completed'' else ''execution.failed'') (terminal_state v)
        (vd_text v) (terminal_data v attribution))
     (publish_event sx q (terminal_type v) (terminal_state v) (vd_text v) (terminal_data v attribution)))"

definition record_answer :: "'o surroundings \<Rightarrow> chat_request \<Rightarrow> verdict \<Rightarrow> (session_record, 'o) act" where
  "record_answer sx q v t =
     (case update_after_chat (sx_stamp sx) (cq_session_id q) (cq_message q) (vd_text v) (cq_model q) (cq_agent q) (cw_sessions (tn_world t)) of
        Inl e \<Rightarrow> (Raises (OtherError (sx_error_text sx e)), t)
      | Inr (r, st) \<Rightarrow> (Done r, t\<lparr>tn_world := (tn_world t)\<lparr>cw_sessions := st\<rparr>\<rparr>))"

definition run_messages :: "jval list \<Rightarrow> string list \<Rightarrow> jval list" where
  "run_messages after ids =
     filter (\<lambda>m. is_obj m \<and> py_lower (message_role m) = ''assistant'' \<and> message_id m \<in> set ids) after"

definition record_usage :: "'o surroundings \<Rightarrow> chat_request \<Rightarrow> jobj \<Rightarrow> jval \<Rightarrow> jval list \<Rightarrow> string list \<Rightarrow> (jobj, 'o) act" where
  "record_usage sx q attribution reply after ids t =
     (let model = (case jget attribution ''model'' of JStr m \<Rightarrow> or_text (Some m) (cq_model q) | _ \<Rightarrow> cq_model q) in
      case record_chat (sx_shown sx) (sx_stamp sx)
        \<lparr>ca_session_id = cq_session_id q, ca_request_id = cq_request_id q, ca_model = model, ca_provider = Some (trace_provider q),
         ca_response = reply, ca_run_messages = run_messages after ids, ca_iterations = (if ids = [] then None else Some (int (length ids)))\<rparr>
        (cw_usage (tn_world t)) of
        Inl e \<Rightarrow> (Raises (OtherError (sx_error_text sx e)), t)
      | Inr (row, file') \<Rightarrow> (Done (AList.update ''request_id'' (jget (tn_trace t) ''request_id'') row),
                            t\<lparr>tn_world := (tn_world t)\<lparr>cw_usage := file'\<rparr>\<rparr>))"

definition completion_json :: "completion \<Rightarrow> jval" where
  "completion_json c =
     JObj [(''text'', JStr (cm_text c)), (''message_id'', JStr (cm_message_id c)), (''completion_state'', JStr (cm_state c)),
       (''reason'', JStr (cm_reason c)), (''diagnostics'', JObj (cm_diagnostics c))]"

definition ids_json :: "string list \<Rightarrow> jval" where
  "ids_json ids = JList (List.map JStr ids)"

record turn_facts =
  tf_before :: "jval list"
  tf_attachments :: "jval list"
  tf_reply :: jval
  tf_probe :: completion
  tf_after :: "jval list"
  tf_synthetic :: bool
  tf_skill :: "skill_debug option"
  tf_send_debug :: "jobj option"
  tf_partial :: bool

definition turn_debug :: "turn_facts \<Rightarrow> session_record \<Rightarrow> jobj \<Rightarrow> message_ids \<Rightarrow> jobj \<Rightarrow> jobj" where
  "turn_debug f updated usage ids trace =
     [(''engine'', JStr ''opencode''), (''opencode_session_id'', JStr (sr_opencode_session_id updated)), (''usage'', JObj usage),
      (''response_payload_preview'', safe_preview (redact_attachments (tf_reply f)) 2000), (''trace_context'', JObj trace),
      (''message_ids'', JObj [(''user_message_id'', JStr (mi_user ids)), (''assistant_message_id'', JStr (mi_assistant ids)),
         (''assistant_message_ids'', ids_json (mi_all ids))]),
      (''completion_probe'', safe_preview (completion_json (tf_probe f)) 2000), (''attachments'', JList (tf_attachments f))]
     @ (case tf_skill f of Some k \<Rightarrow> [(''skill_invocation'', JObj (skill_debug_json k))] | None \<Rightarrow> [])
     @ (case tf_send_debug f of Some d \<Rightarrow> [(''send_disconnect_probe'', JObj d)] | None \<Rightarrow> [])
     @ (if tf_partial f \<or> sr_partial_recovery updated then [(''partial_recovery'', JBool True)] else [])"

definition closing_metadata :: "chat_request \<Rightarrow> session_record \<Rightarrow> jobj \<Rightarrow> jobj \<Rightarrow> 'o chat_turn \<Rightarrow> jobj" where
  "closing_metadata q updated usage final t =
     [(''engine'', JStr ''opencode''), (''opencode_session_id'', JStr (sr_opencode_session_id updated)),
      (''model'', py_or (jget usage ''model'') (py_or (case cq_model q of Some m \<Rightarrow> JStr m | None \<Rightarrow> JNull) (JStr ''unknown''))),
      (''provider'', py_or (jget usage ''provider'') (py_or (JStr (trace_provider q)) (JStr ''unknown''))),
      (''context_state'', JObj final), (''usage'', JObj usage), (''trace_context'', JObj (tn_trace t))]
     @ text_fields (session_title_metadata (Some updated))"

definition name_session :: "session_record \<Rightarrow> verdict \<Rightarrow> chat_request \<Rightarrow> (unit, 'o) act" where
  "name_session updated v q =
     on_world (\<lambda>w. if should_generate_after_turn (cw_tasks w) (Some updated) (vd_ok v) (vd_text v)
       then w\<lparr>cw_tasks := snd (schedule_session_title (cq_session_id q) (cw_tasks w))\<rparr> else w)"

definition turn_payload :: "chat_request \<Rightarrow> verdict \<Rightarrow> message_ids \<Rightarrow> jobj \<Rightarrow> jobj \<Rightarrow> jobj \<Rightarrow> jobj \<Rightarrow> 'o chat_turn \<Rightarrow> jobj" where
  "turn_payload q v ids usage attribution final debug t =
     put_all [(''metadata'', JObj []), (''context_state'', JObj final), (''_llm_debug'', JObj debug)] (put_all attribution
       [(''ok'', JBool (vd_ok v)), (''completion_state'', JStr (vd_state v)), (''incomplete_reason'', JStr (vd_incomplete v)),
        (''session_id'', JStr (cq_session_id q)), (''request_id'', jget_def (tn_trace t) ''request_id'' (JStr (cq_request_id q))),
        (''response'', JStr (vd_text v)), (''user_message_id'', JStr (mi_user ids)), (''assistant_message_id'', JStr (mi_assistant ids)),
        (''assistant_message_ids'', ids_json (mi_all ids)), (''events'', events_json t), (''runtime_events'', events_json t),
        (''usage'', JObj usage)])"

text \<open>What follows the verdict's events: the session, the usage file, the log, the Portal, and perhaps a name.\<close>

definition book_turn :: "'o surroundings \<Rightarrow> chat_request \<Rightarrow> turn_facts \<Rightarrow> verdict \<Rightarrow> message_ids \<Rightarrow> jobj \<Rightarrow> (jobj, 'o) act" where
  "book_turn sx q f v ids attribution =
     chain (record_answer sx q v) (\<lambda>updated.
     chain (record_usage sx q attribution (tf_reply f) (tf_after f) (mi_all ids)) (\<lambda>usage.
     chain (reads (\<lambda>t. turn_debug f updated usage ids (tn_trace t))) (\<lambda>debug.
       let final = context_state (cq_message q) (if vd_state v = ''completed'' then ''completed'' else vd_state v) (vd_text v) in
       andthen (\<lambda>t. log_with sx (chatlog_finish_entry (sx_stamp sx) (sx_now sx) (cq_session_id q) (cq_request_id q)
           (if vd_state v = ''completed'' then ''success'' else vd_state v) (vd_text v)
           \<lparr>ef_runtime_events = Some (events_json t), ef_events = Some (events_json t), ef_context_state = Some (JObj final),
            ef_llm_debug = Some (JObj debug)\<rparr>) t)
      (andthen (tell_portal sx q (terminal_type v) (terminal_state v) (take 300 (vd_text v)) (closing_metadata q updated usage final))
      (andthen (name_session updated v q)
      (reads (turn_payload q v ids usage attribution final debug)))))))"

definition finish_turn :: "'o surroundings \<Rightarrow> chat_request \<Rightarrow> turn_facts \<Rightarrow> (jobj, 'o) act" where
  "finish_turn sx q f =
     (let v = verdict_of (tf_probe f) (tf_synthetic f);
          ids = turn_message_ids q (tf_before f) (tf_after f) (tf_reply f) (tf_probe f)
      in andthen (bind_all sx q (mi_all ids))
        (chain (reads (\<lambda>t. model_attribution (cw_auto (tn_world t)) (cq_model q))) (\<lambda>attribution.
           andthen (attribute_all sx q attribution (mi_all ids))
          (andthen (announce_verdict sx q v attribution)
          (book_turn sx q f v ids attribution)))))"

section \<open>The whole turn\<close>

definition turn_body :: "'o surroundings \<Rightarrow> chat_request \<Rightarrow> (jobj, 'o) act" where
  "turn_body sx q =
     chain (ensure_session sx q) (\<lambda>(r, partial).
     andthen (open_turn sx q r)
    (chain (messages_before sx) (\<lambda>before.
       case build_chat_parts (sx_build sx (cq_session_id q)) (sx_boot_snapshot sx) (cq_message q) (cq_attachments q) of (parts, attached) \<Rightarrow>
       andthen (bind_turn_message sx q (cq_message_id q))
      (andthen (show_user_message sx q)
      (chain (apply_skill_invocation sx q parts) (\<lambda>skill.
       chain (case skill of Some k \<Rightarrow> give (kr_reply k, None) | None \<Rightarrow> send_turn sx q parts before) (\<lambda>(reply, send_debug).
         let synthetic = (case skill of Some k \<Rightarrow> kr_synthetic k | None \<Rightarrow> None) in
         chain (await_answer sx synthetic reply before) (\<lambda>(probe, after).
           finish_turn sx q \<lparr>tf_before = before, tf_attachments = attached, tf_reply = reply, tf_probe = probe, tf_after = after,
             tf_synthetic = (synthetic \<noteq> None), tf_skill = map_option kr_debug skill, tf_send_debug = send_debug, tf_partial = partial\<rparr>))))))))"

datatype chat_reply = Answer200 jobj | HttpError int jobj | Escapes raised | NotYet

definition announce_failure :: "'o surroundings \<Rightarrow> chat_request \<Rightarrow> string \<Rightarrow> (unit, 'o) act" where
  "announce_failure sx q detail =
     andthen (publish_event sx q ''execution.failed'' ''failed'' detail [(''error'', JStr detail)])
    (andthen (publish_event sx q ''chat.failed'' ''failed'' detail [(''error'', JStr detail)])
     (\<lambda>t. log_with sx (chatlog_fail_entry (sx_stamp sx) (sx_now sx) (cq_session_id q) (cq_request_id q) detail
        \<lparr>ef_runtime_events = Some (events_json t), ef_events = None, ef_context_state = Some (JObj (context_state (cq_message q) ''failed'' detail)),
         ef_llm_debug = Some (JObj (start_debug t))\<rparr>) t))"

definition failure_metadata :: "chat_request \<Rightarrow> 'o chat_turn \<Rightarrow> jobj" where
  "failure_metadata q t =
     [(''engine'', JStr ''opencode''), (''trace_context'', JObj (tn_trace t))]
     @ text_fields (session_title_metadata_for (Some (cw_sessions (tn_world t))) (cq_session_id q))"

definition trace_or :: "('o chat_turn \<Rightarrow> jobj) \<Rightarrow> (unit, 'o) act" where
  "trace_or trace = to_turn (\<lambda>t. if tn_trace t = [] then t\<lparr>tn_trace := trace t\<rparr> else t)"

text \<open>The trace of a failure that is not OpenCode's, when the turn has none yet.\<close>

definition bare_trace :: "'o surroundings \<Rightarrow> chat_request \<Rightarrow> string \<Rightarrow> jobj" where
  "bare_trace sx q oid =
     build_trace_context (ps_agent_id (sx_portal_settings sx)) (no_trace\<lparr>ta_request_id := JStr (cq_request_id q),
       ta_session_id := JStr (cq_session_id q), ta_opencode_session_id := JStr oid\<rparr>)"

definition opencode_failure :: "'o surroundings \<Rightarrow> chat_request \<Rightarrow> client_error \<Rightarrow> (chat_reply, 'o) act" where
  "opencode_failure sx q e =
     andthen (trace_or (\<lambda>t. turn_trace sx q (tn_oid t)))
    (andthen (announce_failure sx q (ce_message e))
    (andthen (tell_portal sx q ''chat.failed'' ''failed'' (ce_message e) (failure_metadata q))
    (give (HttpError 502 [(''error'', JStr ''opencode_error''), (''detail'', JStr (ce_message e))]))))"

definition other_failure :: "'o surroundings \<Rightarrow> chat_request \<Rightarrow> string \<Rightarrow> (chat_reply, 'o) act" where
  "other_failure sx q said =
     (let detail = preview_text said 1000 in
      andthen (trace_or (\<lambda>t. bare_trace sx q (tn_oid t)))
     (andthen (announce_failure sx q detail)
      (give (HttpError 500 [(''error'', JStr ''chat_failed''), (''detail'', JStr detail)]))))"

definition session_gone_reply :: "chat_request \<Rightarrow> chat_reply" where
  "session_gone_reply q =
     HttpError 410 [(''error'', JStr ''session_deleted''), (''session_id'', JStr (cq_session_id q)), (''detail'', JStr ''Session was deleted'')]"

definition handle_raised :: "'o surroundings \<Rightarrow> chat_request \<Rightarrow> raised \<Rightarrow> (chat_reply, 'o) act" where
  "handle_raised sx q e =
     (case e of
        SessionGone \<Rightarrow> give (session_gone_reply q)
      | OpenCodeError err \<Rightarrow> opencode_failure sx q err
      | BadRequest said \<Rightarrow> give (HttpError 400 [(''error'', JStr said)])
      | OtherError said \<Rightarrow> other_failure sx q said)"

definition turn_start :: "chat_request \<Rightarrow> 'o chat_world \<Rightarrow> 'o chat_turn" where
  "turn_start q w =
     \<lparr>tn_events = [], tn_oid = (case session_get (cw_sessions w) (cq_session_id q) of
        Some r \<Rightarrow> if sr_deleted r then [] else sr_opencode_session_id r | None \<Rightarrow> []), tn_trace = [], tn_calls = [], tn_world = w\<rparr>"

text \<open>An exception raised while an exception is handled escapes the handler.\<close>

definition run_turn :: "'o surroundings \<Rightarrow> chat_request \<Rightarrow> 'o chat_world \<Rightarrow> chat_reply \<times> 'o chat_turn" where
  "run_turn sx q w =
     (case turn_body sx q (turn_start q w) of
        (Done payload, t) \<Rightarrow> (Answer200 payload, t)
      | (Unfinished, t) \<Rightarrow> (NotYet, t)
      | (Raises e, t) \<Rightarrow>
          (case handle_raised sx q e t of
             (Done reply, t1) \<Rightarrow> (reply, t1) | (Raises e1, t1) \<Rightarrow> (Escapes e1, t1) | (Unfinished, t1) \<Rightarrow> (NotYet, t1)))"

definition handle_chat_payload ::
    "'o surroundings \<Rightarrow> (string \<times> jval) list \<Rightarrow> jobj \<Rightarrow> 'o chat_world \<Rightarrow> chat_reply \<times> 'o chat_world" where
  "handle_chat_payload sx author payload w =
     (case read_chat_request sx author payload of
        Inl (BadRequest e) \<Rightarrow> (HttpError 400 [(''error'', JStr e)], w)
      | Inl e \<Rightarrow> (Escapes e, w)
      | Inr q \<Rightarrow> (case run_turn sx q w of (reply, t) \<Rightarrow> (reply, tn_world t)))"

end
