(* ===== verification/ChatTurnFacts.thy ===== *)
theory ChatTurnFacts
  imports ChatTurn PendingInput
begin

text \<open>
  What a chat turn promises: it always answers, it sends at most one thing to OpenCode, every answer carries exactly
  one verdict, a deleted session is refused, and what the session store holds afterwards. The rules say what the
  computations of ChatTurn keep of an observation of the turn's state.
\<close>

section \<open>What a computation keeps\<close>

definition keeps :: "('o chat_turn \<Rightarrow> 'b) \<Rightarrow> ('a, 'o) act \<Rightarrow> bool" where
  "keeps obs m \<longleftrightarrow> (\<forall>t. obs (snd (m t)) = obs t)"

definition finishes :: "('a, 'o) act \<Rightarrow> bool" where
  "finishes m \<longleftrightarrow> (\<forall>t. fst (m t) \<noteq> Unfinished)"

named_theorems act_rules \<open>what computations keep, and that they end\<close>

lemma keeps_chain [act_rules]: "keeps obs m \<Longrightarrow> (\<And>a. keeps obs (f a)) \<Longrightarrow> keeps obs (chain m f)"
  by (auto simp: keeps_def chain_def split: prod.split outcome.split) (metis snd_conv)+

lemma keeps_andthen [act_rules]: "keeps obs m \<Longrightarrow> keeps obs n \<Longrightarrow> keeps obs (andthen m n)"
  unfolding andthen_def by (rule keeps_chain)

lemma keeps_plain [act_rules]: "keeps obs (give a)" "keeps obs (raises e)" "keeps obs (reads f)" "keeps obs (settled r)"
    "keeps obs (or_unfinished x)"
  by (auto simp: keeps_def give_def raises_def reads_def settled_def or_unfinished_def split: sum.split option.split)

lemma finishes_chain [act_rules]: "finishes m \<Longrightarrow> (\<And>a. finishes (f a)) \<Longrightarrow> finishes (chain m f)"
  by (auto simp: finishes_def chain_def split: prod.split outcome.split) (metis fst_conv)

lemma finishes_andthen [act_rules]: "finishes m \<Longrightarrow> finishes n \<Longrightarrow> finishes (andthen m n)"
  unfolding andthen_def by (rule finishes_chain)

lemma finishes_plain [act_rules]: "finishes (give a)" "finishes (raises e)" "finishes (reads f)" "finishes (settled r)"
    "finishes (on_world g)" "finishes (await sx p)" "finishes (calls c)" "finishes (to_turn h)"
  by (auto simp: finishes_def give_def raises_def reads_def settled_def on_world_def await_def calls_def to_turn_def split: sum.split)

lemma finishes_option: "(\<And>a. finishes (f a)) \<Longrightarrow> finishes g \<Longrightarrow> finishes (case x of Some a \<Rightarrow> f a | None \<Rightarrow> g)"
  by (cases x) auto

lemma finishes_ends [act_rules]: "x \<noteq> None \<Longrightarrow> finishes (or_unfinished x)"
  by (auto simp: or_unfinished_def act_rules)

lemma act_if [act_rules]: "(c \<Longrightarrow> keeps obs m) \<Longrightarrow> (\<not> c \<Longrightarrow> keeps obs n) \<Longrightarrow> keeps obs (if c then m else n)"
  "(c \<Longrightarrow> finishes m') \<Longrightarrow> (\<not> c \<Longrightarrow> finishes n') \<Longrightarrow> finishes (if c then m' else n')"
  by auto

text \<open>Observations that do not look at the world.\<close>

definition world_free :: "('o chat_turn \<Rightarrow> 'b) \<Rightarrow> bool" where
  "world_free obs \<longleftrightarrow> (\<forall>t w. obs (t\<lparr>tn_world := w\<rparr>) = obs t)"

lemma keeps_world [act_rules]: "world_free obs \<Longrightarrow> keeps obs (on_world f)"
  "world_free obs \<Longrightarrow> keeps obs (await sx p)" "world_free obs \<Longrightarrow> keeps obs (log_with sx g)"
  "world_free obs \<Longrightarrow> keeps obs (tell_portal sx q a b c d)"
  by (auto simp: keeps_def world_free_def on_world_def await_def log_with_def tell_portal_def Let_def
      split: sum.split prod.split)

lemma keeps_on_state: "(\<And>t. keeps obs (f t)) \<Longrightarrow> (\<And>t. m t = f t t) \<Longrightarrow> keeps obs m"
  by (auto simp: keeps_def)

lemma finishes_on_state: "(\<And>t. finishes (f t)) \<Longrightarrow> (\<And>t. m t = f t t) \<Longrightarrow> finishes m"
  by (auto simp: finishes_def)

lemma finishes_steps [act_rules]: "finishes (log_with sx g)" "finishes (tell_portal sx q a b c d)"
    "finishes (publish_event sx q ty st su da)"
  by (auto simp: finishes_def log_with_def tell_portal_def publish_event_def await_def on_world_def Let_def split: sum.split prod.split)

lemma finishes_log [act_rules]: "finishes (\<lambda>t. log_with sx (g t) t)"
  by (rule finishes_on_state [OF finishes_steps(1)]) (rule refl)

lemma keeps_log [act_rules]: "world_free obs \<Longrightarrow> keeps obs (\<lambda>t. log_with sx (g t) t)"
  by (rule keeps_on_state [OF keeps_world(3)]) (assumption, rule refl)

section \<open>The turn ends\<close>

lemma finishes_bindings [act_rules]: "finishes (bind_request sx q)" "finishes (bind_turn_message sx q mid)"
    "finishes (show_user_message sx q)" "finishes (bind_all sx q ids)" "finishes (attribute_all sx q attribution ids)"
    "finishes (name_session r v q)" "finishes (trace_or tr)"
  by (simp_all add: finishes_def bind_request_def bind_turn_message_def show_user_message_def Let_def bind_all_def
      attribute_all_def name_session_def trace_or_def on_world_def to_turn_def)

lemma finishes_plain_send [act_rules]: "finishes (plain_send sx q parts)"
  by (rule finishes_on_state [OF _ plain_send_def]) (intro act_rules)

lemma finishes_before [act_rules]: "finishes (messages_before sx)"
  unfolding messages_before_def by (intro act_rules)

lemma finishes_put [act_rules]: "finishes (put_session r)"
  by (cases r) (simp_all add: put_session_def finishes_plain split_beta finishes_andthen)

lemma finishes_ensure [act_rules]: "finishes (ensure_session sx q)"
  unfolding ensure_session_def
  by (rule finishes_chain, rule act_rules, split ensure_start.split) (intro allI conjI impI act_rules)

lemma finishes_open [act_rules]: "finishes (open_turn sx q r)"
  unfolding open_turn_def by (intro act_rules)

lemma finishes_skill [act_rules]: "finishes (apply_skill_invocation sx q parts)"
proof -
  have "finishes (block_skill sx q call d k repo)" "finishes (run_skill_prompt sx q parts call d k repo)" for call d k repo
    unfolding block_skill_def run_skill_prompt_def Let_def by (intro act_rules)+
  then have finish: "finishes (finish_skill sx q parts call d k)" for call d k
    unfolding finish_skill_def split_beta by (intro act_rules)
  have native: "finishes (run_native_command sx q call k)" for call k
    by (rule finishes_on_state [OF _ run_native_command_def]) (intro act_rules)
  show ?thesis
    unfolding apply_skill_invocation_def Let_def
    by (split option.split) (intro allI conjI impI act_rules finish native)
qed

lemma finishes_booking [act_rules]: "finishes (finish_turn sx q f)"
proof -
  have "finishes (record_answer sx q v)" "finishes (record_usage sx q attribution reply after ids)" for v attribution reply after ids
    by (auto simp: finishes_def record_answer_def record_usage_def Let_def split: sum.split prod.split)
  then have "finishes (book_turn sx q f v ids attribution)" for v ids attribution
    unfolding book_turn_def Let_def by (intro act_rules)
  moreover have "finishes (announce_verdict sx q v attribution)" for v attribution
    unfolding announce_verdict_def announce_answer_def Let_def by (intro act_rules)
  ultimately show ?thesis unfolding finish_turn_def Let_def by (intro act_rules)
qed

lemma acceptance_ends:
  "\<exists>p \<in> set polls. deadline \<le> snd p \<Longrightarrow> acceptance_loop before mid expected deadline n polls \<noteq> None"
proof (induction before mid expected deadline n polls rule: acceptance_loop.induct)
  case (2 before mid expected deadline n answer now polls)
  show ?case
  proof (cases "deadline \<le> now")
    case False
    then have "\<exists>p \<in> set polls. deadline \<le> snd p" using 2(2) by auto
    then show ?thesis using 2(1) by (auto simp: Let_def split: sum.split)
  qed (simp add: Let_def)
qed simp

definition polls_suffice :: "'o surroundings \<Rightarrow> bool" where
  "polls_suffice sx \<longleftrightarrow>
     (\<exists>p \<in> set (sx_probe_polls sx). sx_now sx + max 0 (min RECOVERABLE_SEND_ACCEPTANCE_PROBE_SECONDS (sx_timeout sx)) \<le> snd p)
     \<and> (\<exists>p \<in> set (sx_wait_polls sx). sx_now sx + max 0 (sx_timeout sx) \<le> snd p)"

lemma finishes_send: "polls_suffice sx \<Longrightarrow> finishes (send_turn sx q parts before)"
proof -
  assume "polls_suffice sx"
  then have "acceptance_loop before mid expected (sx_now sx + max 0 (min RECOVERABLE_SEND_ACCEPTANCE_PROBE_SECONDS (sx_timeout sx))) 0
      (sx_probe_polls sx) \<noteq> None" for mid expected
    by (intro acceptance_ends) (simp add: polls_suffice_def)
  then have "send_with_probe oid mid before expected (sx_timeout sx) (sx_now sx) (sx_sent sx) (sx_probe_polls sx) \<noteq> None" for oid mid expected
    by (cases "sx_sent sx") (simp_all add: send_with_probe_def probe_recoverable_send_acceptance_def del: not_None_eq split: option.split)
  then show ?thesis unfolding send_turn_def by (intro act_rules)
qed

lemma finishes_await: "polls_suffice sx \<Longrightarrow> finishes (await_answer sx synthetic reply before)"
proof -
  assume "polls_suffice sx"
  then have ends: "wait_for_visible_assistant_response (sx_shown sx) reply before (sx_timeout sx) (sx_poll sx) (sx_now sx) (sx_wait_polls sx) \<noteq> None"
    by (intro waiting_ends_at_the_deadline) (simp add: polls_suffice_def)
  have "finishes (messages_after sx found)" for found unfolding messages_after_def by (intro act_rules)
  then show ?thesis unfolding await_answer_def by (split option.split) (intro allI conjI impI act_rules ends)
qed

lemma finishes_failure [act_rules]: "finishes (handle_raised sx q e)"
proof -
  have failure: "finishes (announce_failure sx q detail)" for detail unfolding announce_failure_def by (intro act_rules)
  have "finishes (opencode_failure sx q err)" "finishes (other_failure sx q said)" for err said
    unfolding opencode_failure_def other_failure_def Let_def by (intro act_rules failure)+
  then show ?thesis unfolding handle_raised_def by (split raised.split) (intro allI conjI impI act_rules)
qed

text \<open>C8: A chat turn always gets an answer: when the clock passes the two deadlines among the polls, the request is answered or
  fails with an error, whatever the calls answer and other requests do meanwhile.\<close>

theorem turn_always_answers:
  assumes "polls_suffice sx"
  shows "fst (run_turn sx q w) \<noteq> NotYet"
proof -
  have "finishes (turn_body sx q)"
    unfolding turn_body_def Let_def split_beta
    by (intro act_rules finishes_send finishes_await assms finishes_option)
  then have "fst (turn_body sx q t) \<noteq> Unfinished" for t by (simp add: finishes_def)
  moreover have "fst (handle_raised sx q e t) \<noteq> Unfinished" for e t
    using finishes_failure by (auto simp: finishes_def)
  moreover have "fst (handle_raised sx q e t) = Done r \<Longrightarrow> r \<noteq> NotYet" for e t r
    by (cases e)
       (auto simp: handle_raised_def opencode_failure_def other_failure_def session_gone_reply_def give_def andthen_def chain_def Let_def
         split: prod.splits outcome.splits)
  ultimately show ?thesis unfolding run_turn_def
    by (auto split: prod.splits outcome.splits) (metis fst_conv)+
qed

section \<open>Verdicts\<close>

definition VERDICT_TYPES :: "string list" where
  "VERDICT_TYPES = [''chat.completed'', ''chat.failed'']"

definition is_verdict :: "jobj \<Rightarrow> bool" where
  "is_verdict e = (jget e ''type'' \<in> JStr ` set VERDICT_TYPES)"

definition verdicts :: "'o chat_turn \<Rightarrow> jobj list" where
  "verdicts t = filter is_verdict (tn_events t)"

text \<open>How a turn ends its events: the outcome of the execution, then that of the chat, and nothing after them.\<close>

definition ends_events :: "bool \<Rightarrow> 'o chat_turn \<Rightarrow> bool" where
  "ends_events ok t \<longleftrightarrow> (\<exists>es execution chat. tn_events t = es @ [execution, chat]
     \<and> jget execution ''type'' = JStr (if ok then ''execution.completed'' else ''execution.failed'')
     \<and> jget chat ''type'' = JStr (if ok then ''chat.completed'' else ''chat.failed''))"

lemma event_type_kept: "jget (event_payload now head trace ty state summary data) ''type'' = JStr ty"
  by (simp add: event_payload_def Let_def add_trace_other)

definition published :: "'o surroundings \<Rightarrow> chat_request \<Rightarrow> string \<Rightarrow> string \<Rightarrow> string \<Rightarrow> jobj \<Rightarrow> 'o chat_turn \<Rightarrow> jobj" where
  "published sx q ty state summary data t =
     event_payload (fst (sx_moment sx (length (tn_events t)))) \<lparr>eh_session_id = cq_session_id q, eh_request_id = cq_request_id q,
       eh_opencode_session_id = tn_oid t\<rparr> (tn_trace t) ty state summary data"

lemma publish_event_appends:
  "\<exists>w. publish_event sx q ty state summary data t =
     (Done (), t\<lparr>tn_events := tn_events t @ [published sx q ty state summary data t], tn_world := w\<rparr>)"
  by (auto simp: publish_event_def published_def Let_def split: prod.split)

text \<open>Observations that see of a turn only the calls, or only the verdicts.\<close>

definition quiet :: "('o chat_turn \<Rightarrow> 'b) \<Rightarrow> bool" where
  "quiet obs \<longleftrightarrow> world_free obs \<and> (\<forall>t x. obs (t\<lparr>tn_oid := x\<rparr>) = obs t) \<and> (\<forall>t x. obs (t\<lparr>tn_trace := x\<rparr>) = obs t)
     \<and> (\<forall>t e. \<not> is_verdict e \<longrightarrow> obs (t\<lparr>tn_events := tn_events t @ [e]\<rparr>) = obs t)"

lemma quiet_free: "quiet obs \<Longrightarrow> world_free obs"
  by (simp add: quiet_def)

lemma quiet_calls: "quiet tn_calls"
  by (simp add: quiet_def world_free_def)

lemma quiet_verdicts: "quiet verdicts"
  by (simp add: quiet_def world_free_def verdicts_def)

named_theorems quiet_rules \<open>steps that announce no verdict and call nothing\<close>

lemma quiet_publish [quiet_rules]:
  assumes "quiet obs" and "ty \<notin> set VERDICT_TYPES"
  shows "keeps obs (publish_event sx q ty state summary data)"
proof -
  have "obs (snd (publish_event sx q ty state summary data t)) = obs t" for t
  proof -
    let ?e = "published sx q ty state summary data t"
    obtain w where "publish_event sx q ty state summary data t = (Done (), t\<lparr>tn_events := tn_events t @ [?e], tn_world := w\<rparr>)"
      using publish_event_appends by blast
    moreover have "\<not> is_verdict ?e" using assms(2) by (auto simp: published_def is_verdict_def event_type_kept)
    then have "obs (t\<lparr>tn_events := tn_events t @ [?e]\<rparr>) = obs t" using assms(1) by (simp add: quiet_def)
    moreover have "obs ((t\<lparr>tn_events := tn_events t @ [?e]\<rparr>)\<lparr>tn_world := w\<rparr>) = obs (t\<lparr>tn_events := tn_events t @ [?e]\<rparr>)"
      using quiet_free [OF assms(1)] unfolding world_free_def by blast
    ultimately show ?thesis by simp
  qed
  then show ?thesis by (simp add: keeps_def)
qed

lemma quiet_bindings [quiet_rules]:
  assumes "quiet obs"
  shows "keeps obs (bind_request sx q)" "keeps obs (bind_turn_message sx q mid)" "keeps obs (show_user_message sx q)"
    "keeps obs (attribute_all sx q attribution ids)" "keeps obs (name_session r v q)" "keeps obs (trace_or tr)"
    "keeps obs (to_turn (\<lambda>t. t\<lparr>tn_oid := x\<rparr>))" "keeps obs (to_turn (\<lambda>t. t\<lparr>tn_trace := g t\<rparr>))" "keeps obs (put_session res)"
    "keeps obs (record_answer sx q v)" "keeps obs (record_usage sx q attribution reply after ids)"
  using assms
  by (auto simp: keeps_def quiet_def world_free_def bind_request_def bind_turn_message_def show_user_message_def Let_def
      attribute_all_def name_session_def trace_or_def on_world_def to_turn_def put_session_def andthen_def chain_def raises_def give_def
      record_answer_def record_usage_def split: sum.split prod.split)

lemma quiet_bind_all [quiet_rules]: "quiet obs \<Longrightarrow> keeps obs (bind_all sx q ids)"
proof -
  assume "quiet obs"
  then have "obs (snd (bind_turn_message sx q mid t)) = obs t" for mid t
    using quiet_bindings(2) [of obs sx q mid] by (simp add: keeps_def)
  then have "obs (fold (\<lambda>mid t. snd (bind_turn_message sx q mid t)) ids t) = obs t" for t
    by (induction ids arbitrary: t) auto
  then show ?thesis by (simp add: keeps_def bind_all_def)
qed

lemma quiet_ensure [quiet_rules]: "quiet obs \<Longrightarrow> keeps obs (ensure_session sx q)"
  unfolding ensure_session_def
  by (rule keeps_chain, rule act_rules, split ensure_start.split) (intro allI conjI impI act_rules quiet_rules quiet_free; assumption)

lemma not_verdicts [quiet_rules]:
  "''chat.started'' \<notin> set VERDICT_TYPES" "''execution.started'' \<notin> set VERDICT_TYPES" "''skill.detected'' \<notin> set VERDICT_TYPES"
  "''skill.blocked'' \<notin> set VERDICT_TYPES" "''skill.prompt_applied'' \<notin> set VERDICT_TYPES" "''assistant_delta'' \<notin> set VERDICT_TYPES"
  "''complete'' \<notin> set VERDICT_TYPES" "(if c then ''execution.completed'' else ''execution.failed'') \<notin> set VERDICT_TYPES"
  "''execution.failed'' \<notin> set VERDICT_TYPES"
  by (simp_all add: VERDICT_TYPES_def)

lemma quiet_open [quiet_rules]: "quiet obs \<Longrightarrow> keeps obs (open_turn sx q r)"
  unfolding open_turn_def by (intro act_rules quiet_rules quiet_free; assumption)

lemma quiet_before [quiet_rules]: "quiet obs \<Longrightarrow> keeps obs (messages_before sx)"
  unfolding messages_before_def by (intro act_rules quiet_free; assumption)

lemma quiet_await [quiet_rules]: "quiet obs \<Longrightarrow> keeps obs (await_answer sx synthetic reply before)"
proof -
  assume obs: "quiet obs"
  have "keeps obs (messages_after sx found)" for found unfolding messages_after_def by (intro act_rules quiet_free obs)
  then show ?thesis unfolding await_answer_def by (split option.split) (intro allI conjI impI act_rules quiet_free obs)
qed

lemma quiet_book [quiet_rules]: "quiet obs \<Longrightarrow> keeps obs (book_turn sx q f v ids attribution)"
  unfolding book_turn_def Let_def by (intro act_rules quiet_rules quiet_free; assumption)

lemma quiet_block [quiet_rules]: "quiet obs \<Longrightarrow> keeps obs (block_skill sx q call d k repo)"
  unfolding block_skill_def Let_def by (intro act_rules quiet_rules; assumption)

lemma quiet_answer [quiet_rules]: "quiet obs \<Longrightarrow> keeps obs (announce_answer sx q v)"
  unfolding announce_answer_def Let_def by (intro act_rules quiet_rules; assumption)

section \<open>At most one call\<close>

definition adds :: "('o chat_turn \<Rightarrow> 'b list) \<Rightarrow> nat \<Rightarrow> ('b \<Rightarrow> bool) \<Rightarrow> ('a, 'o) act \<Rightarrow> bool" where
  "adds obs n P m \<longleftrightarrow> (\<forall>t. \<exists>xs. obs (snd (m t)) = obs t @ xs \<and> length xs \<le> n \<and> list_all P xs)"

lemma adds_keeps: "keeps obs m \<Longrightarrow> adds obs n P m"
  by (auto simp: keeps_def adds_def)

lemma adds_chain:
  assumes "adds obs i P m" and "\<And>a. adds obs j P (f a)" and "i + j \<le> n"
  shows "adds obs n P (chain m f)"
proof -
  have "\<exists>xs. obs (snd (chain m f t)) = obs t @ xs \<and> length xs \<le> n \<and> list_all P xs" for t
  proof -
    obtain xs where xs: "obs (snd (m t)) = obs t @ xs" "length xs \<le> i" "list_all P xs" using assms(1) by (auto simp: adds_def)
    obtain r t1 where m: "m t = (r, t1)" by fastforce
    show ?thesis
    proof (cases r)
      case (Done a)
      obtain ys where "obs (snd (f a t1)) = obs t1 @ ys" "length ys \<le> j" "list_all P ys" using assms(2) by (auto simp: adds_def)
      then show ?thesis using xs m Done assms(3) by (intro exI [of _ "xs @ ys"]) (auto simp: chain_def)
    qed (use xs m assms(3) in \<open>auto simp: chain_def intro: exI [of _ xs]\<close>)
  qed
  then show ?thesis by (simp add: adds_def)
qed

lemma adds_first: "adds obs n P m \<Longrightarrow> (\<And>a. keeps obs (f a)) \<Longrightarrow> adds obs n P (chain m f)"
  by (rule adds_chain [where j = 0]) (auto intro: adds_keeps)

lemma adds_then: "keeps obs m \<Longrightarrow> (\<And>a. adds obs n P (f a)) \<Longrightarrow> adds obs n P (chain m f)"
  by (rule adds_chain [where i = 0]) (auto intro: adds_keeps)

lemma adds_andthen: "keeps obs m \<Longrightarrow> adds obs n P k \<Longrightarrow> adds obs n P (andthen m k)"
  unfolding andthen_def by (rule adds_then)

definition own_call :: "chat_request \<Rightarrow> opencode_call \<Rightarrow> bool" where
  "own_call q c \<longleftrightarrow>
     (case c of
        SendMessage oid s \<Rightarrow> sn_message_id s = cq_message_id q \<and> sn_model s = cq_model q \<and> sn_agent s = cq_agent q \<and> sn_system s = cq_system q
      | ExecuteCommand oid name arguments model agent mid \<Rightarrow> mid = cq_message_id q \<and> model = cq_model q)"

lemma kept: "keeps obs m \<Longrightarrow> m t = (r, t') \<Longrightarrow> obs t' = obs t"
  by (auto simp: keeps_def dest: spec [of _ t])

lemma chain_assoc: "chain (chain m f) g = chain m (\<lambda>a. chain (f a) g)"
  by (rule ext) (auto simp: chain_def split: prod.split outcome.split)

lemma chain_give: "chain (give a) f = f a"
  by (rule ext) (simp add: chain_def give_def)

lemma one_send: "adds tn_calls 1 (own_call q) (plain_send sx q parts)"
  by (auto simp: adds_def plain_send_def andthen_def chain_def calls_def await_def on_world_def own_call_def send_message_call_def)

lemma calls_announce: "keeps tn_calls (announce_verdict sx q v attribution)" "keeps tn_calls (publish_event sx q ty st su da)"
proof -
  show p: "keeps tn_calls (publish_event sx q ty st su da)" for ty st su da
    by (auto simp: keeps_def publish_event_def Let_def split: prod.split)
  show "keeps tn_calls (announce_verdict sx q v attribution)"
    unfolding announce_verdict_def announce_answer_def Let_def by (intro act_rules p)
qed

lemma calls_finish: "keeps tn_calls (finish_turn sx q f)"
  unfolding finish_turn_def Let_def by (intro act_rules quiet_rules quiet_calls calls_announce)

lemma calls_skill: "adds tn_calls 1 (own_call q) (finish_skill sx q parts call d k)"
proof -
  have prompt: "adds tn_calls 1 (own_call q) (run_skill_prompt sx q parts call d k repo)" for d k repo
    unfolding run_skill_prompt_def andthen_def by (intro adds_then adds_first one_send act_rules quiet_rules quiet_calls)
  have "adds tn_calls 1 (own_call q) (block_skill sx q call d k repo)" for d k repo
    by (intro adds_keeps quiet_rules quiet_calls)
  with prompt show ?thesis by (auto simp: finish_skill_def split: prod.split)
qed

lemma calls_native: "adds tn_calls 1 (own_call q) (run_native_command sx q call k)"
  by (auto simp: adds_def run_native_command_def andthen_def chain_def calls_def await_def on_world_def own_call_def settled_def
      raises_def give_def split: sum.split)

lemma calls_apply_skill:
  assumes "parse_slash_invocation (cq_message q) = Some call"
  shows "\<exists>m. apply_skill_invocation sx q parts = chain m (\<lambda>r. give (Some r)) \<and> adds tn_calls 1 (own_call q) m"
proof -
  show ?thesis
    unfolding apply_skill_invocation_def assms option.case Let_def
    by (intro exI conjI, rule refl)
       (rule adds_then [OF keeps_plain(4)], rule adds_andthen [OF calls_announce(2)], split if_split,
         intro conjI impI calls_skill calls_native adds_andthen keeps_world quiet_free quiet_calls, split if_split,
         intro conjI impI calls_skill calls_native)
qed

lemma calls_body: "adds tn_calls 1 (own_call q) (turn_body sx q)"
proof -
  have answer: "keeps tn_calls (chain (await_answer sx syn reply before) (\<lambda>x. finish_turn sx q (f x)))" for syn reply before f
    by (intro act_rules quiet_rules quiet_calls calls_finish)
  have send: "adds tn_calls 1 (own_call q) (chain (send_turn sx q parts before) k)" if "\<And>x. keeps tn_calls (k x)" for parts before k
    unfolding send_turn_def andthen_def by (intro adds_first one_send act_rules that)
  have rest: "adds tn_calls 1 (own_call q) (chain (apply_skill_invocation sx q parts) (\<lambda>skill.
      chain (case skill of Some k \<Rightarrow> give (kr_reply k, None) | None \<Rightarrow> send_turn sx q parts before) (\<lambda>x.
        chain (await_answer sx (case skill of Some k \<Rightarrow> kr_synthetic k | None \<Rightarrow> None) (fst x) before) (\<lambda>y. finish_turn sx q (f skill x y)))))"
    for parts before f
  proof (cases "parse_slash_invocation (cq_message q)")
    case None
    then have "apply_skill_invocation sx q parts = give None" by (simp add: apply_skill_invocation_def)
    then show ?thesis by (simp add: chain_give del: One_nat_def) (rule send, rule answer)
  next
    case (Some call)
    then obtain m where m: "apply_skill_invocation sx q parts = chain m (\<lambda>r. give (Some r))" "adds tn_calls 1 (own_call q) m"
      using calls_apply_skill by blast
    show ?thesis unfolding m(1) chain_assoc chain_give option.case
      by (rule adds_first [OF m(2)]) (rule answer)
  qed
  show ?thesis
    unfolding turn_body_def Let_def split_beta andthen_def
    by (intro adds_then rest quiet_rules quiet_calls)
qed

lemma calls_failure: "keeps tn_calls (handle_raised sx q e)"
proof -
  have failure: "keeps tn_calls (announce_failure sx q detail)" for detail
    unfolding announce_failure_def by (intro act_rules calls_announce quiet_free quiet_calls)
  have "keeps tn_calls (opencode_failure sx q err)" "keeps tn_calls (other_failure sx q said)" for err said
    unfolding opencode_failure_def other_failure_def Let_def by (intro act_rules failure quiet_rules quiet_free quiet_calls)+
  then show ?thesis unfolding handle_raised_def by (split raised.split) (intro allI conjI impI act_rules)
qed

text \<open>C2: A chat turn makes at most one call that starts work in OpenCode, a message or a command, whatever fails or is retried;
  and that call carries the turn's own message id and model.\<close>

theorem turn_sends_at_most_once:
  "length (tn_calls (snd (run_turn sx q w))) \<le> 1 \<and> list_all (own_call q) (tn_calls (snd (run_turn sx q w)))"
proof -
  obtain xs where xs: "tn_calls (snd (turn_body sx q (turn_start q w))) = xs" "length xs \<le> 1" "list_all (own_call q) xs"
  proof -
    have "\<exists>xs. tn_calls (snd (turn_body sx q (turn_start q w))) = tn_calls (turn_start q w) @ xs \<and> length xs \<le> 1 \<and> list_all (own_call q) xs"
      using calls_body [of q sx] unfolding adds_def by blast
    then show ?thesis using that by (auto simp: turn_start_def)
  qed
  obtain r t where body: "turn_body sx q (turn_start q w) = (r, t)" by fastforce
  have "tn_calls (snd (run_turn sx q w)) = tn_calls t"
  proof (cases r)
    case (Raises e)
    obtain r2 t2 where handled: "handle_raised sx q e t = (r2, t2)" by fastforce
    then have "tn_calls t2 = tn_calls t" by (rule kept [OF calls_failure])
    then show ?thesis using body Raises handled by (cases r2) (simp_all add: run_turn_def)
  qed (use body in \<open>simp_all add: run_turn_def\<close>)
  then show ?thesis using xs body by simp
qed

section \<open>Exactly one verdict\<close>

lemma chain_Done: "chain m f t = (Done b, t') \<longleftrightarrow> (\<exists>a t1. m t = (Done a, t1) \<and> f a t1 = (Done b, t'))"
  by (auto simp: chain_def split: prod.split outcome.split)

lemma andthen_Done: "andthen m n t = (Done b, t') \<longleftrightarrow> (\<exists>t1. m t = (Done (), t1) \<and> n t1 = (Done b, t'))"
  by (simp add: andthen_def chain_Done)

lemma verdicts_publish:
  assumes "publish_event sx q ty st su da t = (r, t')" and "ty \<in> set VERDICT_TYPES"
  shows "verdicts t' = verdicts t @ [published sx q ty st su da t]"
proof -
  have "is_verdict (published sx q ty st su da t)" using assms(2) by (auto simp: is_verdict_def published_def event_type_kept)
  then show ?thesis using publish_event_appends [of sx q ty st su da t] assms(1) by (auto simp: verdicts_def)
qed

lemma terminal_is_verdict: "terminal_type v \<in> set VERDICT_TYPES"
  by (simp add: terminal_type_def VERDICT_TYPES_def)

definition succeeds :: "(unit, 'o) act \<Rightarrow> bool" where
  "succeeds m \<longleftrightarrow> (\<forall>t. \<exists>t1. m t = (Done (), t1))"

lemma announce_succeeds: "succeeds (publish_event sx q ty st su da)" "succeeds (announce_answer sx q v)"
proof -
  show p: "succeeds (publish_event sx q ty st su da)" for ty st su da
    unfolding succeeds_def using publish_event_appends by blast
  have both: "succeeds (andthen m n)" if m: "succeeds m" and n: "succeeds n" for m n :: "(unit, 'a) act"
    unfolding succeeds_def
  proof
    fix t
    obtain t1 where "m t = (Done (), t1)" using m unfolding succeeds_def by blast
    moreover obtain t2 where "n t1 = (Done (), t2)" using n unfolding succeeds_def by blast
    ultimately show "\<exists>t'. andthen m n t = (Done (), t')" by (simp add: andthen_def chain_def)
  qed
  have "succeeds (give () :: (unit, 'a) act)" by (simp add: succeeds_def give_def)
  then show "succeeds (announce_answer sx q v)" by (simp add: announce_answer_def Let_def both p)
qed

lemma announce_verdict_one:
  assumes "announce_verdict sx q v attribution t = (r, t')"
  shows "\<exists>e. verdicts t' = verdicts t @ [e] \<and> jget e ''type'' = JStr (terminal_type v)"
proof -
  obtain t1 t2 where steps: "announce_answer sx q v t = (Done (), t1)"
      "publish_event sx q (if vd_state v = ''completed'' then ''execution.completed'' else ''execution.failed'') (terminal_state v)
         (vd_text v) (terminal_data v attribution) t1 = (Done (), t2)"
      "publish_event sx q (terminal_type v) (terminal_state v) (vd_text v) (terminal_data v attribution) t2 = (r, t')"
  proof -
    obtain t1 where a: "announce_answer sx q v t = (Done (), t1)"
      using announce_succeeds(2) [of sx q v] by (auto simp: succeeds_def)
    obtain t2 where b: "publish_event sx q (if vd_state v = ''completed'' then ''execution.completed'' else ''execution.failed'')
        (terminal_state v) (vd_text v) (terminal_data v attribution) t1 = (Done (), t2)"
      using publish_event_appends by blast
    show ?thesis using that [OF a b] assms a b by (simp add: announce_verdict_def andthen_def chain_def)
  qed
  have "verdicts t1 = verdicts t" "verdicts t2 = verdicts t1"
    using kept [OF quiet_answer [OF quiet_verdicts] steps(1)] kept [OF quiet_publish [OF quiet_verdicts not_verdicts(8)] steps(2)] by auto
  then show ?thesis using verdicts_publish [OF steps(3) terminal_is_verdict] by (auto simp: published_def event_type_kept)
qed

lemma announced_ends:
  assumes "publish_event sx q ty1 st1 su1 da1 t = (r1, t1)" and "publish_event sx q ty2 st2 su2 da2 t1 = (r2, t2)"
    and "ty1 = (if ok then ''execution.completed'' else ''execution.failed'')" and "ty2 = (if ok then ''chat.completed'' else ''chat.failed'')"
  shows "ends_events ok t2"
proof -
  have "tn_events t1 = tn_events t @ [published sx q ty1 st1 su1 da1 t]"
    using publish_event_appends [of sx q ty1 st1 su1 da1 t] assms(1) by auto
  moreover have "tn_events t2 = tn_events t1 @ [published sx q ty2 st2 su2 da2 t1]"
    using publish_event_appends [of sx q ty2 st2 su2 da2 t1] assms(2) by auto
  moreover have "jget (published sx q ty1 st1 su1 da1 t) ''type'' = JStr ty1" "jget (published sx q ty2 st2 su2 da2 t1) ''type'' = JStr ty2"
    by (simp_all add: published_def event_type_kept)
  ultimately show ?thesis unfolding ends_events_def assms(3,4) by auto
qed

lemma announce_verdict_ends:
  assumes "announce_verdict sx q v attribution t = (Done (), t')"
  shows "ends_events (vd_state v = ''completed'') t'"
  using assms unfolding announce_verdict_def andthen_Done
  by (auto simp: terminal_type_def elim!: announced_ends)

lemma events_free: "world_free tn_events"
  by (simp add: world_free_def)

lemma attribution_keys: "fst ` set (model_attribution m model) \<subseteq> {''model'', ''requested_model'', ''auto_tier'', ''model_fallback_reason''}"
  by (auto simp: model_attribution_def Let_def split: if_splits option.splits)

lemma payload_states:
  assumes "fst ` set attribution \<subseteq> {''model'', ''requested_model'', ''auto_tier'', ''model_fallback_reason''}"
  shows "jget (turn_payload q v ids usage attribution final debug t) ''completion_state'' = JStr (vd_state v)"
    "jget (turn_payload q v ids usage attribution final debug t) ''response'' = JStr (vd_text v)"
    "jget (turn_payload q v ids usage attribution final debug t) ''ok'' = JBool (vd_ok v)"
    "jget (turn_payload q v ids usage attribution final debug t) ''runtime_events'' = events_json t"
proof -
  have "k \<notin> fst ` set attribution" if "k \<in> {''completion_state'', ''response'', ''ok'', ''runtime_events''}" for k
    using assms that by auto
  then show "jget (turn_payload q v ids usage attribution final debug t) ''completion_state'' = JStr (vd_state v)"
    "jget (turn_payload q v ids usage attribution final debug t) ''response'' = JStr (vd_text v)"
    "jget (turn_payload q v ids usage attribution final debug t) ''ok'' = JBool (vd_ok v)"
    "jget (turn_payload q v ids usage attribution final debug t) ''runtime_events'' = events_json t"
    by (simp_all add: turn_payload_def put_all_other)
qed

lemma booked_payload:
  assumes "book_turn sx q f v ids attribution t = (Done payload, t')"
  shows "\<exists>usage final debug. payload = turn_payload q v ids usage attribution final debug t' \<and> tn_events t' = tn_events t"
proof -
  have "world_free tn_events" by (simp add: world_free_def)
  then have events: "keeps tn_events (record_answer sx q v)" "keeps tn_events (record_usage sx q attribution reply after ids)"
      "keeps tn_events (log_with sx g)" "keeps tn_events (tell_portal sx q a b c d)" "keeps tn_events (name_session r v q)"
    for reply after ids g a b c d r
    by (auto simp: keeps_def record_answer_def record_usage_def log_with_def tell_portal_def await_def on_world_def name_session_def Let_def
        split: sum.split prod.split)
  have log: "keeps tn_events (\<lambda>t. log_with sx (h t) t)" for h by (rule keeps_log) (simp add: world_free_def)
  have "keeps tn_events (book_turn sx q f v ids attribution)"
    unfolding book_turn_def Let_def by (intro act_rules events log)
  then have "tn_events t' = tn_events t" using assms kept by metis
  moreover obtain usage final debug where "payload = turn_payload q v ids usage attribution final debug t'"
    using assms unfolding book_turn_def Let_def chain_Done andthen_Done by (auto simp: reads_def)
  ultimately show ?thesis by blast
qed

definition answers_as :: "jobj \<Rightarrow> verdict \<Rightarrow> bool" where
  "answers_as payload v \<longleftrightarrow> jget payload ''completion_state'' = JStr (vd_state v) \<and> jget payload ''response'' = JStr (vd_text v)
     \<and> jget payload ''ok'' = JBool (vd_ok v)"

lemma finished_turn:
  assumes "finish_turn sx q f t = (Done payload, t')"
  shows "let v = verdict_of (tf_probe f) (tf_synthetic f) in
     answers_as payload v \<and> jget payload ''runtime_events'' = events_json t' \<and> ends_events (vd_state v = ''completed'') t'
     \<and> (\<exists>e. verdicts t' = verdicts t @ [e] \<and> jget e ''type'' = JStr (terminal_type v))"
proof -
  let ?v = "verdict_of (tf_probe f) (tf_synthetic f)"
  let ?ids = "turn_message_ids q (tf_before f) (tf_after f) (tf_reply f) (tf_probe f)"
  obtain a t1 t2 t3 where steps: "bind_all sx q (mi_all ?ids) t = (Done (), t1)" "a = model_attribution (cw_auto (tn_world t1)) (cq_model q)"
      "attribute_all sx q a (mi_all ?ids) t1 = (Done (), t2)" "announce_verdict sx q ?v a t2 = (Done (), t3)"
      "book_turn sx q f ?v ?ids a t3 = (Done payload, t')"
    using assms unfolding finish_turn_def Let_def chain_Done andthen_Done by (auto simp: reads_def)
  have "verdicts t2 = verdicts t"
    using kept [OF quiet_bind_all [OF quiet_verdicts] steps(1)] kept [OF quiet_bindings(4) [OF quiet_verdicts] steps(3)] by simp
  moreover have "verdicts t' = verdicts t3" by (rule kept [OF quiet_book [OF quiet_verdicts] steps(5)])
  ultimately have verdict: "\<exists>e. verdicts t' = verdicts t @ [e] \<and> jget e ''type'' = JStr (terminal_type ?v)"
    using announce_verdict_one [OF steps(4)] by simp
  have keys: "fst ` set a \<subseteq> {''model'', ''requested_model'', ''auto_tier'', ''model_fallback_reason''}"
    using attribution_keys steps(2) by simp
  obtain usage final debug where "payload = turn_payload q ?v ?ids usage a final debug t'" and same: "tn_events t' = tn_events t3"
    using booked_payload [OF steps(5)] by blast
  have "ends_events (vd_state ?v = ''completed'') t'"
    using announce_verdict_ends [OF steps(4)] by (simp add: ends_events_def same)
  moreover note \<open>payload = turn_payload q ?v ?ids usage a final debug t'\<close>
  ultimately have "ends_events (vd_state ?v = ''completed'') t'" "answers_as payload ?v" "jget payload ''runtime_events'' = events_json t'"
    by (simp_all add: answers_as_def payload_states [OF keys])
  with verdict show ?thesis by (simp add: Let_def)
qed

definition yields :: "('a \<Rightarrow> jobj list \<Rightarrow> 'o chat_turn \<Rightarrow> bool) \<Rightarrow> ('a, 'o) act \<Rightarrow> bool" where
  "yields Q m \<longleftrightarrow> (\<forall>t b t'. m t = (Done b, t') \<longrightarrow> Q b (verdicts t) t')"

lemma yields_chain: "keeps verdicts m \<Longrightarrow> (\<And>a. yields Q (f a)) \<Longrightarrow> yields Q (chain m f)"
  by (auto simp: yields_def chain_Done dest: kept) (metis kept)

lemma yields_andthen: "keeps verdicts m \<Longrightarrow> yields Q n \<Longrightarrow> yields Q (andthen m n)"
  unfolding andthen_def by (rule yields_chain)

lemma verdicts_send: "keeps verdicts (plain_send sx q parts)" "keeps verdicts (send_turn sx q parts before)"
proof -
  show p: "keeps verdicts (plain_send sx q parts)" for parts
    by (auto simp: keeps_def verdicts_def plain_send_def andthen_def chain_def calls_def await_def on_world_def)
  show "keeps verdicts (send_turn sx q parts before)" unfolding send_turn_def by (intro act_rules p)
qed

lemma verdicts_skill: "keeps verdicts (apply_skill_invocation sx q parts)"
proof -
  have prompt: "keeps verdicts (run_skill_prompt sx q parts call d k repo)" for call d k repo
    unfolding run_skill_prompt_def by (intro act_rules quiet_rules quiet_verdicts verdicts_send)
  then have finish: "keeps verdicts (finish_skill sx q parts call d k)" for call d k
    unfolding finish_skill_def split_beta by (intro act_rules quiet_rules quiet_verdicts)
  have native: "keeps verdicts (run_native_command sx q call k)" for call k
    by (auto simp: keeps_def verdicts_def run_native_command_def andthen_def chain_def calls_def await_def on_world_def settled_def
        raises_def give_def split: sum.split)
  show ?thesis
    unfolding apply_skill_invocation_def Let_def
    by (split option.split) (intro allI conjI impI act_rules quiet_rules quiet_verdicts quiet_free finish native)
qed

definition announces :: "jobj \<Rightarrow> jobj list \<Rightarrow> 'o chat_turn \<Rightarrow> bool" where
  "announces payload before t \<longleftrightarrow>
     (\<exists>probe synthetic e. let v = verdict_of probe synthetic in
        answers_as payload v \<and> jget payload ''runtime_events'' = events_json t \<and> ends_events (vd_state v = ''completed'') t
        \<and> verdicts t = before @ [e] \<and> jget e ''type'' = JStr (terminal_type v))"

lemma body_announces: "yields announces (turn_body sx q)"
proof -
  have finish: "yields announces (finish_turn sx q f)" for f
    using finished_turn by (fastforce simp: yields_def announces_def Let_def)
  have send: "keeps verdicts (case skill of Some k \<Rightarrow> give (kr_reply k, None) | None \<Rightarrow> send_turn sx q parts before)" for skill parts before
    by (cases skill) (simp_all add: keeps_plain verdicts_send)
  show ?thesis
    unfolding turn_body_def Let_def split_beta
    by (intro yields_chain yields_andthen finish send quiet_rules quiet_verdicts verdicts_skill)
qed

lemma announce_failure_last:
  assumes "announce_failure sx q detail t = (r, t')"
  shows "\<exists>e. verdicts t' = verdicts t @ [e] \<and> jget e ''type'' = JStr ''chat.failed''"
proof -
  obtain t1 where a: "publish_event sx q ''execution.failed'' ''failed'' detail [(''error'', JStr detail)] t = (Done (), t1)"
    using announce_succeeds(1) unfolding succeeds_def by blast
  obtain t2 where b: "publish_event sx q ''chat.failed'' ''failed'' detail [(''error'', JStr detail)] t1 = (Done (), t2)"
    using announce_succeeds(1) unfolding succeeds_def by blast
  have "verdicts t' = verdicts t2"
    using assms a b kept [OF keeps_log [OF quiet_free [OF quiet_verdicts]]]
    unfolding announce_failure_def andthen_def chain_def by simp
  moreover have "verdicts t1 = verdicts t" by (rule kept [OF quiet_publish [OF quiet_verdicts not_verdicts(9)] a])
  ultimately show ?thesis using verdicts_publish [OF b] by (simp add: VERDICT_TYPES_def published_def event_type_kept)
qed

lemma announce_failure_ends:
  assumes "announce_failure sx q detail t = (r, t')"
  shows "ends_events False t'"
proof -
  obtain t1 where a: "publish_event sx q ''execution.failed'' ''failed'' detail [(''error'', JStr detail)] t = (Done (), t1)"
    using announce_succeeds(1) unfolding succeeds_def by blast
  obtain t2 where b: "publish_event sx q ''chat.failed'' ''failed'' detail [(''error'', JStr detail)] t1 = (Done (), t2)"
    using announce_succeeds(1) unfolding succeeds_def by blast
  have "tn_events t' = tn_events t2"
    using assms a b kept [OF keeps_log [OF events_free]]
    unfolding announce_failure_def andthen_def chain_def by simp
  then show ?thesis using announced_ends [OF a b, of False] by (simp add: ends_events_def)
qed

lemma failure_ends:
  assumes "handle_raised sx q e t = (r, t')" and "e = OpenCodeError err \<or> e = OtherError said"
  shows "ends_events False t'"
proof -
  have told: "keeps tn_events (andthen (tell_portal sx q a b c d) (give x))" "keeps tn_events (give x)" for a b c d and x :: chat_reply
    by (intro act_rules events_free)+
  have "ends_events False (snd (andthen (trace_or g) (andthen (announce_failure sx q detail) n) t))"
    if n: "keeps tn_events n" for g detail and n :: "(chat_reply, 'a) act"
  proof -
    obtain t1 where t1: "trace_or g t = (Done (), t1)" by (simp add: trace_or_def to_turn_def)
    obtain r2 t2 where t2: "announce_failure sx q detail t1 = (r2, t2)" by fastforce
    have "tn_events (snd (andthen (trace_or g) (andthen (announce_failure sx q detail) n) t)) = tn_events t2"
      using t1 t2 n by (cases r2) (simp_all add: andthen_def chain_def keeps_def)
    then show ?thesis using announce_failure_ends [OF t2] by (simp add: ends_events_def)
  qed
  from this [OF told(1)] this [OF told(2)] show ?thesis
    using assms by (auto simp: handle_raised_def opencode_failure_def other_failure_def Let_def) (metis snd_conv)+
qed

lemma failure_announced:
  assumes "handle_raised sx q e t = (r, t')" and "e = OpenCodeError err \<or> e = OtherError said"
  shows "\<exists>v. verdicts t' = verdicts t @ [v] \<and> jget v ''type'' = JStr ''chat.failed''"
proof -
  have trace: "keeps verdicts (trace_or g)" for g :: "'a chat_turn \<Rightarrow> jobj" by (rule quiet_bindings(6) [OF quiet_verdicts])
  have told: "keeps verdicts (andthen (tell_portal sx q a b c d) (give x))" "keeps verdicts (give x)" for a b c d and x :: chat_reply
    by (intro act_rules quiet_free quiet_verdicts)+
  have "\<exists>v. verdicts (snd (andthen (trace_or g) (andthen (announce_failure sx q detail) n) t)) = verdicts t @ [v]
      \<and> jget v ''type'' = JStr ''chat.failed''" if n: "keeps verdicts n" for g detail and n :: "(chat_reply, 'a) act"
  proof -
    obtain t1 where t1: "trace_or g t = (Done (), t1)" by (simp add: trace_or_def to_turn_def)
    obtain r2 t2 where t2: "announce_failure sx q detail t1 = (r2, t2)" by fastforce
    have "verdicts (snd (andthen (trace_or g) (andthen (announce_failure sx q detail) n) t)) = verdicts t2"
      using t1 t2 n by (cases r2) (simp_all add: andthen_def chain_def keeps_def)
    moreover have "verdicts t1 = verdicts t" by (rule kept [OF trace t1])
    ultimately show ?thesis using announce_failure_last [OF t2] by simp
  qed
  from this [OF told(1)] this [OF told(2)] show ?thesis
    using assms by (auto simp: handle_raised_def opencode_failure_def other_failure_def Let_def) (metis snd_conv)+
qed

text \<open>C3: What a chat turn answers is what it announced. The last two events of an answered turn are \<^verbatim>\<open>execution.completed\<close> and
  \<^verbatim>\<open>chat.completed\<close> when its payload says completed, \<^verbatim>\<open>execution.failed\<close> and \<^verbatim>\<open>chat.failed\<close> when it says anything else; its
  payload carries every event of the turn, and no other \<^verbatim>\<open>chat.completed\<close> or \<^verbatim>\<open>chat.failed\<close> is among them. A turn that fails
  ends its events with the two failures; only bad requests (400) and deleted sessions (410) are refused without them.\<close>

theorem turn_announces_its_outcome:
  "case run_turn sx q w of
     (Answer200 payload, t) \<Rightarrow> announces payload [] t
   | (HttpError status body, t) \<Rightarrow> status \<in> {400, 410} \<or> ends_events False t
   | (Escapes e, t) \<Rightarrow> ends_events False t
   | (NotYet, t) \<Rightarrow> True"
proof -
  obtain r t where body: "turn_body sx q (turn_start q w) = (r, t)" by fastforce
  show ?thesis
  proof (cases r)
    case (Done payload)
    have "verdicts (turn_start q w) = []" by (simp add: verdicts_def turn_start_def)
    then have "announces payload [] t" using body_announces [of sx q] body Done unfolding yields_def by metis
    then show ?thesis using body Done by (simp add: run_turn_def)
  next
    case (Raises e)
    obtain r2 t2 where handled: "handle_raised sx q e t = (r2, t2)" by fastforce
    have run: "run_turn sx q w = (case r2 of Done reply \<Rightarrow> (reply, t2) | Raises e1 \<Rightarrow> (Escapes e1, t2) | Unfinished \<Rightarrow> (NotYet, t2))"
      using body Raises handled by (cases r2) (simp_all add: run_turn_def)
    have sorts: "(\<exists>err said. e = OpenCodeError err \<or> e = OtherError said)
        \<or> (\<exists>b. r2 = Done (HttpError 410 b) \<or> r2 = Done (HttpError 400 b))"
      using handled by (cases e) (auto simp: handle_raised_def session_gone_reply_def give_def)
    have replies: "r2 = Done reply \<Longrightarrow> \<exists>status b. reply = HttpError status b" for reply
      using handled by (cases e)
        (auto simp: handle_raised_def session_gone_reply_def opencode_failure_def other_failure_def Let_def andthen_Done give_def)
    show ?thesis using sorts failure_ends [OF handled] replies unfolding run
      by (cases r2) (fastforce)+
  qed (use body in \<open>simp add: run_turn_def\<close>)
qed

section \<open>What the session store holds afterwards\<close>

text \<open>An invariant of the world: one that other requests keep, and with it every step of the turn.\<close>

definition stays :: "('o chat_world \<Rightarrow> bool) \<Rightarrow> ('a, 'o) act \<Rightarrow> bool" where
  "stays I m \<longleftrightarrow> (\<forall>t. I (tn_world t) \<longrightarrow> I (tn_world (snd (m t))))"

named_theorems stay_rules \<open>steps that keep an invariant of the session store\<close>

lemma stays_chain [stay_rules]:
  fixes m :: "('b, 'a) act"
  assumes "stays I m" and "\<And>a. stays I (f a)"
  shows "stays I (chain m f)"
  unfolding stays_def
proof (intro allI impI)
  fix t :: "'a chat_turn" assume "I (tn_world t)"
  moreover obtain r t1 where "m t = (r, t1)" by fastforce
  ultimately show "I (tn_world (snd (chain m f t)))"
    using assms by (cases r) (auto simp: stays_def chain_def dest!: spec [of _ t])
qed

lemma stays_andthen [stay_rules]: "stays I m \<Longrightarrow> stays I n \<Longrightarrow> stays I (andthen m n)"
  unfolding andthen_def by (rule stays_chain)

lemma stays_plain [stay_rules]: "stays I (give a)" "stays I (raises e)" "stays I (reads f)" "stays I (settled r)"
    "stays I (or_unfinished x)" "stays I (calls c)"
  by (auto simp: stays_def give_def raises_def reads_def settled_def or_unfinished_def calls_def split: sum.split option.split)

lemma stays_if [stay_rules]: "(c \<Longrightarrow> stays I m) \<Longrightarrow> (\<not> c \<Longrightarrow> stays I n) \<Longrightarrow> stays I (if c then m else n)"
  by auto

lemma stays_on_state: "(\<And>t. stays I (f t)) \<Longrightarrow> (\<And>t. m t = f t t) \<Longrightarrow> stays I m"
  by (auto simp: stays_def)

abbreviation sessions_ok :: "'o chat_world \<Rightarrow> bool" where
  "sessions_ok w \<equiv> session_inv (cw_sessions w)"

text \<open>Other requests keep the session store well formed, and the last call leaves it alone.\<close>

definition tame :: "'o surroundings \<Rightarrow> bool" where
  "tame sx \<longleftrightarrow> (\<forall>p w. sessions_ok w \<longrightarrow> sessions_ok (sx_meanwhile sx p w))
     \<and> (\<forall>w. cw_sessions (sx_meanwhile sx AtPortal w) = cw_sessions w)"

lemma stays_await [stay_rules]: "tame sx \<Longrightarrow> stays sessions_ok (await sx p)"
  by (auto simp: stays_def await_def on_world_def tame_def)

lemma stays_steps [stay_rules]: "stays sessions_ok (publish_event sx q ty st su da)" "stays sessions_ok (log_with sx g)"
    "stays sessions_ok (bind_request sx q)" "stays sessions_ok (bind_turn_message sx q mid)" "stays sessions_ok (show_user_message sx q)"
    "stays sessions_ok (attribute_all sx q attribution ids)" "stays sessions_ok (name_session r v q)"
    "stays sessions_ok (to_turn (\<lambda>t. t\<lparr>tn_oid := x\<rparr>))" "stays sessions_ok (to_turn (\<lambda>t. t\<lparr>tn_trace := h t\<rparr>))"
    "stays sessions_ok (record_usage sx q attribution reply after ids)"
  by (auto simp: stays_def publish_event_def log_with_def bind_request_def bind_turn_message_def show_user_message_def attribute_all_def
      name_session_def to_turn_def record_usage_def on_world_def Let_def split: sum.split prod.split)

lemma stays_portal [stay_rules]: "tame sx \<Longrightarrow> stays sessions_ok (tell_portal sx q a b c d)"
  by (auto simp: stays_def tell_portal_def await_def on_world_def Let_def tame_def split: prod.split)

lemma stays_log [stay_rules]: "stays sessions_ok (\<lambda>t. log_with sx (g t) t)"
  by (rule stays_on_state [OF stays_steps(2)]) (rule refl)

lemma stays_bind_all [stay_rules]: "stays sessions_ok (bind_all sx q ids)"
proof -
  have "sessions_ok (tn_world t) \<Longrightarrow> sessions_ok (tn_world (fold (\<lambda>mid t. snd (bind_turn_message sx q mid t)) ids t))" for t
    by (induction ids arbitrary: t) (auto simp: bind_turn_message_def on_world_def)
  then show ?thesis by (simp add: stays_def bind_all_def)
qed

lemma ensured_inv:
  "session_inv st \<Longrightarrow> ensure_created now sid title agent model created st = Inr (x, st') \<Longrightarrow> session_inv st'"
  "session_inv st \<Longrightarrow> ensure_checked now title agent model r checked created st = Inr (x, st') \<Longrightarrow> session_inv st'"
  by (auto simp: ensure_created_def ensure_checked_def Let_def split: sum.splits option.splits if_splits)

lemma stays_ensure [stay_rules]: "tame sx \<Longrightarrow> stays sessions_ok (ensure_session sx q)"
proof -
  assume t: "tame sx"
  have put: "stays sessions_ok (chain (reads (\<lambda>t. cw_sessions (tn_world t))) (\<lambda>st. put_session (f st)))"
    if "\<And>st x st'. session_inv st \<Longrightarrow> f st = Inr (x, st') \<Longrightarrow> session_inv st'" for f
    using that by (auto simp: stays_def chain_def reads_def put_session_def raises_def andthen_def give_def on_world_def split: sum.split)
  show ?thesis unfolding ensure_session_def
    by (rule stays_chain, rule stay_rules, split ensure_start.split) (intro allI conjI impI stay_rules t put; elim ensured_inv)
qed

lemma stays_record [stay_rules]: "stays sessions_ok (record_answer sx q v)"
  by (auto simp: stays_def record_answer_def update_after_chat_def Let_def split: sum.split option.splits if_splits)

lemma stays_open [stay_rules]: "tame sx \<Longrightarrow> stays sessions_ok (open_turn sx q r)"
  unfolding open_turn_def by (intro stay_rules; assumption)

lemma stays_before [stay_rules]: "tame sx \<Longrightarrow> stays sessions_ok (messages_before sx)"
  unfolding messages_before_def by (intro stay_rules; assumption)

lemma stays_send [stay_rules]: "tame sx \<Longrightarrow> stays sessions_ok (plain_send sx q parts)" "tame sx \<Longrightarrow> stays sessions_ok (send_turn sx q parts before)"
proof -
  assume t: "tame sx"
  show p: "stays sessions_ok (plain_send sx q parts)" for parts
    by (rule stays_on_state [OF _ plain_send_def]) (intro stay_rules t)
  show "stays sessions_ok (send_turn sx q parts before)" unfolding send_turn_def by (intro stay_rules p)
qed

lemma stays_skill [stay_rules]: "tame sx \<Longrightarrow> stays sessions_ok (apply_skill_invocation sx q parts)"
proof -
  assume t: "tame sx"
  have prompt: "stays sessions_ok (run_skill_prompt sx q parts call d k repo)" for call d k repo
    unfolding run_skill_prompt_def by (intro stay_rules t)
  have block: "stays sessions_ok (block_skill sx q call d k repo)" for call d k repo
    unfolding block_skill_def Let_def by (intro stay_rules t)
  have finish: "stays sessions_ok (finish_skill sx q parts call d k)" for call d k
    unfolding finish_skill_def split_beta by (intro stay_rules prompt block)
  have native: "stays sessions_ok (run_native_command sx q call k)" for call k
    by (rule stays_on_state [OF _ run_native_command_def]) (intro stay_rules t)
  show ?thesis
    unfolding apply_skill_invocation_def Let_def
    by (split option.split) (intro allI conjI impI stay_rules t finish native)
qed

lemma stays_answer [stay_rules]: "tame sx \<Longrightarrow> stays sessions_ok (await_answer sx synthetic reply before)"
proof -
  assume t: "tame sx"
  have "stays sessions_ok (messages_after sx found)" for found unfolding messages_after_def by (intro stay_rules t)
  then show ?thesis unfolding await_answer_def by (split option.split) (intro allI conjI impI stay_rules t)
qed

lemma stays_announce [stay_rules]: "stays sessions_ok (announce_verdict sx q v attribution)"
  unfolding announce_verdict_def announce_answer_def Let_def by (intro stay_rules)

definition gives :: "('o chat_world \<Rightarrow> bool) \<Rightarrow> ('a \<Rightarrow> 'o chat_turn \<Rightarrow> bool) \<Rightarrow> ('a, 'o) act \<Rightarrow> bool" where
  "gives I Q m \<longleftrightarrow> (\<forall>t b t'. I (tn_world t) \<longrightarrow> m t = (Done b, t') \<longrightarrow> Q b t')"

lemma gives_chain: "stays I m \<Longrightarrow> (\<And>a. gives I Q (f a)) \<Longrightarrow> gives I Q (chain m f)"
  unfolding gives_def stays_def chain_Done by (metis snd_conv)

lemma gives_andthen: "stays I m \<Longrightarrow> gives I Q n \<Longrightarrow> gives I Q (andthen m n)"
  unfolding andthen_def by (rule gives_chain)

lemma gives_body:
  assumes "tame sx" and "\<And>f. gives sessions_ok Q (finish_turn sx q f)"
  shows "gives sessions_ok Q (turn_body sx q)"
proof -
  have send: "stays sessions_ok (case skill of Some k \<Rightarrow> give (kr_reply k, None) | None \<Rightarrow> send_turn sx q parts before)" for skill parts before
    using stays_send(2) [OF assms(1)] by (cases skill) (simp_all add: stays_plain)
  show ?thesis unfolding turn_body_def Let_def split_beta
    by (intro gives_chain gives_andthen stay_rules send assms)
qed

lemma gives_run:
  assumes "tame sx" and "\<And>f. gives sessions_ok Q (finish_turn sx q f)" and "sessions_ok w"
    and "run_turn sx q w = (Answer200 payload, t)"
  shows "Q payload t"
proof -
  obtain r t1 where body: "turn_body sx q (turn_start q w) = (r, t1)" by fastforce
  show ?thesis
  proof (cases r)
    case (Done b)
    have "sessions_ok (tn_world (turn_start q w))" using assms(3) by (simp add: turn_start_def)
    then have "Q b t1" using gives_body [OF assms(1,2)] body Done unfolding gives_def by blast
    then show ?thesis using assms(4) body Done by (simp add: run_turn_def)
  next
    case (Raises e)
    obtain r2 t2 where handled: "handle_raised sx q e t1 = (r2, t2)" by fastforce
    then have "r2 = Done (Answer200 payload)" using assms(4) body Raises by (auto simp: run_turn_def split: outcome.splits)
    then show ?thesis using handled
      by (cases e) (auto simp: handle_raised_def session_gone_reply_def opencode_failure_def other_failure_def Let_def andthen_Done give_def)
  next
    case Unfinished
    then show ?thesis using assms(4) body by (simp add: run_turn_def)
  qed
qed

section \<open>The answer is on record\<close>

text \<open>The steps after the answer is recorded.\<close>

definition close_turn :: "'o surroundings \<Rightarrow> chat_request \<Rightarrow> turn_facts \<Rightarrow> verdict \<Rightarrow> message_ids \<Rightarrow> jobj \<Rightarrow> session_record \<Rightarrow> (jobj, 'o) act" where
  "close_turn sx q f v ids attribution updated =
     chain (record_usage sx q attribution (tf_reply f) (tf_after f) (mi_all ids)) (\<lambda>usage.
     chain (reads (\<lambda>t. turn_debug f updated usage ids (tn_trace t))) (\<lambda>debug.
       let final = context_state (cq_message q) (if vd_state v = ''completed'' then ''completed'' else vd_state v) (vd_text v) in
       andthen (\<lambda>t. log_with sx (chatlog_finish_entry (sx_stamp sx) (sx_now sx) (cq_session_id q) (cq_request_id q)
           (if vd_state v = ''completed'' then ''success'' else vd_state v) (vd_text v)
           \<lparr>ef_runtime_events = Some (events_json t), ef_events = Some (events_json t), ef_context_state = Some (JObj final),
            ef_llm_debug = Some (JObj debug)\<rparr>) t)
      (andthen (tell_portal sx q (terminal_type v) (terminal_state v) (take 300 (vd_text v)) (closing_metadata q updated usage final))
      (andthen (name_session updated v q)
      (reads (turn_payload q v ids usage attribution final debug))))))"

lemma book_closes: "book_turn sx q f v ids attribution = chain (record_answer sx q v) (close_turn sx q f v ids attribution)"
  by (simp add: book_turn_def close_turn_def [abs_def])

definition closing_look :: "('o chat_world \<Rightarrow> 'b) \<Rightarrow> 'o surroundings \<Rightarrow> bool" where
  "closing_look look sx \<longleftrightarrow> (\<forall>w. look (sx_meanwhile sx AtPortal w) = look w) \<and> (\<forall>w x. look (w\<lparr>cw_logs := x\<rparr>) = look w)
     \<and> (\<forall>w x. look (w\<lparr>cw_usage := x\<rparr>) = look w) \<and> (\<forall>w x. look (w\<lparr>cw_tasks := x\<rparr>) = look w)
     \<and> (\<forall>w x y. look (w\<lparr>cw_pending := x, cw_portal := y\<rparr>) = look w)"

lemma closing_keeps:
  assumes "closing_look look sx"
  shows "keeps (\<lambda>t. look (tn_world t)) (close_turn sx q f v ids attribution updated)"
proof -
  let ?obs = "\<lambda>t. look (tn_world t)"
  have usage: "keeps ?obs (record_usage sx q attribution reply after ids')" for reply after ids'
    using assms by (auto simp: keeps_def record_usage_def Let_def closing_look_def split: sum.split prod.split)
  have log: "keeps ?obs (\<lambda>t. log_with sx (g t) t)" for g
    using assms by (auto simp: keeps_def log_with_def closing_look_def split: sum.split prod.split)
  have portal: "keeps ?obs (tell_portal sx q a b c d)" for a b c d
    using assms by (auto simp: keeps_def tell_portal_def await_def on_world_def Let_def closing_look_def split: prod.split)
  have name: "keeps ?obs (name_session updated v q)"
    using assms by (auto simp: keeps_def name_session_def on_world_def closing_look_def)
  show ?thesis unfolding close_turn_def Let_def by (intro keeps_chain keeps_andthen keeps_plain usage log portal name)
qed

text \<open>What an answered turn leaves. The session: its last message is the answer, unless it was deleted meanwhile, when it stays
  as it is. The chat log on disk: an entry of the request, finished with the answer's state and (a preview of) its text. The
  usage file: a row of this session and request, the one the caller is shown.\<close>

definition session_answered :: "string \<Rightarrow> jobj \<Rightarrow> 'o chat_world \<Rightarrow> bool" where
  "session_answered sid payload w \<longleftrightarrow>
     (\<exists>r. session_get (cw_sessions w) sid = Some r
        \<and> (sr_deleted r \<or> jget payload ''response'' = JStr (sr_last_message r) \<and> 2 \<le> sr_message_count r))"

definition finished_in :: "string \<Rightarrow> string \<Rightarrow> jval \<Rightarrow> jval \<Rightarrow> chatlog_store \<Rightarrow> bool" where
  "finished_in sid rid status response logs \<longleftrightarrow>
     (\<exists>d es e. map_of (cl_files logs) (sanitize sid) = Some (JsonText (JObj d)) \<and> jget d ''entries'' = JList es \<and> JObj e \<in> set es
        \<and> jget e ''request_id'' = JStr rid \<and> jget e ''status'' = status \<and> jget e ''response'' = response)"

definition answer_logged :: "string \<Rightarrow> string \<Rightarrow> jobj \<Rightarrow> 'o chat_world \<Rightarrow> bool" where
  "answer_logged sid rid payload w \<longleftrightarrow>
     finished_in sid rid (if jget payload ''completion_state'' = JStr ''completed'' then JStr ''success'' else jget payload ''completion_state'')
       (safe_preview (jget payload ''response'') 2000) (cw_logs w)"

definition usage_filed :: "string \<Rightarrow> string \<Rightarrow> jobj \<Rightarrow> 'o chat_world \<Rightarrow> bool" where
  "usage_filed sid rid payload w \<longleftrightarrow>
     (\<exists>row older newer shown. cw_usage w = older @ spaced_dumps (JObj row) @ [CHR 0x0A] @ newer
        \<and> jget row ''session_id'' = JStr sid \<and> jget row ''request_id'' = JStr rid
        \<and> jget payload ''usage'' = JObj shown \<and> (\<forall>k. k = ''request_id'' \<or> jget shown k = jget row k))"

definition records_answer :: "string \<Rightarrow> string \<Rightarrow> jobj \<Rightarrow> 'o chat_turn \<Rightarrow> bool" where
  "records_answer sid rid payload t \<longleftrightarrow> session_answered sid payload (tn_world t)
     \<and> answer_logged sid rid payload (tn_world t) \<and> usage_filed sid rid payload (tn_world t)"

text \<open>While the turn tells the Portal of its end, others leave its log file alone and only add to the usage file.\<close>

definition closes_alone :: "'o surroundings \<Rightarrow> string \<Rightarrow> bool" where
  "closes_alone sx sid \<longleftrightarrow> (\<forall>w. let w1 = sx_meanwhile sx AtPortal w in
     map_of (cl_files (cw_logs w1)) (sanitize sid) = map_of (cl_files (cw_logs w)) (sanitize sid)
     \<and> (\<exists>more. cw_usage w1 = cw_usage w @ more))"

lemma verdict_text: "vd_text (verdict_of probe synthetic) \<noteq> []"
  by (auto simp: verdict_of_def non_success_assistant_text_def Let_def)

lemma found_from_end:
  "find_from_end rid xs = Inr (Some n) \<Longrightarrow> n < length xs \<and> (\<exists>d. rev xs ! n = JObj d \<and> jget d ''request_id'' = JStr rid)"
  by (induction xs arbitrary: n) (auto simp: nth_append split: jval.splits if_splits)

lemma finished_fields:
  "jget (finish_fields stamp status said f e) ''request_id'' = jget e ''request_id''"
  "jget (finish_fields stamp status said f e) ''status'' = JStr status"
  "jget (finish_fields stamp status said f e) ''response'' = safe_preview (JStr said) 2000"
  by (simp_all add: finish_fields_def del: safe_preview.simps)

lemma changed_entry:
  assumes "change_entry stamp rid (\<lambda>e. Inr (finish_fields stamp status said f e)) es = Inr es1"
  shows "\<exists>e. JObj e \<in> set es1 \<and> jget e ''request_id'' = JStr rid \<and> jget e ''status'' = JStr status
     \<and> jget e ''response'' = safe_preview (JStr said) 2000"
proof (cases "find_entry rid es")
  case (Inr found)
  show ?thesis
  proof (cases found)
    case None
    with assms Inr have "es1 = es @ [JObj (finish_fields stamp status said f (new_entry stamp rid))]" by (simp add: change_entry_def)
    then have "JObj (finish_fields stamp status said f (new_entry stamp rid)) \<in> set es1" by simp
    moreover have "jget (new_entry stamp rid) ''request_id'' = JStr rid" by (simp add: new_entry_def jget_def)
    ultimately show ?thesis using finished_fields by metis
  next
    case (Some i)
    then have at: "i < length es" "\<exists>d. es ! i = JObj d \<and> jget d ''request_id'' = JStr rid"
      using found_from_end [of rid "rev es" i] Inr by (auto simp: find_entry_def)
    then obtain d where d: "es ! i = JObj d" "jget d ''request_id'' = JStr rid" by blast
    have "JObj (finish_fields stamp status said f d) \<in> set es1"
      using assms Inr Some d(1) at(1) by (auto simp: change_entry_def set_update_memI)
    then show ?thesis using d(2) finished_fields by metis
  qed
qed (use assms in \<open>simp add: change_entry_def\<close>)

lemma finish_entry_files:
  assumes "chatlog_finish_entry stamp now sid rid status said f logs = Inr (d, logs')"
  shows "finished_in sid rid (JStr status) (safe_preview (JStr said) 2000) logs'"
proof -
  obtain d0 st1 es es1 where steps: "chatlog_ensure stamp sid logs = Inr (d0, st1)" "entries_of d0 = Inr es"
    "change_entry stamp rid (\<lambda>e. Inr (finish_fields stamp status said f e)) es = Inr es1"
    and d: "d = put_entries stamp es1 d0" "logs' = chatlog_write now sid d st1"
    using assms by (auto simp: chatlog_finish_entry_def Let_def split: sum.splits)
  have "jget d ''entries'' = JList es1" by (simp add: d(1) put_entries_def)
  moreover have "map_of (cl_files logs') (sanitize sid) = Some (JsonText (JObj d))"
    by (simp add: d(2) chatlog_write_def Let_def update_conv')
  ultimately show ?thesis using changed_entry [OF steps(3)] unfolding finished_in_def by blast
qed

lemma usage_row_ids:
  assumes "record_chat shown stamp a file = Inr (row, file')"
  shows "file' = file @ spaced_dumps (JObj row) @ [CHR 0x0A]" "jget row ''session_id'' = JStr (ca_session_id a)"
    "jget row ''request_id'' = JStr (ca_request_id a)"
  using assms by (auto simp: record_chat_def write_row_def usage_row_def chat_row_args_def Let_def jget_def split: sum.splits)

lemma closing_steps:
  assumes "close_turn sx q f v ids attribution updated t = (Done payload, t')" and "closes_alone sx (cq_session_id q)"
    and "fst ` set attribution \<subseteq> {''model'', ''requested_model'', ''auto_tier'', ''model_fallback_reason''}"
  shows "usage_filed (cq_session_id q) (cq_request_id q) payload (tn_world t')
    \<and> finished_in (cq_session_id q) (cq_request_id q) (JStr (if vd_state v = ''completed'' then ''success'' else vd_state v))
        (safe_preview (JStr (vd_text v)) 2000) (cw_logs (tn_world t'))"
proof -
  obtain usage t1 d t2 t3 final where parts: "record_usage sx q attribution (tf_reply f) (tf_after f) (mi_all ids) t = (Done usage, t1)"
      "log_with sx (chatlog_finish_entry (sx_stamp sx) (sx_now sx) (cq_session_id q) (cq_request_id q)
           (if vd_state v = ''completed'' then ''success'' else vd_state v) (vd_text v)
           \<lparr>ef_runtime_events = Some (events_json t1), ef_events = Some (events_json t1), ef_context_state = Some (JObj final),
            ef_llm_debug = Some (JObj d)\<rparr>) t1 = (Done (), t2)"
      "tell_portal sx q (terminal_type v) (terminal_state v) (take 300 (vd_text v)) (closing_metadata q updated usage final) t2 = (Done (), t3)"
      "name_session updated v q t3 = (Done (), t')" "payload = turn_payload q v ids usage attribution final d t'"
    using assms(1) unfolding close_turn_def Let_def chain_Done andthen_Done by (auto simp: reads_def)
  obtain a row file1 where recorded: "record_chat (sx_shown sx) (sx_stamp sx) a (cw_usage (tn_world t)) = Inr (row, file1)"
      "ca_session_id a = cq_session_id q" "ca_request_id a = cq_request_id q" "cw_usage (tn_world t1) = file1"
      "usage = AList.update ''request_id'' (jget (tn_trace t) ''request_id'') row"
    using parts(1) by (auto simp: record_usage_def Let_def split: sum.splits)
  note row = recorded(5) usage_row_ids [OF recorded(1), folded recorded(4), unfolded recorded(2,3)]
  have logged: "finished_in (cq_session_id q) (cq_request_id q) (JStr (if vd_state v = ''completed'' then ''success'' else vd_state v))
      (safe_preview (JStr (vd_text v)) 2000) (cw_logs (tn_world t2))" "cw_usage (tn_world t2) = cw_usage (tn_world t1)"
    using parts(2) by (auto simp: log_with_def dest!: finish_entry_files split: sum.splits)
  obtain more where told: "cw_usage (tn_world t3) = cw_usage (tn_world t2) @ more"
      "map_of (cl_files (cw_logs (tn_world t3))) (sanitize (cq_session_id q)) = map_of (cl_files (cw_logs (tn_world t2))) (sanitize (cq_session_id q))"
  proof -
    obtain x y where t3: "tn_world t3 = sx_meanwhile sx AtPortal ((tn_world t2)\<lparr>cw_pending := x, cw_portal := y\<rparr>)"
      using parts(3) by (auto simp: tell_portal_def await_def on_world_def Let_def split: prod.splits)
    show thesis
      using assms(2) [unfolded closes_alone_def Let_def, rule_format, of "(tn_world t2)\<lparr>cw_pending := x, cw_portal := y\<rparr>"]
      by (auto simp: t3 intro: that)
  qed
  have named: "cw_usage (tn_world t') = cw_usage (tn_world t3)" "cw_logs (tn_world t') = cw_logs (tn_world t3)"
    using parts(4) by (auto simp: name_session_def on_world_def)
  have "jget payload ''usage'' = JObj usage"
  proof -
    have "''usage'' \<notin> fst ` set attribution" using assms(3) by auto
    then show ?thesis by (simp add: parts(5) turn_payload_def put_all_other)
  qed
  then have "usage_filed (cq_session_id q) (cq_request_id q) payload (tn_world t')"
    unfolding usage_filed_def using row by (intro exI [of _ row] exI [of _ "cw_usage (tn_world t)"] exI [of _ more] exI [of _ usage])
      (simp add: named told logged)
  moreover have "finished_in (cq_session_id q) (cq_request_id q) (JStr (if vd_state v = ''completed'' then ''success'' else vd_state v))
      (safe_preview (JStr (vd_text v)) 2000) (cw_logs (tn_world t'))"
    using logged(1) unfolding finished_in_def named told(2) .
  ultimately show ?thesis ..
qed

lemma finish_records:
  assumes "tame sx" "closes_alone sx (cq_session_id q)"
  shows "gives sessions_ok (records_answer (cq_session_id q) (cq_request_id q)) (finish_turn sx q f)"
  unfolding gives_def
proof (intro allI impI)
  fix t payload t'
  assume ok: "sessions_ok (tn_world t)" and fin: "finish_turn sx q f t = (Done payload, t')"
  let ?v = "verdict_of (tf_probe f) (tf_synthetic f)" and ?ids = "turn_message_ids q (tf_before f) (tf_after f) (tf_reply f) (tf_probe f)"
  obtain a t1 t2 t3 where start: "bind_all sx q (mi_all ?ids) t = (Done (), t1)" "attribute_all sx q a (mi_all ?ids) t1 = (Done (), t2)"
      "announce_verdict sx q ?v a t2 = (Done (), t3)" and book: "book_turn sx q f ?v ?ids a t3 = (Done payload, t')"
      and a: "a = model_attribution (cw_auto (tn_world t1)) (cq_model q)"
    using fin unfolding finish_turn_def Let_def chain_Done andthen_Done by (auto simp: reads_def)
  have inv: "session_inv (cw_sessions (tn_world t3))"
    using ok start stays_bind_all stays_steps(6) stays_announce unfolding stays_def by (metis snd_conv)
  obtain r t4 where recorded: "record_answer sx q ?v t3 = (Done r, t4)" and closed: "close_turn sx q f ?v ?ids a r t4 = (Done payload, t')"
    using book unfolding book_closes chain_Done by blast
  have "closing_look cw_sessions sx" using assms(1) by (simp add: closing_look_def tame_def)
  then have same: "cw_sessions (tn_world t') = cw_sessions (tn_world t4)" by (rule kept [OF closing_keeps closed])
  have "session_get (cw_sessions (tn_world t4)) (cq_session_id q) = Some r
      \<and> (sr_deleted r \<or> sr_last_message r = vd_text ?v \<and> 2 \<le> sr_message_count r)"
    using recorded verdict_text session_inv_get [OF inv]
    by (auto simp: record_answer_def update_after_chat_def session_get_def session_upsert_def session_save_def Let_def
        split: option.splits if_splits)
  moreover have said: "jget payload ''response'' = JStr (vd_text ?v)" "jget payload ''completion_state'' = JStr (vd_state ?v)"
    using finished_turn [OF fin] by (simp_all add: Let_def answers_as_def)
  ultimately have "session_answered (cq_session_id q) payload (tn_world t')" unfolding session_answered_def same by auto
  moreover have keys: "fst ` set a \<subseteq> {''model'', ''requested_model'', ''auto_tier'', ''model_fallback_reason''}"
    using attribution_keys a by simp
  have "answer_logged (cq_session_id q) (cq_request_id q) payload (tn_world t')"
    using closing_steps [OF closed assms(2) keys]
    by (cases "vd_state ?v = ''completed''") (simp_all add: answer_logged_def said del: safe_preview.simps)
  ultimately show "records_answer (cq_session_id q) (cq_request_id q) payload t'"
    using closing_steps [OF closed assms(2) keys] by (simp add: records_answer_def)
qed

text \<open>C13: An answered turn is on record. The session's last message is the answer the caller got, unless it was deleted while
  the turn ran, when its record stays as it is; the chat log on disk has the request's entry, finished with the state and a
  preview of the text of that answer; and the usage file has a row of this session and request, the one the caller is shown. This
  holds whatever other requests do meanwhile, provided they keep the session store well formed and, during the calls to the
  Portal, leave the session store and this session's log file alone and only add to the usage file.\<close>

theorem answered_turn_is_on_record:
  assumes "tame sx" and "closes_alone sx (cq_session_id q)" and "session_inv (cw_sessions w)"
    and "run_turn sx q w = (Answer200 payload, t)"
  shows "records_answer (cq_session_id q) (cq_request_id q) payload t"
  by (rule gives_run [OF assms(1) finish_records [OF assms(1,2)] assms(3,4)])

section \<open>Surroundings for the witnesses\<close>

definition calm :: "(pending_store \<Rightarrow> jval \<Rightarrow> pending_store) list \<Rightarrow> pending_store surroundings" where
  "calm observers =
     \<lparr>sx_meanwhile = \<lambda>p w. w, sx_observers = observers, sx_moment = \<lambda>n. ((''2026-01-01T00:00:00Z'', Finite 0 ''0.0''), (0, 0, 0)),
      sx_stamp = ''2026-01-01T00:00:00Z'', sx_now = 0, sx_shown = (\<lambda>_. []),
      sx_portal_settings = \<lparr>ps_base_url = [], ps_agent_id = [], ps_token = []\<rparr>, sx_portal_answer = PortalFailed [], sx_timeout = 60, sx_poll = 1,
      sx_index = None, sx_config = None, sx_repos_dir = ''/w/repos'', sx_is_repo = (\<lambda>_. False), sx_git = [], sx_boot_snapshot = JNull,
      sx_build = (\<lambda>_ _ _. Inr ([], [])), sx_languages = [], sx_render = (\<lambda>_. []), sx_uuid = ''u1'', sx_message_id = ''msg_1'',
      sx_error_text = (\<lambda>_. []), sx_log_error_text = (\<lambda>_. []), sx_checked = None, sx_created = Inr (JObj [(''id'', JStr ''o1'')]),
      sx_before = Inr [], sx_commands = Inr [], sx_command_reply = Inr JNull, sx_sent = Inr example_reply, sx_probe_polls = [(Inr [], 5)],
      sx_wait_polls = [(Inr [], 60)], sx_after = Inr []\<rparr>"

definition hello :: chat_request where
  "hello = \<lparr>cq_message = ''hello'', cq_metadata = [], cq_profile = [], cq_session_id = ''s1'', cq_request_id = ''r1'', cq_title = ''Chat'',
     cq_model = None, cq_effort = None, cq_agent = None, cq_system = None, cq_language = None, cq_attachments = JNull,
     cq_message_id = ''msg_1'', cq_author = []\<rparr>"

definition empty_world :: "pending_store chat_world" where
  "empty_world = \<lparr>cw_sessions = session_save \<lparr>ss_sessions = [], ss_index = None, ss_backups = []\<rparr>, cw_bindings = None, cw_bus = new_event_bus 10 60 0,
     cw_observers = new_pending_store 5, cw_logs = new_chatlog_store 1 5 [], cw_display = None, cw_usage = [], cw_auto = None, cw_tasks = [],
     cw_pending = None, cw_portal = []\<rparr>"

lemma hello_session: "cq_session_id hello = ''s1''"
  by (simp add: hello_def)

lemma calm_is_tame: "tame (calm observers)"
  by (simp add: tame_def calm_def)

lemma empty_world_ok: "session_inv (cw_sessions empty_world)"
  by (simp add: empty_world_def session_inv_def session_save_def)

theorem turn_always_answers_witness: "fst (run_turn (calm []) hello empty_world) \<noteq> NotYet"
  by (rule turn_always_answers) (simp add: polls_suffice_def calm_def RECOVERABLE_SEND_ACCEPTANCE_PROBE_SECONDS_def)

section \<open>A turn that is answered\<close>

text \<open>Undisturbed, the turn of \<open>hello\<close> ends with an answer: each step, started where the steps before left the turn, ends.\<close>

definition sure :: "('o chat_turn \<Rightarrow> bool) \<Rightarrow> ('a, 'o) act \<Rightarrow> ('a \<Rightarrow> 'o chat_turn \<Rightarrow> bool) \<Rightarrow> bool" where
  "sure I m J \<longleftrightarrow> (\<forall>t. I t \<longrightarrow> (\<exists>a t'. m t = (Done a, t') \<and> J a t'))"

lemma sure_chain: "sure I m J \<Longrightarrow> (\<And>a. sure (J a) (f a) K) \<Longrightarrow> sure I (chain m f) K"
  unfolding sure_def chain_def by fastforce

lemma sure_andthen: "sure I m (\<lambda>_. I) \<Longrightarrow> sure I n K \<Longrightarrow> sure I (andthen m n) K"
  unfolding andthen_def by (rule sure_chain)

lemma sure_pure: "(Q \<Longrightarrow> sure I m K) \<Longrightarrow> sure (\<lambda>t. I t \<and> Q) m K"
  by (simp add: sure_def)

lemma sure_give: "sure I (give a) (\<lambda>b t. I t \<and> b = a)" "sure I (reads f) (\<lambda>_. I)"
  by (simp_all add: sure_def give_def reads_def)

text \<open>The session is on record, no model was picked, and the log is open: finishing an entry will not fail.\<close>

definition log_open :: "chatlog_store \<Rightarrow> bool" where
  "log_open logs \<longleftrightarrow> (\<exists>d es logs1. chatlog_get ''s1'' logs = Inr (Some (JObj d), logs1) \<and> d \<noteq> []
     \<and> jget_def d ''entries'' (JList []) = JList es \<and> list_all is_obj es)"

definition hello_known :: "pending_store chat_turn \<Rightarrow> bool" where
  "hello_known t \<longleftrightarrow> session_get (cw_sessions (tn_world t)) ''s1'' \<noteq> None \<and> cw_auto (tn_world t) = None"

definition hello_ready :: "pending_store chat_turn \<Rightarrow> bool" where
  "hello_ready t \<longleftrightarrow> hello_known t \<and> log_open (cw_logs (tn_world t))"

definition calm_step :: "(unit, pending_store) act \<Rightarrow> bool" where
  "calm_step m \<longleftrightarrow> (\<forall>t. \<exists>t'. m t = (Done (), t') \<and> cw_sessions (tn_world t') = cw_sessions (tn_world t)
     \<and> cw_auto (tn_world t') = cw_auto (tn_world t) \<and> cw_logs (tn_world t') = cw_logs (tn_world t))"

lemma sure_quiet: "calm_step m \<Longrightarrow> sure hello_ready m (\<lambda>_. hello_ready)"
  unfolding calm_step_def sure_def hello_ready_def hello_known_def by metis

lemma calm_then: "calm_step m \<Longrightarrow> calm_step n \<Longrightarrow> calm_step (andthen m n)"
  unfolding calm_step_def by (simp add: andthen_def chain_def) (metis (no_types, lifting) outcome.case(1) split_conv)

lemma calm_await: "calm_step (await (calm observers) p)"
  by (simp add: calm_step_def await_def on_world_def calm_def)

lemma calm_events: "calm_step (publish_event sx q ty st su da)"
  by (simp add: calm_step_def publish_event_def Let_def split: prod.split)

lemma calm_tells: "calm_step (tell_portal (calm observers) q a b c d)"
  by (simp add: calm_step_def tell_portal_def await_def on_world_def calm_def Let_def split: prod.split)

lemma calm_others:
  "calm_step (bind_request sx q)" "calm_step (bind_turn_message sx q mid)" "calm_step (show_user_message sx q)"
  "calm_step (attribute_all sx q a ids)" "calm_step (to_turn (\<lambda>t. t\<lparr>tn_oid := f t\<rparr>))" "calm_step (to_turn (\<lambda>t. t\<lparr>tn_trace := g t\<rparr>))"
  "calm_step (name_session u v q)"
  by (simp_all add: calm_step_def bind_request_def bind_turn_message_def show_user_message_def attribute_all_def to_turn_def
      name_session_def on_world_def Let_def)

lemma calm_binds: "calm_step (bind_all sx q ids)"
proof -
  have "cw_sessions (tn_world (fold (\<lambda>mid t. snd (bind_turn_message sx q mid t)) ids t)) = cw_sessions (tn_world t)
      \<and> cw_auto (tn_world (fold (\<lambda>mid t. snd (bind_turn_message sx q mid t)) ids t)) = cw_auto (tn_world t)
      \<and> cw_logs (tn_world (fold (\<lambda>mid t. snd (bind_turn_message sx q mid t)) ids t)) = cw_logs (tn_world t)" for t :: "pending_store chat_turn"
    by (induction ids arbitrary: t) (simp_all add: bind_turn_message_def on_world_def)
  then show ?thesis by (simp add: calm_step_def bind_all_def)
qed

lemma calm_send: "calm_step (plain_send (calm observers) q parts)"
  by (simp add: calm_step_def plain_send_def calls_def andthen_def chain_def await_def on_world_def calm_def)

lemma calm_verdict: "calm_step (announce_verdict sx q v a)"
proof -
  have "calm_step (give ())" by (simp add: calm_step_def give_def)
  then show ?thesis
    unfolding announce_verdict_def announce_answer_def Let_def by (auto intro!: calm_then calm_events split: if_split)
qed

text \<open>Opening the turn: the session is made, and the log opened with a running entry.\<close>

definition hello_opening :: "pending_store chat_turn \<Rightarrow> bool" where
  "hello_opening t \<longleftrightarrow> hello_known t \<and> cw_logs (tn_world t) = new_chatlog_store 1 5 []"

lemma opening_quiet: "calm_step m \<Longrightarrow> sure hello_opening m (\<lambda>_. hello_opening)"
  unfolding calm_step_def sure_def hello_opening_def hello_known_def by metis

lemma sanitized: "sanitize ''s1'' = ''s1''"
  by code_simp

lemma starts_log: "sure hello_opening (\<lambda>t. log_with sx (chatlog_start_entry stamp now ''s1'' rid message (g t)) t) (\<lambda>_. hello_ready)"
proof -
  have "\<exists>d logs. chatlog_start_entry stamp now ''s1'' rid message f (new_chatlog_store 1 5 []) = Inr (d, logs) \<and> log_open logs" for f
    by (simp add: chatlog_start_entry_def chatlog_ensure_def chatlog_get_def new_chatlog_store_def fresh_payload_def entries_of_def
        jget_def_def put_entries_def chatlog_write_def remember_def evict_all_def log_open_def sanitized put_last_def Let_def del: safe_preview.simps)
  note entry = this
  show ?thesis
    unfolding sure_def
  proof (intro allI impI)
    fix t assume t: "hello_opening t"
    obtain d logs where "chatlog_start_entry stamp now ''s1'' rid message (g t) (cw_logs (tn_world t)) = Inr (d, logs)" "log_open logs"
      using entry [of "g t"] t by (auto simp: hello_opening_def)
    with t show "\<exists>a t'. log_with sx (chatlog_start_entry stamp now ''s1'' rid message (g t)) t = (Done a, t') \<and> hello_ready t'"
      by (simp add: log_with_def hello_ready_def hello_opening_def hello_known_def)
  qed
qed

lemma hello_fields: "cq_session_id hello = ''s1''" "cq_model hello = None" "cq_message hello = ''hello''"
  by (simp_all add: hello_def)

lemma sure_ensure: "\<exists>a t. ensure_session (calm observers) hello (turn_start hello empty_world) = (Done a, t) \<and> hello_opening t"
proof -
  have "require_opencode_session_id (JObj [(''id'', JStr ''o1'')]) ''create_session'' = Inr ''o1''" by code_simp
  then show ?thesis
    by (simp add: ensure_session_def chain_def reads_def ensure_begin_def turn_start_def empty_world_def hello_def session_get_def
        session_save_def andthen_def await_def on_world_def calm_def ensure_created_def put_session_def give_def hello_opening_def hello_known_def Let_def
        session_upsert_def new_chat_session_def) blast
qed

lemma sure_open: "sure hello_opening (open_turn (calm observers) hello r) (\<lambda>_. hello_ready)"
proof -
  let ?rest = "tell_portal (calm observers) hello ''chat.started'' ''running'' ''Chat started'' (opening_metadata r)"
  have "sure hello_opening (andthen (\<lambda>t. log_with (calm observers) (chatlog_start_entry (sx_stamp (calm observers)) (sx_now (calm observers))
      (cq_session_id hello) (cq_request_id hello) (cq_message hello) (g t)) t) ?rest) (\<lambda>_. hello_ready)" for g
    unfolding andthen_def hello_fields by (rule sure_chain [OF starts_log sure_quiet [OF calm_tells]])
  note rest = this
  show ?thesis
    unfolding open_turn_def
    by (rule sure_andthen [OF opening_quiet [OF calm_others(5)]], rule sure_andthen [OF opening_quiet [OF calm_others(1)]],
        rule sure_andthen [OF opening_quiet [OF calm_others(6)]], rule sure_andthen [OF opening_quiet [OF calm_events]],
        rule sure_andthen [OF opening_quiet [OF calm_events]], rule rest)
qed

text \<open>What the wait finds is a closed term.\<close>

definition found_answer :: "completion \<times> jval list" where
  "found_answer = (case wait_for_visible_assistant_response (\<lambda>_. []) example_reply [] 60 1 0 [(Inr [], 60)] of
     Some (Inr x) \<Rightarrow> x | _ \<Rightarrow> (synthetic_probe [], []))"

lemma waits: "wait_for_visible_assistant_response (\<lambda>_. []) example_reply [] 60 1 0 [(Inr [], 60)] = Some (Inr found_answer)"
proof -
  have "case wait_for_visible_assistant_response (\<lambda>_. []) example_reply [] 60 1 0 [(Inr [], 60)] of Some (Inr x) \<Rightarrow> True | _ \<Rightarrow> False"
    by code_simp
  then show ?thesis by (auto simp: found_answer_def split: option.splits sum.splits)
qed

lemma sure_await: "sure hello_ready (await_answer (calm observers) None example_reply []) (\<lambda>x t. hello_ready t \<and> x = found_answer)"
proof -
  obtain c ms where found: "found_answer = (c, ms)" by (cases found_answer)
  have after: "sure hello_ready (messages_after (calm observers) found_answer) (\<lambda>x t. hello_ready t \<and> x = found_answer)"
    by (auto simp: found messages_after_def sure_def andthen_def chain_def await_def on_world_def give_def calm_def)
  have "await_answer (calm observers) None example_reply [] = andthen (await (calm observers) AtWait) (messages_after (calm observers) found_answer)"
    by (simp add: await_answer_def calm_def waits or_unfinished_def settled_def chain_give)
  with after sure_quiet [OF calm_await] show ?thesis by (simp add: sure_andthen)
qed

text \<open>Finishing it: the row can be computed (a model without a price costs nothing), and the log is open.\<close>

lemma row_computed:
  assumes "ca_session_id a = ''s1''" "ca_request_id a = ''r1''" "ca_model a = None" "ca_response a = example_reply"
  shows "\<exists>row file'. record_chat shown stamp a file = Inr (row, file')"
proof -
  have "extract_text_field ''model'' example_reply = None" by code_simp
  then have model: "ra_model (chat_row_args shown a) = ''unknown''" by (simp add: chat_row_args_def Let_def or_unknown_def assms)
  have "normalize_pricing_model_id (JStr ''unknown'') = ''unknown''" by code_simp
  then have "pricing_for (JStr ''unknown'') = None" by (simp add: pricing_for_def COPILOT_MODEL_PRICING_def gpt6_def)
  then have "credits_for (JStr ''unknown'') u tier = None" for u tier by (simp add: credits_for_def usd_for_def)
  then show ?thesis by (simp add: record_chat_def write_row_def usage_row_def model estimate_usage_credits_def Let_def)
qed

lemma found_open:
  assumes "list_all is_obj xs"
  shows "\<exists>n. find_from_end rid xs = Inr n"
  using assms by (induction xs) (auto split: jval.split elim: is_obj.elims)

lemma log_finishes:
  assumes "log_open logs"
  shows "\<exists>d logs1. chatlog_finish_entry stamp now ''s1'' rid status said f logs = Inr (d, logs1)"
proof -
  obtain d es logs1 where get: "chatlog_get ''s1'' logs = Inr (Some (JObj d), logs1)" "d \<noteq> []" "entries_of d = Inr es" "list_all is_obj es"
    using assms by (auto simp: log_open_def entries_of_def)
  then have "chatlog_ensure stamp ''s1'' logs = Inr (d, logs1)" by (simp add: chatlog_ensure_def)
  moreover obtain n where "find_entry rid es = Inr n" using found_open [of "rev es" rid] get(4) by (auto simp: find_entry_def list_all_iff)
  then have "\<exists>es1. change_entry stamp rid (\<lambda>e. Inr (finish_fields stamp status said f e)) es = Inr es1"
    by (cases n) (simp_all add: change_entry_def)
  ultimately show ?thesis using get(3) by (auto simp: chatlog_finish_entry_def Let_def)
qed

lemma sure_answer: "sure hello_ready (record_answer sx hello v) (\<lambda>_. hello_ready)"
  by (auto simp: sure_def hello_ready_def hello_known_def record_answer_def hello_fields update_after_chat_def session_get_def
      session_upsert_def session_save_def Let_def)

lemma sure_usage: "sure hello_ready (record_usage sx hello [] example_reply after ids) (\<lambda>_. hello_ready)"
  unfolding sure_def
proof (intro allI impI)
  fix t assume t: "hello_ready t"
  let ?a = "\<lparr>ca_session_id = cq_session_id hello, ca_request_id = cq_request_id hello, ca_model = cq_model hello,
    ca_provider = Some (trace_provider hello), ca_response = example_reply, ca_run_messages = run_messages after ids,
    ca_iterations = (if ids = [] then None else Some (int (length ids)))\<rparr>"
  have "\<exists>row file1. record_chat (sx_shown sx) (sx_stamp sx) ?a (cw_usage (tn_world t)) = Inr (row, file1)"
    by (rule row_computed) (simp_all add: hello_def)
  then obtain row file1 where "record_chat (sx_shown sx) (sx_stamp sx) ?a (cw_usage (tn_world t)) = Inr (row, file1)" by blast
  moreover have "(case jget [] ''model'' of JStr m \<Rightarrow> or_text (Some m) (cq_model hello) | _ \<Rightarrow> cq_model hello) = cq_model hello"
    by (simp add: jget_def)
  ultimately show "\<exists>a t'. record_usage sx hello [] example_reply after ids t = (Done a, t') \<and> hello_ready t'"
    using t by (simp add: record_usage_def hello_ready_def hello_known_def Let_def)
qed

lemma sure_log:
  "sure hello_ready (\<lambda>t. log_with sx (chatlog_finish_entry stamp now (cq_session_id hello) rid status said (g t)) t) (\<lambda>_ _. True)"
  unfolding sure_def
proof (intro allI impI)
  fix t assume "hello_ready t"
  then obtain d logs where "chatlog_finish_entry stamp now ''s1'' rid status said (g t) (cw_logs (tn_world t)) = Inr (d, logs)"
    using log_finishes [of "cw_logs (tn_world t)"] unfolding hello_ready_def by blast
  then show "\<exists>a t'. log_with sx (chatlog_finish_entry stamp now (cq_session_id hello) rid status said (g t)) t = (Done a, t') \<and> True"
    by (simp add: log_with_def hello_fields)
qed

lemma calm_ends: "calm_step m \<Longrightarrow> sure (\<lambda>_. True) m (\<lambda>_ _. True)"
  unfolding calm_step_def sure_def by blast

lemma sure_book:
  assumes "tf_reply f = example_reply"
  shows "sure hello_ready (book_turn (calm observers) hello f v ids []) (\<lambda>_ _. True)"
  unfolding book_turn_def Let_def assms andthen_def
  by (rule sure_chain [OF sure_answer], rule sure_chain [OF sure_usage], rule sure_chain [OF sure_give(2)], rule sure_chain [OF sure_log],
      rule sure_chain [OF calm_ends [OF calm_tells]], rule sure_chain [OF calm_ends [OF calm_others(7)]], rule sure_give(2))

lemma sure_finish:
  assumes "tf_reply f = example_reply"
  shows "sure hello_ready (finish_turn (calm observers) hello f) (\<lambda>_ _. True)"
proof -
  let ?v = "verdict_of (tf_probe f) (tf_synthetic f)" and ?ids = "turn_message_ids hello (tf_before f) (tf_after f) (tf_reply f) (tf_probe f)"
  have "model_attribution None None = []" by code_simp
  then have picked: "sure hello_ready (reads (\<lambda>t. model_attribution (cw_auto (tn_world t)) (cq_model hello))) (\<lambda>a t. hello_ready t \<and> a = [])"
    by (simp add: sure_def reads_def hello_ready_def hello_known_def hello_fields)
  have rest: "sure hello_ready (andthen (attribute_all (calm observers) hello [] (mi_all ?ids)) (andthen (announce_verdict (calm observers) hello ?v [])
      (book_turn (calm observers) hello f ?v ?ids []))) (\<lambda>_ _. True)"
    by (intro sure_andthen sure_quiet calm_others calm_verdict sure_book assms)
  show ?thesis
    unfolding finish_turn_def Let_def
    by (rule sure_andthen [OF sure_quiet [OF calm_binds]], rule sure_chain [OF picked], rule sure_pure) (simp add: rest)
qed

lemma hello_answered: "\<exists>payload t. run_turn (calm observers) hello empty_world = (Answer200 payload, t)"
proof -
  have plain: "sure hello_ready (apply_skill_invocation (calm observers) hello parts) (\<lambda>s t. hello_ready t \<and> s = None)" for parts
  proof -
    have "parse_slash_invocation ''hello'' = None" by code_simp
    then show ?thesis by (simp add: apply_skill_invocation_def hello_fields sure_give)
  qed
  have before: "sure hello_ready (messages_before (calm observers)) (\<lambda>ms t. hello_ready t \<and> ms = [])"
    unfolding messages_before_def by (rule sure_andthen [OF sure_quiet [OF calm_await]]) (simp add: calm_def sure_give)
  have sent: "sure hello_ready (send_turn (calm observers) hello parts []) (\<lambda>x t. hello_ready t \<and> x = (example_reply, None))" for parts
  proof -
    have "send_turn (calm observers) hello parts [] = andthen (plain_send (calm observers) hello parts) (chain (reads tn_oid) (\<lambda>_. give (example_reply, None)))"
    proof -
      have "sx_sent (calm observers) = Inr example_reply" by (simp add: calm_def)
      then show ?thesis by (simp add: send_turn_def send_with_probe_def or_unfinished_def settled_def)
    qed
    then show ?thesis using sure_andthen [OF sure_quiet [OF calm_send] sure_chain [OF sure_give(2) sure_give(1)]] by simp
  qed
  have start: "sure (\<lambda>t. t = turn_start hello empty_world) (ensure_session (calm observers) hello) (\<lambda>_. hello_opening)"
    using sure_ensure by (simp add: sure_def)
  have "sure (\<lambda>t. t = turn_start hello empty_world) (turn_body (calm observers) hello) (\<lambda>_ _. True)"
    unfolding turn_body_def Let_def case_prod_beta
    apply (rule sure_chain [OF start])
    apply (unfold andthen_def, rule sure_chain [OF sure_open])
    apply (rule sure_chain [OF before], rule sure_pure)
    apply (rule sure_chain [OF sure_quiet [OF calm_others(2)]], rule sure_chain [OF sure_quiet [OF calm_others(3)]])
    apply (rule sure_chain [OF plain], rule sure_pure, simp only: option.case)
    apply (rule sure_chain [OF sent], rule sure_pure, simp only: fst_conv snd_conv)
    apply (rule sure_chain [OF sure_await], rule sure_pure)
    apply (rule sure_finish, simp)
    done
  then show ?thesis by (auto simp: sure_def run_turn_def)
qed

theorem answered_turn_is_on_record_witness:
  "\<exists>payload t. run_turn (calm []) hello empty_world = (Answer200 payload, t) \<and> records_answer ''s1'' ''r1'' payload t"
proof -
  obtain payload t where run: "run_turn (calm []) hello empty_world = (Answer200 payload, t)" using hello_answered by blast
  have "closes_alone (calm []) (cq_session_id hello)" by (simp add: closes_alone_def calm_def)
  from answered_turn_is_on_record [OF calm_is_tame this empty_world_ok run] run show ?thesis by (auto simp: hello_def)
qed

section \<open>A deleted session\<close>

text \<open>C38: A chat for a deleted session is refused with 410, and nothing is stored, published, sent or asked.\<close>

theorem deleted_session_is_refused:
  assumes "session_get (cw_sessions w) (cq_session_id q) = Some r" and "sr_deleted r"
  shows "run_turn sx q w = (session_gone_reply q, turn_start q w)"
  using assms
  by (simp add: run_turn_def turn_body_def chain_def ensure_session_def reads_def turn_start_def ensure_begin_def raises_def
      handle_raised_def give_def)

definition deleted_world :: "pending_store chat_world" where
  "deleted_world = empty_world\<lparr>cw_sessions := session_upsert ((new_chat_session [] ''s1'' ''o1'' [] None None)\<lparr>sr_deleted := True\<rparr>)
     (cw_sessions empty_world)\<rparr>"

theorem deleted_session_is_refused_witness:
  "run_turn (calm []) hello deleted_world = (session_gone_reply hello, turn_start hello deleted_world)"
  by (rule deleted_session_is_refused [where r = "(new_chat_session [] ''s1'' ''o1'' [] None None)\<lparr>sr_deleted := True\<rparr>"])
     (simp_all add: deleted_world_def empty_world_def hello_session session_get_def session_upsert_def session_save_def new_chat_session_def)

section \<open>An unfinished turn and its open question\<close>

lemma event_session_kept:
  assumes "eh_session_id head = sid" and "sid \<noteq> []"
  shows "jget (event_payload now head trace ty state summary data) ''session_id'' = JStr (trace_text (JStr sid))"
  using assms by (simp add: event_payload_def add_trace_context_def Let_def trace_key_other kept_trace_key_def)

lemma event_no_field:
  "jget (event_payload now head trace ty state summary data) ''metadata'' = JNull"
  "jget (event_payload now head trace ty state summary data) ''legacy_type'' = JNull"
  "jget (event_payload now head trace ty state summary data) ''legacy_event_type'' = JNull"
  by (simp_all add: event_payload_def Let_def add_trace_other)

lemma verdict_clears:
  assumes "ty \<in> set VERDICT_TYPES" and "cq_session_id q \<noteq> []" and "trace_text (JStr (cq_session_id q)) = cq_session_id q"
  shows "pi_get (observe_event st (JObj (published sx q ty state summary data t))) (cq_session_id q) = None"
proof -
  let ?e = "published sx q ty state summary data t"
  have ty: "jget ?e ''type'' = JStr ty" "ty \<in> set RUN_ENDED_EVENT_TYPES" "ty \<notin> set RESOLVED_EVENT_TYPES" "ty \<noteq> []"
    using assms(1) by (auto simp: published_def event_type_kept VERDICT_TYPES_def RUN_ENDED_EVENT_TYPES_def RESOLVED_EVENT_TYPES_def)
  have sid: "pi_event_session_id ?e = cq_session_id q"
    using assms(2,3) by (simp add: pi_event_session_id_def published_def event_session_kept)
  have "\<not> is_replayed ?e" by (simp add: is_replayed_def published_def event_no_field)
  moreover have "pi_types ?e = [ty]"
    using ty by (simp add: pi_types_def pi_event_type_def pi_legacy_type_def py_or_def) (simp add: published_def event_no_field)
  ultimately show ?thesis using sid ty(2,3) assms(2)
    by (auto simp: observe_event_def Let_def meets_def CLEAR_EVENT_TYPES_def pi_clear_def pi_get_def map_of_delete split: option.split)
qed

definition drops_question :: "string \<Rightarrow> jobj \<Rightarrow> pending_store chat_turn \<Rightarrow> bool" where
  "drops_question sid payload t \<longleftrightarrow> pi_get (cw_observers (tn_world t)) sid = None"

lemma finish_drops:
  assumes "sx_observers sx = [observe_event]" and "closing_look (\<lambda>w. pi_get (cw_observers w) (cq_session_id q)) sx"
    and "cq_session_id q \<noteq> []" and "trace_text (JStr (cq_session_id q)) = cq_session_id q"
    and "finish_turn sx q f t = (Done payload, t')"
  shows "drops_question (cq_session_id q) payload t'"
proof -
  let ?v = "verdict_of (tf_probe f) (tf_synthetic f)" and ?ids = "turn_message_ids q (tf_before f) (tf_after f) (tf_reply f) (tf_probe f)"
  obtain a t2 t3 where said: "announce_verdict sx q ?v a t2 = (Done (), t3)" and book: "book_turn sx q f ?v ?ids a t3 = (Done payload, t')"
    using assms(5) unfolding finish_turn_def Let_def chain_Done andthen_Done by (auto simp: reads_def)
  obtain s where last: "publish_event sx q (terminal_type ?v) (terminal_state ?v) (vd_text ?v) (terminal_data ?v a) s = (Done (), t3)"
    using said unfolding announce_verdict_def andthen_Done by blast
  have "cw_observers (tn_world t3) = observe_event (cw_observers (tn_world s))
      (JObj (published sx q (terminal_type ?v) (terminal_state ?v) (vd_text ?v) (terminal_data ?v a) s))"
    using last assms(1) by (auto simp: publish_event_def published_def publish_def Let_def)
  then have gone: "pi_get (cw_observers (tn_world t3)) (cq_session_id q) = None"
    using verdict_clears [OF terminal_is_verdict assms(3,4)] by simp
  obtain r t4 where recorded: "record_answer sx q ?v t3 = (Done r, t4)" and closed: "close_turn sx q f ?v ?ids a r t4 = (Done payload, t')"
    using book unfolding book_closes chain_Done by blast
  have "cw_observers (tn_world t4) = cw_observers (tn_world t3)"
    using recorded by (auto simp: record_answer_def split: sum.splits)
  moreover have "pi_get (cw_observers (tn_world t')) (cq_session_id q) = pi_get (cw_observers (tn_world t4)) (cq_session_id q)"
    by (rule kept [where obs = "\<lambda>t. pi_get (cw_observers (tn_world t)) (cq_session_id q)", OF closing_keeps [OF assms(2)] closed])
  ultimately show ?thesis using gone by (simp add: drops_question_def)
qed

text \<open>However a turn ends, completed, failed, timed out or blocked on a permission, its verdict takes the session's open question
  off the pending-input store: after an answered turn the store holds none, also when OpenCode still waits for it.\<close>

theorem answered_turn_drops_the_question:
  assumes "sx_observers sx = [observe_event]" and "closing_look (\<lambda>w. pi_get (cw_observers w) (cq_session_id q)) sx"
    and "cq_session_id q \<noteq> []" and "trace_text (JStr (cq_session_id q)) = cq_session_id q" and "tame sx"
    and "session_inv (cw_sessions w)"
  shows "case run_turn sx q w of (Answer200 payload, t) \<Rightarrow> drops_question (cq_session_id q) payload t | _ \<Rightarrow> True"
proof -
  have "gives sessions_ok (drops_question (cq_session_id q)) (finish_turn sx q f)" for f
    using finish_drops [OF assms(1-4)] by (auto simp: gives_def)
  then have "drops_question (cq_session_id q) payload t" if "run_turn sx q w = (Answer200 payload, t)" for payload t
    by (rule gives_run [OF assms(5) _ assms(6) that])
  then show ?thesis by (auto split: prod.split chat_reply.split)
qed

theorem answered_turn_drops_the_question_witness:
  "case run_turn (calm [observe_event]) hello empty_world of (Answer200 payload, t) \<Rightarrow> drops_question ''s1'' payload t | _ \<Rightarrow> True"
proof -
  have "closing_look (\<lambda>w. pi_get (cw_observers w) (cq_session_id hello)) (calm [observe_event])"
    by (simp add: closing_look_def calm_def)
  moreover have "trace_text (JStr (cq_session_id hello)) = cq_session_id hello" unfolding hello_session by code_simp
  moreover have "sx_observers (calm [observe_event]) = [observe_event]" by (simp add: calm_def)
  ultimately show ?thesis
    using answered_turn_drops_the_question [of "calm [observe_event]" hello empty_world, OF _ _ _ _ calm_is_tame empty_world_ok,
      unfolded hello_session] by (simp add: hello_session)
qed

text \<open>A failure after the verdict contradicts it: the request fails and a second verdict follows the completion.\<close>

theorem late_failure_contradicts:
  assumes "turn_body sx q (turn_start q w) = (Raises (OtherError said), t)" and "verdicts t = [v]"
    and "jget v ''type'' = JStr ''chat.completed''"
  shows "\<exists>v'. verdicts (snd (run_turn sx q w)) = [v, v'] \<and> jget v' ''type'' = JStr ''chat.failed''"
proof -
  obtain r2 t2 where handled: "handle_raised sx q (OtherError said) t = (r2, t2)" by fastforce
  then show ?thesis using failure_announced [OF handled] assms(1,2)
    by (cases r2) (auto simp: run_turn_def)
qed

end
