(* ===== verification/ChatRunRegistry.thy ===== *)
theory ChatRunRegistry
  imports PyTime
begin

text \<open>
  \<^verbatim>\<open>chat_run_registry.py\<close>: the in-memory registry of chat runs that late reconnects read. Stamps that the
  code compares (\<open>updated_at\<close>) are instants; the clock reading \<open>now\<close> is an argument. An asyncio task
  is a handle (a number), and cancelling reports the handles told to cancel.
\<close>

definition TERMINAL_STATES :: "string list" where
  "TERMINAL_STATES = [''completed'', ''failed'', ''cancelled'']"

definition RETAINED_EVENT_LIST_KEYS :: "string list" where
  "RETAINED_EVENT_LIST_KEYS = [''events'', ''runtime_events'', ''thinking_events'']"

definition RETAINED_EVENT_TAIL_ITEMS :: nat where
  "RETAINED_EVENT_TAIL_ITEMS = 100"

definition DEFAULT_STALE_RUNNING_SECONDS :: rat where
  "DEFAULT_STALE_RUNNING_SECONDS = 6 * 3600"

definition compact_key :: "string \<Rightarrow> jobj \<Rightarrow> jobj" where
  "compact_key key d =
     (case jget d key of
        JList value \<Rightarrow>
          if length value > RETAINED_EVENT_TAIL_ITEMS then
            AList.update (key @ ''_truncated'') (JBool True)
              (AList.update (key @ ''_count'') (JInt (int (length value)))
                (AList.update key (JList (last_n RETAINED_EVENT_TAIL_ITEMS value)) d))
          else d
      | _ \<Rightarrow> d)"

definition compact_final_payload :: "jobj \<Rightarrow> jobj" where
  "compact_final_payload payload = fold compact_key RETAINED_EVENT_LIST_KEYS payload"

record chat_run =
  cr_request_id :: string
  cr_session_id :: string
  cr_engine :: string
  cr_state :: string
  cr_started_at :: int
  cr_updated_at :: int
  cr_latest_event_at :: string
  cr_latest_event_seq :: nat
  cr_replay_available :: bool
  cr_detached_viewers :: nat
  cr_final_payload :: "jobj option"
  cr_error_payload :: "jobj option"
  cr_task :: "nat option"

definition new_chat_run :: "int \<Rightarrow> string \<Rightarrow> string \<Rightarrow> chat_run" where
  "new_chat_run now rid sid =
     \<lparr>cr_request_id = rid, cr_session_id = sid, cr_engine = ''opencode'', cr_state = ''running'',
      cr_started_at = now, cr_updated_at = now, cr_latest_event_at = [], cr_latest_event_seq = 0,
      cr_replay_available = True, cr_detached_viewers = 0, cr_final_payload = None,
      cr_error_payload = None, cr_task = None\<rparr>"

definition cr_terminal :: "chat_run \<Rightarrow> bool" where
  "cr_terminal r = (cr_state r \<in> set TERMINAL_STATES)"

definition opt_obj :: "jobj option \<Rightarrow> jval" where
  "opt_obj x = (case x of None \<Rightarrow> JNull | Some d \<Rightarrow> JObj d)"

definition chat_run_payload :: "chat_run \<Rightarrow> jobj" where
  "chat_run_payload r =
     [(''ok'', JBool True), (''engine'', JStr (cr_engine r)), (''session_id'', JStr (cr_session_id r)),
      (''request_id'', JStr (cr_request_id r)), (''state'', JStr (cr_state r)),
      (''terminal'', JBool (cr_terminal r)), (''started_at'', JStr (utc_iso (cr_started_at r))),
      (''updated_at'', JStr (utc_iso (cr_updated_at r))), (''latest_event_at'', JStr (cr_latest_event_at r)),
      (''latest_event_seq'', JInt (int (cr_latest_event_seq r))),
      (''replay_available'', JBool (cr_replay_available r)),
      (''detached_viewers'', JInt (int (cr_detached_viewers r))),
      (''final_payload'', opt_obj (cr_final_payload r)), (''error_payload'', opt_obj (cr_error_payload r))]"

record run_registry =
  rr_records :: "(string, chat_run) odict"
  rr_max_records :: int
  rr_stale_seconds :: rat

definition new_registry :: "int \<Rightarrow> rat \<Rightarrow> run_registry" where
  "new_registry n stale = \<lparr>rr_records = [], rr_max_records = n, rr_stale_seconds = max 0 stale\<rparr>"

definition registry_get :: "run_registry \<Rightarrow> string \<Rightarrow> string \<Rightarrow> chat_run option" where
  "registry_get reg request_id session_id =
     (let rid = py_strip request_id in
      if rid = [] then None
      else case map_of (rr_records reg) rid of None \<Rightarrow> None
        | Some r \<Rightarrow> if session_id \<noteq> [] \<and> cr_session_id r \<noteq> session_id then None else Some r)"

definition fail_if_stale :: "int \<Rightarrow> int \<Rightarrow> chat_run \<Rightarrow> chat_run" where
  "fail_if_stale now cutoff r =
     (if cr_terminal r then r
      else if cr_updated_at r \<ge> cutoff then r
      else r\<lparr>cr_state := ''failed'', cr_error_payload := Some
             [(''error'', JStr ''chat_run_stale''),
              (''detail'', JStr ''No run activity before the stale timeout; a terminal outcome was never recorded.''),
              (''session_id'', JStr (cr_session_id r)), (''request_id'', JStr (cr_request_id r))],
             cr_updated_at := now, cr_task := None\<rparr>)"

definition fail_stale_running_records :: "int \<Rightarrow> run_registry \<Rightarrow> run_registry" where
  "fail_stale_running_records now reg =
     (if rr_stale_seconds reg \<le> 0 then reg
      else reg\<lparr>rr_records := List.map (\<lambda>(k, r).
             (k, fail_if_stale now (now - delta_us (rr_stale_seconds reg)) r)) (rr_records reg)\<rparr>)"

definition prune_terminal_records :: "run_registry \<Rightarrow> run_registry" where
  "prune_terminal_records reg =
     (if int (length (rr_records reg)) \<le> rr_max_records reg then reg
      else let overflow = nat (int (length (rr_records reg)) - rr_max_records reg);
               terminal = sort_key cr_updated_at (filter cr_terminal (List.map snd (rr_records reg)))
           in reg\<lparr>rr_records := fold (\<lambda>r d. AList.delete (cr_request_id r) d) (take overflow terminal)
                    (rr_records reg)\<rparr>)"

definition registry_start :: "int \<Rightarrow> string \<Rightarrow> string \<Rightarrow> run_registry \<Rightarrow> chat_run \<times> run_registry" where
  "registry_start now sid rid reg =
     (case registry_get reg rid sid of
        Some existing \<Rightarrow> (existing, reg)
      | None \<Rightarrow>
          let r = new_chat_run now rid sid;
              reg1 = reg\<lparr>rr_records := AList.update rid r (rr_records reg)\<rparr>
          in (r, prune_terminal_records (fail_stale_running_records now reg1)))"

text \<open>\<^verbatim>\<open>record.x = \<dots>\<close> on the record a lookup found: the dict's entry changes in place.\<close>

definition set_run :: "chat_run \<Rightarrow> run_registry \<Rightarrow> run_registry" where
  "set_run r reg = reg\<lparr>rr_records := AList.update (cr_request_id r) r (rr_records reg)\<rparr>"

definition registry_attach_task :: "int \<Rightarrow> string \<Rightarrow> nat \<Rightarrow> run_registry \<Rightarrow> run_registry" where
  "registry_attach_task now rid task reg =
     (case registry_get reg rid [] of None \<Rightarrow> reg
      | Some r \<Rightarrow> set_run (r\<lparr>cr_task := Some task, cr_updated_at := now\<rparr>) reg)"

definition registry_record_event :: "int \<Rightarrow> string \<Rightarrow> jobj \<Rightarrow> run_registry \<Rightarrow> run_registry" where
  "registry_record_event now rid event reg =
     (case registry_get reg rid [] of None \<Rightarrow> reg
      | Some r \<Rightarrow> if cr_terminal r then reg
          else set_run (r\<lparr>cr_latest_event_seq := cr_latest_event_seq r + 1,
             cr_latest_event_at := py_str (py_or (jget event ''created_at'') (JStr (utc_iso now))),
             cr_updated_at := now\<rparr>) reg)"

definition registry_mark_detached :: "int \<Rightarrow> string \<Rightarrow> run_registry \<Rightarrow> run_registry" where
  "registry_mark_detached now rid reg =
     (case registry_get reg rid [] of None \<Rightarrow> reg
      | Some r \<Rightarrow> if cr_terminal r then reg
          else set_run (r\<lparr>cr_detached_viewers := cr_detached_viewers r + 1, cr_updated_at := now\<rparr>) reg)"

text \<open>The state a final payload completes a run with; an unhashable \<open>completion_state\<close> raises.\<close>

fun is_container :: "jval \<Rightarrow> bool" where
  "is_container (JList xs) = True"
| "is_container (JObj d) = True"
| "is_container _ = False"

fun is_float :: "jval \<Rightarrow> bool" where
  "is_float (JFloat f) = True"
| "is_float _ = False"

definition completion_outcome :: "jobj \<Rightarrow> py_error + string" where
  "completion_outcome payload =
     (let cs = jget payload ''completion_state'';
          fallback = py_str (py_or cs (JStr ''failed''));
          final = (\<lambda>state. if state \<in> {''completed'', ''success''} then ''completed'' else ''failed'')
      in if jget payload ''ok'' = JBool False then Inr (final fallback)
         else case cs of
           JList xs \<Rightarrow> Inl TypeError
         | JObj d \<Rightarrow> Inl TypeError
         | _ \<Rightarrow> Inr (if cs \<in> {JStr [], JNull, JStr ''completed'', JStr ''success''} then ''completed''
                    else final fallback))"

definition registry_complete :: "int \<Rightarrow> string \<Rightarrow> jobj \<Rightarrow> run_registry \<Rightarrow> py_error + run_registry" where
  "registry_complete now rid payload reg =
     (case registry_get reg rid [] of None \<Rightarrow> Inr reg
      | Some r \<Rightarrow> (case completion_outcome payload of Inl e \<Rightarrow> Inl e
          | Inr state \<Rightarrow> Inr (set_run (r\<lparr>cr_state := state,
              cr_final_payload := Some (compact_final_payload payload), cr_updated_at := now,
              cr_task := None\<rparr>) reg)))"

definition registry_fail :: "int \<Rightarrow> string \<Rightarrow> jobj \<Rightarrow> run_registry \<Rightarrow> run_registry" where
  "registry_fail now rid payload reg =
     (case registry_get reg rid [] of None \<Rightarrow> reg
      | Some r \<Rightarrow> if cr_state r = ''cancelled'' then reg
          else set_run (r\<lparr>cr_state := ''failed'', cr_error_payload := Some (compact_final_payload payload),
             cr_updated_at := now, cr_task := None\<rparr>) reg)"

text \<open>\<^verbatim>\<open>task.done()\<close> is the argument \<open>done\<close>; the result carries the handle told to cancel, if any.\<close>

definition registry_cancel ::
    "int \<Rightarrow> (nat \<Rightarrow> bool) \<Rightarrow> string \<Rightarrow> run_registry \<Rightarrow> bool \<times> nat option \<times> run_registry" where
  "registry_cancel now done rid reg =
     (case registry_get reg rid [] of None \<Rightarrow> (False, None, reg)
      | Some r \<Rightarrow> if cr_terminal r then (False, None, reg)
          else (True, (case cr_task r of None \<Rightarrow> None | Some t \<Rightarrow> if done t then None else Some t),
                set_run (r\<lparr>cr_state := ''cancelled'', cr_updated_at := now, cr_task := None\<rparr>) reg))"

section \<open>Invariant\<close>

definition registry_inv :: "run_registry \<Rightarrow> bool" where
  "registry_inv reg \<longleftrightarrow> dict_ok (rr_records reg) \<and> (\<forall>(k, r) \<in> set (rr_records reg). cr_request_id r = k)"

lemma registry_inv_new: "registry_inv (new_registry n s)"
  by (simp add: registry_inv_def new_registry_def)

lemma set_run_inv: "registry_inv reg \<Longrightarrow> registry_inv (set_run r reg)"
  by (auto simp: registry_inv_def set_run_def dest!: in_set_update)

lemma fail_if_stale_id [simp]: "cr_request_id (fail_if_stale now c r) = cr_request_id r"
  by (simp add: fail_if_stale_def)

lemma fail_stale_inv: "registry_inv reg \<Longrightarrow> registry_inv (fail_stale_running_records now reg)"
  by (auto simp: registry_inv_def fail_stale_running_records_def comp_def case_prod_beta')

definition drop_runs :: "chat_run list \<Rightarrow> (string, chat_run) odict \<Rightarrow> (string, chat_run) odict" where
  "drop_runs rs d = fold (\<lambda>r d. AList.delete (cr_request_id r) d) rs d"

lemma drop_runs_filter: "drop_runs rs d = filter (\<lambda>(k, v). k \<notin> cr_request_id ` set rs) d"
  by (induction rs arbitrary: d)
     (auto simp: drop_runs_def delete_filter case_prod_beta' intro!: filter_cong)

lemma prune_unfold:
  "rr_records (prune_terminal_records reg) =
     (if int (length (rr_records reg)) \<le> rr_max_records reg then rr_records reg
      else drop_runs (take (nat (int (length (rr_records reg)) - rr_max_records reg))
             (sort_key cr_updated_at (filter cr_terminal (List.map snd (rr_records reg))))) (rr_records reg))"
  by (simp add: prune_terminal_records_def drop_runs_def Let_def)

lemma registry_prune_inv: "registry_inv reg \<Longrightarrow> registry_inv (prune_terminal_records reg)"
  by (auto simp: registry_inv_def prune_unfold drop_runs_filter)

lemma start_inv: "registry_inv reg \<Longrightarrow> registry_inv (snd (registry_start now sid rid reg))"
  using set_run_inv [of reg "new_chat_run now rid sid"]
  by (auto simp: registry_start_def Let_def set_run_def new_chat_run_def intro!: registry_prune_inv fail_stale_inv
      split: option.split)

lemma get_id: "registry_inv reg \<Longrightarrow> registry_get reg rid s = Some r \<Longrightarrow> cr_request_id r = py_strip rid"
  by (auto simp: registry_get_def registry_inv_def Let_def split: if_splits option.splits dest!: map_of_SomeD)

text \<open>Distinct records have distinct ids, so pruning removes exactly the records it picked.\<close>

lemma record_ids:
  assumes "registry_inv reg"
  shows "List.map cr_request_id (List.map snd (rr_records reg)) = dkeys (rr_records reg)"
  using assms by (auto simp: registry_inv_def intro!: map_cong)

lemma terminal_ids:
  assumes "registry_inv reg"
  shows "distinct (List.map cr_request_id (filter cr_terminal (List.map snd (rr_records reg))))"
proof -
  have "distinct (List.map cr_request_id (List.map snd (rr_records reg)))"
    unfolding record_ids [OF assms] using assms by (simp only: registry_inv_def)
  then show ?thesis by (rule distinct_map_filter)
qed

text \<open>The records pruning removes: the oldest terminal ones, as many as the registry is over its cap.\<close>

definition pruned_runs :: "run_registry \<Rightarrow> chat_run list" where
  "pruned_runs reg =
     (if int (length (rr_records reg)) \<le> rr_max_records reg then []
      else take (nat (int (length (rr_records reg)) - rr_max_records reg))
             (sort_key cr_updated_at (filter cr_terminal (List.map snd (rr_records reg)))))"

lemma prune_records:
  "rr_records (prune_terminal_records reg) =
     filter (\<lambda>(k, v). k \<notin> cr_request_id ` set (pruned_runs reg)) (rr_records reg)"
proof -
  have *: "filter (\<lambda>(k, v). True) xs = xs" for xs :: "(string, chat_run) odict"
    by (simp add: case_prod_beta')
  show ?thesis
    by (cases "int (length (rr_records reg)) \<le> rr_max_records reg")
       (simp_all only: prune_unfold pruned_runs_def drop_runs_filter if_True if_False list.set image_empty
          empty_iff not_False_eq_True *)
qed

lemma distinct_map_sort_key: "distinct (List.map f xs) \<Longrightarrow> distinct (List.map f (sort_key g xs))"
  by (simp add: distinct_map)

lemma distinct_map_take: "distinct (List.map f xs) \<Longrightarrow> distinct (List.map f (take n xs))"
  by (simp flip: take_map)

lemma pruned_ids_distinct: "registry_inv reg \<Longrightarrow> distinct (List.map cr_request_id (pruned_runs reg))"
  by (simp add: pruned_runs_def distinct_map_take distinct_map_sort_key terminal_ids)

lemma pruned_terminal: "r \<in> set (pruned_runs reg) \<Longrightarrow> cr_terminal r \<and> r \<in> snd ` set (rr_records reg)"
  by (auto simp: pruned_runs_def split: if_splits dest!: in_set_takeD)

lemma pruned_ids_stored:
  assumes "registry_inv reg" shows "cr_request_id ` set (pruned_runs reg) \<subseteq> set (dkeys (rr_records reg))"
proof
  fix k assume "k \<in> cr_request_id ` set (pruned_runs reg)"
  then obtain r where "r \<in> set (pruned_runs reg)" "k = cr_request_id r" by blast
  then show "k \<in> set (dkeys (rr_records reg))"
    using pruned_terminal [of r reg] by (simp flip: record_ids [OF assms]) (auto)
qed

lemma length_filter_keys:
  assumes "dict_ok d" "K \<subseteq> set (dkeys d)" "card K = n"
  shows "length (filter (\<lambda>(k, v). k \<notin> K) d) = length d - n"
proof -
  have "length (filter (\<lambda>(k, v). k \<notin> K) d) = length (filter (\<lambda>k. k \<notin> K) (dkeys d))"
    by (simp add: filter_map comp_def case_prod_beta')
  also have "\<dots> = card (set (dkeys d) - K)"
    using distinct_card [of "filter (\<lambda>k. k \<notin> K) (dkeys d)"] assms(1) by (simp add: set_diff_eq del: set_map)
  also have "\<dots> = length d - n"
    using assms distinct_card [OF assms(1)] by (simp add: card_Diff_subset finite_subset)
  finally show ?thesis .
qed

lemma prune_length:
  assumes "registry_inv reg"
  shows "length (rr_records (prune_terminal_records reg)) = length (rr_records reg) - length (pruned_runs reg)"
proof -
  have "card (cr_request_id ` set (pruned_runs reg)) = length (pruned_runs reg)"
    using distinct_card [OF pruned_ids_distinct [OF assms]] by simp
  with pruned_ids_stored [OF assms] show ?thesis
    using assms by (simp only: prune_records) (rule length_filter_keys, auto simp: registry_inv_def)
qed

section \<open>Properties\<close>

datatype run_op =
    RunStart string string
  | RunAttach string nat
  | RunEvent string jobj
  | RunDetach string
  | RunComplete string jobj
  | RunFail string jobj
  | RunCancel string

text \<open>One call at clock reading \<open>now\<close>. A call that raises leaves the registry as it was.\<close>

fun run_step :: "(nat \<Rightarrow> bool) \<Rightarrow> int \<Rightarrow> run_op \<Rightarrow> run_registry \<Rightarrow> run_registry" where
  "run_step done now (RunStart sid rid) reg = snd (registry_start now sid rid reg)"
| "run_step done now (RunAttach rid t) reg = registry_attach_task now rid t reg"
| "run_step done now (RunEvent rid e) reg = registry_record_event now rid e reg"
| "run_step done now (RunDetach rid) reg = registry_mark_detached now rid reg"
| "run_step done now (RunComplete rid p) reg =
     (case registry_complete now rid p reg of Inl e \<Rightarrow> reg | Inr reg' \<Rightarrow> reg')"
| "run_step done now (RunFail rid p) reg = registry_fail now rid p reg"
| "run_step done now (RunCancel rid) reg = snd (snd (registry_cancel now done rid reg))"

lemma set_run_look:
  "map_of (rr_records (set_run r reg)) k = (if k = cr_request_id r then Some r else map_of (rr_records reg) k)"
  by (simp add: set_run_def update_conv)

lemma get_look:
  assumes "registry_inv reg" "registry_get reg rid s = Some r"
  shows "map_of (rr_records reg) (cr_request_id r) = Some r"
  using get_id [OF assms] assms(2) by (auto simp: registry_get_def Let_def split: if_splits option.splits)

lemma map_of_map_snd: "map_of (List.map (\<lambda>(k, r). (k, f r)) d) k = map_option f (map_of d k)"
  by (induction d) auto

lemma fail_stale_look:
  "map_of (rr_records (fail_stale_running_records now reg)) k =
     map_option (\<lambda>r. if rr_stale_seconds reg \<le> 0 then r
       else fail_if_stale now (now - delta_us (rr_stale_seconds reg)) r) (map_of (rr_records reg) k)"
  by (simp add: fail_stale_running_records_def map_of_map_snd option.map_ident)

lemma fail_stale_fields [simp]:
  "rr_max_records (fail_stale_running_records now reg) = rr_max_records reg"
  "rr_stale_seconds (fail_stale_running_records now reg) = rr_stale_seconds reg"
  by (simp_all add: fail_stale_running_records_def)

lemma fail_if_stale_terminal: "cr_terminal r \<Longrightarrow> fail_if_stale now c r = r"
  by (simp add: fail_if_stale_def)

lemma prune_look_active:
  assumes "registry_inv reg" "map_of (rr_records reg) k = Some r" "\<not> cr_terminal r"
  shows "map_of (rr_records (prune_terminal_records reg)) k = Some r"
proof -
  have "k \<notin> cr_request_id ` set (pruned_runs reg)"
  proof
    assume "k \<in> cr_request_id ` set (pruned_runs reg)"
    then obtain q where q: "q \<in> set (pruned_runs reg)" "k = cr_request_id q" by blast
    then obtain k' where "(k', q) \<in> set (rr_records reg)" using pruned_terminal by fastforce
    with assms(1) q(2) have "map_of (rr_records reg) k = Some q" by (auto simp: registry_inv_def)
    with assms(2,3) q pruned_terminal show False by auto
  qed
  then show ?thesis using assms(1,2) by (simp add: prune_records registry_inv_def map_of_filter_dict)
qed

lemma prune_look_some:
  assumes "registry_inv reg" "map_of (rr_records (prune_terminal_records reg)) k = Some r"
  shows "map_of (rr_records reg) k = Some r"
proof -
  have "dict_ok (rr_records reg)" using assms(1) by (simp add: registry_inv_def)
  from map_of_filter_dict [OF this] show ?thesis
    using assms(2) by (simp add: prune_records split: option.splits if_splits)
qed

lemma prune_bound:
  assumes "registry_inv reg"
  shows "int (length (rr_records (prune_terminal_records reg)))
           \<le> max (rr_max_records reg) (int (length (filter (\<lambda>(k, r). \<not> cr_terminal r) (rr_records reg))))"
proof -
  let ?d = "rr_records reg"
  have "length ?d = length (filter (\<lambda>(k, r). \<not> cr_terminal r) ?d) + length (filter cr_terminal (List.map snd ?d))"
    by (induction ?d) (auto simp: filter_map comp_def case_prod_beta' sum_length_filter_compl [symmetric] add.commute)
  then show ?thesis by (simp add: prune_length [OF assms] pruned_runs_def min_def)
qed

lemma registered_inv:
  assumes "registry_inv reg"
  shows "registry_inv (reg\<lparr>rr_records := AList.update rid (new_chat_run now rid sid) (rr_records reg)\<rparr>)"
  using set_run_inv [OF assms, of "new_chat_run now rid sid"] by (simp add: set_run_def new_chat_run_def)

lemma new_run_fresh:
  "0 \<le> delta_us s \<Longrightarrow> fail_if_stale now (now - delta_us s) (new_chat_run now rid sid) = new_chat_run now rid sid"
  by (simp add: fail_if_stale_def new_chat_run_def)

lemma new_run_active [simp]: "\<not> cr_terminal (new_chat_run now rid sid)"
  by (simp add: new_chat_run_def cr_terminal_def TERMINAL_STATES_def)

lemma delta_us_nonneg: "0 \<le> s \<Longrightarrow> 0 \<le> delta_us s"
  by (simp add: delta_us_def round_half_even_def Let_def)

lemma start_new:
  assumes "registry_get reg rid sid = None"
  shows "snd (registry_start now sid rid reg) = prune_terminal_records (fail_stale_running_records now
           (reg\<lparr>rr_records := AList.update rid (new_chat_run now rid sid) (rr_records reg)\<rparr>))"
  using assms by (simp add: registry_start_def Let_def)

lemma start_look_active:
  assumes inv: "registry_inv reg" and new: "registry_get reg rid sid = None"
    and act: "k \<noteq> rid \<Longrightarrow> map_of (rr_records reg) k = Some r" "k = rid \<Longrightarrow> r = new_chat_run now rid sid"
      "\<not> cr_terminal r"
    and fresh: "rr_stale_seconds reg \<le> 0 \<or> cr_updated_at r \<ge> now - delta_us (rr_stale_seconds reg)"
  shows "map_of (rr_records (snd (registry_start now sid rid reg))) k = Some r"
proof -
  let ?reg1 = "reg\<lparr>rr_records := AList.update rid (new_chat_run now rid sid) (rr_records reg)\<rparr>"
  have "map_of (rr_records ?reg1) k = Some r" using act by (cases "k = rid") (simp_all add: update_conv)
  then have "map_of (rr_records (fail_stale_running_records now ?reg1)) k = Some r"
    using fresh by (auto simp add: fail_stale_look fail_if_stale_def)
  from prune_look_active [OF fail_stale_inv [OF registered_inv [OF inv]] this act(3)] show ?thesis
    by (simp add: start_new [OF new])
qed

lemma fail_stale_active_count:
  "length (filter (\<lambda>(k, r). \<not> cr_terminal r) (rr_records (fail_stale_running_records now reg)))
     \<le> length (filter (\<lambda>(k, r). \<not> cr_terminal r) (rr_records reg))"
proof -
  have "length (filter (\<lambda>(k, r). \<not> cr_terminal r) (List.map (\<lambda>(k, r). (k, fail_if_stale now c r)) d))
     \<le> length (filter (\<lambda>(k, r). \<not> cr_terminal r) d)" for c d
    by (induction d) (auto simp: fail_if_stale_terminal)
  from this [of "now - delta_us (rr_stale_seconds reg)" "rr_records reg"] show ?thesis
    by (simp add: fail_stale_running_records_def del: filter_map)
qed

text \<open>C25: starting a run never costs a live one: the new run is stored and found again under its id, every
  other run that is not terminal and was active within the stale window is kept unchanged, and the registry
  is within its cap unless unfinished runs alone exceed it.\<close>

theorem start_keeps_active_runs:
  assumes "registry_inv reg" "0 \<le> rr_stale_seconds reg"
    and "py_strip rid = rid" "rid \<noteq> []" "registry_get reg rid sid = None"
  shows "let reg' = snd (registry_start now sid rid reg) in
     registry_get reg' rid sid = Some (new_chat_run now rid sid)
     \<and> (\<forall>k r. k \<noteq> rid \<and> map_of (rr_records reg) k = Some r \<and> \<not> cr_terminal r
            \<and> (rr_stale_seconds reg \<le> 0 \<or> now - delta_us (rr_stale_seconds reg) \<le> cr_updated_at r)
          \<longrightarrow> map_of (rr_records reg') k = Some r)
     \<and> int (length (rr_records reg')) \<le> max (rr_max_records reg)
          (1 + int (length (filter (\<lambda>(k, r). \<not> cr_terminal r) (rr_records reg))))"
proof -
  let ?reg1 = "reg\<lparr>rr_records := AList.update rid (new_chat_run now rid sid) (rr_records reg)\<rparr>"
  have 1: "map_of (rr_records (snd (registry_start now sid rid reg))) rid = Some (new_chat_run now rid sid)"
    using assms by (intro start_look_active) (auto simp: new_chat_run_def [of now rid sid]
      delta_us_nonneg cr_terminal_def TERMINAL_STATES_def)
  have upd: "length (filter (\<lambda>(k, r). \<not> cr_terminal r) (AList.update rid x d))
      \<le> Suc (length (filter (\<lambda>(k, r). \<not> cr_terminal r) d))" for x and d :: "(string, chat_run) odict"
    by (induction d) auto
  have "int (length (rr_records (snd (registry_start now sid rid reg)))) \<le> max (rr_max_records reg)
          (int (length (filter (\<lambda>(k, r). \<not> cr_terminal r) (rr_records (fail_stale_running_records now ?reg1)))))"
    using prune_bound [OF fail_stale_inv [OF registered_inv [OF assms(1)]]] by (simp add: start_new [OF assms(5)])
  moreover have "length (filter (\<lambda>(k, r). \<not> cr_terminal r) (rr_records (fail_stale_running_records now ?reg1)))
      \<le> Suc (length (filter (\<lambda>(k, r). \<not> cr_terminal r) (rr_records reg)))"
    using fail_stale_active_count [of now ?reg1] upd [of "new_chat_run now rid sid" "rr_records reg"] by simp
  ultimately show ?thesis
    using 1 assms(3,4) start_look_active [OF assms(1,5)]
    by (auto simp: Let_def registry_get_def) (auto simp: new_chat_run_def)
qed

lemma start_keeps_active_runs_witness:
  "registry_get (snd (registry_start 9 ''s'' ''r'' (new_registry 1 1))) ''r'' ''s''
     = Some (new_chat_run 9 ''r'' ''s'')"
proof -
  have "py_strip ''r'' = ''r''" "registry_get (new_registry 1 1) ''r'' ''s'' = None" by code_simp+
  then show ?thesis
    using start_keeps_active_runs [of "new_registry 1 1" "''r''" "''s''" 9]
    by (simp add: Let_def registry_inv_new) (simp add: new_registry_def)
qed

section \<open>Transitions\<close>

lemma step_inv: "registry_inv reg \<Longrightarrow> registry_inv (run_step done now op reg)"
  by (cases op) (simp_all add: start_inv set_run_inv registry_attach_task_def registry_record_event_def
    registry_mark_detached_def registry_complete_def registry_fail_def registry_cancel_def split: option.split sum.split)

definition starts_run :: "string \<Rightarrow> run_op \<Rightarrow> bool" where
  "starts_run k op = (case op of RunStart sid rid \<Rightarrow> rid = k | _ \<Rightarrow> False)"

definition completes_run :: "string \<Rightarrow> run_op \<Rightarrow> bool" where
  "completes_run k op = (case op of RunComplete rid p \<Rightarrow> py_strip rid = k | _ \<Rightarrow> False)"

text \<open>What a later look at a finished run may show: the same session and event count, still finished,
  and still cancelled unless a completion came in.\<close>

definition still_finished :: "bool \<Rightarrow> chat_run \<Rightarrow> chat_run option \<Rightarrow> bool" where
  "still_finished completed r r' = (case r' of None \<Rightarrow> True
     | Some q \<Rightarrow> cr_terminal q \<and> cr_session_id q = cr_session_id r \<and> cr_latest_event_seq q = cr_latest_event_seq r
         \<and> (cr_state r = ''cancelled'' \<and> \<not> completed \<longrightarrow> cr_state q = ''cancelled''))"

lemma start_look_finished:
  assumes inv: "registry_inv reg" and k: "k \<noteq> rid"
    and q: "map_of (rr_records (snd (registry_start now sid rid reg))) k = Some q"
  shows "\<exists>r. map_of (rr_records reg) k = Some r \<and> (cr_terminal r \<longrightarrow> q = r)"
proof (cases "registry_get reg rid sid")
  case (Some r)
  then show ?thesis using q by (simp add: registry_start_def)
next
  case None
  from q [unfolded start_new [OF None]]
  have "map_of (rr_records (fail_stale_running_records now
      (reg\<lparr>rr_records := AList.update rid (new_chat_run now rid sid) (rr_records reg)\<rparr>))) k = Some q"
    by (rule prune_look_some [OF fail_stale_inv [OF registered_inv [OF inv]]])
  then obtain r where "map_of (rr_records reg) k = Some r"
      "q = (if rr_stale_seconds reg \<le> 0 then r else fail_if_stale now (now - delta_us (rr_stale_seconds reg)) r)"
    using k by (auto simp: fail_stale_look update_conv)
  then show ?thesis by (auto simp: fail_if_stale_terminal)
qed

lemma state_terminal:
  "cr_state r = ''cancelled'' \<Longrightarrow> cr_terminal r" "cr_state r = ''failed'' \<Longrightarrow> cr_terminal r"
  "cr_state r = ''completed'' \<Longrightarrow> cr_terminal r"
  by (simp_all add: cr_terminal_def TERMINAL_STATES_def)

lemma completion_outcome_range: "completion_outcome p = Inr st \<Longrightarrow> st = ''completed'' \<or> st = ''failed''"
  by (auto simp: completion_outcome_def Let_def split: if_splits jval.splits)

lemma step_finished:
  assumes inv: "registry_inv reg" and r: "map_of (rr_records reg) k = Some r" "cr_terminal r"
    and op: "\<not> starts_run k op"
  shows "still_finished (completes_run k op) r (map_of (rr_records (run_step done now op reg)) k)"
proof -
  have got: "q = r" if "registry_get reg rid [] = Some q" "cr_request_id q = k" for rid q
    using get_look [OF inv that(1)] that(2) r by simp
  have id: "cr_request_id q = py_strip rid" if "registry_get reg rid [] = Some q" for rid q
    using get_id [OF inv that] .
  show ?thesis
  proof (cases op)
    case (RunStart sid rid)
    then show ?thesis
      using op start_look_finished [OF inv, of k rid now sid] r
      by (auto simp: still_finished_def starts_run_def split: option.split)
  next
    case (RunComplete rid p)
    show ?thesis
    proof (cases "registry_get reg rid []")
      case (Some q)
      show ?thesis
      proof (cases "completion_outcome p")
        case (Inr st)
        then show ?thesis using Some RunComplete r got [OF Some] id [OF Some] completion_outcome_range [OF Inr]
          by (auto simp: registry_complete_def still_finished_def set_run_look completes_run_def
            cr_terminal_def TERMINAL_STATES_def)
      qed (use Some RunComplete r in \<open>simp add: registry_complete_def still_finished_def\<close>)
    qed (use RunComplete r in \<open>simp add: registry_complete_def still_finished_def\<close>)
  qed (use r got in \<open>auto simp: registry_attach_task_def registry_record_event_def registry_mark_detached_def
      registry_fail_def registry_cancel_def still_finished_def set_run_look cr_terminal_def TERMINAL_STATES_def
      split: option.split\<close>)
qed

lemma step_absent:
  assumes inv: "registry_inv reg" and r: "map_of (rr_records reg) k = None" and op: "\<not> starts_run k op"
  shows "map_of (rr_records (run_step done now op reg)) k = None"
proof -
  have got: "k \<noteq> cr_request_id q" if "registry_get reg rid [] = Some q" for rid q
    using get_look [OF inv that] r by auto
  show ?thesis
  proof (cases op)
    case (RunStart sid rid)
    then show ?thesis using op r start_look_finished [OF inv, of k rid now sid]
      by (cases "map_of (rr_records (snd (registry_start now sid rid reg))) k") (auto simp: starts_run_def)
  qed (use r got in \<open>auto simp: registry_attach_task_def registry_record_event_def registry_mark_detached_def
      registry_complete_def registry_fail_def registry_cancel_def set_run_look split: option.split sum.split\<close>)
qed

definition run_calls :: "(nat \<Rightarrow> bool) \<Rightarrow> (int \<times> run_op) list \<Rightarrow> run_registry \<Rightarrow> run_registry" where
  "run_calls done ops reg = fold (\<lambda>(now, op). run_step done now op) ops reg"

lemma still_finished_trans:
  "still_finished c r (Some q) \<Longrightarrow> still_finished c' q z \<Longrightarrow> still_finished (c \<or> c') r z"
  by (auto simp: still_finished_def split: option.splits)

lemma calls_absent:
  "registry_inv reg \<Longrightarrow> map_of (rr_records reg) k = None \<Longrightarrow> \<forall>(now, op) \<in> set ops. \<not> starts_run k op \<Longrightarrow>
     map_of (rr_records (run_calls done ops reg)) k = None"
  by (induction ops arbitrary: reg) (auto simp: run_calls_def step_absent step_inv)

text \<open>once a run has finished, no sequence of later calls (other than a new start under its id) revives it
  or moves it to another session or counts further events for it; it may only be pruned. A cancelled run
  stays cancelled unless a late completion for it comes in.\<close>

theorem finished_runs_stay_finished:
  assumes "registry_inv reg" "map_of (rr_records reg) k = Some r" "cr_terminal r"
    and "\<forall>(now, op) \<in> set ops. \<not> starts_run k op"
  shows "still_finished (\<exists>(now, op) \<in> set ops. completes_run k op) r
           (map_of (rr_records (run_calls done ops reg)) k)"
  using assms
proof (induction ops arbitrary: reg r)
  case Nil
  then show ?case by (simp add: run_calls_def still_finished_def)
next
  case (Cons a ops)
  obtain now op where a: "a = (now, op)" by fastforce
  let ?reg = "run_step done now op reg"
  have step: "still_finished (completes_run k op) r (map_of (rr_records ?reg) k)"
    using Cons.prems a by (intro step_finished) auto
  have inv: "registry_inv ?reg" using Cons.prems(1) by (rule step_inv)
  show ?case
  proof (cases "map_of (rr_records ?reg) k")
    case None
    then show ?thesis using calls_absent [OF inv None, of ops] Cons.prems(4)
      by (simp add: run_calls_def a still_finished_def)
  next
    case (Some q)
    then have "cr_terminal q" using step by (simp add: still_finished_def)
    from Cons.IH [OF inv Some this] Cons.prems(4)
    have "still_finished (\<exists>(now, op) \<in> set ops. completes_run k op) q (map_of (rr_records (run_calls done ops ?reg)) k)"
      by simp
    from still_finished_trans [OF step [unfolded Some] this] show ?thesis by (simp add: run_calls_def a)
  qed
qed

definition cancelled_example :: run_registry where
  "cancelled_example = run_calls (\<lambda>t. False) [(1, RunStart ''s'' ''r''), (2, RunCancel ''r'')] (new_registry 5 1)"

lemma finished_runs_stay_finished_witness:
  "still_finished False (new_chat_run 1 ''r'' ''s''\<lparr>cr_state := ''cancelled'', cr_updated_at := 2\<rparr>)
     (map_of (rr_records (run_calls (\<lambda>t. False) [(3, RunFail ''r'' []), (4, RunEvent ''r'' [])] cancelled_example)) ''r'')"
proof -
  have "registry_inv cancelled_example" by (simp add: cancelled_example_def run_calls_def step_inv registry_inv_new
      start_inv del: run_step.simps)
  moreover have "map_of (rr_records cancelled_example) ''r''
      = Some (new_chat_run 1 ''r'' ''s''\<lparr>cr_state := ''cancelled'', cr_updated_at := 2\<rparr>)"
    by code_simp
  ultimately have "still_finished (\<exists>(now, op) \<in> set [(3::int, RunFail ''r'' []), (4, RunEvent ''r'' [])]. completes_run ''r'' op)
      (new_chat_run 1 ''r'' ''s''\<lparr>cr_state := ''cancelled'', cr_updated_at := 2\<rparr>)
      (map_of (rr_records (run_calls (\<lambda>t. False) [(3, RunFail ''r'' []), (4, RunEvent ''r'' [])] cancelled_example)) ''r'')"
    by (rule finished_runs_stay_finished) (simp_all add: starts_run_def state_terminal)
  then show ?thesis by (simp add: completes_run_def)
qed

lemma nat_text_digits: "c \<in> set (nat_text n) \<Longrightarrow> 48 \<le> (of_char c :: nat) \<and> (of_char c :: nat) < 58"
proof (induction n rule: nat_text.induct)
  case (1 n)
  then show ?case
    by (cases "n < 10") (auto simp: nat_text.simps [of n] digit_char_def)
qed

lemma nat_text_words: "nat_text n \<notin> {''completed'', ''success''}"
proof
  assume "nat_text n \<in> {''completed'', ''success''}"
  then have "CHR ''e'' \<in> set (nat_text n)" by auto
  from nat_text_digits [OF this] show False by simp
qed

lemma int_text_words: "int_text i \<notin> {''completed'', ''success''}"
  using nat_text_words by (auto simp: int_text_def)

text \<open>The state a final payload leaves a run in. Only a list or an object as \<open>completion_state\<close> raises, and
  only when \<open>ok\<close> is not false. A completion state of completed or success always wins, so a payload that
  says \<open>ok: false\<close> beside it is recorded as a completed run; an absent, null or empty one counts as
  completed unless \<open>ok\<close> is false; every other value fails the run.\<close>

theorem completion_outcome_cases:
  assumes "\<not> is_float (jget payload ''completion_state'')"
  shows "completion_outcome payload =
     (let cs = jget payload ''completion_state''; refused = jget payload ''ok'' = JBool False in
      if \<not> refused \<and> is_container cs then Inl TypeError
      else if cs \<in> {JStr ''completed'', JStr ''success''} \<or> \<not> refused \<and> cs \<in> {JNull, JStr []}
           then Inr ''completed'' else Inr ''failed'')"
  using assms int_text_words
  by (cases "jget payload ''completion_state''")
     (auto simp: completion_outcome_def Let_def py_or_def str_repr_def)

lemma completion_outcome_cases_witness:
  "completion_outcome [(''ok'', JBool False), (''completion_state'', JStr ''success'')] = Inr ''completed''"
  by (subst completion_outcome_cases) (simp_all add: jget_def)

end
