(* ===== verification/Recovery.thy ===== *)
theory Recovery
  imports TaskStore ChatLogStore SessionStore
begin

text \<open>
  \<^verbatim>\<open>recovery.py\<close>: what the adapter does on start. Sessions are reloaded and probed at OpenCode, chat entries
  still flagged running are failed, and every task still flagged active is marked blocked: first the
  records the store can load, then, by scanning the first 64 KiB of the text, those it cannot. The result
  of probing a session is the argument \<open>probe\<close>; directories are listed once, before their loop.
\<close>

definition TASK_RECORD_RECOVERY_PREFIX_BYTES :: nat where
  "TASK_RECORD_RECOVERY_PREFIX_BYTES = 64 * 1024"

definition RUNNING_CHATLOG_STATUSES :: "string list" where
  "RUNNING_CHATLOG_STATUSES = [''running'', ''accepted'', ''queued'', ''in_progress'']"

definition CHAT_INTERRUPTED_BY_RESTART_MESSAGE :: string where
  "CHAT_INTERRUPTED_BY_RESTART_MESSAGE = ''Chat run interrupted by adapter restart.''"

section \<open>Tasks\<close>

text \<open>\<^verbatim>\<open>x or dflt\<close> on the optional text of a field.\<close>

definition text_or :: "string option \<Rightarrow> string \<Rightarrow> string" where
  "text_or x dflt = (case x of None \<Rightarrow> dflt | Some s \<Rightarrow> if s = [] then dflt else s)"

definition active_record_from_prefix :: "string \<Rightarrow> string \<Rightarrow> task_file \<Rightarrow> task_record option" where
  "active_record_from_prefix stamp stem f =
     (let field = json_string_field_prefix (take_bytes TASK_RECORD_RECOVERY_PREFIX_BYTES (tf_text f)) in
      case field ''status'' of
        None \<Rightarrow> None
      | Some status \<Rightarrow>
          if status \<notin> set ACTIVE_TASK_STATUSES then None
          else let tid = text_or (field ''task_id'') stem in
            if \<not> is_valid_task_id tid then None
            else Some \<lparr>tr_task_id = JStr tid,
              tr_task_type = JStr (text_or (field ''task_type'') ''generic_agent_task''),
              tr_request_id = JStr (text_or (field ''request_id'') (''recovery-'' @ tid)),
              tr_status = JStr status,
              tr_portal_session_id = JStr (text_or (field ''portal_session_id'') (''task-'' @ tid)),
              tr_opencode_session_id = JStr (text_or (field ''opencode_session_id'') []),
              tr_input_payload = JObj [], tr_metadata = JObj [], tr_output_payload = JObj [],
              tr_artifacts = JObj [], tr_runtime_events = JList [], tr_error = JNull,
              tr_created_at = JStr (text_or (field ''created_at'') stamp), tr_started_at = JNull,
              tr_finished_at = JNull, tr_source = JNull, tr_shared_context_ref = JNull, tr_context_ref = JNull,
              tr_message_cursor = JNull, tr_opencode_prompt_id = JNull, tr_opencode_message_id = JNull,
              tr_completion_source = JNull, tr_pending_permission_ids = JNull\<rparr>)"

definition RESTART_SUMMARY :: string where
  "RESTART_SUMMARY = ''Adapter restarted before task completion''"

definition restart_output :: "jval \<Rightarrow> jobj" where
  "restart_output v = fold (\<lambda>(k, x) d. AList.update k x d)
     [(''summary'', JStr RESTART_SUMMARY), (''error_code'', JStr ''adapter_restarted_task_recovery_required''),
      (''blockers'', JList [JStr RESTART_SUMMARY]),
      (''next_recommendation'', JStr ''Re-dispatch task if it is still required.'')] (obj_or_empty v)"

definition restart_event :: "string \<Rightarrow> pyfloat \<Rightarrow> task_record \<Rightarrow> jobj" where
  "restart_event stamp ts r = task_lifecycle_event stamp ts ''task.blocked''
     ((event_args_for (tr_portal_session_id r) (tr_request_id r))\<lparr>ev_state := ''blocked'', ev_summary := RESTART_SUMMARY\<rparr>)"

definition blocked_after_restart_record :: "string \<Rightarrow> pyfloat \<Rightarrow> task_record \<Rightarrow> task_error + task_record" where
  "blocked_after_restart_record stamp ts r =
     (case event_list (tr_runtime_events r) of
        Inl e \<Rightarrow> Inl e
      | Inr events \<Rightarrow> Inr (r\<lparr>tr_status := JStr ''blocked'', tr_output_payload := JObj (restart_output (tr_output_payload r)),
          tr_error := JObj [(''code'', JStr ''adapter_restarted_task_recovery_required''),
            (''message'', JStr ''Adapter restarted before task completion; manual recovery required'')],
          tr_finished_at := JStr stamp, tr_runtime_events := JList (events @ [JObj (restart_event stamp ts r)])\<rparr>))"

text \<open>Whether the saved record is blocked, and the directory.\<close>

definition save_blocked_after_restart ::
    "env \<Rightarrow> string \<Rightarrow> pyfloat \<Rightarrow> task_record \<Rightarrow> task_dir \<Rightarrow> task_error + (bool \<times> task_dir)" where
  "save_blocked_after_restart env stamp ts r dir =
     (case blocked_after_restart_record stamp ts r of Inl e \<Rightarrow> Inl e
      | Inr b \<Rightarrow> (case task_save env b dir of Inl e \<Rightarrow> Inl e
          | Inr (saved, dir') \<Rightarrow> Inr (tr_status saved = JStr ''blocked'', dir')))"

text \<open>The first loop, over the listed stems: the records the store loads. The state carries the ids blocked
  so far (their number is the count reported); an exception ends the loop with what was written so far.\<close>

fun block_loaded ::
    "env \<Rightarrow> string \<Rightarrow> pyfloat \<Rightarrow> string list \<Rightarrow> jval list \<times> task_dir \<Rightarrow> task_error option \<times> jval list \<times> task_dir"
where
  "block_loaded env stamp ts [] (ids, dir) = (None, ids, dir)"
| "block_loaded env stamp ts (stem # stems) (ids, dir) =
     (case map_of dir stem of
        None \<Rightarrow> block_loaded env stamp ts stems (ids, dir)
      | Some f \<Rightarrow>
          (case read_record env None stem f of
             Inl e \<Rightarrow> block_loaded env stamp ts stems (ids, dir)
           | Inr r \<Rightarrow>
               if \<not> active_status (tr_status r) then block_loaded env stamp ts stems (ids, dir)
               else (case save_blocked_after_restart env stamp ts r dir of
                   Inl e \<Rightarrow> (Some e, ids, dir)
                 | Inr (blocked, dir') \<Rightarrow>
                     block_loaded env stamp ts stems (if blocked then ids @ [tr_task_id r] else ids, dir'))))"

text \<open>The second loop: the files whose stem was not blocked, by their prefix.\<close>

fun block_by_prefix ::
    "env \<Rightarrow> string \<Rightarrow> pyfloat \<Rightarrow> string list \<Rightarrow> jval list \<times> task_dir \<Rightarrow> task_error option \<times> jval list \<times> task_dir"
where
  "block_by_prefix env stamp ts [] (ids, dir) = (None, ids, dir)"
| "block_by_prefix env stamp ts (stem # stems) (ids, dir) =
     (if JStr stem \<in> set ids then block_by_prefix env stamp ts stems (ids, dir)
      else case map_of dir stem of
        None \<Rightarrow> block_by_prefix env stamp ts stems (ids, dir)
      | Some f \<Rightarrow>
          (case active_record_from_prefix stamp stem f of
             None \<Rightarrow> block_by_prefix env stamp ts stems (ids, dir)
           | Some r \<Rightarrow> (case save_blocked_after_restart env stamp ts r dir of
                 Inl e \<Rightarrow> (Some e, ids, dir)
               | Inr (blocked, dir') \<Rightarrow>
                   block_by_prefix env stamp ts stems (if blocked then ids @ [tr_task_id r] else ids, dir'))))"

definition recover_tasks ::
    "env \<Rightarrow> string \<Rightarrow> pyfloat \<Rightarrow> task_dir \<Rightarrow> (task_error + nat) \<times> task_dir" where
  "recover_tasks env stamp ts dir =
     (case block_loaded env stamp ts (dkeys dir) ([], dir) of
        (Some e, ids, dir1) \<Rightarrow> (Inl e, dir1)
      | (None, ids, dir1) \<Rightarrow>
          (case block_by_prefix env stamp ts (dkeys dir1) (ids, dir1) of
             (Some e, ids2, dir2) \<Rightarrow> (Inl e, dir2) | (None, ids2, dir2) \<Rightarrow> (Inr (length ids2), dir2)))"

section \<open>Chat logs\<close>

text \<open>One entry of a document: failed when it has a request id and is still flagged running. Returns whether
  it was marked.\<close>

definition interrupted_entry :: "jval \<Rightarrow> string option" where
  "interrupted_entry v =
     (case v of JObj e \<Rightarrow>
        (let status = py_lower (py_strip (str_or_empty (jget e ''status'')));
             rid = str_or_empty (jget e ''request_id'') in
         if rid = [] \<or> status \<notin> set RUNNING_CHATLOG_STATUSES then None else Some rid)
      | _ \<Rightarrow> None)"

definition mark_interrupted_entry :: "string \<Rightarrow> rat \<Rightarrow> string \<Rightarrow> jval \<Rightarrow> nat \<times> chatlog_store \<Rightarrow> nat \<times> chatlog_store" where
  "mark_interrupted_entry stamp t sid v st =
     (case interrupted_entry v of None \<Rightarrow> st
      | Some rid \<Rightarrow>
          (case chatlog_fail_entry stamp t sid rid CHAT_INTERRUPTED_BY_RESTART_MESSAGE no_fields (snd st) of
             Inl e \<Rightarrow> st | Inr (d, st') \<Rightarrow> (fst st + 1, st')))"

definition mark_interrupted_chat_entries ::
    "string \<Rightarrow> rat \<Rightarrow> jval \<Rightarrow> nat \<times> chatlog_store \<Rightarrow> nat \<times> chatlog_store" where
  "mark_interrupted_chat_entries stamp t payload st =
     (case payload of
        JObj d \<Rightarrow>
          (let sid = str_or_empty (jget d ''session_id'') in
           case jget d ''entries'' of
             JList entries \<Rightarrow> if sid = [] then st else fold (mark_interrupted_entry stamp t sid) entries st
           | _ \<Rightarrow> st)
      | _ \<Rightarrow> st)"

text \<open>The loop over the chat log files: the number of corrupted ones, then marks and store.\<close>

fun recover_chatlogs ::
    "string \<Rightarrow> rat \<Rightarrow> string list \<Rightarrow> nat \<times> nat \<times> chatlog_store \<Rightarrow> nat \<times> nat \<times> chatlog_store" where
  "recover_chatlogs stamp t [] st = st"
| "recover_chatlogs stamp t (stem # stems) (bad, st) =
     (case map_of (cl_files (snd st)) stem of
        Some (JsonText payload) \<Rightarrow>
          recover_chatlogs stamp t stems (bad, mark_interrupted_chat_entries stamp t payload st)
      | _ \<Rightarrow> recover_chatlogs stamp t stems (bad + 1, st))"

section \<open>Sessions\<close>

datatype probe_result = SessionFound | ProbeFailed "int option"

text \<open>The loop over the active sessions: those marked, the other failures, and the store.\<close>

fun probe_sessions ::
    "string \<Rightarrow> (string \<Rightarrow> probe_result) \<Rightarrow> session_record list \<Rightarrow> nat \<times> nat \<times> session_store \<Rightarrow>
       nat \<times> nat \<times> session_store" where
  "probe_sessions stamp probe [] st = st"
| "probe_sessions stamp probe (r # rs) (marked, errors, ss) =
     (case probe (sr_opencode_session_id r) of
        SessionFound \<Rightarrow> probe_sessions stamp probe rs (marked, errors, ss)
      | ProbeFailed status \<Rightarrow>
          if status = Some 404
          then probe_sessions stamp probe rs (marked + 1, errors,
                 session_upsert (r\<lparr>sr_partial_recovery := True, sr_updated_at := stamp\<rparr>) ss)
          else probe_sessions stamp probe rs (marked, errors + 1, ss))"

section \<open>The whole recovery\<close>

record recovery_summary =
  rs_sessions_reloaded :: nat
  rs_partial_recovery_marked :: nat
  rs_tasks_marked_blocked :: nat
  rs_corrupted_chatlogs :: nat
  rs_opencode_errors :: nat
  rs_chat_entries_marked_interrupted :: nat

record adapter_state =
  as_sessions :: session_store
  as_chatlogs :: chatlog_store
  as_tasks :: task_dir

text \<open>An exception of the task store ends the recovery; what the earlier steps did stays done.\<close>

definition recover ::
    "env \<Rightarrow> string \<Rightarrow> pyfloat \<Rightarrow> rat \<Rightarrow> (string \<Rightarrow> probe_result) \<Rightarrow> adapter_state \<Rightarrow>
       (task_error + recovery_summary) \<times> adapter_state" where
  "recover env stamp ts t probe s =
     (let ss = session_load stamp (as_sessions s);
          (bad, chats, logs) = recover_chatlogs stamp t (dkeys (cl_files (as_chatlogs s))) (0, 0, as_chatlogs s);
          (marked, errors, ss1) = probe_sessions stamp probe (session_list_active ss) (0, 0, ss);
          (blocked, dir) = recover_tasks env stamp ts (as_tasks s)
      in (case blocked of Inl e \<Rightarrow> Inl e
          | Inr n \<Rightarrow> Inr \<lparr>rs_sessions_reloaded = length (session_list_active ss), rs_partial_recovery_marked = marked,
                  rs_tasks_marked_blocked = n, rs_corrupted_chatlogs = bad, rs_opencode_errors = errors,
                  rs_chat_entries_marked_interrupted = chats\<rparr>,
          \<lparr>as_sessions = ss1, as_chatlogs = logs, as_tasks = dir\<rparr>))"

section \<open>No task is left active\<close>

definition idle :: "task_dir \<Rightarrow> string \<Rightarrow> bool" where
  "idle dir k \<longleftrightarrow> (\<forall>d q. map_of dir k = Some (write_doc d) \<and> task_of_payload d = Inr q \<longrightarrow> \<not> active_status (tr_status q))"

text \<open>Every active record still fits its file, in the smallest form, once it is blocked.\<close>

definition blocked_fits :: "env \<Rightarrow> string \<Rightarrow> pyfloat \<Rightarrow> task_dir \<Rightarrow> bool" where
  "blocked_fits env stamp ts dir \<longleftrightarrow> (\<forall>k d q b. map_of dir k = Some (write_doc d) \<longrightarrow> task_of_payload d = Inr q \<longrightarrow>
     active_status (tr_status q) \<longrightarrow> blocked_after_restart_record stamp ts q = Inr b \<longrightarrow>
     fits env (ultra_minimal_record_for_persistence b))"

lemma write_doc_inject [simp]: "write_doc d = write_doc d' \<longleftrightarrow> d = d'"
  by (auto simp: write_doc_def)

lemma blocked_status: "blocked_after_restart_record stamp ts r = Inr b \<Longrightarrow> tr_status b = JStr ''blocked'' \<and> tr_task_id b = tr_task_id r"
  by (auto simp: blocked_after_restart_record_def split: sum.splits)

lemma blocked_not_active [simp]: "\<not> active_status (JStr ''blocked'')"
  by (simp add: active_status_def ACTIVE_TASK_STATUSES_def)

lemma core_status: "task_core q = task_core r \<Longrightarrow> tr_status q = tr_status r"
  by (simp add: task_core_def)

text \<open>Saving a blocked record leaves every other file alone and its own file idle, or writes nothing.\<close>

lemma save_blocked_effect:
  assumes "save_blocked_after_restart env stamp ts r dir = Inr (flag, dir')" "tr_task_id r = JStr tid"
  shows "dir' = dir \<or> (\<exists>d q. dir' = AList.update tid (write_doc d) dir \<and> task_of_payload d = Inr q
           \<and> \<not> active_status (tr_status q) \<and> idle dir' tid)"
proof -
  obtain b where b: "blocked_after_restart_record stamp ts r = Inr b"
    using assms(1) by (auto simp: save_blocked_after_restart_def split: sum.splits)
  then obtain saved where sv: "task_save env b dir = Inr (saved, dir')"
    using assms(1) by (auto simp: save_blocked_after_restart_def split: sum.splits)
  have bs: "tr_status b = JStr ''blocked''" "tr_task_id b = JStr tid" using blocked_status [OF b] assms(2) by simp_all
  show ?thesis
  proof (cases "dir' = dir")
    case False
    then obtain d where d: "encode_record_for_persistence env b = Inr (Some d)" "dir' = AList.update tid (write_doc d) dir"
      using sv bs(2) by (auto simp: task_save_def task_path_def split: sum.splits option.splits if_splits)
    obtain q where q: "task_of_payload d = Inr q" "task_core q = task_core b" using encode_reads [OF d(1)] by blast
    have na: "\<not> active_status (tr_status q)" using core_status [OF q(2)] bs(1) by simp
    have "idle dir' tid" using q(1) na by (simp add: idle_def d(2) update_conv)
    then show ?thesis using d(2) q(1) na by blast
  qed simp
qed

lemma idle_update:
  assumes "dir' = dir \<or> (\<exists>d q. dir' = AList.update tid (write_doc d) dir \<and> task_of_payload d = Inr q
           \<and> \<not> active_status (tr_status q) \<and> idle dir' tid)"
  shows "idle dir k \<Longrightarrow> idle dir' k" and "k \<noteq> tid \<Longrightarrow> map_of dir' k = map_of dir k"
proof -
  show "map_of dir' k = map_of dir k" if "k \<noteq> tid" using assms that by (auto simp: update_conv)
  then show "idle dir' k" if "idle dir k" using assms that by (cases "k = tid") (auto simp: idle_def)
qed

text \<open>With the store's own files a loaded record carries its file's id, so blocking it makes that file idle.\<close>

lemma save_blocked_idle:
  assumes "dir_inv env dir" "map_of dir k = Some (write_doc d)" "task_of_payload d = Inr r"
    "save_blocked_after_restart env stamp ts r dir = Inr (flag, dir')" "blocked_fits env stamp ts dir" "active_status (tr_status r)"
  shows "idle dir' k \<and> (\<forall>j. j \<noteq> k \<longrightarrow> map_of dir' j = map_of dir j) \<and> dir_inv env dir'"
proof -
  have mem: "(k, write_doc d) \<in> set dir" using assms(2) by (rule map_of_SomeD)
  then have id: "tr_task_id r = JStr k" "is_valid_task_id k" using assms(1,3) by (fastforce simp: dir_inv_def)+
  obtain b where b: "blocked_after_restart_record stamp ts r = Inr b"
    using assms(4) by (auto simp: save_blocked_after_restart_def split: sum.splits)
  then obtain saved where sv: "task_save env b dir = Inr (saved, dir')"
    using assms(4) by (auto simp: save_blocked_after_restart_def split: sum.splits)
  have "fits env (ultra_minimal_record_for_persistence b)"
    using assms(2,3,5,6) b unfolding blocked_fits_def by blast
  then obtain e where "encode_record_for_persistence env b = Inr (Some e)"
    using sv by (auto simp: encode_record_for_persistence_def task_save_def split: sum.splits if_splits)
  then have dir': "dir' = AList.update k (write_doc e) dir" and "encode_record_for_persistence env b = Inr (Some e)"
    using sv blocked_status [OF b] id by (auto simp: task_save_def task_path_def)
  then obtain q where q: "task_of_payload e = Inr q" "task_core q = task_core b" using encode_reads by blast
  have "\<not> active_status (tr_status q)" using core_status [OF q(2)] blocked_status [OF b] by simp
  then have "idle dir' k" using q(1) by (simp add: idle_def dir' update_conv)
  then show ?thesis using save_dir_inv [OF assms(1) sv] by (simp add: dir' update_conv)
qed

lemma blocked_fits_step:
  assumes "blocked_fits env stamp ts dir" "idle dir' k" "\<forall>j. j \<noteq> k \<longrightarrow> map_of dir' j = map_of dir j"
  shows "blocked_fits env stamp ts dir'"
  unfolding blocked_fits_def
proof (intro allI impI)
  fix j d q b
  assume "map_of dir' j = Some (write_doc d)" "task_of_payload d = Inr q" "active_status (tr_status q)"
    "blocked_after_restart_record stamp ts q = Inr b"
  then show "fits env (ultra_minimal_record_for_persistence b)"
    using assms by (cases "j = k") (auto simp: idle_def blocked_fits_def)
qed

lemma dir_inv_file: "dir_inv env dir \<Longrightarrow> map_of dir k = Some f \<Longrightarrow> \<exists>d. f = write_doc d \<and> fits env d"
  by (auto simp: dir_inv_def dest!: map_of_SomeD)

lemma block_loaded_idle:
  assumes "limits_agree env" "dir_inv env dir" "blocked_fits env stamp ts dir"
    and "block_loaded env stamp ts stems (ids, dir) = (err, ids', dir')"
  shows "dir_inv env dir' \<and> (\<forall>k. idle dir k \<or> err = None \<and> k \<in> set stems \<longrightarrow> idle dir' k)"
  using assms(2-)
proof (induction stems arbitrary: ids dir)
  case (Cons k stems)
  have skip: ?case if "block_loaded env stamp ts (k # stems) (ids, dir) = block_loaded env stamp ts stems (ids, dir)" "idle dir k"
    using Cons.IH [OF Cons.prems(1,2)] Cons.prems(3) that by auto
  show ?case
  proof (cases "map_of dir k")
    case None
    then show ?thesis by (intro skip) (simp_all add: idle_def)
  next
    case (Some f)
    then obtain d where f: "f = write_doc d" "fits env d" using dir_inv_file [OF Cons.prems(1)] by blast
    have rd: "read_record env None k f = task_of_payload d" by (simp add: f(1) read_written [OF assms(1) f(2)])
    show ?thesis
    proof (cases "\<exists>r. task_of_payload d = Inr r \<and> active_status (tr_status r)")
      case False
      then show ?thesis using Some rd f(1)
        by (intro skip) (auto simp: idle_def split: sum.split)
    next
      case True
      then obtain r where r: "task_of_payload d = Inr r" "active_status (tr_status r)" by blast
      show ?thesis
      proof (cases "save_blocked_after_restart env stamp ts r dir")
        case (Inl e)
        then show ?thesis using Cons.prems Some rd r by auto
      next
        case (Inr x)
        obtain flag dir1 where x: "x = (flag, dir1)" by fastforce
        note sv = save_blocked_idle [OF Cons.prems(1) Some [unfolded f(1)] r(1) Inr [unfolded x] Cons.prems(2) r(2)]
        have fit: "blocked_fits env stamp ts dir1" using blocked_fits_step [OF Cons.prems(2)] sv by blast
        have run: "block_loaded env stamp ts stems (if flag then ids @ [tr_task_id r] else ids, dir1) = (err, ids', dir')"
          using Cons.prems(3) Some rd r Inr x by simp
        have "idle dir1 j" if "idle dir j" for j using sv that by (cases "j = k") (auto simp: idle_def)
        then show ?thesis using Cons.IH [OF _ fit run] sv by auto
      qed
    qed
  qed
qed simp

lemma prefix_id: "active_record_from_prefix stamp stem f = Some r \<Longrightarrow> \<exists>tid. tr_task_id r = JStr tid"
  by (auto simp: active_record_from_prefix_def Let_def split: option.splits if_splits)

lemma save_blocked_inv:
  "save_blocked_after_restart env stamp ts r dir = Inr (flag, dir') \<Longrightarrow> dir_inv env dir \<Longrightarrow> dir_inv env dir'"
  by (auto simp: save_blocked_after_restart_def split: sum.splits intro: save_dir_inv)

lemma block_by_prefix_idle:
  assumes "dir_inv env dir" "block_by_prefix env stamp ts stems (ids, dir) = (err, ids', dir')"
  shows "dir_inv env dir' \<and> (\<forall>k. idle dir k \<longrightarrow> idle dir' k)"
  using assms
proof (induction stems arbitrary: ids dir)
  case (Cons k stems)
  show ?case
  proof (cases "\<exists>f r. JStr k \<notin> set ids \<and> map_of dir k = Some f \<and> active_record_from_prefix stamp k f = Some r")
    case False
    then have "block_by_prefix env stamp ts (k # stems) (ids, dir) = block_by_prefix env stamp ts stems (ids, dir)"
      by (auto split: option.split)
    then show ?thesis using Cons by metis
  next
    case True
    then obtain f r where r: "JStr k \<notin> set ids" "map_of dir k = Some f" "active_record_from_prefix stamp k f = Some r"
      by blast
    show ?thesis
    proof (cases "save_blocked_after_restart env stamp ts r dir")
      case (Inl e)
      then show ?thesis using Cons.prems r by auto
    next
      case (Inr x)
      obtain flag dir1 where x: "x = (flag, dir1)" by fastforce
      obtain tid where "tr_task_id r = JStr tid" using prefix_id [OF r(3)] by blast
      from idle_update(1) [OF save_blocked_effect [OF Inr [unfolded x] this]]
      have keep: "idle dir j \<Longrightarrow> idle dir1 j" for j .
      have "block_by_prefix env stamp ts stems (if flag then ids @ [tr_task_id r] else ids, dir1) = (err, ids', dir')"
        using Cons.prems(2) r Inr x by simp
      from Cons.IH [OF save_blocked_inv [OF Inr [unfolded x] Cons.prems(1)] this] keep show ?thesis by blast
    qed
  qed
qed simp

text \<open>C29: no task survives a restart as running: after a recovery that returns, on the files the store itself
  writes, no record the store can list has an active status and every file is still readable, provided that the limit for loading is no
  smaller than the one for saving and that every active record, once blocked, fits the limit in its smallest form. Where one does not
  fit, the blocked record is not written and the task stays as it was.\<close>

theorem no_active_task_after_recovery:
  assumes "limits_agree env" "dir_inv env dir" "blocked_fits env stamp ts dir"
    and "recover_tasks env stamp ts dir = (Inr n, dir')"
  shows "task_iter_active env None None None False dir' = [] \<and> dir_inv env dir'"
proof -
  obtain err ids dir1 where l1: "block_loaded env stamp ts (dkeys dir) ([], dir) = (err, ids, dir1)"
    by (metis prod_cases3)
  have e1: "err = None" using assms(4) l1 by (auto simp: recover_tasks_def split: option.splits)
  note one = block_loaded_idle [OF assms(1-3) l1]
  have keys: "idle dir k" if "k \<notin> set (dkeys dir)" for k
    using that by (simp add: idle_def map_of_eq_None_iff [symmetric])
  have idle1: "idle dir1 k" for k using one e1 keys by blast
  obtain err2 ids2 dir2 where l2: "block_by_prefix env stamp ts (dkeys dir1) (ids, dir1) = (err2, ids2, dir2)"
    by (metis prod_cases3)
  have "err2 = None \<and> dir2 = dir'" using assms(4) l1 l2 e1 by (auto simp: recover_tasks_def split: option.splits)
  with block_by_prefix_idle [OF _ l2] one idle1 have inv: "dir_inv env dir'" and idle: "\<And>k. idle dir' k" by auto
  have "list_loop env (\<lambda>r. active_status (tr_status r)) None None lim c sc fs = []" if "set fs \<subseteq> set dir'" for lim c sc fs
    using that
  proof (induction fs arbitrary: sc)
    case (Cons x fs)
    obtain k f where x: "x = (k, f)" by fastforce
    have m: "map_of dir' k = Some f" using Cons.prems x inv by (simp add: dir_inv_def)
    then obtain d where f: "f = write_doc d" "fits env d" using dir_inv_file [OF inv] by blast
    have "\<not> active_status (tr_status q)" if "read_record env lim k f = Inr q" for q
      using that idle [of k] m f by (auto simp: idle_def read_record_def write_doc_def Let_def split: if_splits)
    then show ?case using Cons by (auto simp: x over_def split: sum.split option.split)
  qed simp
  then show ?thesis using inv
    by (simp add: task_iter_active_def list_records_def iter_task_paths_def coerce_non_negative_int_def Let_def)
qed

definition sample_dir :: task_dir where
  "sample_dir = [(''t1'', write_doc (task_asdict sample_task))]"

definition sample_blocked :: "task_record" where
  "sample_blocked = sample_task\<lparr>tr_status := JStr ''blocked'', tr_output_payload := JObj (restart_output JNull),
     tr_error := JObj [(''code'', JStr ''adapter_restarted_task_recovery_required''),
       (''message'', JStr ''Adapter restarted before task completion; manual recovery required'')],
     tr_finished_at := JStr ''2025'',
     tr_runtime_events := JList [JObj (restart_event ''2025'' NotANumber sample_task)]\<rparr>"

lemma sample_dir_inv: "dir_inv (\<lambda>k. None) sample_dir"
  using sample_fits task_roundtrip [of sample_task]
  by (auto simp: dir_inv_def sample_dir_def sample_id) (auto simp: sample_task_def)

lemma sample_blocked_eq: "blocked_after_restart_record ''2025'' NotANumber sample_task = Inr sample_blocked"
  by (simp add: blocked_after_restart_record_def sample_blocked_def event_list_def) (simp add: sample_task_def event_list_def)

lemma sample_ultra_fits: "fits (\<lambda>k. None) (ultra_minimal_record_for_persistence sample_blocked)"
proof -
  have "fits (\<lambda>k. None) (ultra_minimal_record_for_persistence
      (sample_task\<lparr>tr_status := JStr ''blocked'', tr_error := JObj [(''code'', JStr ''adapter_restarted_task_recovery_required''),
       (''message'', JStr ''Adapter restarted before task completion; manual recovery required'')]\<rparr>))"
    by code_simp
  then show ?thesis by (simp add: sample_blocked_def ultra_minimal_record_for_persistence_def)
qed

lemma sample_blocked_fits: "blocked_fits (\<lambda>k. None) ''2025'' NotANumber sample_dir"
  using task_roundtrip [of sample_task] sample_blocked_eq sample_ultra_fits
  by (auto simp: blocked_fits_def sample_dir_def split: if_splits)

lemma encode_some:
  assumes "fits env (ultra_minimal_record_for_persistence r)" "tr_runtime_events r = JList xs"
  shows "\<exists>d. encode_record_for_persistence env r = Inr (Some d)"
  using assms by (auto simp: encode_record_for_persistence_def minimal_record_for_persistence_def event_list_def Let_def)

lemma sample_recovery: "\<exists>d. recover_tasks (\<lambda>k. None) ''2025'' NotANumber sample_dir = (Inr 1, [(''t1'', write_doc d)])"
proof -
  have id: "tr_task_id sample_task = JStr ''t1''" "tr_task_id sample_blocked = JStr ''t1''"
    "tr_status sample_blocked = JStr ''blocked''" "active_status (tr_status sample_task)"
    by (simp_all add: sample_blocked_def sample_task_def active_status_def ACTIVE_TASK_STATUSES_def)
  obtain d where d: "encode_record_for_persistence (\<lambda>k. None) sample_blocked = Inr (Some d)"
    using encode_some [OF sample_ultra_fits] by (auto simp: sample_blocked_def)
  have rd: "read_record (\<lambda>k. None) None ''t1'' (write_doc (task_asdict sample_task)) = Inr sample_task"
    by (simp add: read_written [OF limits_agree_default sample_fits] task_roundtrip)
  have "save_blocked_after_restart (\<lambda>k. None) ''2025'' NotANumber sample_task sample_dir
      = Inr (True, [(''t1'', write_doc d)])"
    by (simp add: save_blocked_after_restart_def sample_blocked_eq task_save_def task_path_def id sample_id d sample_dir_def)
  then show ?thesis
    by (simp add: recover_tasks_def sample_dir_def rd id)
qed

lemma no_active_task_after_recovery_witness:
  "\<exists>dir'. recover_tasks (\<lambda>k. None) ''2025'' NotANumber sample_dir = (Inr 1, dir')
     \<and> task_iter_active (\<lambda>k. None) None None None False dir' = []"
proof -
  obtain dir' where r: "recover_tasks (\<lambda>k. None) ''2025'' NotANumber sample_dir = (Inr 1, dir')"
    using sample_recovery by blast
  from no_active_task_after_recovery [OF limits_agree_default sample_dir_inv sample_blocked_fits r] r show ?thesis
    by blast
qed

end
