(* ===== verification/ChatStream.thy ===== *)
theory ChatStream
  imports ChatTurn ChatRunRegistry Recovery
begin

text \<open>
  The rest of \<^verbatim>\<open>chat_api.py\<close>: the plain chat endpoint with its guard against a repeated request id, the event stream
  of a run (its keepalives, its deduplicated events, how it ends), reconnecting to a run, its status and its
  cancellation. The run itself (\<open>ChatTurn\<close>) works concurrently with its stream: what it and all other requests do to the
  bus and the registry between two steps of the stream is a function on both (\<open>meanwhile\<close>), and how it ends is a
  parameter. A client takes some number of writes and is gone for the next one. Step functions return \<open>Inr\<close> the state
  to go on from, or \<open>Inl\<close> the state when the client is found to be gone (\<^verbatim>\<open>SSEClientDisconnected\<close>).
\<close>

section \<open>The plain endpoint\<close>

text \<open>What a request id that is on record is answered with, if it is.\<close>

definition resubmitted :: "run_registry \<Rightarrow> jobj \<Rightarrow> (int \<times> jobj) option" where
  "resubmitted reg payload =
     (let rid = py_strip (str_or_empty (jget payload ''request_id'')) in
      if rid = [] then None
      else case registry_get reg rid (py_strip (str_or_empty (jget payload ''session_id''))) of
        None \<Rightarrow> None
      | Some run \<Rightarrow> (case (cr_terminal run, cr_final_payload run) of
          (True, Some final) \<Rightarrow> Some (200, final)
        | _ \<Rightarrow> Some (409, [(''error'', JStr ''duplicate_chat_request_id''),
            (''message'', JStr ''A chat run with this request_id already exists; reconnect to it instead of re-submitting.''),
            (''session_id'', JStr (cr_session_id run)), (''request_id'', JStr rid), (''state'', JStr (cr_state run))])))"

definition chat_handler ::
    "'o surroundings \<Rightarrow> (string \<times> jval) list \<Rightarrow> jval option \<Rightarrow> run_registry \<Rightarrow> 'o chat_world \<Rightarrow> chat_reply \<times> 'o chat_world" where
  "chat_handler sx author body reg w =
     (case body of
        Some (JObj payload) \<Rightarrow>
          (case resubmitted reg payload of
             Some (status, reply) \<Rightarrow> (if status = 200 then Answer200 reply else HttpError status reply, w)
           | None \<Rightarrow> handle_chat_payload sx author payload w)
      | _ \<Rightarrow> (HttpError 400 [(''error'', JStr ''invalid_json'')], w))"

section \<open>Writing to the client\<close>

datatype frame = Frame string jobj | Keepalive

record shared =
  sh_bus :: event_bus
  sh_runs :: run_registry

record stream =
  sm_frames :: "frame list"
  sm_takes :: nat
  sm_seen :: "string list"
  sm_last_write :: rat
  sm_shared :: shared

type_synonym step = "stream \<Rightarrow> stream + stream"

definition next_step :: "step \<Rightarrow> step \<Rightarrow> step" where
  "next_step f g s = (case f s of Inl s1 \<Rightarrow> Inl s1 | Inr s1 \<Rightarrow> g s1)"

definition write_frame :: "frame \<Rightarrow> step" where
  "write_frame fr s =
     (if sm_takes s = 0 then Inl s
      else Inr (s\<lparr>sm_frames := sm_frames s @ [fr], sm_takes := sm_takes s - 1\<rparr>))"

definition write_sse :: "string \<Rightarrow> jobj \<Rightarrow> step" where
  "write_sse event data = write_frame (Frame event data)"

definition set_runs :: "(run_registry \<Rightarrow> run_registry) \<Rightarrow> stream \<Rightarrow> stream" where
  "set_runs f s = s\<lparr>sm_shared := (sm_shared s)\<lparr>sh_runs := f (sh_runs (sm_shared s))\<rparr>\<rparr>"

definition keepalive_interval :: "string \<Rightarrow> ffloat" where
  "keepalive_interval env =
     (let raw = py_strip env in
      case (if raw = [] then Some (FFin 15) else parse_float raw) of
        None \<Rightarrow> FFin 15
      | Some (FFin v) \<Rightarrow> FFin (max 1 v)
      | Some (FInf False) \<Rightarrow> FInf False
      | Some _ \<Rightarrow> FFin 1)"

definition idle_due :: "ffloat \<Rightarrow> rat \<Rightarrow> bool" where
  "idle_due gap quiet = (case gap of FFin v \<Rightarrow> v \<le> quiet | _ \<Rightarrow> False)"

section \<open>Streaming a run's events\<close>

definition event_request_id :: "jobj \<Rightarrow> string" where
  "event_request_id event =
     py_str (py_or (jget event ''request_id'') (py_or (jget (obj_or_empty (jget event ''data'')) ''request_id'') (JStr [])))"

definition event_id_of :: "jobj \<Rightarrow> string" where
  "event_id_of event = str_or_empty (jget event ''id'')"

text \<open>\<^verbatim>\<open>_write_runtime_event_sse\<close> writes nothing for an event it has seen; the flag says whether it wrote.\<close>

definition repeated :: "stream \<Rightarrow> jobj \<Rightarrow> bool" where
  "repeated s event \<longleftrightarrow> event_id_of event \<noteq> [] \<and> event_id_of event \<in> set (sm_seen s)"

definition note_event :: "int \<Rightarrow> jobj \<Rightarrow> stream \<Rightarrow> stream" where
  "note_event now event s =
     (let s1 = (if event_id_of event = [] then s else s\<lparr>sm_seen := event_id_of event # sm_seen s\<rparr>);
          rid = event_request_id event
      in if rid = [] then s1 else set_runs (registry_record_event now rid event) s1)"

definition write_runtime_event :: "int \<Rightarrow> jobj \<Rightarrow> step" where
  "write_runtime_event now event s =
     (if repeated s event then Inr s else write_sse ''runtime_event'' event (note_event now event s))"

fun write_events :: "int \<Rightarrow> jobj list \<Rightarrow> step" where
  "write_events now [] s = Inr s"
| "write_events now (e # es) s = next_step (write_runtime_event now e) (write_events now es) s"

definition queue_of :: "nat \<Rightarrow> event_bus \<Rightarrow> jobj list" where
  "queue_of h bus = (case map_of (eb_subs bus) h of None \<Rightarrow> [] | Some sub \<Rightarrow> sub_queue sub)"

definition set_bus :: "(event_bus \<Rightarrow> event_bus) \<Rightarrow> stream \<Rightarrow> stream" where
  "set_bus f s = s\<lparr>sm_shared := (sm_shared s)\<lparr>sh_bus := f (sh_bus (sm_shared s))\<rparr>\<rparr>"

definition meanwhile :: "(shared \<Rightarrow> shared) \<Rightarrow> stream \<Rightarrow> stream" where
  "meanwhile m s = s\<lparr>sm_shared := m (sm_shared s)\<rparr>"

definition empty_queue :: "nat \<Rightarrow> event_bus \<Rightarrow> event_bus" where
  "empty_queue h bus = bus\<lparr>eb_subs := List.map (\<lambda>(k, sub). (k, if k = h then sub\<lparr>sub_queue := []\<rparr> else sub)) (eb_subs bus)\<rparr>"

text \<open>A write lets other tasks run, so the queue may be filled while it is drained: once per element of the list.\<close>

fun drain_queue :: "nat \<Rightarrow> int \<Rightarrow> (shared \<Rightarrow> shared) list \<Rightarrow> step" where
  "drain_queue h now [] s =
     write_events now (queue_of h (sh_bus (sm_shared s))) (set_bus (empty_queue h) s)"
| "drain_queue h now (m # ms) s =
     (case take_event h (sh_bus (sm_shared s)) of
        (None, bus) \<Rightarrow> Inr s
      | (Some event, bus) \<Rightarrow>
          next_step (write_runtime_event now event) (\<lambda>s1. drain_queue h now ms (meanwhile m s1)) (set_bus (\<lambda>_. bus) s))"

text \<open>One round of the loop: what happened while it waited, the wall clock, and the monotonic clock before and after a write.\<close>

record tick =
  tk_meanwhile :: "shared \<Rightarrow> shared"
  tk_now :: int
  tk_read :: rat
  tk_written :: rat

definition wrote_at :: "rat \<Rightarrow> step" where
  "wrote_at t s = Inr (s\<lparr>sm_last_write := t\<rparr>)"

definition keepalive_if_due :: "ffloat \<Rightarrow> tick \<Rightarrow> step" where
  "keepalive_if_due gap tk s =
     (if idle_due gap (tk_read tk - sm_last_write s)
      then next_step (write_frame Keepalive) (wrote_at (tk_written tk)) s else Inr s)"

definition stream_tick :: "ffloat \<Rightarrow> nat \<Rightarrow> tick \<Rightarrow> step" where
  "stream_tick gap h tk s0 =
     (let s = meanwhile (tk_meanwhile tk) s0 in
      case take_event h (sh_bus (sm_shared s)) of
        (None, bus) \<Rightarrow> keepalive_if_due gap tk s
      | (Some event, bus) \<Rightarrow>
          let s1 = set_bus (\<lambda>_. bus) s in
          if repeated s1 event then keepalive_if_due gap tk s1
          else next_step (write_runtime_event (tk_now tk) event) (wrote_at (tk_written tk)) s1)"

text \<open>The ticks are the rounds in which the run is not done yet.\<close>

fun stream_loop :: "ffloat \<Rightarrow> nat \<Rightarrow> tick list \<Rightarrow> step" where
  "stream_loop gap h [] s = Inr s"
| "stream_loop gap h (tk # tks) s = next_step (stream_tick gap h tk) (stream_loop gap h tks) s"

definition stream_events_until_done :: "ffloat \<Rightarrow> nat \<Rightarrow> tick list \<Rightarrow> int \<Rightarrow> (shared \<Rightarrow> shared) list \<Rightarrow> step" where
  "stream_events_until_done gap h tks now ms = next_step (stream_loop gap h tks) (drain_queue h now ms)"

section \<open>How a stream ends\<close>

datatype task_end = Returned jobj | HttpFailed string string | Crashed string | Cancelled

record stream_setting =
  ss_agent_id :: string
  ss_keepalive :: string
  ss_uuid :: string
  ss_stamp :: "string \<times> pyfloat"
  ss_start :: int
  ss_end :: int
  ss_began :: rat
  ss_task :: nat
  ss_takes :: nat
  ss_ticks :: "tick list"
  ss_drains :: "(shared \<Rightarrow> shared) list"
  ss_task_end :: task_end
  ss_callback_first :: bool
  ss_error_text :: "py_error \<Rightarrow> string"

definition ids_fields :: "string \<Rightarrow> string \<Rightarrow> jobj" where
  "ids_fields sid rid = [(''session_id'', JStr sid), (''request_id'', JStr rid)]"

definition error_fields :: "string \<Rightarrow> string \<Rightarrow> string \<Rightarrow> string \<Rightarrow> jobj" where
  "error_fields error detail sid rid = [(''error'', JStr error), (''detail'', JStr detail)] @ ids_fields sid rid"

definition error_of :: "jobj \<Rightarrow> jval" where
  "error_of p = py_or (jget p ''error'') (JStr ''chat_failed'')"

definition stream_error_final_payload :: "jobj \<Rightarrow> string \<Rightarrow> string \<Rightarrow> jobj list \<Rightarrow> jobj" where
  "stream_error_final_payload error sid rid events =
     [(''ok'', JBool False), (''completion_state'', JStr ''error''), (''incomplete_reason'', JStr (py_str (error_of error)))]
     @ ids_fields sid rid
     @ [(''response'', JStr (py_str (py_or (jget error ''detail'') (error_of error)))),
        (''events'', JList (List.map JObj events)), (''runtime_events'', JList (List.map JObj events)), (''usage'', JObj []),
        (''metadata'', JObj []),
        (''context_state'', JObj (context_state (str_or_empty (jget error ''detail'')) ''failed'' (py_str (error_of error)))),
        (''_llm_debug'', JObj [(''engine'', JStr ''opencode'')])]"

definition stream_failure_event :: "stream_setting \<Rightarrow> string \<Rightarrow> string \<Rightarrow> jobj \<Rightarrow> jobj" where
  "stream_failure_event ss sid rid error =
     event_payload (ss_stamp ss) \<lparr>eh_session_id = sid, eh_request_id = rid, eh_opencode_session_id = []\<rparr>
       (build_trace_context (ss_agent_id ss) (no_trace\<lparr>ta_request_id := JStr rid, ta_session_id := JStr sid\<rparr>))
       ''execution.failed'' ''failed'' (py_str (py_or (jget error ''detail'') (error_of error)))
       [(''error'', error_of error), (''detail'', py_or (jget error ''detail'') (JStr []))]"

definition http_error_payload :: "string \<Rightarrow> string \<Rightarrow> string \<Rightarrow> string \<Rightarrow> jobj" where
  "http_error_payload said reason sid rid =
     (let detail = nonempty_or said (nonempty_or reason ''chat_failed'') in
      case json_loads detail of
        Some (JObj p) \<Rightarrow> error_fields (py_str (error_of p))
          (py_str (py_or (jget p ''detail'') (py_or (jget p ''error'') (JStr detail)))) sid rid
      | _ \<Rightarrow> error_fields ''chat_failed'' detail sid rid)"

text \<open>The frames of a failure: its event, the error, the final payload, and the end.\<close>

definition write_failure :: "stream_setting \<Rightarrow> string \<Rightarrow> string \<Rightarrow> jobj \<Rightarrow> step" where
  "write_failure ss sid rid error =
     (let event = stream_failure_event ss sid rid error in
      next_step (write_sse ''runtime_event'' event)
     (next_step (write_sse ''error'' error)
     (next_step (write_sse ''final'' (stream_error_final_payload error sid rid [event]))
      (write_sse ''done'' [(''ok'', JBool True)]))))"

text \<open>The callback of a finished run.\<close>

definition record_task_done :: "stream_setting \<Rightarrow> string \<Rightarrow> string \<Rightarrow> run_registry \<Rightarrow> run_registry" where
  "record_task_done ss sid rid reg =
     (let crashed = (\<lambda>said. registry_fail (ss_end ss) rid (error_fields ''chat_failed'' (preview_text said 500) sid rid) reg) in
      case ss_task_end ss of
        Returned p \<Rightarrow> (case registry_complete (ss_end ss) rid p reg of Inr reg1 \<Rightarrow> reg1 | Inl e \<Rightarrow> crashed (ss_error_text ss e))
      | Cancelled \<Rightarrow> registry_fail (ss_end ss) rid ((''error'', JStr ''chat_cancelled'') # ids_fields sid rid) reg
      | HttpFailed said reason \<Rightarrow> crashed reason
      | Crashed said \<Rightarrow> crashed said)"

text \<open>How the stream leaves the client: ended properly, gone before the end, or cut off by an exception.\<close>

datatype stream_close = Ended | ClientGone | CutOff

definition with_registry :: "(run_registry \<Rightarrow> run_registry) \<Rightarrow> stream_close \<times> stream \<Rightarrow> stream_close \<times> stream" where
  "with_registry f r = (fst r, set_runs f (snd r))"

definition client_left :: "stream_setting \<Rightarrow> string \<Rightarrow> stream \<Rightarrow> stream_close \<times> stream" where
  "client_left ss rid s = (ClientGone, set_runs (registry_mark_detached (ss_end ss) rid) s)"

text \<open>A client that leaves while the failure is written is not counted as detached.\<close>

definition fail_stream :: "stream_setting \<Rightarrow> string \<Rightarrow> string \<Rightarrow> jobj \<Rightarrow> stream \<Rightarrow> stream_close \<times> stream" where
  "fail_stream ss sid rid error s =
     (case write_failure ss sid rid error (set_runs (registry_fail (ss_end ss) rid error) s) of
        Inl s1 \<Rightarrow> (ClientGone, s1) | Inr s1 \<Rightarrow> (Ended, s1))"

definition finish_stream :: "stream_setting \<Rightarrow> string \<Rightarrow> string \<Rightarrow> nat \<Rightarrow> stream \<Rightarrow> stream_close \<times> stream" where
  "finish_stream ss sid rid h s =
     (case ss_task_end ss of
        Cancelled \<Rightarrow> (CutOff, s)
      | HttpFailed said reason \<Rightarrow> fail_stream ss sid rid (http_error_payload said reason sid rid) s
      | Crashed said \<Rightarrow> fail_stream ss sid rid (error_fields ''chat_failed'' (preview_text said 500) sid rid) s
      | Returned final \<Rightarrow>
          (case drain_queue h (ss_end ss) [] s of
             Inl s1 \<Rightarrow> client_left ss rid s1
           | Inr s1 \<Rightarrow> (case registry_complete (ss_end ss) rid final (sh_runs (sm_shared s1)) of
               Inl e \<Rightarrow> fail_stream ss sid rid (error_fields ''chat_failed'' (preview_text (ss_error_text ss e) 500) sid rid) s1
             | Inr reg \<Rightarrow>
                 (case next_step (write_sse ''final'' final) (write_sse ''done'' [(''ok'', JBool True)]) (set_runs (\<lambda>_. reg) s1) of
                    Inl s2 \<Rightarrow> client_left ss rid s2 | Inr s2 \<Rightarrow> (Ended, s2)))))"

definition started_frame :: "string \<Rightarrow> string \<Rightarrow> jobj" where
  "started_frame sid rid = ids_fields sid rid @ [(''chatlog_id'', JStr rid), (''completion_state'', JStr ''running'')]"

text \<open>The callback of the run and the stream's own end come in either order.\<close>

definition run_stream :: "stream_setting \<Rightarrow> string \<Rightarrow> string \<Rightarrow> nat \<Rightarrow> stream \<Rightarrow> stream_close \<times> stream" where
  "run_stream ss sid rid h s0 =
     (case next_step (write_sse ''chat.started'' (started_frame sid rid))
             (stream_events_until_done (keepalive_interval (ss_keepalive ss)) h (ss_ticks ss) (ss_end ss) (ss_drains ss)) s0 of
        Inl s \<Rightarrow> client_left ss rid s
      | Inr s \<Rightarrow>
          if ss_callback_first ss then finish_stream ss sid rid h (set_runs (record_task_done ss sid rid) s)
          else with_registry (record_task_done ss sid rid) (finish_stream ss sid rid h s))"

section \<open>The status of a run\<close>

definition chatlog_state :: "string \<Rightarrow> string" where
  "chatlog_state status =
     (if status \<in> {''success'', ''completed'', ''complete''} then ''completed''
      else if status \<in> set RUNNING_CHATLOG_STATUSES then ''running''
      else if status \<in> {''cancelled'', ''canceled''} then ''cancelled''
      else if status \<noteq> [] then ''failed'' else ''unknown'')"

definition list_field :: "jval \<Rightarrow> jval" where
  "list_field v = (case v of JList xs \<Rightarrow> v | _ \<Rightarrow> JList [])"

definition entry_final_payload :: "string \<Rightarrow> string \<Rightarrow> string \<Rightarrow> jobj \<Rightarrow> jobj" where
  "entry_final_payload sid rid state entry =
     [(''ok'', JBool (state = ''completed'')), (''completion_state'', JStr state)] @ ids_fields sid rid
     @ [(''response'', JStr (str_or_empty (jget entry ''response''))), (''events'', list_field (jget entry ''events'')),
        (''runtime_events'', list_field (jget entry ''runtime_events'')),
        (''context_state'', case jget entry ''context_state'' of JObj d \<Rightarrow> JObj d | _ \<Rightarrow> JNull),
        (''_llm_debug'', JObj (obj_or_empty (jget entry ''llm_debug'')))]"

definition entry_status :: "string \<Rightarrow> string \<Rightarrow> jobj \<Rightarrow> jobj \<Rightarrow> jobj" where
  "entry_status sid rid chatlog entry =
     (let state = chatlog_state (py_lower (py_strip (str_or_empty (jget entry ''status''))));
          final = entry_final_payload sid rid state entry;
          stamp = JStr (py_str (py_or (jget entry ''updated_at'') (py_or (jget chatlog ''updated_at'') (JStr []))))
      in [(''ok'', JBool True), (''engine'', JStr ''opencode'')] @ ids_fields sid rid
         @ [(''state'', JStr state), (''terminal'', JBool (state \<in> set TERMINAL_STATES)),
            (''started_at'', JStr (str_or_empty (jget entry ''started_at''))), (''updated_at'', stamp), (''latest_event_at'', stamp),
            (''latest_event_seq'', JInt 0), (''replay_available'', JBool (truthy (jget final ''runtime_events''))),
            (''final_payload'', if state \<in> set TERMINAL_STATES then JObj final else JNull),
            (''source_of_truth'', JStr ''chatlog'')])"

text \<open>The last entry of the request; \<open>chatlog\<close> is what the chat log store returned, \<^verbatim>\<open>None\<close> when it raised.\<close>

definition chatlog_run_status :: "jval option \<Rightarrow> string \<Rightarrow> string \<Rightarrow> jobj option" where
  "chatlog_run_status chatlog sid rid =
     (case chatlog of
        Some (JObj doc) \<Rightarrow> (case jget doc ''entries'' of
          JList entries \<Rightarrow>
            (case filter (\<lambda>e. is_obj e \<and> str_or_empty (jget (obj_or_empty e) ''request_id'') = rid) (rev entries) of
               [] \<Rightarrow> None | e # _ \<Rightarrow> Some (entry_status sid rid doc (obj_or_empty e)))
        | _ \<Rightarrow> None)
      | _ \<Rightarrow> None)"

definition chat_run_status_payload :: "run_registry \<Rightarrow> jval option \<Rightarrow> string \<Rightarrow> string \<Rightarrow> jobj" where
  "chat_run_status_payload reg chatlog sid rid =
     (case registry_get reg rid sid of
        Some run \<Rightarrow> chat_run_payload run @ [(''source_of_truth'', JStr ''run_registry'')]
      | None \<Rightarrow> (case chatlog_run_status chatlog sid rid of
          Some status \<Rightarrow> status
        | None \<Rightarrow> [(''ok'', JBool False), (''engine'', JStr ''opencode'')] @ ids_fields sid rid
            @ [(''state'', JStr ''unknown''), (''terminal'', JBool False), (''replay_available'', JBool False),
               (''error'', JStr ''chat_run_not_found'')]))"

definition chat_run_status_handler :: "run_registry \<Rightarrow> jval option \<Rightarrow> string \<Rightarrow> string \<Rightarrow> int \<times> jobj" where
  "chat_run_status_handler reg chatlog rid0 sid0 =
     (let rid = py_strip rid0; sid = py_strip sid0 in
      if rid = [] then (400, [(''ok'', JBool False), (''error'', JStr ''request_id_required'')])
      else let payload = chat_run_status_payload reg chatlog sid rid
           in (if jget payload ''error'' = JStr ''chat_run_not_found'' then 404 else 200, payload))"

section \<open>Cancelling a run\<close>

text \<open>
  The abort at OpenCode is asked for first and its answer is a parameter (\<open>Inl\<close> the text of an exception). While it is
  awaited other requests act on the registry (\<open>act\<close>); \<open>held\<close> is what they make of the record in hand. The result has the
  OpenCode session asked to abort, if any, and the task told to cancel.
\<close>

record cancel_world =
  cx_sessions :: session_store
  cx_answer :: "string + jobj"
  cx_act :: "run_registry \<Rightarrow> run_registry"
  cx_held :: "chat_run \<Rightarrow> chat_run"
  cx_done :: "nat \<Rightarrow> bool"

record cancel_result =
  cz_status :: int
  cz_reply :: jobj
  cz_aborted :: "string option"
  cz_task :: "nat option"

definition session_to_abort :: "session_store \<Rightarrow> string \<Rightarrow> string" where
  "session_to_abort st sid = (case session_get st sid of None \<Rightarrow> [] | Some r \<Rightarrow> sr_opencode_session_id r)"

definition cancel_known_run :: "int \<Rightarrow> cancel_world \<Rightarrow> string \<Rightarrow> chat_run \<Rightarrow> run_registry \<Rightarrow> cancel_result \<times> run_registry" where
  "cancel_known_run now cx rid run reg =
     (let oid = session_to_abort (cx_sessions cx) (cr_session_id run);
          asked = (oid \<noteq> []);
          remote = (if \<not> asked then [] else case cx_answer cx of
             Inl e \<Rightarrow> [(''error'', JStr (preview_text e 500))] | Inr answer \<Rightarrow> answer);
          reg1 = (if asked then cx_act cx reg else reg);
          run1 = (if asked then cx_held cx run else run);
          (cancelled, task, reg2) = registry_cancel now (cx_done cx) rid reg1
      in (\<lparr>cz_status = 200, cz_reply =
            [(''ok'', JBool cancelled), (''engine'', JStr ''opencode''), (''request_id'', JStr rid),
             (''session_id'', JStr (cr_session_id run)), (''state'', JStr (if cancelled then ''cancelled'' else cr_state run1)),
             (''terminal'', JBool (cancelled \<or> cr_terminal run1)), (''remote_cancel'', JObj remote)],
            cz_aborted = (if asked then Some oid else None), cz_task = task\<rparr>, reg2))"

definition refuse_cancel :: "int \<Rightarrow> jobj \<Rightarrow> cancel_result" where
  "refuse_cancel status reply = \<lparr>cz_status = status, cz_reply = reply, cz_aborted = None, cz_task = None\<rparr>"

definition chat_run_cancel_handler :: "int \<Rightarrow> cancel_world \<Rightarrow> string \<Rightarrow> string \<Rightarrow> run_registry \<Rightarrow> cancel_result \<times> run_registry" where
  "chat_run_cancel_handler now cx rid0 sid0 reg =
     (let rid = py_strip rid0; sid = py_strip sid0 in
      if rid = [] then (refuse_cancel 400 [(''ok'', JBool False), (''error'', JStr ''request_id_required'')], reg)
      else case registry_get reg rid sid of
        None \<Rightarrow> (refuse_cancel 404 [(''ok'', JBool False), (''error'', JStr ''chat_run_not_found''), (''request_id'', JStr rid),
                   (''session_id'', JStr sid)], reg)
      | Some run \<Rightarrow> cancel_known_run now cx rid run reg)"

section \<open>Reconnecting, and the stream endpoint\<close>

text \<open>One round of following a run: what happened since the last, and what the chat log store holds.\<close>

type_synonym follow = "(shared \<Rightarrow> shared) \<times> jval option"

definition end_follow :: "stream + stream \<Rightarrow> (stream_close \<times> stream) option" where
  "end_follow r = Some (case r of Inl s \<Rightarrow> (ClientGone, s) | Inr s \<Rightarrow> (Ended, s))"

definition write_final_if :: "jval \<Rightarrow> step" where
  "write_final_if v = (case v of JObj final \<Rightarrow> write_sse ''final'' final | _ \<Rightarrow> Inr)"

definition follow_done :: "bool \<Rightarrow> string \<Rightarrow> string \<Rightarrow> step" where
  "follow_done ok sid rid = write_sse ''done'' ((''ok'', JBool ok) # ids_fields sid rid)"

text \<open>\<open>None\<close> when the rounds end before the run does.\<close>

fun follow_run :: "string \<Rightarrow> string \<Rightarrow> follow list \<Rightarrow> stream \<Rightarrow> (stream_close \<times> stream) option" where
  "follow_run sid rid [] s = None"
| "follow_run sid rid ((m, chatlog) # rounds) s0 =
     (let s = meanwhile m s0; payload = chat_run_status_payload (sh_runs (sm_shared s)) chatlog sid rid in
      case write_sse ''run_status'' payload s of
        Inl s1 \<Rightarrow> Some (ClientGone, s1)
      | Inr s1 \<Rightarrow>
          if truthy (jget payload ''terminal'')
          then end_follow (next_step (write_final_if (jget payload ''final_payload'')) (follow_done True sid rid) s1)
          else if jget payload ''state'' = JStr ''unknown'' then end_follow (follow_done False sid rid s1)
          else follow_run sid rid rounds s1)"

definition detach_if_gone :: "int \<Rightarrow> string \<Rightarrow> stream_close \<times> stream \<Rightarrow> stream_close \<times> stream" where
  "detach_if_gone now rid r =
     (if fst r = ClientGone then with_registry (registry_mark_detached now rid) r else r)"

definition resumed_frame :: "string \<Rightarrow> string \<Rightarrow> jobj" where
  "resumed_frame sid rid = ids_fields sid rid @ [(''completion_state'', JStr ''running''), (''resumed'', JBool True)]"

definition stream_existing_run :: "int \<Rightarrow> string \<Rightarrow> string \<Rightarrow> follow list \<Rightarrow> stream \<Rightarrow> (stream_close \<times> stream) option" where
  "stream_existing_run now sid rid rounds s =
     map_option (detach_if_gone now rid)
       (case write_sse ''chat.started'' (resumed_frame sid rid) s of
          Inl s1 \<Rightarrow> Some (ClientGone, s1) | Inr s1 \<Rightarrow> follow_run sid rid rounds s1)"

definition open_stream :: "stream_setting \<Rightarrow> shared \<Rightarrow> stream" where
  "open_stream ss sh = \<lparr>sm_frames = [], sm_takes = ss_takes ss, sm_seen = [], sm_last_write = ss_began ss, sm_shared = sh\<rparr>"

definition stream_error_response :: "stream_setting \<Rightarrow> string \<Rightarrow> string option \<Rightarrow> string \<Rightarrow> string \<Rightarrow> stream \<Rightarrow> stream_close \<times> stream" where
  "stream_error_response ss error detail sid rid s =
     (case write_failure ss sid rid (error_fields error (case detail of Some d \<Rightarrow> nonempty_or d error | None \<Rightarrow> error) sid rid) s of
        Inl s1 \<Rightarrow> (ClientGone, s1) | Inr s1 \<Rightarrow> (Ended, s1))"

definition begin_run :: "stream_setting \<Rightarrow> string \<Rightarrow> string \<Rightarrow> shared \<Rightarrow> nat \<times> shared" where
  "begin_run ss sid rid sh =
     (let (h, bus) = subscribe [(''session_id'', sid), (''request_id'', rid)] (sh_bus sh)
      in (h, \<lparr>sh_bus = bus, sh_runs = registry_attach_task (ss_start ss) rid (ss_task ss)
               (snd (registry_start (ss_start ss) sid rid (sh_runs sh)))\<rparr>))"

definition close_subscription :: "nat \<Rightarrow> stream_close \<times> stream \<Rightarrow> stream_close \<times> stream" where
  "close_subscription h r = (fst r, set_bus (unsubscribe h) (snd r))"

text \<open>The result: the payload a new run was started with, if one was, and the stream (\<open>None\<close> while it follows a run).\<close>

definition stream_for :: "stream_setting \<Rightarrow> follow list \<Rightarrow> jobj \<Rightarrow> string \<Rightarrow> string \<Rightarrow> shared \<Rightarrow> jobj option \<times> (stream_close \<times> stream) option" where
  "stream_for ss rounds payload0 sid rid sh =
     (let payload = AList.update ''request_id'' (JStr rid) (AList.update ''session_id'' (JStr sid) payload0) in
      if registry_get (sh_runs sh) rid sid \<noteq> None \<or> jget payload ''reconnect'' = JBool True
      then (None, stream_existing_run (ss_end ss) sid rid rounds (open_stream ss sh))
      else case begin_run ss sid rid sh of (h, sh1) \<Rightarrow>
        (Some payload, Some (close_subscription h (run_stream ss sid rid h (open_stream ss sh1)))))"

definition bad_ids_text :: "raised \<Rightarrow> string" where
  "bad_ids_text e = (case e of BadRequest code \<Rightarrow> spaced_dumps (JObj [(''error'', JStr code)]) | _ \<Rightarrow> [])"

definition chat_stream_handler ::
    "stream_setting \<Rightarrow> follow list \<Rightarrow> jval option \<Rightarrow> shared \<Rightarrow> jobj option \<times> (stream_close \<times> stream) option" where
  "chat_stream_handler ss rounds body sh =
     (case body of
        Some (JObj payload) \<Rightarrow>
          (let refused = (\<lambda>e. (None, Some (stream_error_response ss ''chat_failed'' (Some (bad_ids_text e))
                 (str_or_empty (jget payload ''session_id'')) (str_or_empty (jget payload ''request_id'')) (open_stream ss sh))))
           in case portal_session_id_from_payload (ss_uuid ss) payload of
             Inl e \<Rightarrow> refused e
           | Inr sid \<Rightarrow> (case request_id_from_payload (ss_uuid ss) payload of
               Inl e \<Rightarrow> refused e
             | Inr rid \<Rightarrow> stream_for ss rounds payload sid rid sh))
      | _ \<Rightarrow> (None, Some (stream_error_response ss ''invalid_json'' None [] [] (open_stream ss sh))))"

section \<open>What every step of a stream keeps\<close>

definition reached :: "stream + stream \<Rightarrow> stream" where
  "reached r = (case r of Inl s \<Rightarrow> s | Inr s \<Rightarrow> s)"

definition maintains :: "(stream \<Rightarrow> bool) \<Rightarrow> step \<Rightarrow> bool" where
  "maintains I f \<longleftrightarrow> (\<forall>s. I s \<longrightarrow> I (reached (f s)))"

lemma reached_simps [simp]: "reached (Inl s) = s" "reached (Inr s) = s"
  by (simp_all add: reached_def)

lemma maintains_next [intro]:
  assumes "maintains I f" "maintains I g" shows "maintains I (next_step f g)"
  unfolding maintains_def
proof (intro allI impI)
  fix s assume "I s"
  with assms(1) have "I (reached (f s))" by (simp add: maintains_def)
  with assms(2) show "I (reached (next_step f g s))"
    by (cases "f s") (simp_all add: maintains_def next_step_def)
qed

text \<open>
  An invariant of streams: what the other tasks may do meanwhile (\<open>others\<close>) keeps it, and so do the stream's own moves,
  taking an event from its queue, writing one it has not seen, and writing a keepalive.
\<close>

locale stream_invariant =
  fixes I :: "stream \<Rightarrow> bool" and others :: "(shared \<Rightarrow> shared) set"
  assumes meanwhile_keeps: "m \<in> others \<Longrightarrow> I s \<Longrightarrow> I (meanwhile m s)"
    and bus_keeps: "I s \<Longrightarrow> I (set_bus f s)"
    and event_keeps: "\<not> repeated s e \<Longrightarrow> I s \<Longrightarrow> I (reached (write_sse ''runtime_event'' e (note_event now e s)))"
    and keepalive_keeps: "I s \<Longrightarrow> I (reached (write_frame Keepalive s))"
    and wrote_keeps: "I s \<Longrightarrow> I (s\<lparr>sm_last_write := t\<rparr>)"
begin

lemma runtime_event: "maintains I (write_runtime_event now e)"
  by (auto simp: maintains_def write_runtime_event_def intro: event_keeps)

lemma all_events: "maintains I (write_events now es)"
proof (induction es)
  case (Cons e es)
  then have "maintains I (next_step (write_runtime_event now e) (write_events now es))"
    by (intro maintains_next runtime_event)
  then show ?case by (simp add: maintains_def)
qed (simp add: maintains_def)

lemma drained: "set ms \<subseteq> others \<Longrightarrow> maintains I (drain_queue h now ms)"
proof (induction ms)
  case Nil
  show ?case using all_events by (auto simp: maintains_def intro: bus_keeps)
next
  case (Cons m ms)
  have "maintains I (\<lambda>s. drain_queue h now ms (meanwhile m s))"
    using Cons by (auto simp: maintains_def intro: meanwhile_keeps)
  then have "maintains I (next_step (write_runtime_event now e) (\<lambda>s. drain_queue h now ms (meanwhile m s)))" for e
    by (intro maintains_next runtime_event)
  then show ?case by (auto simp: maintains_def bus_keeps split: prod.split option.split)
qed

lemma wrote: "maintains I (wrote_at t)"
  by (simp add: maintains_def wrote_at_def wrote_keeps)

lemma kept_alive: "maintains I (keepalive_if_due gap tk)"
proof -
  have "maintains I (next_step (write_frame Keepalive) (wrote_at t))" for t
    by (intro maintains_next wrote) (simp add: maintains_def keepalive_keeps)
  then show ?thesis by (simp add: maintains_def keepalive_if_due_def)
qed

lemma ticked: "tk_meanwhile tk \<in> others \<Longrightarrow> maintains I (stream_tick gap h tk)"
proof -
  assume other: "tk_meanwhile tk \<in> others"
  have written: "maintains I (next_step (write_runtime_event now e) (wrote_at t))" for now e t
    by (intro maintains_next wrote runtime_event)
  show ?thesis
    using written kept_alive [of gap tk] other
    by (auto simp: maintains_def stream_tick_def Let_def bus_keeps meanwhile_keeps split: prod.split option.split)
qed

lemma looped: "tk_meanwhile ` set tks \<subseteq> others \<Longrightarrow> maintains I (stream_loop gap h tks)"
proof (induction tks)
  case (Cons tk tks)
  then have "maintains I (next_step (stream_tick gap h tk) (stream_loop gap h tks))" by (intro maintains_next ticked) auto
  then show ?case by (simp add: maintains_def)
qed (simp add: maintains_def)

lemma streamed:
  "tk_meanwhile ` set tks \<subseteq> others \<Longrightarrow> set ms \<subseteq> others \<Longrightarrow> maintains I (stream_events_until_done gap h tks now ms)"
  unfolding stream_events_until_done_def by (intro maintains_next looped drained)

end

text \<open>The ids of the events a stream has written are distinct and seen.\<close>

fun frame_id :: "frame \<Rightarrow> string list" where
  "frame_id (Frame kind event) = (if kind = ''runtime_event'' \<and> event_id_of event \<noteq> [] then [event_id_of event] else [])"
| "frame_id Keepalive = []"

definition streamed_ids :: "stream \<Rightarrow> string list" where
  "streamed_ids s = concat (List.map frame_id (sm_frames s))"

definition once :: "stream \<Rightarrow> bool" where
  "once s \<longleftrightarrow> distinct (streamed_ids s) \<and> set (streamed_ids s) \<subseteq> set (sm_seen s)"

lemma stream_parts [simp]:
  "sm_frames (set_runs f s) = sm_frames s" "sm_seen (set_runs f s) = sm_seen s" "sm_takes (set_runs f s) = sm_takes s"
  "sm_frames (set_bus g s) = sm_frames s" "sm_seen (set_bus g s) = sm_seen s" "sm_takes (set_bus g s) = sm_takes s"
  "sm_frames (meanwhile m s) = sm_frames s" "sm_seen (meanwhile m s) = sm_seen s" "sm_takes (meanwhile m s) = sm_takes s"
  by (simp_all add: set_runs_def set_bus_def meanwhile_def)

lemma note_event_parts [simp]:
  "sm_frames (note_event now e s) = sm_frames s" "sm_takes (note_event now e s) = sm_takes s"
  "sm_seen (note_event now e s) = (if event_id_of e = [] then sm_seen s else event_id_of e # sm_seen s)"
  by (simp_all add: note_event_def Let_def)

interpretation once: stream_invariant once UNIV
  by unfold_locales
     (auto simp: once_def streamed_ids_def repeated_def write_sse_def write_frame_def split: if_splits)

text \<open>What a run on record came to. A stream only ever stamps its record.\<close>

definition run_outcome :: "string \<Rightarrow> run_registry \<Rightarrow> (string \<times> nat option \<times> jobj option \<times> jobj option) option" where
  "run_outcome rid reg =
     map_option (\<lambda>r. (cr_state r, cr_task r, cr_final_payload r, cr_error_payload r)) (map_of (rr_records reg) rid)"

definition leaves_run :: "string \<Rightarrow> (shared \<Rightarrow> shared) set" where
  "leaves_run rid = {m. \<forall>sh. registry_inv (sh_runs sh) \<longrightarrow>
     registry_inv (sh_runs (m sh)) \<and> run_outcome rid (sh_runs (m sh)) = run_outcome rid (sh_runs sh)}"

lemma outcome_set_run:
  "run_outcome rid (set_run r reg) =
     (if cr_request_id r = rid then Some (cr_state r, cr_task r, cr_final_payload r, cr_error_payload r) else run_outcome rid reg)"
  by (simp add: run_outcome_def set_run_def)

lemma get_stored: "registry_get reg rid sid = Some r \<Longrightarrow> map_of (rr_records reg) (py_strip rid) = Some r"
  by (auto simp: registry_get_def Let_def split: if_splits option.splits)

lemma outcome_same_run:
  assumes "registry_inv reg" "registry_get reg rid' sid = Some r" "cr_request_id r' = cr_request_id r" "cr_state r' = cr_state r"
    "cr_task r' = cr_task r" "cr_final_payload r' = cr_final_payload r" "cr_error_payload r' = cr_error_payload r"
  shows "run_outcome rid (set_run r' reg) = run_outcome rid reg"
  using get_id [OF assms(1,2)] get_stored [OF assms(2)] assms(3-7) by (simp only: outcome_set_run) (auto simp: run_outcome_def)

lemma outcome_event:
  assumes "registry_inv reg"
  shows "run_outcome rid (registry_record_event now r e reg) = run_outcome rid reg"
  by (auto simp: registry_record_event_def intro!: outcome_same_run [OF assms] split: option.split)

lemma outcome_detached:
  assumes "registry_inv reg"
  shows "run_outcome rid (registry_mark_detached now r reg) = run_outcome rid reg"
  by (auto simp: registry_mark_detached_def intro!: outcome_same_run [OF assms] split: option.split)

lemma event_inv: "registry_inv reg \<Longrightarrow> registry_inv (registry_record_event now rid e reg)"
  by (auto simp: registry_record_event_def intro!: set_run_inv split: option.split)

lemma detached_inv: "registry_inv reg \<Longrightarrow> registry_inv (registry_mark_detached now rid reg)"
  by (auto simp: registry_mark_detached_def intro!: set_run_inv split: option.split)

definition stands :: "string \<Rightarrow> (string \<times> nat option \<times> jobj option \<times> jobj option) option \<Rightarrow> stream \<Rightarrow> bool" where
  "stands rid x s \<longleftrightarrow> registry_inv (sh_runs (sm_shared s)) \<and> run_outcome rid (sh_runs (sm_shared s)) = x"

lemma shared_written [simp]: "sm_shared (reached (write_frame f s)) = sm_shared s"
  by (simp add: write_frame_def)

lemma stands_written [simp]: "stands rid x (reached (write_frame f s)) = stands rid x s"
  by (simp add: stands_def)

lemma runs_noted: "sh_runs (sm_shared (note_event now e s)) = (if event_request_id e = [] then sh_runs (sm_shared s)
    else registry_record_event now (event_request_id e) e (sh_runs (sm_shared s)))"
  by (simp add: note_event_def Let_def set_runs_def)

interpretation stands: stream_invariant "stands rid x" "leaves_run rid"
proof unfold_locales
  show "stands rid x (meanwhile m s)" if "m \<in> leaves_run rid" "stands rid x s" for m s
    using that by (simp add: stands_def leaves_run_def meanwhile_def)
  show "stands rid x (set_bus f s)" if "stands rid x s" for f s
    using that by (simp add: stands_def set_bus_def)
  show "stands rid x (reached (write_sse ''runtime_event'' e (note_event now e s)))" if "stands rid x s" for e now s
    using that by (simp add: write_sse_def) (simp add: stands_def runs_noted outcome_event event_inv)
  show "stands rid x (reached (write_frame Keepalive s))" if "stands rid x s" for s using that by simp
  show "stands rid x (s\<lparr>sm_last_write := t\<rparr>)" if "stands rid x s" for s t using that by (simp add: stands_def)
qed

section \<open>Properties\<close>

lemma emptied_queue: "queue_of h (empty_queue h bus) = []"
proof -
  have "map_of (List.map (\<lambda>(k, sub). (k, if k = h then sub\<lparr>sub_queue := []\<rparr> else sub)) subs) h
      = map_option (\<lambda>sub. sub\<lparr>sub_queue := []\<rparr>) (map_of subs h)" for subs
    by (induction subs) auto
  note this [of "eb_subs bus"]
  then show ?thesis by (cases "map_of (eb_subs bus) h") (simp_all add: queue_of_def empty_queue_def)
qed

lemma bus_noted: "sh_bus (sm_shared (note_event now e s)) = sh_bus (sm_shared s)"
  by (simp add: note_event_def Let_def set_runs_def)

lemma bus_written: "maintains (\<lambda>s. sh_bus (sm_shared s) = b) (write_events now es)"
proof (induction es)
  case (Cons e es)
  have "maintains (\<lambda>s. sh_bus (sm_shared s) = b) (write_runtime_event now e)"
    by (simp add: maintains_def write_runtime_event_def write_sse_def bus_noted)
  then have "maintains (\<lambda>s. sh_bus (sm_shared s) = b) (next_step (write_runtime_event now e) (write_events now es))"
    using Cons by (rule maintains_next)
  then show ?case by (simp add: maintains_def)
qed (simp add: maintains_def)

lemma drained_queue:
  assumes "drain_queue h now [] s = Inr s1" shows "queue_of h (sh_bus (sm_shared s1)) = []"
  using bus_written [of "empty_queue h (sh_bus (sm_shared s))" now "queue_of h (sh_bus (sm_shared s))"] assms
  by (auto simp: maintains_def set_bus_def emptied_queue dest!: spec [of _ "set_bus (empty_queue h) s"])

text \<open>C39: No event is shown twice and none is left behind. Whatever is published and however the client and the run behave,
  the events of a run's stream that carry an id have different ids; and a stream that is still connected when it has
  drained its queue has nothing of it left to show.\<close>

theorem events_are_streamed_once:
  "case next_step (stream_events_until_done gap h tks now ms) (drain_queue h now' []) (open_stream ss sh) of
     Inl s \<Rightarrow> distinct (streamed_ids s)
   | Inr s \<Rightarrow> distinct (streamed_ids s) \<and> queue_of h (sh_bus (sm_shared s)) = []"
proof -
  let ?steps = "next_step (stream_events_until_done gap h tks now ms) (drain_queue h now' [])"
  have "maintains once ?steps" by (intro maintains_next once.streamed once.drained) auto
  moreover have "once (open_stream ss sh)" by (simp add: once_def streamed_ids_def open_stream_def)
  ultimately have "once (reached (?steps (open_stream ss sh)))" by (simp add: maintains_def)
  then show ?thesis
    by (cases "?steps (open_stream ss sh)")
       (auto simp: once_def next_step_def simp del: drain_queue.simps dest: drained_queue split: sum.splits)
qed

text \<open>C16: A client that leaves does not end the run it watched. If a stream is given up before its run is done, and no other
  request ends the run meanwhile, the run is on record as it was: the same state, the same task to cancel, no outcome.\<close>

theorem leaving_client_keeps_the_run:
  assumes "registry_inv (sh_runs (sm_shared s0))"
    and "tk_meanwhile ` set (ss_ticks ss) \<subseteq> leaves_run rid" and "set (ss_drains ss) \<subseteq> leaves_run rid"
    and "next_step (write_sse ''chat.started'' (started_frame sid rid)) (stream_events_until_done
      (keepalive_interval (ss_keepalive ss)) h (ss_ticks ss) (ss_end ss) (ss_drains ss)) s0 = Inl s1"
  shows "fst (run_stream ss sid rid h s0) = ClientGone
    \<and> run_outcome rid (sh_runs (sm_shared (snd (run_stream ss sid rid h s0)))) = run_outcome rid (sh_runs (sm_shared s0))"
proof -
  let ?x = "run_outcome rid (sh_runs (sm_shared s0))"
  have "maintains (stands rid ?x) (next_step (write_sse ''chat.started'' (started_frame sid rid)) (stream_events_until_done
      (keepalive_interval (ss_keepalive ss)) h (ss_ticks ss) (ss_end ss) (ss_drains ss)))"
    by (intro maintains_next stands.streamed assms(2,3)) (simp add: maintains_def write_sse_def)
  moreover have "stands rid ?x s0" by (simp add: stands_def assms(1))
  ultimately have "stands rid ?x s1" using assms(4) by (auto simp: maintains_def dest!: spec [of _ s0])
  then show ?thesis
    by (simp add: run_stream_def assms(4) client_left_def set_runs_def stands_def outcome_detached)
qed

lemma usual_interval: "keepalive_interval [] = FFin 15"
  by code_simp

lemma leaving_client_keeps_the_run_witness:
  "\<exists>ss s0. run_outcome ''r'' (sh_runs (sm_shared s0)) = Some (''running'', Some 1, None, None)
     \<and> fst (run_stream ss ''s'' ''r'' 0 s0) = ClientGone
     \<and> run_outcome ''r'' (sh_runs (sm_shared (snd (run_stream ss ''s'' ''r'' 0 s0)))) = run_outcome ''r'' (sh_runs (sm_shared s0))"
proof (intro exI conjI)
  let ?run = "(new_chat_run 0 ''r'' ''s'')\<lparr>cr_task := Some 1\<rparr>"
  let ?reg = "\<lparr>rr_records = [(''r'', ?run)], rr_max_records = 512, rr_stale_seconds = 0\<rparr>"
  let ?ss = "\<lparr>ss_agent_id = [], ss_keepalive = [], ss_uuid = [], ss_stamp = ([], Finite 0 []), ss_start = 0, ss_end = 1, ss_began = 0,
    ss_task = 1, ss_takes = 1, ss_ticks = [\<lparr>tk_meanwhile = id, tk_now = 0, tk_read = 15, tk_written = 15\<rparr>], ss_drains = [],
    ss_task_end = Crashed [], ss_callback_first = True, ss_error_text = (\<lambda>_. [])\<rparr>"
  let ?s0 = "open_stream ?ss \<lparr>sh_bus = new_event_bus 10 1 1, sh_runs = ?reg\<rparr>"
  have id_leaves: "id \<in> leaves_run ''r''" by (simp add: leaves_run_def)
  show "run_outcome ''r'' (sh_runs (sm_shared ?s0)) = Some (''running'', Some 1, None, None)"
    by (simp add: run_outcome_def open_stream_def new_chat_run_def)
  have gone: "\<exists>s1. next_step (write_sse ''chat.started'' (started_frame ''s'' ''r'')) (stream_events_until_done
      (keepalive_interval (ss_keepalive ?ss)) 0 (ss_ticks ?ss) (ss_end ?ss) (ss_drains ?ss)) ?s0 = Inl s1"
    by (simp add: next_step_def write_sse_def write_frame_def stream_events_until_done_def stream_tick_def usual_interval
        open_stream_def meanwhile_def take_event_def new_event_bus_def keepalive_if_due_def idle_due_def Let_def)
  then obtain s1 where "next_step (write_sse ''chat.started'' (started_frame ''s'' ''r'')) (stream_events_until_done
      (keepalive_interval (ss_keepalive ?ss)) 0 (ss_ticks ?ss) (ss_end ?ss) (ss_drains ?ss)) ?s0 = Inl s1" by blast
  note left = leaving_client_keeps_the_run [OF _ _ _ this]
  have parts: "registry_inv (sh_runs (sm_shared ?s0))" "tk_meanwhile ` set (ss_ticks ?ss) \<subseteq> leaves_run ''r''"
    "set (ss_drains ?ss) \<subseteq> leaves_run ''r''"
    using id_leaves by (simp_all add: registry_inv_def open_stream_def new_chat_run_def)
  show "fst (run_stream ?ss ''s'' ''r'' 0 ?s0) = ClientGone" using left [OF parts] by (rule conjunct1)
  show "run_outcome ''r'' (sh_runs (sm_shared (snd (run_stream ?ss ''s'' ''r'' 0 ?s0)))) = run_outcome ''r'' (sh_runs (sm_shared ?s0))"
    using left [OF parts] by (rule conjunct2)
qed

lemma last_write_parts [simp]:
  "sm_last_write (set_runs f s) = sm_last_write s" "sm_last_write (set_bus g s) = sm_last_write s"
  "sm_last_write (meanwhile m s) = sm_last_write s"
  by (simp_all add: set_runs_def set_bus_def meanwhile_def)

lemma next_Inr: "next_step f g s = Inr s2 \<longleftrightarrow> (\<exists>s1. f s = Inr s1 \<and> g s1 = Inr s2)"
  by (simp add: next_step_def split: sum.split)

lemma tick_refreshes:
  assumes "stream_tick gap h tk s = Inr s1"
  shows "sm_last_write s1 = tk_written tk \<or> \<not> idle_due gap (tk_read tk - sm_last_write s1)"
proof -
  have due: "sm_last_write s2 = tk_written tk \<or> \<not> idle_due gap (tk_read tk - sm_last_write s2)"
    if "keepalive_if_due gap tk s1 = Inr s2" for s1 s2
    using that by (auto simp: keepalive_if_due_def next_Inr wrote_at_def split: if_splits)
  show ?thesis
    using assms by (auto simp: stream_tick_def Let_def next_Inr wrote_at_def dest!: due split: prod.splits option.splits if_splits)
qed

lemma loop_append: "stream_loop gap h (tks @ tks') s = next_step (stream_loop gap h tks) (stream_loop gap h tks') s"
  by (induction tks arbitrary: s) (simp_all add: next_step_def split: sum.split)


text \<open>A stream that follows a run writes that it resumed it, the run's status, its final payload and the end, and nothing else:
  no event of a new run.\<close>

definition follow_frame :: "frame \<Rightarrow> bool" where
  "follow_frame fr = (case fr of Frame name d \<Rightarrow> name \<in> {''chat.started'', ''run_status'', ''final'', ''done''} | Keepalive \<Rightarrow> False)"

definition only_follows :: "string \<Rightarrow> string \<Rightarrow> stream \<Rightarrow> bool" where
  "only_follows sid rid s \<longleftrightarrow> list_all follow_frame (sm_frames s)
     \<and> (sm_frames s = [] \<or> (\<exists>d. hd (sm_frames s) = Frame ''chat.started'' d \<and> jget d ''resumed'' = JBool True
          \<and> jget d ''request_id'' = JStr rid \<and> jget d ''session_id'' = JStr sid))"

definition adds_frames :: "stream \<Rightarrow> stream \<Rightarrow> bool" where
  "adds_frames s s' \<longleftrightarrow> (\<exists>fs. sm_frames s' = sm_frames s @ fs \<and> list_all follow_frame fs)"

lemma adds_none: "sm_frames s' = sm_frames s \<Longrightarrow> adds_frames s s'"
  by (simp add: adds_frames_def)

lemma adds_more: "adds_frames s s1 \<Longrightarrow> adds_frames s1 s2 \<Longrightarrow> adds_frames s s2"
  by (fastforce simp: adds_frames_def)

lemma written_frame:
  assumes "name \<in> {''chat.started'', ''run_status'', ''final'', ''done''}"
  shows "case write_sse name d s of Inl s1 \<Rightarrow> adds_frames s s1 | Inr s1 \<Rightarrow> adds_frames s s1"
  using assms by (auto simp: write_sse_def write_frame_def adds_frames_def follow_frame_def)

definition adds_any :: "stream \<Rightarrow> stream + stream \<Rightarrow> bool" where
  "adds_any s r \<longleftrightarrow> (case r of Inl s1 \<Rightarrow> adds_frames s s1 | Inr s1 \<Rightarrow> adds_frames s s1)"

lemma adds_next:
  assumes "adds_any s (f s)" "\<And>s1. adds_any s1 (g s1)"
  shows "adds_any s (next_step f g s)"
  using assms(1) assms(2) [of "projr (f s)"]
  by (auto simp: next_step_def adds_any_def split: sum.splits intro: adds_more)

lemma final_frames:
  "case next_step (write_final_if v) (follow_done ok sid rid) s of Inl s1 \<Rightarrow> adds_frames s s1 | Inr s1 \<Rightarrow> adds_frames s s1"
proof -
  have "adds_any s (write_final_if v s)"
    using written_frame [where name = "''final''" and s = s] by (cases v) (simp_all add: write_final_if_def adds_none adds_any_def)
  moreover have "adds_any s1 (follow_done ok sid rid s1)" for s1
    using written_frame [where name = "''done''" and s = s1] by (simp add: follow_done_def adds_any_def)
  ultimately show ?thesis using adds_next [of s "write_final_if v" "follow_done ok sid rid"] by (simp add: adds_any_def)
qed

lemma followed_frames: "follow_run sid rid rounds s = Some (c, s') \<Longrightarrow> adds_frames s s'"
proof (induction rounds arbitrary: s)
  case (Cons x rounds)
  obtain m chatlog where x: "x = (m, chatlog)" by (cases x)
  let ?s = "meanwhile m s"
  let ?payload = "chat_run_status_payload (sh_runs (sm_shared ?s)) chatlog sid rid"
  have start: "adds_frames s ?s" by (simp add: meanwhile_def adds_none)
  note wrote = written_frame [where name = "''run_status''" and d = ?payload and s = ?s]
  show ?case
  proof (cases "write_sse ''run_status'' ?payload ?s")
    case (Inl s1)
    with Cons.prems x wrote start show ?thesis by (auto simp: Let_def intro: adds_more)
  next
    case (Inr s1)
    with wrote start have so_far: "adds_frames s s1" by (auto intro: adds_more)
    consider (final) "truthy (jget ?payload ''terminal'')"
      | (lost) "\<not> truthy (jget ?payload ''terminal'')" "jget ?payload ''state'' = JStr ''unknown''"
      | (waits) "\<not> truthy (jget ?payload ''terminal'')" "jget ?payload ''state'' \<noteq> JStr ''unknown''" by blast
    then have "adds_frames s1 s'"
    proof cases
      case final
      with Cons.prems x Inr final_frames [where v = "jget ?payload ''final_payload''" and ok = True and sid = sid and rid = rid and s = s1]
      show ?thesis by (auto simp: Let_def end_follow_def split: sum.splits)
    next
      case lost
      with Cons.prems x Inr written_frame [where name = "''done''" and d = "(''ok'', JBool False) # ids_fields sid rid" and s = s1]
      show ?thesis by (auto simp: Let_def end_follow_def follow_done_def split: sum.splits)
    next
      case waits
      with Cons x Inr show ?thesis by (simp add: Let_def)
    qed
    with so_far show ?thesis by (rule adds_more)
  qed
qed simp

lemma existing_only_follows:
  assumes "stream_existing_run now sid rid rounds (open_stream ss sh) = Some (c, s)"
  shows "only_follows sid rid s"
proof -
  let ?d = "resumed_frame sid rid"
  let ?r = "case write_sse ''chat.started'' ?d (open_stream ss sh) of
      Inl s1 \<Rightarrow> Some (ClientGone, s1) | Inr s1 \<Rightarrow> follow_run sid rid rounds s1"
  obtain c1 s1 where r: "?r = Some (c1, s1)" and same: "sm_frames s = sm_frames s1"
    using assms by (auto simp: stream_existing_run_def detach_if_gone_def with_registry_def set_runs_def split: if_splits)
  show ?thesis
  proof (cases "ss_takes ss = 0")
    case True
    with r same show ?thesis by (auto simp: write_sse_def write_frame_def open_stream_def only_follows_def)
  next
    case False
    then obtain s0 where s0: "write_sse ''chat.started'' ?d (open_stream ss sh) = Inr s0" "sm_frames s0 = [Frame ''chat.started'' ?d]"
      by (simp add: write_sse_def write_frame_def open_stream_def)
    with r have "adds_frames s0 s1" by (simp add: followed_frames)
    with s0(2) same show ?thesis
      by (auto simp: adds_frames_def only_follows_def follow_frame_def resumed_frame_def ids_fields_def)
  qed
qed

text \<open>C14: A run on record is not run again under its request id, when the request names the run's session. The plain endpoint
  leaves every store as it is and answers from the record: with the final payload of a run that ended with one, with 409,
  the duplicate's error and the run's state otherwise. The stream endpoint starts no run: its frames are those of a
  stream that resumes the run, its status, its final payload and the end.\<close>

theorem known_run_is_not_run_again:
  assumes "jget payload ''request_id'' = JStr rid" "py_strip rid \<noteq> []" "jget payload ''session_id'' = JStr sid" "py_strip sid \<noteq> []"
    and "registry_get (sh_runs sh) (py_strip rid) (py_strip sid) = Some run"
  shows "(case chat_handler sx author (Some (JObj payload)) (sh_runs sh) w of (reply, w') \<Rightarrow> w' = w
       \<and> (case (cr_terminal run, cr_final_payload run) of
            (True, Some final) \<Rightarrow> reply = Answer200 final
          | _ \<Rightarrow> (\<exists>d. reply = HttpError 409 d \<and> jget d ''error'' = JStr ''duplicate_chat_request_id'' \<and> jget d ''state'' = JStr (cr_state run))))
    \<and> (case chat_stream_handler ss rounds (Some (JObj payload)) sh of (started, followed) \<Rightarrow> started = None
       \<and> (case followed of Some (close, s) \<Rightarrow> only_follows (py_strip sid) (py_strip rid) s | None \<Rightarrow> True))"
proof
  show "case chat_handler sx author (Some (JObj payload)) (sh_runs sh) w of (reply, w') \<Rightarrow> w' = w
       \<and> (case (cr_terminal run, cr_final_payload run) of
            (True, Some final) \<Rightarrow> reply = Answer200 final
          | _ \<Rightarrow> (\<exists>d. reply = HttpError 409 d \<and> jget d ''error'' = JStr ''duplicate_chat_request_id'' \<and> jget d ''state'' = JStr (cr_state run)))"
    using assms by (simp add: chat_handler_def resubmitted_def Let_def split: bool.split option.split)
  have "portal_session_id_from_payload (ss_uuid ss) payload = Inr (py_strip sid)"
    "request_id_from_payload (ss_uuid ss) payload = Inr (py_strip rid)"
    using assms by (simp_all add: portal_session_id_from_payload_def request_id_from_payload_def optional_nonempty_string_def)
  then have stream: "chat_stream_handler ss rounds (Some (JObj payload)) sh
      = (None, stream_existing_run (ss_end ss) (py_strip sid) (py_strip rid) rounds (open_stream ss sh))"
    using assms(5) by (simp add: chat_stream_handler_def stream_for_def Let_def)
  show "case chat_stream_handler ss rounds (Some (JObj payload)) sh of (started, followed) \<Rightarrow> started = None
       \<and> (case followed of Some (close, s) \<Rightarrow> only_follows (py_strip sid) (py_strip rid) s | None \<Rightarrow> True)"
    unfolding stream using existing_only_follows by (auto split: option.split prod.split)
qed

definition followed_runs :: run_registry where
  "followed_runs = \<lparr>rr_records = [(''r'', new_chat_run 0 ''r'' ''s'')], rr_max_records = 512, rr_stale_seconds = 0\<rparr>"

definition again :: jobj where
  "again = [(''request_id'', JStr '' r ''), (''session_id'', JStr ''s'')]"

lemma known_run_is_not_run_again_witness:
  "\<forall>sx author w ss rounds bus.
     (case chat_handler sx author (Some (JObj again)) followed_runs w of (reply, w') \<Rightarrow> w' = w
        \<and> (\<exists>d. reply = HttpError 409 d \<and> jget d ''error'' = JStr ''duplicate_chat_request_id'' \<and> jget d ''state'' = JStr ''running''))
     \<and> fst (chat_stream_handler ss rounds (Some (JObj again)) \<lparr>sh_bus = bus, sh_runs = followed_runs\<rparr>) = None"
proof (intro allI)
  fix sx :: "'o surroundings" and author and w :: "'o chat_world" and ss rounds bus
  let ?sh = "\<lparr>sh_bus = bus, sh_runs = followed_runs\<rparr>" and ?run = "new_chat_run 0 ''r'' ''s''"
  have strips: "py_strip '' r '' = ''r''" "py_strip ''s'' = ''s''" by code_simp+
  have found: "registry_get (sh_runs ?sh) (py_strip '' r '') (py_strip ''s'') = Some ?run"
    by (simp add: registry_get_def strips new_chat_run_def followed_runs_def) (use strips in \<open>code_simp\<close>)?
  have ids: "jget again ''request_id'' = JStr '' r ''" "jget again ''session_id'' = JStr ''s''" by (simp_all add: jget_def again_def)
  have running: "\<not> cr_terminal ?run" "cr_state ?run = ''running''" by (simp_all add: cr_terminal_def new_chat_run_def TERMINAL_STATES_def)
  have said: "py_strip '' r '' \<noteq> []" "py_strip ''s'' \<noteq> []" by (simp_all add: strips)
  show "(case chat_handler sx author (Some (JObj again)) followed_runs w of (reply, w') \<Rightarrow> w' = w
        \<and> (\<exists>d. reply = HttpError 409 d \<and> jget d ''error'' = JStr ''duplicate_chat_request_id'' \<and> jget d ''state'' = JStr ''running''))
     \<and> fst (chat_stream_handler ss rounds (Some (JObj again)) ?sh) = None"
    using known_run_is_not_run_again [OF ids(1) said(1) ids(2) said(2) found,
        where sx = sx and author = author and w = w and ss = ss and rounds = rounds] running
    by (simp add: case_prod_beta)
qed


text \<open>A step gives up only on a client that takes no more.\<close>

definition gives_up_late :: "step \<Rightarrow> bool" where
  "gives_up_late f \<longleftrightarrow> (\<forall>s. case f s of Inl s1 \<Rightarrow> sm_takes s1 = 0 | Inr s1 \<Rightarrow> True)"

lemma late_next [intro]: "gives_up_late f \<Longrightarrow> gives_up_late g \<Longrightarrow> gives_up_late (next_step f g)"
  by (auto simp: gives_up_late_def next_step_def split: sum.splits)

lemma late_write: "gives_up_late (write_frame f)" "gives_up_late (write_sse kind d)" "gives_up_late (wrote_at t)"
  by (simp_all add: gives_up_late_def write_frame_def write_sse_def wrote_at_def)

lemma late_event: "gives_up_late (write_runtime_event now e)"
  using late_write(2) by (simp add: gives_up_late_def write_runtime_event_def)

lemma late_events: "gives_up_late (write_events now es)"
proof (induction es)
  case (Cons e es)
  have "gives_up_late (next_step (write_runtime_event now e) (write_events now es))" by (intro late_next late_event Cons)
  then show ?case by (simp add: gives_up_late_def)
qed (simp add: gives_up_late_def)

lemma late_drain: "gives_up_late (drain_queue h now ms)"
proof (induction ms)
  case Nil
  show ?case using late_events by (simp add: gives_up_late_def)
next
  case (Cons m ms)
  have "gives_up_late (\<lambda>s. drain_queue h now ms (meanwhile m s))" using Cons by (simp add: gives_up_late_def)
  then have "gives_up_late (next_step (write_runtime_event now e) (\<lambda>s. drain_queue h now ms (meanwhile m s)))" for e
    by (intro late_next late_event)
  then show ?case by (simp add: gives_up_late_def split: prod.split option.split)
qed

lemma late_tick: "gives_up_late (stream_tick gap h tk)"
proof -
  have "gives_up_late (next_step (write_frame Keepalive) (wrote_at t))" for t by (intro late_next late_write)
  then have "gives_up_late (keepalive_if_due gap tk)" by (simp add: gives_up_late_def keepalive_if_due_def)
  moreover have "gives_up_late (next_step (write_runtime_event now e) (wrote_at t))" for now e t
    by (intro late_next late_event late_write)
  ultimately show ?thesis by (simp add: gives_up_late_def stream_tick_def Let_def split: prod.split option.split)
qed

lemma late_loop: "gives_up_late (stream_loop gap h tks)"
proof (induction tks)
  case (Cons tk tks)
  have "gives_up_late (next_step (stream_tick gap h tk) (stream_loop gap h tks))" by (intro late_next late_tick Cons)
  then show ?case by (simp add: gives_up_late_def)
qed (simp add: gives_up_late_def)

lemma late_stream: "gives_up_late (stream_events_until_done gap h tks now ms)"
  unfolding stream_events_until_done_def by (intro late_next late_loop late_drain)

lemma late_Inl: "gives_up_late f \<Longrightarrow> f s = Inl s1 \<Longrightarrow> sm_takes s1 = 0"
  by (auto simp: gives_up_late_def split: sum.splits dest: spec [of _ s])

lemma late_failure: "gives_up_late (write_failure ss sid rid error)"
  unfolding write_failure_def Let_def by (intro late_next late_write)

definition told :: "(jobj \<Rightarrow> bool) \<Rightarrow> stream_close \<times> stream \<Rightarrow> bool" where
  "told P r = (case r of
     (Ended, s) \<Rightarrow> (\<exists>before final. sm_frames s = before @ [Frame ''final'' final, Frame ''done'' [(''ok'', JBool True)]] \<and> P final)
   | (ClientGone, s) \<Rightarrow> sm_takes s = 0
   | (CutOff, s) \<Rightarrow> False)"

lemma told_failure: "told (\<lambda>final. jget final ''completion_state'' = JStr ''error'') (fail_stream ss sid rid error s)"
  using late_Inl [OF late_failure [of ss sid rid error]]
  by (auto simp: told_def fail_stream_def write_failure_def Let_def next_Inr write_sse_def write_frame_def
      stream_error_final_payload_def split: sum.split if_splits)

lemma told_registry [simp]: "told P (with_registry f r) = told P r"
  by (auto simp: told_def with_registry_def split: prod.split stream_close.split)

lemma told_left: "sm_takes s = 0 \<Longrightarrow> told P (client_left ss rid s)"
  by (simp add: told_def client_left_def)

lemma told_weaken: "told P r \<Longrightarrow> (\<And>final. P final \<Longrightarrow> Q final) \<Longrightarrow> told Q r"
  by (fastforce simp: told_def split: prod.splits stream_close.splits)

lemma complete_raises: "registry_complete now rid p reg = Inl e \<Longrightarrow> completion_outcome p = Inl TypeError"
  by (auto simp: registry_complete_def completion_outcome_def Let_def split: option.splits sum.splits if_splits jval.splits)

lemma told_returned:
  assumes "ss_task_end ss = Returned p"
  shows "told (\<lambda>final. final = p \<or> (completion_outcome p = Inl TypeError \<and> jget final ''completion_state'' = JStr ''error''))
    (finish_stream ss sid rid h s)"
proof (cases "drain_queue h (ss_end ss) [] s")
  case (Inl s1)
  then show ?thesis
    using late_Inl [OF late_drain Inl] by (simp add: finish_stream_def assms told_left del: drain_queue.simps)
next
  case (Inr s1)
  show ?thesis
  proof (cases "registry_complete (ss_end ss) rid p (sh_runs (sm_shared s1))")
    case (Inl e)
    with Inr complete_raises [OF Inl] show ?thesis
      by (auto simp: finish_stream_def assms simp del: drain_queue.simps intro: told_weaken [OF told_failure])
  next
    case (Inr reg)
    let ?finish = "next_step (write_sse ''final'' p) (write_sse ''done'' [(''ok'', JBool True)])"
    have late: "gives_up_late ?finish" by (intro late_next late_write)
    show ?thesis
    proof (cases "?finish (set_runs (\<lambda>_. reg) s1)")
      case (Inl s2)
      with \<open>drain_queue h (ss_end ss) [] s = Inr s1\<close> Inr late_Inl [OF late Inl] show ?thesis
        by (simp add: finish_stream_def assms told_left del: drain_queue.simps)
    next
      case sent: (Inr s2)
      then have "sm_frames s2 = sm_frames s1 @ [Frame ''final'' p, Frame ''done'' [(''ok'', JBool True)]]"
        by (auto simp: next_Inr write_sse_def write_frame_def split: if_splits)
      with \<open>drain_queue h (ss_end ss) [] s = Inr s1\<close> Inr sent show ?thesis
        by (simp add: finish_stream_def assms told_def del: drain_queue.simps)
    qed
  qed
qed

text \<open>C15: Every stream of a run that is not cancelled ends with the run's result. A client that takes every write is sent, last,
  the final payload of the run, or of its failure, and the end of the stream; only a client that takes no more goes
  without.\<close>

theorem stream_tells_the_result:
  assumes "ss_task_end ss \<noteq> Cancelled"
  shows "told (\<lambda>final. case ss_task_end ss of
      Returned p \<Rightarrow> final = p \<or> (completion_outcome p = Inl TypeError \<and> jget final ''completion_state'' = JStr ''error'')
    | _ \<Rightarrow> jget final ''completion_state'' = JStr ''error'') (run_stream ss sid rid h s0)"
proof -
  have finished: "told (\<lambda>final. case ss_task_end ss of
      Returned p \<Rightarrow> final = p \<or> (completion_outcome p = Inl TypeError \<and> jget final ''completion_state'' = JStr ''error'')
    | _ \<Rightarrow> jget final ''completion_state'' = JStr ''error'') (finish_stream ss sid rid h s)" for s
  proof (cases "ss_task_end ss")
    case (Returned p)
    then show ?thesis using told_returned [OF Returned, of sid rid h s] by simp
  next
    case (HttpFailed said reason)
    then show ?thesis by (simp add: finish_stream_def told_failure)
  next
    case (Crashed said)
    then show ?thesis by (simp add: finish_stream_def told_failure)
  next
    case Cancelled
    with assms show ?thesis by contradiction
  qed
  let ?opening = "next_step (write_sse ''chat.started'' (started_frame sid rid))
      (stream_events_until_done (keepalive_interval (ss_keepalive ss)) h (ss_ticks ss) (ss_end ss) (ss_drains ss))"
  have late: "gives_up_late ?opening" by (intro late_next late_write late_stream)
  show ?thesis
  proof (cases "?opening s0")
    case (Inl s)
    then show ?thesis using late_Inl [OF late Inl] by (simp add: run_stream_def told_left)
  next
    case (Inr s)
    then show ?thesis using finished by (simp add: run_stream_def)
  qed
qed

lemma none_known: "registry_get (new_registry n seconds) rid sid = None"
  by (simp add: registry_get_def new_registry_def Let_def)

lemma stream_tells_the_result_witness:
  "\<exists>ss s0. ss_task_end ss = Returned [(''ok'', JBool True)]
     \<and> told (\<lambda>final. case ss_task_end ss of
          Returned p \<Rightarrow> final = p \<or> (completion_outcome p = Inl TypeError \<and> jget final ''completion_state'' = JStr ''error'')
        | _ \<Rightarrow> jget final ''completion_state'' = JStr ''error'') (run_stream ss ''s'' ''r'' 0 s0)
     \<and> fst (run_stream ss ''s'' ''r'' 0 s0) = Ended"
proof (intro exI conjI)
  let ?ss = "\<lparr>ss_agent_id = [], ss_keepalive = [], ss_uuid = [], ss_stamp = ([], Finite 0 []), ss_start = 0, ss_end = 1, ss_began = 0,
    ss_task = 1, ss_takes = 9, ss_ticks = [], ss_drains = [], ss_task_end = Returned [(''ok'', JBool True)], ss_callback_first = True,
    ss_error_text = (\<lambda>_. [])\<rparr>"
  let ?s0 = "open_stream ?ss \<lparr>sh_bus = new_event_bus 10 1 1, sh_runs = new_registry 512 0\<rparr>"
  show "ss_task_end ?ss = Returned [(''ok'', JBool True)]" by simp
  show "told (\<lambda>final. case ss_task_end ?ss of
      Returned p \<Rightarrow> final = p \<or> (completion_outcome p = Inl TypeError \<and> jget final ''completion_state'' = JStr ''error'')
    | _ \<Rightarrow> jget final ''completion_state'' = JStr ''error'') (run_stream ?ss ''s'' ''r'' 0 ?s0)"
    by (rule stream_tells_the_result) simp
  show "fst (run_stream ?ss ''s'' ''r'' 0 ?s0) = Ended"
    by (simp add: run_stream_def next_step_def stream_events_until_done_def write_sse_def write_frame_def open_stream_def set_bus_def
        set_runs_def empty_queue_def queue_of_def new_event_bus_def finish_stream_def record_task_done_def
        registry_complete_def none_known)
qed

text \<open>
  A cancelled run leaves its watchers without an end: awaiting the cancelled task raises \<^verbatim>\<open>CancelledError\<close>, which the
  handler's \<^verbatim>\<open>except Exception\<close> does not take.
\<close>

theorem cancelled_run_cuts_its_stream:
  assumes "ss_task_end ss = Cancelled" shows "fst (run_stream ss sid rid h s0) \<noteq> Ended"
  using assms
  by (simp add: run_stream_def finish_stream_def client_left_def with_registry_def del: stream_loop.simps drain_queue.simps split: sum.split)

end
