(* ===== verification/SessionHistory.thy ===== *)
theory SessionHistory
  imports ChatParts UserDisplay Recovery "HOL-Library.List_Lexorder" "HOL-Library.Char_ord" "HOL-Library.Multiset"
begin

text \<open>
  The reading side of \<^verbatim>\<open>sessions_api.py\<close>: what a session's history looks like to the Portal. OpenCode's messages are turned
  into the Portal's, with what the user wrote in place of what the model was sent and with the model that answered; the
  list of sessions, the chat log, and the state of the last run beside a history. OpenCode's answers are parameters.
\<close>

section \<open>Messages\<close>

definition history_message_info :: "jval \<Rightarrow> jobj" where
  "history_message_info v = (case v of JObj d \<Rightarrow> (case jget d ''info'' of JObj info \<Rightarrow> info | _ \<Rightarrow> d) | _ \<Rightarrow> [])"

definition history_message_id :: "jval \<Rightarrow> string \<Rightarrow> string" where
  "history_message_id v dflt =
     (let d = obj_or_empty v in
      py_str (py_or (jget (history_message_info v) ''id'') (py_or (jget d ''id'') (py_or (jget d ''message_id'') (JStr dflt)))))"

definition history_message_role :: "jval \<Rightarrow> string" where
  "history_message_role v = py_lower (str_or_empty (py_or (jget (history_message_info v) ''role'') (jget (obj_or_empty v) ''role'')))"

definition find_message_index :: "jval list \<Rightarrow> string \<Rightarrow> nat option" where
  "find_message_index messages mid =
     (case filter (\<lambda>i. history_message_id (messages ! i) [] = mid) [0..<length messages] of [] \<Rightarrow> None | i # _ \<Rightarrow> Some i)"

definition last_message_text :: "jval list \<Rightarrow> string" where
  "last_message_text messages = (if messages = [] then [] else message_to_visible_text (last messages))"

definition CR :: char where "CR = CHR 0x0D"
definition LF :: char where "LF = CHR 0x0A"

text \<open>\<^verbatim>\<open>content.replace("\r\n", "\n").replace("\r", "\n")\<close> in one pass.\<close>

fun unix_lines :: "string \<Rightarrow> string" where
  "unix_lines [] = []"
| "unix_lines (c # cs) =
     (if c = CR then LF # unix_lines (if cs \<noteq> [] \<and> hd cs = LF then tl cs else cs) else c # unix_lines cs)"

definition normalize_visible_content :: "string \<Rightarrow> string" where
  "normalize_visible_content content = py_strip (unix_lines content)"

type_synonym signature = "string \<times> string"

definition visible_message_signatures :: "jval list \<Rightarrow> signature list" where
  "visible_message_signatures messages =
     List.map (\<lambda>m. (history_message_role m, normalize_visible_content (message_to_visible_text m))) messages"

definition prefix_matches :: "jval list \<Rightarrow> jval list \<Rightarrow> bool \<times> nat \<times> nat" where
  "prefix_matches expected actual =
     (let e = visible_message_signatures expected; a = visible_message_signatures actual in (e = a, length e, length a))"

text \<open>Also for sessions nested in a reply, the first in the order of the keys.\<close>

definition id_in :: "jobj \<Rightarrow> string list \<Rightarrow> string" where
  "id_in d keys = (case first_truthy d keys of None \<Rightarrow> [] | Some s \<Rightarrow> s)"

function (sequential) extract_opencode_session_id :: "jval \<Rightarrow> string" where
  "extract_opencode_session_id (JObj d) =
     (let own = id_in d [''id'', ''session_id'', ''sessionID'', ''uuid''];
          nested = (\<lambda>k. case jget d k of JObj e \<Rightarrow> extract_opencode_session_id (JObj e) | _ \<Rightarrow> [])
      in nonempty_or own (nonempty_or (nested ''session'') (nonempty_or (nested ''data'') (nested ''info''))))"
| "extract_opencode_session_id _ = []"
  by pat_completeness auto
termination by (relation "measure size") (auto simp: jget_smaller simp del: jval.size)

section \<open>The history the Portal renders\<close>

definition canonical_parts :: "jobj \<Rightarrow> jobj \<times> jval list" where
  "canonical_parts raw =
     (let info = obj_or_empty (jget raw ''info''); parts = (case jget raw ''parts'' of JList ps \<Rightarrow> ps | _ \<Rightarrow> []) in
      case (info, jget raw ''message'') of
        ([], JObj msg) \<Rightarrow>
          (case jget msg ''info'' of JObj i \<Rightarrow> i | _ \<Rightarrow> filter (\<lambda>(k, v). k \<noteq> ''parts'') msg,
           if parts = [] then (case jget msg ''parts'' of JList ps \<Rightarrow> ps | _ \<Rightarrow> parts) else parts)
      | _ \<Rightarrow> (info, parts))"

definition first_value :: "jval list \<Rightarrow> jval" where
  "first_value vs = foldr py_or vs (JStr [])"

definition canonical_message :: "jobj \<Rightarrow> jobj" where
  "canonical_message raw =
     (case canonical_parts raw of (info, parts) \<Rightarrow>
        let time = obj_or_empty (jget info ''time'') in
        [(''info'', safe_preview (JObj info) 12000), (''parts'', safe_preview (JList (filter is_obj parts)) 50000),
         (''message_id'', JStr (py_str (first_value [jget info ''id'', jget raw ''id'', jget raw ''message_id'']))),
         (''role'', JStr (py_str (first_value [jget info ''role'', jget raw ''role'']))),
         (''created_at'', first_value [jget time ''created'', jget info ''created'', jget raw ''created_at'']),
         (''updated_at'', first_value [jget time ''updated'', jget info ''updated'', jget raw ''updated_at'']),
         (''completed_at'', first_value [jget time ''completed'', jget info ''completed'', jget raw ''completed_at'']),
         (''finish_reason'', first_value [jget info ''finishReason'', jget info ''finish_reason'', jget raw ''finish_reason'']),
         (''source_of_truth'', JStr ''opencode'')])"

definition normalize_canonical_messages :: "jval list \<Rightarrow> jobj list" where
  "normalize_canonical_messages messages = List.map (\<lambda>m. canonical_message (obj_or_empty m)) (filter is_obj messages)"

definition ASSISTANT_ATTRIBUTION_KEYS :: "string list" where
  "ASSISTANT_ATTRIBUTION_KEYS = [''model'', ''requested_model'', ''auto_tier'', ''model_fallback_reason'']"

definition stripped_fields :: "string list \<Rightarrow> jobj \<Rightarrow> jobj" where
  "stripped_fields keys d =
     concat (List.map (\<lambda>k. case jget d k of JStr s \<Rightarrow> if py_strip s \<noteq> [] then [(k, JStr (py_strip s))] else [] | _ \<Rightarrow> []) keys)"

definition assistant_attribution_record :: "display_store option \<Rightarrow> string \<Rightarrow> string \<Rightarrow> string \<Rightarrow> jobj" where
  "assistant_attribution_record display sid oid mid =
     (case display of
        None \<Rightarrow> []
      | Some st \<Rightarrow> if mid = [] then [] else
          (case get_message oid mid sid st of
             Some r \<Rightarrow> if jget r ''role'' \<noteq> JStr ''assistant'' then []
                       else stripped_fields ASSISTANT_ATTRIBUTION_KEYS (obj_or_empty (jget r ''metadata''))
           | None \<Rightarrow> []))"

definition efp_message_id :: "jobj \<Rightarrow> string" where
  "efp_message_id efp =
     py_str (first_value [jget efp ''id'', jget (obj_or_empty (jget efp ''metadata'')) ''opencode_message_id''])"

definition efp_session_id :: "string \<Rightarrow> jobj \<Rightarrow> string" where
  "efp_session_id oid efp =
     nonempty_or oid (str_or_empty (jget (obj_or_empty (jget efp ''metadata'')) ''opencode_session_id''))"

definition set_metadata :: "jobj \<Rightarrow> jobj \<Rightarrow> jobj" where
  "set_metadata extra efp = AList.update ''metadata'' (JObj (put_all extra (obj_or_empty (jget efp ''metadata'')))) efp"

definition attach_assistant_attribution :: "display_store option \<Rightarrow> string \<Rightarrow> string \<Rightarrow> jobj \<Rightarrow> jobj" where
  "attach_assistant_attribution display sid oid efp =
     (let attribution = assistant_attribution_record display sid (efp_session_id oid efp) (efp_message_id efp) in
      if attribution = [] then efp else put_all attribution (set_metadata attribution efp))"

definition attach_canonical_attribution :: "display_store option \<Rightarrow> string \<Rightarrow> string \<Rightarrow> jobj list \<Rightarrow> jobj list" where
  "attach_canonical_attribution display sid oid messages =
     List.map (\<lambda>m. if py_lower (str_or_empty (jget m ''role'')) \<noteq> ''assistant'' then m
       else put_all (assistant_attribution_record display sid oid (str_or_empty (jget m ''message_id''))) m) messages"

definition AUTHOR_FIELDS :: "string list" where
  "AUTHOR_FIELDS = [''author_id'', ''author_name'', ''author_type'', ''author_source'']"

definition add_author :: "jobj \<Rightarrow> jobj \<Rightarrow> jobj" where
  "add_author metadata efp =
     put_all (filter (\<lambda>(k, v). \<not> truthy (jget efp k)) (stripped_fields AUTHOR_FIELDS metadata)) efp"

text \<open>What the user wrote replaces what the model was sent.\<close>

definition show_original :: "jobj \<Rightarrow> jobj \<Rightarrow> jobj" where
  "show_original display efp =
     (let visible = JStr (str_or_empty (jget display ''display_content''));
          shown = put_all [(''content'', visible), (''display_content'', visible),
            (''attachments'', case jget display ''display_attachments'' of JList xs \<Rightarrow> JList xs | _ \<Rightarrow> JList [])] efp
      in set_metadata [(''display_content_source'', JStr ''portal_original_user_message''),
           (''internal_model_content_hidden'', JBool True), (''original_user_message'', visible)]
           (case jget display ''metadata'' of JObj metadata \<Rightarrow> add_author metadata shown | _ \<Rightarrow> shown))"

definition shown_message :: "display_store option \<Rightarrow> string \<Rightarrow> string \<Rightarrow> jobj \<Rightarrow> jobj" where
  "shown_message display sid oid efp =
     (let role = py_lower (str_or_empty (jget efp ''role'')) in
      case display of
        None \<Rightarrow> efp
      | Some st \<Rightarrow>
          if role = ''user'' then
            (case get_user_message (efp_session_id oid efp) (efp_message_id efp) sid st of
               Some d \<Rightarrow> if d = [] then efp else show_original d efp
             | None \<Rightarrow> efp)
          else if role = ''assistant'' then attach_assistant_attribution display sid oid efp
          else efp)"

text \<open>A message that is not a dict has no \<^verbatim>\<open>get\<close>.\<close>

datatype history_error = NotAMessage | BadMessage py_error

definition history_error_text :: "(py_error \<Rightarrow> string) \<Rightarrow> history_error \<Rightarrow> string" where
  "history_error_text error_text e = (case e of NotAMessage \<Rightarrow> ''AttributeError'' | BadMessage p \<Rightarrow> error_text p)"

definition convert_message :: "int \<Rightarrow> jval \<Rightarrow> history_error + jobj" where
  "convert_message i m =
     (case m of
        JObj d \<Rightarrow> (case to_efp_message d (Some i) of Inl e \<Rightarrow> Inl (BadMessage e) | Inr efp \<Rightarrow> Inr efp)
      | _ \<Rightarrow> Inl NotAMessage)"

fun to_efp_messages_from :: "display_store option \<Rightarrow> string \<Rightarrow> string \<Rightarrow> int \<Rightarrow> jval list \<Rightarrow> history_error + jobj list" where
  "to_efp_messages_from display sid oid i [] = Inr []"
| "to_efp_messages_from display sid oid i (m # ms) =
     (case convert_message i m of Inl e \<Rightarrow> Inl e
      | Inr efp \<Rightarrow> (case to_efp_messages_from display sid oid (i + 1) ms of Inl e \<Rightarrow> Inl e
          | Inr rest \<Rightarrow> Inr (shown_message display sid oid efp # rest)))"

definition to_efp_messages :: "display_store option \<Rightarrow> string \<Rightarrow> string \<Rightarrow> jval list \<Rightarrow> history_error + jobj list" where
  "to_efp_messages display sid oid messages = to_efp_messages_from display sid oid 0 messages"

section \<open>The state of the last run\<close>

definition FAILED_CHATLOG_STATUSES :: "string list" where
  "FAILED_CHATLOG_STATUSES = [''failed'', ''error'']"

definition FAILED_EVENT_TYPES :: "string list" where
  "FAILED_EVENT_TYPES = [''edit.failed'', ''chat.failed'', ''execution.failed'', ''error'']"

definition history_event_type :: "jobj \<Rightarrow> string" where
  "history_event_type event = py_str (first_value [jget event ''event_type'', jget event ''type''])"

definition latest_runtime_event :: "jval \<Rightarrow> jobj" where
  "latest_runtime_event events =
     (case events of
        JList es \<Rightarrow> (case filter is_obj (rev es) of [] \<Rightarrow> [] | e # _ \<Rightarrow> obj_or_empty e)
      | _ \<Rightarrow> [])"

definition event_error :: "jobj \<Rightarrow> string" where
  "event_error event =
     (let value = jget (obj_or_empty (jget event ''data'')) ''error'' in
      if truthy value then preview_text (py_str value) 1000 else [])"

definition latest_entry_error :: "jobj \<Rightarrow> jobj \<Rightarrow> string" where
  "latest_entry_error latest event =
     (case stripped_fields [''0'', ''1'', ''2'', ''3'', ''4'']
        [(''0'', JStr (event_error event)), (''1'', jget (obj_or_empty (jget latest ''context_state'')) ''summary''),
         (''2'', jget (obj_or_empty (jget latest ''llm_debug'')) ''error''), (''3'', jget latest ''error''),
         (''4'', jget latest ''response'')] of
        (_, JStr said) # _ \<Rightarrow> preview_text said 1000
      | _ \<Rightarrow> ''regeneration failed'')"

definition when_text :: "string \<Rightarrow> string \<Rightarrow> nat \<Rightarrow> jobj" where
  "when_text key s n = (if s \<noteq> [] then [(key, JStr (preview_text s n))] else [])"

definition running_fields :: "jobj \<Rightarrow> string \<Rightarrow> string \<Rightarrow> jobj" where
  "running_fields latest event_type rid =
     (let shown = JStr (if rid \<noteq> [] then preview_text rid 200 else []);
          events = (case jget latest ''runtime_events'' of JList es \<Rightarrow> es | _ \<Rightarrow> [])
      in [(''latest_event_type'', JStr (preview_text (nonempty_or event_type ''chat.started'') 100)),
          (''latest_event_state'', JStr ''running''), (''completion_state'', JStr ''running''),
          (''last_execution_id'', shown), (''latest_request_id'', shown),
          (''runtime_events'', JList (List.map (\<lambda>e. safe_preview e 1000) (last_n 50 events)))])"

definition failed_fields :: "jobj \<Rightarrow> jobj \<Rightarrow> string \<Rightarrow> string \<Rightarrow> jobj" where
  "failed_fields latest event rid stamp =
     (let error = JStr (latest_entry_error latest event); kind = history_event_type event in
      [(''latest_event_type'', JStr (preview_text (if kind \<in> set FAILED_EVENT_TYPES then kind else ''chat.failed'') 100)),
       (''latest_event_state'', JStr ''error''), (''completion_state'', JStr ''error''), (''request_id'', JStr (preview_text rid 200)),
       (''incomplete_reason'', error), (''error'', error),
       (''runtime_events'', JList (if event = [] then [] else [safe_preview (JObj event) 1000])),
       (''chatlog_status'', JStr ''failed''), (''latest_chatlog_at'', JStr (if stamp \<noteq> [] then preview_text stamp 100 else []))])"

definition run_status_of_entry :: "jobj \<Rightarrow> jobj" where
  "run_status_of_entry latest =
     (let status = str_or_empty (jget latest ''status''); normalized = py_strip (py_lower status);
          rid = str_or_empty (jget latest ''request_id''); event = latest_runtime_event (jget latest ''runtime_events'');
          kind = history_event_type event; stamp = py_str (first_value [jget latest ''finished_at'', jget latest ''created_at''])
      in if normalized \<in> set FAILED_CHATLOG_STATUSES \<or> kind \<in> set FAILED_EVENT_TYPES then failed_fields latest event rid stamp
         else put_all (if normalized \<in> set RUNNING_CHATLOG_STATUSES then running_fields latest kind rid else [])
                (when_text ''chatlog_status'' status 100 @ when_text ''request_id'' rid 200 @ when_text ''latest_chatlog_at'' stamp 100))"

text \<open>A chat log that cannot be read says nothing.\<close>

definition latest_session_run_status :: "chatlog_store \<Rightarrow> string \<Rightarrow> jobj \<times> chatlog_store" where
  "latest_session_run_status logs sid =
     (case chatlog_latest_entry sid logs of
        Inr (Some (JObj latest), logs1) \<Rightarrow> (run_status_of_entry latest, logs1)
      | Inr (_, logs1) \<Rightarrow> ([], logs1)
      | Inl e \<Rightarrow> ([], logs))"

section \<open>The endpoints that read\<close>

text \<open>An HTTP reply, or an exception the handler does not take (a plain 500).\<close>

datatype http_reply = Reply int jobj | Uncaught string

definition session_not_found :: http_reply where
  "session_not_found = Reply 404 [(''error'', JStr ''session_not_found'')]"

definition live_session :: "session_store \<Rightarrow> string \<Rightarrow> session_record option" where
  "live_session st sid = (case session_get st sid of Some r \<Rightarrow> if sr_deleted r then None else Some r | None \<Rightarrow> None)"

definition request_includes_task_sessions :: "string \<Rightarrow> bool" where
  "request_includes_task_sessions raw = (py_lower (py_strip raw) \<in> {''1'', ''true'', ''yes'', ''on''})"

definition listed_session :: "session_record \<Rightarrow> jobj" where
  "listed_session r =
     [(''session_id'', JStr (sr_portal_session_id r)), (''name'', JStr (session_display_name r)),
      (''name_source'', JStr (session_name_source r)), (''last_message'', JStr (sr_last_message r)),
      (''updated_at'', JStr (sr_updated_at r)), (''message_count'', JInt (sr_message_count r)), (''engine'', JStr ''opencode'')]"

text \<open>Newest first; sessions with the same stamp keep their order.\<close>

definition listed_sessions :: "session_store \<Rightarrow> bool \<Rightarrow> session_record list" where
  "listed_sessions st tasks =
     rev (sort_key sr_updated_at (rev (filter (\<lambda>r. tasks \<or> \<not> session_id_is_task_session (JStr (sr_portal_session_id r)))
       (session_list_active st))))"

definition list_sessions_handler :: "session_store \<Rightarrow> string \<Rightarrow> http_reply" where
  "list_sessions_handler st raw =
     Reply 200 [(''sessions'', JList (List.map (\<lambda>r. JObj (listed_session r)) (listed_sessions st (request_includes_task_sessions raw))))]"

definition bad_gateway :: "string \<Rightarrow> string \<Rightarrow> http_reply" where
  "bad_gateway error detail = Reply 502 [(''error'', JStr error), (''detail'', JStr detail)]"

definition raised_text :: "raised \<Rightarrow> string" where
  "raised_text e = (case e of OpenCodeError err \<Rightarrow> ce_message err | OtherError said \<Rightarrow> said | BadRequest said \<Rightarrow> said
     | SessionGone \<Rightarrow> ''SessionDeletedError'')"

definition session_document_reply ::
    "display_store option \<Rightarrow> session_record \<Rightarrow> string \<Rightarrow> jval list \<Rightarrow> jobj list \<Rightarrow> jobj \<Rightarrow> jobj" where
  "session_document_reply display r sid messages efp status =
     [(''success'', JBool True), (''engine'', JStr ''opencode''), (''source_of_truth'', JStr ''opencode''), (''session_id'', JStr sid),
      (''opencode_session_id'', JStr (sr_opencode_session_id r)), (''name'', JStr (session_display_name r)),
      (''name_source'', JStr (session_name_source r)), (''messages'', JList (List.map JObj efp)),
      (''canonical_messages'', JList (List.map JObj (attach_canonical_attribution display sid (sr_opencode_session_id r)
         (normalize_canonical_messages messages)))),
      (''metadata'', JObj (put_all status [(''engine'', JStr ''opencode''), (''source_of_truth'', JStr ''opencode''),
         (''opencode_session_id'', JStr (sr_opencode_session_id r)), (''partial_recovery'', JBool (sr_partial_recovery r))]))]"

definition get_session_handler ::
    "(py_error \<Rightarrow> string) \<Rightarrow> display_store option \<Rightarrow> (string \<Rightarrow> raised + jval list) \<Rightarrow> string \<Rightarrow> session_store \<Rightarrow> chatlog_store \<Rightarrow>
       http_reply \<times> chatlog_store" where
  "get_session_handler error_text display listing sid st logs =
     (case live_session st sid of
        None \<Rightarrow> (session_not_found, logs)
      | Some r \<Rightarrow> (case listing (sr_opencode_session_id r) of
          Inl (OpenCodeError e) \<Rightarrow> (bad_gateway ''opencode_error'' (ce_message e), logs)
        | Inl e \<Rightarrow> (Uncaught (raised_text e), logs)
        | Inr messages \<Rightarrow> (case to_efp_messages display sid (sr_opencode_session_id r) messages of
            Inl e \<Rightarrow> (Uncaught (history_error_text error_text e), logs)
          | Inr efp \<Rightarrow> (case latest_session_run_status logs sid of (status, logs1) \<Rightarrow>
              (Reply 200 (session_document_reply display r sid messages efp status), logs1)))))"

definition empty_chatlog_reply :: "string \<Rightarrow> jobj \<Rightarrow> jobj" where
  "empty_chatlog_reply sid extra =
     [(''success'', JBool True), (''session_id'', JStr sid), (''chatlog'', JNull), (''events'', JList []), (''runtime_events'', JList []),
      (''context_state'', JObj []), (''llm_debug'', JObj []), (''metadata'', JObj ((''engine'', JStr ''opencode'') # extra)),
      (''status'', JStr ''unknown''), (''request_id'', JStr [])]"

definition chatlog_reply :: "string \<Rightarrow> jval \<Rightarrow> jobj \<Rightarrow> jobj" where
  "chatlog_reply sid chatlog latest =
     (let status = jget_def latest ''status'' (JStr ''unknown''); rid = jget_def latest ''request_id'' (JStr []) in
      [(''success'', JBool True), (''session_id'', JStr sid), (''chatlog'', chatlog), (''events'', jget_def latest ''events'' (JList [])),
       (''runtime_events'', jget_def latest ''runtime_events'' (JList [])), (''context_state'', jget_def latest ''context_state'' (JObj [])),
       (''llm_debug'', jget_def latest ''llm_debug'' (JObj [])),
       (''metadata'', JObj [(''engine'', JStr ''opencode''), (''status'', status), (''request_id'', rid)]),
       (''status'', status), (''request_id'', rid), (''timestamp'', py_or (jget latest ''finished_at'') (jget latest ''created_at''))])"

text \<open>\<^verbatim>\<open>chatlog_store.latest_entry(sid) or {}\<close> that is neither a dict nor nothing has no \<^verbatim>\<open>get\<close>.\<close>

definition session_chatlog_handler :: "(chatlog_error \<Rightarrow> string) \<Rightarrow> string \<Rightarrow> chatlog_store \<Rightarrow> http_reply \<times> chatlog_store" where
  "session_chatlog_handler error_text sid logs =
     (case chatlog_get sid logs of
        Inl e \<Rightarrow> (Reply 200 (empty_chatlog_reply sid [(''corrupted_chatlog'', JBool True)]), logs)
      | Inr (found, logs1) \<Rightarrow>
          if \<not> truthy (case found of Some v \<Rightarrow> v | None \<Rightarrow> JNull) then (Reply 200 (empty_chatlog_reply sid []), logs1)
          else (case chatlog_latest_entry sid logs1 of
              Inl e \<Rightarrow> (Uncaught (error_text e), logs1)
            | Inr (latest, logs2) \<Rightarrow>
                (let v = py_or (case latest of Some x \<Rightarrow> x | None \<Rightarrow> JNull) (JObj []) in
                 if is_obj v then (Reply 200 (chatlog_reply sid (the found) (obj_or_empty v)), logs2)
                 else (Uncaught ''AttributeError'', logs2))))"

section \<open>Properties\<close>

lemma shown_nth:
  assumes "to_efp_messages_from display sid oid k messages = Inr shown" "i < length messages"
  shows "length shown = length messages
    \<and> (\<exists>efp. convert_message (k + int i) (messages ! i) = Inr efp \<and> shown ! i = shown_message display sid oid efp)"
  using assms
proof (induction messages arbitrary: k i shown)
  case (Cons m ms)
  then obtain efp rest where parts: "convert_message k m = Inr efp"
    "to_efp_messages_from display sid oid (k + 1) ms = Inr rest" "shown = shown_message display sid oid efp # rest"
    by (auto split: sum.splits)
  show ?case
  proof (cases i)
    case 0
    with parts have "length rest = length ms"
      using Cons.IH [OF parts(2), of 0] by (cases ms) auto
    with parts 0 show ?thesis by simp
  next
    case (Suc j)
    with Cons.IH [OF parts(2), of j] Cons.prems(2) parts(3) show ?thesis by (simp add: algebra_simps)
  qed
qed simp

text \<open>An entry of the history speaks for the message at its place: its id and role, and its text unless it is the user's.\<close>

definition entry_id :: "jval \<Rightarrow> nat \<Rightarrow> string" where
  "entry_id m i = (if message_id m \<noteq> [] then message_id m else if i = 0 then [] else int_text (int i))"

definition speaks_for :: "jval \<Rightarrow> nat \<Rightarrow> jobj \<Rightarrow> bool" where
  "speaks_for m i entry \<longleftrightarrow> is_obj m \<and> jget entry ''id'' = JStr (entry_id m i)
     \<and> jget entry ''role'' = JStr (if message_role m = [] then ''unknown'' else message_role m)
     \<and> (py_lower (message_role m) = ''user'' \<or> jget entry ''content'' = JStr (message_to_visible_text m))"

lemma efp_parts_of:
  assumes "convert_message (int i) m = Inr efp"
  shows "is_obj m" "jget efp ''role'' = JStr (if message_role m = [] then ''unknown'' else message_role m)"
    "jget efp ''id'' = JStr (entry_id m i)" "jget efp ''content'' = JStr (message_to_visible_text m)"
proof -
  obtain d where d: "m = JObj d" "to_efp_message d (Some (int i)) = Inr efp"
    using assms by (auto simp: convert_message_def split: jval.splits sum.splits)
  show "is_obj m" by (simp add: d(1))
  show "jget efp ''role'' = JStr (if message_role m = [] then ''unknown'' else message_role m)"
    "jget efp ''id'' = JStr (entry_id m i)" "jget efp ''content'' = JStr (message_to_visible_text m)"
    using d(2) unfolding d(1)
    by (auto simp: to_efp_message_def Let_def jget_def entry_id_def simp del: message_role.simps message_id.simps split: sum.splits)
qed

lemma content_kept: "jget (set_metadata extra d) ''content'' = jget d ''content''"
  by (simp add: set_metadata_def)

lemma author_content: "jget (add_author metadata d) ''content'' = jget d ''content''"
proof -
  have "''content'' \<notin> fst ` set (filter (\<lambda>(k, v). \<not> truthy (jget d k)) (stripped_fields AUTHOR_FIELDS metadata))"
    by (auto simp: stripped_fields_def AUTHOR_FIELDS_def split: jval.splits if_splits)
  then show ?thesis by (simp add: add_author_def put_all_other)
qed

lemma original_content: "jget (show_original display d) ''content'' = JStr (str_or_empty (jget display ''display_content''))"
  by (auto simp: show_original_def Let_def content_kept author_content put_all_def split: jval.split)

lemma stripped_keys: "k \<notin> set keys \<Longrightarrow> k \<notin> fst ` set (stripped_fields keys d)"
  by (auto simp: stripped_fields_def split: jval.splits if_splits)

lemma history_attribution_keys:
  assumes "k \<notin> set ASSISTANT_ATTRIBUTION_KEYS"
  shows "k \<notin> fst ` set (assistant_attribution_record display sid oid mid)"
  using stripped_keys [OF assms] by (auto simp: assistant_attribution_record_def split: option.splits if_splits)

lemma metadata_other: "k \<noteq> ''metadata'' \<Longrightarrow> jget (set_metadata extra d) k = jget d k"
  by (simp add: set_metadata_def)

lemma original_other:
  assumes "k \<notin> {''content'', ''display_content'', ''attachments'', ''metadata''}" "k \<notin> set AUTHOR_FIELDS"
  shows "jget (show_original display efp) k = jget efp k"
proof -
  have "k \<notin> fst ` set (filter (\<lambda>(k, v). \<not> truthy (jget d k)) (stripped_fields AUTHOR_FIELDS metadata))" for d metadata
    using stripped_keys [OF assms(2), of metadata] by auto
  then show ?thesis
    using assms(1) by (auto simp: show_original_def Let_def metadata_other add_author_def put_all_other split: jval.split)
qed

lemma attributed_other:
  assumes "k \<notin> set ASSISTANT_ATTRIBUTION_KEYS" "k \<noteq> ''metadata''"
  shows "jget (attach_assistant_attribution display sid oid efp) k = jget efp k"
  using history_attribution_keys [OF assms(1)] assms(2)
  by (simp add: attach_assistant_attribution_def Let_def put_all_other metadata_other)

lemma shown_speaks:
  assumes "convert_message (int i) m = Inr efp"
  shows "speaks_for m i (shown_message display sid oid efp)"
proof -
  note parts = efp_parts_of [OF assms]
  have role: "py_lower (str_or_empty (jget efp ''role'')) = ''user'' \<Longrightarrow> py_lower (message_role m) = ''user''"
    using parts(2) by (auto simp: py_lower_def split: if_splits)
  have ids: "jget (shown_message display sid oid efp) k = jget efp k" if "k \<in> {''id'', ''role''}" for k
    using that by (auto simp: shown_message_def Let_def original_other attributed_other AUTHOR_FIELDS_def ASSISTANT_ATTRIBUTION_KEYS_def
        split: option.split)
  have said: "jget (shown_message display sid oid efp) ''content'' = jget efp ''content''" if "py_lower (message_role m) \<noteq> ''user''"
    using role that by (auto simp: shown_message_def Let_def attributed_other ASSISTANT_ATTRIBUTION_KEYS_def split: option.split)
  show ?thesis using parts ids said by (auto simp: speaks_for_def)
qed

text \<open>C21: The history shows what the user wrote, and is the session's history. Its entries are the messages OpenCode lists,
  in that order, none left out and none added: each has the id and the role of its message, and its text when it is not a
  user's. When the display store holds what the user wrote for a user message, that text is the entry's content, whatever
  text the model was sent in its place.\<close>

theorem history_shows_the_users_words:
  assumes "to_efp_messages (Some st) sid oid messages = Inr shown" "i < length messages" "oid \<noteq> []"
    and "py_lower (message_role (messages ! i)) = ''user''"
    and "message_id (messages ! i) = mid" "mid \<noteq> []"
    and "get_user_message oid mid sid st = Some display" "display \<noteq> []"
  shows "length shown = length messages \<and> (\<forall>j < length messages. speaks_for (messages ! j) j (shown ! j))
    \<and> jget (shown ! i) ''content'' = JStr (str_or_empty (jget display ''display_content''))"
proof (intro conjI allI impI)
  note nth = shown_nth [OF assms(1) [unfolded to_efp_messages_def], simplified]
  show "length shown = length messages" using nth [OF assms(2)] by blast
  show "speaks_for (messages ! j) j (shown ! j)" if "j < length messages" for j
    using nth [OF that] shown_speaks by auto
  obtain efp where efp: "convert_message (int i) (messages ! i) = Inr efp" "shown ! i = shown_message (Some st) sid oid efp"
    using nth [OF assms(2)] by blast
  note parts = efp_parts_of [OF efp(1)]
  have "message_role (messages ! i) \<noteq> []" using assms(4) by (auto simp: py_lower_def)
  then have role: "py_lower (str_or_empty (jget efp ''role'')) = ''user''" using parts(2) assms(4) by simp
  have "jget efp ''id'' = JStr mid" using parts(3) assms(5,6) by (simp add: entry_id_def)
  then have "efp_message_id efp = mid" using assms(6) by (simp add: efp_message_id_def first_value_def py_or_def)
  moreover have "efp_session_id oid efp = oid" using assms(3) by (simp add: efp_session_id_def nonempty_or_def)
  ultimately have "shown ! i = show_original display efp"
    using efp(2) role assms(7,8) by (simp add: shown_message_def Let_def)
  then show "jget (shown ! i) ''content'' = JStr (str_or_empty (jget display ''display_content''))" by (simp add: original_content)
qed

definition hidden_prompt :: jval where
  "hidden_prompt = JObj [(''info'', JObj [(''id'', JStr ''m1''), (''role'', JStr ''user'')]),
     (''parts'', JList [JObj [(''type'', JStr ''text''), (''text'', JStr ''Run the skill.'')]])]"

definition shown_text :: display_store where
  "shown_text = \<lparr>ud_messages = [(display_key ''o'' ''m1'', [(''role'', JStr ''user''), (''display_content'', JStr ''/review'')])],
     ud_file = None, ud_backups = []\<rparr>"

lemma history_shows_the_users_words_witness:
  "\<exists>shown. to_efp_messages (Some shown_text) ''s'' ''o'' [hidden_prompt] = Inr shown
     \<and> length shown = 1 \<and> speaks_for hidden_prompt 0 (shown ! 0) \<and> jget (shown ! 0) ''content'' = JStr ''/review''"
proof -
  have "\<not> (case to_efp_messages (Some shown_text) ''s'' ''o'' [hidden_prompt] of Inl e \<Rightarrow> True | Inr shown \<Rightarrow> False)" by code_simp
  then obtain shown where shown: "to_efp_messages (Some shown_text) ''s'' ''o'' [hidden_prompt] = Inr shown"
    by (auto split: sum.splits)
  have parts: "py_lower (message_role ([hidden_prompt] ! 0)) = ''user''" "message_id ([hidden_prompt] ! 0) = ''m1''"
    "get_user_message ''o'' ''m1'' ''s'' shown_text = Some [(''role'', JStr ''user''), (''display_content'', JStr ''/review'')]"
    by code_simp+
  from history_shows_the_users_words [OF shown _ _ parts(1,2) _ parts(3)] shown show ?thesis
    by (simp add: jget_def)
qed

text \<open>The list of sessions is complete and in order: it holds exactly the sessions that are not deleted (the sessions of
  tasks only on request), each once, the most recently changed first.\<close>

theorem sessions_are_listed_newest_first:
  "sorted_wrt (\<lambda>a b. sr_updated_at b \<le> sr_updated_at a) (listed_sessions st tasks)
    \<and> mset (listed_sessions st tasks) = mset (filter (\<lambda>r. \<not> sr_deleted r
        \<and> (tasks \<or> \<not> session_id_is_task_session (JStr (sr_portal_session_id r)))) (List.map snd (ss_sessions st)))"
proof
  have "sorted_wrt (\<lambda>a b. sr_updated_at a \<le> sr_updated_at b)
      (sort_key sr_updated_at (rev (filter (\<lambda>r. tasks \<or> \<not> session_id_is_task_session (JStr (sr_portal_session_id r))) (session_list_active st))))"
    using sorted_sort_key [of sr_updated_at] by (simp only: sorted_map)
  then show "sorted_wrt (\<lambda>a b. sr_updated_at b \<le> sr_updated_at a) (listed_sessions st tasks)"
    by (simp add: listed_sessions_def sorted_wrt_rev)
  show "mset (listed_sessions st tasks) = mset (filter (\<lambda>r. \<not> sr_deleted r
        \<and> (tasks \<or> \<not> session_id_is_task_session (JStr (sr_portal_session_id r)))) (List.map snd (ss_sessions st)))"
    by (simp add: listed_sessions_def session_list_active_def conj_commute)
qed

end
