(* ===== verification/SessionsApi.thy ===== *)
theory SessionsApi
  imports ChatTurn SessionHistory
begin

text \<open>
  The changing side of \<^verbatim>\<open>sessions_api.py\<close>: cutting a session before one of its messages (a fork of the OpenCode session that
  is accepted only when it holds exactly the visible messages before the cut), editing a message, renaming, naming and
  deleting sessions. A handler takes the answers of its calls and, for each wait, what other requests do to the world
  meanwhile (\<open>act\<close>). OpenCode's sessions are its own; the handlers know them by id.
\<close>

section \<open>A fork that keeps what comes before a message\<close>

record boundary =
  bo_message_id :: string
  bo_role :: string

definition add_boundary :: "jval list \<Rightarrow> int \<Rightarrow> boundary list \<Rightarrow> boundary list" where
  "add_boundary messages i found =
     (if i < 0 \<or> int (length messages) \<le> i then found
      else let m = messages ! nat i; mid = history_message_id m [] in
        if mid = [] \<or> mid \<in> bo_message_id ` set found then found
        else found @ [\<lparr>bo_message_id = mid, bo_role = history_message_role m\<rparr>])"

text \<open>The message itself, the one before it, and the last user message before it.\<close>

definition fork_boundary_candidates :: "jval list \<Rightarrow> nat \<Rightarrow> boundary list" where
  "fork_boundary_candidates messages target =
     (let near = add_boundary messages (int target - 1) (add_boundary messages (int target) []) in
      case filter (\<lambda>i. history_message_role (messages ! i) = ''user'') (rev [0..<target]) of
        [] \<Rightarrow> near | i # _ \<Rightarrow> add_boundary messages (int i) near)"

record fork_answers =
  fo_fork :: "raised + jval"
  fo_abort :: "raised + unit"
  fo_again :: "raised + jval"
  fo_list :: "string \<Rightarrow> raised + jval list"

definition error_status :: "raised \<Rightarrow> int option" where
  "error_status e = (case e of OpenCodeError err \<Rightarrow> ce_status err | _ \<Rightarrow> None)"

text \<open>A session that is busy is aborted and forked once more.\<close>

definition fork_with_abort_retry :: "fork_answers \<Rightarrow> raised + jval" where
  "fork_with_abort_retry a =
     (case fo_fork a of
        Inr forked \<Rightarrow> Inr forked
      | Inl e \<Rightarrow> if error_status e \<notin> {Some 409, Some 423} then Inl e
                 else (case fo_abort a of Inl e1 \<Rightarrow> Inl e1 | Inr u \<Rightarrow> fo_again a))"

definition error_fields_of :: "raised \<Rightarrow> jobj" where
  "error_fields_of e =
     (let said = (''error'', JStr (preview_text (raised_text e) 1000)) in
      case e of
        OpenCodeError err \<Rightarrow> [(''status'', case ce_status err of Some n \<Rightarrow> JInt n | None \<Rightarrow> JNull), said]
      | _ \<Rightarrow> [said])"

definition attempt :: "boundary \<Rightarrow> string \<Rightarrow> jobj \<Rightarrow> jval" where
  "attempt b outcome extra =
     JObj ([(''message_id'', JStr (bo_message_id b)), (''role'', JStr (bo_role b)), (''result'', JStr outcome)] @ extra)"

record cut =
  ct_oid :: string
  ct_messages :: "jval list"
  ct_metadata :: jobj

record cut_target =
  cg_old_oid :: string
  cg_messages :: "jval list"
  cg_index :: nat
  cg_title :: string
  cg_allow_revert :: bool

definition kept_prefix :: "cut_target \<Rightarrow> jval list" where
  "kept_prefix g = take (cg_index g) (cg_messages g)"

definition cut_metadata :: "cut_target \<Rightarrow> jval list \<Rightarrow> string \<Rightarrow> string \<Rightarrow> boundary \<Rightarrow> nat \<Rightarrow> bool \<Rightarrow> jobj" where
  "cut_metadata g attempts strategy oid accepted actual valid =
     (let target = JStr (history_message_id (cg_messages g ! cg_index g) []) in
      [(''old_opencode_session_id'', JStr (cg_old_oid g)), (''deleted_from_message_id'', target), (''target_message_id'', target),
       (''expected_prefix_count'', JInt (int (length (kept_prefix g)))), (''prefix_validated'', JBool valid),
       (''allow_revert_fallback_requested'', JBool (cg_allow_revert g)), (''revert_fallback_disabled'', JBool True),
       (''attempted_boundaries'', JList attempts), (''strategy'', JStr strategy), (''opencode_session_id'', JStr oid),
       (''accepted_boundary_message_id'', JStr (bo_message_id accepted)),
       (''accepted_boundary_role'', JStr (bo_role accepted)), (''actual_prefix_count'', JInt (int actual))])"

definition no_boundary :: boundary where
  "no_boundary = \<lparr>bo_message_id = [], bo_role = []\<rparr>"

definition session_start :: boundary where
  "session_start = \<lparr>bo_message_id = [], bo_role = ''session_start''\<rparr>"

definition prefix_mismatch :: "cut_target \<Rightarrow> string \<Rightarrow> nat \<Rightarrow> jobj \<Rightarrow> http_reply" where
  "prefix_mismatch g detail actual metadata =
     Reply 409 [(''error'', JStr ''opencode_fork_prefix_mismatch''), (''expected_prefix_count'', JInt (int (length (kept_prefix g)))),
       (''actual_prefix_count'', JInt (int actual)), (''detail'', JStr detail), (''metadata'', JObj metadata)]"

text \<open>Before the first message there is nothing to keep: an empty session is made. What OpenCode lists depends on the session
  it is asked for.\<close>

definition fresh_session_cut :: "cut_target \<Rightarrow> raised + jval \<Rightarrow> (string \<Rightarrow> raised + jval list) \<Rightarrow> http_reply + cut" where
  "fresh_session_cut g created listing =
     (let failed = (\<lambda>e. Inl (bad_gateway ''opencode_mutation_failed'' (raised_text e))) in
      case created of Inl e \<Rightarrow> failed e
      | Inr answer \<Rightarrow>
          (let oid = extract_opencode_session_id answer in
           if oid = [] then Inl (bad_gateway ''opencode_mutation_failed'' ''missing_fork_session_id'')
           else case listing oid of Inl e \<Rightarrow> failed e
           | Inr new \<Rightarrow>
               (case prefix_matches (kept_prefix g) new of (valid, _, actual) \<Rightarrow>
                  let count = [(''actual_prefix_count'', JInt (int actual))] in
                  if valid
                  then Inr \<lparr>ct_oid = oid, ct_messages = new, ct_metadata =
                         cut_metadata g [attempt session_start ''matched'' count] ''new_empty_session'' oid session_start actual True\<rparr>
                  else Inl (prefix_mismatch g ''OpenCode mutation session did not match the expected prefix'' actual
                         (cut_metadata g [attempt session_start ''prefix_mismatch'' count] ''prefix_validation_failed'' oid
                            no_boundary actual False)))))"

text \<open>One boundary: what is noted of the attempt, how many messages were seen (if they could be read), and the cut.\<close>

definition try_boundary :: "cut_target \<Rightarrow> fork_answers \<Rightarrow> boundary \<Rightarrow> jval \<times> nat option \<times> (string \<times> jval list) option" where
  "try_boundary g a b =
     (case fork_with_abort_retry a of
        Inl e \<Rightarrow> (attempt b ''fork_failed'' (error_fields_of e), None, None)
      | Inr forked \<Rightarrow>
          (let oid = extract_opencode_session_id forked in
           if oid = [] then (attempt b ''fork_failed'' [(''error'', JStr ''missing_fork_session_id'')], None, None)
           else case fo_list a oid of
             Inl e \<Rightarrow> (attempt b ''list_failed'' (error_fields_of e), None, None)
           | Inr new \<Rightarrow>
               (case prefix_matches (kept_prefix g) new of (valid, _, actual) \<Rightarrow>
                  (attempt b (if valid then ''matched'' else ''prefix_mismatch'') [(''actual_prefix_count'', JInt (int actual))],
                   Some actual, if valid then Some (oid, new) else None))))"

fun try_boundaries :: "cut_target \<Rightarrow> (string \<Rightarrow> fork_answers) \<Rightarrow> jval list \<Rightarrow> nat \<Rightarrow> boundary list \<Rightarrow> http_reply + cut" where
  "try_boundaries g ask attempts actual [] =
     Inl (prefix_mismatch g ''OpenCode fork did not preserve the expected message prefix'' actual
       (cut_metadata g attempts ''prefix_validation_failed'' [] no_boundary actual False))"
| "try_boundaries g ask attempts actual (b # bs) =
     (case try_boundary g (ask (bo_message_id b)) b of (noted, seen, found) \<Rightarrow>
        let attempts1 = attempts @ [noted]; actual1 = (case seen of Some n \<Rightarrow> n | None \<Rightarrow> actual) in
        case found of
          Some (oid, new) \<Rightarrow> Inr \<lparr>ct_oid = oid, ct_messages = new,
            ct_metadata = cut_metadata g attempts1 ''fork_before_target'' oid b actual1 True\<rparr>
        | None \<Rightarrow> try_boundaries g ask attempts1 actual1 bs)"

text \<open>OpenCode's answers: the listing of a session before the cut, the session made under a title, its listing, and what a
  fork of a session before a message leads to.\<close>

record 'o cut_setting =
  cs_now :: string
  cs_listing :: "string \<Rightarrow> raised + jval list"
  cs_created :: "string \<Rightarrow> raised + jval"
  cs_created_list :: "string \<Rightarrow> raised + jval list"
  cs_ask :: "string \<Rightarrow> string \<Rightarrow> fork_answers"
  cs_act :: "'o chat_world \<Rightarrow> 'o chat_world"

definition fork_session_preserving_prefix :: "'o cut_setting \<Rightarrow> cut_target \<Rightarrow> http_reply + cut" where
  "fork_session_preserving_prefix cs g =
     (if cg_index g = 0 then fresh_session_cut g (cs_created cs (cg_title g)) (cs_created_list cs)
      else try_boundaries g (cs_ask cs (cg_old_oid g)) [] 0 (fork_boundary_candidates (cg_messages g) (cg_index g)))"

section \<open>Deleting from a message on\<close>

definition not_found :: "string \<Rightarrow> jobj \<Rightarrow> http_reply" where
  "not_found error extra = Reply 404 ((''error'', JStr error) # extra)"

text \<open>The messages of a session, with the errors of a failed listing.\<close>

definition read_messages :: "string \<Rightarrow> raised + jval list \<Rightarrow> http_reply + jval list" where
  "read_messages error listing =
     (case listing of
        Inr messages \<Rightarrow> Inr messages
      | Inl e \<Rightarrow> Inl (if error_status e = Some 404 then not_found ''opencode_session_not_found'' [(''detail'', JStr (raised_text e))]
                      else bad_gateway error (raised_text e)))"

text \<open>The store is written only after the fork was accepted, whatever others did meanwhile (\<open>cs_act\<close>).\<close>

definition put_cut ::
    "(session_error \<Rightarrow> string) \<Rightarrow> string \<Rightarrow> string \<Rightarrow> cut \<Rightarrow> 'o chat_world \<Rightarrow> (http_reply + (session_record \<times> cut)) \<times> 'o chat_world" where
  "put_cut error_text now sid c w =
     (case replace_opencode_session_after_mutation now sid (ct_oid c) (int (length (visible_message_signatures (ct_messages c))))
             (last_message_text (ct_messages c)) (cw_sessions w) of
        Inl e \<Rightarrow> (Inl (Uncaught (error_text e)), w)
      | Inr (r, st) \<Rightarrow> (Inr (r, c), w\<lparr>cw_sessions := st\<rparr>))"

definition delete_from_here ::
    "(session_error \<Rightarrow> string) \<Rightarrow> 'o cut_setting \<Rightarrow> string \<Rightarrow> string \<Rightarrow> bool \<Rightarrow> 'o chat_world \<Rightarrow>
       (http_reply + (session_record \<times> cut)) \<times> 'o chat_world" where
  "delete_from_here error_text cs sid mid revert w =
     (case live_session (cw_sessions w) sid of
        None \<Rightarrow> (Inl session_not_found, w)
      | Some r \<Rightarrow>
          (let w1 = cs_act cs w in
           case read_messages ''opencode_mutation_failed'' (cs_listing cs (sr_opencode_session_id r)) of
             Inl reply \<Rightarrow> (Inl reply, w1)
           | Inr messages \<Rightarrow>
               (case find_message_index messages mid of
                  None \<Rightarrow> (Inl (not_found ''message_not_found'' []), w1)
                | Some i \<Rightarrow>
                    (case fork_session_preserving_prefix cs \<lparr>cg_old_oid = sr_opencode_session_id r, cg_messages = messages,
                            cg_index = i, cg_title = sr_title r, cg_allow_revert = revert\<rparr> of
                       Inl reply \<Rightarrow> (Inl reply, w1)
                     | Inr c \<Rightarrow> put_cut error_text (cs_now cs) sid c w1))))"

text \<open>What a handler gets from outside itself, beside the answers of its calls.\<close>

record texts =
  tx_py :: "py_error \<Rightarrow> string"
  tx_session :: "session_error \<Rightarrow> string"

definition messages_reply ::
    "texts \<Rightarrow> 'o chat_world \<Rightarrow> string \<Rightarrow> string \<Rightarrow> jval list \<Rightarrow> (jobj \<Rightarrow> http_reply) \<Rightarrow> http_reply" where
  "messages_reply tx w sid oid messages reply =
     (case to_efp_messages (cw_display w) sid oid messages of
        Inl e \<Rightarrow> Uncaught (history_error_text (tx_py tx) e)
      | Inr efp \<Rightarrow> reply [(''messages'', JList (List.map JObj efp))])"

text \<open>The body is read if it can be; anything else than an object allows nothing.\<close>

definition delete_message_from_here_handler ::
    "texts \<Rightarrow> 'o cut_setting \<Rightarrow> string \<Rightarrow> string \<Rightarrow> jval option \<Rightarrow> 'o chat_world \<Rightarrow> http_reply \<times> 'o chat_world" where
  "delete_message_from_here_handler tx cs sid mid body w =
     (let revert = (case body of Some (JObj d) \<Rightarrow> truthy (jget d ''allow_revert_fallback'') | _ \<Rightarrow> False) in
      case delete_from_here (tx_session tx) cs sid mid revert w of
        (Inl reply, w1) \<Rightarrow> (reply, w1)
      | (Inr (r, c), w1) \<Rightarrow>
          (messages_reply tx w1 sid (sr_opencode_session_id r) (ct_messages c) (\<lambda>shown. Reply 200
             ([(''success'', JBool True), (''session_id'', JStr sid), (''message_id'', JStr mid), (''engine'', JStr ''opencode''),
               (''mutation'', JStr ''delete_from_here'')] @ shown @ [(''metadata'', JObj (ct_metadata c))])), w1))"

section \<open>Names\<close>

definition session_name_payload :: "session_record \<Rightarrow> jobj" where
  "session_name_payload r =
     [(''session_id'', JStr (sr_portal_session_id r)), (''name'', JStr (session_display_name r)),
      (''name_source'', JStr (session_name_source r))]"

definition session_name_handler :: "string \<Rightarrow> 'o chat_world \<Rightarrow> http_reply" where
  "session_name_handler sid w =
     (case live_session (cw_sessions w) sid of None \<Rightarrow> session_not_found | Some r \<Rightarrow> Reply 200 (session_name_payload r))"

definition bad_request :: "string \<Rightarrow> http_reply" where
  "bad_request error = Reply 400 [(''error'', JStr error)]"

definition read_json_object :: "string \<Rightarrow> jval option \<Rightarrow> http_reply + jobj" where
  "read_json_object what body =
     (case body of
        None \<Rightarrow> Inl (bad_request ''invalid_json'')
      | Some (JObj d) \<Rightarrow> Inr d
      | Some v \<Rightarrow> Inl (bad_request (what @ ''_must_be_object'')))"

definition wanted_title :: "jobj \<Rightarrow> string" where
  "wanted_title body =
     (case (if jget body ''name'' \<noteq> JNull then jget body ''name'' else jget body ''title'') of JStr s \<Rightarrow> py_strip s | _ \<Rightarrow> [])"

definition schedule_title_publish :: "string \<Rightarrow> 'o chat_world \<Rightarrow> 'o chat_world" where
  "schedule_title_publish sid w = w\<lparr>cw_tasks := cw_tasks w @ [''session-title-publish:'' @ sid]\<rparr>"

text \<open>The name is stored before OpenCode is told. \<open>read_act\<close> and \<open>patch_act\<close> are what others do while the body is read and
  while OpenCode answers.\<close>

definition rename_session_handler ::
    "string \<Rightarrow> ('o chat_world \<Rightarrow> 'o chat_world) \<Rightarrow> ('o chat_world \<Rightarrow> 'o chat_world) \<Rightarrow> raised + unit \<Rightarrow> string \<Rightarrow> jval option \<Rightarrow>
       'o chat_world \<Rightarrow> http_reply \<times> 'o chat_world" where
  "rename_session_handler now read_act patch_act patched sid body w =
     (case live_session (cw_sessions w) sid of
        None \<Rightarrow> (session_not_found, w)
      | Some r \<Rightarrow>
          (let w1 = read_act w in
           case read_json_object ''rename_payload'' body of
             Inl reply \<Rightarrow> (reply, w1)
           | Inr d \<Rightarrow>
               (let title = wanted_title d in
                if title = [] then (bad_request ''title_required'', w1)
                else case session_rename now sid title (cw_sessions w1) of
                  Inl e \<Rightarrow> (Uncaught ''KeyError'', w1)
                | Inr (u, st) \<Rightarrow>
                    (let w2 = patch_act (w1\<lparr>cw_sessions := st\<rparr>);
                         renamed = (Reply 200 ((''success'', JBool True) # session_name_payload u), schedule_title_publish sid w2)
                     in case patched of
                          Inr _ \<Rightarrow> renamed
                        | Inl (OpenCodeError e) \<Rightarrow>
                            if ce_status e = Some 404 then renamed else (bad_gateway ''opencode_error'' (ce_message e), w2)
                        | Inl e \<Rightarrow> (Uncaught (raised_text e), w2)))))"

record 'o title_run =
  tr_settings :: title_settings
  tr_overlay :: "jfile option"
  tr_listing :: "string \<Rightarrow> string + jval list"
  tr_answer :: title_answer
  tr_shown :: "rat \<Rightarrow> string"
  tr_stamp :: string
  tr_list_act :: "'o chat_world \<Rightarrow> 'o chat_world"
  tr_model_act :: "'o chat_world \<Rightarrow> 'o chat_world"

definition generate_session_title ::
    "'o title_run \<Rightarrow> string \<Rightarrow> jval \<Rightarrow> bool \<Rightarrow> 'o chat_world \<Rightarrow> (title_error + string option) \<times> 'o chat_world" where
  "generate_session_title tr sid profile force w =
     (case title_begin (tr_settings tr) (tr_overlay tr) profile force sid (cw_sessions w) of
        Inl e \<Rightarrow> (Inl e, w)
      | Inr None \<Rightarrow> (Inr None, w)
      | Inr (Some (target, oid)) \<Rightarrow>
          (let w1 = tr_list_act tr w in
           case title_texts (cw_display w1) sid oid (tr_listing tr oid) None None of
             Inl e \<Rightarrow> (Inl e, w1)
           | Inr _ \<Rightarrow>
               (let w2 = tr_model_act tr w1 in
                case title_finish (tr_shown tr) (tr_stamp tr) sid target (tr_answer tr) (cw_usage w2, cw_sessions w2) of
                  (r, (usage, st)) \<Rightarrow> (r, w2\<lparr>cw_usage := usage, cw_sessions := st\<rparr>))))"

definition latest_session :: "'o chat_world \<Rightarrow> string \<Rightarrow> session_record \<Rightarrow> session_record" where
  "latest_session w sid r = (case session_get (cw_sessions w) sid of Some u \<Rightarrow> u | None \<Rightarrow> r)"

definition title_reply :: "bool \<Rightarrow> session_record \<Rightarrow> http_reply" where
  "title_reply generated r =
     Reply 200 ([(''success'', JBool True), (''generated'', JBool generated)] @ session_name_payload r)"

text \<open>While the first turn's own naming is at work (\<open>wait_act\<close> is its end), its name is the answer.\<close>

definition generate_title_handler ::
    "texts \<Rightarrow> 'o title_run \<Rightarrow> ('o chat_world \<Rightarrow> 'o chat_world) \<Rightarrow> string \<Rightarrow> jval option \<Rightarrow> 'o chat_world \<Rightarrow> http_reply \<times> 'o chat_world" where
  "generate_title_handler tx tr wait_act sid body w =
     (case live_session (cw_sessions w) sid of
        None \<Rightarrow> (session_not_found, w)
      | Some r \<Rightarrow>
          (case read_json_object ''title_payload'' (if body = None then Some (JObj []) else body) of
             Inl reply \<Rightarrow> (reply, w)
           | Inr d \<Rightarrow>
               (case metadata_from_payload d of
                  Inl e \<Rightarrow> (bad_request (raised_text e), w)
                | Inr metadata \<Rightarrow> (case runtime_profile_from_metadata metadata of
                    Inl e \<Rightarrow> (bad_request (raised_text e), w)
                  | Inr profile \<Rightarrow>
                      if find_title_task (cw_tasks w) sid
                      then (let w1 = wait_act w; u = latest_session w1 sid r in
                            (title_reply (sr_generated_title u \<notin> {None, Some []} \<and> sr_generated_title u \<noteq> sr_generated_title r) u, w1))
                      else (case generate_session_title tr sid (if profile = [] then JNull else JObj profile) (truthy (jget d ''force'')) w of
                          (Inl (TitleGenerationError said code), w1) \<Rightarrow>
                            (Reply (int code) [(''success'', JBool False), (''error'', JStr said)], w1)
                        | (Inl UnknownSession, w1) \<Rightarrow> (session_not_found, w1)
                        | (Inl (TitleRaised e), w1) \<Rightarrow> (Uncaught (tx_py tx e), w1)
                        | (Inr title, w1) \<Rightarrow>
                            (title_reply (title \<noteq> None) (latest_session w1 sid r),
                             if title \<in> {None, Some []} then w1 else schedule_title_publish sid w1))))))"

section \<open>Deleting sessions\<close>

record 'o delete_setting =
  de_now :: string
  de_portal :: portal_settings
  de_portal_answer :: portal_answer
  de_answer :: "string \<Rightarrow> raised + unit"
  de_act :: "'o chat_world \<Rightarrow> 'o chat_world"

definition delete_portal_metadata :: "'o delete_setting \<Rightarrow> string \<Rightarrow> 'o chat_world \<Rightarrow> jval \<times> 'o chat_world" where
  "delete_portal_metadata de sid w =
     (case delete_session_metadata (de_portal de) (de_portal_answer de) sid of (out, requests) \<Rightarrow>
        (JObj out, w\<lparr>cw_portal := cw_portal w @ requests\<rparr>))"

definition delete_user_display :: "string \<Rightarrow> string \<Rightarrow> 'o chat_world \<Rightarrow> jval \<times> 'o chat_world" where
  "delete_user_display sid oid w =
     (case cw_display w of
        None \<Rightarrow> (JObj (SKIPPED @ [(''reason'', JStr ''display_store_delete_not_supported'')]), w)
      | Some st \<Rightarrow> (case display_delete_session sid oid st of (n, st1) \<Rightarrow>
          (JObj [(''success'', JBool True), (''deleted_count'', JInt (int n))], w\<lparr>cw_display := Some st1\<rparr>)))"

definition delete_chatlog :: "string \<Rightarrow> 'o chat_world \<Rightarrow> jval \<times> 'o chat_world" where
  "delete_chatlog sid w =
     (case chatlog_delete sid (cw_logs w) of (deleted, logs) \<Rightarrow>
        (JObj [(''success'', JBool True), (''deleted'', JBool deleted)], w\<lparr>cw_logs := logs\<rparr>))"

text \<open>OpenCode's side of a deletion: gone (was it missing already?), refused, or an exception nobody takes.\<close>

datatype opencode_deletion = Gone bool | Kept client_error | Broke string

definition opencode_deletion_of :: "raised + unit \<Rightarrow> opencode_deletion" where
  "opencode_deletion_of answer =
     (case answer of
        Inr _ \<Rightarrow> Gone False
      | Inl (OpenCodeError e) \<Rightarrow> if ce_status e = Some 404 then Gone True else Kept e
      | Inl e \<Rightarrow> Broke (raised_text e))"

text \<open>The session and what is stored of it: the record is marked, the log and the display texts go, the Portal is told.\<close>

record deletion =
  dn_metadata :: jval
  dn_chatlog :: jval
  dn_display :: jval

definition forget_session :: "'o delete_setting \<Rightarrow> session_record \<Rightarrow> 'o chat_world \<Rightarrow> deletion \<times> 'o chat_world" where
  "forget_session de r w =
     (let sid = sr_portal_session_id r;
          w1 = w\<lparr>cw_sessions := snd (mark_deleted (de_now de) sid (cw_sessions w))\<rparr>;
          (chatlog, w2) = delete_chatlog sid w1;
          (display, w3) = delete_user_display sid (sr_opencode_session_id r) w2;
          (metadata, w4) = delete_portal_metadata de sid w3
      in (\<lparr>dn_metadata = metadata, dn_chatlog = chatlog, dn_display = display\<rparr>, w4))"

definition status_json :: "client_error \<Rightarrow> jval" where
  "status_json e = (case ce_status e of Some n \<Rightarrow> JInt n | None \<Rightarrow> JNull)"

definition already_deleted_reply :: "string \<Rightarrow> bool \<Rightarrow> jval \<Rightarrow> jval \<Rightarrow> http_reply" where
  "already_deleted_reply sid missing metadata display =
     Reply 200 [(''success'', JBool True), (''session_id'', JStr sid), (''already_deleted'', JBool True), (''runtime_deleted'', JBool False),
       (''opencode_deleted'', JBool False), (''opencode_missing'', JBool missing), (''metadata_delete'', metadata),
       (''display_delete'', display)]"

definition delete_session_handler :: "'o delete_setting \<Rightarrow> string \<Rightarrow> 'o chat_world \<Rightarrow> http_reply \<times> 'o chat_world" where
  "delete_session_handler de sid w =
     (case live_session (cw_sessions w) sid of
        None \<Rightarrow>
          (let (metadata, w1) = delete_portal_metadata de sid w;
               known = session_get (cw_sessions w) sid;
               (display, w2) = delete_user_display sid (case known of Some r \<Rightarrow> sr_opencode_session_id r | None \<Rightarrow> []) w1
           in (already_deleted_reply sid (known = None) metadata display, w2))
      | Some r \<Rightarrow>
          (let w1 = de_act de w in
           case opencode_deletion_of (de_answer de (sr_opencode_session_id r)) of
             Kept e \<Rightarrow> (Reply 502 [(''success'', JBool False), (''error'', JStr ''opencode_delete_failed''), (''session_id'', JStr sid),
                 (''opencode_session_id'', JStr (sr_opencode_session_id r)), (''opencode_status'', status_json e),
                 (''detail'', JStr (ce_message e))], w1)
           | Broke said \<Rightarrow> (Uncaught said, w1)
           | Gone missing \<Rightarrow> (case forget_session de (r\<lparr>sr_portal_session_id := sid\<rparr>) w1 of (d, w2) \<Rightarrow>
               (Reply 200 [(''success'', JBool True), (''session_id'', JStr sid), (''opencode_session_id'', JStr (sr_opencode_session_id r)),
                  (''already_deleted'', JBool False), (''runtime_deleted'', JBool True), (''opencode_deleted'', JBool (\<not> missing)),
                  (''opencode_missing'', JBool missing), (''metadata_delete'', dn_metadata d), (''chatlog_delete'', dn_chatlog d),
                  (''display_delete'', dn_display d)], w2))))"

text \<open>All live sessions, one after the other; one that OpenCode keeps is listed and left alone.\<close>

record clearing =
  cg_failures :: "jval list"
  cg_count :: nat
  cg_results :: "jval list"

definition cleared_one :: "'o delete_setting \<Rightarrow> session_record \<Rightarrow> clearing \<times> 'o chat_world \<Rightarrow> string option \<times> clearing \<times> 'o chat_world" where
  "cleared_one de r s =
     (let (c, w) = s; w1 = de_act de w; sid = JStr (sr_portal_session_id r) in
      case opencode_deletion_of (de_answer de (sr_opencode_session_id r)) of
        Broke said \<Rightarrow> (Some said, c, w1)
      | Kept e \<Rightarrow> (None, c\<lparr>cg_failures := cg_failures c @ [JObj [(''session_id'', sid),
            (''opencode_session_id'', JStr (sr_opencode_session_id r)), (''status'', status_json e), (''detail'', JStr (ce_message e))]]\<rparr>, w1)
      | Gone missing \<Rightarrow> (case forget_session de r w1 of (d, w2) \<Rightarrow>
          (None, c\<lparr>cg_count := cg_count c + 1, cg_results := cg_results c @ [JObj [(''session_id'', sid),
             (''opencode_missing'', JBool missing), (''metadata_delete'', dn_metadata d), (''chatlog_delete'', dn_chatlog d),
             (''display_delete'', dn_display d)]]\<rparr>, w2)))"

fun clear_each :: "'o delete_setting \<Rightarrow> session_record list \<Rightarrow> clearing \<times> 'o chat_world \<Rightarrow> string option \<times> clearing \<times> 'o chat_world" where
  "clear_each de [] s = (None, s)"
| "clear_each de (r # rs) s =
     (case cleared_one de r s of (Some said, s1) \<Rightarrow> (Some said, s1) | (None, s1) \<Rightarrow> clear_each de rs s1)"

definition clear_sessions_handler :: "'o delete_setting \<Rightarrow> 'o chat_world \<Rightarrow> http_reply \<times> 'o chat_world" where
  "clear_sessions_handler de w =
     (case clear_each de (session_list_active (cw_sessions w)) (\<lparr>cg_failures = [], cg_count = 0, cg_results = []\<rparr>, w) of
        (Some said, c, w1) \<Rightarrow> (Uncaught said, w1)
      | (None, c, w1) \<Rightarrow>
          (let count = (''deleted_count'', JInt (int (cg_count c))); results = (''metadata_delete'', JList (cg_results c)) in
           if cg_failures c \<noteq> []
           then (Reply 502 [(''success'', JBool False), count, (''failed_count'', JInt (int (length (cg_failures c)))),
                   (''failures'', JList (cg_failures c)), results], w1)
           else (Reply 200 [(''success'', JBool True), count, (''failed_count'', JInt 0), results], w1)))"

section \<open>Editing a message\<close>

definition stripped_text :: "jobj \<Rightarrow> string \<Rightarrow> string" where
  "stripped_text d key = (case jget d key of JStr s \<Rightarrow> py_strip s | _ \<Rightarrow> [])"

definition edit_content :: "jobj \<Rightarrow> string" where
  "edit_content body = nonempty_or (stripped_text body ''content'')
     (nonempty_or (stripped_text body ''new_content'') (stripped_text body ''message''))"

definition edit_request_id :: "string \<Rightarrow> jobj \<Rightarrow> string" where
  "edit_request_id uuid body = nonempty_or (stripped_text body ''request_id'') uuid"

definition merged_async_edit_metadata :: "jobj \<Rightarrow> string \<Rightarrow> string \<Rightarrow> jobj" where
  "merged_async_edit_metadata body mid replacement =
     put_all [(''edit'', JBool True), (''edited_message_id'', JStr mid), (''replacement_user_message_id'', JStr replacement),
       (''source'', JStr ''message_edit_async'')] (obj_or_empty (jget body ''metadata''))"

definition async_edit_payload :: "jobj \<Rightarrow> string \<Rightarrow> string \<Rightarrow> string \<Rightarrow> string \<Rightarrow> string \<Rightarrow> jobj" where
  "async_edit_payload body content sid mid rid replacement =
     [(''message'', JStr content), (''session_id'', JStr sid), (''request_id'', JStr rid), (''message_id'', JStr replacement),
      (''metadata'', JObj (merged_async_edit_metadata body mid replacement))]
     @ concat (List.map (\<lambda>(key, name). if stripped_text body key = [] then [] else [(name, JStr (stripped_text body key))])
         [(''model'', ''model_override''), (''agent'', ''agent''), (''system'', ''system'')])"

text \<open>What an edit checks before it cuts: the content, the session, and that the message is a user's.\<close>

definition edit_checks :: "'o cut_setting \<Rightarrow> string \<Rightarrow> string \<Rightarrow> string \<Rightarrow> 'o chat_world \<Rightarrow> http_reply + unit" where
  "edit_checks cs content sid mid w =
     (if content = [] then Inl (bad_request ''content_required'')
      else case live_session (cw_sessions w) sid of
        None \<Rightarrow> Inl session_not_found
      | Some r \<Rightarrow> (case read_messages ''opencode_edit_failed'' (cs_listing cs (sr_opencode_session_id r)) of
          Inl reply \<Rightarrow> Inl reply
        | Inr messages \<Rightarrow> (case find_message_index messages mid of
            None \<Rightarrow> Inl (not_found ''message_not_found'' [])
          | Some i \<Rightarrow> if history_message_role (messages ! i) \<noteq> ''user'' then Inl (bad_request ''only_user_message_edit_supported'')
                      else Inr ())))"

text \<open>The answers of an edit. The first listing is \<open>cs_listing\<close> of \<open>ed_first\<close>; the cut reads the messages again.\<close>

record 'o edit_setting =
  ed_first :: "'o cut_setting"
  ed_cut :: "'o cut_setting"
  ed_uuid :: string
  ed_message_id :: string
  ed_stamp :: string
  ed_author :: "(string \<times> jval) list"
  ed_languages :: "string list"
  ed_render :: "reply_language \<Rightarrow> string"
  ed_before :: "string \<Rightarrow> raised + jval list"
  ed_sent :: "string \<Rightarrow> jobj \<Rightarrow> raised + jval"
  ed_after :: "string \<Rightarrow> raised + jval list"
  ed_resend_act :: "'o chat_world \<Rightarrow> 'o chat_world"

definition cut_for_edit ::
    "texts \<Rightarrow> 'o edit_setting \<Rightarrow> jobj \<Rightarrow> string \<Rightarrow> string \<Rightarrow> string \<Rightarrow> 'o chat_world \<Rightarrow>
       (http_reply + (session_record \<times> cut)) \<times> 'o chat_world" where
  "cut_for_edit tx ed body content sid mid w =
     (case edit_checks (ed_first ed) content sid mid w of
        Inl reply \<Rightarrow> (Inl reply, w)
      | Inr _ \<Rightarrow> delete_from_here (tx_session tx) (ed_cut ed) sid mid (truthy (jget body ''allow_revert_fallback''))
                   (cs_act (ed_first ed) w))"

text \<open>An asynchronous edit answers at once; the payload of the chat turn it starts is the last component.\<close>

definition edit_message_async ::
    "texts \<Rightarrow> 'o edit_setting \<Rightarrow> jobj \<Rightarrow> string \<Rightarrow> string \<Rightarrow> 'o chat_world \<Rightarrow> http_reply \<times> 'o chat_world \<times> jobj option" where
  "edit_message_async tx ed body sid mid w =
     (let content = edit_content body in
      case cut_for_edit tx ed body content sid mid w of
        (Inl reply, w1) \<Rightarrow> (reply, w1, None)
      | (Inr (r, c), w1) \<Rightarrow>
          (let rid = edit_request_id (ed_uuid ed) body; replacement = ed_message_id ed in
           (messages_reply tx w1 sid (sr_opencode_session_id r) (ct_messages c) (\<lambda>shown. Reply 202
              ([(''success'', JBool True), (''accepted'', JBool True), (''async'', JBool True), (''completion_state'', JStr ''pending''),
                (''session_id'', JStr sid), (''message_id'', JStr mid), (''replacement_user_message_id'', JStr replacement),
                (''assistant_message_id'', JStr []), (''request_id'', JStr rid), (''response'', JStr [])]
               @ shown @ [(''metadata'', JObj (put_all [(''edit_async'', JBool True), (''background_started'', JBool True)] (ct_metadata c)))])),
            w1, Some (async_edit_payload body content sid mid rid replacement))))"

definition new_of_role :: "string \<Rightarrow> jval list \<Rightarrow> jval list \<Rightarrow> string" where
  "new_of_role role before after =
     (let known = set (List.map (\<lambda>m. history_message_id m []) before);
          fresh = filter (\<lambda>m. history_message_id m [] \<noteq> [] \<and> history_message_id m [] \<notin> known \<and> history_message_role m = role) after
      in if fresh = [] then [] else history_message_id (last fresh) [])"

definition show_edited_message :: "'o edit_setting \<Rightarrow> string \<Rightarrow> string \<Rightarrow> string \<Rightarrow> string \<Rightarrow> string \<Rightarrow> 'o chat_world \<Rightarrow> 'o chat_world" where
  "show_edited_message ed sid oid mid replacement content w =
     (if replacement = [] then w
      else w\<lparr>cw_display := map_option (\<lambda>d. snd (put_user_message (ed_stamp ed) sid oid replacement content (JList [])
             (JObj (put_all (ed_author ed) [(''source'', JStr ''portal_original_user_message''), (''edited_from_message_id'', JStr mid),
                (''internal_model_content_hidden'', JBool True)])) d)) (cw_display w)\<rparr>)"

definition edit_failure :: "string \<Rightarrow> raised \<Rightarrow> jobj \<Rightarrow> http_reply" where
  "edit_failure error e metadata = Reply 502 [(''error'', JStr error), (''detail'', JStr (raised_text e)), (''metadata'', JObj metadata)]"

text \<open>The message sent to OpenCode: the new text, with the caller's model, agent and system text or the session's.\<close>

definition edit_or :: "jobj \<Rightarrow> string \<Rightarrow> string option \<Rightarrow> jval" where
  "edit_or body key kept = py_or (jget body key) (opt_str kept)"

definition edit_system :: "'o edit_setting \<Rightarrow> jobj \<Rightarrow> jval" where
  "edit_system ed body =
     (let lang = resolve_reply_language (ed_languages ed) (jget body ''metadata'') in
      if lang = None then jget body ''system''
      else opt_str (prepend_reply_language_block (ed_render ed) (case jget body ''system'' of JStr s \<Rightarrow> Some s | _ \<Rightarrow> None) lang))"

definition edit_message :: "'o edit_setting \<Rightarrow> jobj \<Rightarrow> string \<Rightarrow> session_record \<Rightarrow> jobj" where
  "edit_message ed body content r =
     [(''parts'', JList [JObj [(''type'', JStr ''text''), (''text'', JStr content)]]), (''model'', edit_or body ''model'' (sr_model r)),
      (''agent'', edit_or body ''agent'' (sr_agent r)), (''system'', edit_system ed body)]"

definition answer_of_edit :: "jval list \<Rightarrow> jval \<Rightarrow> string" where
  "answer_of_edit after sent = nonempty_or (last_message_text after) (message_to_visible_text sent)"

definition text_value :: "jval \<Rightarrow> string option" where
  "text_value v = (case v of JStr s \<Rightarrow> Some s | _ \<Rightarrow> None)"

definition finish_edit ::
    "texts \<Rightarrow> 'o edit_setting \<Rightarrow> jobj \<Rightarrow> string \<Rightarrow> string \<Rightarrow> string \<Rightarrow> session_record \<Rightarrow> cut \<Rightarrow> jval list \<Rightarrow> jval \<Rightarrow> jval list \<Rightarrow>
       'o chat_world \<Rightarrow> http_reply \<times> 'o chat_world" where
  "finish_edit tx ed body content sid mid r c before sent after w =
     (let oid = sr_opencode_session_id r; user = new_of_role ''user'' before after;
          w1 = show_edited_message ed sid oid mid user content w; said = answer_of_edit after sent in
      case update_after_chat (ed_stamp ed) sid content said (text_value (edit_or body ''model'' (sr_model r)))
             (text_value (edit_or body ''agent'' (sr_agent r))) (cw_sessions w1) of
        Inl e \<Rightarrow> (Uncaught (tx_py tx e), w1)
      | Inr (u, st) \<Rightarrow>
          (let w2 = w1\<lparr>cw_sessions := st\<rparr> in
           (messages_reply tx w2 sid oid after (\<lambda>shown. Reply 200
              ([(''success'', JBool True), (''session_id'', JStr sid), (''message_id'', JStr mid),
                (''replacement_user_message_id'', JStr user), (''assistant_message_id'', JStr (new_of_role ''assistant'' before after)),
                (''response'', JStr said)] @ shown @ [(''metadata'', JObj (ct_metadata c))])), w2)))"

definition resend_edit ::
    "texts \<Rightarrow> 'o edit_setting \<Rightarrow> jobj \<Rightarrow> string \<Rightarrow> string \<Rightarrow> string \<Rightarrow> session_record \<Rightarrow> cut \<Rightarrow> 'o chat_world \<Rightarrow> http_reply \<times> 'o chat_world" where
  "resend_edit tx ed body content sid mid r c w =
     (let oid = sr_opencode_session_id r in
      case ed_before ed oid of Inl e \<Rightarrow> (edit_failure ''opencode_edit_failed'' e (ct_metadata c), w)
      | Inr before \<Rightarrow> (case ed_sent ed oid (edit_message ed body content r) of
          Inl e \<Rightarrow> (edit_failure ''opencode_edit_resend_failed'' e (ct_metadata c), w)
      | Inr sent \<Rightarrow> (case ed_after ed oid of Inl e \<Rightarrow> (edit_failure ''opencode_edit_failed'' e (ct_metadata c), w)
      | Inr after \<Rightarrow> finish_edit tx ed body content sid mid r c before sent after (ed_resend_act ed w))))"

definition edit_message_handler ::
    "texts \<Rightarrow> 'o edit_setting \<Rightarrow> jval option \<Rightarrow> string \<Rightarrow> string \<Rightarrow> 'o chat_world \<Rightarrow> http_reply \<times> 'o chat_world \<times> jobj option" where
  "edit_message_handler tx ed body sid mid w =
     (case read_json_object ''payload'' body of
        Inl reply \<Rightarrow> (reply, w, None)
      | Inr d \<Rightarrow>
          if jget d ''async'' = JBool True then edit_message_async tx ed d sid mid w
          else (case cut_for_edit tx ed d (edit_content d) sid mid w of
              (Inl reply, w1) \<Rightarrow> (reply, w1, None)
            | (Inr (r, c), w1) \<Rightarrow> (case resend_edit tx ed d (edit_content d) sid mid r c w1 of (reply, w2) \<Rightarrow> (reply, w2, None))))"

definition edit_message_async_handler ::
    "texts \<Rightarrow> 'o edit_setting \<Rightarrow> jval option \<Rightarrow> string \<Rightarrow> string \<Rightarrow> 'o chat_world \<Rightarrow> http_reply \<times> 'o chat_world \<times> jobj option" where
  "edit_message_async_handler tx ed body sid mid w =
     (case read_json_object ''payload'' body of
        Inl reply \<Rightarrow> (reply, w, None) | Inr d \<Rightarrow> edit_message_async tx ed d sid mid w)"

section \<open>The background turn of an asynchronous edit\<close>

record edit_ids =
  ei_session_id :: string
  ei_request_id :: string
  ei_oid :: string
  ei_edited :: string
  ei_replacement :: string

definition edit_source :: "edit_ids \<Rightarrow> jobj" where
  "edit_source i =
     [(''edited_message_id'', JStr (ei_edited i)), (''replacement_user_message_id'', JStr (ei_replacement i)),
      (''source'', JStr ''message_edit_async'')]"

definition edit_failed_event :: "string \<Rightarrow> edit_ids \<Rightarrow> string \<Rightarrow> jobj" where
  "edit_failed_event stamp i error =
     [(''type'', JStr ''edit.failed''), (''event_type'', JStr ''edit.failed''), (''state'', JStr ''error''), (''ok'', JBool False),
      (''completion_state'', JStr ''error''), (''session_id'', JStr (ei_session_id i)), (''request_id'', JStr (ei_request_id i)),
      (''opencode_session_id'', JStr (ei_oid i)), (''created_at'', JStr stamp),
      (''data'', JObj ((''error'', JStr (preview_text error 1000)) # edit_source i))]"

definition logged_runtime_events :: "chatlog_store \<Rightarrow> string \<Rightarrow> string \<Rightarrow> jval list \<times> chatlog_store" where
  "logged_runtime_events logs sid rid =
     (case chatlog_get sid logs of
        Inr (Some (JObj d), logs1) \<Rightarrow>
          (case jget d ''entries'' of
             JList es \<Rightarrow> (case filter (\<lambda>e. is_obj e \<and> jget (obj_or_empty e) ''request_id'' = JStr rid) (rev es) of
               [] \<Rightarrow> [] | e # _ \<Rightarrow> (case jget (obj_or_empty e) ''runtime_events'' of JList evs \<Rightarrow> evs | _ \<Rightarrow> []))
           | _ \<Rightarrow> [], logs1)
      | Inr (_, logs1) \<Rightarrow> ([], logs1)
      | Inl e \<Rightarrow> ([], logs))"

definition edit_context :: "string \<Rightarrow> jobj" where
  "edit_context error =
     [(''objective'', JStr ''Async edit resend''), (''summary'', JStr (preview_text error 300)), (''current_state'', JStr ''error''),
      (''next_step'', JStr ''Retry edit after resolving the runtime error'')]"

definition log_edit_failure :: "'o surroundings \<Rightarrow> edit_ids \<Rightarrow> string \<Rightarrow> jobj \<Rightarrow> 'o chat_world \<Rightarrow> 'o chat_world" where
  "log_edit_failure sx i error event w =
     (case logged_runtime_events (cw_logs w) (ei_session_id i) (ei_request_id i) of (events, logs) \<Rightarrow>
        case chatlog_fail_entry (sx_stamp sx) (sx_now sx) (ei_session_id i) (ei_request_id i) error
            \<lparr>ef_runtime_events = Some (JList (events @ [JObj event])), ef_events = None, ef_context_state = Some (JObj (edit_context error)),
             ef_llm_debug = Some (JObj ([(''engine'', JStr ''opencode''), (''opencode_session_id'', JStr (ei_oid i))] @ edit_source i))\<rparr> logs of
          Inl e \<Rightarrow> w\<lparr>cw_logs := logs\<rparr>
        | Inr (d, logs1) \<Rightarrow> w\<lparr>cw_logs := logs1\<rparr>)"

definition tell_portal_of_edit :: "'o surroundings \<Rightarrow> edit_ids \<Rightarrow> string \<Rightarrow> jobj \<Rightarrow> 'o chat_world \<Rightarrow> 'o chat_world" where
  "tell_portal_of_edit sx i error event w =
     (case publish_session_metadata (sx_portal_settings sx) (sx_stamp sx) (sx_portal_answer sx)
        \<lparr>pb_session_id = ei_session_id i, pb_event_type = ''edit.failed'', pb_event_state = ''error'', pb_request_id = ei_request_id i,
         pb_task_id = None, pb_summary = preview_text error 300, pb_runtime_events = [JObj event],
         pb_metadata = [(''engine'', JStr ''opencode''), (''opencode_session_id'', JStr (ei_oid i))] @ edit_source i
           @ text_fields (session_title_metadata_for (Some (cw_sessions w)) (ei_session_id i))\<rparr> (cw_pending w) of
        (_, requests, kept) \<Rightarrow> w\<lparr>cw_pending := kept, cw_portal := cw_portal w @ requests\<rparr>)"

definition record_async_edit_failure :: "'o surroundings \<Rightarrow> edit_ids \<Rightarrow> string \<Rightarrow> 'o chat_world \<Rightarrow> 'o chat_world" where
  "record_async_edit_failure sx i error w =
     (let event = edit_failed_event (sx_stamp sx) i error;
          (bus, os) = publish (sx_observers sx) (snd (sx_moment sx 0)) event (cw_bus w, cw_observers w)
      in tell_portal_of_edit sx i error event (log_edit_failure sx i error event (w\<lparr>cw_bus := bus, cw_observers := os\<rparr>)))"

definition run_async_edit_resend ::
    "'o surroundings \<Rightarrow> (string \<times> jval) list \<Rightarrow> edit_ids \<Rightarrow> jobj \<Rightarrow> 'o chat_world \<Rightarrow> 'o chat_world" where
  "run_async_edit_resend sx author i payload w =
     (case handle_chat_payload sx author payload w of
        (HttpError status body, w1) \<Rightarrow> record_async_edit_failure sx i (spaced_dumps (JObj body)) w1
      | (Escapes e, w1) \<Rightarrow> record_async_edit_failure sx i (raised_text e) w1
      | (_, w1) \<Rightarrow> w1)"

section \<open>Properties\<close>

lemma first_index:
  assumes "filter P [0..<n] = i # rest"
  shows "i < n \<and> P i \<and> (\<forall>j < i. \<not> P j)"
proof -
  obtain us vs where parts: "[0..<n] = us @ i # vs" "\<forall>u \<in> set us. \<not> P u" "P i"
    using filter_eq_ConsD [OF assms] by blast
  have i: "i = length us" and "i < n"
    using parts(1) by (metis (no_types, lifting) add_0 length_append length_upt list.size(4) nth_append_length nth_upt diff_zero
      less_add_Suc1 add_Suc_right)+
  have "us ! j = j" if "j < i" for j
    using that parts(1) i \<open>i < n\<close> by (metis (no_types, lifting) add_0 diff_zero less_trans nth_append nth_upt)
  then have "\<not> P j" if "j < i" for j using that i parts(2) by (metis nth_mem)
  with \<open>i < n\<close> parts(3) show ?thesis by blast
qed

text \<open>The message with an id is the first one that has it.\<close>

definition stands_at :: "jval list \<Rightarrow> string \<Rightarrow> nat \<Rightarrow> bool" where
  "stands_at messages mid i \<longleftrightarrow> i < length messages \<and> history_message_id (messages ! i) [] = mid
     \<and> list_all (\<lambda>m. history_message_id m [] \<noteq> mid) (take i messages)"

lemma found_message:
  assumes "find_message_index messages mid = Some i"
  shows "stands_at messages mid i"
proof -
  obtain rest where "filter (\<lambda>i. history_message_id (messages ! i) [] = mid) [0..<length messages] = i # rest"
    using assms by (auto simp: find_message_index_def split: list.splits)
  from first_index [OF this] show ?thesis by (auto simp: stands_at_def list_all_length)
qed

lemma put_same_cut: "put_cut error_text now sid c w = (Inr (r, c1), w1) \<Longrightarrow> c1 = c"
  by (auto simp: put_cut_def split: sum.splits)

text \<open>What a cut is: the messages are those OpenCode lists for the new session, and their roles and visible texts are those of
  the messages before the chosen one, in order.\<close>

definition listed_for :: "'o cut_setting \<Rightarrow> string \<Rightarrow> cut \<Rightarrow> bool" where
  "listed_for cs oid c \<longleftrightarrow> cs_created_list cs (ct_oid c) = Inr (ct_messages c)
     \<or> (\<exists>b. fo_list (cs_ask cs oid b) (ct_oid c) = Inr (ct_messages c))"

definition same_texts :: "jval list \<Rightarrow> jval list \<Rightarrow> bool" where
  "same_texts xs ys \<longleftrightarrow> list_all2 (\<lambda>x y. history_message_role x = history_message_role y
     \<and> normalize_visible_content (message_to_visible_text x) = normalize_visible_content (message_to_visible_text y)) xs ys"

definition exact_cut :: "raised + jval list \<Rightarrow> string \<Rightarrow> cut \<Rightarrow> bool" where
  "exact_cut listing mid c \<longleftrightarrow> (\<exists>messages i. listing = Inr messages \<and> stands_at messages mid i
     \<and> same_texts (ct_messages c) (take i messages))"

lemma same_signatures: "visible_message_signatures xs = visible_message_signatures ys \<longleftrightarrow> same_texts xs ys"
proof -
  have "map f xs = map f ys \<longleftrightarrow> list_all2 (\<lambda>x y. f x = f y) xs ys" for f :: "jval \<Rightarrow> string \<times> string"
    by (auto simp: list_all2_conv_all_nth list_eq_iff_nth_eq)
  then show ?thesis by (simp add: visible_message_signatures_def same_texts_def)
qed

lemma boundary_prefix:
  "try_boundary g a b = (noted, seen, Some (oid, new)) \<Longrightarrow>
     same_texts new (kept_prefix g) \<and> oid \<noteq> [] \<and> fo_list a oid = Inr new"
  by (auto simp: try_boundary_def prefix_matches_def Let_def same_signatures [symmetric] split: sum.splits if_splits)

lemma boundaries_prefix:
  "try_boundaries g ask attempts actual bs = Inr c \<Longrightarrow>
     same_texts (ct_messages c) (kept_prefix g) \<and> ct_oid c \<noteq> [] \<and> (\<exists>b. fo_list (ask b) (ct_oid c) = Inr (ct_messages c))"
proof (induction bs arbitrary: attempts actual)
  case (Cons b bs)
  obtain noted seen found where tried: "try_boundary g (ask (bo_message_id b)) b = (noted, seen, found)"
    by (cases "try_boundary g (ask (bo_message_id b)) b")
  show ?case
  proof (cases found)
    case None
    with Cons tried show ?thesis by (simp add: Let_def)
  next
    case (Some p)
    then obtain oid new where p: "found = Some (oid, new)" by (cases p) auto
    with Cons.prems tried boundary_prefix [of g "ask (bo_message_id b)" b noted seen oid new] show ?thesis
      by (auto simp: Let_def)
  qed
qed simp

lemma fresh_prefix:
  "fresh_session_cut g created listing = Inr c \<Longrightarrow>
     same_texts (ct_messages c) (kept_prefix g) \<and> ct_oid c \<noteq> [] \<and> listing (ct_oid c) = Inr (ct_messages c)"
  by (auto simp: fresh_session_cut_def prefix_matches_def Let_def same_signatures [symmetric] split: sum.splits if_splits)

lemma cut_prefix:
  assumes "fork_session_preserving_prefix cs g = Inr c"
  shows "same_texts (ct_messages c) (kept_prefix g) \<and> ct_oid c \<noteq> [] \<and> listed_for cs (cg_old_oid g) c"
proof (cases "cg_index g = 0")
  case True
  with assms fresh_prefix show ?thesis by (fastforce simp: fork_session_preserving_prefix_def listed_for_def)
next
  case False
  with assms boundaries_prefix show ?thesis by (fastforce simp: fork_session_preserving_prefix_def listed_for_def)
qed

lemma delete_runs:
  assumes "delete_from_here error_text cs sid mid revert w = (Inr (r, c), w')"
  obtains old :: session_record and messages i where "live_session (cw_sessions w) sid = Some old"
    "cs_listing cs (sr_opencode_session_id old) = Inr messages" "find_message_index messages mid = Some i"
    "fork_session_preserving_prefix cs \<lparr>cg_old_oid = sr_opencode_session_id old, cg_messages = messages,
       cg_index = i, cg_title = sr_title old, cg_allow_revert = revert\<rparr> = Inr c"
    "put_cut error_text (cs_now cs) sid c (cs_act cs w) = (Inr (r, c), w')"
proof -
  obtain old where old: "live_session (cw_sessions w) sid = Some old"
    using assms by (auto simp: delete_from_here_def split: option.splits)
  obtain messages where listing: "cs_listing cs (sr_opencode_session_id old) = Inr messages"
    using assms old by (auto simp: delete_from_here_def read_messages_def Let_def split: sum.splits if_splits)
  obtain i where i: "find_message_index messages mid = Some i"
    using assms old listing by (auto simp: delete_from_here_def read_messages_def Let_def split: option.splits)
  let ?g = "\<lparr>cg_old_oid = sr_opencode_session_id old, cg_messages = messages,
       cg_index = i, cg_title = sr_title old, cg_allow_revert = revert\<rparr>"
  have run: "(case fork_session_preserving_prefix cs ?g of Inl reply \<Rightarrow> (Inl reply, cs_act cs w)
      | Inr c1 \<Rightarrow> put_cut error_text (cs_now cs) sid c1 (cs_act cs w)) = (Inr (r, c), w')"
    using assms old listing i by (simp add: delete_from_here_def read_messages_def Let_def)
  then obtain c1 where c1: "fork_session_preserving_prefix cs ?g = Inr c1"
    "put_cut error_text (cs_now cs) sid c1 (cs_act cs w) = (Inr (r, c), w')"
    by (auto split: sum.splits)
  then have "c1 = c" using put_same_cut [OF c1(2)] by simp
  with c1 show thesis by (intro that [where old = old, OF old listing i]) simp_all
qed

text \<open>The record before the cut is put beside the one after it: the cut changes where it points, its count, its last message and its
  time, and nothing else of it. \<open>only_session\<close>: no other session is touched, and no other store.\<close>

definition moved_to :: "session_record \<Rightarrow> cut \<Rightarrow> session_record \<Rightarrow> bool" where
  "moved_to old c r \<longleftrightarrow> \<not> sr_deleted old \<and>
     r = old\<lparr>sr_opencode_session_id := ct_oid c, sr_message_count := int (length (ct_messages c)),
         sr_last_message := last_message_text (ct_messages c), sr_updated_at := sr_updated_at r\<rparr>"

definition only_session :: "string \<Rightarrow> 'o chat_world \<Rightarrow> 'o chat_world \<Rightarrow> bool" where
  "only_session sid w w' \<longleftrightarrow> w'\<lparr>cw_sessions := cw_sessions w\<rparr> = w
     \<and> (\<forall>other. other \<noteq> sid \<longrightarrow> session_get (cw_sessions w') other = session_get (cw_sessions w) other)"

definition is_cut :: "'o cut_setting \<Rightarrow> string \<Rightarrow> string \<Rightarrow> 'o chat_world \<Rightarrow> session_record \<Rightarrow> cut \<Rightarrow> 'o chat_world \<Rightarrow> bool" where
  "is_cut cs sid mid w r c w' \<longleftrightarrow>
     (\<exists>old. live_session (cw_sessions w) sid = Some old \<and> exact_cut (cs_listing cs (sr_opencode_session_id old)) mid c
        \<and> listed_for cs (sr_opencode_session_id old) c)
     \<and> ct_oid c \<noteq> [] \<and> session_get (cw_sessions w') sid = Some r \<and> only_session sid (cs_act cs w) w'
     \<and> (\<exists>kept. session_get (cw_sessions (cs_act cs w)) sid = Some kept \<and> moved_to kept c r)"

lemma put_moves:
  assumes "put_cut error_text now sid c w = (Inr (r, c), w')" "session_inv (cw_sessions w)"
  shows "session_get (cw_sessions w') sid = Some r \<and> only_session sid w w'
     \<and> (\<exists>kept. session_get (cw_sessions w) sid = Some kept \<and> moved_to kept c r)"
proof -
  obtain kept where kept: "session_get (cw_sessions w) sid = Some kept" "\<not> sr_deleted kept"
    using assms(1) by (auto simp: put_cut_def replace_opencode_session_after_mutation_def split: option.splits if_splits sum.splits)
  have "sr_portal_session_id kept = sid" by (rule session_inv_get [OF assms(2) kept(1)])
  with assms(1) kept show ?thesis
    by (auto simp: put_cut_def replace_opencode_session_after_mutation_def visible_message_signatures_def Let_def only_session_def moved_to_def)
qed

lemma cut_is_exact:
  assumes "session_inv (cw_sessions (cs_act cs w))"
  shows "case delete_from_here error_text cs sid mid revert w of
     (Inr (r, c), w') \<Rightarrow> is_cut cs sid mid w r c w'
   | (Inl reply, w') \<Rightarrow> w' \<in> {w, cs_act cs w}"
proof (cases "delete_from_here error_text cs sid mid revert w")
  case (Pair result w')
  show ?thesis
  proof (cases result)
    case (Inl reply)
    with Pair show ?thesis
      by (auto simp: delete_from_here_def put_cut_def Let_def split: option.splits sum.splits)
  next
    case (Inr x)
    obtain r c where x: "x = (r, c)" by (cases x)
    with Pair Inr have ran: "delete_from_here error_text cs sid mid revert w = (Inr (r, c), w')" by simp
    obtain old :: session_record and messages i where run: "live_session (cw_sessions w) sid = Some old"
      "cs_listing cs (sr_opencode_session_id old) = Inr messages" "find_message_index messages mid = Some i"
      "fork_session_preserving_prefix cs \<lparr>cg_old_oid = sr_opencode_session_id old, cg_messages = messages,
         cg_index = i, cg_title = sr_title old, cg_allow_revert = revert\<rparr> = Inr c"
      "put_cut error_text (cs_now cs) sid c (cs_act cs w) = (Inr (r, c), w')"
      by (rule delete_runs [OF ran])
    have same: "same_texts (ct_messages c) (take i messages)" "ct_oid c \<noteq> []" "listed_for cs (sr_opencode_session_id old) c"
      using cut_prefix [OF run(4)] by (simp_all add: kept_prefix_def)
    have "exact_cut (cs_listing cs (sr_opencode_session_id old)) mid c"
      unfolding exact_cut_def using run(2) found_message [OF run(3)] same(1) by blast
    then have "is_cut cs sid mid w r c w'"
      using run(1) same(2,3) put_moves [OF run(5) assms] by (simp add: is_cut_def)
    with Pair Inr x show ?thesis by simp
  qed
qed

text \<open>C17: Deleting from a message on keeps exactly what comes before it. The session is moved to another OpenCode session only
  if that one holds, message for message, the roles and visible texts before the first message with the chosen id in the
  session's listing; then the session's own record points there, with the right count and last message and otherwise as it
  was, and no other session and no other store changes. In every other case nothing is changed. This is so whatever OpenCode
  answers, and whatever other requests did meanwhile (as long as they keep the store's invariant).\<close>

theorem cut_keeps_exactly_the_prefix:
  assumes "session_inv (cw_sessions (cs_act cs w))"
  shows "case delete_from_here error_text cs sid mid revert w of
     (Inr (r, c), w') \<Rightarrow> is_cut cs sid mid w r c w'
   | (Inl reply, w') \<Rightarrow> w' \<in> {w, cs_act cs w}"
  by (rule cut_is_exact [OF assms])

lemma edit_checked:
  assumes "edit_checks cs content sid mid w = Inr ()"
  shows "content \<noteq> [] \<and> (\<exists>old messages i. live_session (cw_sessions w) sid = Some old
    \<and> cs_listing cs (sr_opencode_session_id old) = Inr messages \<and> stands_at messages mid i \<and> history_message_role (messages ! i) = ''user'')"
proof -
  obtain old messages i where "live_session (cw_sessions w) sid = Some old" "cs_listing cs (sr_opencode_session_id old) = Inr messages"
      "find_message_index messages mid = Some i" "history_message_role (messages ! i) = ''user''" "content \<noteq> []"
    using assms by (auto simp: edit_checks_def read_messages_def split: option.splits sum.splits if_splits)
  then show ?thesis using found_message [of messages mid i] by blast
qed

text \<open>C18: An edit only ever replaces a message of the user. A turn is started for an asynchronous edit only after its message was
  found to be a user's in the session's listing, with new text to put in its place; the turn is for that text in that session,
  and the session, in the world the turn starts in, was cut exactly before the message: its record points to an OpenCode
  session that holds what came before. An edit that is refused starts no turn and leaves the world as the other requests
  left it.\<close>

theorem edits_replace_only_user_messages:
  assumes "session_inv (cw_sessions (cs_act (ed_cut ed) (cs_act (ed_first ed) w)))"
  shows "case edit_message_async tx ed body sid mid w of
     (reply, w', Some payload) \<Rightarrow> edit_content body \<noteq> [] \<and> jget payload ''message'' = JStr (edit_content body)
        \<and> jget payload ''session_id'' = JStr sid
        \<and> (\<exists>old messages i. live_session (cw_sessions w) sid = Some old
             \<and> cs_listing (ed_first ed) (sr_opencode_session_id old) = Inr messages
             \<and> stands_at messages mid i \<and> history_message_role (messages ! i) = ''user'')
        \<and> (\<exists>r c. is_cut (ed_cut ed) sid mid (cs_act (ed_first ed) w) r c w')
   | (reply, w', None) \<Rightarrow> w' \<in> {w, cs_act (ed_first ed) w, cs_act (ed_cut ed) (cs_act (ed_first ed) w)}"
proof (cases "edit_checks (ed_first ed) (edit_content body) sid mid w")
  case (Inl reply)
  then show ?thesis by (simp add: edit_message_async_def cut_for_edit_def Let_def)
next
  case (Inr u)
  let ?w1 = "cs_act (ed_first ed) w" and ?revert = "truthy (jget body ''allow_revert_fallback'')"
  obtain result w' where cut: "delete_from_here (tx_session tx) (ed_cut ed) sid mid ?revert ?w1 = (result, w')"
    by (cases "delete_from_here (tx_session tx) (ed_cut ed) sid mid ?revert ?w1")
  note kept = cut_is_exact [where error_text = "tx_session tx" and sid = sid and mid = mid and revert = ?revert, OF assms]
  show ?thesis
  proof (cases result)
    case (Inl reply)
    with Inr cut kept show ?thesis by (simp add: edit_message_async_def cut_for_edit_def Let_def)
  next
    case (Inr x)
    obtain r c where x: "x = (r, c)" by (cases x)
    have checked: "edit_checks (ed_first ed) (edit_content body) sid mid w = Inr ()" using \<open>edit_checks _ _ _ _ _ = Inr u\<close> by simp
    have cut_ok: "is_cut (ed_cut ed) sid mid ?w1 r c w'" using cut kept Inr x by simp
    have run: "fst (snd (edit_message_async tx ed body sid mid w)) = w'"
      "\<exists>p. snd (snd (edit_message_async tx ed body sid mid w)) = Some p \<and> jget p ''message'' = JStr (edit_content body) \<and> jget p ''session_id'' = JStr sid"
      using checked cut x Inr by (simp_all add: edit_message_async_def cut_for_edit_def Let_def async_edit_payload_def jget_def)
    then obtain reply p where "edit_message_async tx ed body sid mid w = (reply, w', Some p)"
      "jget p ''message'' = JStr (edit_content body)" "jget p ''session_id'' = JStr sid"
      by (metis prod.collapse)
    with edit_checked [OF checked] cut_ok show ?thesis by auto
  qed
qed

lemma display_forgotten:
  assumes "ud_messages (snd (display_delete_session sid oid st)) = d" "sid \<noteq> []"
  shows "list_all (\<lambda>(k, r). jget r ''portal_session_id'' \<noteq> JStr sid) d"
proof -
  let ?keys = "List.map fst (filter (\<lambda>(k, r). of_session sid oid r) (ud_messages st))"
  have "d = fold AList.delete ?keys (ud_messages st)"
    using assms by (auto simp: display_delete_session_def display_write_def Let_def)
  moreover have "fold AList.delete ks xs = filter (\<lambda>(k, v). k \<notin> set ks) xs" for ks :: "string list" and xs :: "(string \<times> jobj) list"
    by (induction ks arbitrary: xs) (auto simp: delete_filter case_prod_beta' intro!: filter_cong)
  ultimately have d: "d = filter (\<lambda>(k, v). k \<notin> set ?keys) (ud_messages st)" by simp
  have "jget r ''portal_session_id'' \<noteq> JStr sid" if "(k, r) \<in> set d" for k r
    using that assms(2) unfolding d by (force simp: of_session_def)
  then show ?thesis by (auto simp: list_all_iff)
qed

text \<open>What is left of a session that was forgotten: a record marked deleted if any, no chat log (in a file, in the cache or
  waiting to be written), no display text. The rows of the usage log stay.\<close>

definition forgotten :: "string \<Rightarrow> 'o chat_world \<Rightarrow> bool" where
  "forgotten sid w \<longleftrightarrow>
     (case session_get (cw_sessions w) sid of None \<Rightarrow> True | Some u \<Rightarrow> sr_deleted u)
     \<and> map_of (cl_files (cw_logs w)) (sanitize sid) = None \<and> map_of (cl_cache (cw_logs w)) (sanitize sid) = None
     \<and> sanitize sid \<notin> set (cl_pending (cw_logs w))
     \<and> (case cw_display w of None \<Rightarrow> True | Some st \<Rightarrow> list_all (\<lambda>(k, r). jget r ''portal_session_id'' \<noteq> JStr sid) (ud_messages st))"

lemma marked_deleted:
  assumes "session_inv st"
  shows "case session_get (snd (mark_deleted now sid st)) sid of None \<Rightarrow> True | Some u \<Rightarrow> sr_deleted u"
  using session_inv_get [OF assms, of sid] by (auto simp: mark_deleted_def Let_def split: option.split)

lemma chatlog_deleted:
  "map_of (cl_files (snd (chatlog_delete sid logs))) (sanitize sid) = None"
  "map_of (cl_cache (snd (chatlog_delete sid logs))) (sanitize sid) = None"
  "sanitize sid \<notin> set (cl_pending (snd (chatlog_delete sid logs)))"
  by (simp_all add: chatlog_delete_def chatlog_forget_def Let_def split: option.split)

lemma forget_parts:
  "cw_logs (snd (forget_session de r w)) = snd (chatlog_delete (sr_portal_session_id r) (cw_logs w))"
  "cw_sessions (snd (forget_session de r w)) = snd (mark_deleted (de_now de) (sr_portal_session_id r) (cw_sessions w))"
  "cw_display (snd (forget_session de r w)) = map_option (\<lambda>st. snd (display_delete_session (sr_portal_session_id r) (sr_opencode_session_id r) st)) (cw_display w)"
  by (simp_all add: forget_session_def delete_chatlog_def delete_user_display_def delete_portal_metadata_def Let_def split: prod.split option.split)

lemma forget_forgets:
  assumes "session_inv (cw_sessions w)" "sr_portal_session_id r = sid" "sid \<noteq> []"
  shows "forgotten sid (snd (forget_session de r w))"
  using marked_deleted [OF assms(1), of "de_now de" sid] chatlog_deleted [of sid] display_forgotten [OF refl assms(3)]
  by (simp add: forgotten_def forget_parts assms(2) split: option.split)

text \<open>C19: A live session is deleted here exactly when it is gone at OpenCode. If OpenCode deleted it or answers 404, its record
  is marked deleted and its chat log and display texts are gone; the usage log keeps its rows. If OpenCode answers anything else
  or cannot be asked, the handler changes nothing.\<close>

theorem deletion_follows_opencode:
  assumes "live_session (cw_sessions w) sid = Some r" "session_inv (cw_sessions (de_act de w))" "sid \<noteq> []"
  shows "case de_answer de (sr_opencode_session_id r) of
      Inr u \<Rightarrow> forgotten sid (snd (delete_session_handler de sid w))
    | Inl (OpenCodeError e) \<Rightarrow>
        if ce_status e = Some 404 then forgotten sid (snd (delete_session_handler de sid w))
        else snd (delete_session_handler de sid w) = de_act de w
    | Inl other \<Rightarrow> snd (delete_session_handler de sid w) = de_act de w"
proof -
  have gone: "forgotten sid (snd (delete_session_handler de sid w))"
    if "opencode_deletion_of (de_answer de (sr_opencode_session_id r)) = Gone missing" for missing
  proof -
    have "forgotten sid (snd (forget_session de (r\<lparr>sr_portal_session_id := sid\<rparr>) (de_act de w)))"
      by (rule forget_forgets [OF assms(2) _ assms(3)]) simp
    with that show ?thesis
      by (cases "forget_session de (r\<lparr>sr_portal_session_id := sid\<rparr>) (de_act de w)") (simp add: delete_session_handler_def assms(1))
  qed
  have same: "snd (delete_session_handler de sid w) = de_act de w"
    if "case opencode_deletion_of (de_answer de (sr_opencode_session_id r)) of Gone missing \<Rightarrow> False | _ \<Rightarrow> True"
    using that by (auto simp: delete_session_handler_def assms(1) split: opencode_deletion.splits)
  show ?thesis
  proof (cases "de_answer de (sr_opencode_session_id r)")
    case (Inl e)
    show ?thesis
    proof (cases e)
      case (OpenCodeError err)
      with Inl gone same show ?thesis by (cases "ce_status err = Some 404") (simp_all add: opencode_deletion_of_def)
    qed (use Inl same in \<open>simp_all add: opencode_deletion_of_def\<close>)
  qed (use gone [of False] in \<open>simp add: opencode_deletion_of_def\<close>)
qed

definition accepting :: "'o delete_setting" where
  "accepting = \<lparr>de_now = ''t'', de_portal = \<lparr>ps_base_url = [], ps_agent_id = [], ps_token = []\<rparr>, de_portal_answer = PortalFailed [],
     de_answer = (\<lambda>_. Inr ()), de_act = id\<rparr>"

lemma one_session_live: "live_session one_session ''s'' = Some unnamed_session" "session_inv one_session"
  by (simp_all add: live_session_def one_session_def unnamed_session_def session_get_def session_inv_def session_save_def)

text \<open>A session of one message of the user, which is cut away or edited.\<close>

definition only_message :: jval where
  "only_message = JObj [(''info'', JObj [(''id'', JStr ''m''), (''role'', JStr ''user'')])]"

definition empty_cut :: "'o cut_setting" where
  "empty_cut = \<lparr>cs_now = ''t'', cs_listing = (\<lambda>oid. Inr (if oid = ''o'' then [only_message] else [])),
     cs_created = (\<lambda>title. Inr (JObj [(''id'', JStr ''new'')])), cs_created_list = (\<lambda>oid. Inr []),
     cs_ask = (\<lambda>oid b. \<lparr>fo_fork = Inl (OtherError []), fo_abort = Inr (), fo_again = Inr JNull, fo_list = (\<lambda>oid. Inr [])\<rparr>), cs_act = id\<rparr>"

definition an_edit :: "'o edit_setting" where
  "an_edit = \<lparr>ed_first = empty_cut, ed_cut = empty_cut, ed_uuid = ''u'', ed_message_id = ''m2'', ed_stamp = ''t'', ed_author = [],
     ed_languages = [], ed_render = (\<lambda>_. []), ed_before = (\<lambda>_. Inr []), ed_sent = (\<lambda>_ _. Inr JNull), ed_after = (\<lambda>_. Inr []), ed_resend_act = id\<rparr>"

lemma only_message_found:
  "find_message_index [only_message] ''m'' = Some 0" "history_message_role only_message = ''user''"
  "extract_opencode_session_id (JObj [(''id'', JStr ''new'')]) = ''new''"
  by code_simp+

lemma cut_of_one:
  fixes w :: "'o chat_world"
  obtains r c w' where
    "delete_from_here error_text empty_cut ''s'' ''m'' revert (w\<lparr>cw_sessions := one_session\<rparr>) = (Inr (r, c), w')"
proof -
  have "session_get one_session ''s'' = Some unnamed_session"
    by (simp add: one_session_def session_get_def session_save_def)
  then have "\<exists>r c w'. delete_from_here error_text empty_cut ''s'' ''m'' revert (w\<lparr>cw_sessions := one_session\<rparr>) = (Inr (r, c), w')"
    by (simp add: delete_from_here_def one_session_live(1) empty_cut_def read_messages_def only_message_found Let_def
        fork_session_preserving_prefix_def fresh_session_cut_def prefix_matches_def kept_prefix_def visible_message_signatures_def
        put_cut_def replace_opencode_session_after_mutation_def del: extract_opencode_session_id.simps)
       (simp add: unnamed_session_def)?
  then show thesis using that by blast
qed

lemma cut_keeps_exactly_the_prefix_witness:
  "\<forall>w. \<exists>r c w'. delete_from_here (\<lambda>_. []) empty_cut ''s'' ''m'' False (w\<lparr>cw_sessions := one_session\<rparr>) = (Inr (r, c), w')
     \<and> is_cut empty_cut ''s'' ''m'' (w\<lparr>cw_sessions := one_session\<rparr>) r c w'"
proof
  fix w :: "'o chat_world"
  let ?w = "w\<lparr>cw_sessions := one_session\<rparr>"
  obtain r c w' where ran: "delete_from_here (\<lambda>_. []) empty_cut ''s'' ''m'' False ?w = (Inr (r, c), w')"
    by (rule cut_of_one)
  have "session_inv (cw_sessions (cs_act empty_cut ?w))" by (simp add: empty_cut_def one_session_live(2))
  from cut_keeps_exactly_the_prefix [OF this, where error_text = "\<lambda>_. []" and sid = "''s''" and mid = "''m''" and revert = False] ran
  show "\<exists>r c w'. delete_from_here (\<lambda>_. []) empty_cut ''s'' ''m'' False ?w = (Inr (r, c), w') \<and> is_cut empty_cut ''s'' ''m'' ?w r c w'"
    by auto
qed

lemma edits_replace_only_user_messages_witness:
  "\<forall>tx w. case edit_message_async tx an_edit [(''content'', JStr ''better'')] ''s'' ''m'' (w\<lparr>cw_sessions := one_session\<rparr>) of
     (reply, w', Some payload) \<Rightarrow> jget payload ''message'' = JStr ''better'' \<and> jget payload ''session_id'' = JStr ''s''
        \<and> (\<exists>r c. is_cut empty_cut ''s'' ''m'' (w\<lparr>cw_sessions := one_session\<rparr>) r c w')
   | (reply, w', None) \<Rightarrow> False"
proof (intro allI)
  fix tx :: texts and w :: "'o chat_world"
  let ?w = "w\<lparr>cw_sessions := one_session\<rparr>" and ?body = "[(''content'', JStr ''better'')]"
  have content: "edit_content ?body = ''better''" by code_simp
  obtain r c w' where ran: "delete_from_here (tx_session tx) empty_cut ''s'' ''m'' False ?w = (Inr (r, c), w')"
    by (rule cut_of_one)
  have first: "ed_first an_edit = empty_cut" "ed_cut an_edit = empty_cut" "cs_act empty_cut ?w = ?w" by (simp_all add: an_edit_def empty_cut_def)
  have "edit_checks empty_cut ''better'' ''s'' ''m'' ?w = Inr ()"
    using only_message_found by (simp add: edit_checks_def one_session_live(1) empty_cut_def read_messages_def unnamed_session_def)
  then have "\<exists>reply p. edit_message_async tx an_edit ?body ''s'' ''m'' ?w = (reply, w', Some p)"
    using ran by (simp add: edit_message_async_def cut_for_edit_def content first jget_def Let_def)
  moreover have "session_inv (cw_sessions (cs_act (ed_cut an_edit) (cs_act (ed_first an_edit) ?w)))"
    unfolding first by (simp add: one_session_live(2))
  note edits_replace_only_user_messages [OF this, where tx = tx and body = ?body and sid = "''s''" and mid = "''m''", unfolded content first]
  ultimately show "case edit_message_async tx an_edit ?body ''s'' ''m'' ?w of
     (reply, w', Some payload) \<Rightarrow> jget payload ''message'' = JStr ''better'' \<and> jget payload ''session_id'' = JStr ''s''
        \<and> (\<exists>r c. is_cut empty_cut ''s'' ''m'' ?w r c w')
   | (reply, w', None) \<Rightarrow> False" by auto
qed

lemma deletion_follows_opencode_witness:
  "\<forall>w. forgotten ''s'' (snd (delete_session_handler accepting ''s'' (w\<lparr>cw_sessions := one_session\<rparr>)))"
proof
  fix w :: "'o chat_world"
  have "live_session (cw_sessions (w\<lparr>cw_sessions := one_session\<rparr>)) ''s'' = Some unnamed_session"
    "session_inv (cw_sessions (de_act accepting (w\<lparr>cw_sessions := one_session\<rparr>)))"
    by (simp_all add: one_session_live accepting_def)
  from deletion_follows_opencode [OF this]
  show "forgotten ''s'' (snd (delete_session_handler accepting ''s'' (w\<lparr>cw_sessions := one_session\<rparr>)))"
    by (simp add: accepting_def)
qed

definition is_deleted :: "string \<Rightarrow> 'o chat_world \<Rightarrow> bool" where
  "is_deleted sid w = (case session_get (cw_sessions w) sid of None \<Rightarrow> False | Some u \<Rightarrow> sr_deleted u)"

definition keeps_deletions :: "('o chat_world \<Rightarrow> 'o chat_world) \<Rightarrow> bool" where
  "keeps_deletions act \<longleftrightarrow> (\<forall>w sid. session_inv (cw_sessions w) \<longrightarrow>
     session_inv (cw_sessions (act w)) \<and> (is_deleted sid w \<longrightarrow> is_deleted sid (act w))
     \<and> (session_get (cw_sessions w) sid \<noteq> None \<longrightarrow> session_get (cw_sessions (act w)) sid \<noteq> None))"

definition accounted :: "string \<Rightarrow> clearing \<times> 'o chat_world \<Rightarrow> bool" where
  "accounted sid s \<longleftrightarrow> is_deleted sid (snd s) \<or> list_ex (\<lambda>f. jget (obj_or_empty f) ''session_id'' = JStr sid) (cg_failures (fst s))"

definition clear_ok :: "string \<Rightarrow> clearing \<times> 'o chat_world \<Rightarrow> bool" where
  "clear_ok sid s \<longleftrightarrow> session_inv (cw_sessions (snd s)) \<and> session_get (cw_sessions (snd s)) sid \<noteq> None"

lemma mark_deleted_get:
  assumes "session_inv st"
  shows "session_get (snd (mark_deleted now k st)) sid =
    (if sid = k then map_option (\<lambda>r. r\<lparr>sr_deleted := True, sr_updated_at := now\<rparr>) (session_get st k) else session_get st sid)"
  using session_inv_get [OF assms, of k] by (auto simp: mark_deleted_def Let_def split: option.split)

lemma mark_deleted_inv: "session_inv st \<Longrightarrow> session_inv (snd (mark_deleted now k st))"
  by (simp add: mark_deleted_def Let_def split: option.split)

lemma cleared_one_step:
  assumes "keeps_deletions (de_act de)" "cleared_one de r s = (None, s1)" "clear_ok sid s"
  shows "clear_ok sid s1 \<and> (accounted sid s \<longrightarrow> accounted sid s1) \<and> (sr_portal_session_id r = sid \<longrightarrow> accounted sid s1)"
proof -
  obtain c w where s: "s = (c, w)" by (cases s)
  let ?w = "de_act de w"
  have ok: "session_inv (cw_sessions ?w)" "session_get (cw_sessions ?w) sid \<noteq> None" "is_deleted sid w \<longrightarrow> is_deleted sid ?w"
    using assms(1,3) by (auto simp: keeps_deletions_def clear_ok_def s)
  show ?thesis
  proof (cases "opencode_deletion_of (de_answer de (sr_opencode_session_id r))")
    case (Gone missing)
    obtain d w2 where forget: "forget_session de r ?w = (d, w2)" by (cases "forget_session de r ?w")
    have after: "cw_sessions w2 = snd (mark_deleted (de_now de) (sr_portal_session_id r) (cw_sessions ?w))"
      using forget_parts(2) [of de r ?w] by (simp add: forget)
    from assms(2) Gone forget have s1: "snd s1 = w2" "cg_failures (fst s1) = cg_failures c"
      by (auto simp: cleared_one_def s Let_def)
    have "session_inv (cw_sessions w2)" unfolding after by (rule mark_deleted_inv [OF ok(1)])
    then show ?thesis
      using ok(2,3) by (auto simp: clear_ok_def accounted_def is_deleted_def s s1 after mark_deleted_get [OF ok(1)] split: option.splits if_splits)
  next
    case (Kept e)
    with assms(2) ok show ?thesis
      by (auto simp: cleared_one_def s Let_def clear_ok_def accounted_def jget_def list_ex_iff)
  next
    case (Broke said)
    with assms(2) show ?thesis by (simp add: cleared_one_def s Let_def)
  qed
qed

lemma clear_each_accounts:
  assumes "keeps_deletions (de_act de)" "clear_each de rs s = (None, s1)" "clear_ok sid s"
    and "accounted sid s \<or> sid \<in> sr_portal_session_id ` set rs"
  shows "accounted sid s1"
  using assms(2,3,4)
proof (induction rs arbitrary: s)
  case (Cons r rs)
  obtain x s2 where one: "cleared_one de r s = (x, s2)" by (cases "cleared_one de r s")
  with Cons.prems(1) have run: "x = None" "clear_each de rs s2 = (None, s1)" by (auto split: option.splits)
  have "clear_ok sid s2 \<and> (accounted sid s2 \<or> sid \<in> sr_portal_session_id ` set rs)"
    using cleared_one_step [OF assms(1) one [unfolded run(1)] Cons.prems(2)] Cons.prems(3) by auto
  then show ?case using Cons.IH [OF run(2)] by blast
qed simp

text \<open>C20: Clearing all sessions accounts for each of them. When it answers, every session that was live is deleted or is listed
  as a failure, provided no other request brings a deleted session back meanwhile; and it answers success exactly when
  there is no failure.\<close>

theorem clearing_accounts_for_every_session:
  assumes "keeps_deletions (de_act de)" "session_inv (cw_sessions w)" "live_session (cw_sessions w) sid = Some r"
    and "clear_each de (session_list_active (cw_sessions w)) (\<lparr>cg_failures = [], cg_count = 0, cg_results = []\<rparr>, w) = (None, c, w')"
  shows "accounted sid (c, w')
    \<and> (case fst (clear_sessions_handler de w) of Reply status body \<Rightarrow> (status = 200) = (cg_failures c = []) | Uncaught e \<Rightarrow> False)"
proof
  have stored: "session_get (cw_sessions w) sid = Some r" "\<not> sr_deleted r"
    using assms(3) by (auto simp: live_session_def split: option.splits if_splits)
  then have "sr_portal_session_id r = sid" by (metis session_inv_get assms(2))
  moreover have "r \<in> set (session_list_active (cw_sessions w))"
    using stored by (auto simp: session_list_active_def session_get_def dest: map_of_SomeD intro: rev_image_eqI)
  ultimately have "sid \<in> sr_portal_session_id ` set (session_list_active (cw_sessions w))" by force
  then show "accounted sid (c, w')"
    using clear_each_accounts [OF assms(1,4)] stored(1) assms(2) by (simp add: clear_ok_def)
  show "case fst (clear_sessions_handler de w) of Reply status body \<Rightarrow> (status = 200) = (cg_failures c = []) | Uncaught e \<Rightarrow> False"
    by (simp add: clear_sessions_handler_def assms(4) Let_def)
qed

lemma clearing_accounts_for_every_session_witness:
  "\<forall>w. \<exists>c w'. clear_each accepting (session_list_active one_session)
      (\<lparr>cg_failures = [], cg_count = 0, cg_results = []\<rparr>, w\<lparr>cw_sessions := one_session\<rparr>) = (None, c, w')
    \<and> accounted ''s'' (c, w')
    \<and> (case fst (clear_sessions_handler accepting (w\<lparr>cw_sessions := one_session\<rparr>)) of
         Reply status body \<Rightarrow> (status = 200) = (cg_failures c = []) | Uncaught e \<Rightarrow> False)"
proof
  fix w :: "'o chat_world"
  let ?w = "w\<lparr>cw_sessions := one_session\<rparr>" and ?s = "\<lparr>cg_failures = [], cg_count = 0, cg_results = []\<rparr>"
  have one: "session_list_active one_session = [unnamed_session]"
    by (simp add: session_list_active_def one_session_def unnamed_session_def session_save_def)
  obtain d w2 where "forget_session accepting unnamed_session ?w = (d, w2)" by (cases "forget_session accepting unnamed_session ?w")
  then obtain c w' where run: "clear_each accepting (session_list_active (cw_sessions ?w)) (?s, ?w) = (None, c, w')"
    by (simp add: one cleared_one_def accepting_def opencode_deletion_of_def Let_def)
  have "keeps_deletions (de_act accepting)" by (simp add: keeps_deletions_def accepting_def)
  note clearing_accounts_for_every_session [OF this _ _ run, where sid = "''s''" and r = unnamed_session]
  then show "\<exists>c w'. clear_each accepting (session_list_active one_session) (?s, ?w) = (None, c, w')
    \<and> accounted ''s'' (c, w')
    \<and> (case fst (clear_sessions_handler accepting ?w) of Reply status body \<Rightarrow> (status = 200) = (cg_failures c = []) | Uncaught e \<Rightarrow> False)"
    using run by (simp add: one_session_live)
qed

text \<open>
  A refused rename is stored all the same: the handler answers 502, but the session has the new name here, OpenCode has
  the old one, and the Portal is told neither.
\<close>

theorem refused_rename_is_stored:
  assumes "live_session (cw_sessions w) sid = Some r" "session_inv (cw_sessions w)" "ce_status e = Some 500" "py_strip s = s" "s \<noteq> []"
  shows "case rename_session_handler now id id (Inl (OpenCodeError e)) sid (Some (JObj [(''name'', JStr s)])) w of
      (reply, w') \<Rightarrow> reply = bad_gateway ''opencode_error'' (ce_message e) \<and> cw_tasks w' = cw_tasks w
        \<and> (case session_get (cw_sessions w') sid of Some u \<Rightarrow> sr_custom_title u = Some s | None \<Rightarrow> False)"
proof -
  have r: "session_get (cw_sessions w) sid = Some r" using assms(1) by (simp add: live_session_def split: option.splits if_splits)
  then have "sr_portal_session_id r = sid" using session_inv_get [OF assms(2)] by blast
  with r show ?thesis
    by (simp add: rename_session_handler_def assms read_json_object_def wanted_title_def jget_def session_rename_def Let_def)
qed

text \<open>While OpenCode lists the new message of the user last, the answer of an edit is that message itself, although the
  reply to the send holds the real answer.\<close>

theorem edit_answers_with_the_question:
  "\<exists>after sent. history_message_role (last after) = ''user'' \<and> message_to_visible_text sent = ''42''
     \<and> answer_of_edit after sent = ''What is the answer?''"
proof (intro exI conjI)
  let ?message = "\<lambda>role said. JObj [(''info'', JObj [(''role'', JStr role)]), (''parts'', JList [JObj [(''type'', JStr ''text''), (''text'', JStr said)]])]"
  show "history_message_role (last [?message ''user'' ''What is the answer?'']) = ''user''" by code_simp
  show "message_to_visible_text (?message ''assistant'' ''42'') = ''42''" by code_simp
  show "answer_of_edit [?message ''user'' ''What is the answer?''] (?message ''assistant'' ''42'') = ''What is the answer?''" by code_simp
qed

end
