(* ===== verification/Spec2Isabelle.thy ===== *)
theory Spec2Isabelle
  imports EventBus PermissionsApi RequestBindings TaskCompletion UserDisplay ProxyPlan
    CopilotProxy CopilotPricing PermissionGenerator FileService BridgeRun SessionTitle ChatTurnFacts ChatStream SessionsApi
begin

text \<open>
  A model of the Engineering Flow Platform's adapter for the OpenCode runtime (the Python package
  \<^verbatim>\<open>src/efp_opencode_adapter\<close>). The adapter is one asynchronous HTTP server per member: the Portal talks to it
  (chat, tasks, sessions, files, permissions), it talks to a local OpenCode process, and it proxies OpenCode's
  calls to the model provider. Its own logic is in the stores that relate the two sides and in the rules that
  decide what may be done; those are what the theories model.

  \<^bold>\<open>Conventions.\<close> Theory PyPrelude holds the Python values: a JSON value is a \<open>jval\<close>, a dict an association list in
  insertion order whose updates keep a key's place, \<^verbatim>\<open>None\<close> is \<open>JNull\<close> or an empty text where the code tests
  truthiness only, strings are lists of characters with code points up to 255. An exception is an \<open>Inl\<close>. Clocks,
  random identifiers and answers of other services are arguments. A store is a record, a method a function
  from the record to its result and the next record; a handler with an \<^verbatim>\<open>await\<close> is cut there into the steps
  between which other requests run, so that interleavings are lists of steps. PyFloat has Python's floats as exact
  rationals with rounding to 53 bits, PyTime the ISO time texts, JsonText \<^verbatim>\<open>json.dumps\<close> and \<^verbatim>\<open>json.loads\<close> and
  the byte lengths the size caps count, NetText the parts of \<^verbatim>\<open>urllib.parse\<close> and \<^verbatim>\<open>ipaddress\<close> that are used,
  Sha256 the hash, FileTree directories with symbolic links.

  \<^bold>\<open>Permissions.\<close> PendingInput models \<^verbatim>\<open>pending_input.py\<close>: the last permission question of each session and the
  claim that keeps two answers from being in flight. PermissionsApi models the endpoints of
  \<^verbatim>\<open>permissions_api.py\<close> around their one call to OpenCode. PermissionGenerator models the permission table that
  \<^verbatim>\<open>permission_generator.py\<close> writes for OpenCode from a profile. The lemmas show that a claim is exclusive in every
  interleaving, that an answer is sent only while its claim is held, and that what a profile denies is denied.

  \<^bold>\<open>The chat turn.\<close> ChatParts holds the steps of \<^verbatim>\<open>chat_api.py\<close> that stand alone (reading a request, its session, the
  send with its probe after a broken connection, waiting for the answer), ChatTurn the whole handler \<open>run_turn\<close> over all stores of
  the application (\<open>chat_world\<close>): a turn is a computation that ends, raises or runs out of polls, and \<open>sx_meanwhile\<close> is what
  other requests do to the stores at each of its waits. ChatTurnFacts proves what every turn keeps to: it answers once its polls
  reach their deadlines, sends one message to the model at most, announces its outcome, and leaves its answer on record. SkillInvocation
  (\<^verbatim>\<open>skill_invocation.py\<close>, \<^verbatim>\<open>repository_workspace.py\<close>, \<^verbatim>\<open>index_loader.py\<close>) decides whether a slash command may run; UsageTracker
  (\<^verbatim>\<open>usage_tracker.py\<close>), SessionTitle (\<^verbatim>\<open>session_title.py\<close>), PortalMetadata (\<^verbatim>\<open>portal_metadata_client.py\<close>), MessageAdapter
  (\<^verbatim>\<open>opencode_message_adapter.py\<close>) and TraceContext (\<^verbatim>\<open>trace_context.py\<close>) are what it calls. ChatStream models the streaming
  endpoint on top of it: the frames a client is sent, a run that is followed instead of started again, a client that leaves, cancelling.

  \<^bold>\<open>Sessions, requests and runs.\<close> SessionStore (\<^verbatim>\<open>session_store.py\<close>), RequestBindings (\<^verbatim>\<open>request_bindings.py\<close>, with
  an explicit heap since one binding is filed under three keys), ChatRunRegistry (\<^verbatim>\<open>chat_run_registry.py\<close>).
  Reloading gives the stored sessions back, a deleted session is never revived by a chat that ends late, a finished
  request is never resolved again, pruning never drops a running one. SessionHistory and SessionsApi model \<^verbatim>\<open>sessions_api.py\<close>: the
  history as the Portal reads it, and cutting, editing, renaming, naming and deleting sessions, with OpenCode's answers given by
  the OpenCode session asked. A cut is accepted only when it is exact, a deletion follows OpenCode's.

  \<^bold>\<open>Events.\<close> EventBus (\<^verbatim>\<open>event_bus.py\<close>: replay buckets and subscriber queues, with the observers it calls first),
  ThinkingEvents (\<^verbatim>\<open>thinking_events.py\<close> and its redaction), EventBridge and BridgeRun (\<^verbatim>\<open>event_bridge.py\<close>: reading, classifying
  and publishing OpenCode's events, the caches, and the reconnecting loop over the lines of the stream). Queues refine an unbounded queue
  cut to its newest events, replay returns the newest events that match, replayed events are not observed, and a
  question published by the bridge can be claimed in the pending-input store.

  \<^bold>\<open>Tasks and history.\<close> TaskStore (\<^verbatim>\<open>task_store.py\<close>, with its ladder of shrunk encodings under the size cap),
  ChatLogStore (\<^verbatim>\<open>chatlog_store.py\<close>, a write-back cache refined to a plain map of documents), UserDisplay
  (\<^verbatim>\<open>user_display_store.py\<close>), Recovery (\<^verbatim>\<open>recovery.py\<close>, what a restart does to the three stores), TaskCompletion
  (\<^verbatim>\<open>task_completion_parser.py\<close>). ProfileStore (\<^verbatim>\<open>profile_store.py\<close>) has the redaction of what is published of a profile.

  \<^bold>\<open>Network and model provider.\<close> ProxyPlan (\<^verbatim>\<open>proxy_plan.py\<close>), OutboundProxy (\<^verbatim>\<open>outbound_proxy.py\<close>), CopilotAuth
  (\<^verbatim>\<open>copilot_plugin_auth.py\<close>: the credential file, the token exchange and the token cache), CopilotCatalog
  (\<^verbatim>\<open>copilot_auto_catalog.py\<close>), CopilotAuto (\<^verbatim>\<open>copilot_auto_session.py\<close>: routing a turn to the model Copilot picks),
  CopilotProxy (\<^verbatim>\<open>copilot_proxy.py\<close>: the whole handler), CopilotPricing (\<^verbatim>\<open>copilot_pricing.py\<close>, in doubles).

  \<^bold>\<open>Files.\<close> FileService models \<^verbatim>\<open>file_service.py\<close> over FileTree: every path is resolved through symbolic links
  before it is used, and no sequence of requests changes anything outside the workspace, archives excepted.

  \<^bold>\<open>Interfaces.\<close> StoreContracts states what the stores promise their clients as locales (a store with an invariant
  kept by every operation; a set of claims with an exclusive claim); each is interpreted on the model's own
  definitions in the theory of the component that provides it.

  \<^bold>\<open>Bounds and fuel.\<close> \<open>json_loads\<close> recurses with the length of its input as a counter, which every call consumes
  at least one character of, so it is never exhausted; path resolution is a partial function whose \<open>None\<close> is
  the operating system's error for a loop of links; every other loop is total by its termination proof, the
  search for a free variable name of ProxyPlan by counting the taken names. The waiting loops of a turn run over the list of the
  answers OpenCode gives to their polls, with the time after each; a list that ends before the deadline is \<open>NotYet\<close>, and
  \<open>polls_suffice\<close> (the last poll of each loop lies past its deadline) is enough for every turn to answer. A stream and the
  bridge run over the list of their rounds in the same way.

  \<^bold>\<open>Not modelled.\<close> The HTTP plumbing of aiohttp, the supervision of the OpenCode process, log output, modules
  that write configuration files at boot or mostly assemble requests to other services, and the tasks endpoint \<^verbatim>\<open>tasks_api.py\<close>, whose
  stores are modelled; PROJECT.json lists every module left out, with the reason. The wait for a lock around the token exchange and
  the exchange are one step (the code holds the lock across it), members of an archive are taken in the archive's order, and
  texts have code points up to 255.
\<close>

end
